(* ===== verification/Prelude.thy ===== *)
theory Prelude
  imports Main "HOL-Library.Char_ord"
begin

text \<open>
  What every component of the model shares: the collections of lemmas, Go's result shapes,
  the \<open>strings\<close>, \<open>strconv\<close> and \<open>path\<close> functions the sources call, and generic lemmas on lists.

  A Go \<open>string\<close> is a list of bytes, so HOL's \<open>char list\<close> (one \<open>char\<close> per byte). Case mapping and
  white space are modelled for ASCII bytes, which is what every format in the sources uses.
  A Go \<open>error\<close> result of a validator is \<open>None\<close> for \<open>nil\<close> and \<open>Some msg\<close> otherwise.
\<close>

named_theorems go_defs \<open>definitions of Go library functions, for evaluation\<close>
named_theorems frame \<open>which state components an operation leaves alone\<close>
named_theorems keeps \<open>operations keep the invariants\<close>

type_synonym goerror = "string option"

abbreviation nil :: goerror where "nil \<equiv> None"

section \<open>Bytes\<close>

abbreviation byte :: "char \<Rightarrow> nat" where "byte c \<equiv> of_char c"

definition in_range :: "nat \<Rightarrow> nat \<Rightarrow> char \<Rightarrow> bool" where
  [go_defs]: "in_range lo hi c \<longleftrightarrow> lo \<le> byte c \<and> byte c \<le> hi"

definition is_space :: "char \<Rightarrow> bool" where
  [go_defs]: "is_space c \<longleftrightarrow> c = CHR '' '' \<or> in_range 9 13 c"

definition is_digit :: "char \<Rightarrow> bool" where
  [go_defs]: "is_digit c \<longleftrightarrow> in_range 48 57 c"

definition lower_char :: "char \<Rightarrow> char" where
  [go_defs]: "lower_char c = (if in_range 65 90 c then char_of (byte c + 32) else c)"

definition upper_char :: "char \<Rightarrow> char" where
  [go_defs]: "upper_char c = (if in_range 97 122 c then char_of (byte c - 32) else c)"

section \<open>Package strings\<close>

definition to_lower :: "string \<Rightarrow> string" where
  [go_defs]: "to_lower = map lower_char"

definition to_upper :: "string \<Rightarrow> string" where
  [go_defs]: "to_upper = map upper_char"

definition equal_fold :: "string \<Rightarrow> string \<Rightarrow> bool" where
  [go_defs]: "equal_fold s t \<longleftrightarrow> to_lower s = to_lower t"

fun has_prefix :: "string \<Rightarrow> string \<Rightarrow> bool" where
  "has_prefix s [] = True"
| "has_prefix [] (p # ps) = False"
| "has_prefix (c # s) (p # ps) = (c = p \<and> has_prefix s ps)"

definition has_suffix :: "string \<Rightarrow> string \<Rightarrow> bool" where
  [go_defs]: "has_suffix s p = has_prefix (rev s) (rev p)"

definition trim_prefix :: "string \<Rightarrow> string \<Rightarrow> string" where
  [go_defs]: "trim_prefix s p = (if has_prefix s p then drop (length p) s else s)"

fun contains :: "string \<Rightarrow> string \<Rightarrow> bool" where
  "contains [] p = (p = [])"
| "contains (c # s) p = (has_prefix (c # s) p \<or> contains s p)"

text \<open>\<open>strings.ContainsAny(s, cs)\<close>.\<close>

definition contains_any :: "string \<Rightarrow> string \<Rightarrow> bool" where
  [go_defs]: "contains_any s cs = list_ex (\<lambda>c. c \<in> set cs) s"

text \<open>\<open>strings.Index(s, p)\<close>: the first position where \<open>p\<close> occurs, or \<open>None\<close> for \<open>-1\<close>.\<close>

fun index :: "string \<Rightarrow> string \<Rightarrow> nat option" where
  "index [] p = (if p = [] then Some 0 else None)"
| "index (c # s) p = (if has_prefix (c # s) p then Some 0 else map_option Suc (index s p))"

text \<open>\<open>strings.LastIndex(s, string(c))\<close> for a one byte pattern.\<close>

fun last_index_char :: "string \<Rightarrow> char \<Rightarrow> nat option" where
  "last_index_char [] p = None"
| "last_index_char (c # s) p =
     (case last_index_char s p of Some i \<Rightarrow> Some (Suc i) | None \<Rightarrow> if c = p then Some 0 else None)"

text \<open>\<open>strings.Split(s, string(d))\<close> for a one byte separator; never the empty list.\<close>

fun split_on :: "char \<Rightarrow> string \<Rightarrow> string list" where
  "split_on d [] = [[]]"
| "split_on d (c # s) =
     (if c = d then [] # split_on d s
      else (case split_on d s of [] \<Rightarrow> [[c]] | w # ws \<Rightarrow> (c # w) # ws))"

text \<open>\<open>strings.SplitN(s, string(d), 2)\<close>.\<close>

fun split2 :: "char \<Rightarrow> string \<Rightarrow> string list" where
  "split2 d [] = [[]]"
| "split2 d (c # s) =
     (if c = d then [[], s]
      else (case split2 d s of [] \<Rightarrow> [[c]] | w # ws \<Rightarrow> (c # w) # ws))"

text \<open>\<open>strings.Join(ws, string(d))\<close>.\<close>

fun join_on :: "char \<Rightarrow> string list \<Rightarrow> string" where
  "join_on d [] = []"
| "join_on d [w] = w"
| "join_on d (w # v # ws) = w @ d # join_on d (v # ws)"

definition trim_left :: "(char \<Rightarrow> bool) \<Rightarrow> string \<Rightarrow> string" where
  [go_defs]: "trim_left P s = dropWhile P s"

definition trim :: "(char \<Rightarrow> bool) \<Rightarrow> string \<Rightarrow> string" where
  [go_defs]: "trim P s = rev (dropWhile P (rev (dropWhile P s)))"

definition trim_space :: "string \<Rightarrow> string" where
  [go_defs]: "trim_space s = trim is_space s"

text \<open>\<open>strings.FieldsFunc\<close>: the maximal runs of bytes that are not separators.\<close>

fun fields_func :: "(char \<Rightarrow> bool) \<Rightarrow> string \<Rightarrow> string list" where
  "fields_func P [] = []"
| "fields_func P [c] = (if P c then [] else [[c]])"
| "fields_func P (c # d # s) =
     (if P c then fields_func P (d # s)
      else if P d then [c] # fields_func P s
      else (case fields_func P (d # s) of [] \<Rightarrow> [[c]] | w # ws \<Rightarrow> (c # w) # ws))"

definition fields :: "string \<Rightarrow> string list" where
  [go_defs]: "fields s = fields_func is_space s"

text \<open>\<open>strings.ReplaceAll(s, old, new)\<close> for a non-empty \<open>old\<close>.\<close>

function replace_all :: "string \<Rightarrow> string \<Rightarrow> string \<Rightarrow> string" where
  "replace_all s old new =
     (case s of [] \<Rightarrow> []
      | c # s' \<Rightarrow> if old \<noteq> [] \<and> has_prefix s old then new @ replace_all (drop (length old) s) old new
                 else c # replace_all s' old new)"
  by pat_completeness auto
termination
  by (relation "measure (\<lambda>(s, old, new). length s)") auto

declare replace_all.simps [simp del]

section \<open>Package strconv\<close>

definition digit_val :: "char \<Rightarrow> int" where
  [go_defs]: "digit_val c = int (byte c) - 48"

definition digits_val :: "string \<Rightarrow> int" where
  [go_defs]: "digits_val s = foldl (\<lambda>n c. 10 * n + digit_val c) 0 s"

definition max_int64 :: int where "max_int64 = 9223372036854775807"
definition min_int64 :: int where "min_int64 = - 9223372036854775808"

text \<open>Two's complement wrap-around of \<open>int\<close>, \<open>int64\<close> and \<open>time.Duration\<close>.\<close>

definition wrap64 :: "int \<Rightarrow> int" where
  "wrap64 x = (x + 2 ^ 63) mod 2 ^ 64 - 2 ^ 63"

lemma wrap64_id: "- (2 ^ 63) \<le> x \<Longrightarrow> x < 2 ^ 63 \<Longrightarrow> wrap64 x = x"
  by (simp add: wrap64_def)

text \<open>
  \<open>strconv.Atoi(s)\<close>: the value and whether the error is \<open>nil\<close>. A syntax error gives 0, a value
  out of the 64 bit range gives the nearest bound, both with an error.
\<close>

definition atoi :: "string \<Rightarrow> int \<times> bool" where
  [go_defs]: "atoi s =
     (let neg = has_prefix s ''-'';
          ds = (if neg \<or> has_prefix s ''+'' then tl s else s)
      in if ds = [] \<or> \<not> list_all is_digit ds then (0, False)
         else let v = (if neg then - digits_val ds else digits_val ds)
              in if v > max_int64 then (max_int64, False)
                 else if v < min_int64 then (min_int64, False)
                 else (v, True))"

fun nat_digits :: "nat \<Rightarrow> string" where
  "nat_digits n = (if n < 10 then [char_of (n + 48)] else nat_digits (n div 10) @ [char_of (n mod 10 + 48)])"

declare nat_digits.simps [simp del]

text \<open>\<open>%d\<close> and \<open>strconv.FormatInt(i, 10)\<close>.\<close>

definition itoa :: "int \<Rightarrow> string" where
  [go_defs]: "itoa i = (if i < 0 then CHR ''-'' # nat_digits (nat (- i)) else nat_digits (nat i))"

text \<open>The results of a list of calls, none when one of them fails.\<close>

fun all_some :: "'a option list \<Rightarrow> 'a list option" where
  "all_some [] = Some []"
| "all_some (x # xs) = (case x of None \<Rightarrow> None | Some y \<Rightarrow> map_option ((#) y) (all_some xs))"

lemma all_some_map: "all_some (map Some xs) = Some xs"
  by (induction xs) simp_all

section \<open>Package path\<close>

text \<open>
  \<open>path.Clean\<close> (and \<open>filepath.Clean\<close> on Unix): drop empty and \<open>.\<close> elements, and let \<open>..\<close>
  remove the element before it; at the root \<open>..\<close> is dropped, in a relative path leading
  \<open>..\<close> elements stay. \<open>stack\<close> holds the elements kept so far, last first.
\<close>

fun clean_elems :: "bool \<Rightarrow> string list \<Rightarrow> string list \<Rightarrow> string list" where
  "clean_elems rooted stack [] = rev stack"
| "clean_elems rooted stack (e # es) =
     (if e = [] \<or> e = ''.'' then clean_elems rooted stack es
      else if e = ''..'' then
        (case stack of
           [] \<Rightarrow> if rooted then clean_elems rooted [] es else clean_elems rooted [e] es
         | x # xs \<Rightarrow> if x = ''..'' then clean_elems rooted (e # stack) es else clean_elems rooted xs es)
      else clean_elems rooted (e # stack) es)"

definition path_clean :: "string \<Rightarrow> string" where
  [go_defs]: "path_clean p =
     (let rooted = has_prefix p ''/'';
          es = clean_elems rooted [] (split_on CHR ''/'' p)
      in if rooted then CHR ''/'' # join_on CHR ''/'' es
         else if es = [] then ''.'' else join_on CHR ''/'' es)"

section \<open>Lemmas on strings\<close>

lemma has_prefix_append [simp]: "has_prefix (p @ s) p"
  by (induction p) auto

lemma has_prefix_conv: "has_prefix s p \<longleftrightarrow> (\<exists>t. s = p @ t)"
  by (induction s p rule: has_prefix.induct) auto

lemma has_prefix_take: "has_prefix s p \<longleftrightarrow> take (length p) s = p"
  by (induction s p rule: has_prefix.induct) auto

lemma split_on_not_Nil [simp]: "split_on d s \<noteq> []"
  by (induction s) (auto split: list.splits)

lemma split_on_no_sep: "w \<in> set (split_on d s) \<Longrightarrow> d \<notin> set w"
proof (induction s arbitrary: w)
  case Nil
  then show ?case by simp
next
  case (Cons c s)
  then show ?case by (cases "split_on d s") (auto split: if_splits)
qed

lemma split_on_chars: "w \<in> set (split_on d s) \<Longrightarrow> set w \<subseteq> set s"
proof (induction s arbitrary: w)
  case Nil
  then show ?case by simp
next
  case (Cons c s)
  obtain v vs where vs: "split_on d s = v # vs" by (cases "split_on d s") auto
  with Cons.IH have "set v \<subseteq> set s" and "\<And>u. u \<in> set vs \<Longrightarrow> set u \<subseteq> set s" by auto
  with Cons.prems vs show ?case by (auto split: if_splits)
qed

lemma join_split_on: "join_on d (split_on d s) = s"
proof (induction s)
  case Nil
  then show ?case by simp
next
  case (Cons c s)
  obtain v vs where "split_on d s = v # vs" by (cases "split_on d s") auto
  with Cons.IH show ?case by (cases vs) auto
qed

lemma split_on_id: "d \<notin> set w \<Longrightarrow> split_on d w = [w]"
  by (induction w) auto

lemma split_on_append: "d \<notin> set w \<Longrightarrow> split_on d (w @ d # s) = w # split_on d s"
  by (induction w) auto

lemma split_join_on:
  "ws \<noteq> [] \<Longrightarrow> \<forall>w \<in> set ws. d \<notin> set w \<Longrightarrow> split_on d (join_on d ws) = ws"
  by (induction d ws rule: join_on.induct) (auto simp: split_on_id split_on_append)

lemma join_on_Cons: "ws \<noteq> [] \<Longrightarrow> join_on d (w # ws) = w @ d # join_on d ws"
  by (cases ws) auto

lemma join_on_append:
  "us \<noteq> [] \<Longrightarrow> vs \<noteq> [] \<Longrightarrow> join_on d (us @ vs) = join_on d us @ d # join_on d vs"
proof (induction us)
  case Nil
  then show ?case by simp
next
  case (Cons u us)
  then show ?case by (cases "us = []") (auto simp: join_on_Cons)
qed

end
