(* ===== verification/Calendar.thy ===== *)
theory Calendar
  imports Prelude
begin

text \<open>
  The proleptic Gregorian calendar of package \<open>time\<close>, in UTC. A day is its number since 1970-01-01, an
  instant its number of seconds since then. \<open>days_of_date y m d\<close> is \<open>time.Date(y, m, d, 0, 0, 0, 0, UTC)\<close> as a
  day, with the month and the day normalised as Go does; \<open>date_of_day\<close> goes back. The lemmas say when
  two days are in the same month, which is what the cron search relies on when it skips.
\<close>

definition leap :: "int \<Rightarrow> bool" where
  "leap y \<longleftrightarrow> y mod 4 = 0 \<and> (y mod 100 \<noteq> 0 \<or> y mod 400 = 0)"

definition days_before_year :: "int \<Rightarrow> int" where
  "days_before_year y =
     365 * (y - 1970) + ((y - 1) div 4 - 492) - ((y - 1) div 100 - 19) + ((y - 1) div 400 - 4)"

definition month_lengths :: "int \<Rightarrow> int list" where
  "month_lengths y = [31, if leap y then 29 else 28, 31, 30, 31, 30, 31, 31, 30, 31, 30, 31]"

lemma div_step:
  fixes y k :: int
  assumes k: "0 < k"
  shows "y div k = (y - 1) div k + (if y mod k = 0 then 1 else 0)"
proof (cases "y mod k = 0")
  case True
  have "y = k * (y div k) + y mod k" by simp
  with True have "y - 1 = k * (y div k - 1) + (k - 1)" by (simp add: algebra_simps)
  then have "(y - 1) div k = y div k - 1" by (rule int_div_pos_eq) (use k in simp_all)
  with True show ?thesis by simp
next
  case False
  have "y = k * (y div k) + y mod k" by simp
  then have "y - 1 = k * (y div k) + (y mod k - 1)" by linarith
  moreover have "0 \<le> y mod k - 1" "y mod k - 1 < k"
    using False k pos_mod_sign [of k y] pos_mod_bound [of k y] by linarith+
  ultimately have "(y - 1) div k = y div k" by (rule int_div_pos_eq)
  with False show ?thesis by simp
qed

lemma leap_days:
  fixes y q r s q' r' s' :: int
  assumes "B \<Longrightarrow> A" "C \<Longrightarrow> B" "q = q' + (if A then 1 else 0)" "r = r' + (if B then 1 else 0)"
    "s = s' + (if C then 1 else 0)"
  shows "365 * (y + 1) + (q - 492) - (r - 19) + (s - 4)
    = 365 * y + (q' - 492) - (r' - 19) + (s' - 4) + (if A \<and> (\<not> B \<or> C) then 366 else 365)"
  using assms by (cases A; cases B; cases C) simp_all

lemma days_before_year_step:
  "days_before_year (y + 1) = days_before_year y + (if leap y then 366 else 365)"
proof -
  have multiple: "y mod l = 0 \<Longrightarrow> k dvd l \<Longrightarrow> y mod k = 0" for k l
    by (rule dvd_imp_mod_0, rule dvd_trans, assumption, rule mod_0_imp_dvd, assumption)
  have "(4::int) dvd 100" "(100::int) dvd 400" by simp_all
  note cent = multiple [OF _ this(1)] multiple [OF _ this(2)]
  have steps: "y div 4 = (y - 1) div 4 + (if y mod 4 = 0 then 1 else 0)"
    "y div 100 = (y - 1) div 100 + (if y mod 100 = 0 then 1 else 0)"
    "y div 400 = (y - 1) div 400 + (if y mod 400 = 0 then 1 else 0)" by (rule div_step; simp)+
  have shift: "y + 1 - 1970 = (y - 1970) + 1" "y + 1 - 1 = y" by simp_all
  show ?thesis unfolding days_before_year_def leap_def shift by (rule leap_days [OF cent steps])
qed

lemma sum_month_lengths: "sum_list (month_lengths y) = days_before_year (y + 1) - days_before_year y"
  by (simp add: month_lengths_def days_before_year_step)

lemma days_before_year_less: "days_before_year y < days_before_year (y + 1)"
  by (simp add: days_before_year_step)

lemma days_before_year_mono: "y \<le> z \<Longrightarrow> days_before_year y \<le> days_before_year z"
proof (induction z rule: int_ge_induct)
  case (step z)
  with days_before_year_less [of z] show ?case by simp
qed simp

section \<open>Days to dates\<close>

text \<open>The year holding day \<open>n\<close>, searched upwards from \<open>y\<close>.\<close>

function year_from :: "int \<Rightarrow> int \<Rightarrow> int" where
  "year_from n y = (if n < days_before_year (y + 1) then y else year_from n (y + 1))"
  by pat_completeness auto
termination
proof (relation "measure (\<lambda>(n, y). nat (n - days_before_year y))")
  fix n y :: int
  assume "\<not> n < days_before_year (y + 1)"
  with days_before_year_less [of y] show "((n, y + 1), (n, y)) \<in> measure (\<lambda>(n, y). nat (n - days_before_year y))"
    by simp
qed simp

declare year_from.simps [simp del]

text \<open>The month and the day of the month of day \<open>doy\<close> of a year.\<close>

fun month_from :: "int \<Rightarrow> int \<Rightarrow> int list \<Rightarrow> int \<times> int" where
  "month_from m doy [] = (m, doy + 1)"
| "month_from m doy (l # ls) = (if doy < l then (m, doy + 1) else month_from (m + 1) (doy - l) ls)"

definition date_of_day :: "int \<Rightarrow> int \<times> int \<times> int" where
  "date_of_day n =
     (let y = year_from n (1970 + (if n < 0 then n div 365 else n div 366));
          (m, d) = month_from 1 (n - days_before_year y) (month_lengths y)
      in (y, m, d))"

definition days_of_date :: "int \<Rightarrow> int \<Rightarrow> int \<Rightarrow> int" where
  "days_of_date y m d =
     (let y' = y + (m - 1) div 12
      in days_before_year y' + sum_list (take (nat ((m - 1) mod 12)) (month_lengths y')) + (d - 1))"

lemma year_from_bounds:
  "days_before_year y \<le> n \<Longrightarrow> days_before_year (year_from n y) \<le> n \<and> n < days_before_year (year_from n y + 1)"
proof (induction n y rule: year_from.induct)
  case (1 n y)
  show ?case
  proof (cases "n < days_before_year (y + 1)")
    case True
    with 1(2) show ?thesis by (subst (1 2) year_from.simps) simp
  next
    case False
    with 1(1) have "days_before_year (year_from n (y + 1)) \<le> n \<and> n < days_before_year (year_from n (y + 1) + 1)"
      by simp
    with False show ?thesis by (subst (1 2) year_from.simps) simp
  qed
qed

lemma year_unique:
  assumes "days_before_year y \<le> n" "n < days_before_year (y + 1)"
    and "days_before_year z \<le> n" "n < days_before_year (z + 1)"
  shows "y = z"
proof (rule ccontr)
  assume "y \<noteq> z"
  then have "y + 1 \<le> z \<or> z + 1 \<le> y" by linarith
  with assms days_before_year_mono [of "y + 1" z] days_before_year_mono [of "z + 1" y] show False by linarith
qed

lemma days_before_year_step_bounds:
  "days_before_year y + 365 \<le> days_before_year (y + 1)" "days_before_year (y + 1) \<le> days_before_year y + 366"
  by (simp_all add: days_before_year_step)

lemma start_after: "0 \<le> k \<Longrightarrow> days_before_year (1970 + k) \<le> 366 * k"
proof (induction k rule: int_ge_induct)
  case base
  show ?case by (simp add: days_before_year_def)
next
  case (step k)
  have eq: "1970 + (k + 1) = 1970 + k + 1" by simp
  have "z \<le> 366 * (k + 1)" if "x \<le> 366 * k" "z \<le> x + 366" for x z :: int using that by simp
  from this [OF step(2) days_before_year_step_bounds(2)] show ?case unfolding eq .
qed

lemma start_before: "k \<le> 0 \<Longrightarrow> days_before_year (1970 + k) \<le> 365 * k"
proof (induction k rule: int_le_induct)
  case base
  show ?case by (simp add: days_before_year_def)
next
  case (step k)
  have eq: "1970 + (k - 1) + 1 = 1970 + k" by simp
  have "z \<le> 365 * (k - 1)" if "x \<le> 365 * k" "z + 365 \<le> x" for x z :: int using that by simp
  from this [OF step(2) days_before_year_step_bounds(1) [of "1970 + (k - 1)", unfolded eq]] show ?case .
qed

lemma mult_div_below: "(0::int) < k \<Longrightarrow> k * (n div k) \<le> n"
  using mult_div_mod_eq [of k n] pos_mod_sign [of k n] by linarith

lemma year_start: "days_before_year (1970 + (if n < 0 then n div 365 else n div 366)) \<le> n"
proof (cases "n < 0")
  case True
  then have "n div 365 \<le> 0" by (simp add: div_nonpos_pos_le0)
  from start_before [OF this] have "days_before_year (1970 + n div 365) \<le> 365 * (n div 365)" .
  also have "\<dots> \<le> n" by (rule mult_div_below) simp
  finally show ?thesis using True by simp
next
  case False
  then have "0 \<le> n div 366" by (simp add: pos_imp_zdiv_nonneg_iff)
  from start_after [OF this] have "days_before_year (1970 + n div 366) \<le> 366 * (n div 366)" .
  also have "\<dots> \<le> n" by (rule mult_div_below) simp
  finally show ?thesis using False by simp
qed

lemma month_from_spec:
  "0 \<le> doy \<Longrightarrow> doy < sum_list ls \<Longrightarrow> \<exists>k < length ls. month_from m doy ls = (m + int k, doy - sum_list (take k ls) + 1)
     \<and> sum_list (take k ls) \<le> doy \<and> doy < sum_list (take (Suc k) ls)"
proof (induction m doy ls rule: month_from.induct)
  case (2 m doy l ls)
  show ?case
  proof (cases "doy < l")
    case True
    with 2 show ?thesis by (intro exI [of _ 0]) simp
  next
    case False
    with 2 obtain k where "k < length ls" "month_from (m + 1) (doy - l) ls = (m + 1 + int k, doy - l - sum_list (take k ls) + 1)"
      "sum_list (take k ls) \<le> doy - l" "doy - l < sum_list (take (Suc k) ls)" by auto
    with False show ?thesis by (intro exI [of _ "Suc k"]) simp
  qed
qed simp

lemma month_from_at:
  "k < length ls \<Longrightarrow> list_all (\<lambda>l. 0 \<le> l) ls \<Longrightarrow> sum_list (take k ls) \<le> doy \<Longrightarrow> doy < sum_list (take (Suc k) ls)
   \<Longrightarrow> month_from m doy ls = (m + int k, doy - sum_list (take k ls) + 1)"
proof (induction k arbitrary: m doy ls)
  case 0
  then show ?case by (cases ls) simp_all
next
  case (Suc k)
  then obtain l ls' where ls: "ls = l # ls'" by (cases ls) auto
  have "0 \<le> sum_list (take k ls')"
    using Suc.prems(2) set_take_subset [of k ls'] by (intro sum_list_nonneg) (auto simp: ls list_all_iff)
  with Suc.prems Suc.IH [of ls' "doy - l" "m + 1"] show ?case by (simp add: ls)
qed

section \<open>Days and dates\<close>

lemma month_lengths_facts [simp]:
  "length (month_lengths y) = 12" "list_all (\<lambda>l. 0 \<le> l) (month_lengths y)"
  by (simp_all add: month_lengths_def)

lemma days_of_month_start:
  assumes "k < 12"
  shows "days_of_date y (int k + 1) d = days_before_year y + sum_list (take k (month_lengths y)) + (d - 1)"
    "days_of_date y (int k + 1 + 1) 1 = days_before_year y + sum_list (take (Suc k) (month_lengths y))"
proof -
  show "days_of_date y (int k + 1) d = days_before_year y + sum_list (take k (month_lengths y)) + (d - 1)"
    using assms by (simp add: days_of_date_def Let_def)
  show "days_of_date y (int k + 1 + 1) 1 = days_before_year y + sum_list (take (Suc k) (month_lengths y))"
  proof (cases "k = 11")
    case True
    have "take 12 (month_lengths y) = month_lengths y" by simp
    with sum_month_lengths [of y] True show ?thesis by (simp add: days_of_date_def Let_def)
  next
    case False
    with assms have "int (Suc k) div 12 = 0" "int (Suc k) mod 12 = int (Suc k)" by simp_all
    moreover have "int k + 1 + 1 - 1 = int (Suc k)" by simp
    ultimately show ?thesis unfolding days_of_date_def by (simp only: Let_def nat_int add_0_right)
  qed
qed

text \<open>\<open>(y, m, d)\<close> is the date of day \<open>n\<close> iff \<open>n\<close> is the \<open>d\<close>-th day of the month \<open>m\<close> of \<open>y\<close>.\<close>

lemma date_of_day_spec:
  assumes "date_of_day n = (y, m, d)"
  shows "days_of_date y m d = n" "days_of_date y m 1 \<le> n" "n < days_of_date y (m + 1) 1" "1 \<le> m" "m \<le> 12"
proof -
  let ?y0 = "1970 + (if n < 0 then n div 365 else n div 366)"
  have y: "y = year_from n ?y0" and md: "month_from 1 (n - days_before_year y) (month_lengths y) = (m, d)"
    using assms by (auto simp: date_of_day_def Let_def split: prod.splits)
  have "days_before_year y \<le> n \<and> n < days_before_year (y + 1)" unfolding y by (rule year_from_bounds [OF year_start])
  then have "0 \<le> n - days_before_year y" "n - days_before_year y < sum_list (month_lengths y)"
    by (simp_all add: sum_month_lengths)
  from month_from_spec [OF this, of 1] obtain k where k: "k < 12" "m = int k + 1"
    "d = n - days_before_year y - sum_list (take k (month_lengths y)) + 1"
    "sum_list (take k (month_lengths y)) \<le> n - days_before_year y"
    "n - days_before_year y < sum_list (take (Suc k) (month_lengths y))"
    by (auto simp: md)
  with days_of_month_start [OF k(1), of y] show "days_of_date y m d = n" "days_of_date y m 1 \<le> n"
    "n < days_of_date y (m + 1) 1" "1 \<le> m" "m \<le> 12" by simp_all
qed

lemma date_of_day_at:
  assumes "k < 12" "days_of_date y (int k + 1) 1 \<le> n" "n < days_of_date y (int k + 1 + 1) 1"
  shows "date_of_day n = (y, int k + 1, n - days_of_date y (int k + 1) 1 + 1)"
proof -
  let ?y0 = "1970 + (if n < 0 then n div 365 else n div 366)"
  have low: "0 \<le> sum_list (take k (month_lengths y))"
    by (intro sum_list_nonneg) (auto simp: month_lengths_def dest!: in_set_takeD)
  have high: "sum_list (take (Suc k) (month_lengths y)) \<le> sum_list (month_lengths y)"
  proof -
    have "sum_list (month_lengths y) = sum_list (take (Suc k) (month_lengths y)) + sum_list (drop (Suc k) (month_lengths y))"
      by (metis append_take_drop_id sum_list_append)
    moreover have "0 \<le> sum_list (drop (Suc k) (month_lengths y))"
      by (intro sum_list_nonneg) (auto simp: month_lengths_def dest!: in_set_dropD)
    ultimately show ?thesis by linarith
  qed
  have n: "days_before_year y + sum_list (take k (month_lengths y)) \<le> n"
    "n < days_before_year y + sum_list (take (Suc k) (month_lengths y))"
    using assms days_of_month_start(1) [OF assms(1), of y 1] days_of_month_start(2) [OF assms(1), of y] by simp_all
  then have year: "days_before_year y \<le> n" "n < days_before_year (y + 1)"
    using low high by (simp_all add: sum_month_lengths)
  have "year_from n ?y0 = y"
    using year_unique [OF _ _ year] year_from_bounds [OF year_start, of n] by blast
  moreover have "month_from 1 (n - days_before_year y) (month_lengths y)
      = (1 + int k, n - days_before_year y - sum_list (take k (month_lengths y)) + 1)"
    using assms(1) n by (intro month_from_at) simp_all
  ultimately show ?thesis
    using days_of_month_start(1) [OF assms(1), of y 1] by (simp add: date_of_day_def Let_def)
qed

lemma same_month:
  assumes "date_of_day n = (y, m, d)" "n \<le> n'" "n' < days_of_date y (m + 1) 1"
  shows "date_of_day n' = (y, m, d + (n' - n))"
proof -
  note s = date_of_day_spec [OF assms(1)]
  define k where "k = nat (m - 1)"
  have k: "k < 12" "m = int k + 1" using s(4,5) by (simp_all add: k_def)
  have "date_of_day n' = (y, m, n' - days_of_date y m 1 + 1)"
    using date_of_day_at [OF k(1), of y n'] assms(2,3) s(2) unfolding k(2) by simp
  moreover have "days_of_date y m d = days_of_date y m 1 + (d - 1)" by (simp add: days_of_date_def Let_def)
  ultimately show ?thesis using s(1) by simp
qed

lemma next_day: "date_of_day n = (y, m, d) \<Longrightarrow> days_of_date y m (d + 1) = n + 1"
  using date_of_day_spec(1) [of n y m d] by (simp add: days_of_date_def Let_def)

end
