(* ===== verification/Cron.thy ===== *)
theory Cron
  imports Calendar
begin

text \<open>
  The cron parser of \<open>internal/store/backupschedules.go\<close>. The counting loops of \<open>parseCronField\<close> run over
  64 bit integers that wrap around, and their bounds come from the expression, so they may never end:
  \<open>None\<close> stands for not returning. The search of \<open>NextCronRun\<close> is bounded by its counter. Times are
  seconds of UTC; the fraction of a second of \<open>after\<close> does not reach the result but for the fallback.
\<close>

section \<open>Fields\<close>

text \<open>
  \<open>for i := start; i <= end; i += step\<close>, adding to the set the values between \<open>mn\<close> and \<open>mx\<close>. The Go map is a
  list without duplicates: the code looks at its members and their number only.
\<close>

partial_function (option) cron_loop :: "int \<Rightarrow> int \<Rightarrow> int \<Rightarrow> int \<Rightarrow> int \<Rightarrow> int list \<Rightarrow> int list option" where
  "cron_loop i hi step mn mx acc =
     (if i \<le> hi
      then cron_loop (wrap64 (i + step)) hi step mn mx (if mn \<le> i \<and> i \<le> mx then List.insert i acc else acc)
      else Some acc)"

declare cron_loop.simps [code]

text \<open>\<open>strings.SplitN(s, sep, 2)\<close> of a string that holds the separator.\<close>

definition split_first :: "char \<Rightarrow> string \<Rightarrow> string \<times> string" where
  "split_first sep s = (takeWhile (\<lambda>c. c \<noteq> sep) s, tl (dropWhile (\<lambda>c. c \<noteq> sep) s))"

definition add_cron_part :: "int \<Rightarrow> int \<Rightarrow> int list \<Rightarrow> string \<Rightarrow> int list option" where
  "add_cron_part mn mx acc part =
     (let part = trim_space part
      in if CHR ''/'' \<in> set part
         then let (p, q) = split_first CHR ''/'' part;
                  start = (if p = ''*'' then mn else fst (atoi p));
                  step = fst (atoi q);
                  step = (if step \<le> 0 then 1 else step)
              in cron_loop start mx step mn mx acc
         else if CHR ''-'' \<in> set part
         then let (p, q) = split_first CHR ''-'' part
              in cron_loop (fst (atoi p)) (fst (atoi q)) 1 mn mx acc
         else let v = fst (atoi part)
              in Some (if mn \<le> v \<and> v \<le> mx then List.insert v acc else acc))"

fun add_cron_parts :: "int \<Rightarrow> int \<Rightarrow> int list \<Rightarrow> string list \<Rightarrow> int list option" where
  "add_cron_parts mn mx acc [] = Some acc"
| "add_cron_parts mn mx acc (p # ps) =
     (case add_cron_part mn mx acc p of None \<Rightarrow> None | Some acc' \<Rightarrow> add_cron_parts mn mx acc' ps)"

definition parseCronField :: "string \<Rightarrow> int \<Rightarrow> int \<Rightarrow> int list option" where
  "parseCronField field mn mx =
     (if field = ''*'' then Some [mn..mx] else add_cron_parts mn mx [] (split_on CHR '','' field))"

section \<open>The search\<close>

record cron_spec =
  cs_minutes :: "int list"
  cs_hours :: "int list"
  cs_days :: "int list"
  cs_months :: "int list"
  cs_weekdays :: "int list"

definition day_of :: "int \<Rightarrow> int" where "day_of t = t div 86400"
definition month_of :: "int \<Rightarrow> int" where "month_of t = fst (snd (date_of_day (day_of t)))"
definition mday_of :: "int \<Rightarrow> int" where "mday_of t = snd (snd (date_of_day (day_of t)))"
definition weekday_of :: "int \<Rightarrow> int" where "weekday_of t = (day_of t + 4) mod 7"
definition hour_of :: "int \<Rightarrow> int" where "hour_of t = t mod 86400 div 3600"
definition minute_of :: "int \<Rightarrow> int" where "minute_of t = t mod 3600 div 60"

definition day_matches :: "cron_spec \<Rightarrow> int \<Rightarrow> bool" where
  "day_matches c t =
     (let dayMatch = (mday_of t \<in> set (cs_days c));
          weekMatch = (weekday_of t \<in> set (cs_weekdays c));
          domAll = (length (cs_days c) = 31);
          dowAll = (length (cs_weekdays c) = 7)
      in if domAll \<and> dowAll then True
         else if domAll \<and> \<not> dowAll then weekMatch
         else if \<not> domAll \<and> dowAll then dayMatch
         else dayMatch \<or> weekMatch)"

text \<open>The midnight that starts the next month, and the next day.\<close>

definition next_month_start :: "int \<Rightarrow> int" where
  "next_month_start t = (case date_of_day (day_of t) of (y, m, d) \<Rightarrow> 86400 * days_of_date y (m + 1) 1)"

definition next_day_start :: "int \<Rightarrow> int" where
  "next_day_start t = (case date_of_day (day_of t) of (y, m, d) \<Rightarrow> 86400 * days_of_date y m (d + 1))"

definition search_limit :: int where "search_limit = 525960"

text \<open>The loop from its \<open>i\<close>-th round on; \<open>None\<close> when the counter runs out.\<close>

function cron_search :: "cron_spec \<Rightarrow> int \<Rightarrow> int \<Rightarrow> int option" where
  "cron_search c i t =
     (if i < search_limit
      then if month_of t \<notin> set (cs_months c) then cron_search c (i + 1) (next_month_start t)
           else if \<not> day_matches c t then cron_search c (i + 1) (next_day_start t)
           else if hour_of t \<in> set (cs_hours c) \<and> minute_of t \<in> set (cs_minutes c) then Some t
           else cron_search c (i + 1) (t + 60)
      else None)"
  by pat_completeness auto
termination by (relation "measure (\<lambda>(c, i, t). nat (search_limit - i))") auto

declare cron_search.simps [simp del]

definition parse_cron :: "string list \<Rightarrow> cron_spec option" where
  "parse_cron fs =
     (case parseCronField (fs ! 0) 0 59 of None \<Rightarrow> None | Some minutes \<Rightarrow>
      case parseCronField (fs ! 1) 0 23 of None \<Rightarrow> None | Some hours \<Rightarrow>
      case parseCronField (fs ! 2) 1 31 of None \<Rightarrow> None | Some days \<Rightarrow>
      case parseCronField (fs ! 3) 1 12 of None \<Rightarrow> None | Some months \<Rightarrow>
      case parseCronField (fs ! 4) 0 6 of None \<Rightarrow> None | Some weekdays \<Rightarrow>
      Some \<lparr>cs_minutes = minutes, cs_hours = hours, cs_days = days, cs_months = months, cs_weekdays = weekdays\<rparr>)"

definition first_minute_after :: "int \<Rightarrow> int" where
  "first_minute_after t = (t + 60) div 60 * 60"

text \<open>\<open>None\<close>: the call does not return.\<close>

definition NextCronRun :: "string \<Rightarrow> int \<Rightarrow> int option" where
  "NextCronRun cronExpr t =
     (let fs = Prelude.fields cronExpr
      in if length fs \<noteq> 5 then Some (t + 24 * 3600)
         else (case parse_cron fs of
                 None \<Rightarrow> None
               | Some c \<Rightarrow>
                   (case cron_search c 0 (first_minute_after t) of
                      Some r \<Rightarrow> Some r
                    | None \<Rightarrow> Some (t + 24 * 3600))))"

section \<open>When the counting loops end\<close>

text \<open>A loop up to the largest 64 bit value never ends: every value is below its bound.\<close>

lemma wrap64_le_max: "wrap64 x \<le> max_int64"
  by (simp add: wrap64_def max_int64_def)

lemma cron_loop_result:
  assumes "cron_loop i hi step mn mx acc = Some ys"
  shows "hi = max_int64 \<longrightarrow> max_int64 < i"
proof (rule cron_loop.raw_induct [where P = "\<lambda>i hi step mn mx acc ys. hi = max_int64 \<longrightarrow> max_int64 < i",
      OF _ assms])
  fix loop i hi step mn mx acc ys
  assume IH: "\<And>i hi step mn mx acc ys. loop i hi step mn mx acc = Some ys \<Longrightarrow> hi = max_int64 \<longrightarrow> max_int64 < i"
    and run: "(if i \<le> hi then loop (wrap64 (i + step)) hi step mn mx
        (if mn \<le> i \<and> i \<le> mx then List.insert i acc else acc) else Some acc) = Some ys"
  show "hi = max_int64 \<longrightarrow> max_int64 < i"
  proof (cases "i \<le> hi")
    case True
    with run have "loop (wrap64 (i + step)) hi step mn mx
        (if mn \<le> i \<and> i \<le> mx then List.insert i acc else acc) = Some ys" by simp
    from IH [OF this] wrap64_le_max [of "i + step"] show ?thesis by linarith
  qed simp
qed

lemma cron_loop_diverges: "i \<le> max_int64 \<Longrightarrow> cron_loop i max_int64 step mn mx acc = None"
  using cron_loop_result [of i max_int64 step mn mx acc] by (cases "cron_loop i max_int64 step mn mx acc") auto

text \<open>With room above the bound the loop adds exactly the values it steps on.\<close>

lemma cron_loop_range:
  assumes "hi + 1 < 2 ^ 63" "- (2 ^ 63) \<le> i" "i \<le> 2 ^ 63 - 1"
  shows "\<exists>ys. cron_loop i hi 1 mn mx acc = Some ys \<and> set ys = set acc \<union> ({i..hi} \<inter> {mn..mx})
    \<and> (distinct acc \<longrightarrow> distinct ys)"
  using assms
proof (induction "nat (hi + 1 - i)" arbitrary: i acc)
  case 0
  then show ?case by (subst cron_loop.simps) auto
next
  case (Suc n)
  then have le: "i \<le> hi" by simp
  let ?acc = "if mn \<le> i \<and> i \<le> mx then List.insert i acc else acc"
  have no_wrap: "wrap64 (i + 1) = i + 1" using Suc.prems le by (intro wrap64_id) simp_all
  have "\<exists>ys. cron_loop (i + 1) hi 1 mn mx ?acc = Some ys
      \<and> set ys = set ?acc \<union> ({i + 1..hi} \<inter> {mn..mx}) \<and> (distinct ?acc \<longrightarrow> distinct ys)"
    by (rule Suc.hyps(1)) (use Suc.hyps(2) Suc.prems le in auto)
  then obtain ys where "cron_loop (i + 1) hi 1 mn mx ?acc = Some ys"
    "set ys = set ?acc \<union> ({i + 1..hi} \<inter> {mn..mx})" "distinct ?acc \<longrightarrow> distinct ys" by blast
  moreover have "{i..hi} = insert i {i + 1..hi}" using le by auto
  ultimately show ?case
    using le by (subst cron_loop.simps) (auto simp: no_wrap simp del: Int_atLeastAtMost split: if_splits)
qed

section \<open>What the search finds\<close>

definition cron_matches :: "cron_spec \<Rightarrow> int \<Rightarrow> bool" where
  "cron_matches c t \<longleftrightarrow> month_of t \<in> set (cs_months c) \<and> day_matches c t
     \<and> hour_of t \<in> set (cs_hours c) \<and> minute_of t \<in> set (cs_minutes c)"

lemma day_bounds: "86400 * day_of t \<le> t" "t < 86400 * (day_of t + 1)"
  using mult_div_mod_eq [of 86400 t] pos_mod_sign [of 86400 t] pos_mod_bound [of 86400 t]
  by (simp_all add: day_of_def)

lemma day_of_between: "86400 * a \<le> t \<Longrightarrow> t < 86400 * b \<Longrightarrow> a \<le> day_of t \<and> day_of t < b"
  using day_bounds [of t] by simp

lemma midnight_mod: "(86400 * n) mod 60 = (0::int)"
proof -
  have "86400 * n = 60 * (1440 * n)" by simp
  then show ?thesis by (metis mod_mult_self1_is_0)
qed

lemma next_day_start: "next_day_start t = 86400 * (day_of t + 1)"
proof -
  obtain y m d where d: "date_of_day (day_of t) = (y, m, d)" by (cases "date_of_day (day_of t)")
  show ?thesis using next_day [OF d] by (simp add: next_day_start_def d)
qed

lemma next_day_later: "t < next_day_start t" "next_day_start t mod 60 = 0"
  using day_bounds(2) [of t] by (simp_all add: next_day_start midnight_mod)

lemma same_day: "t \<le> u \<Longrightarrow> u < next_day_start t \<Longrightarrow> day_of u = day_of t"
  using day_of_between [of "day_of t" u "day_of t + 1"] day_bounds [of t] by (simp add: next_day_start)

lemma next_month_later: "t < next_month_start t" "next_month_start t mod 60 = 0"
proof -
  obtain y m d where d: "date_of_day (day_of t) = (y, m, d)" by (cases "date_of_day (day_of t)")
  have "day_of t + 1 \<le> days_of_date y (m + 1) 1" using date_of_day_spec(3) [OF d] by simp
  then have "86400 * (day_of t + 1) \<le> next_month_start t" by (simp add: next_month_start_def d)
  with day_bounds(2) [of t] show "t < next_month_start t" by linarith
  show "next_month_start t mod 60 = 0" by (simp add: next_month_start_def d midnight_mod)
qed

lemma month_unchanged:
  assumes "t \<le> u" "u < next_month_start t"
  shows "month_of u = month_of t"
proof -
  obtain y m d where d: "date_of_day (day_of t) = (y, m, d)" by (cases "date_of_day (day_of t)")
  have "86400 * day_of t \<le> u" using assms(1) day_bounds(1) [of t] by linarith
  moreover have "u < 86400 * days_of_date y (m + 1) 1" using assms(2) by (simp add: next_month_start_def d)
  ultimately have "day_of t \<le> day_of u \<and> day_of u < days_of_date y (m + 1) 1" by (rule day_of_between)
  then have "date_of_day (day_of u) = (y, m, d + (day_of u - day_of t))" by (intro same_month [OF d]) simp_all
  with d show ?thesis by (simp add: month_of_def)
qed

lemma day_matches_same: "day_of u = day_of t \<Longrightarrow> day_matches c u = day_matches c t"
  by (simp add: day_matches_def mday_of_def weekday_of_def)

lemma next_minute: "t mod 60 = 0 \<Longrightarrow> u mod 60 = 0 \<Longrightarrow> t < u \<Longrightarrow> t + 60 \<le> (u::int)"
proof -
  assume "t mod 60 = 0" "u mod 60 = 0" and less: "t < u"
  then obtain a b where "t = 60 * a" "u = 60 * b" by (metis mod_0_imp_dvd dvdE)
  with less show ?thesis by simp
qed

text \<open>One round passes over minutes that do not match only.\<close>

definition no_match :: "cron_spec \<Rightarrow> int \<Rightarrow> int \<Rightarrow> bool" where
  "no_match c t r \<longleftrightarrow> (\<forall>u. t \<le> u \<and> u < r \<and> u mod 60 = 0 \<longrightarrow> \<not> cron_matches c u)"

lemma no_match_trans: "no_match c t s \<Longrightarrow> no_match c s r \<Longrightarrow> no_match c t r"
  unfolding no_match_def by (meson not_le)

lemma skip_month: "month_of t \<notin> set (cs_months c) \<Longrightarrow> no_match c t (next_month_start t)"
  by (auto simp: no_match_def cron_matches_def month_unchanged)

lemma skip_day: "\<not> day_matches c t \<Longrightarrow> no_match c t (next_day_start t)"
  unfolding no_match_def cron_matches_def using day_matches_same [OF same_day] by blast

lemma skip_minute: "t mod 60 = 0 \<Longrightarrow> \<not> cron_matches c t \<Longrightarrow> no_match c t (t + 60)"
  unfolding no_match_def using next_minute [of t] by (metis le_less not_le)

lemma cron_search_finds:
  "cron_search c i t = Some r \<Longrightarrow> t mod 60 = 0 \<Longrightarrow>
     t \<le> r \<and> r mod 60 = 0 \<and> cron_matches c r \<and> no_match c t r"
proof (induction c i t rule: cron_search.induct)
  case (1 c i t)
  have run: "cron_search c i t = Some r" "t mod 60 = 0" by fact+
  then have i: "i < search_limit" by (simp add: cron_search.simps [of c i t] split: if_splits)
  show ?case
  proof (cases "cron_matches c t")
    case True
    with run i show ?thesis by (auto simp: cron_search.simps [of c i t] cron_matches_def no_match_def)
  next
    case False
    have later: "t \<le> r \<and> r mod 60 = 0 \<and> cron_matches c r \<and> no_match c t r"
      if "t < s" "no_match c t s" "s \<le> r \<and> r mod 60 = 0 \<and> cron_matches c r \<and> no_match c s r" for s
      using that no_match_trans [of c t s r] by linarith
    consider (month) "month_of t \<notin> set (cs_months c)"
      | (day) "month_of t \<in> set (cs_months c)" "\<not> day_matches c t"
      | (minute) "month_of t \<in> set (cs_months c)" "day_matches c t"
        "\<not> (hour_of t \<in> set (cs_hours c) \<and> minute_of t \<in> set (cs_minutes c))"
      using False by (auto simp: cron_matches_def)
    then show ?thesis
    proof cases
      case month
      with run i 1(1) next_month_later [of t] show ?thesis
        by (intro later [OF _ skip_month]) (simp_all add: cron_search.simps [of c i t])
    next
      case day
      with run i 1(2) next_day_later [of t] show ?thesis
        by (intro later [OF _ skip_day]) (simp_all add: cron_search.simps [of c i t])
    next
      case minute
      have "(t + 60) mod 60 = 0" using run(2) by simp
      with minute run i 1(3) False show ?thesis
        by (intro later [OF _ skip_minute]) (simp_all add: cron_search.simps [of c i t] split: if_splits)
    qed
  qed
qed

lemma no_match_shorter: "no_match c t s \<Longrightarrow> r \<le> s \<Longrightarrow> no_match c t r"
  by (auto simp: no_match_def)

lemma cron_search_exhausted:
  "cron_search c i t = None \<Longrightarrow> t mod 60 = 0 \<Longrightarrow> no_match c t (t + 60 * (search_limit - i))"
proof (induction c i t rule: cron_search.induct)
  case (1 c i t)
  have run: "cron_search c i t = None" "t mod 60 = 0" by fact+
  show ?case
  proof (cases "i < search_limit")
    case False
    then show ?thesis by (auto simp: no_match_def)
  next
    case i: True
    have further: "no_match c t (t + 60 * (search_limit - i))"
      if "no_match c t s" "t < s" "s mod 60 = 0" "no_match c s (s + 60 * (search_limit - (i + 1)))" for s
    proof -
      have "t + 60 \<le> s" using that(2,3) run(2) by (intro next_minute)
      then have "t + 60 * (search_limit - i) \<le> s + 60 * (search_limit - (i + 1))" by (simp add: algebra_simps)
      with no_match_trans [OF that(1,4)] show ?thesis by (rule no_match_shorter)
    qed
    have "\<not> cron_matches c t"
      using run i by (auto simp: cron_search.simps [of c i t] cron_matches_def split: if_splits)
    then consider (month) "month_of t \<notin> set (cs_months c)"
      | (day) "month_of t \<in> set (cs_months c)" "\<not> day_matches c t"
      | (minute) "month_of t \<in> set (cs_months c)" "day_matches c t"
        "\<not> (hour_of t \<in> set (cs_hours c) \<and> minute_of t \<in> set (cs_minutes c))" "\<not> cron_matches c t"
      by (auto simp: cron_matches_def)
    then show ?thesis
    proof cases
      case month
      with run i 1(1) next_month_later [of t] show ?thesis
        by (intro further [OF skip_month]) (simp_all add: cron_search.simps [of c i t])
    next
      case day
      with run i 1(2) next_day_later [of t] show ?thesis
        by (intro further [OF skip_day]) (simp_all add: cron_search.simps [of c i t])
    next
      case minute
      have "(t + 60) mod 60 = 0" using run(2) by simp
      with minute run i 1(3) show ?thesis
        by (intro further [OF skip_minute]) (simp_all add: cron_search.simps [of c i t] split: if_splits)
    qed
  qed
qed

lemma first_minute_bounds:
  "t < first_minute_after t" "first_minute_after t \<le> t + 60" "first_minute_after t mod 60 = 0"
  using mult_div_mod_eq [of 60 "t + 60"] pos_mod_sign [of 60 "t + 60"] pos_mod_bound [of 60 "t + 60"]
  by (simp_all add: first_minute_after_def mult.commute)

lemma first_minute_least: "t < u \<Longrightarrow> u mod 60 = 0 \<Longrightarrow> first_minute_after t \<le> u"
proof -
  assume u: "t < u" "u mod 60 = 0"
  have "first_minute_after t < u + 60" using u(1) first_minute_bounds(2) [of t] by linarith
  then show ?thesis
    using next_minute [of u "first_minute_after t"] u(2) first_minute_bounds(3) [of t] by linarith
qed

text \<open>The next run is always later.\<close>

lemma NextCronRun_later:
  assumes "NextCronRun expr t = Some n"
  shows "t < n"
proof -
  have "t < r" if "cron_search c 0 (first_minute_after t) = Some r" for c r
    using cron_search_finds [OF that first_minute_bounds(3)] first_minute_bounds(1) [of t] by linarith
  then show ?thesis using assms
    by (auto simp: NextCronRun_def Let_def split: if_splits option.splits)
qed

section \<open>Properties\<close>

text \<open>C13. \<open>NextCronRun\<close> gives a later time. For an expression of five fields that can be read it is the first
  whole minute after \<open>t\<close> that the fields allow, when there is one within 525960 minutes; the jumps over months and
  days skip no minute. Otherwise the result is the day after, or an allowed minute still later.\<close>

theorem NextCronRun_first_match:
  assumes "length (Prelude.fields expr) = 5" "parse_cron (Prelude.fields expr) = Some c"
  shows "\<exists>r. NextCronRun expr t = Some r \<and> t < r
    \<and> (r mod 60 = 0 \<and> cron_matches c r \<and> no_match c (t + 1) r
       \<or> r = t + 86400 \<and> no_match c (t + 1) (t + 60 * search_limit))"
proof -
  let ?s = "first_minute_after t"
  have from_start: "no_match c (t + 1) r" if "no_match c ?s r" for r
    unfolding no_match_def
  proof (intro allI impI)
    fix u assume u: "t + 1 \<le> u \<and> u < r \<and> u mod 60 = 0"
    then have "?s \<le> u" by (intro first_minute_least) simp_all
    with u that show "\<not> cron_matches c u" by (simp add: no_match_def)
  qed
  show ?thesis
  proof (cases "cron_search c 0 ?s")
    case (Some r)
    with assms have "NextCronRun expr t = Some r" by (simp add: NextCronRun_def)
    moreover have "?s \<le> r \<and> r mod 60 = 0 \<and> cron_matches c r \<and> no_match c ?s r"
      by (rule cron_search_finds [OF Some first_minute_bounds(3)])
    ultimately show ?thesis using from_start [of r] first_minute_bounds(1) [of t] by auto
  next
    case None
    with assms have "NextCronRun expr t = Some (t + 86400)" by (simp add: NextCronRun_def)
    moreover have "no_match c ?s (?s + 60 * (search_limit - 0))"
      by (rule cron_search_exhausted [OF None first_minute_bounds(3)])
    then have "no_match c ?s (t + 60 * search_limit)"
      using first_minute_bounds(1) [of t] by (elim no_match_shorter) simp
    ultimately show ?thesis using from_start by auto
  qed
qed

lemma NextCronRun_first_match_witness:
  "\<exists>r. NextCronRun ''5 0-2 * */3,6-6,3,9,12 *'' 1767225600 = Some r \<and> 1767225600 < r
    \<and> (r mod 60 = 0 \<and> cron_matches (the (parse_cron (Prelude.fields ''5 0-2 * */3,6-6,3,9,12 *''))) r
         \<and> no_match (the (parse_cron (Prelude.fields ''5 0-2 * */3,6-6,3,9,12 *''))) (1767225600 + 1) r
       \<or> r = 1767225600 + 86400
         \<and> no_match (the (parse_cron (Prelude.fields ''5 0-2 * */3,6-6,3,9,12 *''))) (1767225600 + 1) (1767225600 + 60 * search_limit))"
  by (rule NextCronRun_first_match; code_simp)

text \<open>A month out of range is not refused: the expression then allows no time at all, and the fallback
  makes it run every 24 hours.\<close>

theorem impossible_cron_runs_daily:
  assumes "length (Prelude.fields expr) = 5" "parse_cron (Prelude.fields expr) = Some c"
    and "cs_months c = [] \<or> cs_hours c = [] \<or> cs_minutes c = []"
  shows "NextCronRun expr t = Some (t + 86400)"
proof -
  have "\<not> cron_matches c u" for u using assms(3) by (auto simp: cron_matches_def)
  then have "cron_search c 0 (first_minute_after t) = None"
    using cron_search_finds [OF _ first_minute_bounds(3), of c 0 t] by (cases "cron_search c 0 (first_minute_after t)") auto
  with assms(1,2) show ?thesis by (simp add: NextCronRun_def)
qed

lemma impossible_cron_runs_daily_witness: "NextCronRun ''0 0 1 13 *'' 1767225600 = Some (1767225600 + 86400)"
  by (rule impossible_cron_runs_daily [where c = "the (parse_cron (Prelude.fields ''0 0 1 13 *''))"]; code_simp)

lemma range_part:
  "CHR ''/'' \<notin> set part \<Longrightarrow> CHR ''-'' \<in> set part \<Longrightarrow> trim_space part = part \<Longrightarrow> split_first CHR ''-'' part = (p, q) \<Longrightarrow>
   add_cron_part mn mx acc part = cron_loop (fst (atoi p)) (fst (atoi q)) 1 mn mx acc"
  by (simp add: add_cron_part_def Let_def)

lemma atoi_le_max: "fst (atoi s) \<le> max_int64"
  by (auto simp: atoi_def Let_def max_int64_def min_int64_def)

text \<open>C14. A range up to the largest 64 bit value (or past it, which \<open>strconv.Atoi\<close> clamps to that value) never
  ends: whatever the other fields and the time, the call does not return.\<close>

theorem huge_range_never_returns:
  assumes "Prelude.fields expr = field # rest"
    and "CHR '','' \<notin> set field" "CHR ''/'' \<notin> set field" "CHR ''-'' \<in> set field" "trim_space field = field"
    and "split_first CHR ''-'' field = (lo, hi)" "fst (atoi hi) = max_int64"
    and "length rest = 4"
  shows "NextCronRun expr t = None"
proof -
  have "add_cron_part 0 59 [] field = None"
    using range_part [OF assms(3-6)] assms(7) cron_loop_diverges [OF atoi_le_max] by simp
  moreover have "field \<noteq> ''*''" using assms(4) by auto
  ultimately have "parseCronField field 0 59 = None"
    using split_on_id [OF assms(2)] by (simp add: parseCronField_def)
  with assms(1,8) show ?thesis by (simp add: NextCronRun_def parse_cron_def)
qed

lemma huge_range_never_returns_witness: "NextCronRun ''0-99999999999999999999 * * * *'' 1767225600 = None"
  by (rule huge_range_never_returns [where field = "''0-99999999999999999999''" and lo = "''0''"
        and hi = "''99999999999999999999''" and rest = "[''*'', ''*'', ''*'', ''*'']"]; code_simp)

end
