(* ===== verification/GoPath.thy ===== *)
theory GoPath
  imports Prelude
begin

text \<open>
  What \<open>path.Clean\<close> guarantees and when a cleaned path lies below a cleaned directory. Both the
  site input validators and the agent's path checks decide containment by comparing cleaned
  strings; the lemmas turn that comparison into a statement about path components.
\<close>

definition rooted :: "string \<Rightarrow> bool" where
  "rooted p \<longleftrightarrow> has_prefix p ''/''"

text \<open>The components of a cleaned path.\<close>

definition path_elems :: "string \<Rightarrow> string list" where
  "path_elems p = clean_elems (rooted p) [] (split_on CHR ''/'' p)"

definition plain_elem :: "string \<Rightarrow> bool" where
  "plain_elem e \<longleftrightarrow> e \<noteq> [] \<and> e \<noteq> ''.'' \<and> CHR ''/'' \<notin> set e"

lemma rooted_iff: "rooted p \<longleftrightarrow> (\<exists>q. p = CHR ''/'' # q)"
  by (cases p) (auto simp: rooted_def)

lemma plain_dotdot: "plain_elem ''..''"
  by (simp add: plain_elem_def)

lemma clean_elems_plain:
  "(\<And>e. e \<in> set es \<Longrightarrow> CHR ''/'' \<notin> set e) \<Longrightarrow> list_all plain_elem stack \<Longrightarrow>
   list_all plain_elem (clean_elems r stack es)"
proof (induction es arbitrary: stack)
  case Nil
  then show ?case by (simp add: list_all_iff)
next
  case (Cons e es)
  have e: "e \<noteq> [] \<Longrightarrow> e \<noteq> ''.'' \<Longrightarrow> plain_elem e" using Cons.prems by (simp add: plain_elem_def)
  have IH: "list_all plain_elem st \<Longrightarrow> list_all plain_elem (clean_elems r st es)" for st
    using Cons by simp
  show ?case
    using Cons.prems(2) e IH by (cases stack; cases r) (simp_all add: plain_dotdot)
qed

lemma clean_elems_no_dotdot:
  "''..'' \<notin> set stack \<Longrightarrow> ''..'' \<notin> set (clean_elems True stack es)"
  by (induction "True" stack es rule: clean_elems.induct) (auto split: list.splits)

lemma path_elems_plain: "e \<in> set (path_elems p) \<Longrightarrow> plain_elem e"
  unfolding path_elems_def
  using clean_elems_plain [of "split_on CHR ''/'' p" "[]" "rooted p"] split_on_no_sep
  by (auto simp: list_all_iff)

lemma path_elems_no_dotdot: "rooted p \<Longrightarrow> ''..'' \<notin> set (path_elems p)"
  by (simp add: path_elems_def clean_elems_no_dotdot)

lemma path_elems_no_slash: "\<forall>e \<in> set (path_elems p). CHR ''/'' \<notin> set e"
  using path_elems_plain by (auto simp: plain_elem_def)

lemma path_clean_rooted: "rooted p \<Longrightarrow> path_clean p = CHR ''/'' # join_on CHR ''/'' (path_elems p)"
  by (simp add: path_clean_def path_elems_def rooted_def Let_def)

lemma split_join_elems:
  "path_elems p \<noteq> [] \<Longrightarrow> split_on CHR ''/'' (join_on CHR ''/'' (path_elems p)) = path_elems p"
  by (rule split_join_on) (simp_all add: path_elems_no_slash)

lemma path_clean_relative: "\<not> rooted p \<Longrightarrow> \<not> rooted (path_clean p)"
proof -
  assume rel: "\<not> rooted p"
  show ?thesis
  proof (cases "path_elems p")
    case Nil
    with rel show ?thesis by (simp add: path_clean_def path_elems_def rooted_def Let_def)
  next
    case (Cons e es)
    then have e: "e \<noteq> []" "CHR ''/'' \<notin> set e" using path_elems_plain [of e p] by (auto simp: plain_elem_def)
    from rel Cons have "path_clean p = join_on CHR ''/'' (e # es)"
      by (simp add: path_clean_def path_elems_def rooted_def Let_def)
    with e show ?thesis by (cases e; cases es) (auto simp: rooted_def)
  qed
qed

lemma path_clean_inject:
  assumes "rooted p" "rooted q" "path_clean p = path_clean q"
  shows "path_elems p = path_elems q"
proof -
  have eq: "join_on CHR ''/'' (path_elems p) = join_on CHR ''/'' (path_elems q)"
    using assms by (simp add: path_clean_rooted)
  have empty: "path_elems r = [] \<longleftrightarrow> join_on CHR ''/'' (path_elems r) = []" for r
    using path_elems_plain [of "hd (path_elems r)" r]
    by (cases "path_elems r" rule: list.exhaust; cases "tl (path_elems r)") (auto simp: plain_elem_def)
  show ?thesis
    using eq empty [of p] empty [of q] split_join_elems [of p] split_join_elems [of q] by metis
qed

lemma split_on_join_append:
  "us \<noteq> [] \<Longrightarrow> \<forall>u \<in> set us. d \<notin> set u \<Longrightarrow> split_on d (join_on d us @ d # t) = us @ split_on d t"
  by (induction d us rule: join_on.induct) (auto simp: split_on_append)

text \<open>A cleaned path that continues a cleaned directory with a slash has the directory's components first.\<close>

lemma below_components:
  assumes p: "rooted p" and d: "rooted dir"
    and below: "has_prefix (path_clean p) (path_clean dir @ ''/'')"
  shows "\<exists>rest. rest \<noteq> [] \<and> path_elems p = path_elems dir @ rest"
proof -
  let ?ep = "path_elems p" and ?ed = "path_elems dir"
  from below obtain t where "path_clean p = path_clean dir @ CHR ''/'' # t"
    by (auto simp: has_prefix_conv)
  then have join: "join_on CHR ''/'' ?ep = join_on CHR ''/'' ?ed @ CHR ''/'' # t"
    by (simp add: path_clean_rooted p d)
  then have ne: "?ep \<noteq> []" by (cases ?ep) auto
  have ed: "?ed \<noteq> []"
  proof
    assume "?ed = []"
    with join have "split_on CHR ''/'' (join_on CHR ''/'' ?ep) = [] # split_on CHR ''/'' t" by simp
    with ne have "[] \<in> set ?ep" by (metis list.set_intros(1) split_join_elems)
    then show False using path_elems_plain by (auto simp: plain_elem_def)
  qed
  have "?ep = split_on CHR ''/'' (join_on CHR ''/'' ?ed @ CHR ''/'' # t)"
    using join split_join_elems [OF ne] by simp
  also have "\<dots> = ?ed @ split_on CHR ''/'' t"
    using ed path_elems_no_slash by (rule split_on_join_append)
  finally show ?thesis by auto
qed

text \<open>Conversely, a proper extension of the components is below the directory.\<close>

lemma components_below:
  assumes p: "rooted p" and d: "rooted dir" and ne: "path_elems dir \<noteq> []" and rest: "rest \<noteq> []"
    and eq: "path_elems p = path_elems dir @ rest"
  shows "has_prefix (path_clean p) (path_clean dir @ ''/'')"
  using assms by (auto simp: path_clean_rooted join_on_append has_prefix_conv)

lemma has_prefix_rooted: "has_prefix p q \<Longrightarrow> rooted q \<Longrightarrow> rooted p"
  by (auto simp: has_prefix_conv rooted_iff)

lemma path_clean_rooted_iff: "rooted (path_clean p) \<longleftrightarrow> rooted p"
proof (cases "rooted p")
  case True
  then show ?thesis by (simp add: path_clean_rooted rooted_def)
next
  case False
  then show ?thesis by (simp add: path_clean_relative)
qed

lemma join_on_not_Nil: "es \<noteq> [] \<Longrightarrow> hd es \<noteq> [] \<Longrightarrow> join_on d es \<noteq> []"
  by (cases es; cases "tl es") auto

lemma path_clean_not_Nil: "path_clean p \<noteq> []"
proof (cases "rooted p")
  case True
  then show ?thesis by (simp add: path_clean_rooted)
next
  case False
  have "path_elems p \<noteq> [] \<Longrightarrow> hd (path_elems p) \<noteq> []"
    using path_elems_plain [of "hd (path_elems p)" p] by (simp add: plain_elem_def)
  with False show ?thesis
    by (auto simp: path_clean_def path_elems_def rooted_def Let_def join_on_not_Nil)
qed

lemma below_rooted:
  assumes "rooted p" "has_prefix (path_clean p) (path_clean dir @ ''/'') \<or> path_clean p = path_clean dir"
  shows "rooted dir"
proof (rule ccontr)
  assume rel: "\<not> rooted dir"
  then have "\<not> rooted (path_clean dir)" and "path_clean dir \<noteq> []"
    by (simp_all add: path_clean_relative path_clean_not_Nil)
  then have "\<not> rooted (path_clean dir @ s)" for s by (cases "path_clean dir") (auto simp: rooted_def)
  with assms show False
    by (metis append.right_neutral has_prefix_conv path_clean_rooted_iff append.assoc)
qed

section \<open>Dir, Base and Join\<close>

text \<open>\<open>filepath.Dir\<close>: everything up to the last slash, cleaned.\<close>

definition path_dir :: "string \<Rightarrow> string" where
  "path_dir p = path_clean (case last_index_char p CHR ''/'' of None \<Rightarrow> [] | Some i \<Rightarrow> take (Suc i) p)"

text \<open>\<open>filepath.Base\<close>: the last element, after trailing slashes are removed.\<close>

definition path_base :: "string \<Rightarrow> string" where
  "path_base p =
     (if p = [] then ''.''
      else let q = rev (dropWhile (\<lambda>c. c = CHR ''/'') (rev p));
               b = (case last_index_char q CHR ''/'' of None \<Rightarrow> q | Some i \<Rightarrow> drop (Suc i) q)
           in if b = [] then ''/'' else b)"

text \<open>\<open>filepath.Join(a, b)\<close>: empty elements are ignored, the rest is joined and cleaned.\<close>

definition path_join :: "string \<Rightarrow> string \<Rightarrow> string" where
  "path_join a b =
     (case filter (\<lambda>e. e \<noteq> []) [a, b] of [] \<Rightarrow> [] | es \<Rightarrow> path_clean (join_on CHR ''/'' es))"

section \<open>Trimming the slashes of a cleaned path\<close>

lemma join_ends:
  "es \<noteq> [] \<Longrightarrow> list_all plain_elem es \<Longrightarrow>
   join_on CHR ''/'' es \<noteq> [] \<and> hd (join_on CHR ''/'' es) \<noteq> CHR ''/'' \<and> last (join_on CHR ''/'' es) \<noteq> CHR ''/''"
proof (induction es)
  case Nil
  then show ?case by simp
next
  case (Cons e es)
  then have e: "e \<noteq> []" "hd e \<noteq> CHR ''/''" "last e \<noteq> CHR ''/''"
    by (auto simp: plain_elem_def dest: hd_in_set last_in_set)
  with Cons show ?case by (cases "es = []") (auto simp: join_on_Cons)
qed

lemma trim_ends:
  "s \<noteq> [] \<Longrightarrow> \<not> P (hd s) \<Longrightarrow> \<not> P (last s) \<Longrightarrow> trim P s = s"
proof -
  assume s: "s \<noteq> []" "\<not> P (hd s)" "\<not> P (last s)"
  then have "dropWhile P s = s" by (cases s) auto
  moreover have "dropWhile P (rev s) = rev s" using s by (cases s rule: rev_cases) auto
  ultimately show ?thesis by (simp add: trim_def)
qed

lemma trim_Cons: "P c \<Longrightarrow> trim P (c # s) = trim P s"
  by (simp add: trim_def)

lemma split_trim_clean:
  assumes "rooted p" "path_elems p \<noteq> []"
  shows "split_on CHR ''/'' (trim (\<lambda>c. c = CHR ''/'') (path_clean p)) = path_elems p"
proof -
  have "list_all plain_elem (path_elems p)" using path_elems_plain by (auto simp: list_all_iff)
  with assms(2) have "trim (\<lambda>c. c = CHR ''/'') (join_on CHR ''/'' (path_elems p)) = join_on CHR ''/'' (path_elems p)"
    using join_ends by (intro trim_ends) auto
  with assms show ?thesis by (simp add: path_clean_rooted trim_Cons split_join_elems)
qed

section \<open>Absolute paths made of components\<close>

text \<open>The cleaned absolute path with the given components, and what components it can have.\<close>

definition abs_path :: "string list \<Rightarrow> string" where
  "abs_path es = CHR ''/'' # join_on CHR ''/'' es"

definition proper_elem :: "string \<Rightarrow> bool" where
  "proper_elem e \<longleftrightarrow> plain_elem e \<and> e \<noteq> ''..''"

lemma path_elems_proper: "rooted p \<Longrightarrow> list_all proper_elem (path_elems p)"
  using path_elems_plain path_elems_no_dotdot by (fastforce simp: list_all_iff proper_elem_def)

lemma path_clean_abs: "rooted p \<Longrightarrow> path_clean p = abs_path (path_elems p)"
  by (simp add: path_clean_rooted abs_path_def)

lemma rooted_abs_path [simp]: "rooted (abs_path es)"
  by (simp add: rooted_def abs_path_def)

lemma split_on_app: "split_on d (a @ d # b) = split_on d a @ split_on d b"
  by (induction a) (auto split: list.splits)

lemma clean_elems_append:
  "clean_elems True st (xs @ ys) = clean_elems True (rev (clean_elems True st xs)) ys"
  by (induction True st xs rule: clean_elems.induct) (auto split: list.splits)

lemma clean_elems_proper: "list_all proper_elem es \<Longrightarrow> clean_elems True st es = rev st @ es"
  by (induction es arbitrary: st) (auto simp: proper_elem_def plain_elem_def)

lemma path_elems_app: "rooted p \<Longrightarrow> path_elems (p @ CHR ''/'' # r) = clean_elems True (rev (path_elems p)) (split_on CHR ''/'' r)"
proof -
  assume p: "rooted p"
  then have "rooted (p @ CHR ''/'' # r)" by (auto simp: rooted_iff)
  with p show ?thesis by (simp add: path_elems_def split_on_app clean_elems_append)
qed

lemma proper_no_slash: "list_all proper_elem es \<Longrightarrow> \<forall>e \<in> set es. CHR ''/'' \<notin> set e"
  by (auto simp: list_all_iff proper_elem_def plain_elem_def)

lemma split_abs_path:
  "list_all proper_elem es \<Longrightarrow> split_on CHR ''/'' (abs_path es) = [] # (if es = [] then [[]] else es)"
  using split_join_on [of es "CHR ''/''"] by (auto simp: abs_path_def proper_no_slash)

lemma path_elems_abs_path [simp]: "list_all proper_elem es \<Longrightarrow> path_elems (abs_path es) = es"
  by (simp add: path_elems_def split_abs_path clean_elems_proper)

lemma path_clean_abs_path [simp]: "list_all proper_elem es \<Longrightarrow> path_clean (abs_path es) = abs_path es"
  by (simp add: path_clean_abs)

lemma abs_path_inject:
  "list_all proper_elem es \<Longrightarrow> list_all proper_elem fs \<Longrightarrow> abs_path es = abs_path fs \<longleftrightarrow> es = fs"
  by (metis path_elems_abs_path)

lemma abs_path_Cons: "abs_path (e # es) = CHR ''/'' # e @ (if es = [] then [] else abs_path es)"
  by (simp add: abs_path_def join_on_Cons)

lemma abs_path_append: "es \<noteq> [] \<Longrightarrow> abs_path (es @ fs) = abs_path es @ (if fs = [] then [] else abs_path fs)"
  by (simp add: abs_path_def join_on_append)

lemma abs_path_below:
  assumes "list_all proper_elem es" "list_all proper_elem ds" "has_prefix (abs_path es) (abs_path ds @ ''/'')"
  shows "\<exists>rest. rest \<noteq> [] \<and> es = ds @ rest"
  using below_components [of "abs_path es" "abs_path ds"] assms by simp

lemma last_index_append: "d \<notin> set b \<Longrightarrow> last_index_char (a @ d # b) d = Some (length a)"
proof (induction a)
  case Nil
  have "d \<notin> set b \<Longrightarrow> last_index_char b d = None" by (induction b) auto
  with Nil show ?case by simp
qed simp

lemma abs_path_snoc: "abs_path (es @ [e]) = (if es = [] then [] else abs_path es) @ CHR ''/'' # e"
  by (cases "es = []") (simp_all add: abs_path_def join_on_append)

lemma path_elems_slash [simp]: "path_elems ''/'' = []"
  by (simp add: path_elems_def)

lemma path_dir_abs_path:
  assumes "list_all proper_elem es"
  shows "path_dir (abs_path es) = abs_path (butlast es)"
proof (cases es rule: rev_cases)
  case Nil
  have "path_dir (abs_path []) = abs_path []" by code_simp
  with Nil show ?thesis by simp
next
  case (snoc ds e)
  let ?d = "if ds = [] then [] else abs_path ds"
  from assms snoc have e: "CHR ''/'' \<notin> set e" and ds: "list_all proper_elem ds"
    by (auto simp: proper_elem_def plain_elem_def)
  have "path_dir (abs_path es) = path_clean (?d @ ''/'')"
    using last_index_append [OF e, of ?d] by (simp add: path_dir_def snoc abs_path_snoc)
  moreover have "path_elems (abs_path ds @ ''/'') = ds"
    using path_elems_app [of "abs_path ds" "[]"] ds by simp
  moreover have "path_clean ''/'' = abs_path []" by code_simp
  ultimately show ?thesis by (simp add: snoc path_clean_abs rooted_iff abs_path_def split: if_splits)
qed

lemma path_join_abs_path:
  assumes "list_all proper_elem es" "proper_elem e"
  shows "path_join (abs_path es) e = abs_path (es @ [e])"
proof -
  have e: "e \<noteq> []" "split_on CHR ''/'' e = [e]" using assms(2) by (auto simp: proper_elem_def plain_elem_def split_on_id)
  have "path_elems (abs_path es @ CHR ''/'' # e) = es @ [e]"
    using assms clean_elems_proper [of "[e]" "rev es"] by (simp add: path_elems_app e del: clean_elems.simps)
  moreover have "rooted (abs_path es @ CHR ''/'' # e)" by (simp add: rooted_iff abs_path_def)
  ultimately show ?thesis using e(1) by (simp add: path_join_def path_clean_abs) (simp add: abs_path_def)
qed

lemma path_base_abs_path:
  assumes "proper_elem e"
  shows "path_base (abs_path (es @ [e])) = e"
proof -
  from assms have e: "e \<noteq> []" "CHR ''/'' \<notin> set e" by (auto simp: proper_elem_def plain_elem_def)
  let ?d = "if es = [] then [] else abs_path es"
  have "dropWhile (\<lambda>c. c = CHR ''/'') (rev (?d @ CHR ''/'' # e)) = rev (?d @ CHR ''/'' # e)"
    using e by (cases e rule: rev_cases) auto
  then show ?thesis
    using last_index_append [OF e(2), of ?d] e(1) by (simp add: path_base_def abs_path_snoc)
qed

section \<open>\<open>Dir\<close> leads to the top\<close>

definition elems_weight :: "string list \<Rightarrow> nat" where
  "elems_weight es = sum_list (map (\<lambda>e. Suc (length e)) es)"

lemma elems_weight_simps [simp]:
  "elems_weight [] = 0" "elems_weight (e # es) = Suc (length e) + elems_weight es"
  "elems_weight (es @ fs) = elems_weight es + elems_weight fs" "elems_weight (rev es) = elems_weight es"
  by (simp_all add: elems_weight_def rev_map [symmetric] sum_list_rev)

lemma length_join_on: "es \<noteq> [] \<Longrightarrow> Suc (length (join_on d es)) = elems_weight es"
  by (induction d es rule: join_on.induct) auto

lemma weight_split_on: "elems_weight (split_on d s) = Suc (length s)"
  by (induction s) (auto split: list.splits)

lemma weight_clean_elems: "elems_weight (clean_elems r st es) \<le> elems_weight st + elems_weight es"
  by (induction r st es rule: clean_elems.induct) (auto split: list.splits)

lemma clean_elems_trailing: "clean_elems r st (es @ [[]]) = clean_elems r st es"
  by (induction r st es rule: clean_elems.induct) (auto split: list.splits)

lemma path_clean_trailing:
  assumes "r \<noteq> []"
  shows "path_clean (r @ ''/'') = path_clean r"
proof -
  have "has_prefix (r @ ''/'') ''/'' = has_prefix r ''/''" using assms by (cases r) auto
  then show ?thesis by (simp add: path_clean_def split_on_app clean_elems_trailing)
qed

lemma length_path_clean:
  assumes "p \<noteq> []"
  shows "length (path_clean p) \<le> length p"
proof (cases "rooted p")
  case True
  then obtain s where p: "p = CHR ''/'' # s" by (auto simp: rooted_iff)
  have "elems_weight (path_elems p) \<le> Suc (length s)"
    using weight_clean_elems [of True "[]" "split_on CHR ''/'' s"] True
    by (simp add: path_elems_def p weight_split_on)
  then show ?thesis
    using length_join_on [of "path_elems p" "CHR ''/''"] True p
    by (cases "path_elems p = []") (simp_all add: path_clean_rooted)
next
  case False
  have "elems_weight (path_elems p) \<le> Suc (length p)"
    using weight_clean_elems [of False "[]" "split_on CHR ''/'' p"] False
    by (simp add: path_elems_def weight_split_on)
  with False assms show ?thesis
    using length_join_on [of "path_elems p" "CHR ''/''"]
    by (cases "path_elems p = []") (auto simp: path_clean_def path_elems_def rooted_def Let_def Suc_le_eq)
qed

definition dir_measure :: "string \<Rightarrow> nat" where
  "dir_measure p = (if p = ''.'' then 0 else if p = [] then 1 else Suc (length p))"

lemma last_index_split:
  "last_index_char p d = Some i \<Longrightarrow> i < length p \<and> p ! i = d"
  by (induction p arbitrary: i) (auto split: option.splits if_splits)

lemma path_dir_decreases: "path_dir p \<noteq> p \<Longrightarrow> dir_measure (path_dir p) < dir_measure p"
proof (cases "last_index_char p CHR ''/''")
  case None
  moreover have "path_clean [] = ''.''" by code_simp
  ultimately show "path_dir p \<noteq> p \<Longrightarrow> ?thesis" by (auto simp: path_dir_def dir_measure_def)
next
  case (Some i)
  from last_index_split [OF Some] have i: "i < length p" "p ! i = CHR ''/''" by auto
  let ?r = "take i p"
  from i have q: "take (Suc i) p = ?r @ ''/''" by (simp add: take_Suc_conv_app_nth)
  have p: "p \<noteq> ''.''" "p \<noteq> []" using i by (auto simp: nth_Cons')
  assume neq: "path_dir p \<noteq> p"
  show ?thesis
  proof (cases "?r = []")
    case True
    moreover have "path_clean ''/'' = ''/''" by code_simp
    ultimately have "path_dir p = ''/''" using Some q by (auto simp: path_dir_def)
    moreover from this neq i have "2 \<le> length p"
      by (cases p; cases "tl p") (auto simp: nth_Cons' split: if_splits)
    ultimately show ?thesis using p by (simp add: dir_measure_def)
  next
    case False
    have "path_dir p = path_clean ?r" using Some q path_clean_trailing [OF False] by (simp add: path_dir_def)
    moreover have "length (path_clean ?r) \<le> i" using length_path_clean [OF False] i by simp
    ultimately show ?thesis using p i by (auto simp: dir_measure_def)
  qed
qed

end
