(* ===== verification/FileSys.thy ===== *)
theory FileSys
  imports GoPath "HOL-Library.List_Lexorder"
begin

text \<open>
  The file system the panel works on, as the part of package \<open>os\<close> it calls sees it: a finite map from
  places (lists of names from the root) to directories, files and symbolic links. \<open>follow\<close> follows a path the
  way both the kernel and \<open>filepath.EvalSymlinks\<close> do, which differ in the number of links they are ready to
  follow (40 and 255). The panel runs as root, so there are no permissions; modes and times are left out.

  A call either takes effect as a whole or gives an error; \<open>os.MkdirAll\<close> keeps what it has made before an
  error. A relative path starts at the root directory, the working directory of the service.
\<close>

section \<open>Places and paths\<close>

type_synonym place = "string list"

datatype fnode = DirNode | FileNode string | LinkNode string

type_synonym filesys = "(place \<times> fnode) list"

definition look :: "filesys \<Rightarrow> place \<Rightarrow> fnode option" where
  "look fs p = (if p = [] then Some DirNode else map_of fs p)"

fun within :: "place \<Rightarrow> place \<Rightarrow> bool" where
  "within [] p = True"
| "within (r # rs) [] = False"
| "within (r # rs) (x # xs) = (r = x \<and> within rs xs)"

text \<open>
  The end of a walk: a place that exists, or the first place that does not with the names still to come, or
  a file where a directory should be, or too many links.
\<close>

datatype walked = Found place | Missing place "string list" | NotDir | Loop

function follow :: "filesys \<Rightarrow> nat \<Rightarrow> place \<Rightarrow> string list \<Rightarrow> walked" where
  "follow fs n d [] = Found d"
| "follow fs n d (c # cs) =
     (if c = [] \<or> c = ''.'' then follow fs n d cs
      else if c = ''..'' then follow fs n (butlast d) cs
      else case look fs (d @ [c]) of
        None \<Rightarrow> Missing (d @ [c]) cs
      | Some DirNode \<Rightarrow> follow fs n (d @ [c]) cs
      | Some (FileNode content) \<Rightarrow> if cs = [] then Found (d @ [c]) else NotDir
      | Some (LinkNode target) \<Rightarrow>
          if n = 0 then Loop
          else follow fs (n - 1) (if rooted target then [] else d) (split_on CHR ''/'' target @ cs))"
  by pat_completeness auto

termination
  by (relation "measures [\<lambda>(fs, n, d, cs). n, \<lambda>(fs, n, d, cs). length cs]") auto

definition kernel_walk :: "filesys \<Rightarrow> string \<Rightarrow> walked" where
  "kernel_walk fs path = follow fs 40 [] (split_on CHR ''/'' path)"

text \<open>\<open>filepath.EvalSymlinks\<close>; the error says whether \<open>os.IsNotExist\<close> holds of it.\<close>

definition EvalSymlinks :: "filesys \<Rightarrow> string \<Rightarrow> bool + string" where
  "EvalSymlinks fs path =
     (case follow fs 255 [] (split_on CHR ''/'' path) of
        Found p \<Rightarrow> Inr (abs_path p)
      | Missing p cs \<Rightarrow> Inl True
      | _ \<Rightarrow> Inl False)"

section \<open>Calls\<close>

definition os_Stat :: "filesys \<Rightarrow> string \<Rightarrow> fnode option" where
  "os_Stat fs path = (case kernel_walk fs path of Found p \<Rightarrow> look fs p | _ \<Rightarrow> None)"

text \<open>The place of the entry a path names, without following a link at its end.\<close>

definition entry_at :: "filesys \<Rightarrow> string list \<Rightarrow> place option" where
  "entry_at fs cs =
     (if cs = [] \<or> last cs \<in> {[], ''.'', ''..''} then None
      else case follow fs 40 [] (butlast cs) of
        Found d \<Rightarrow> if look fs d = Some DirNode then Some (d @ [last cs]) else None
      | _ \<Rightarrow> None)"

definition entry_of :: "filesys \<Rightarrow> string \<Rightarrow> place option" where
  "entry_of fs path = entry_at fs (split_on CHR ''/'' path)"

definition os_Lstat :: "filesys \<Rightarrow> string \<Rightarrow> fnode option" where
  "os_Lstat fs path = Option.bind (entry_of fs path) (look fs)"

definition put :: "place \<Rightarrow> fnode \<Rightarrow> filesys \<Rightarrow> filesys" where
  "put p n fs = (p, n) # filter (\<lambda>(q, _). q \<noteq> p) fs"

definition drop_below :: "place \<Rightarrow> filesys \<Rightarrow> filesys" where
  "drop_below p fs = filter (\<lambda>(q, _). \<not> within p q) fs"

definition move_below :: "place \<Rightarrow> place \<Rightarrow> filesys \<Rightarrow> filesys" where
  "move_below p q fs = map (\<lambda>(r, n). if within p r then (q @ drop (length p) r, n) else (r, n)) (drop_below q fs)"

text \<open>\<open>os.WriteFile\<close> and \<open>os.Create\<close>: a link at the end is followed, also when its target does not exist yet.\<close>

definition os_WriteFile :: "filesys \<Rightarrow> string \<Rightarrow> string \<Rightarrow> filesys option" where
  "os_WriteFile fs path content =
     (case kernel_walk fs path of
        Found p \<Rightarrow> (case look fs p of Some (FileNode _) \<Rightarrow> Some (put p (FileNode content) fs) | _ \<Rightarrow> None)
      | Missing p [] \<Rightarrow> Some (put p (FileNode content) fs)
      | _ \<Rightarrow> None)"

definition os_ReadFile :: "filesys \<Rightarrow> string \<Rightarrow> string option" where
  "os_ReadFile fs path = (case os_Stat fs path of Some (FileNode content) \<Rightarrow> Some content | _ \<Rightarrow> None)"

text \<open>\<open>os.MkdirAll\<close> on the names of a path, last first: what is made, and whether all went well.\<close>

fun mkdir_names :: "filesys \<Rightarrow> string list \<Rightarrow> filesys \<times> bool" where
  "mkdir_names fs [] = (fs, True)"
| "mkdir_names fs (c # cs) =
     (let names = rev (c # cs)
      in case (case follow fs 40 [] names of Found p \<Rightarrow> look fs p | _ \<Rightarrow> None) of
        Some DirNode \<Rightarrow> (fs, True)
      | Some _ \<Rightarrow> (fs, False)
      | None \<Rightarrow>
          (case mkdir_names fs cs of
             (fs1, False) \<Rightarrow> (fs1, False)
           | (fs1, True) \<Rightarrow>
               (case entry_at fs1 names of
                  None \<Rightarrow> (fs1, False)
                | Some p \<Rightarrow>
                    (case look fs1 p of
                       None \<Rightarrow> (put p DirNode fs1, True)
                     | Some node \<Rightarrow> (fs1, node = DirNode)))))"

definition os_MkdirAll :: "filesys \<Rightarrow> string \<Rightarrow> filesys \<times> bool" where
  "os_MkdirAll fs path = mkdir_names fs (rev (split_on CHR ''/'' path))"

definition os_RemoveAll :: "filesys \<Rightarrow> string \<Rightarrow> filesys" where
  "os_RemoveAll fs path =
     (case entry_of fs path of
        None \<Rightarrow> fs
      | Some p \<Rightarrow> if look fs p = None then fs else drop_below p fs)"

text \<open>
  \<open>os.Rename\<close>: an existing directory is never replaced, a file is not replaced by a directory, and nothing
  moves into itself.
\<close>

definition os_Rename :: "filesys \<Rightarrow> string \<Rightarrow> string \<Rightarrow> filesys option" where
  "os_Rename fs oldpath newpath =
     (case (entry_of fs oldpath, entry_of fs newpath) of
        (Some p, Some q) \<Rightarrow>
          (case look fs p of
             None \<Rightarrow> None
           | Some node \<Rightarrow>
               if look fs q = Some DirNode \<and> (oldpath = newpath \<or> p \<noteq> q) then None
               else if p = q then Some fs
               else if node = DirNode \<and> (look fs q \<noteq> None \<or> within p q) then None
               else Some (move_below p q fs))
      | _ \<Rightarrow> None)"

text \<open>\<open>os.ReadDir\<close>: the names in a directory, in order.\<close>

definition names_in :: "filesys \<Rightarrow> place \<Rightarrow> string list" where
  "names_in fs d = sort (remdups (map last (filter (\<lambda>p. p \<noteq> [] \<and> butlast p = d) (map fst fs))))"

definition os_ReadDir :: "filesys \<Rightarrow> string \<Rightarrow> (string \<times> fnode) list option" where
  "os_ReadDir fs path =
     (case kernel_walk fs path of
        Found d \<Rightarrow>
          if look fs d = Some DirNode
          then Some (List.map_filter (\<lambda>c. map_option (Pair c) (look fs (d @ [c]))) (names_in fs d))
          else None
      | _ \<Rightarrow> None)"

text \<open>Every entry stands in a directory, under a name.\<close>

definition wf_fs :: "filesys \<Rightarrow> bool" where
  "wf_fs fs \<longleftrightarrow> list_all (\<lambda>(p, _). p \<noteq> [] \<and> list_all proper_elem p \<and> look fs (butlast p) = Some DirNode) fs"

section \<open>Walks\<close>

lemma look_root [simp]: "look fs [] = Some DirNode"
  by (simp add: look_def)

lemma within_iff: "within r p \<longleftrightarrow> (\<exists>q. p = r @ q)"
  by (induction r p rule: within.induct) auto

lemma within_refl [simp]: "within r r"
  by (simp add: within_iff)

lemma within_append [simp]: "within r (r @ q)"
  by (simp add: within_iff)

lemma within_trans: "within a b \<Longrightarrow> within b c \<Longrightarrow> within a c"
  by (auto simp: within_iff)

lemma within_snoc: "within r (p @ [c]) \<longleftrightarrow> r = p @ [c] \<or> within r p"
proof
  assume "within r (p @ [c])"
  then obtain q where "p @ [c] = r @ q" by (auto simp: within_iff)
  then show "r = p @ [c] \<or> within r p" by (cases q rule: rev_cases) auto
qed (auto simp: within_iff)

lemma follow_root [simp]: "follow fs n d ([] # cs) = follow fs n d cs"
  by simp

declare follow.simps(2) [simp del]

lemmas follow_Cons = follow.simps(2)

lemma follow_mono:
  "follow fs n d cs = r \<Longrightarrow> r \<noteq> Loop \<Longrightarrow> n \<le> m \<Longrightarrow> follow fs m d cs = r"
proof (induction fs n d cs arbitrary: m rule: follow.induct)
  case (2 fs n d c cs)
  show ?case
  proof (cases "c = [] \<or> c = ''.'' \<or> c = ''..''")
    case True
    show ?thesis
    proof (cases "c = [] \<or> c = ''.''")
      case True
      from 2(1) [OF True _ 2(6,7)] 2(5) True show ?thesis by (simp add: follow_Cons)
    next
      case False
      with True have c: "c = ''..''" by simp
      from 2(2) [OF False c _ 2(6,7)] 2(5) c show ?thesis by (simp add: follow_Cons)
    qed
  next
    case plain: False
    show ?thesis
    proof (cases "look fs (d @ [c])")
      case None
      with 2(5) plain show ?thesis by (simp add: follow_Cons)
    next
      case node: (Some node)
      show ?thesis
      proof (cases node)
        case (LinkNode target)
        from 2(5,6) plain node LinkNode have n: "n \<noteq> 0" by (auto simp: follow_Cons split: if_splits)
        with 2(5) plain node LinkNode
        have "follow fs (n - 1) (if rooted target then [] else d) (split_on CHR ''/'' target @ cs) = r"
          by (simp add: follow_Cons)
        from 2(4) [OF _ _ node LinkNode n this 2(6), of "m - 1"] plain 2(7)
        have "follow fs (m - 1) (if rooted target then [] else d) (split_on CHR ''/'' target @ cs) = r" by auto
        with plain node LinkNode n 2(7) show ?thesis by (simp add: follow_Cons)
      next
        case (FileNode content)
        with 2(5) plain node show ?thesis by (simp add: follow_Cons)
      next
        case DirNode
        with 2(3) [OF _ _ node DirNode _ 2(6,7)] 2(5) plain node show ?thesis by (simp add: follow_Cons)
      qed
    qed
  qed
qed simp

text \<open>A walk along more names first walks along the first ones.\<close>

lemma follow_append:
  "follow fs n d cs = Found e \<Longrightarrow> look fs e = Some DirNode \<Longrightarrow> \<exists>m \<le> n. follow fs n d (cs @ ds) = follow fs m e ds"
proof (induction fs n d cs rule: follow.induct)
  case (2 fs n d c cs)
  show ?case
  proof (cases "c = [] \<or> c = ''.'' \<or> c = ''..''")
    case True
    with 2 show ?thesis by (auto simp: follow_Cons split: if_splits)
  next
    case plain: False
    with 2(5) obtain node where node: "look fs (d @ [c]) = Some node"
      by (auto simp: follow_Cons split: option.splits)
    show ?thesis
    proof (cases node)
      case (LinkNode target)
      from 2(5) plain node LinkNode have n: "n \<noteq> 0" by (auto simp: follow_Cons split: if_splits)
      from 2(5) plain node LinkNode n
      have "follow fs (n - 1) (if rooted target then [] else d) (split_on CHR ''/'' target @ cs) = Found e"
        by (simp add: follow_Cons)
      from 2(4) [OF _ _ node LinkNode n this 2(6)] plain obtain m where "m \<le> n - 1"
        "follow fs (n - 1) (if rooted target then [] else d) ((split_on CHR ''/'' target @ cs) @ ds) = follow fs m e ds"
        by auto
      with plain node LinkNode n show ?thesis by (intro exI [of _ m]) (simp add: follow_Cons)
    qed (use 2 plain node in \<open>auto simp: follow_Cons split: if_splits\<close>)
  qed
qed auto

lemma follow_append_Missing:
  "follow fs n d cs = Missing p rest \<Longrightarrow> follow fs n d (cs @ ds) = Missing p (rest @ ds)"
proof (induction fs n d cs rule: follow.induct)
  case (2 fs n d c cs)
  show ?case
  proof (cases "look fs (d @ [c])")
    case None
    with 2 show ?thesis by (auto simp: follow_Cons split: if_splits)
  next
    case (Some node)
    with 2 show ?thesis by (cases node) (auto simp: follow_Cons split: if_splits)
  qed
qed simp

text \<open>Where a walk can end: at a directory or file, or at a missing entry of a directory.\<close>

definition ends_well :: "filesys \<Rightarrow> walked \<Rightarrow> bool" where
  "ends_well fs r = (case r of
     Found p \<Rightarrow> (\<exists>n. look fs p = Some n \<and> (\<forall>t. n \<noteq> LinkNode t))
   | Missing p cs \<Rightarrow> p \<noteq> [] \<and> look fs p = None \<and> look fs (butlast p) = Some DirNode
   | _ \<Rightarrow> True)"

lemma wf_look:
  assumes "wf_fs fs" "look fs p = Some n" "p \<noteq> []"
  shows "look fs (butlast p) = Some DirNode" "list_all proper_elem p"
proof -
  from assms have "(p, n) \<in> set fs" by (simp add: look_def map_of_SomeD)
  with assms(1) show "look fs (butlast p) = Some DirNode" "list_all proper_elem p" by (auto simp: wf_fs_def list_all_iff)
qed

lemma wf_butlast: "wf_fs fs \<Longrightarrow> look fs d = Some DirNode \<Longrightarrow> look fs (butlast d) = Some DirNode"
  using wf_look(1) [of fs d] by (cases "d = []") auto

lemma follow_ends_well: "wf_fs fs \<Longrightarrow> look fs d = Some DirNode \<Longrightarrow> ends_well fs (follow fs n d cs)"
proof (induction fs n d cs rule: follow.induct)
  case (2 fs n d c cs)
  show ?case
  proof (cases "look fs (d @ [c])")
    case None
    with 2 wf_butlast [of fs d] show ?thesis by (auto simp: follow_Cons ends_well_def)
  next
    case (Some node)
    with 2 wf_butlast [of fs d] show ?thesis by (cases node) (auto simp: follow_Cons ends_well_def split: if_splits)
  qed
qed (simp add: ends_well_def)

lemma follow_Found: "wf_fs fs \<Longrightarrow> follow fs n [] cs = Found p \<Longrightarrow> \<exists>node. look fs p = Some node \<and> (\<forall>t. node \<noteq> LinkNode t)"
  using follow_ends_well [of fs "[]" n cs] by (simp add: ends_well_def)

lemma follow_Missing:
  "wf_fs fs \<Longrightarrow> follow fs n [] cs = Missing p rest \<Longrightarrow> p \<noteq> [] \<and> look fs p = None \<and> look fs (butlast p) = Some DirNode"
  using follow_ends_well [of fs "[]" n cs] by (simp add: ends_well_def)

lemma follow_Missing_proper:
  "follow fs n d cs = Missing p rest \<Longrightarrow> list_all (\<lambda>c. CHR ''/'' \<notin> set c) cs \<Longrightarrow> p \<noteq> [] \<and> proper_elem (last p)"
proof (induction fs n d cs rule: follow.induct)
  case (2 fs n d c cs)
  show ?case
  proof (cases "look fs (d @ [c])")
    case None
    with 2 show ?thesis by (auto simp: follow_Cons proper_elem_def plain_elem_def split: if_splits)
  next
    case (Some node)
    have "list_all (\<lambda>c. CHR ''/'' \<notin> set c) (split_on CHR ''/'' target)" for target
      using split_on_no_sep by (auto simp: list_all_iff)
    with Some 2 show ?thesis by (cases node) (auto simp: follow_Cons split: if_splits)
  qed
qed simp

lemma wf_proper: "wf_fs fs \<Longrightarrow> look fs p = Some n \<Longrightarrow> list_all proper_elem p"
  using wf_look(2) by (cases "p = []") auto

text \<open>A place with nothing but directories above it is reached by its own names.\<close>

lemma proper_step:
  "proper_elem c \<Longrightarrow> follow fs n d (c # cs) = (case look fs (d @ [c]) of
        None \<Rightarrow> Missing (d @ [c]) cs
      | Some DirNode \<Rightarrow> follow fs n (d @ [c]) cs
      | Some (FileNode content) \<Rightarrow> if cs = [] then Found (d @ [c]) else NotDir
      | Some (LinkNode target) \<Rightarrow>
          if n = 0 then Loop
          else follow fs (n - 1) (if rooted target then [] else d) (split_on CHR ''/'' target @ cs))"
  by (subst follow.simps(2)) (simp add: proper_elem_def plain_elem_def)

lemma follow_dirs: "wf_fs fs \<Longrightarrow> look fs d = Some DirNode \<Longrightarrow> follow fs n [] (d @ cs) = follow fs n d cs"
proof (induction d arbitrary: cs rule: rev_induct)
  case (snoc c d)
  from wf_look [OF snoc.prems] have d: "look fs d = Some DirNode" and c: "proper_elem c" by simp_all
  with snoc show ?case by (simp add: proper_step)
qed simp

section \<open>What the calls change\<close>

lemma look_put: "p \<noteq> [] \<Longrightarrow> look (put p n fs) q = (if q = p then Some n else look fs q)"
proof -
  have "map_of (filter (\<lambda>(q, _). q \<noteq> p) fs) q = (if q = p then None else map_of fs q)"
    by (induction fs) auto
  then show "p \<noteq> [] \<Longrightarrow> ?thesis" by (simp add: look_def put_def)
qed

lemma look_drop_below: "p \<noteq> [] \<Longrightarrow> look (drop_below p fs) q = (if within p q then None else look fs q)"
proof -
  have "map_of (filter (\<lambda>(q, _). \<not> within p q) fs) q = (if within p q then None else map_of fs q)"
    by (induction fs) auto
  then show "p \<noteq> [] \<Longrightarrow> ?thesis" by (cases p) (auto simp: look_def drop_below_def)
qed

lemma move_below_other:
  assumes "p \<noteq> []" "q \<noteq> []" "\<not> within p r" "\<not> within q r"
  shows "look (move_below p q fs) r = look fs r"
proof -
  have "map_of (map (\<lambda>(r, n). if within p r then (q @ drop (length p) r, n) else (r, n)) xs) r = map_of xs r"
    for xs :: filesys
    using assms(3,4) by (induction xs) auto
  then show ?thesis
    using look_drop_below [OF assms(2), of fs r] assms(3,4) by (auto simp: look_def move_below_def split: if_splits)
qed

text \<open>Behind a file there is nothing.\<close>

lemma follow_behind_file:
  "follow fs n d cs = Found e \<Longrightarrow> wf_fs fs \<Longrightarrow> look fs d = Some DirNode \<Longrightarrow> look fs e \<noteq> Some DirNode \<Longrightarrow> ds \<noteq> [] \<Longrightarrow>
   follow fs n d (cs @ ds) = NotDir"
proof (induction fs n d cs rule: follow.induct)
  case (2 fs n d c cs)
  have up: "look fs (butlast d) = Some DirNode" using 2(6,7) by (rule wf_butlast)
  show ?case
  proof (cases "c = [] \<or> c = ''.'' \<or> c = ''..''")
    case True
    with 2 up show ?thesis by (auto simp: follow_Cons split: if_splits)
  next
    case plain: False
    with 2(5) obtain node where node: "look fs (d @ [c]) = Some node"
      by (auto simp: follow_Cons split: option.splits)
    show ?thesis
    proof (cases node)
      case (LinkNode target)
      from 2(5) plain node LinkNode have n: "n \<noteq> 0" by (auto simp: follow_Cons split: if_splits)
      from 2(5) plain node LinkNode n
      have "follow fs (n - 1) (if rooted target then [] else d) (split_on CHR ''/'' target @ cs) = Found e"
        by (simp add: follow_Cons)
      from 2(4) [OF _ _ node LinkNode n this 2(6) _ 2(8,9)] plain 2(7)
      have "follow fs (n - 1) (if rooted target then [] else d) ((split_on CHR ''/'' target @ cs) @ ds) = NotDir" by auto
      with plain node LinkNode n show ?thesis by (simp add: follow_Cons)
    next
      case (FileNode content)
      with 2(5,9) plain node show ?thesis by (auto simp: follow_Cons split: if_splits)
    next
      case DirNode
      from 2(5) plain node DirNode have "follow fs n (d @ [c]) cs = Found e" by (simp add: follow_Cons)
      from 2(3) [OF _ _ node DirNode this 2(6) _ 2(8,9)] plain node DirNode
      have "follow fs n (d @ [c]) (cs @ ds) = NotDir" by simp
      with plain node DirNode show ?thesis by (simp add: follow_Cons)
    qed
  qed
qed auto

section \<open>Walks in file systems that differ\<close>

text \<open>
  Every look-up of a walk that finds its end succeeds, so it is not changed by new entries; when entries
  have gone as well, it is the same or gets stuck.
\<close>

definition differs_at :: "(place \<Rightarrow> bool) \<Rightarrow> filesys \<Rightarrow> filesys \<Rightarrow> bool" where
  "differs_at lost fs fs' \<longleftrightarrow> (\<forall>p n. look fs p = Some n \<longrightarrow> look fs' p = (if lost p then None else Some n))"

lemma follow_prefix_found: "follow fs n d (as @ bs) = Found e \<Longrightarrow> \<exists>x. follow fs n d as = Found x"
proof (induction fs n d as rule: follow.induct)
  case (2 fs n d c cs)
  show ?case
  proof (cases "look fs (d @ [c])")
    case None
    with 2 show ?thesis by (auto simp: follow_Cons split: if_splits)
  next
    case (Some node)
    with 2 show ?thesis by (cases node) (auto simp: follow_Cons split: if_splits)
  qed
qed simp

text \<open>\<open>avoided q\<close>: \<open>q\<close> is at most a link that leads nowhere, so no walk that ends well passes it.\<close>

definition avoided :: "filesys \<Rightarrow> nat \<Rightarrow> place \<Rightarrow> bool" where
  "avoided fs n q \<longleftrightarrow> (\<forall>x. follow fs n [] q \<noteq> Found x)"

lemma avoided_step:
  assumes "avoided fs k (d @ [c])" "n \<le> k" "wf_fs fs" "look fs d = Some DirNode"
    and "follow fs n d (c # cs) = Found e"
  shows False
proof -
  from follow_prefix_found [of fs n d "[c]" cs e] assms(5) obtain x where "follow fs n d [c] = Found x" by auto
  then have "follow fs k d [c] = Found x" by (rule follow_mono [of fs n]) (use assms(2) in simp_all)
  with follow_dirs [OF assms(3,4), of k "[c]"] assms(1) show False by (simp add: avoided_def)
qed

lemma follow_differs:
  "follow fs n d cs = Found e \<Longrightarrow> (\<And>p n. look fs p = Some n \<Longrightarrow> p = q \<or> look fs' p = (if lost p then None else Some n)) \<Longrightarrow>
   look fs q = None \<or> avoided fs k q \<and> n \<le> k \<and> wf_fs fs \<and> look fs d = Some DirNode \<Longrightarrow>
   follow fs' n d cs = Found e \<or> (\<exists>p rest. lost p \<and> follow fs' n d cs = Missing p rest)"
proof (induction fs n d cs rule: follow.induct)
  case (2 fs n d c cs)
  show ?case
  proof (cases "c = [] \<or> c = ''.'' \<or> c = ''..''")
    case True
    have up: "look fs q = None \<or> avoided fs k q \<and> n \<le> k \<and> wf_fs fs \<and> look fs (butlast d) = Some DirNode"
      using 2(7) wf_butlast by blast
    show ?thesis
    proof (cases "c = [] \<or> c = ''.''")
      case True
      from 2(1) [OF True _ 2(6,7)] 2(5) True show ?thesis by (simp add: follow_Cons)
    next
      case False
      with True have c: "c = ''..''" by simp
      from 2(2) [OF False c _ 2(6) up] 2(5) c show ?thesis by (simp add: follow_Cons)
    qed
  next
    case plain: False
    with 2(5) obtain node where node: "look fs (d @ [c]) = Some node"
      by (auto simp: follow_Cons split: option.splits)
    have "d @ [c] \<noteq> q" using 2(7) node avoided_step [of fs k d c n cs e] 2(5) by auto
    with 2(6) [OF node] have node': "look fs' (d @ [c]) = (if lost (d @ [c]) then None else Some node)" by simp
    show ?thesis
    proof (cases "lost (d @ [c])")
      case True
      with plain node' show ?thesis by (simp add: follow_Cons)
    next
      case kept: False
      show ?thesis
      proof (cases node)
        case (LinkNode target)
        from 2(5) plain node LinkNode have n: "n \<noteq> 0" by (auto simp: follow_Cons split: if_splits)
        from 2(5) plain node LinkNode n
        have f: "follow fs (n - 1) (if rooted target then [] else d) (split_on CHR ''/'' target @ cs) = Found e"
          by (simp add: follow_Cons)
        have "look fs q = None \<or> avoided fs k q \<and> n - 1 \<le> k \<and> wf_fs fs \<and> look fs (if rooted target then [] else d) = Some DirNode"
          using 2(7) by auto
        from 2(4) [OF _ _ node LinkNode n f 2(6) this] plain node' kept LinkNode n show ?thesis by (simp add: follow_Cons)
      next
        case (FileNode content)
        with 2(5) plain node node' kept show ?thesis by (auto simp: follow_Cons split: if_splits)
      next
        case DirNode
        from 2(5) plain node DirNode have f: "follow fs n (d @ [c]) cs = Found e" by (simp add: follow_Cons)
        have "look fs q = None \<or> avoided fs k q \<and> n \<le> k \<and> wf_fs fs \<and> look fs (d @ [c]) = Some DirNode"
          using 2(7) node DirNode by auto
        from 2(3) [OF _ _ node DirNode f 2(6) this] plain node' kept DirNode show ?thesis by (simp add: follow_Cons)
      qed
    qed
  qed
qed simp

lemma follow_grows: "follow fs n d cs = Found e \<Longrightarrow> differs_at (\<lambda>_. False) fs fs' \<Longrightarrow> follow fs' n d cs = Found e"
proof (induction fs n d cs rule: follow.induct)
  case (2 fs n d c cs)
  from 2(5,6) show ?case
    by (cases "look fs (d @ [c])"; cases "the (look fs (d @ [c]))")
      (use 2 in \<open>auto simp: follow_Cons differs_at_def split: if_splits\<close>)
qed simp

text \<open>A walk that does not get stuck at a removed part is not about it.\<close>

lemma follow_without:
  "follow fs' n d cs = r \<Longrightarrow> (\<And>p. look fs' p = (if within R p then None else look fs p)) \<Longrightarrow>
   (\<forall>q rest. r = Missing q rest \<longrightarrow> \<not> within R q) \<Longrightarrow> \<not> within R d \<Longrightarrow>
   follow fs n d cs = r \<and> (\<forall>q. r = Found q \<longrightarrow> \<not> within R q)"
proof (induction fs' n d cs rule: follow.induct)
  case (2 fs' n d c cs)
  have up: "\<not> within R (butlast d)" using 2(8) within_snoc [of R "butlast d" "last d"] by (cases "d = []") auto
  have root: "\<not> within R []" using 2(8) by (auto simp: within_iff)
  show ?case
  proof (cases "c = [] \<or> c = ''.'' \<or> c = ''..''")
    case True
    show ?thesis
    proof (cases "c = [] \<or> c = ''.''")
      case True
      from 2(1) [OF True _ 2(6,7,8)] 2(5) True show ?thesis by (simp add: follow_Cons)
    next
      case False
      with True have c: "c = ''..''" by simp
      from 2(2) [OF False c _ 2(6,7) up] 2(5) c show ?thesis by (simp add: follow_Cons)
    qed
  next
    case plain: False
    show ?thesis
    proof (cases "look fs' (d @ [c])")
      case None
      with 2(5) plain have r: "r = Missing (d @ [c]) cs" by (simp add: follow_Cons)
      with 2(7) have "\<not> within R (d @ [c])" by simp
      with None 2(6) [of "d @ [c]"] plain r show ?thesis by (simp add: follow_Cons)
    next
      case node: (Some node)
      with 2(6) [of "d @ [c]"] have out: "\<not> within R (d @ [c])" and node2: "look fs (d @ [c]) = Some node"
        by (auto split: if_splits)
      show ?thesis
      proof (cases node)
        case (LinkNode target)
        show ?thesis
        proof (cases "n = 0")
          case True
          with 2(5) plain node node2 LinkNode show ?thesis by (simp add: follow_Cons)
        next
          case n: False
          from 2(5) plain node LinkNode n
          have "follow fs' (n - 1) (if rooted target then [] else d) (split_on CHR ''/'' target @ cs) = r"
            by (simp add: follow_Cons)
          from 2(4) [OF _ _ node LinkNode n this 2(6,7)] plain node2 LinkNode n 2(8) root show ?thesis
            by (simp add: follow_Cons)
        qed
      next
        case (FileNode content)
        with 2(5) plain node node2 out show ?thesis by (auto simp: follow_Cons split: if_splits)
      next
        case DirNode
        from 2(5) plain node DirNode have "follow fs' n (d @ [c]) cs = r" by (simp add: follow_Cons)
        from 2(3) [OF _ _ node DirNode this 2(6,7) out] plain node2 DirNode show ?thesis by (simp add: follow_Cons)
      qed
    qed
  qed
qed auto

text \<open>A walk that gets stuck where a directory was removed goes on from there when it is back.\<close>

lemma follow_stuck:
  "follow fs' n d cs = Missing R rest \<Longrightarrow> (\<And>p. look fs' p = (if within R p then None else look fs p)) \<Longrightarrow>
   look fs R = Some DirNode \<Longrightarrow> \<exists>m \<le> n. follow fs n d cs = follow fs m R rest"
proof (induction fs' n d cs rule: follow.induct)
  case (2 fs' n d c cs)
  show ?case
  proof (cases "c = [] \<or> c = ''.'' \<or> c = ''..''")
    case True
    show ?thesis
    proof (cases "c = [] \<or> c = ''.''")
      case True
      from 2(1) [OF True _ 2(6,7)] 2(5) True show ?thesis by (simp add: follow_Cons)
    next
      case False
      with True have c: "c = ''..''" by simp
      from 2(2) [OF False c _ 2(6,7)] 2(5) c show ?thesis by (simp add: follow_Cons)
    qed
  next
    case plain: False
    show ?thesis
    proof (cases "look fs' (d @ [c])")
      case None
      with 2(5) plain have "d @ [c] = R" "rest = cs" by (simp_all add: follow_Cons)
      with plain 2(7) show ?thesis by (intro exI [of _ n]) (simp add: follow_Cons)
    next
      case node: (Some node)
      with 2(6) [of "d @ [c]"] have node2: "look fs (d @ [c]) = Some node" by (auto split: if_splits)
      show ?thesis
      proof (cases node)
        case (LinkNode target)
        from 2(5) plain node LinkNode have n: "n \<noteq> 0" by (auto simp: follow_Cons split: if_splits)
        from 2(5) plain node LinkNode n
        have "follow fs' (n - 1) (if rooted target then [] else d) (split_on CHR ''/'' target @ cs) = Missing R rest"
          by (simp add: follow_Cons)
        from 2(4) [OF _ _ node LinkNode n this 2(6,7)] plain obtain m where "m \<le> n - 1"
          "follow fs (n - 1) (if rooted target then [] else d) (split_on CHR ''/'' target @ cs) = follow fs m R rest" by auto
        with plain node2 LinkNode n show ?thesis by (intro exI [of _ m]) (simp add: follow_Cons)
      next
        case (FileNode content)
        with 2(5) plain node show ?thesis by (auto simp: follow_Cons split: if_splits)
      next
        case DirNode
        from 2(5) plain node DirNode have "follow fs' n (d @ [c]) cs = Missing R rest" by (simp add: follow_Cons)
        from 2(3) [OF _ _ node DirNode this 2(6,7)] plain node2 DirNode show ?thesis by (simp add: follow_Cons)
      qed
    qed
  qed
qed simp

text \<open>Writing a file changes walks only where the file is.\<close>

lemma follow_put_file:
  "p \<noteq> [] \<Longrightarrow> look fs p = None \<or> (\<exists>old. look fs p = Some (FileNode old)) \<Longrightarrow>
   follow (put p (FileNode content) fs) n d cs \<in> {follow fs n d cs, Found p, NotDir}"
proof (induction fs n d cs rule: follow.induct)
  case (2 fs n d c cs)
  let ?fs = "put p (FileNode content) fs"
  show ?case
  proof (cases "c = [] \<or> c = ''.'' \<or> c = ''..''")
    case True
    with 2 show ?thesis by (auto simp: follow_Cons split: if_splits)
  next
    case plain: False
    show ?thesis
    proof (cases "d @ [c] = p")
      case True
      with 2(5) plain show ?thesis by (auto simp: follow_Cons look_put)
    next
      case other: False
      then have same: "look ?fs (d @ [c]) = look fs (d @ [c])" using 2(5) by (simp add: look_put)
      show ?thesis
      proof (cases "look fs (d @ [c])")
        case None
        with same plain show ?thesis by (simp add: follow_Cons)
      next
        case node: (Some node)
        show ?thesis
        proof (cases node)
          case (LinkNode target)
          with same node plain 2(4) [OF _ _ node LinkNode _ 2(5,6)] show ?thesis by (auto simp: follow_Cons)
        next
          case (FileNode old)
          with same node plain show ?thesis by (simp add: follow_Cons)
        next
          case DirNode
          with same node plain 2(3) [OF _ _ node DirNode 2(5,6)] show ?thesis by (auto simp: follow_Cons)
        qed
      qed
    qed
  qed
qed simp

text \<open>Below a missing place there is nothing, and in a part made of directories a walk stays below.\<close>

lemma nothing_below: "wf_fs fs \<Longrightarrow> look fs p \<noteq> Some DirNode \<Longrightarrow> q \<noteq> [] \<Longrightarrow> look fs (p @ q) = None"
proof (induction q rule: rev_induct)
  case (snoc c q)
  then have "look fs (p @ q) \<noteq> Some DirNode" by (cases "q = []") auto
  moreover have "look fs (p @ q) = Some DirNode" if "look fs ((p @ q) @ [c]) = Some n" for n
    using wf_look(1) [OF snoc.prems(1) that] by (simp only: butlast_snoc) simp
  ultimately show ?case by (cases "look fs ((p @ q) @ [c])") auto
qed simp

lemma follow_in_dirs:
  "list_all proper_elem cs \<Longrightarrow> (\<And>x. x \<noteq> [] \<Longrightarrow> look fs (d @ x) \<in> {None, Some DirNode}) \<Longrightarrow>
   follow fs n d cs = Found p \<or> follow fs n d cs = Missing p rest \<Longrightarrow> within d p"
proof (induction cs arbitrary: d)
  case (Cons c cs)
  have "look fs (d @ [c]) \<in> {None, Some DirNode}" using Cons.prems(2) [of "[c]"] by simp
  then consider "look fs (d @ [c]) = None" | (dir) "look fs (d @ [c]) = Some DirNode" by auto
  then show ?case
  proof cases
    case 1
    with Cons.prems(1,3) show ?thesis by (auto simp: proper_step)
  next
    case dir
    have "look fs ((d @ [c]) @ x) \<in> {None, Some DirNode}" for x using Cons.prems(2) [of "c # x"] by simp
    with Cons.IH [of "d @ [c]"] Cons.prems(1,3) dir have "within (d @ [c]) p" by (simp add: proper_step)
    then show ?thesis by (auto simp: within_iff)
  qed
qed simp

section \<open>Calls keep the file system well formed\<close>

lemma within_butlast: "within r (butlast p) \<Longrightarrow> within r p"
  using within_snoc [of r "butlast p" "last p"] by (cases "p = []") auto

lemma within_linear: "within p r \<Longrightarrow> within q r \<Longrightarrow> within p q \<or> within q p"
  by (auto simp: within_iff append_eq_append_conv2)

lemma wf_put:
  assumes "wf_fs fs" "p \<noteq> []" "list_all proper_elem p" "look fs (butlast p) = Some DirNode"
    and "look fs p = Some DirNode \<Longrightarrow> n = DirNode"
  shows "wf_fs (put p n fs)"
proof -
  have "butlast p \<noteq> p" using assms(2) by (metis length_butlast diff_less length_greater_0_conv less_irrefl zero_less_one)
  with assms show ?thesis
    by (auto simp: wf_fs_def list_all_iff put_def [of p n fs] look_put [OF assms(2), unfolded put_def])
qed

lemma wf_drop_below:
  assumes "wf_fs fs" "p \<noteq> []"
  shows "wf_fs (drop_below p fs)"
  using assms(1) within_butlast [of p] unfolding wf_fs_def list_all_iff look_drop_below [OF assms(2)]
  by (auto simp: drop_below_def)

lemma look_move_below:
  assumes "q \<noteq> []" "\<not> within p q" "\<not> within q p"
  shows "look (move_below p q fs) (q @ x) = look fs (p @ x)"
proof -
  let ?f = "\<lambda>(r, n). if within p r then (q @ drop (length p) r, n) else (r, n)"
  have apart: "\<not> within q (p @ y)" for y using within_linear [of p "p @ y" q] assms(2,3) by auto
  have "map_of (map ?f (filter (\<lambda>(r, _). \<not> within q r) fs)) (q @ x) = map_of fs (p @ x)"
  proof (induction fs)
    case (Cons e fs)
    obtain r n where e: "e = (r, n)" by (cases e)
    show ?case
    proof (cases "within p r")
      case True
      then obtain y where r: "r = p @ y" by (auto simp: within_iff)
      with Cons e apart show ?thesis by simp
    next
      case False
      then have "r \<noteq> p @ x" by auto
      moreover have "q @ x = r \<Longrightarrow> within q r" by auto
      ultimately show ?thesis using Cons e False by auto
    qed
  qed simp
  moreover have "p \<noteq> []" using assms(2) by auto
  ultimately show ?thesis using assms(1) by (simp add: look_def move_below_def drop_below_def)
qed

lemma wf_move_below:
  assumes wf: "wf_fs fs" and q: "q \<noteq> []" "list_all proper_elem q" "look fs (butlast q) = Some DirNode"
    and apart: "\<not> within p q" "\<not> within q p"
  shows "wf_fs (move_below p q fs)"
proof -
  have p: "p \<noteq> []" using apart by auto
  have "length (butlast q) < length q" using q(1) by (cases q) auto
  moreover have "within q (butlast q) \<Longrightarrow> length q \<le> length (butlast q)" by (metis within_iff length_append le_add1)
  ultimately have "\<not> within q (butlast q)" by linarith
  then have up: "\<not> within p (butlast q)" "\<not> within q (butlast q)" using apart(1) within_butlast [of p q] by auto
  have "r' \<noteq> [] \<and> list_all proper_elem r' \<and> look (move_below p q fs) (butlast r') = Some DirNode"
    if "(r', n) \<in> set (move_below p q fs)" for r' n
  proof -
    from that obtain r where r: "(r, n) \<in> set fs" "\<not> within q r" "r' = (if within p r then q @ drop (length p) r else r)"
      by (auto simp: move_below_def drop_below_def split: if_splits)
    from wf r(1) have wfr: "r \<noteq> []" "list_all proper_elem r" "look fs (butlast r) = Some DirNode"
      by (auto simp: wf_fs_def list_all_iff)
    show ?thesis
    proof (cases "within p r")
      case True
      then obtain x where x: "r = p @ x" by (auto simp: within_iff)
      show ?thesis
      proof (cases "x = []")
        case True
        with r x q up show ?thesis using move_below_other [OF p q(1) up, of fs] by simp
      next
        case False
        with wfr x q r show ?thesis using look_move_below [OF q(1) apart, of fs "butlast x"] by (simp add: butlast_append)
      qed
    next
      case False
      then have "\<not> within p (butlast r)" "\<not> within q (butlast r)" using r(2) within_butlast [of _ r] by auto
      with wfr r False show ?thesis using move_below_other [OF p q(1), of "butlast r" fs] by simp
    qed
  qed
  then show ?thesis by (auto simp: wf_fs_def list_all_iff)
qed

end
