(* ===== verification/World.thy ===== *)
theory World
  imports FileSys "HOL-Library.State_Monad"
begin

text \<open>
  The state of the panel: the SQLite tables of \<open>internal/migrations\<close> the modelled code reads or
  writes, as lists of row records (in insertion order), the clock, the backup files \<open>os.Remove\<close> can
  remove, the file system the file manager works on, and SQLite's \<open>last_insert_rowid\<close>.

  Code that uses the database is a state monad over this world. Every SQL statement is one
  \<open>stmt\<close>: it takes the next verdict of the fault script \<open>w_faults\<close> (an empty script means that
  nothing fails) and either fails without effect, giving the error value of \<open>database/sql\<close>, or
  runs. A theorem for every fault script is a theorem for every pattern of I/O errors.

  Times are whole seconds of UTC, the resolution of SQLite's \<open>CURRENT_TIMESTAMP\<close>. A Go \<open>time.Time\<close>
  bound as a parameter is stored with a fraction, so it compares as greater than a
  \<open>CURRENT_TIMESTAMP\<close> text of the same second (\<open>before_go\<close>). The server's zone is taken to be UTC.
  Columns that no modelled function reads are left out of the row records.
\<close>

section \<open>Errors and JSON\<close>

datatype err =
    SqlError string  \<comment> \<open>an error of \<open>database/sql\<close>, wrapped with the given context\<close>
  | Fail string      \<comment> \<open>an error the code makes itself, with its text\<close>

type_synonym 'a res = "err + 'a"

text \<open>
  JSON values with integer numbers. An object is the association list of its distinct keys.
\<close>

datatype json =
    JNull
  | JBool bool
  | JNum int
  | JStr string
  | JArr "json list"
  | JObj "(string \<times> json) list"

text \<open>
  One field of \<open>json.Unmarshal\<close> into a struct: the zero value when the key is missing or \<open>null\<close>, and
  \<open>None\<close> when the value has another type (an \<open>UnmarshalTypeError\<close>).
\<close>

definition str_field :: "(string \<times> json) list \<Rightarrow> string \<Rightarrow> string option" where
  "str_field kvs key = (case map_of kvs key of
     None \<Rightarrow> Some [] | Some JNull \<Rightarrow> Some [] | Some (JStr s) \<Rightarrow> Some s | Some _ \<Rightarrow> None)"

definition int_field :: "(string \<times> json) list \<Rightarrow> string \<Rightarrow> int option" where
  "int_field kvs key = (case map_of kvs key of
     None \<Rightarrow> Some 0 | Some JNull \<Rightarrow> Some 0
   | Some (JNum n) \<Rightarrow> if min_int64 \<le> n \<and> n \<le> max_int64 then Some n else None
   | Some _ \<Rightarrow> None)"

definition bool_field :: "(string \<times> json) list \<Rightarrow> string \<Rightarrow> bool option" where
  "bool_field kvs key = (case map_of kvs key of
     None \<Rightarrow> Some False | Some JNull \<Rightarrow> Some False | Some (JBool b) \<Rightarrow> Some b | Some _ \<Rightarrow> None)"

text \<open>A text column: \<open>Json v\<close> is the encoding of \<open>v\<close>, \<open>Raw s\<close> a text that is not JSON (as the empty text).\<close>

datatype jtext = Raw string | Json json

section \<open>Rows\<close>

record 'r table =
  rows :: "'r list"
  seqno :: int  \<comment> \<open>the \<open>sqlite_sequence\<close> entry of the table\<close>

record Job =
  job_id :: int
  job_server :: "int option"
  job_site :: "int option"
  job_type :: string
  job_status :: string
  job_payload :: jtext
  job_result :: jtext
  job_error :: "string option"
  job_description :: string
  job_attempts :: int
  job_max_attempts :: int
  job_created_at :: int
  job_updated_at :: int
  job_started_at :: "int option"
  job_completed_at :: "int option"
  job_next_retry_at :: "int option"

record Backup =
  bkp_id :: int
  bkp_site :: int
  bkp_status :: string
  bkp_storage_type :: string
  bkp_storage_path :: "string option"
  bkp_type :: string
  bkp_s3_path :: "string option"
  bkp_progress :: string
  bkp_size :: int
  bkp_file_count :: int
  bkp_error :: "string option"
  bkp_created_at :: int
  bkp_completed_at :: "int option"
  bkp_expires_at :: "int option"

record Site =
  ste_id :: int
  ste_server :: int
  ste_name :: string
  ste_domain :: string
  ste_runtime :: string
  ste_root_path :: string
  ste_status :: string
  ste_owner :: "int option"
  ste_ssl_status :: "string option"
  ste_ssl_issuer :: "string option"
  ste_ssl_expires_at :: "int option"
  ste_ssl_last_check :: "int option"
  ste_git_repo :: "string option"
  ste_git_branch :: "string option"
  ste_git_commit :: "string option"
  ste_webhook_secret :: "string option"
  ste_managed_by :: "string option"
  ste_system_user :: "string option"
  ste_conf_file :: "string option"
  ste_proxy_pass_url :: "string option"
  ste_app_port :: "int option"
  ste_app_command :: "string option"
  ste_app_status :: "string option"
  ste_app_memory_max :: "int option"
  ste_php_version :: "string option"
  ste_php_ini :: "string option"
  ste_backup_provider :: "int option"
  ste_created_at :: int
  ste_updated_at :: int

record Server =
  srv_id :: int
  srv_name :: string
  srv_hostname :: string
  srv_agent_url :: "string option"
  srv_ip :: "string option"
  srv_ipv6 :: "string option"
  srv_ssh_port :: int
  srv_description :: string
  srv_status :: string
  srv_provider :: "string option"
  srv_agent_token :: string
  srv_last_health_check :: "int option"
  srv_health_status :: string
  srv_health_latency :: int
  srv_updated_at :: int

record User =
  usr_id :: int
  usr_username :: string
  usr_email :: string
  usr_password_hash :: string
  usr_role :: string
  usr_created_by :: "int option"
  usr_created_at :: int
  usr_disk_limit :: "int option"
  usr_max_sites :: "int option"
  usr_plan :: "int option"
  usr_totp_secret :: string
  usr_totp_enabled :: bool
  usr_password_changed_at :: "int option"

record Session =
  ses_id :: int
  ses_user :: int
  ses_token_hash :: string
  ses_expires_at :: int
  ses_created_at :: int
  ses_revoked_at :: "int option"
  ses_impersonated_by :: "int option"

record ServiceToken =
  stk_id :: int
  stk_name :: string
  stk_key_hash :: string
  stk_scopes :: string
  stk_created_at :: int
  stk_expires_at :: "int option"
  stk_last_used_at :: "int option"

record RecoveryCode =
  rcv_id :: int
  rcv_user :: int
  rcv_code_hash :: string
  rcv_used :: bool

record AlertChannel =
  chn_id :: int
  chn_name :: string
  chn_type :: string
  chn_enabled :: bool
  chn_config :: jtext

record Alert =
  alr_id :: int
  alr_channel :: int
  alr_severity :: string
  alr_subject :: string
  alr_message :: string
  alr_status :: string
  alr_error :: "string option"
  alr_sent_at :: "int option"

record Database =
  dtb_id :: int
  dtb_site :: int
  dtb_name :: string
  dtb_type :: string
  dtb_charset :: string
  dtb_collation :: string
  dtb_size :: int
  dtb_created_at :: int

record DBUser =
  dbu_id :: int
  dbu_database :: int
  dbu_username :: string
  dbu_password_hash :: string
  dbu_encrypted_password :: string
  dbu_host_pattern :: string
  dbu_privileges :: string
  dbu_created_at :: int

record DBServer =
  dbs_id :: int
  dbs_name :: string
  dbs_engine :: string
  dbs_host :: string
  dbs_port :: int
  dbs_username :: string
  dbs_password :: string
  dbs_active :: bool
  dbs_default :: bool
  dbs_backup_username :: string
  dbs_backup_password :: string

record Provider =
  prv_id :: int
  prv_name :: string
  prv_type :: string
  prv_bucket :: string
  prv_endpoint :: string
  prv_region :: string
  prv_access_key :: string
  prv_secret_key :: string
  prv_default :: bool
  prv_retention_days :: int

record UserSite =
  uss_id :: int
  uss_user :: int
  uss_site :: int
  uss_permission :: string

record Schedule =
  sch_id :: int
  sch_site :: int
  sch_provider :: "int option"
  sch_cron :: string
  sch_type :: string
  sch_enabled :: bool
  sch_last_run_at :: "int option"
  sch_next_run_at :: "int option"

record BackupConfig =
  cfg_id :: int
  cfg_name :: string
  cfg_scope :: string
  cfg_sites :: "int list"
  cfg_provider :: "int option"
  cfg_cron :: string
  cfg_enabled :: bool
  cfg_retention_days :: int
  cfg_databases :: "int list"
  cfg_last_run_at :: "int option"
  cfg_next_run_at :: "int option"

record AuditLog =
  aud_user :: "int option"
  aud_action :: string
  aud_resource :: string
  aud_resource_id :: "int option"
  aud_details :: "json option"

record Notification =
  ntf_id :: int
  ntf_user :: int
  ntf_type :: string
  ntf_title :: string
  ntf_message :: string
  ntf_severity :: string
  ntf_read :: bool
  ntf_entity_type :: string
  ntf_entity_id :: int
  ntf_created_at :: int
  ntf_read_at :: "int option"

record License =
  lic_id :: int
  lic_key :: string
  lic_tier :: string
  lic_activated_at :: "int option"
  lic_expires_at :: "int option"
  lic_max_servers :: int
  lic_created_at :: int

record Plan =
  pln_id :: int
  pln_name :: string
  pln_slug :: string
  pln_price_idr :: int
  pln_billing_cycle :: string
  pln_features :: string
  pln_active :: bool
  pln_created_at :: int
  pln_updated_at :: int

record LicenseOrder =
  ord_id :: int
  ord_user :: int
  ord_plan :: int
  ord_status :: string
  ord_payment_method :: "string option"
  ord_payment_proof :: "string option"
  ord_amount_idr :: int
  ord_notes :: "string option"
  ord_admin_notes :: "string option"
  ord_approved_by :: "int option"
  ord_created_at :: int
  ord_updated_at :: int

record IPRestriction =
  ipr_id :: int
  ipr_site :: int
  ipr_ip :: string
  ipr_action :: string
  ipr_reason :: string
  ipr_created_at :: int

text \<open>\<open>store.SiteSecurity\<close>; the blocked addresses are a JSON list in the column, a list here.\<close>

record SiteSecurity =
  sec_id :: int
  sec_site :: int
  sec_basic_auth_enabled :: bool
  sec_basic_auth_username :: string
  sec_basic_auth_password :: string
  sec_blocked_ips :: "string list"
  sec_updated_at :: int

text \<open>
  The memory of the running panel that guards the login: attempts per address and failures per account
  (instants), and the TOTP codes accepted lately. It is lost with the process.
\<close>

record login_guard =
  grd_attempts :: "string \<Rightarrow> int list option"
  grd_fails :: "string \<Rightarrow> int list option"
  grd_totp :: "string \<Rightarrow> int option"

text \<open>The tables of \<open>site_advanced.go\<close>, \<open>cloudflare.go\<close>, \<open>job_logs.go\<close>, \<open>agents.go\<close> and \<open>security_baseline.go\<close>.\<close>

record SiteVhost =
  vho_id :: int
  vho_site :: int
  vho_config :: string
  vho_updated_at :: int

record SiteVarnish =
  vnh_id :: int
  vnh_site :: int
  vnh_enabled :: bool
  vnh_cache_time :: int
  vnh_hit_rate :: string
  vnh_backend_host :: string
  vnh_backend_port :: int
  vnh_updated_at :: int

record SiteSSHUser =
  ssu_id :: int
  ssu_site :: int
  ssu_username :: string
  ssu_password :: string
  ssu_keys :: string
  ssu_private_key :: string
  ssu_public_key :: string
  ssu_home :: string
  ssu_created_at :: int

record SiteCronJob =
  crn_id :: int
  crn_site :: int
  crn_schedule :: string
  crn_command :: string
  crn_created_at :: int

record CloudflareConfig =
  cfc_id :: int
  cfc_user :: int
  cfc_api_token :: string
  cfc_email :: string

record JobLog =
  jlg_id :: int
  jlg_job :: int
  jlg_line :: int
  jlg_message :: string
  jlg_stream :: string
  jlg_created_at :: int

record RegistrationToken =
  rgt_id :: int
  rgt_hash :: string
  rgt_created_by :: "int option"
  rgt_expires_at :: int
  rgt_used_at :: "int option"
  rgt_created_at :: int

record SecurityBaseline =
  sbl_id :: int
  sbl_server :: int
  sbl_path :: string
  sbl_sha256 :: string
  sbl_mode :: string
  sbl_uid :: int
  sbl_size :: int
  sbl_updated_at :: int

text \<open>A request to the agent of a server: method, URL, bearer token and body.\<close>

record agent_call =
  agc_method :: string
  agc_url :: string
  agc_token :: string
  agc_body :: "json option"

record world =
  w_now :: int
  w_faults :: "bool list"
  w_last_rowid :: int
  w_files :: "string list"
  w_fs :: filesys
  w_s3_removed :: "string list"
  w_jobs :: "Job table"
  w_backups :: "Backup table"
  w_sites :: "Site table"
  w_servers :: "Server table"
  w_users :: "User table"
  w_sessions :: "Session table"
  w_tokens :: "ServiceToken table"
  w_recovery :: "RecoveryCode table"
  w_channels :: "AlertChannel table"
  w_alerts :: "Alert table"
  w_databases :: "Database table"
  w_db_users :: "DBUser table"
  w_db_servers :: "DBServer table"
  w_providers :: "Provider table"
  w_user_sites :: "UserSite table"
  w_schedules :: "Schedule table"
  w_configs :: "BackupConfig table"
  w_settings :: "(string \<times> string) list"
  w_audit :: "AuditLog list"
  w_notifications :: "Notification table"
  w_licenses :: "License table"
  w_plans :: "Plan table"
  w_orders :: "LicenseOrder table"
  w_ip_rules :: "IPRestriction table"
  w_security :: "SiteSecurity table"
  w_vhosts :: "SiteVhost table"
  w_varnish :: "SiteVarnish table"
  w_ssh_users :: "SiteSSHUser table"
  w_cron_jobs :: "SiteCronJob table"
  w_cloudflare :: "CloudflareConfig table"
  w_job_logs :: "JobLog table"
  w_registrations :: "RegistrationToken table"
  w_baselines :: "SecurityBaseline table"
  w_calls :: "agent_call list"
  w_guard :: login_guard

type_synonym 'a io = "(world, 'a) state"

section \<open>Tables\<close>

definition empty_table :: "'r table" where
  "empty_table = \<lparr>rows = [], seqno = 0\<rparr>"

definition update_rows :: "('r \<Rightarrow> bool) \<Rightarrow> ('r \<Rightarrow> 'r) \<Rightarrow> 'r table \<Rightarrow> 'r table" where
  "update_rows P f t = t\<lparr>rows := map (\<lambda>r. if P r then f r else r) (rows t)\<rparr>"

definition delete_rows :: "('r \<Rightarrow> bool) \<Rightarrow> 'r table \<Rightarrow> 'r table" where
  "delete_rows P t = t\<lparr>rows := filter (\<lambda>r. \<not> P r) (rows t)\<rparr>"

definition append_row :: "(int \<Rightarrow> 'r) \<Rightarrow> 'r table \<Rightarrow> 'r table" where
  "append_row mk t = \<lparr>rows = rows t @ [mk (seqno t + 1)], seqno = seqno t + 1\<rparr>"

definition count_rows :: "('r \<Rightarrow> bool) \<Rightarrow> 'r table \<Rightarrow> int" where
  "count_rows P t = int (length (filter P (rows t)))"

text \<open>\<open>SELECT ... ORDER BY key\<close> (ascending and descending) and the single row of \<open>QueryRow\<close>.\<close>

definition select_asc :: "('r \<Rightarrow> int) \<Rightarrow> ('r \<Rightarrow> bool) \<Rightarrow> 'r table \<Rightarrow> 'r list" where
  "select_asc key P t = sort_key key (filter P (rows t))"

definition select_desc :: "('r \<Rightarrow> int) \<Rightarrow> ('r \<Rightarrow> bool) \<Rightarrow> 'r table \<Rightarrow> 'r list" where
  "select_desc key P t = sort_key (\<lambda>r. - key r) (filter P (rows t))"

definition find_row :: "('r \<Rightarrow> bool) \<Rightarrow> 'r table \<Rightarrow> 'r option" where
  "find_row P t = List.find P (rows t)"

definition has_row :: "('r \<Rightarrow> bool) \<Rightarrow> 'r table \<Rightarrow> bool" where
  "has_row P t = list_ex P (rows t)"

text \<open>\<open>LIMIT l OFFSET o\<close>; a negative limit is no limit, a negative offset is no offset.\<close>

definition page :: "int \<Rightarrow> int \<Rightarrow> 'a list \<Rightarrow> 'a list" where
  "page limit offset xs =
     (let ys = drop (nat offset) xs in if limit < 0 then ys else take (nat limit) ys)"

text \<open>A column written by \<open>CURRENT_TIMESTAMP\<close> against a bound Go time (see above): \<open>t < cutoff\<close>.\<close>

definition before_go :: "int \<Rightarrow> int \<Rightarrow> bool" where
  "before_go t cutoff \<longleftrightarrow> t \<le> cutoff"

section \<open>Statements\<close>

definition stmt :: "string \<Rightarrow> (world \<Rightarrow> 'a res \<times> world) \<Rightarrow> 'a res io" where
  "stmt label run = State (\<lambda>w.
     case w_faults w of
       [] \<Rightarrow> run w
     | fault # fs \<Rightarrow> if fault then (Inl (SqlError label), w\<lparr>w_faults := fs\<rparr>) else run (w\<lparr>w_faults := fs\<rparr>))"

text \<open>A \<open>SELECT\<close>, an \<open>UPDATE\<close> or \<open>DELETE\<close>, and one whose \<open>RowsAffected\<close> is used.\<close>

definition query :: "string \<Rightarrow> (world \<Rightarrow> 'a) \<Rightarrow> 'a res io" where
  "query label q = stmt label (\<lambda>w. (Inr (q w), w))"

definition exec :: "string \<Rightarrow> (world \<Rightarrow> world) \<Rightarrow> unit res io" where
  "exec label f = stmt label (\<lambda>w. (Inr (), f w))"

definition exec_count :: "string \<Rightarrow> (world \<Rightarrow> int) \<Rightarrow> (world \<Rightarrow> world) \<Rightarrow> int res io" where
  "exec_count label cnt f = stmt label (\<lambda>w. (Inr (cnt w), f w))"

text \<open>
  An \<open>INSERT\<close> whose constraints hold adds the row under the next id and gives that id; otherwise the
  statement fails. \<open>tbl\<close> and \<open>upd\<close> are the table's selector and update.
\<close>

definition insert_row ::
  "string \<Rightarrow> (world \<Rightarrow> 'r table) \<Rightarrow> (('r table \<Rightarrow> 'r table) \<Rightarrow> world \<Rightarrow> world) \<Rightarrow>
   (world \<Rightarrow> bool) \<Rightarrow> (world \<Rightarrow> int \<Rightarrow> 'r) \<Rightarrow> int res io" where
  "insert_row label tbl upd ok mk = stmt label (\<lambda>w.
     if ok w
     then let id = seqno (tbl w) + 1
          in (Inr id, (upd (append_row (mk w)) w)\<lparr>w_last_rowid := id\<rparr>)
     else (Inl (SqlError label), w))"

text \<open>\<open>os.Remove(path)\<close>: whether it succeeded.\<close>

definition os_remove :: "string \<Rightarrow> bool io" where
  "os_remove path = State (\<lambda>w.
     if path \<in> set (w_files w) then (True, w\<lparr>w_files := removeAll path (w_files w)\<rparr>) else (False, w))"

text \<open>\<open>aws s3 rm path\<close>: the call is recorded, its outcome is only logged by the code.\<close>

definition aws_s3_rm :: "string \<Rightarrow> unit io" where
  "aws_s3_rm path = State (\<lambda>w. ((), w\<lparr>w_s3_removed := w_s3_removed w @ [path]\<rparr>))"

text \<open>
  A call that changes the file system, with whether it succeeded, and one that reads it; an I/O error is a
  verdict of the script.
\<close>

definition fs_exec :: "(filesys \<Rightarrow> filesys \<times> bool) \<Rightarrow> bool io" where
  "fs_exec f = do {
     r \<leftarrow> stmt ''file'' (\<lambda>w. case f (w_fs w) of (fs, ok) \<Rightarrow> (Inr ok, w\<lparr>w_fs := fs\<rparr>));
     State_Monad.return (r = Inr True)
   }"

definition fs_query :: "(filesys \<Rightarrow> 'a) \<Rightarrow> 'a res io" where
  "fs_query q = query ''file'' (\<lambda>w. q (w_fs w))"

definition fs_look :: "(filesys \<Rightarrow> 'a) \<Rightarrow> 'a io" where
  "fs_look q = State (\<lambda>w. (q (w_fs w), w))"

text \<open>A call with an optional new state, as one with a verdict.\<close>

definition if_done :: "(filesys \<Rightarrow> filesys option) \<Rightarrow> filesys \<Rightarrow> filesys \<times> bool" where
  "if_done f fs = (case f fs of None \<Rightarrow> (fs, False) | Some fs' \<Rightarrow> (fs', True))"

definition now :: "int io" where
  "now = State (\<lambda>w. (w_now w, w))"

definition skip :: "unit io" where
  "skip = State_Monad.return ()"

text \<open>A \<open>for range\<close> loop whose body neither returns nor breaks.\<close>

fun for_each :: "('a \<Rightarrow> unit io) \<Rightarrow> 'a list \<Rightarrow> unit io" where
  "for_each body [] = skip"
| "for_each body (x # xs) = do { _ \<leftarrow> body x; for_each body xs }"

text \<open>A freshly migrated database at time \<open>t\<close>, for concrete runs.\<close>

definition fresh_world :: "int \<Rightarrow> world" where
  "fresh_world t = \<lparr>w_now = t, w_faults = [], w_last_rowid = 0, w_files = [], w_fs = [], w_s3_removed = [],
     w_jobs = empty_table, w_backups = empty_table, w_sites = empty_table, w_servers = empty_table,
     w_users = empty_table, w_sessions = empty_table, w_tokens = empty_table, w_recovery = empty_table,
     w_channels = empty_table, w_alerts = empty_table, w_databases = empty_table, w_db_users = empty_table,
     w_db_servers = empty_table, w_providers = empty_table, w_user_sites = empty_table,
     w_schedules = empty_table, w_configs = empty_table, w_settings = [], w_audit = [],
     w_notifications = empty_table, w_licenses = empty_table, w_plans = empty_table, w_orders = empty_table,
     w_ip_rules = empty_table, w_security = empty_table,
     w_vhosts = empty_table, w_varnish = empty_table, w_ssh_users = empty_table, w_cron_jobs = empty_table,
     w_cloudflare = empty_table, w_job_logs = empty_table, w_registrations = empty_table, w_baselines = empty_table,
     w_calls = [],
     w_guard = \<lparr>grd_attempts = (\<lambda>_. None), grd_fails = (\<lambda>_. None), grd_totp = (\<lambda>_. None)\<rparr>\<rparr>"

section \<open>Running programs\<close>

definition nofault :: "world \<Rightarrow> bool" where
  "nofault w \<longleftrightarrow> w_faults w = []"

lemma run_skip [simp]: "run_state skip w = ((), w)"
  by (simp add: skip_def)

lemma run_now [simp]: "run_state now w = (w_now w, w)"
  by (simp add: now_def)

lemma run_for_each_Cons [simp]:
  "run_state (for_each body (x # xs)) w = run_state (for_each body xs) (snd (run_state (body x) w))"
  by (simp split: prod.splits)

lemma run_query [simp]: "w_faults w = [] \<Longrightarrow> run_state (query l q) w = (Inr (q w), w)"
  by (simp add: query_def stmt_def)

lemma run_exec [simp]: "w_faults w = [] \<Longrightarrow> run_state (exec l f) w = (Inr (), f w)"
  by (simp add: exec_def stmt_def)

lemma run_exec_count [simp]: "w_faults w = [] \<Longrightarrow> run_state (exec_count l c f) w = (Inr (c w), f w)"
  by (simp add: exec_count_def stmt_def)

lemma run_insert_row [simp]:
  "w_faults w = [] \<Longrightarrow> ok w \<Longrightarrow> run_state (insert_row l tbl upd ok mk) w =
     (Inr (seqno (tbl w) + 1), (upd (append_row (mk w)) w)\<lparr>w_last_rowid := seqno (tbl w) + 1\<rparr>)"
  by (simp add: insert_row_def stmt_def Let_def)

lemma run_insert_row_refused [simp]:
  "w_faults w = [] \<Longrightarrow> \<not> ok w \<Longrightarrow> run_state (insert_row l tbl upd ok mk) w = (Inl (SqlError l), w)"
  by (simp add: insert_row_def stmt_def)

lemma faults_id: "w\<lparr>w_faults := w_faults w\<rparr> = w"
  by simp

lemma exec_cases:
  obtains (failed) fs where "run_state (exec l f) w = (Inl (SqlError l), w\<lparr>w_faults := fs\<rparr>)"
  | (ran) fs where "run_state (exec l f) w = (Inr (), f (w\<lparr>w_faults := fs\<rparr>))"
proof (cases "w_faults w")
  case Nil
  then have "run_state (exec l f) w = (Inr (), f (w\<lparr>w_faults := w_faults w\<rparr>))"
    unfolding faults_id by simp
  then show thesis by (rule ran)
next
  case (Cons b fs)
  then show thesis using failed [of fs] ran [of fs] by (cases b) (simp_all add: exec_def stmt_def)
qed

lemma query_cases:
  obtains (failed) fs where "run_state (query l q) w = (Inl (SqlError l), w\<lparr>w_faults := fs\<rparr>)"
  | (ran) fs where "run_state (query l q) w = (Inr (q (w\<lparr>w_faults := fs\<rparr>)), w\<lparr>w_faults := fs\<rparr>)"
proof (cases "w_faults w")
  case Nil
  then have "run_state (query l q) w = (Inr (q (w\<lparr>w_faults := w_faults w\<rparr>)), w\<lparr>w_faults := w_faults w\<rparr>)"
    unfolding faults_id by simp
  then show thesis by (rule ran)
next
  case (Cons b fs)
  then show thesis using failed [of fs] ran [of fs] by (cases b) (simp_all add: query_def stmt_def)
qed

lemma rows_update_rows [simp]: "rows (update_rows P f t) = map (\<lambda>r. if P r then f r else r) (rows t)"
  by (simp add: update_rows_def)

lemma seqno_update_rows [simp]: "seqno (update_rows P f t) = seqno t"
  by (simp add: update_rows_def)

lemma rows_delete_rows [simp]: "rows (delete_rows P t) = filter (\<lambda>r. \<not> P r) (rows t)"
  by (simp add: delete_rows_def)

lemma seqno_delete_rows [simp]: "seqno (delete_rows P t) = seqno t"
  by (simp add: delete_rows_def)

lemma rows_append_row [simp]: "rows (append_row mk t) = rows t @ [mk (seqno t + 1)]"
  by (simp add: append_row_def)

lemma seqno_append_row [simp]: "seqno (append_row mk t) = seqno t + 1"
  by (simp add: append_row_def)

lemma find_row_Some: "find_row P t = Some r \<Longrightarrow> r \<in> set (rows t) \<and> P r"
  by (auto simp: find_row_def find_Some_iff in_set_conv_nth)

lemma find_row_None: "find_row P t = None \<longleftrightarrow> (\<forall>r \<in> set (rows t). \<not> P r)"
  by (auto simp: find_row_def find_None_iff)

lemma has_row_iff: "has_row P t \<longleftrightarrow> (\<exists>r \<in> set (rows t). P r)"
  by (simp add: has_row_def list_ex_iff)

lemma set_select_asc [simp]: "set (select_asc k P t) = {r \<in> set (rows t). P r}"
  by (auto simp: select_asc_def)

lemma set_select_desc [simp]: "set (select_desc k P t) = {r \<in> set (rows t). P r}"
  by (auto simp: select_desc_def)

section \<open>Rows by id\<close>

text \<open>\<open>WHERE id = ?\<close>: the row under an id, and the tables \<open>AUTOINCREMENT\<close> keys make.\<close>

definition by_id :: "('r \<Rightarrow> int) \<Rightarrow> int \<Rightarrow> 'r table \<Rightarrow> 'r option" where
  "by_id key i t = find_row (\<lambda>r. key r = i) t"

definition wf_table :: "('r \<Rightarrow> int) \<Rightarrow> 'r table \<Rightarrow> bool" where
  "wf_table key t \<longleftrightarrow> distinct (map key (rows t)) \<and> list_all (\<lambda>r. 0 < key r \<and> key r \<le> seqno t) (rows t) \<and> 0 \<le> seqno t"

lemma wf_empty [simp]: "wf_table key empty_table"
  by (simp add: wf_table_def empty_table_def)

lemma wf_update_rows:
  assumes "wf_table key t" and "\<And>r. key (f r) = key r"
  shows "wf_table key (update_rows P f t)"
proof -
  have "map key (map (\<lambda>r. if P r then f r else r) (rows t)) = map key (rows t)"
    by (auto simp: assms(2))
  moreover have "list_all (\<lambda>r. 0 < key r \<and> key r \<le> seqno t) (map (\<lambda>r. if P r then f r else r) (rows t))"
    using assms by (auto simp: wf_table_def list_all_iff)
  ultimately show ?thesis using assms(1) by (simp add: wf_table_def del: map_map)
qed

lemma wf_delete_rows: "wf_table key t \<Longrightarrow> wf_table key (delete_rows P t)"
  by (auto simp: wf_table_def distinct_map_filter list_all_iff)

lemma wf_append_row:
  assumes "wf_table key t" and "key (mk (seqno t + 1)) = seqno t + 1"
  shows "wf_table key (append_row mk t)"
  using assms by (auto simp: wf_table_def list_all_iff)

lemma by_id_Some: "by_id key i t = Some r \<Longrightarrow> r \<in> set (rows t) \<and> key r = i"
  unfolding by_id_def by (rule find_row_Some)

lemma by_id_None: "by_id key i t = None \<longleftrightarrow> i \<notin> key ` set (rows t)"
  by (auto simp: by_id_def find_row_None)

lemma by_id_wf:
  assumes "wf_table key t"
  shows "by_id key i t = Some r \<longleftrightarrow> r \<in> set (rows t) \<and> key r = i"
proof
  assume r: "r \<in> set (rows t) \<and> key r = i"
  then obtain r' where r': "by_id key i t = Some r'" using by_id_None [of key i t] by (cases "by_id key i t") auto
  from by_id_Some [OF r'] have "r' \<in> set (rows t)" "key r' = key r" using r by auto
  moreover from assms have "inj_on key (set (rows t))" by (simp add: wf_table_def distinct_map)
  ultimately have "r' = r" using r by (blast dest: inj_onD)
  with r' show "by_id key i t = Some r" by simp
qed (rule by_id_Some)

lemma find_map:
  assumes "\<And>r. P (f r) = P r"
  shows "List.find P (map f xs) = map_option f (List.find P xs)"
  by (induction xs) (auto simp: assms)

lemma by_id_update_rows:
  assumes "\<And>r. key (f r) = key r"
  shows "by_id key i (update_rows P f t) = map_option (\<lambda>r. if P r then f r else r) (by_id key i t)"
  unfolding by_id_def find_row_def rows_update_rows by (rule find_map) (simp add: assms)

lemma find_append: "List.find P (xs @ ys) = (case List.find P xs of None \<Rightarrow> List.find P ys | Some x \<Rightarrow> Some x)"
  by (induction xs) auto

lemma by_id_append_row:
  assumes "wf_table key t" and "key (mk (seqno t + 1)) = seqno t + 1"
  shows "by_id key i (append_row mk t) = (if i = seqno t + 1 then Some (mk i) else by_id key i t)"
proof -
  have wf: "wf_table key (append_row mk t)" using assms by (rule wf_append_row)
  show ?thesis
  proof (cases "i = seqno t + 1")
    case True
    with assms(2) show ?thesis by (simp add: by_id_wf [OF wf])
  next
    case False
    with assms(2) have "find_row (\<lambda>r. key r = i) (append_row mk t) = find_row (\<lambda>r. key r = i) t"
      by (simp add: find_row_def find_append split: option.splits)
    with False show ?thesis by (simp add: by_id_def)
  qed
qed

section \<open>Invariants of the store\<close>

definition preserves :: "(world \<Rightarrow> bool) \<Rightarrow> 'a io \<Rightarrow> bool" where
  "preserves I m \<longleftrightarrow> (\<forall>w. I w \<longrightarrow> I (snd (run_state m w)))"

lemma preservesD: "preserves I m \<Longrightarrow> I w \<Longrightarrow> I (snd (run_state m w))"
  by (simp add: preserves_def)

lemma preservesI: "(\<And>w. I w \<Longrightarrow> I (snd (run_state m w))) \<Longrightarrow> preserves I m"
  by (simp add: preserves_def)

text \<open>
  The contract of an invariant the store operations may keep: it survives the use of a verdict of the
  fault script and is not about the connection or the files. Inside, the rules that carry it through
  programs.
\<close>

locale store_invariant =
  fixes I :: "world \<Rightarrow> bool"
  assumes faults: "w_faults w = b # fs \<Longrightarrow> I w \<Longrightarrow> I (w\<lparr>w_faults := fs\<rparr>)"
    and rowid: "I (w\<lparr>w_last_rowid := i\<rparr>) = I w"
    and files: "I (w\<lparr>w_files := ps\<rparr>) = I w"
    and s3_removed: "I (w\<lparr>w_s3_removed := ps\<rparr>) = I w"
begin

lemma keep_return [intro, simp]: "preserves I (State_Monad.return x)"
  by (simp add: preserves_def)

lemma keep_skip [intro, simp]: "preserves I skip"
  by (simp add: preserves_def)

lemma keep_now [intro, simp]: "preserves I now"
  by (simp add: preserves_def)

lemma keep_bind [intro]:
  assumes "preserves I m" and "\<And>x. preserves I (f x)"
  shows "preserves I (State_Monad.bind m f)"
proof (rule preservesI)
  fix w assume w: "I w"
  obtain x w' where m: "run_state m w = (x, w')" by (cases "run_state m w")
  with preservesD [OF assms(1) w] have "I w'" by simp
  with m preservesD [OF assms(2)] show "I (snd (run_state (State_Monad.bind m f) w))" by simp
qed

lemma keep_stmt:
  assumes "\<And>w. I w \<Longrightarrow> I (snd (f w))"
  shows "preserves I (stmt label f)"
  using assms by (auto simp: preserves_def stmt_def intro: faults split: list.splits)

lemma keep_query [intro, simp]: "preserves I (query label q)"
  unfolding query_def by (rule keep_stmt) simp

lemma keep_exec:
  assumes "\<And>w. I w \<Longrightarrow> I (f w)"
  shows "preserves I (exec label f)"
  unfolding exec_def by (rule keep_stmt) (simp add: assms)

lemma keep_exec_count:
  assumes "\<And>w. I w \<Longrightarrow> I (f w)"
  shows "preserves I (exec_count label cnt f)"
  unfolding exec_count_def by (rule keep_stmt) (simp add: assms)

lemma keep_insert_row:
  assumes "\<And>w. I w \<Longrightarrow> ok w \<Longrightarrow> I (upd (append_row (mk w)) w)"
  shows "preserves I (insert_row label tbl upd ok mk)"
  unfolding insert_row_def by (rule keep_stmt) (simp add: assms rowid Let_def)

lemma keep_os_remove [intro, simp]: "preserves I (os_remove path)"
  by (simp add: preserves_def os_remove_def files)

lemma keep_aws_s3_rm [intro, simp]: "preserves I (aws_s3_rm path)"
  by (simp add: preserves_def aws_s3_rm_def s3_removed)

lemma keep_for_each [intro]:
  assumes "\<And>x. x \<in> set xs \<Longrightarrow> preserves I (body x)"
  shows "preserves I (for_each body xs)"
  using assms
proof (induction xs)
  case Nil
  then show ?case by simp
next
  case (Cons x xs)
  then have "preserves I (body x)" and "preserves I (for_each body xs)" by auto
  then show ?case by (simp add: keep_bind)
qed

lemma keep_if [intro]:
  "(b \<Longrightarrow> preserves I m) \<Longrightarrow> (\<not> b \<Longrightarrow> preserves I n) \<Longrightarrow> preserves I (if b then m else n)"
  by simp

lemma keep_sum [intro]:
  "(\<And>e. r = Inl e \<Longrightarrow> preserves I (f e)) \<Longrightarrow> (\<And>x. r = Inr x \<Longrightarrow> preserves I (g x)) \<Longrightarrow>
   preserves I (case r of Inl e \<Rightarrow> f e | Inr x \<Rightarrow> g x)"
  by (simp split: sum.splits)

lemma keep_option [intro]:
  "preserves I m \<Longrightarrow> (\<And>x. opt = Some x \<Longrightarrow> preserves I (g x)) \<Longrightarrow>
   preserves I (case opt of None \<Rightarrow> m | Some x \<Rightarrow> g x)"
  by (simp split: option.splits)

lemma keep_prod [intro]:
  "(\<And>x y. p = (x, y) \<Longrightarrow> preserves I (g x y)) \<Longrightarrow> preserves I (case p of (x, y) \<Rightarrow> g x y)"
  by (simp split: prod.splits)

lemmas keep_rules = keep_return keep_skip keep_now keep_query keep_os_remove keep_aws_s3_rm keep_bind keep_for_each
  keep_if keep_sum keep_option keep_prod

end

text \<open>An invariant of the backup records alone fulfils the contract.\<close>

lemma store_invariant_backups:
  assumes "\<And>w w'. w_backups w' = w_backups w \<Longrightarrow> I w' = I w"
  shows "store_invariant I"
proof
  show "I (w\<lparr>w_faults := fs\<rparr>)" if "I w" for w fs using assms [of "w\<lparr>w_faults := fs\<rparr>" w] that by simp
qed (rule assms; simp)+

end
