(* ===== verification/Secrets.thy ===== *)
theory Secrets
  imports World
begin

text \<open>
  \<open>internal/secrets\<close>: the encryption of credential fields in stored job payloads, and the redaction
  of the same fields in API answers (\<open>internal/apihttp/jobs.go\<close>). AES-GCM with base64 is a parameter:
  \<open>cr_seal p\<close> is what \<open>Seal\<close> and base64 make of \<open>p\<close> under the nonce drawn (\<open>None\<close>: no randomness),
  \<open>cr_open c\<close> its inverse (\<open>None\<close>: not authentic). What the code relies on is \<open>crypto_ok\<close>.
\<close>

record crypto =
  cr_seal :: "string \<Rightarrow> string option"
  cr_open :: "string \<Rightarrow> string option"

definition crypto_ok :: "crypto \<Rightarrow> bool" where
  "crypto_ok k \<longleftrightarrow> (\<forall>p c. cr_seal k p = Some c \<longrightarrow> cr_open k c = Some p)"

definition enc_prefix :: string where
  "enc_prefix = ''enc:v1:''"

definition SensitiveKeys :: "string list" where
  "SensitiveKeys = [''access_key'', ''secret_key'', ''db_password'', ''password'', ''secret'', ''token'']"

definition Encrypt :: "crypto \<Rightarrow> string \<Rightarrow> string option" where
  "Encrypt k plaintext =
     (if plaintext = [] then Some []
      else map_option (\<lambda>ct. enc_prefix @ ct) (cr_seal k plaintext))"

definition IsEncrypted :: "string \<Rightarrow> bool" where
  "IsEncrypted v \<longleftrightarrow> has_prefix v enc_prefix"

definition Decrypt :: "crypto \<Rightarrow> string \<Rightarrow> string option" where
  "Decrypt k v =
     (if \<not> has_prefix v enc_prefix then Some v
      else cr_open k (trim_prefix v enc_prefix))"

definition encryptStr :: "crypto \<Rightarrow> string \<Rightarrow> string option" where
  "encryptStr k s = (if IsEncrypted s then Some s else Encrypt k s)"

text \<open>\<open>walk\<close>; a failing element makes the whole walk fail.\<close>

fun walk :: "(string \<Rightarrow> string option) \<Rightarrow> bool \<Rightarrow> json \<Rightarrow> json option"
  and walk_fields :: "(string \<Rightarrow> string option) \<Rightarrow> (string \<times> json) list \<Rightarrow> (string \<times> json) list option"
  and walk_list :: "(string \<Rightarrow> string option) \<Rightarrow> bool \<Rightarrow> json list \<Rightarrow> json list option" where
  "walk fn sensitive (JObj kvs) = map_option JObj (walk_fields fn kvs)"
| "walk fn sensitive (JArr vs) = map_option JArr (walk_list fn sensitive vs)"
| "walk fn sensitive (JStr s) = (if sensitive then map_option JStr (fn s) else Some (JStr s))"
| "walk fn sensitive JNull = Some JNull"
| "walk fn sensitive (JBool b) = Some (JBool b)"
| "walk fn sensitive (JNum n) = Some (JNum n)"
| "walk_fields fn [] = Some []"
| "walk_fields fn ((k, v) # kvs) =
     (case walk fn (k \<in> set SensitiveKeys) v of
        None \<Rightarrow> None
      | Some v' \<Rightarrow> map_option ((#) (k, v')) (walk_fields fn kvs))"
| "walk_list fn sensitive [] = Some []"
| "walk_list fn sensitive (v # vs) =
     (case walk fn sensitive v of
        None \<Rightarrow> None
      | Some v' \<Rightarrow> map_option ((#) v') (walk_list fn sensitive vs))"

fun transformPayload :: "(string \<Rightarrow> string option) \<Rightarrow> jtext \<Rightarrow> jtext option" where
  "transformPayload fn (Raw s) = Some (Raw s)"
| "transformPayload fn (Json v) = map_option Json (walk fn False v)"

definition EncryptPayload :: "crypto \<Rightarrow> jtext \<Rightarrow> jtext option" where
  "EncryptPayload k p = transformPayload (encryptStr k) p"

definition DecryptPayload :: "crypto \<Rightarrow> jtext \<Rightarrow> jtext option" where
  "DecryptPayload k p = transformPayload (Decrypt k) p"

definition sensitivePayloadKeys :: "string list" where
  "sensitivePayloadKeys =
     [''access_key'', ''secret_key'', ''db_password'', ''password'', ''secret'', ''token'']"

fun redactValue :: "json \<Rightarrow> json"
  and redact_fields :: "(string \<times> json) list \<Rightarrow> (string \<times> json) list"
  and redact_list :: "json list \<Rightarrow> json list" where
  "redactValue (JObj kvs) = JObj (redact_fields kvs)"
| "redactValue (JArr vs) = JArr (redact_list vs)"
| "redactValue JNull = JNull"
| "redactValue (JBool b) = JBool b"
| "redactValue (JNum n) = JNum n"
| "redactValue (JStr s) = JStr s"
| "redact_fields [] = []"
| "redact_fields ((k, v) # kvs) =
     (k, if k \<in> set sensitivePayloadKeys then JStr ''[REDACTED]'' else redactValue v) # redact_fields kvs"
| "redact_list [] = []"
| "redact_list (v # vs) = redactValue v # redact_list vs"

fun redactSensitivePayload :: "jtext \<Rightarrow> jtext" where
  "redactSensitivePayload (Raw s) = Raw s"
| "redactSensitivePayload (Json v) = Json (redactValue v)"

section \<open>What is left in plain text\<close>

text \<open>
  The strings a reader of the payload sees under a sensitive key (arrays under it included), whatever
  their nesting.
\<close>

fun secret_strings :: "bool \<Rightarrow> json \<Rightarrow> string list"
  and secret_fields :: "(string \<times> json) list \<Rightarrow> string list"
  and secret_list :: "bool \<Rightarrow> json list \<Rightarrow> string list" where
  "secret_strings b (JObj kvs) = secret_fields kvs"
| "secret_strings b (JArr vs) = secret_list b vs"
| "secret_strings b (JStr s) = (if b then [s] else [])"
| "secret_strings b JNull = []"
| "secret_strings b (JBool x) = []"
| "secret_strings b (JNum n) = []"
| "secret_fields [] = []"
| "secret_fields ((k, v) # kvs) = secret_strings (k \<in> set SensitiveKeys) v @ secret_fields kvs"
| "secret_list b [] = []"
| "secret_list b (v # vs) = secret_strings b v @ secret_list b vs"

fun stored_secrets :: "jtext \<Rightarrow> string list" where
  "stored_secrets (Raw s) = []"
| "stored_secrets (Json v) = secret_strings False v"

section \<open>Lemmas\<close>

lemma encryptStr_result: "encryptStr k s = Some c \<Longrightarrow> c = [] \<or> IsEncrypted c"
  by (auto simp: encryptStr_def Encrypt_def IsEncrypted_def split: if_splits)

lemma Decrypt_encryptStr:
  assumes "crypto_ok k" "encryptStr k s = Some c"
  shows "Decrypt k c = Decrypt k s"
  using assms
  by (auto simp: encryptStr_def Encrypt_def Decrypt_def IsEncrypted_def crypto_ok_def trim_prefix_def
      enc_prefix_def split: if_splits)

lemma encryptStr_idem: "encryptStr k s = Some c \<Longrightarrow> encryptStr k c = Some c"
  by (auto simp: encryptStr_def Encrypt_def IsEncrypted_def split: if_splits)

lemma walk_result:
  assumes "\<And>s c. fn s = Some c \<Longrightarrow> P c"
  shows "walk fn b v = Some v' \<Longrightarrow> list_all P (secret_strings b v')"
    and "walk_fields fn kvs = Some kvs' \<Longrightarrow> list_all P (secret_fields kvs')"
    and "walk_list fn b vs = Some vs' \<Longrightarrow> list_all P (secret_list b vs')"
  by (induction b v and kvs and b vs arbitrary: v' and kvs' and vs'
      rule: secret_strings_secret_fields_secret_list.induct)
     (use assms in \<open>auto split: if_splits option.splits\<close>)

lemma walk_compose:
  assumes "\<And>s c. fn s = Some c \<Longrightarrow> gn c = hn s"
  shows "walk fn b v = Some v' \<Longrightarrow> walk gn b v' = walk hn b v"
    and "walk_fields fn kvs = Some kvs' \<Longrightarrow> walk_fields gn kvs' = walk_fields hn kvs"
    and "walk_list fn b vs = Some vs' \<Longrightarrow> walk_list gn b vs' = walk_list hn b vs"
  by (induction b v and kvs and b vs arbitrary: v' and kvs' and vs'
      rule: secret_strings_secret_fields_secret_list.induct)
     (use assms in \<open>auto split: if_splits option.splits\<close>)

lemma walk_identity:
  assumes "\<And>s. P s \<Longrightarrow> fn s = Some s"
  shows "list_all P (secret_strings b v) \<Longrightarrow> walk fn b v = Some v"
    and "list_all P (secret_fields kvs) \<Longrightarrow> walk_fields fn kvs = Some kvs"
    and "list_all P (secret_list b vs) \<Longrightarrow> walk_list fn b vs = Some vs"
  by (induction b v and kvs and b vs rule: secret_strings_secret_fields_secret_list.induct)
     (use assms in auto)

lemma keys_agree: "sensitivePayloadKeys = SensitiveKeys"
  by (simp add: sensitivePayloadKeys_def SensitiveKeys_def)

lemma walk_redact:
  shows "walk fn b v = Some v' \<Longrightarrow> \<not> b \<Longrightarrow> redactValue v' = redactValue v"
    and "walk_fields fn kvs = Some kvs' \<Longrightarrow> redact_fields kvs' = redact_fields kvs"
    and "walk_list fn b vs = Some vs' \<Longrightarrow> \<not> b \<Longrightarrow> redact_list vs' = redact_list vs"
  by (induction fn b v and fn kvs and fn b vs arbitrary: v' and kvs' and vs'
      rule: walk_walk_fields_walk_list.induct)
     (auto simp: keys_agree split: if_splits option.splits)

lemma redacted_strings:
  shows "\<not> b \<Longrightarrow> list_all (\<lambda>s. s = ''[REDACTED]'') (secret_strings b (redactValue v))"
    and "list_all (\<lambda>s. s = ''[REDACTED]'') (secret_fields (redact_fields kvs))"
    and "\<not> b \<Longrightarrow> list_all (\<lambda>s. s = ''[REDACTED]'') (secret_list b (redact_list vs))"
  by (induction b v and kvs and b vs rule: secret_strings_secret_fields_secret_list.induct)
     (auto simp: keys_agree)

section \<open>Properties\<close>


definition demo_crypto :: crypto where
  "demo_crypto = \<lparr>cr_seal = (\<lambda>p. Some (rev p)), cr_open = (\<lambda>c. Some (rev c))\<rparr>"

definition demo_payload :: jtext where
  "demo_payload = Json (JObj [(''db_password'', JStr ''pw''), (''s3_config'', JObj [(''secret_key'', JStr ''sk'')])])"

definition demo_sealed :: jtext where
  "demo_sealed = Json (JObj [(''db_password'', JStr ''enc:v1:wp''),
     (''s3_config'', JObj [(''secret_key'', JStr ''enc:v1:ks'')])])"

lemma demo_crypto_ok: "crypto_ok demo_crypto"
  by (simp add: crypto_ok_def demo_crypto_def)

lemma demo_encrypted: "EncryptPayload demo_crypto demo_payload = Some demo_sealed"
  by code_simp


text \<open>C5. What the API shows of a payload holds no credential: every string under a sensitive key is the
  redaction mark, and the view of a stored (encrypted) payload is the view of the original one, so
  redaction and encryption agree on which fields are secret.\<close>

theorem redaction_hides:
  "list_all (\<lambda>s. s = ''[REDACTED]'') (stored_secrets (redactSensitivePayload p))
   \<and> (\<forall>q. EncryptPayload k p = Some q \<longrightarrow> redactSensitivePayload q = redactSensitivePayload p)"
proof (cases p)
  case (Raw s)
  then show ?thesis by (simp add: EncryptPayload_def)
next
  case (Json v)
  then show ?thesis
    using redacted_strings(1) [of False v] walk_redact(1) [of "encryptStr k" False v]
    by (auto simp: EncryptPayload_def)
qed

lemma redaction_hides_witness:
  "list_all (\<lambda>s. s = ''[REDACTED]'') (stored_secrets (redactSensitivePayload demo_payload))
   \<and> redactSensitivePayload demo_sealed = redactSensitivePayload demo_payload"
  using redaction_hides [of demo_payload demo_crypto] demo_encrypted by blast

end
