(* ===== verification/Notify.thy ===== *)
theory Notify
  imports World
begin

text \<open>
  \<open>internal/notify/sender.go\<close>, \<open>notifier.go\<close> and the alert stores of \<open>internal/store/alerts.go\<close>: every enabled
  channel gets an alert row, which ends as sent or failed. What the HTTP and SMTP notifiers do is the
  parameter \<open>deliver\<close>, the error of their \<open>Send\<close>.
\<close>

type_synonym deliver = "AlertChannel \<Rightarrow> string \<Rightarrow> string \<Rightarrow> string \<Rightarrow> goerror"

definition NewNotifier :: "string \<Rightarrow> goerror" where
  "NewNotifier channelType =
     (if channelType \<in> {''telegram'', ''discord'', ''email'', ''webhook''} then nil
      else Some (''unknown channel type: '' @ channelType))"

definition AlertChannels_List :: "AlertChannel list res io" where
  "AlertChannels_List = query ''query alert channels'' (\<lambda>w. select_asc chn_id (\<lambda>_. True) (w_channels w))"

definition Alerts_Create :: "int \<Rightarrow> string \<Rightarrow> string \<Rightarrow> string \<Rightarrow> string \<Rightarrow> int res io" where
  "Alerts_Create channel severity subject message status =
     (let status = (if status = [] then ''pending'' else status)
      in insert_row ''insert alert'' w_alerts w_alerts_update
           (\<lambda>w. has_row (\<lambda>c. chn_id c = channel) (w_channels w))
           (\<lambda>w id. \<lparr>alr_id = id, alr_channel = channel, alr_severity = severity, alr_subject = subject,
                     alr_message = message, alr_status = status, alr_error = None, alr_sent_at = None\<rparr>))"

definition null_string :: "string \<Rightarrow> string option" where
  "null_string s = (if s = [] then None else Some s)"

definition Alerts_MarkSent :: "int \<Rightarrow> unit res io" where
  "Alerts_MarkSent i = exec ''mark alert sent'' (\<lambda>w.
     w_alerts_update (update_rows (\<lambda>a. alr_id a = i)
       (\<lambda>a. a\<lparr>alr_status := ''sent'', alr_sent_at := Some (w_now w)\<rparr>)) w)"

definition Alerts_MarkFailed :: "int \<Rightarrow> string \<Rightarrow> unit res io" where
  "Alerts_MarkFailed i errMsg = exec ''mark alert failed'' (\<lambda>w.
     w_alerts_update (update_rows (\<lambda>a. alr_id a = i)
       (\<lambda>a. a\<lparr>alr_status := ''failed'', alr_error := null_string errMsg\<rparr>)) w)"

definition send_channel :: "deliver \<Rightarrow> string \<Rightarrow> string \<Rightarrow> string \<Rightarrow> AlertChannel \<Rightarrow> unit io" where
  "send_channel deliver severity subject message ch =
     (if \<not> chn_enabled ch then skip
      else do {
        created \<leftarrow> Alerts_Create (chn_id ch) severity subject message ''pending'';
        case created of
          Inl _ \<Rightarrow> skip
        | Inr alert \<Rightarrow>
            (case NewNotifier (chn_type ch) of
               Some err \<Rightarrow> do { _ \<leftarrow> Alerts_MarkFailed alert err; skip }
             | None \<Rightarrow>
                 (case deliver ch severity subject message of
                    Some err \<Rightarrow> do { _ \<leftarrow> Alerts_MarkFailed alert err; skip }
                  | None \<Rightarrow> do { _ \<leftarrow> Alerts_MarkSent alert; skip }))
      })"

definition Send :: "deliver \<Rightarrow> string \<Rightarrow> string \<Rightarrow> string \<Rightarrow> unit io" where
  "Send deliver severity subject message = do {
     channels \<leftarrow> AlertChannels_List;
     case channels of
       Inl _ \<Rightarrow> skip
     | Inr chs \<Rightarrow> for_each (send_channel deliver severity subject message) chs
   }"

text \<open>Sending touches only the alerts: any invariant that does not look at them survives.\<close>

locale alert_frame = store_invariant +
  assumes alerts: "I (w_alerts_update f w) = I w"
begin

lemma keep_Send [intro, simp]: "preserves I (Send deliver severity subject message)"
  unfolding Send_def send_channel_def AlertChannels_List_def Alerts_Create_def Alerts_MarkFailed_def
    Alerts_MarkSent_def Let_def
  by (intro keep_rules keep_exec keep_insert_row) (simp_all add: alerts)

end

end
