(* ===== verification/Jobs.thy ===== *)
theory Jobs
  imports Secrets Notify
begin

text \<open>
  The job queue: \<open>internal/jobmodel/jobs.go\<close> and \<open>internal/store/jobs.go\<close>. Each function of the
  repository is one definition, with the statements it runs in order. \<open>Jobs_Create\<close> takes the job by
  its fields and gives the id the Go code stores in the struct.
\<close>

section \<open>Constants\<close>

abbreviation StatusQueued :: string where "StatusQueued \<equiv> ''queued''"
abbreviation StatusRunning :: string where "StatusRunning \<equiv> ''running''"
abbreviation StatusSucceeded :: string where "StatusSucceeded \<equiv> ''succeeded''"
abbreviation StatusFailed :: string where "StatusFailed \<equiv> ''failed''"
abbreviation StatusCanceled :: string where "StatusCanceled \<equiv> ''canceled''"

abbreviation TypeSiteCreate :: string where "TypeSiteCreate \<equiv> ''site.create''"
abbreviation TypeSSLIssue :: string where "TypeSSLIssue \<equiv> ''ssl.issue''"
abbreviation TypeSSLRenew :: string where "TypeSSLRenew \<equiv> ''ssl.renew''"
abbreviation TypeBackupCreate :: string where "TypeBackupCreate \<equiv> ''backup.create''"
abbreviation TypeBackupRestore :: string where "TypeBackupRestore \<equiv> ''backup.restore''"
abbreviation TypeBackupDelete :: string where "TypeBackupDelete \<equiv> ''backup.delete''"
abbreviation TypeDBBackupCreate :: string where "TypeDBBackupCreate \<equiv> ''db_backup.create''"
abbreviation TypeAppStart :: string where "TypeAppStart \<equiv> ''app.start''"
abbreviation TypeAppStop :: string where "TypeAppStop \<equiv> ''app.stop''"
abbreviation TypeAppRestart :: string where "TypeAppRestart \<equiv> ''app.restart''"

definition all_job_types :: "string list" where
  "all_job_types =
     [''site.create'', ''site.delete'', ''site.deploy'', ''ssl.issue'', ''ssl.renew'', ''ssl.auto-renew'',
      ''nginx.reload'', ''backup.create'', ''backup.restore'', ''backup.upload'', ''database.create'',
      ''database.delete'', ''dbuser.create'', ''dbuser.delete'', ''app.start'', ''app.stop'', ''app.restart'',
      ''db_backup.create'', ''backup.delete'']"

definition terminal :: "string \<Rightarrow> bool" where
  "terminal st \<longleftrightarrow> st \<in> {StatusSucceeded, StatusFailed, StatusCanceled}"

section \<open>Operations\<close>

record NewJob =
  new_server :: "int option"
  new_site :: "int option"
  new_type :: string
  new_status :: string
  new_payload :: jtext
  new_max_attempts :: int
  new_description :: string

definition Jobs_Create :: "crypto \<Rightarrow> NewJob \<Rightarrow> int res io" where
  "Jobs_Create k j =
     (let status = (if new_status j = [] then StatusQueued else new_status j);
          max_attempts = (if new_max_attempts j = 0 then 3 else new_max_attempts j);
          storedPayload = (case EncryptPayload k (new_payload j) of Some enc \<Rightarrow> enc | None \<Rightarrow> new_payload j)
      in insert_row ''insert job'' w_jobs w_jobs_update
           (\<lambda>w. (case new_server j of None \<Rightarrow> True | Some s \<Rightarrow> has_row (\<lambda>r. srv_id r = s) (w_servers w))
              \<and> (case new_site j of None \<Rightarrow> True | Some s \<Rightarrow> has_row (\<lambda>r. ste_id r = s) (w_sites w)))
           (\<lambda>w i. \<lparr>job_id = i, job_server = new_server j, job_site = new_site j, job_type = new_type j,
                    job_status = status, job_payload = storedPayload, job_result = Raw [], job_error = None,
                    job_description = new_description j, job_attempts = 0, job_max_attempts = max_attempts,
                    job_created_at = w_now w, job_updated_at = w_now w, job_started_at = None,
                    job_completed_at = None, job_next_retry_at = None\<rparr>))"

definition Jobs_GetByID :: "int \<Rightarrow> Job option res io" where
  "Jobs_GetByID i = query ''scan job'' (\<lambda>w. by_id job_id i (w_jobs w))"

record JobListFilter =
  flt_server :: int
  flt_site :: int
  flt_status :: string
  flt_type :: string
  flt_limit :: int
  flt_offset :: int

definition Jobs_List :: "JobListFilter \<Rightarrow> Job list res io" where
  "Jobs_List f =
     (let limit = (if flt_limit f \<le> 0 then 100 else flt_limit f)
      in query ''query jobs'' (\<lambda>w. page limit (flt_offset f) (select_desc job_id (\<lambda>j.
           (flt_server f > 0 \<longrightarrow> job_server j = Some (flt_server f))
         \<and> (flt_site f > 0 \<longrightarrow> job_site j = Some (flt_site f))
         \<and> (flt_status f \<noteq> [] \<longrightarrow> job_status j = flt_status f)
         \<and> (flt_type f \<noteq> [] \<longrightarrow> job_type j = flt_type f)) (w_jobs w))))"

definition set_job :: "int \<Rightarrow> (world \<Rightarrow> Job \<Rightarrow> Job) \<Rightarrow> world \<Rightarrow> world" where
  "set_job i f w = w_jobs_update (update_rows (\<lambda>j. job_id j = i) (\<lambda>j. (f w j)\<lparr>job_updated_at := w_now w\<rparr>)) w"

text \<open>The condition of the query of \<open>ClaimNext\<close>.\<close>

definition claimable :: "int \<Rightarrow> string \<Rightarrow> Job \<Rightarrow> bool" where
  "claimable t jobType j \<longleftrightarrow> job_status j = StatusQueued \<and> (jobType \<noteq> [] \<longrightarrow> job_type j = jobType)
     \<and> (case job_next_retry_at j of None \<Rightarrow> True | Some r \<Rightarrow> r \<le> t)"

text \<open>
  The update inside the transaction is visible to nobody before the commit, and a failure anywhere
  rolls it back, so its effect is that of the commit.
\<close>

definition Jobs_ClaimNext :: "string \<Rightarrow> Job option res io" where
  "Jobs_ClaimNext jobType = do {
     tx \<leftarrow> exec ''begin tx'' (\<lambda>w. w);
     case tx of Inl e \<Rightarrow> State_Monad.return (Inl e) | Inr _ \<Rightarrow> do {
       found \<leftarrow> query ''select next job''
         (\<lambda>w. select_asc job_id (claimable (w_now w) jobType) (w_jobs w));
       case found of
         Inl e \<Rightarrow> State_Monad.return (Inl e)
       | Inr [] \<Rightarrow> State_Monad.return (Inr None)
       | Inr (job # _) \<Rightarrow> do {
           upd \<leftarrow> exec ''claim job'' (\<lambda>w. w);
           case upd of Inl e \<Rightarrow> State_Monad.return (Inl e) | Inr _ \<Rightarrow> do {
             commit \<leftarrow> exec ''commit'' (\<lambda>w. set_job (job_id job) (\<lambda>w j.
               j\<lparr>job_status := StatusRunning, job_started_at := Some (w_now w), job_attempts := job_attempts j + 1\<rparr>) w);
             case commit of Inl e \<Rightarrow> State_Monad.return (Inl e)
             | Inr _ \<Rightarrow> State_Monad.return (Inr (Some
                 (job\<lparr>job_status := StatusRunning, job_attempts := job_attempts job + 1\<rparr>)))
           }
         }
     }
   }"

definition Jobs_UpdateStatus :: "int \<Rightarrow> string \<Rightarrow> unit res io" where
  "Jobs_UpdateStatus i status =
     exec ''update job status'' (set_job i (\<lambda>w j. j\<lparr>job_status := status\<rparr>))"

definition Jobs_Cancel :: "int \<Rightarrow> unit res io" where
  "Jobs_Cancel i = exec ''cancel job'' (\<lambda>w. w_jobs_update (update_rows
     (\<lambda>j. job_id j = i \<and> job_status j = StatusQueued)
     (\<lambda>j. j\<lparr>job_status := StatusCanceled, job_updated_at := w_now w\<rparr>)) w)"

definition Jobs_SetError :: "int \<Rightarrow> string \<Rightarrow> unit res io" where
  "Jobs_SetError i errMsg =
     exec ''set job error'' (set_job i (\<lambda>w j. j\<lparr>job_error := null_string errMsg\<rparr>))"

definition Jobs_SetResult :: "int \<Rightarrow> jtext \<Rightarrow> unit res io" where
  "Jobs_SetResult i result =
     exec ''set job result'' (set_job i (\<lambda>w j. j\<lparr>job_result := result\<rparr>))"

definition Jobs_MarkStarted :: "int \<Rightarrow> unit res io" where
  "Jobs_MarkStarted i =
     exec ''mark job started'' (set_job i (\<lambda>w j. j\<lparr>job_started_at := Some (w_now w)\<rparr>))"

definition Jobs_ScheduleRetry :: "int \<Rightarrow> int \<Rightarrow> unit res io" where
  "Jobs_ScheduleRetry i retryAt =
     exec ''schedule retry'' (set_job i (\<lambda>w j.
       j\<lparr>job_status := StatusQueued, job_next_retry_at := Some retryAt\<rparr>))"

definition Jobs_MarkCompleted :: "int \<Rightarrow> bool \<Rightarrow> jtext \<Rightarrow> string \<Rightarrow> unit res io" where
  "Jobs_MarkCompleted i success result errMsg =
     (let status = (if success then StatusSucceeded else StatusFailed)
      in exec ''mark job completed'' (set_job i (\<lambda>w j.
           j\<lparr>job_status := status, job_completed_at := Some (w_now w), job_result := result,
             job_error := null_string errMsg\<rparr>)))"

definition Jobs_HasActiveJob :: "string \<Rightarrow> int \<Rightarrow> bool res io" where
  "Jobs_HasActiveJob jobType siteID = query ''check active job'' (\<lambda>w.
     count_rows (\<lambda>j. job_type j = jobType \<and> job_site j = Some siteID
       \<and> job_status j \<in> {StatusQueued, StatusRunning}) (w_jobs w) > 0)"

definition Jobs_CountRunningByServer :: "int \<Rightarrow> int res io" where
  "Jobs_CountRunningByServer serverID = query ''count running backups'' (\<lambda>w.
     count_rows (\<lambda>j. job_server j = Some serverID \<and> job_status j = StatusRunning
       \<and> job_type j \<in> {TypeBackupCreate, TypeDBBackupCreate}) (w_jobs w))"

definition Jobs_CleanupStuckRunning :: "int \<Rightarrow> int res io" where
  "Jobs_CleanupStuckRunning staleAfter = do {
     t \<leftarrow> now;
     let cutoff = t - staleAfter;
     let stuck = (\<lambda>j. job_status j = StatusRunning \<and> before_go (job_updated_at j) cutoff);
     exec_count ''cleanup stuck jobs'' (\<lambda>w. count_rows stuck (w_jobs w))
       (\<lambda>w. w_jobs_update (update_rows stuck (\<lambda>j.
          j\<lparr>job_status := StatusFailed, job_error := Some ''cleanup: stuck in running state'',
            job_updated_at := w_now w\<rparr>)) w)
   }"

definition Jobs_ScrubTerminalPayloads :: "int \<Rightarrow> int res io" where
  "Jobs_ScrubTerminalPayloads olderThan = do {
     t \<leftarrow> now;
     let cutoff = t - olderThan;
     let old = (\<lambda>j. job_payload j \<noteq> Raw [] \<and> job_status j \<in> {StatusSucceeded, StatusFailed, StatusCanceled}
                  \<and> (case job_completed_at j of Some c \<Rightarrow> c | None \<Rightarrow> job_updated_at j) < cutoff);
     exec_count ''scrub terminal payloads'' (\<lambda>w. count_rows old (w_jobs w))
       (\<lambda>w. w_jobs_update (update_rows old (\<lambda>j. j\<lparr>job_payload := Raw []\<rparr>)) w)
   }"

end
