(* ===== verification/Backups.thy ===== *)
theory Backups
  imports Jobs
begin

text \<open>
  The backup records: \<open>internal/store/backups.go\<close>. The refused insert of \<open>Create\<close> is modelled as SQLite
  runs it: an \<open>INSERT ... SELECT\<close> that selects nothing succeeds, and \<open>LastInsertId\<close> then reports
  \<open>sqlite3_last_insert_rowid\<close> of the connection, the id of its last successful insert into any table
  (one connection is modelled).
\<close>

section \<open>Operations\<close>

definition ErrDuplicateBackup :: err where
  "ErrDuplicateBackup = Fail ''backup already in progress''"

definition active_backup :: "string \<Rightarrow> bool" where
  "active_backup st \<longleftrightarrow> st \<in> {''pending'', ''running'', ''archiving''}"

record NewBackup =
  nbk_site :: int
  nbk_status :: string
  nbk_storage_type :: string
  nbk_storage_path :: "string option"
  nbk_type :: string
  nbk_expires_at :: "int option"

definition new_type_of :: "NewBackup \<Rightarrow> string" where
  "new_type_of b = (if nbk_type b = [] then ''files'' else nbk_type b)"

definition new_status_of :: "NewBackup \<Rightarrow> string" where
  "new_status_of b = (if nbk_status b = [] then ''pending'' else nbk_status b)"

text \<open>The negated condition of the insert: a new active record meets an active one of its site and type.\<close>

definition backup_conflict :: "NewBackup \<Rightarrow> Backup table \<Rightarrow> bool" where
  "backup_conflict b t \<longleftrightarrow> active_backup (new_status_of b)
     \<and> has_row (\<lambda>c. bkp_site c = nbk_site b \<and> bkp_type c = new_type_of b \<and> active_backup (bkp_status c)) t"

definition new_backup_row :: "NewBackup \<Rightarrow> int \<Rightarrow> int \<Rightarrow> Backup" where
  "new_backup_row b t i = \<lparr>bkp_id = i, bkp_site = nbk_site b, bkp_status = new_status_of b,
     bkp_storage_type = (if nbk_storage_type b = [] then ''local'' else nbk_storage_type b),
     bkp_storage_path = nbk_storage_path b, bkp_type = new_type_of b,
     bkp_s3_path = None, bkp_progress = [], bkp_size = 0, bkp_file_count = 0, bkp_error = None,
     bkp_created_at = t, bkp_completed_at = None, bkp_expires_at = None\<rparr>"

text \<open>The statement and the reading of \<open>LastInsertId\<close> after it.\<close>

definition last_insert_result :: "world \<Rightarrow> int res \<times> world" where
  "last_insert_result w = (if w_last_rowid w = 0 then (Inl ErrDuplicateBackup, w) else (Inr (w_last_rowid w), w))"

definition create_backup :: "NewBackup \<Rightarrow> world \<Rightarrow> int res \<times> world" where
  "create_backup b w =
     (if backup_conflict b (w_backups w) then last_insert_result w
      else if \<not> has_row (\<lambda>s. ste_id s = nbk_site b) (w_sites w) then (Inl (SqlError ''insert backup''), w)
      else last_insert_result
        ((w_backups_update (append_row (new_backup_row b (w_now w))) w)\<lparr>w_last_rowid := seqno (w_backups w) + 1\<rparr>))"

definition Backups_Create :: "NewBackup \<Rightarrow> int res io" where
  "Backups_Create b = stmt ''insert backup'' (create_backup b)"

text \<open>A record with the name and domain of its site (the left join of the read queries).\<close>

definition with_site :: "world \<Rightarrow> Backup \<Rightarrow> Backup \<times> string \<times> string" where
  "with_site w b = (case by_id ste_id (bkp_site b) (w_sites w) of
     None \<Rightarrow> (b, [], []) | Some s \<Rightarrow> (b, ste_name s, ste_domain s))"

definition Backups_GetByID :: "int \<Rightarrow> (Backup \<times> string \<times> string) option res io" where
  "Backups_GetByID i = query ''scan backup''
     (\<lambda>w. map_option (with_site w) (by_id bkp_id i (w_backups w)))"

definition set_backup :: "int \<Rightarrow> (Backup \<Rightarrow> Backup) \<Rightarrow> world \<Rightarrow> world" where
  "set_backup i f w = w_backups_update (update_rows (\<lambda>b. bkp_id b = i) f) w"

definition Backups_UpdateStatus :: "int \<Rightarrow> string \<Rightarrow> unit res io" where
  "Backups_UpdateStatus i status =
     exec ''update backup status'' (set_backup i (\<lambda>b. b\<lparr>bkp_status := status\<rparr>))"

definition Backups_UpdateProgress :: "int \<Rightarrow> string \<Rightarrow> unit res io" where
  "Backups_UpdateProgress i progress =
     exec ''update backup progress'' (set_backup i (\<lambda>b. b\<lparr>bkp_progress := progress\<rparr>))"

definition Backups_UpdateS3Path :: "int \<Rightarrow> string \<Rightarrow> unit res io" where
  "Backups_UpdateS3Path i s3Path =
     exec ''update backup s3_path'' (set_backup i (\<lambda>b. b\<lparr>bkp_s3_path := Some s3Path\<rparr>))"

definition Backups_MarkCompleted :: "int \<Rightarrow> int \<Rightarrow> int \<Rightarrow> string \<Rightarrow> unit res io" where
  "Backups_MarkCompleted i sizeBytes fileCount path =
     exec ''mark backup completed'' (\<lambda>w. set_backup i (\<lambda>b. b\<lparr>bkp_status := ''completed'', bkp_size := sizeBytes,
       bkp_file_count := fileCount, bkp_storage_path := null_string path, bkp_progress := ''completed'',
       bkp_completed_at := Some (w_now w)\<rparr>) w)"

definition Backups_MarkFailed :: "int \<Rightarrow> string \<Rightarrow> unit res io" where
  "Backups_MarkFailed i errMsg =
     exec ''mark backup failed'' (\<lambda>w. set_backup i (\<lambda>b. b\<lparr>bkp_status := ''failed'', bkp_error := null_string errMsg,
       bkp_progress := ''failed'', bkp_completed_at := Some (w_now w)\<rparr>) w)"

text \<open>\<open>ROW_NUMBER() OVER (PARTITION BY part ORDER BY ...)\<close> over the rows with \<open>P\<close>, where \<open>before\<close> is the order.\<close>

definition row_number ::
  "('r \<Rightarrow> bool) \<Rightarrow> ('r \<Rightarrow> 'p) \<Rightarrow> ('r \<Rightarrow> 'r \<Rightarrow> bool) \<Rightarrow> 'r table \<Rightarrow> 'r \<Rightarrow> int" where
  "row_number P part before t b = 1 + count_rows (\<lambda>c. P c \<and> part c = part b \<and> before c b) t"

definition oldest :: "int \<Rightarrow> int \<Rightarrow> Backup table \<Rightarrow> Backup \<Rightarrow> bool" where
  "oldest siteID keep t b \<longleftrightarrow> bkp_site b = siteID
     \<and> row_number (\<lambda>c. bkp_site c = siteID) (\<lambda>c. (bkp_site c, bkp_type c)) (\<lambda>c d. bkp_id c > bkp_id d) t b > keep"

definition Backups_DeleteOldest :: "int \<Rightarrow> int \<Rightarrow> Backup list res io" where
  "Backups_DeleteOldest siteID keep = do {
     found \<leftarrow> query ''query oldest backups'' (\<lambda>w. filter (oldest siteID keep (w_backups w)) (rows (w_backups w)));
     case found of
       Inl e \<Rightarrow> State_Monad.return (Inl e)
     | Inr deleted \<Rightarrow>
         if deleted = [] then State_Monad.return (Inr [])
         else do {
           r \<leftarrow> exec ''delete oldest backups'' (\<lambda>w.
             w_backups_update (delete_rows (\<lambda>b. bkp_id b \<in> bkp_id ` set deleted)) w);
           case r of Inl e \<Rightarrow> State_Monad.return (Inl e) | Inr _ \<Rightarrow> State_Monad.return (Inr deleted)
         }
   }"

definition Backups_Delete :: "int \<Rightarrow> unit res io" where
  "Backups_Delete i = exec ''delete backup'' (\<lambda>w. w_backups_update (delete_rows (\<lambda>b. bkp_id b = i)) w)"

definition recency :: "Backup \<Rightarrow> int" where
  "recency b = (case bkp_completed_at b of Some c \<Rightarrow> c | None \<Rightarrow> bkp_created_at b)"

definition newer :: "Backup \<Rightarrow> Backup \<Rightarrow> bool" where
  "newer c b \<longleftrightarrow> recency c > recency b \<or> (recency c = recency b \<and> bkp_id c > bkp_id b)"

text \<open>The subquery of \<open>CleanupExpired\<close> and \<open>ListExpiredLocal\<close>: the newest completed backups of each site.\<close>

definition retained :: "int \<Rightarrow> Backup table \<Rightarrow> Backup \<Rightarrow> bool" where
  "retained keepLast t b \<longleftrightarrow> bkp_status b = ''completed''
     \<and> row_number (\<lambda>c. bkp_status c = ''completed'') bkp_site newer t b \<le> keepLast"

definition expired :: "int \<Rightarrow> int \<Rightarrow> Backup table \<Rightarrow> Backup \<Rightarrow> bool" where
  "expired t keepLast tbl b \<longleftrightarrow> (case bkp_expires_at b of None \<Rightarrow> False | Some e \<Rightarrow> e < t)
     \<and> \<not> retained keepLast tbl b"

text \<open>\<open>storage_path\<close> is set and \<open>NOT LIKE 's3://%'\<close> (\<open>LIKE\<close> ignores case).\<close>

definition local_path :: "string option \<Rightarrow> bool" where
  "local_path p \<longleftrightarrow> (case p of None \<Rightarrow> False | Some s \<Rightarrow> s \<noteq> [] \<and> \<not> has_prefix (to_lower s) ''s3://'')"

record ExpiredLocalBackup =
  elb_id :: int
  elb_server :: "int option"
  elb_site :: int
  elb_path :: string

definition server_of_site :: "world \<Rightarrow> int \<Rightarrow> int option" where
  "server_of_site w siteID = (case by_id ste_id siteID (w_sites w) of
     None \<Rightarrow> None
   | Some s \<Rightarrow> map_option srv_id (by_id srv_id (ste_server s) (w_servers w)))"

definition Backups_ListExpiredLocal :: "int \<Rightarrow> ExpiredLocalBackup list res io" where
  "Backups_ListExpiredLocal keepLast =
     (let keepLast = (if keepLast \<le> 0 then 3 else keepLast)
      in query ''list expired local backups'' (\<lambda>w.
           map (\<lambda>b. \<lparr>elb_id = bkp_id b, elb_server = server_of_site w (bkp_site b), elb_site = bkp_site b,
                     elb_path = (case bkp_storage_path b of None \<Rightarrow> [] | Some p \<Rightarrow> p)\<rparr>)
             (filter (\<lambda>b. expired (w_now w) keepLast (w_backups w) b \<and> local_path (bkp_storage_path b))
               (rows (w_backups w)))))"

definition Backups_CleanupExpired :: "int \<Rightarrow> int res io" where
  "Backups_CleanupExpired keepLast =
     (let keepLast = (if keepLast \<le> 0 then 3 else keepLast)
      in exec_count ''cleanup expired backups''
           (\<lambda>w. count_rows (expired (w_now w) keepLast (w_backups w)) (w_backups w))
           (\<lambda>w. w_backups_update (delete_rows (expired (w_now w) keepLast (w_backups w))) w))"

definition Backups_ClearStoragePath :: "int \<Rightarrow> unit res io" where
  "Backups_ClearStoragePath i = exec ''clear storage path'' (set_backup i (\<lambda>b. b\<lparr>bkp_storage_path := None\<rparr>))"

definition uploaded_local :: "Backup \<Rightarrow> bool" where
  "uploaded_local b \<longleftrightarrow> bkp_status b = ''completed''
     \<and> (case bkp_s3_path b of None \<Rightarrow> False | Some p \<Rightarrow> p \<noteq> []) \<and> local_path (bkp_storage_path b)"

text \<open>One turn of the loop over the uploaded rows, and the loop with its counter.\<close>

definition remove_uploaded :: "int \<times> string \<Rightarrow> bool io" where
  "remove_uploaded r = do {
     ok \<leftarrow> os_remove (snd r);
     if ok then do { _ \<leftarrow> Backups_ClearStoragePath (fst r); State_Monad.return True }
     else State_Monad.return False
   }"

fun remove_all_uploaded :: "int \<Rightarrow> (int \<times> string) list \<Rightarrow> int io" where
  "remove_all_uploaded cleaned [] = State_Monad.return cleaned"
| "remove_all_uploaded cleaned (r # rs) = do {
     ok \<leftarrow> remove_uploaded r;
     remove_all_uploaded (if ok then cleaned + 1 else cleaned) rs
   }"

definition Backups_CleanupLocalAfterS3 :: "int res io" where
  "Backups_CleanupLocalAfterS3 = do {
     found \<leftarrow> query ''select uploaded'' (\<lambda>w.
       map (\<lambda>b. (bkp_id b, the (bkp_storage_path b))) (filter uploaded_local (rows (w_backups w))));
     case found of
       Inl e \<Rightarrow> State_Monad.return (Inl e)
     | Inr rs \<Rightarrow> do { n \<leftarrow> remove_all_uploaded 0 rs; State_Monad.return (Inr n) }
   }"

definition Backups_CleanupStuckRunning :: "int \<Rightarrow> int res io" where
  "Backups_CleanupStuckRunning staleAfter = do {
     t \<leftarrow> now;
     let cutoff = t - staleAfter;
     let stuck = (\<lambda>b. bkp_status b = ''running'' \<and> before_go (bkp_created_at b) cutoff);
     exec_count ''cleanup stuck backups'' (\<lambda>w. count_rows stuck (w_backups w))
       (\<lambda>w. w_backups_update (update_rows stuck (\<lambda>b.
          b\<lparr>bkp_status := ''failed'', bkp_error := Some ''cleanup: stuck in running state'',
            bkp_progress := ''failed'', bkp_completed_at := Some (w_now w)\<rparr>)) w)
   }"

definition Backups_CleanupOrphanedPending :: "int \<Rightarrow> int res io" where
  "Backups_CleanupOrphanedPending olderThan = do {
     t \<leftarrow> now;
     let cutoff = t - olderThan;
     let orphan = (\<lambda>b. bkp_status b = ''pending'' \<and> before_go (bkp_created_at b) cutoff);
     exec_count ''cleanup orphaned pending backups'' (\<lambda>w. count_rows orphan (w_backups w))
       (\<lambda>w. w_backups_update (delete_rows orphan) w)
   }"

end
