(* ===== verification/Registry.thy ===== *)
theory Registry
  imports Backups
begin

text \<open>
  The repositories of the panel's inventory: \<open>internal/store/sites.go\<close>, \<open>servers.go\<close>, \<open>databases.go\<close>,
  \<open>backup_providers.go\<close>, \<open>user_sites.go\<close>, the settings of \<open>backupschedules.go\<close> and the lookups of
  \<open>internal/dbserver/dbserver.go\<close> the backups use. The operating system's answer to \<open>net.Listen\<close> is the
  parameter \<open>listen\<close> (whether the port can be bound).
\<close>

section \<open>Sites\<close>

text \<open>SQLite's \<open>LIKE\<close>, which ignores the case of ASCII letters.\<close>

fun like :: "string \<Rightarrow> string \<Rightarrow> bool" where
  "like [] s = (s = [])"
| "like (p # ps) [] = (p = CHR ''%'' \<and> like ps [])"
| "like (p # ps) (c # s) =
     (if p = CHR ''%'' then like ps (c # s) \<or> like (p # ps) s
      else (p = CHR ''_'' \<or> lower_char p = lower_char c) \<and> like ps s)"

definition Sites_Create :: "Site \<Rightarrow> int res io" where
  "Sites_Create site =
     (let status = (if ste_status site = [] then ''pending'' else ste_status site);
          user = (case ste_system_user site of Some u \<Rightarrow> if u \<noteq> [] then u else ste_domain site
                  | None \<Rightarrow> ste_domain site);
          root = (if ste_root_path site = [] then ''/home/'' @ user @ ''/htdocs/'' @ ste_domain site
                  else ste_root_path site);
          ssl = (case ste_ssl_status site of Some s \<Rightarrow> if s = [] then Some ''none'' else Some s | None \<Rightarrow> Some ''none'');
          mgd = (case ste_managed_by site of Some s \<Rightarrow> if s = [] then Some ''sigardapanel'' else Some s
                 | None \<Rightarrow> Some ''sigardapanel'')
      in insert_row ''insert site'' w_sites w_sites_update
           (\<lambda>w. has_row (\<lambda>s. srv_id s = ste_server site) (w_servers w)
              \<and> (case ste_owner site of None \<Rightarrow> True | Some u \<Rightarrow> has_row (\<lambda>r. usr_id r = u) (w_users w)))
           (\<lambda>w i. site\<lparr>ste_id := i, ste_status := status, ste_root_path := root, ste_ssl_status := ssl,
              ste_managed_by := mgd, ste_ssl_issuer := None, ste_ssl_expires_at := None, ste_ssl_last_check := None,
              ste_git_repo := None, ste_git_branch := Some ''main'', ste_git_commit := None,
              ste_webhook_secret := None, ste_backup_provider := None, ste_created_at := w_now w, ste_updated_at := w_now w\<rparr>))"

definition Sites_GetByID :: "int \<Rightarrow> Site option res io" where
  "Sites_GetByID i = query ''scan site'' (\<lambda>w. by_id ste_id i (w_sites w))"

definition Sites_GetByDomain :: "string \<Rightarrow> Site option res io" where
  "Sites_GetByDomain domain = query ''scan site'' (\<lambda>w. find_row (\<lambda>s. ste_domain s = domain) (w_sites w))"

record SiteListFilter =
  sfl_server :: int
  sfl_owner :: int
  sfl_runtime :: string
  sfl_status :: string
  sfl_search :: string
  sfl_limit :: int
  sfl_offset :: int

definition site_filter :: "SiteListFilter \<Rightarrow> Site \<Rightarrow> bool" where
  "site_filter f s \<longleftrightarrow> (sfl_server f > 0 \<longrightarrow> ste_server s = sfl_server f)
     \<and> (sfl_owner f > 0 \<longrightarrow> ste_owner s = Some (sfl_owner f))
     \<and> (sfl_runtime f \<noteq> [] \<longrightarrow> ste_runtime s = sfl_runtime f)
     \<and> (sfl_status f \<noteq> [] \<longrightarrow> ste_status s = sfl_status f)
     \<and> (sfl_search f \<noteq> [] \<longrightarrow> like (''%'' @ sfl_search f @ ''%'') (ste_domain s)
                             \<or> like (''%'' @ sfl_search f @ ''%'') (ste_name s))"

definition Sites_List :: "SiteListFilter \<Rightarrow> Site list res io" where
  "Sites_List f =
     (let limit = (if sfl_limit f \<le> 0 then 100 else sfl_limit f)
      in query ''query sites'' (\<lambda>w. page limit (sfl_offset f) (select_desc ste_id (site_filter f) (w_sites w))))"

definition Sites_Count :: "SiteListFilter \<Rightarrow> int res io" where
  "Sites_Count f = query ''count sites'' (\<lambda>w. count_rows (site_filter f) (w_sites w))"

definition set_site :: "int \<Rightarrow> (Site \<Rightarrow> Site) \<Rightarrow> world \<Rightarrow> world" where
  "set_site i f w = w_sites_update (update_rows (\<lambda>s. ste_id s = i) (\<lambda>s. (f s)\<lparr>ste_updated_at := w_now w\<rparr>)) w"

definition Sites_Update :: "Site \<Rightarrow> unit res io" where
  "Sites_Update site = exec ''update site'' (set_site (ste_id site) (\<lambda>s.
     s\<lparr>ste_name := ste_name site, ste_domain := ste_domain site, ste_runtime := ste_runtime site,
       ste_root_path := ste_root_path site, ste_status := ste_status site\<rparr>))"

definition Sites_UpdateStatus :: "int \<Rightarrow> string \<Rightarrow> unit res io" where
  "Sites_UpdateStatus i status = exec ''update site status'' (set_site i (\<lambda>s. s\<lparr>ste_status := status\<rparr>))"

definition Sites_UpdateConfFile :: "int \<Rightarrow> string \<Rightarrow> unit res io" where
  "Sites_UpdateConfFile i confFile =
     exec ''update conf_file'' (set_site i (\<lambda>s. s\<lparr>ste_conf_file := Some confFile\<rparr>))"

definition Sites_UpdateSSL :: "int \<Rightarrow> string \<Rightarrow> string \<Rightarrow> int \<Rightarrow> unit res io" where
  "Sites_UpdateSSL i status issuer expiresAt = exec ''update site ssl'' (\<lambda>w. set_site i (\<lambda>s.
     s\<lparr>ste_ssl_status := Some status, ste_ssl_issuer := Some issuer, ste_ssl_expires_at := Some expiresAt,
       ste_ssl_last_check := Some (w_now w)\<rparr>) w)"

definition ssl_expiring :: "int \<Rightarrow> Site \<Rightarrow> bool" where
  "ssl_expiring cutoff s \<longleftrightarrow> ste_ssl_status s = Some ''active''
     \<and> (case ste_ssl_expires_at s of None \<Rightarrow> False | Some e \<Rightarrow> e \<le> cutoff)"

definition Sites_ListSSLEpiring :: "int \<Rightarrow> Site list res io" where
  "Sites_ListSSLEpiring win = do {
     t \<leftarrow> now;
     let cutoff = t + win;
     query ''list ssl expiring'' (\<lambda>w. select_asc (\<lambda>s. the (ste_ssl_expires_at s)) (ssl_expiring cutoff) (w_sites w))
   }"

definition Sites_UpdateGitConfig :: "int \<Rightarrow> string \<Rightarrow> string \<Rightarrow> unit res io" where
  "Sites_UpdateGitConfig i repo branch =
     exec ''update git config'' (set_site i (\<lambda>s. s\<lparr>ste_git_repo := Some repo, ste_git_branch := Some branch\<rparr>))"

definition Sites_UpdateProxyPassURL :: "int \<Rightarrow> string \<Rightarrow> unit res io" where
  "Sites_UpdateProxyPassURL i url =
     exec ''update proxy pass url'' (set_site i (\<lambda>s. s\<lparr>ste_proxy_pass_url := Some url\<rparr>))"

definition Sites_IsPortAvailable :: "(int \<Rightarrow> bool) \<Rightarrow> int \<Rightarrow> bool io" where
  "Sites_IsPortAvailable listen port = do {
     r \<leftarrow> query ''count port'' (\<lambda>w. count_rows (\<lambda>s. ste_app_port s = Some port) (w_sites w));
     case r of Inl _ \<Rightarrow> State_Monad.return False
     | Inr n \<Rightarrow> State_Monad.return (if n > 0 then False else listen port)
   }"

text \<open>\<open>FindFreePort\<close>: the first port of the range that no site uses and the system can bind.\<close>

definition Sites_FindFreePort :: "(int \<Rightarrow> bool) \<Rightarrow> int \<Rightarrow> int \<Rightarrow> int res io" where
  "Sites_FindFreePort listen minPort maxPort = do {
     r \<leftarrow> query ''query used ports'' (\<lambda>w. List.map_filter ste_app_port (rows (w_sites w)));
     case r of Inl e \<Rightarrow> State_Monad.return (Inl e)
     | Inr used \<Rightarrow> State_Monad.return
         (case List.find (\<lambda>port. port \<notin> set used \<and> listen port) [minPort..maxPort] of
            Some port \<Rightarrow> Inr port
          | None \<Rightarrow> Inl (Fail (''no free port in range '' @ itoa minPort @ ''-'' @ itoa maxPort)))
   }"

definition Sites_ClearAppPort :: "int \<Rightarrow> unit res io" where
  "Sites_ClearAppPort i = exec ''clear app port''
     (set_site i (\<lambda>s. s\<lparr>ste_app_port := None, ste_app_command := None, ste_app_status := Some ''stopped''\<rparr>))"

definition Sites_UpdateAppConfig :: "int \<Rightarrow> int \<Rightarrow> string \<Rightarrow> string \<Rightarrow> unit res io" where
  "Sites_UpdateAppConfig i port command status = exec ''update app config'' (set_site i (\<lambda>s.
     s\<lparr>ste_app_port := (if port > 0 then Some port else None), ste_app_command := Some command,
       ste_app_status := Some status\<rparr>))"

definition Sites_UpdateAppMemory :: "int \<Rightarrow> int \<Rightarrow> unit res io" where
  "Sites_UpdateAppMemory i memoryMax =
     exec ''update app memory'' (set_site i (\<lambda>s. s\<lparr>ste_app_memory_max := Some memoryMax\<rparr>))"

definition Sites_UpdatePHPConfig :: "int \<Rightarrow> string \<Rightarrow> string \<Rightarrow> unit res io" where
  "Sites_UpdatePHPConfig i version ini =
     exec ''update php config'' (set_site i (\<lambda>s. s\<lparr>ste_php_version := Some version, ste_php_ini := Some ini\<rparr>))"

definition Sites_CheckPortAvailable :: "(int \<Rightarrow> bool) \<Rightarrow> int \<Rightarrow> int \<Rightarrow> (bool \<times> string) res io" where
  "Sites_CheckPortAvailable listen excludeSiteID port = do {
     owner \<leftarrow> query ''check port db'' (\<lambda>w.
       find_row (\<lambda>s. ste_app_port s = Some port \<and> ste_id s \<noteq> excludeSiteID) (w_sites w));
     case owner of
       Inl e \<Rightarrow> State_Monad.return (Inl e)
     | Inr (Some s) \<Rightarrow> do {
         dom \<leftarrow> query ''select domain'' (\<lambda>w. case by_id ste_id (ste_id s) (w_sites w) of
                  Some s' \<Rightarrow> ste_domain s' | None \<Rightarrow> []);
         let domain = (case dom of Inl _ \<Rightarrow> [] | Inr d \<Rightarrow> d);
         State_Monad.return (Inr (False,
           if domain \<noteq> [] then ''port '' @ itoa port @ '' is already used by site '' @ domain
           else ''port '' @ itoa port @ '' is already used by another site (id='' @ itoa (ste_id s) @ '')''))
       }
     | Inr None \<Rightarrow> State_Monad.return (Inr
         (if listen port then (True, [])
          else (False, ''port '' @ itoa port @ '' is in use on this server (possibly PHP-FPM, Docker, or another service)'')))
   }"

definition Sites_UpdateAppStatus :: "int \<Rightarrow> string \<Rightarrow> unit res io" where
  "Sites_UpdateAppStatus i status =
     exec ''update app status'' (set_site i (\<lambda>s. s\<lparr>ste_app_status := Some status\<rparr>))"

definition Sites_UpdateGitCommit :: "int \<Rightarrow> string \<Rightarrow> unit res io" where
  "Sites_UpdateGitCommit i commit =
     exec ''update git commit'' (set_site i (\<lambda>s. s\<lparr>ste_git_commit := Some commit\<rparr>))"

text \<open>\<open>token\<close> is what \<open>auth.NewToken\<close> gave (\<open>None\<close>: no randomness).\<close>

definition Sites_GenerateWebhookSecret :: "string option \<Rightarrow> int \<Rightarrow> string res io" where
  "Sites_GenerateWebhookSecret token i =
     (case token of None \<Rightarrow> State_Monad.return (Inl (Fail ''generate token''))
      | Some secret \<Rightarrow> do {
          r \<leftarrow> exec ''update webhook secret'' (set_site i (\<lambda>s. s\<lparr>ste_webhook_secret := Some secret\<rparr>));
          case r of Inl e \<Rightarrow> State_Monad.return (Inl e) | Inr _ \<Rightarrow> State_Monad.return (Inr secret)
        })"

definition Sites_CountByOwner :: "int \<Rightarrow> int res io" where
  "Sites_CountByOwner ownerID = query ''count sites'' (\<lambda>w. count_rows (\<lambda>s. ste_owner s = Some ownerID) (w_sites w))"

definition Sites_NullifyOwner :: "int \<Rightarrow> unit res io" where
  "Sites_NullifyOwner userID = exec ''nullify owner'' (\<lambda>w. w_sites_update (update_rows
     (\<lambda>s. ste_owner s = Some userID) (\<lambda>s. s\<lparr>ste_owner := None, ste_updated_at := w_now w\<rparr>)) w)"

definition Sites_UpdateBackupProvider :: "int \<Rightarrow> int option \<Rightarrow> unit res io" where
  "Sites_UpdateBackupProvider i providerID =
     exec ''update backup provider'' (set_site i (\<lambda>s. s\<lparr>ste_backup_provider := providerID\<rparr>))"

section \<open>Access of users to sites\<close>

definition upsert_user_site :: "int \<Rightarrow> int \<Rightarrow> string \<Rightarrow> world \<Rightarrow> world" where
  "upsert_user_site userID siteID permission w =
     (if has_row (\<lambda>u. uss_user u = userID \<and> uss_site u = siteID) (w_user_sites w)
      then w_user_sites_update (update_rows (\<lambda>u. uss_user u = userID \<and> uss_site u = siteID)
             (\<lambda>u. u\<lparr>uss_permission := permission\<rparr>)) w
      else (w_user_sites_update (append_row (\<lambda>i.
             \<lparr>uss_id = i, uss_user = userID, uss_site = siteID, uss_permission = permission\<rparr>)) w)
           \<lparr>w_last_rowid := seqno (w_user_sites w) + 1\<rparr>)"

definition UserSites_Assign :: "int \<Rightarrow> int \<Rightarrow> string \<Rightarrow> unit res io" where
  "UserSites_Assign userID siteID permission =
     (let permission = (if permission = [] then ''read'' else permission)
      in stmt ''assign'' (\<lambda>w.
           if permission \<in> {''read'', ''write'', ''admin''} \<and> has_row (\<lambda>u. usr_id u = userID) (w_users w)
              \<and> has_row (\<lambda>s. ste_id s = siteID) (w_sites w)
           then (Inr (), upsert_user_site userID siteID permission w)
           else (Inl (SqlError ''assign''), w)))"

definition ErrNoRows :: err where
  "ErrNoRows = Fail ''sql: no rows in result set''"

definition UserSites_Unassign :: "int \<Rightarrow> int \<Rightarrow> unit res io" where
  "UserSites_Unassign userID siteID =
     (let P = (\<lambda>u. uss_user u = userID \<and> uss_site u = siteID)
      in do {
        n \<leftarrow> exec_count ''unassign'' (\<lambda>w. count_rows P (w_user_sites w)) (w_user_sites_update (delete_rows P));
        case n of Inl e \<Rightarrow> State_Monad.return (Inl e)
        | Inr n \<Rightarrow> State_Monad.return (if n = 0 then Inl ErrNoRows else Inr ())
      })"

definition UserSites_UpdatePermission :: "int \<Rightarrow> int \<Rightarrow> string \<Rightarrow> unit res io" where
  "UserSites_UpdatePermission userID siteID permission =
     (let P = (\<lambda>u. uss_user u = userID \<and> uss_site u = siteID)
      in do {
        n \<leftarrow> stmt ''update permission'' (\<lambda>w.
          if has_row P (w_user_sites w) \<and> permission \<notin> {''read'', ''write'', ''admin''}
          then (Inl (SqlError ''update permission''), w)
          else (Inr (count_rows P (w_user_sites w)),
                w_user_sites_update (update_rows P (\<lambda>u. u\<lparr>uss_permission := permission\<rparr>)) w));
        case n of Inl e \<Rightarrow> State_Monad.return (Inl e)
        | Inr n \<Rightarrow> State_Monad.return (if n = 0 then Inl ErrNoRows else Inr ())
      })"

definition UserSites_HasAccess :: "int \<Rightarrow> int \<Rightarrow> bool res io" where
  "UserSites_HasAccess userID siteID = query ''has access''
     (\<lambda>w. has_row (\<lambda>u. uss_user u = userID \<and> uss_site u = siteID) (w_user_sites w))"

definition UserSites_GetPermission :: "int \<Rightarrow> int \<Rightarrow> string res io" where
  "UserSites_GetPermission userID siteID = do {
     r \<leftarrow> query ''get permission''
       (\<lambda>w. find_row (\<lambda>u. uss_user u = userID \<and> uss_site u = siteID) (w_user_sites w));
     State_Monad.return (case r of Inl e \<Rightarrow> Inl e
       | Inr None \<Rightarrow> Inl ErrNoRows
       | Inr (Some u) \<Rightarrow> Inr (uss_permission u))
   }"

text \<open>
  \<open>Transfer\<close>. As in \<open>Jobs_ClaimNext\<close> the statements of the transaction take effect with its commit. The
  move of the files runs in a goroutine of its own and is left out.
\<close>

definition transfer_tables :: "int \<Rightarrow> int \<Rightarrow> string \<Rightarrow> string \<Rightarrow> world \<Rightarrow> world" where
  "transfer_tables siteID newOwnerID newRoot newUsername w =
     (let w1 = set_site siteID (\<lambda>s. s\<lparr>ste_owner := Some newOwnerID, ste_root_path := newRoot,
                 ste_system_user := Some newUsername\<rparr>) w;
          w2 = w_user_sites_update (delete_rows (\<lambda>u. uss_user u = newOwnerID \<and> uss_site u = siteID)) w1
      in upsert_user_site newOwnerID siteID ''admin'' w2)"

definition Sites_Transfer :: "int \<Rightarrow> int \<Rightarrow> unit res io" where
  "Sites_Transfer siteID newOwnerID = do {
     site \<leftarrow> Sites_GetByID siteID;
     case site of
       Inl e \<Rightarrow> State_Monad.return (Inl e)
     | Inr None \<Rightarrow> State_Monad.return (Inl (Fail ''site not found''))
     | Inr (Some site) \<Rightarrow> do {
         target \<leftarrow> query ''target user not found'' (\<lambda>w. by_id usr_id newOwnerID (w_users w));
         case target of
           Inl e \<Rightarrow> State_Monad.return (Inl e)
         | Inr None \<Rightarrow> State_Monad.return (Inl (Fail ''target user not found''))
         | Inr (Some u) \<Rightarrow> do {
             let newUsername = usr_username u;
             let newRoot = ''/home/'' @ newUsername @ ''/htdocs/'' @ ste_domain site;
             tx \<leftarrow> exec ''transfer site begin tx'' (\<lambda>w. w);
             case tx of Inl e \<Rightarrow> State_Monad.return (Inl e) | Inr _ \<Rightarrow> do {
               n \<leftarrow> query ''transfer site'' (\<lambda>w. count_rows (\<lambda>s. ste_id s = siteID) (w_sites w));
               case n of Inl e \<Rightarrow> State_Monad.return (Inl e)
               | Inr n \<Rightarrow>
                   if n = 0 then State_Monad.return (Inl (Fail ''site not found''))
                   else do {
                     d \<leftarrow> exec ''transfer site user_sites delete'' (\<lambda>w. w);
                     case d of Inl e \<Rightarrow> State_Monad.return (Inl e) | Inr _ \<Rightarrow> do {
                       i \<leftarrow> exec ''transfer site user_sites insert'' (\<lambda>w. w);
                       case i of Inl e \<Rightarrow> State_Monad.return (Inl e) | Inr _ \<Rightarrow>
                         exec ''transfer site commit'' (transfer_tables siteID newOwnerID newRoot newUsername)
                     }
                   }
             }
           }
       }
   }"

end
