(* ===== verification/Inventory.thy ===== *)
theory Inventory
  imports Registry
begin

text \<open>
  The rest of the inventory: \<open>internal/store/servers.go\<close>, \<open>databases.go\<close>, \<open>backup_providers.go\<close>, the settings
  helpers of \<open>backupschedules.go\<close>, and from \<open>internal/dbserver/dbserver.go\<close> the credentials of the
  database server and their encryption. The key of \<open>dbserver.Store\<close> is another one than that of
  \<open>internal/secrets\<close>, so its AES-GCM is a second value of type \<open>crypto\<close>.
\<close>

section \<open>Servers\<close>

definition Servers_Create :: "Server \<Rightarrow> int res io" where
  "Servers_Create srv =
     (let status = (if srv_status srv = [] then ''pending'' else srv_status srv);
          health = (if srv_health_status srv = [] then ''unknown'' else srv_health_status srv)
      in insert_row ''insert server'' w_servers w_servers_update (\<lambda>w. True)
           (\<lambda>w i. srv\<lparr>srv_id := i, srv_status := status, srv_health_status := health,
              srv_last_health_check := None, srv_health_latency := 0, srv_updated_at := w_now w\<rparr>))"

definition Servers_GetByID :: "int \<Rightarrow> Server option res io" where
  "Servers_GetByID i = query ''scan server'' (\<lambda>w. by_id srv_id i (w_servers w))"

definition Servers_List :: "Server list res io" where
  "Servers_List = query ''query servers'' (\<lambda>w. select_asc srv_id (\<lambda>_. True) (w_servers w))"

definition set_server :: "int \<Rightarrow> (world \<Rightarrow> Server \<Rightarrow> Server) \<Rightarrow> world \<Rightarrow> world" where
  "set_server i f w =
     w_servers_update (update_rows (\<lambda>s. srv_id s = i) (\<lambda>s. (f w s)\<lparr>srv_updated_at := w_now w\<rparr>)) w"

definition Servers_Update :: "Server \<Rightarrow> unit res io" where
  "Servers_Update srv = exec ''update server'' (set_server (srv_id srv) (\<lambda>w s.
     s\<lparr>srv_name := srv_name srv, srv_hostname := srv_hostname srv, srv_agent_url := srv_agent_url srv,
       srv_ip := srv_ip srv, srv_ipv6 := srv_ipv6 srv, srv_ssh_port := srv_ssh_port srv,
       srv_description := srv_description srv, srv_status := srv_status srv, srv_provider := srv_provider srv\<rparr>))"

definition Servers_UpdateHealth :: "int \<Rightarrow> string \<Rightarrow> int \<Rightarrow> unit res io" where
  "Servers_UpdateHealth i status latencyMs = exec ''update server health'' (set_server i (\<lambda>w s.
     s\<lparr>srv_health_status := status, srv_health_latency := latencyMs, srv_last_health_check := Some (w_now w)\<rparr>))"

definition Servers_UpdateStatus :: "int \<Rightarrow> string \<Rightarrow> unit res io" where
  "Servers_UpdateStatus i status =
     exec ''update server status'' (set_server i (\<lambda>w s. s\<lparr>srv_status := status\<rparr>))"

section \<open>Databases and their users\<close>

definition Databases_Create :: "Database \<Rightarrow> int res io" where
  "Databases_Create db =
     (let charset = (if dtb_charset db = [] then ''utf8mb4'' else dtb_charset db);
          collation = (if dtb_collation db = [] then ''utf8mb4_unicode_ci'' else dtb_collation db)
      in insert_row ''insert database'' w_databases w_databases_update
           (\<lambda>w. has_row (\<lambda>s. ste_id s = dtb_site db) (w_sites w))
           (\<lambda>w i. db\<lparr>dtb_id := i, dtb_charset := charset, dtb_collation := collation, dtb_size := 0, dtb_created_at := w_now w\<rparr>))"

definition Databases_GetByID :: "int \<Rightarrow> Database option res io" where
  "Databases_GetByID i = query ''scan database'' (\<lambda>w. by_id dtb_id i (w_databases w))"

definition Databases_GetByName :: "string \<Rightarrow> Database option res io" where
  "Databases_GetByName name = query ''scan database'' (\<lambda>w. find_row (\<lambda>d. dtb_name d = name) (w_databases w))"

definition Databases_ListBySite :: "int \<Rightarrow> Database list res io" where
  "Databases_ListBySite siteID =
     query ''query databases'' (\<lambda>w. select_asc dtb_id (\<lambda>d. dtb_site d = siteID) (w_databases w))"

definition Databases_ListAll :: "Database list res io" where
  "Databases_ListAll = query ''query all databases'' (\<lambda>w. select_asc dtb_id (\<lambda>_. True) (w_databases w))"

definition Databases_UpdateCharset :: "int \<Rightarrow> string \<Rightarrow> string \<Rightarrow> unit res io" where
  "Databases_UpdateCharset i charset collation = exec ''update database charset''
     (w_databases_update (update_rows (\<lambda>d. dtb_id d = i) (\<lambda>d. d\<lparr>dtb_charset := charset, dtb_collation := collation\<rparr>)))"

text \<open>Deleting a database deletes its users (\<open>ON DELETE CASCADE\<close>).\<close>

definition Databases_Delete :: "int \<Rightarrow> unit res io" where
  "Databases_Delete i = exec ''delete database'' (\<lambda>w.
     w_db_users_update (delete_rows (\<lambda>u. dbu_database u = i))
       (w_databases_update (delete_rows (\<lambda>d. dtb_id d = i)) w))"

definition DBUsers_Create :: "DBUser \<Rightarrow> int res io" where
  "DBUsers_Create u = insert_row ''insert db user'' w_db_users w_db_users_update
     (\<lambda>w. has_row (\<lambda>d. dtb_id d = dbu_database u) (w_databases w)) (\<lambda>w i. u\<lparr>dbu_id := i, dbu_created_at := w_now w\<rparr>)"

definition DBUsers_GetByID :: "int \<Rightarrow> DBUser option res io" where
  "DBUsers_GetByID i = query ''scan db user'' (\<lambda>w. by_id dbu_id i (w_db_users w))"

definition DBUsers_GetByUsernameAndDatabase :: "string \<Rightarrow> int \<Rightarrow> DBUser option res io" where
  "DBUsers_GetByUsernameAndDatabase username dbID = query ''scan db user''
     (\<lambda>w. find_row (\<lambda>u. dbu_username u = username \<and> dbu_database u = dbID) (w_db_users w))"

definition DBUsers_ListByDatabase :: "int \<Rightarrow> DBUser list res io" where
  "DBUsers_ListByDatabase dbID =
     query ''query db users'' (\<lambda>w. select_asc dbu_id (\<lambda>u. dbu_database u = dbID) (w_db_users w))"

definition set_db_user :: "int \<Rightarrow> (DBUser \<Rightarrow> DBUser) \<Rightarrow> world \<Rightarrow> world" where
  "set_db_user i f = w_db_users_update (update_rows (\<lambda>u. dbu_id u = i) f)"

definition DBUsers_UpdatePassword :: "int \<Rightarrow> string \<Rightarrow> unit res io" where
  "DBUsers_UpdatePassword i hash =
     exec ''update db user password'' (set_db_user i (\<lambda>u. u\<lparr>dbu_password_hash := hash\<rparr>))"

definition DBUsers_UpdateEncryptedPassword :: "int \<Rightarrow> string \<Rightarrow> unit res io" where
  "DBUsers_UpdateEncryptedPassword i enc =
     exec ''update encrypted password'' (set_db_user i (\<lambda>u. u\<lparr>dbu_encrypted_password := enc\<rparr>))"

definition DBUsers_UpdateHostAndPrivileges :: "int \<Rightarrow> string \<Rightarrow> string \<Rightarrow> unit res io" where
  "DBUsers_UpdateHostAndPrivileges i host privileges = exec ''update host/privs''
     (set_db_user i (\<lambda>u. u\<lparr>dbu_host_pattern := host, dbu_privileges := privileges\<rparr>))"

definition DBUsers_Delete :: "int \<Rightarrow> unit res io" where
  "DBUsers_Delete i = exec ''delete db user'' (w_db_users_update (delete_rows (\<lambda>u. dbu_id u = i)))"

section \<open>Storage providers\<close>

definition Providers_Create :: "Provider \<Rightarrow> int res io" where
  "Providers_Create p = do {
     cleared \<leftarrow> (if prv_default p
                then exec ''clear defaults'' (w_providers_update (update_rows (\<lambda>_. True) (\<lambda>q. q\<lparr>prv_default := False\<rparr>)))
                else State_Monad.return (Inr ()));
     case cleared of Inl e \<Rightarrow> State_Monad.return (Inl e)
     | Inr _ \<Rightarrow> insert_row ''insert backup provider'' w_providers w_providers_update
         (\<lambda>w. prv_type p \<in> {''s3'', ''b2'', ''r2'', ''wasabi'', ''digitalocean'', ''generic''})
         (\<lambda>w i. p\<lparr>prv_id := i\<rparr>)
   }"

definition Providers_GetByID :: "int \<Rightarrow> Provider option res io" where
  "Providers_GetByID i = query ''scan backup provider'' (\<lambda>w. by_id prv_id i (w_providers w))"

definition Providers_GetDefault :: "Provider option res io" where
  "Providers_GetDefault = query ''scan backup provider'' (\<lambda>w. find_row prv_default (w_providers w))"

definition Providers_Update :: "Provider \<Rightarrow> unit res io" where
  "Providers_Update p = do {
     cleared \<leftarrow> (if prv_default p
                then exec ''clear defaults''
                       (w_providers_update (update_rows (\<lambda>q. prv_id q \<noteq> prv_id p) (\<lambda>q. q\<lparr>prv_default := False\<rparr>)))
                else State_Monad.return (Inr ()));
     case cleared of Inl e \<Rightarrow> State_Monad.return (Inl e)
     | Inr _ \<Rightarrow> stmt ''update backup provider'' (\<lambda>w.
         if prv_type p \<notin> {''s3'', ''b2'', ''r2'', ''wasabi'', ''digitalocean'', ''generic''}
            \<and> has_row (\<lambda>q. prv_id q = prv_id p) (w_providers w)
         then (Inl (SqlError ''update backup provider''), w)
         else (Inr (), w_providers_update (update_rows (\<lambda>q. prv_id q = prv_id p) (\<lambda>_. p)) w))
   }"

definition Providers_Delete :: "int \<Rightarrow> unit res io" where
  "Providers_Delete i = exec ''delete backup provider'' (w_providers_update (delete_rows (\<lambda>p. prv_id p = i)))"

section \<open>Settings\<close>

definition GetSetting :: "string \<Rightarrow> string res io" where
  "GetSetting key = do {
     r \<leftarrow> query ''get setting'' (\<lambda>w. map_of (w_settings w) key);
     State_Monad.return (case r of Inl e \<Rightarrow> Inl e | Inr None \<Rightarrow> Inl ErrNoRows | Inr (Some v) \<Rightarrow> Inr v)
   }"

definition SetSetting :: "string \<Rightarrow> string \<Rightarrow> unit res io" where
  "SetSetting key val = exec ''set setting'' (w_settings_update (\<lambda>kvs. (key, val) # filter (\<lambda>(k, _). k \<noteq> key) kvs))"

section \<open>Database server credentials\<close>

definition GetDefaultServer :: "DBServer option res io" where
  "GetDefaultServer = query ''scan server'' (\<lambda>w. find_row (\<lambda>s. dbs_default s \<and> dbs_active s) (w_db_servers w))"

definition GetBackupCredentials :: "(string \<times> string) res io" where
  "GetBackupCredentials = do {
     r \<leftarrow> query ''get backup credentials'' (\<lambda>w. find_row (\<lambda>s. dbs_default s \<and> dbs_active s) (w_db_servers w));
     State_Monad.return (case r of
       Inl e \<Rightarrow> Inl e
     | Inr None \<Rightarrow> Inl ErrNoRows
     | Inr (Some s) \<Rightarrow>
         if trim_space (dbs_backup_username s) = [] \<or> trim_space (dbs_backup_password s) = []
         then Inl (Fail ''dedicated database backup credential is not configured'')
         else Inr (dbs_backup_username s, dbs_backup_password s))
   }"

definition EncryptPassword :: "crypto \<Rightarrow> string \<Rightarrow> string option" where
  "EncryptPassword k plaintext = cr_seal k plaintext"

definition DecryptPassword :: "crypto \<Rightarrow> string \<Rightarrow> string option" where
  "DecryptPassword k encrypted = cr_open k encrypted"

text \<open>
  \<open>internal/store/backup_credentials.go\<close>. \<open>accessible user password name\<close> is the answer of the database
  server to a connection with the backup account and the look-up of the schema.
\<close>

definition is_mysql :: "Database \<Rightarrow> bool" where
  "is_mysql d \<longleftrightarrow> equal_fold (dtb_type d) ''mysql'' \<or> equal_fold (dtb_type d) ''mariadb''"

type_synonym db_probe = "string \<Rightarrow> string \<Rightarrow> string \<Rightarrow> bool res"

definition BackupDatabaseExists :: "crypto \<Rightarrow> db_probe \<Rightarrow> Database \<Rightarrow> bool res io" where
  "BackupDatabaseExists k accessible d =
     (if \<not> is_mysql d then State_Monad.return (Inr True)
      else do {
        server \<leftarrow> GetDefaultServer;
        case server of Inl e \<Rightarrow> State_Monad.return (Inl e)
        | Inr _ \<Rightarrow> do {
            cred \<leftarrow> GetBackupCredentials;
            case cred of Inl e \<Rightarrow> State_Monad.return (Inl e)
            | Inr (username, encrypted) \<Rightarrow> State_Monad.return
                (case DecryptPassword k encrypted of
                   None \<Rightarrow> Inl (Fail ''decrypt dedicated backup credential'')
                 | Some password \<Rightarrow> accessible username password (dtb_name d))
          }
      })"

fun first_decryptable :: "crypto \<Rightarrow> DBUser list \<Rightarrow> (string \<times> string) res" where
  "first_decryptable k [] = Inl (Fail ''no decryptable database user password'')"
| "first_decryptable k (u # us) =
     (case DecryptPassword k (dbu_encrypted_password u) of
        Some password \<Rightarrow> if password \<noteq> [] then Inr (dbu_username u, password) else first_decryptable k us
      | None \<Rightarrow> first_decryptable k us)"

definition DatabaseBackupCredentials :: "crypto \<Rightarrow> Database \<Rightarrow> (string \<times> string) res io" where
  "DatabaseBackupCredentials k d =
     (if is_mysql d then do {
        cred \<leftarrow> GetBackupCredentials;
        State_Monad.return (case cred of Inl e \<Rightarrow> Inl e
          | Inr (username, encrypted) \<Rightarrow>
              (case DecryptPassword k encrypted of
                 None \<Rightarrow> Inl (Fail ''decrypt dedicated backup credential'')
               | Some password \<Rightarrow>
                   if password = [] then Inl (Fail ''decrypt dedicated backup credential: empty dedicated backup password'')
                   else Inr (username, password)))
      }
      else do {
        us \<leftarrow> DBUsers_ListByDatabase (dtb_id d);
        State_Monad.return (case us of Inl e \<Rightarrow> Inl e | Inr us \<Rightarrow> first_decryptable k us)
      })"

end
