(* ===== verification/Schedules.thy ===== *)
theory Schedules
  imports Cron Inventory
begin

text \<open>
  The stored schedules: the legacy ones of \<open>internal/store/backupschedules.go\<close> and the configurations of
  \<open>backup_configs.go\<close>, with \<open>backup_config_scope.go\<close>. An operation that computes the next run may not return
  (see \<open>Cron\<close>): its result is then \<open>None\<close>, otherwise \<open>Some\<close> of the Go result. The queries of due rows have no
  order; they are taken in table order.
\<close>

section \<open>Legacy schedules\<close>

definition Schedules_Create :: "Schedule \<Rightarrow> int res io" where
  "Schedules_Create s =
     (let backupType = (if sch_type s = [] then ''files'' else sch_type s)
      in insert_row ''insert backup schedule'' w_schedules w_schedules_update
           (\<lambda>w. has_row (\<lambda>r. ste_id r = sch_site s) (w_sites w))
           (\<lambda>w i. s\<lparr>sch_id := i, sch_type := backupType, sch_last_run_at := None, sch_next_run_at := None\<rparr>))"

definition Schedules_GetByID :: "int \<Rightarrow> Schedule option res io" where
  "Schedules_GetByID i = query ''scan backup schedule'' (\<lambda>w. by_id sch_id i (w_schedules w))"

definition Schedules_ListBySite :: "int \<Rightarrow> Schedule list res io" where
  "Schedules_ListBySite siteID = query ''query backup schedules by site''
     (\<lambda>w. select_desc sch_id (\<lambda>s. sch_site s = siteID) (w_schedules w))"

definition Schedules_Update :: "Schedule \<Rightarrow> unit res io" where
  "Schedules_Update s = exec ''update backup schedule'' (w_schedules_update (update_rows (\<lambda>r. sch_id r = sch_id s)
     (\<lambda>r. r\<lparr>sch_provider := sch_provider s, sch_cron := sch_cron s, sch_type := sch_type s,
            sch_enabled := sch_enabled s\<rparr>)))"

definition Schedules_Delete :: "int \<Rightarrow> unit res io" where
  "Schedules_Delete i = exec ''delete backup schedule'' (w_schedules_update (delete_rows (\<lambda>s. sch_id s = i)))"

text \<open>
  \<open>MarkRun\<close> binds Go times, whose text is longer than that of \<open>CURRENT_TIMESTAMP\<close>: in the second of the
  next run the row is not yet due.
\<close>

definition schedule_due :: "int \<Rightarrow> Schedule \<Rightarrow> bool" where
  "schedule_due t s \<longleftrightarrow> sch_enabled s \<and> (case sch_next_run_at s of None \<Rightarrow> True | Some n \<Rightarrow> n < t)"

definition Schedules_ListDue :: "Schedule list res io" where
  "Schedules_ListDue = query ''query due backup schedules''
     (\<lambda>w. filter (schedule_due (w_now w)) (rows (w_schedules w)))"

definition Schedules_MarkRun :: "int \<Rightarrow> unit res option io" where
  "Schedules_MarkRun i = do {
     found \<leftarrow> query ''get cron expr'' (\<lambda>w. by_id sch_id i (w_schedules w));
     case found of
       Inl e \<Rightarrow> State_Monad.return (Some (Inl e))
     | Inr None \<Rightarrow> State_Monad.return (Some (Inl ErrNoRows))
     | Inr (Some s) \<Rightarrow> do {
         t \<leftarrow> now;
         case NextCronRun (sch_cron s) t of
           None \<Rightarrow> State_Monad.return None
         | Some next_run \<Rightarrow> do {
             r \<leftarrow> exec ''mark run'' (w_schedules_update (update_rows (\<lambda>r. sch_id r = i)
               (\<lambda>r. r\<lparr>sch_last_run_at := Some t, sch_next_run_at := Some next_run\<rparr>)));
             State_Monad.return (Some r)
           }
       }
   }"

section \<open>Configurations\<close>

definition Configs_Create :: "BackupConfig \<Rightarrow> int res option io" where
  "Configs_Create c = do {
     t \<leftarrow> now;
     case NextCronRun (cfg_cron c) t of
       None \<Rightarrow> State_Monad.return None
     | Some next_run \<Rightarrow> do {
         r \<leftarrow> insert_row ''insert backup config'' w_configs w_configs_update (\<lambda>w. True)
           (\<lambda>w i. c\<lparr>cfg_id := i, cfg_scope := (if cfg_scope c = [] then ''files'' else cfg_scope c),
                   cfg_last_run_at := None, cfg_next_run_at := Some next_run\<rparr>);
         State_Monad.return (Some r)
       }
   }"

definition Configs_GetByID :: "int \<Rightarrow> BackupConfig option res io" where
  "Configs_GetByID i = query ''scan backup config'' (\<lambda>w. by_id cfg_id i (w_configs w))"

definition Configs_ListAll :: "BackupConfig list res io" where
  "Configs_ListAll = query ''query backup configs'' (\<lambda>w. select_desc cfg_id (\<lambda>_. True) (w_configs w))"

definition Configs_Update :: "BackupConfig \<Rightarrow> unit res option io" where
  "Configs_Update c = do {
     t \<leftarrow> now;
     case NextCronRun (cfg_cron c) t of
       None \<Rightarrow> State_Monad.return None
     | Some next_run \<Rightarrow> do {
         r \<leftarrow> exec ''update backup config'' (w_configs_update (update_rows (\<lambda>r. cfg_id r = cfg_id c)
           (\<lambda>r. c\<lparr>cfg_last_run_at := cfg_last_run_at r, cfg_next_run_at := Some next_run\<rparr>)));
         State_Monad.return (Some r)
       }
   }"

definition Configs_Delete :: "int \<Rightarrow> unit res io" where
  "Configs_Delete i = exec ''delete backup config'' (w_configs_update (delete_rows (\<lambda>c. cfg_id c = i)))"

text \<open>Here the times are written in the format of \<open>CURRENT_TIMESTAMP\<close>.\<close>

definition config_due :: "int \<Rightarrow> BackupConfig \<Rightarrow> bool" where
  "config_due t c \<longleftrightarrow> cfg_enabled c \<and> (case cfg_next_run_at c of None \<Rightarrow> True | Some n \<Rightarrow> n \<le> t)"

definition Configs_ListDue :: "BackupConfig list res io" where
  "Configs_ListDue = query ''query due backup configs'' (\<lambda>w. filter (config_due (w_now w)) (rows (w_configs w)))"

definition Configs_MarkRun :: "int \<Rightarrow> unit res option io" where
  "Configs_MarkRun i = do {
     found \<leftarrow> query ''get cron expr'' (\<lambda>w. by_id cfg_id i (w_configs w));
     case found of
       Inl e \<Rightarrow> State_Monad.return (Some (Inl e))
     | Inr None \<Rightarrow> State_Monad.return (Some (Inl ErrNoRows))
     | Inr (Some c) \<Rightarrow> do {
         t \<leftarrow> now;
         case NextCronRun (cfg_cron c) t of
           None \<Rightarrow> State_Monad.return None
         | Some next_run \<Rightarrow> do {
             r \<leftarrow> exec ''mark run'' (w_configs_update (update_rows (\<lambda>r. cfg_id r = i)
               (\<lambda>r. r\<lparr>cfg_last_run_at := Some t, cfg_next_run_at := Some next_run\<rparr>)));
             State_Monad.return (Some r)
           }
       }
   }"

definition ResolveBackupConfigSiteIDs :: "BackupConfig \<Rightarrow> int list res io" where
  "ResolveBackupConfigSiteIDs c =
     (if cfg_sites c \<noteq> [] then State_Monad.return (Inr (cfg_sites c))
      else if cfg_scope c \<noteq> ''database'' \<and> cfg_scope c \<noteq> ''both'' then State_Monad.return (Inr [])
      else do {
        sites \<leftarrow> Sites_List \<lparr>sfl_server = 0, sfl_owner = 0, sfl_runtime = [], sfl_status = [], sfl_search = [],
                   sfl_limit = 10000, sfl_offset = 0\<rparr>;
        State_Monad.return (case sites of
          Inl e \<Rightarrow> Inl e
        | Inr ss \<Rightarrow> Inr (map ste_id (filter (\<lambda>s. ste_status s = ''active'') ss)))
      })"

end
