(* ===== verification/AgentClient.thy ===== *)
theory AgentClient
  imports Jobs
begin

text \<open>
  \<open>internal/agentclient/client.go\<close>: dispatching a job to the agent and reading its answer. The HTTP
  round trip is a parameter (\<open>transport\<close>): what \<open>NewRequest\<close>, \<open>Do\<close> and \<open>ReadAll\<close> gave for an URL, a
  bearer token and a body, or a panic inside them.
\<close>

section \<open>Results\<close>

record TaskResult =
  tr_ok :: bool
  tr_output :: string
  tr_error :: string
  tr_app_status :: string
  tr_path :: string
  tr_s3_path :: string
  tr_s3_upload_error :: string
  tr_size_bytes :: int
  tr_nginx_config :: string
  tr_proxy_pass_url :: string

definition zero_result :: TaskResult where
  "zero_result = \<lparr>tr_ok = False, tr_output = [], tr_error = [], tr_app_status = [], tr_path = [], tr_s3_path = [],
     tr_s3_upload_error = [], tr_size_bytes = 0, tr_nginx_config = [], tr_proxy_pass_url = []\<rparr>"

fun decode_result :: "jtext \<Rightarrow> TaskResult option" where
  "decode_result (Json JNull) = Some zero_result"
| "decode_result (Json (JObj kvs)) =
     (case (bool_field kvs ''ok'', str_field kvs ''output'', str_field kvs ''error'', str_field kvs ''app_status'',
            str_field kvs ''path'', str_field kvs ''s3_path'', str_field kvs ''s3_upload_error'',
            int_field kvs ''size_bytes'', str_field kvs ''nginx_config'', str_field kvs ''proxy_pass_url'') of
        (Some a, Some b, Some c, Some d, Some e, Some f, Some g, Some h, Some i, Some j) \<Rightarrow>
          Some \<lparr>tr_ok = a, tr_output = b, tr_error = c, tr_app_status = d, tr_path = e, tr_s3_path = f,
            tr_s3_upload_error = g, tr_size_bytes = h, tr_nginx_config = i, tr_proxy_pass_url = j\<rparr>
      | _ \<Rightarrow> None)"
| "decode_result _ = None"

text \<open>\<open>json.Marshal\<close> of the result pointer, with its \<open>omitempty\<close> tags; \<open>nil\<close> is \<open>null\<close>.\<close>

definition omit_str :: "string \<Rightarrow> string \<Rightarrow> (string \<times> json) list" where
  "omit_str key s = (if s = [] then [] else [(key, JStr s)])"

definition omit_int :: "string \<Rightarrow> int \<Rightarrow> (string \<times> json) list" where
  "omit_int key n = (if n = 0 then [] else [(key, JNum n)])"

definition encode_result :: "TaskResult option \<Rightarrow> jtext" where
  "encode_result r = (case r of None \<Rightarrow> Json JNull
     | Some r \<Rightarrow> Json (JObj ((''ok'', JBool (tr_ok r)) # omit_str ''output'' (tr_output r) @ omit_str ''error'' (tr_error r)
         @ omit_str ''app_status'' (tr_app_status r) @ omit_str ''path'' (tr_path r)
         @ omit_str ''s3_path'' (tr_s3_path r) @ omit_str ''s3_upload_error'' (tr_s3_upload_error r)
         @ omit_int ''size_bytes'' (tr_size_bytes r)
         @ omit_str ''nginx_config'' (tr_nginx_config r) @ omit_str ''proxy_pass_url'' (tr_proxy_pass_url r))))"

section \<open>Redaction of error messages\<close>

text \<open>
  \<open>agentErrorSecretPattern\<close>, matched at one position: a keyword in any case, white space, \<open>:\<close> or \<open>=\<close>,
  white space, and a run of bytes other than white space, comma and semicolon. The scanner replaces the
  leftmost matches; \<open>prev\<close> says whether the byte before is a word byte (the \<open>\b\<close> of the pattern).
\<close>

definition re_space :: "char \<Rightarrow> bool" where
  "re_space c \<longleftrightarrow> c = CHR '' '' \<or> byte c \<in> {9, 10, 12, 13}"

definition word_byte :: "char \<Rightarrow> bool" where
  "word_byte c \<longleftrightarrow> is_digit c \<or> in_range 65 90 c \<or> in_range 97 122 c \<or> c = CHR ''_''"

definition secret_words :: "string list" where
  "secret_words = [''password'', ''secret'', ''token'', ''accesskey'', ''access_key'', ''access-key'', ''authorization'']"

definition value_byte :: "char \<Rightarrow> bool" where
  "value_byte c \<longleftrightarrow> \<not> re_space c \<and> c \<noteq> CHR '','' \<and> c \<noteq> CHR '';''"

definition secret_match :: "string \<Rightarrow> (string \<times> char \<times> string \<times> string) option" where
  "secret_match s =
     (case List.find (\<lambda>kw. has_prefix (to_lower s) kw) secret_words of
        None \<Rightarrow> None
      | Some kw \<Rightarrow>
          (case dropWhile re_space (drop (length kw) s) of
             [] \<Rightarrow> None
           | sep # rest \<Rightarrow>
               if sep \<noteq> CHR '':'' \<and> sep \<noteq> CHR ''='' then None
               else let rest = dropWhile re_space rest; v = takeWhile value_byte rest
                    in if v = [] then None
                       else Some (take (length kw) s, sep, v, dropWhile value_byte rest)))"

lemma secret_match_shorter:
  assumes "secret_match s = Some (kw, sep, v, rest)"
  shows "length rest < length s"
proof -
  obtain kw' where k: "List.find (\<lambda>kw. has_prefix (to_lower s) kw) secret_words = Some kw'"
    using assms by (cases "List.find (\<lambda>kw. has_prefix (to_lower s) kw) secret_words") (auto simp: secret_match_def)
  obtain sep' ys where y: "dropWhile re_space (drop (length kw') s) = sep' # ys"
    using assms k by (cases "dropWhile re_space (drop (length kw') s)") (auto simp: secret_match_def)
  have rest: "rest = dropWhile value_byte (dropWhile re_space ys)"
    using assms by (simp add: secret_match_def k y Let_def split: if_splits)
  have "length rest \<le> length ys" unfolding rest
    using length_dropWhile_le [of value_byte "dropWhile re_space ys"] length_dropWhile_le [of re_space ys] by linarith
  moreover have "length (sep' # ys) \<le> length s"
    unfolding y [symmetric] using length_dropWhile_le [of re_space "drop (length kw') s"] by simp
  ultimately show ?thesis by simp
qed

function redact_scan :: "bool \<Rightarrow> string \<Rightarrow> string" where
  "redact_scan prev [] = []"
| "redact_scan prev (c # s) =
     (case (if prev then None else secret_match (c # s)) of
        Some (kw, sep, v, rest) \<Rightarrow> kw @ [sep] @ ''[REDACTED]'' @ redact_scan (word_byte (last v)) rest
      | None \<Rightarrow> c # redact_scan (word_byte c) s)"
  by pat_completeness auto
termination
  by (relation "measure (\<lambda>(prev, s). length s)") (auto dest: secret_match_shorter split: if_splits)

definition redactAgentError :: "string \<Rightarrow> string" where
  "redactAgentError message = redact_scan False message"

section \<open>Dispatch\<close>

datatype 'a outcome = Returns 'a | Panics string

datatype reply =
    NewRequestError string
  | DoError string
  | ReadError string
  | Reply int jtext

type_synonym transport = "string \<Rightarrow> string \<Rightarrow> jtext \<Rightarrow> reply outcome"

record client =
  cl_base_url :: string
  cl_token :: string

definition endpointForType :: "string \<Rightarrow> string" where
  "endpointForType t =
     (if t = ''site.create'' then ''/tasks/site/create''
      else if t = ''site.delete'' then ''/tasks/site/delete''
      else if t = ''site.deploy'' then ''/tasks/site/deploy''
      else if t = ''ssl.issue'' then ''/tasks/ssl/issue''
      else if t = ''ssl.renew'' then ''/tasks/ssl/renew''
      else if t = ''backup.create'' then ''/tasks/backup/create''
      else if t = ''backup.restore'' then ''/tasks/backup/restore''
      else if t = ''backup.delete'' then ''/tasks/backup/delete''
      else if t = ''db_backup.create'' then ''/tasks/backup/database''
      else if t = ''nginx.reload'' then ''/tasks/nginx/reload''
      else if t = ''database.create'' then ''/tasks/database/create''
      else if t = ''database.delete'' then ''/tasks/database/delete''
      else if t = ''dbuser.create'' then ''/tasks/dbuser/create''
      else if t = ''dbuser.delete'' then ''/tasks/dbuser/delete''
      else if t = ''app.start'' then ''/tasks/app/start''
      else if t = ''app.stop'' then ''/tasks/app/stop''
      else if t = ''app.restart'' then ''/tasks/app/restart''
      else [])"

fun response_message :: "jtext \<Rightarrow> string" where
  "response_message (Json (JObj kvs)) =
     (case (str_field kvs ''message'', str_field kvs ''error'') of
        (Some msg, Some err) \<Rightarrow> if trim_space msg = [] then trim_space err else trim_space msg
      | _ \<Rightarrow> [])"
| "response_message _ = []"

definition agentResponseError :: "int \<Rightarrow> TaskResult \<Rightarrow> jtext \<Rightarrow> string" where
  "agentResponseError statusCode result responseBody =
     (let message = trim_space (tr_error result);
          message = (if message = [] then response_message responseBody else message);
          message = redactAgentError message
      in if message = [] then
           (if statusCode \<ge> 500 then ''agent returned '' @ itoa statusCode else ''agent error '' @ itoa statusCode)
         else if statusCode \<ge> 500 then ''agent returned '' @ itoa statusCode @ '': '' @ message
         else ''agent error '' @ itoa statusCode @ '': '' @ message)"

text \<open>The body sent: the payload, or an empty object for the empty payload.\<close>

definition request_body :: "jtext \<Rightarrow> jtext" where
  "request_body payload = (if payload = Raw [] then Json (JObj []) else payload)"

definition Execute :: "transport \<Rightarrow> client \<Rightarrow> string \<Rightarrow> jtext \<Rightarrow> (TaskResult option \<times> goerror) outcome" where
  "Execute http c jobType payload =
     (let endpoint = endpointForType jobType
      in if endpoint = [] then Returns (None, Some (''unknown job type '' @ [CHR 0x22] @ jobType @ [CHR 0x22]))
         else case http (cl_base_url c @ endpoint) (cl_token c) (request_body payload) of
                Panics r \<Rightarrow> Panics r
              | Returns (NewRequestError e) \<Rightarrow> Returns (None, Some (''new request: '' @ e))
              | Returns (DoError e) \<Rightarrow> Returns (None, Some (''do request: '' @ e))
              | Returns (ReadError e) \<Rightarrow> Returns (None, Some (''read response: '' @ e))
              | Returns (Reply status body) \<Rightarrow>
                  (case decode_result body of
                     None \<Rightarrow> Returns (None, Some ''decode response'')
                   | Some result \<Rightarrow>
                       if status = 501 then
                         Returns (Some (result\<lparr>tr_ok := False, tr_error := ''agent task not implemented: '' @ jobType\<rparr>), None)
                       else if status \<ge> 500 then
                         Returns (Some result, Some (agentResponseError status result body))
                       else if status \<ge> 400 then
                         Returns (Some result, Some (agentResponseError status result body))
                       else Returns (Some result, None)))"

end
