(* ===== verification/Worker.thy ===== *)
theory Worker
  imports Inventory AgentClient
begin

text \<open>
  \<open>internal/jobs/worker.go\<close>: claiming a job, dispatching it to the agent of its server, retrying with
  backoff, and the updates that follow a success. One turn of the worker loop is \<open>processOne\<close>; only one
  worker runs, so a turn is atomic here. A panic can only come out of the HTTP round trip; the deferred
  \<open>recover\<close> is the \<open>Panics\<close> branch. Logging is left out.
\<close>

record env =
  env_secrets :: crypto       \<comment> \<open>AES-GCM of \<open>internal/secrets\<close>\<close>
  env_http :: transport       \<comment> \<open>the agents, as reached over HTTP\<close>
  env_agent :: client         \<comment> \<open>the local agent, for jobs without a server\<close>
  env_deliver :: deliver      \<comment> \<open>the alert notifiers\<close>
  env_rand :: int             \<comment> \<open>what \<open>rand.Int63n\<close> draws for the jitter\<close>
  env_frac :: int             \<comment> \<open>nanoseconds of \<open>time.Now()\<close> past the whole second\<close>

section \<open>Backoff\<close>

definition second_ns :: int where "second_ns = 1000000000"

record backoffConfig =
  bo_base :: int
  bo_max :: int
  bo_jitter :: int

definition defaultBackoff :: backoffConfig where
  "defaultBackoff = \<lparr>bo_base = second_ns, bo_max = 5 * 60 * second_ns, bo_jitter = 500000000\<rparr>"

text \<open>\<open>r\<close> is the random draw from \<open>[0, jitter)\<close>.\<close>

definition delay :: "backoffConfig \<Rightarrow> int \<Rightarrow> int \<Rightarrow> int" where
  "delay b r attempts =
     (let attempts = (if attempts < 1 then 1 else attempts);
          shift = attempts - 1;
          shift = (if shift > 30 then 30 else shift);
          d = wrap64 (bo_base b * 2 ^ nat shift);
          d = (if d > bo_max b \<or> d < 0 then bo_max b else d)
      in wrap64 (d + r))"

text \<open>\<open>time.Now().Add(d)\<close> in whole seconds.\<close>

definition after_ns :: "env \<Rightarrow> int \<Rightarrow> int \<Rightarrow> int" where
  "after_ns env t d = t + (env_frac env + d) div second_ns"

section \<open>Reading the payload\<close>

text \<open>Decoding into \<open>struct{BackupID}\<close>: the id when there is no error and it is positive.\<close>

fun payload_backup_id :: "jtext \<Rightarrow> int option" where
  "payload_backup_id (Json (JObj kvs)) =
     (case int_field kvs ''backup_id'' of Some i \<Rightarrow> if i > 0 then Some i else None | None \<Rightarrow> None)"
| "payload_backup_id _ = None"

definition is_backup_job :: "string \<Rightarrow> bool" where
  "is_backup_job t \<longleftrightarrow> t = TypeBackupCreate \<or> t = TypeDBBackupCreate"

definition job_label :: "Job \<Rightarrow> string" where
  "job_label j = ''Job '' @ itoa (job_id j) @ '' ('' @ job_type j @ '')''"

section \<open>Finding the agent\<close>

definition no_agent_url :: "Server \<Rightarrow> string" where
  "no_agent_url s = ''server '' @ itoa (srv_id s) @ '' ('' @ srv_name s @ '') has no agent URL configured ''
     @ [CHR 0xE2, CHR 0x80, CHR 0x94] @ '' set agent_url on the server''"

definition agentForJob :: "env \<Rightarrow> Job \<Rightarrow> (string + client) io" where
  "agentForJob env job =
     (case job_server job of
        None \<Rightarrow> State_Monad.return (Inr (env_agent env))
      | Some sid \<Rightarrow>
          if sid \<le> 0 then State_Monad.return (Inr (env_agent env))
          else do {
            r \<leftarrow> Servers_GetByID sid;
            State_Monad.return (case r of
              Inl _ \<Rightarrow> Inl (''server '' @ itoa sid @ '' not found'')
            | Inr None \<Rightarrow> Inl (''server '' @ itoa sid @ '' not found'')
            | Inr (Some server) \<Rightarrow>
                if srv_agent_token server = [] then Inl (''server '' @ itoa (srv_id server) @ '' has no agent token'')
                else (case srv_agent_url server of
                        None \<Rightarrow> Inl (no_agent_url server)
                      | Some url \<Rightarrow>
                          if url = [] then
                            Inl (no_agent_url server)
                          else Inr \<lparr>cl_base_url = url, cl_token = srv_agent_token server\<rparr>))
          })"

section \<open>Before the dispatch\<close>

definition mark_backup_started :: "Job \<Rightarrow> unit io" where
  "mark_backup_started job =
     (case payload_backup_id (job_payload job) of
        None \<Rightarrow> skip
      | Some b \<Rightarrow> do {
          _ \<leftarrow> Backups_UpdateProgress b ''archiving...'';
          _ \<leftarrow> Backups_UpdateStatus b ''running'';
          skip
        })"

definition maxConcurrentBackups :: int where
  "maxConcurrentBackups = 1"

text \<open>The concurrency limit: \<open>True\<close> when the job was put back and the handler returns.\<close>

definition over_limit :: "env \<Rightarrow> Job \<Rightarrow> bool io" where
  "over_limit env job =
     (case job_server job of
        None \<Rightarrow> State_Monad.return False
      | Some sid \<Rightarrow>
          if sid \<le> 0 then State_Monad.return False
          else do {
            r \<leftarrow> Jobs_CountRunningByServer sid;
            let running = (case r of Inl _ \<Rightarrow> 0 | Inr n \<Rightarrow> n);
            if running \<ge> maxConcurrentBackups then do {
              t \<leftarrow> now;
              _ \<leftarrow> Jobs_ScheduleRetry (job_id job)
                    (after_ns env t (wrap64 ((running - maxConcurrentBackups + 1) * 30 * second_ns)));
              State_Monad.return True
            } else State_Monad.return False
          })"

section \<open>Failures\<close>

definition mark_backup_failed :: "Job \<Rightarrow> string \<Rightarrow> unit io" where
  "mark_backup_failed job msg =
     (if is_backup_job (job_type job)
      then (case payload_backup_id (job_payload job) of
              None \<Rightarrow> skip | Some b \<Rightarrow> do { _ \<leftarrow> Backups_MarkFailed b msg; skip })
      else skip)"

definition retry_later :: "env \<Rightarrow> Job \<Rightarrow> string \<Rightarrow> unit io" where
  "retry_later env job msg = do {
     t \<leftarrow> now;
     _ \<leftarrow> Jobs_ScheduleRetry (job_id job)
           (after_ns env t (delay defaultBackoff (env_rand env) (job_attempts job)));
     _ \<leftarrow> Jobs_SetError (job_id job) msg;
     skip
   }"

definition on_agent_error :: "env \<Rightarrow> Job \<Rightarrow> string \<Rightarrow> unit io" where
  "on_agent_error env job msg =
     (if job_attempts job < job_max_attempts job then retry_later env job msg
      else do {
        _ \<leftarrow> Jobs_MarkCompleted (job_id job) False (Raw []) msg;
        _ \<leftarrow> mark_backup_failed job msg;
        Send (env_deliver env) ''error'' ''Job failed'' (job_label job @ '': '' @ msg)
      })"

text \<open>The payload of the local retry of a backup whose upload to S3 failed, if it had an S3 target.\<close>

fun failover_payload :: "jtext \<Rightarrow> jtext option" where
  "failover_payload (Json (JObj kvs)) =
     (if map_of kvs ''s3_config'' = None then None
      else Some (Json (JObj (filter (\<lambda>(k, _). k \<notin> {''s3_config'', ''storage'', ''failover''}) kvs
             @ [(''storage'', JStr ''local''), (''failover'', JBool True)]))))"
| "failover_payload _ = None"

definition create_failover :: "env \<Rightarrow> Job \<Rightarrow> unit io" where
  "create_failover env job =
     (if job_type job = TypeBackupCreate
      then (case failover_payload (job_payload job) of
              None \<Rightarrow> skip
            | Some payload \<Rightarrow> do {
                _ \<leftarrow> Jobs_Create (env_secrets env) \<lparr>new_server = job_server job, new_site = job_site job,
                      new_type = TypeBackupCreate, new_status = StatusQueued, new_payload = payload,
                      new_max_attempts = 1, new_description = []\<rparr>;
                skip
              })
      else skip)"

definition on_exec_error :: "env \<Rightarrow> Job \<Rightarrow> TaskResult option \<Rightarrow> string \<Rightarrow> unit io" where
  "on_exec_error env job result msg =
     (if job_attempts job < job_max_attempts job then retry_later env job msg
      else do {
        _ \<leftarrow> Jobs_MarkCompleted (job_id job) False (encode_result result) msg;
        _ \<leftarrow> create_failover env job;
        _ \<leftarrow> mark_backup_failed job msg;
        Send (env_deliver env) ''error'' ''Job failed permanently'' (job_label job @ '': '' @ msg)
      })"

definition on_panic :: "env \<Rightarrow> Job \<Rightarrow> string \<Rightarrow> unit io" where
  "on_panic env job r = do {
     _ \<leftarrow> Jobs_MarkCompleted (job_id job) False (Raw []) (''panic: '' @ r);
     Send (env_deliver env) ''error'' ''Job panicked'' (job_label job @ '' panicked: '' @ r)
   }"

section \<open>After a success\<close>

definition ssl_payload :: "int \<Rightarrow> string \<Rightarrow> string \<Rightarrow> jtext" where
  "ssl_payload siteID domain email =
     Json (JObj [(''site_id'', JNum siteID), (''domain'', JStr domain), (''email'', JStr email)])"

definition owner_email :: "Site \<Rightarrow> string io" where
  "owner_email site =
     (case ste_owner site of
        None \<Rightarrow> State_Monad.return ''admin@sigarda.com''
      | Some uid \<Rightarrow> do {
          r \<leftarrow> query ''scan user'' (\<lambda>w. by_id usr_id uid (w_users w));
          State_Monad.return (case r of
            Inr (Some owner) \<Rightarrow> if usr_email owner \<noteq> [] then usr_email owner else ''admin@sigarda.com''
          | _ \<Rightarrow> ''admin@sigarda.com'')
        })"

definition after_site_create :: "env \<Rightarrow> Job \<Rightarrow> TaskResult option \<Rightarrow> unit io" where
  "after_site_create env job result =
     (case job_site job of
        None \<Rightarrow> skip
      | Some siteID \<Rightarrow> do {
          _ \<leftarrow> Sites_UpdateStatus siteID ''active'';
          _ \<leftarrow> (case result of
                 Some r \<Rightarrow> if tr_nginx_config r \<noteq> []
                           then do { _ \<leftarrow> Sites_UpdateConfFile siteID (tr_nginx_config r); skip } else skip
               | None \<Rightarrow> skip);
          _ \<leftarrow> (case result of
                 Some r \<Rightarrow> if tr_proxy_pass_url r \<noteq> []
                           then do { _ \<leftarrow> Sites_UpdateProxyPassURL siteID (tr_proxy_pass_url r); skip } else skip
               | None \<Rightarrow> skip);
          found \<leftarrow> Sites_GetByID siteID;
          case found of
            Inr (Some site) \<Rightarrow>
              if ste_domain site = [] then skip
              else do {
                email \<leftarrow> owner_email site;
                _ \<leftarrow> Jobs_Create (env_secrets env) \<lparr>new_server = Some (ste_server site), new_site = Some (ste_id site),
                      new_type = TypeSSLIssue, new_status = StatusQueued,
                      new_payload = ssl_payload siteID (ste_domain site) email, new_max_attempts = 0,
                      new_description = []\<rparr>;
                skip
              }
          | _ \<Rightarrow> skip
        })"

definition after_ssl_issue :: "Job \<Rightarrow> unit io" where
  "after_ssl_issue job =
     (case job_site job of
        None \<Rightarrow> skip
      | Some siteID \<Rightarrow> do {
          t \<leftarrow> now;
          _ \<leftarrow> Sites_UpdateSSL siteID ''active'' ''Let's Encrypt'' (t + 90 * 24 * 3600);
          skip
        })"

definition deleteS3Object :: "Provider option \<Rightarrow> string \<Rightarrow> unit io" where
  "deleteS3Object provider s3Path =
     (if provider = None \<or> s3Path = [] then skip else aws_s3_rm s3Path)"

text \<open>Storing where the archive went, and dropping the local copy once it is on S3.\<close>

definition store_backup_result :: "int \<Rightarrow> TaskResult option \<Rightarrow> unit io" where
  "store_backup_result b result =
     (let localPath = (case result of None \<Rightarrow> [] | Some r \<Rightarrow> tr_path r);
          s3Path = (case result of None \<Rightarrow> [] | Some r \<Rightarrow> tr_s3_path r);
          size = (case result of None \<Rightarrow> 0 | Some r \<Rightarrow> tr_size_bytes r)
      in do {
        _ \<leftarrow> (case result of
               Some r \<Rightarrow> if tr_s3_upload_error r \<noteq> []
                         then do { _ \<leftarrow> Backups_UpdateProgress b ''provider upload failed, local backup saved''; skip }
                         else skip
             | None \<Rightarrow> skip);
        _ \<leftarrow> Backups_MarkCompleted b size 0 localPath;
        if s3Path = [] then skip
        else do {
          r \<leftarrow> Backups_UpdateS3Path b s3Path;
          case r of
            Inl _ \<Rightarrow> skip
          | Inr _ \<Rightarrow>
              if localPath \<noteq> [] \<and> \<not> has_prefix localPath ''s3://''
              then do {
                removed \<leftarrow> os_remove localPath;
                if removed then do { _ \<leftarrow> Backups_ClearStoragePath b; skip } else skip
              }
              else skip
        }
      })"

definition backup_provider_of :: "int \<Rightarrow> Provider option io" where
  "backup_provider_of siteID = do {
     site \<leftarrow> Sites_GetByID siteID;
     own \<leftarrow> (case site of
              Inr (Some s) \<Rightarrow>
                (case ste_backup_provider s of
                   Some p \<Rightarrow> if p > 0 then Providers_GetByID p else State_Monad.return (Inr None)
                 | None \<Rightarrow> State_Monad.return (Inr None))
            | _ \<Rightarrow> State_Monad.return (Inr None));
     case own of
       Inr (Some p) \<Rightarrow> State_Monad.return (Some p)
     | _ \<Rightarrow> do {
         d \<leftarrow> Providers_GetDefault;
         State_Monad.return (case d of Inl _ \<Rightarrow> None | Inr p \<Rightarrow> p)
       }
   }"

definition drop_backup_files :: "Provider option \<Rightarrow> Backup \<Rightarrow> unit io" where
  "drop_backup_files provider b = do {
     _ \<leftarrow> (case bkp_s3_path b of
            Some p \<Rightarrow> if p \<noteq> [] \<and> provider \<noteq> None then deleteS3Object provider p else skip
          | None \<Rightarrow> skip);
     case bkp_storage_path b of
       Some p \<Rightarrow> if p \<noteq> [] \<and> \<not> has_prefix p ''s3://'' then do { _ \<leftarrow> os_remove p; skip } else skip
     | None \<Rightarrow> skip
   }"

definition auto_retention :: "Job \<Rightarrow> TaskResult option \<Rightarrow> unit io" where
  "auto_retention job result =
     (case (job_site job, result) of
        (Some siteID, Some r) \<Rightarrow>
          if tr_s3_upload_error r = [] \<or> tr_s3_path r \<noteq> [] then do {
            deleted \<leftarrow> Backups_DeleteOldest siteID 7;
            case deleted of
              Inl _ \<Rightarrow> skip
            | Inr bs \<Rightarrow>
                if bs = [] then skip
                else do {
                  provider \<leftarrow> backup_provider_of siteID;
                  for_each (drop_backup_files provider) bs
                }
          }
          else skip
      | _ \<Rightarrow> skip)"

definition after_backup :: "env \<Rightarrow> Job \<Rightarrow> TaskResult option \<Rightarrow> unit io" where
  "after_backup env job result = do {
     _ \<leftarrow> (case payload_backup_id (job_payload job) of
            None \<Rightarrow> skip
          | Some b \<Rightarrow> do {
              _ \<leftarrow> store_backup_result b result;
              Send (env_deliver env) ''info'' ''Backup Completed''
                (''Backup #'' @ itoa b @ '' ('' @ (if job_type job = TypeDBBackupCreate then ''Database'' else ''Site Files'')
                 @ '') completed successfully (size: '' @ itoa (case result of None \<Rightarrow> 0 | Some r \<Rightarrow> tr_size_bytes r)
                 @ '' bytes)'')
            });
     auto_retention job result
   }"

definition after_restore :: "Job \<Rightarrow> unit io" where
  "after_restore job =
     (case payload_backup_id (job_payload job) of
        None \<Rightarrow> skip | Some b \<Rightarrow> do { _ \<leftarrow> Backups_UpdateStatus b ''completed''; skip })"

definition after_app :: "Job \<Rightarrow> TaskResult option \<Rightarrow> unit io" where
  "after_app job result =
     (case job_site job of
        None \<Rightarrow> skip
      | Some siteID \<Rightarrow> do {
          _ \<leftarrow> Sites_UpdateAppStatus siteID
                (case result of Some r \<Rightarrow> if tr_app_status r \<noteq> [] then tr_app_status r else ''running''
                 | None \<Rightarrow> ''running'');
          skip
        })"

definition after_app_stop :: "Job \<Rightarrow> unit io" where
  "after_app_stop job =
     (case job_site job of
        None \<Rightarrow> skip
      | Some siteID \<Rightarrow> do { _ \<leftarrow> Sites_UpdateAppStatus siteID ''stopped''; skip })"

definition on_success :: "env \<Rightarrow> Job \<Rightarrow> TaskResult option \<Rightarrow> unit io" where
  "on_success env job result = do {
     _ \<leftarrow> Jobs_MarkCompleted (job_id job) True (encode_result result) [];
     if job_type job = TypeSiteCreate then after_site_create env job result
     else if job_type job = TypeSSLIssue then after_ssl_issue job
     else if is_backup_job (job_type job) then after_backup env job result
     else if job_type job = TypeBackupRestore then after_restore job
     else if job_type job = TypeAppStart \<or> job_type job = TypeAppRestart then after_app job result
     else if job_type job = TypeAppStop then after_app_stop job
     else skip
   }"

section \<open>One turn of the loop\<close>

definition dispatch_payload :: "env \<Rightarrow> Job \<Rightarrow> jtext" where
  "dispatch_payload env job =
     (case DecryptPayload (env_secrets env) (job_payload job) of Some p \<Rightarrow> p | None \<Rightarrow> job_payload job)"

definition dispatch :: "env \<Rightarrow> Job \<Rightarrow> unit io" where
  "dispatch env job = do {
     agent \<leftarrow> agentForJob env job;
     case agent of
       Inl msg \<Rightarrow> on_agent_error env job msg
     | Inr c \<Rightarrow>
         (case Execute (env_http env) c (job_type job) (dispatch_payload env job) of
            Panics r \<Rightarrow> on_panic env job r
          | Returns (result, Some msg) \<Rightarrow> on_exec_error env job result msg
          | Returns (result, None) \<Rightarrow> on_success env job result)
   }"

definition runClaimedJob :: "env \<Rightarrow> Job \<Rightarrow> unit io" where
  "runClaimedJob env job =
     (if is_backup_job (job_type job)
      then do {
        _ \<leftarrow> mark_backup_started job;
        limited \<leftarrow> over_limit env job;
        if limited then skip else dispatch env job
      }
      else dispatch env job)"

definition processOne :: "env \<Rightarrow> unit io" where
  "processOne env = do {
     claimed \<leftarrow> Jobs_ClaimNext [];
     case claimed of
       Inr (Some job) \<Rightarrow> runClaimedJob env job
     | _ \<Rightarrow> skip
   }"

end
