(* ===== verification/Scheduler.thy ===== *)
theory Scheduler
  imports Schedules Worker
begin

text \<open>
  \<open>internal/jobs/scheduler.go\<close>: one tick turns due schedules and configurations into backup records and
  jobs, then cleans up and renews certificates. The environment is that of the worker, with the key of
  the database passwords and the probe of the database server. A tick that never returns is \<open>False\<close>.
\<close>

record sched_env =
  se_env :: env
  se_db_crypto :: crypto
  se_probe :: db_probe

section \<open>Payloads\<close>

definition s3_config :: "Provider \<Rightarrow> json" where
  "s3_config p = JObj [(''bucket'', JStr (prv_bucket p)), (''endpoint'', JStr (prv_endpoint p)),
     (''region'', JStr (prv_region p)), (''access_key'', JStr (prv_access_key p)),
     (''secret_key'', JStr (prv_secret_key p))]"

definition with_s3 :: "Provider option \<Rightarrow> (string \<times> json) list \<Rightarrow> jtext" where
  "with_s3 provider kvs =
     Json (JObj (kvs @ (case provider of None \<Rightarrow> [] | Some p \<Rightarrow> [(''s3_config'', s3_config p)])))"

definition backup_job :: "Site \<Rightarrow> string \<Rightarrow> jtext \<Rightarrow> NewJob" where
  "backup_job site ty payload =
     \<lparr>new_server = Some (ste_server site), new_site = Some (ste_id site), new_type = ty, new_status = StatusQueued,
      new_payload = payload, new_max_attempts = 0, new_description = []\<rparr>"

definition db_payload :: "Site \<Rightarrow> Provider option \<Rightarrow> Database \<Rightarrow> string \<Rightarrow> string \<Rightarrow> int \<Rightarrow> jtext" where
  "db_payload site provider db user password backupID = with_s3 provider
     [(''backup_id'', JNum backupID), (''site_id'', JNum (ste_id site)), (''domain'', JStr (ste_domain site)),
      (''root_path'', JStr (ste_root_path site)), (''db_name'', JStr (dtb_name db)), (''db_type'', JStr (dtb_type db)),
      (''db_user'', JStr user), (''db_password'', JStr password)]"

definition createBackupJob :: "sched_env \<Rightarrow> int \<Rightarrow> string \<Rightarrow> Site \<Rightarrow> Provider option \<Rightarrow> unit io" where
  "createBackupJob e backupID storageType site provider = do {
     _ \<leftarrow> Jobs_Create (env_secrets (se_env e)) (backup_job site TypeBackupCreate (with_s3 provider
       [(''backup_id'', JNum backupID), (''site_id'', JNum (ste_id site)), (''domain'', JStr (ste_domain site)),
        (''root_path'', JStr (ste_root_path site)), (''storage'', JStr storageType), (''scheduled'', JBool True)]));
     skip
   }"

section \<open>Legacy schedules\<close>

definition new_backup :: "int \<Rightarrow> string \<Rightarrow> string \<Rightarrow> int option \<Rightarrow> NewBackup" where
  "new_backup siteID storageType backupType expires =
     \<lparr>nbk_site = siteID, nbk_status = ''pending'', nbk_storage_type = storageType, nbk_storage_path = None,
      nbk_type = backupType, nbk_expires_at = expires\<rparr>"

text \<open>One database of a schedule: its own record and job.\<close>

definition queue_db_backup ::
  "sched_env \<Rightarrow> Site \<Rightarrow> Provider option \<Rightarrow> string \<Rightarrow> int \<Rightarrow> Database \<Rightarrow> unit io" where
  "queue_db_backup e site provider storageType siteID db = do {
     cred \<leftarrow> DatabaseBackupCredentials (se_db_crypto e) db;
     case cred of
       Inl _ \<Rightarrow> skip
     | Inr (user, password) \<Rightarrow> do {
         created \<leftarrow> Backups_Create (new_backup siteID (''database_'' @ storageType) ''database'' None);
         case created of
           Inl _ \<Rightarrow> skip
         | Inr backupID \<Rightarrow> do {
             _ \<leftarrow> Jobs_Create (env_secrets (se_env e))
                   (backup_job site TypeDBBackupCreate (db_payload site provider db user password backupID));
             skip
           }
       }
   }"

definition schedule_provider :: "Schedule \<Rightarrow> Site \<Rightarrow> Provider option io" where
  "schedule_provider sched site = do {
     r \<leftarrow> (case sch_provider sched of
            Some p \<Rightarrow> Providers_GetByID p
          | None \<Rightarrow> (case ste_backup_provider site of
                       Some p \<Rightarrow> Providers_GetByID p | None \<Rightarrow> Providers_GetDefault));
     State_Monad.return (case r of Inl _ \<Rightarrow> None | Inr p \<Rightarrow> p)
   }"

text \<open>\<open>Create\<close> sets the default in the record its caller goes on with.\<close>

definition stored_type :: "string \<Rightarrow> string" where
  "stored_type storageType = (if storageType = [] then ''local'' else storageType)"

definition storage_type_of :: "Provider option \<Rightarrow> string" where
  "storage_type_of provider = (case provider of None \<Rightarrow> ''local'' | Some p \<Rightarrow> prv_type p)"

definition processSchedule :: "sched_env \<Rightarrow> Schedule \<Rightarrow> unit res io" where
  "processSchedule e sched = do {
     found \<leftarrow> Sites_GetByID (sch_site sched);
     case found of
       Inl err \<Rightarrow> State_Monad.return (Inl err)
     | Inr None \<Rightarrow> State_Monad.return (Inl (Fail (''site '' @ itoa (sch_site sched) @ '' not found'')))
     | Inr (Some site) \<Rightarrow> do {
         provider \<leftarrow> schedule_provider sched site;
         let storageType = storage_type_of provider;
         created \<leftarrow> Backups_Create (new_backup (sch_site sched) storageType (sch_type sched) None);
         case created of
           Inl err \<Rightarrow> State_Monad.return (Inl err)
         | Inr backupID \<Rightarrow> do {
             _ \<leftarrow> (if sch_type sched = ''database'' then do {
                    databases \<leftarrow> Databases_ListBySite (sch_site sched);
                    case databases of
                      Inl _ \<Rightarrow> createBackupJob e backupID (stored_type storageType) site provider
                    | Inr dbs \<Rightarrow>
                        if dbs = [] then createBackupJob e backupID (stored_type storageType) site provider
                        else for_each (queue_db_backup e site provider storageType (sch_site sched)) dbs
                  }
                  else if sch_type sched = ''both'' then do {
                    _ \<leftarrow> createBackupJob e backupID (stored_type storageType) site provider;
                    databases \<leftarrow> Databases_ListBySite (sch_site sched);
                    for_each (queue_db_backup e site provider storageType (sch_site sched))
                      (case databases of Inl _ \<Rightarrow> [] | Inr dbs \<Rightarrow> dbs)
                  }
                  else createBackupJob e backupID (stored_type storageType) site provider);
             State_Monad.return (Inr ())
           }
       }
   }"

section \<open>Configurations\<close>

definition schedConfigDBIDInSlice :: "int \<Rightarrow> int list \<Rightarrow> bool" where
  "schedConfigDBIDInSlice val slice = list_ex (\<lambda>v. v = val) slice"

definition effectiveBackupSiteIDs :: "BackupConfig \<Rightarrow> Site list \<Rightarrow> int list" where
  "effectiveBackupSiteIDs cfg sites =
     (if cfg_sites cfg \<noteq> [] then cfg_sites cfg
      else if cfg_scope cfg \<noteq> ''database'' \<and> cfg_scope cfg \<noteq> ''both'' then []
      else map ste_id (filter (\<lambda>s. ste_status s = ''active'') sites))"

text \<open>Whether a database is backed up, and with which account.\<close>

definition config_db_account :: "sched_env \<Rightarrow> BackupConfig \<Rightarrow> Database \<Rightarrow> (string \<times> string) option io" where
  "config_db_account e cfg db =
     (if cfg_databases cfg \<noteq> [] \<and> \<not> schedConfigDBIDInSlice (dtb_id db) (cfg_databases cfg)
      then State_Monad.return None
      else do {
        exists \<leftarrow> BackupDatabaseExists (se_db_crypto e) (se_probe e) db;
        case exists of
          Inl _ \<Rightarrow> State_Monad.return None
        | Inr False \<Rightarrow> State_Monad.return None
        | Inr True \<Rightarrow> do {
            cred \<leftarrow> DatabaseBackupCredentials (se_db_crypto e) db;
            State_Monad.return (case cred of Inl _ \<Rightarrow> None | Inr c \<Rightarrow> Some c)
          }
      })"

fun config_db_payloads :: "sched_env \<Rightarrow> BackupConfig \<Rightarrow> Database list \<Rightarrow> json list io" where
  "config_db_payloads e cfg [] = State_Monad.return []"
| "config_db_payloads e cfg (db # dbs) = do {
     account \<leftarrow> config_db_account e cfg db;
     rest \<leftarrow> config_db_payloads e cfg dbs;
     State_Monad.return (case account of
       None \<Rightarrow> rest
     | Some (user, password) \<Rightarrow>
         JObj [(''name'', JStr (dtb_name db)), (''type'', JStr (dtb_type db)), (''user'', JStr user),
               (''password'', JStr password)] # rest)
   }"

definition config_expiry :: "BackupConfig \<Rightarrow> int \<Rightarrow> int" where
  "config_expiry cfg t =
     (let retentionDays = (if cfg_retention_days cfg \<le> 0 then 30 else cfg_retention_days cfg)
      in t + wrap64 (retentionDays * (24 * 3600 * second_ns)) div second_ns)"

definition config_full :: "sched_env \<Rightarrow> BackupConfig \<Rightarrow> Provider option \<Rightarrow> int \<Rightarrow> Site \<Rightarrow> unit io" where
  "config_full e cfg provider siteID site = do {
     databases \<leftarrow> Databases_ListBySite siteID;
     payloads \<leftarrow> config_db_payloads e cfg (case databases of Inl _ \<Rightarrow> [] | Inr dbs \<Rightarrow> dbs);
     t \<leftarrow> now;
     created \<leftarrow> Backups_Create (new_backup siteID (''full_'' @ storage_type_of provider) ''both'' (Some (config_expiry cfg t)));
     case created of
       Inl _ \<Rightarrow> skip
     | Inr backupID \<Rightarrow> do {
         _ \<leftarrow> Jobs_Create (env_secrets (se_env e)) (backup_job site TypeBackupCreate (with_s3 provider
           [(''backup_id'', JNum backupID), (''site_id'', JNum (ste_id site)), (''domain'', JStr (ste_domain site)),
            (''root_path'', JStr (ste_root_path site)), (''storage'', JStr (storage_type_of provider)),
            (''backup_type'', JStr ''both''), (''databases'', JArr payloads), (''scheduled'', JBool True)]));
         skip
       }
   }"

definition config_files :: "sched_env \<Rightarrow> BackupConfig \<Rightarrow> Provider option \<Rightarrow> int \<Rightarrow> Site \<Rightarrow> unit io" where
  "config_files e cfg provider siteID site = do {
     t \<leftarrow> now;
     let storageType = storage_type_of provider;
     created \<leftarrow> Backups_Create (new_backup siteID storageType ''files'' (Some (config_expiry cfg t)));
     case created of
       Inl _ \<Rightarrow> skip
     | Inr backupID \<Rightarrow> createBackupJob e backupID (stored_type storageType) site provider
   }"

definition config_database :: "sched_env \<Rightarrow> BackupConfig \<Rightarrow> Provider option \<Rightarrow> int \<Rightarrow> Site \<Rightarrow> Database \<Rightarrow> unit io" where
  "config_database e cfg provider siteID site db = do {
     account \<leftarrow> config_db_account e cfg db;
     case account of
       None \<Rightarrow> skip
     | Some (user, password) \<Rightarrow> do {
         t \<leftarrow> now;
         created \<leftarrow> Backups_Create (new_backup siteID (''database_'' @ storage_type_of provider) ''database''
                      (Some (config_expiry cfg t)));
         case created of
           Inl _ \<Rightarrow> skip
         | Inr backupID \<Rightarrow> do {
             _ \<leftarrow> Jobs_Create (env_secrets (se_env e))
                   (backup_job site TypeDBBackupCreate (db_payload site provider db user password backupID));
             skip
           }
       }
   }"

text \<open>One site of a configuration: the body of the loop.\<close>

definition config_site :: "sched_env \<Rightarrow> BackupConfig \<Rightarrow> Provider option \<Rightarrow> int \<Rightarrow> unit io" where
  "config_site e cfg provider siteID =
     (if siteID \<le> 0 then skip
      else do {
        found \<leftarrow> Sites_GetByID siteID;
        case found of
          Inl _ \<Rightarrow> skip
        | Inr None \<Rightarrow> skip
        | Inr (Some site) \<Rightarrow>
            if ste_status site \<noteq> ''active'' then skip
            else do {
              active \<leftarrow> Jobs_HasActiveJob TypeBackupCreate siteID;
              dbActive \<leftarrow> Jobs_HasActiveJob TypeDBBackupCreate siteID;
              if active = Inr True \<or> dbActive = Inr True then skip
              else if cfg_scope cfg = ''both'' then config_full e cfg provider siteID site
              else if cfg_scope cfg = ''files'' then config_files e cfg provider siteID site
              else if cfg_scope cfg = ''database'' then do {
                databases \<leftarrow> Databases_ListBySite siteID;
                for_each (config_database e cfg provider siteID site)
                  (case databases of Inl _ \<Rightarrow> [] | Inr dbs \<Rightarrow> dbs)
              }
              else skip
            }
      })"

definition config_provider :: "BackupConfig \<Rightarrow> Provider option io" where
  "config_provider cfg = do {
     r \<leftarrow> (case cfg_provider cfg of Some p \<Rightarrow> Providers_GetByID p | None \<Rightarrow> Providers_GetDefault);
     State_Monad.return (case r of Inl _ \<Rightarrow> None | Inr p \<Rightarrow> p)
   }"

definition processBackupConfig :: "sched_env \<Rightarrow> BackupConfig \<Rightarrow> unit res io" where
  "processBackupConfig e cfg = do {
     provider \<leftarrow> config_provider cfg;
     siteIDs \<leftarrow> ResolveBackupConfigSiteIDs cfg;
     case siteIDs of
       Inl err \<Rightarrow> State_Monad.return (Inl err)
     | Inr ids \<Rightarrow> do { _ \<leftarrow> for_each (config_site e cfg provider) ids; State_Monad.return (Inr ()) }
   }"

section \<open>Cleanup\<close>

definition enqueue_delete :: "sched_env \<Rightarrow> ExpiredLocalBackup \<Rightarrow> unit io" where
  "enqueue_delete e x =
     (case elb_server x of
        None \<Rightarrow> skip
      | Some _ \<Rightarrow> do {
          _ \<leftarrow> Jobs_Create (env_secrets (se_env e))
                \<lparr>new_server = elb_server x, new_site = Some (elb_site x), new_type = ''backup.delete'',
                 new_status = StatusQueued,
                 new_payload = Json (JObj [(''backup_id'', JNum (elb_id x)), (''storage_path'', JStr (elb_path x))]),
                 new_max_attempts = 0, new_description = []\<rparr>;
          skip
        })"

definition enqueueLocalBackupDeletes :: "sched_env \<Rightarrow> int \<Rightarrow> unit io" where
  "enqueueLocalBackupDeletes e keepLast = do {
     found \<leftarrow> Backups_ListExpiredLocal keepLast;
     case found of Inl _ \<Rightarrow> skip | Inr xs \<Rightarrow> for_each (enqueue_delete e) xs
   }"

text \<open>
  \<open>fmt.Sscanf(s, "%d", &n)\<close>: leading blanks, a sign and digits; what follows is ignored. \<open>None\<close> is an error,
  which leaves \<open>n\<close> as it was.
\<close>

definition sscanf_d :: "string \<Rightarrow> int option" where
  "sscanf_d s =
     (let s = dropWhile (\<lambda>c. is_space c \<and> c \<noteq> CHR 0x0A) s;
          neg = has_prefix s ''-'';
          ds = takeWhile is_digit (if neg \<or> has_prefix s ''+'' then tl s else s);
          v = (if neg then - digits_val ds else digits_val ds)
      in if ds = [] \<or> v > max_int64 \<or> v < min_int64 then None else Some v)"

definition keep_last_setting :: "string res \<Rightarrow> int" where
  "keep_last_setting r =
     (let n = (case r of Inl _ \<Rightarrow> 0 | Inr s \<Rightarrow> (case sscanf_d s of None \<Rightarrow> 0 | Some n \<Rightarrow> n))
      in if n \<le> 0 then 3 else n)"

definition drop_expired :: "sched_env \<Rightarrow> int \<Rightarrow> unit io" where
  "drop_expired e keepLast = do {
     _ \<leftarrow> enqueueLocalBackupDeletes e keepLast;
     _ \<leftarrow> Backups_CleanupExpired keepLast;
     skip
   }"

text \<open>The update that gives an expiry to old completed backups; \<open>cutoff\<close> is a Go time.\<close>

definition set_expiry :: "int \<Rightarrow> unit res io" where
  "set_expiry cutoff = exec ''set expires_at'' (w_backups_update (update_rows
     (\<lambda>b. bkp_status b = ''completed'' \<and> bkp_expires_at b = None \<and> before_go (bkp_created_at b) cutoff)
     (\<lambda>b. b\<lparr>bkp_expires_at := Some cutoff\<rparr>)))"

definition remove_leftover :: "int \<times> string \<Rightarrow> unit io" where
  "remove_leftover r = do { _ \<leftarrow> remove_uploaded r; skip }"

text \<open>What follows once the settings are read: \<open>retention\<close> is the outcome of the first read.\<close>

definition cleanup_with :: "sched_env \<Rightarrow> string res \<Rightarrow> int \<Rightarrow> unit io" where
  "cleanup_with e retention keepLast =
     (case retention of
        Inl _ \<Rightarrow> drop_expired e keepLast
      | Inr retentionStr \<Rightarrow>
          if retentionStr = [] \<or> retentionStr = ''0'' then drop_expired e keepLast
          else (case sscanf_d retentionStr of
            None \<Rightarrow> skip
          | Some retentionDays \<Rightarrow>
              if retentionDays \<le> 0 then skip
              else do {
                t \<leftarrow> now;
                _ \<leftarrow> set_expiry (t - 86400 * retentionDays);
                _ \<leftarrow> drop_expired e keepLast;
                _ \<leftarrow> Backups_CleanupLocalAfterS3;
                found \<leftarrow> query ''select uploaded'' (\<lambda>w.
                  map (\<lambda>b. (bkp_id b, the (bkp_storage_path b))) (filter uploaded_local (rows (w_backups w))));
                _ \<leftarrow> (case found of Inl _ \<Rightarrow> skip | Inr rs \<Rightarrow> for_each remove_leftover rs);
                _ \<leftarrow> Backups_CleanupOrphanedPending 3600;
                skip
              }))"

definition runCleanup :: "sched_env \<Rightarrow> unit io" where
  "runCleanup e = do {
     retention \<leftarrow> GetSetting ''retention_days'';
     keepLastStr \<leftarrow> GetSetting ''keep_last_per_site'';
     cleanup_with e retention (keep_last_setting keepLastStr)
   }"

definition runStuckCleanup :: "sched_env \<Rightarrow> unit io" where
  "runStuckCleanup e = do {
     js \<leftarrow> Jobs_CleanupStuckRunning (30 * 60);
     _ \<leftarrow> (case js of
            Inr n \<Rightarrow> if n > 0 then Send (env_deliver (se_env e)) ''warning'' ''Stuck Jobs Cleaned''
                (itoa n @ '' job(s) stuck in 'running' for >30min were marked as failed.'') else skip
          | Inl _ \<Rightarrow> skip);
     bs \<leftarrow> Backups_CleanupStuckRunning (30 * 60);
     case bs of
       Inr n \<Rightarrow> if n > 0 then Send (env_deliver (se_env e)) ''warning'' ''Stuck Backups Cleaned''
           (itoa n @ '' backup(s) stuck in 'running' for >30min were marked as failed.'') else skip
     | Inl _ \<Rightarrow> skip
   }"

section \<open>Certificate renewal\<close>

definition renew_filter :: "int \<Rightarrow> string \<Rightarrow> JobListFilter" where
  "renew_filter siteID status =
     \<lparr>flt_server = 0, flt_site = siteID, flt_status = status, flt_type = ''ssl.renew'', flt_limit = 0, flt_offset = 0\<rparr>"

text \<open>\<open>int(d.Hours() / 24)\<close> truncates towards zero.\<close>

definition whole_days :: "int \<Rightarrow> int" where
  "whole_days s = (if s < 0 then - ((- s) div 86400) else s div 86400)"

definition renew_job :: "Site \<Rightarrow> NewJob" where
  "renew_job site = \<lparr>new_server = Some (ste_server site), new_site = Some (ste_id site), new_type = ''ssl.renew'',
     new_status = StatusQueued, new_payload = Json (JObj [(''site_id'', JNum (ste_id site)),
       (''domain'', JStr (ste_domain site)), (''auto'', JBool True)]),
     new_max_attempts = 3, new_description = []\<rparr>"

definition renew_site :: "sched_env \<Rightarrow> Site \<Rightarrow> unit io" where
  "renew_site e site =
     (if ste_status site \<noteq> ''active'' then skip
      else do {
        queued \<leftarrow> Jobs_List (renew_filter (ste_id site) StatusQueued);
        running \<leftarrow> Jobs_List (renew_filter (ste_id site) StatusRunning);
        if (case queued of Inl _ \<Rightarrow> False | Inr js \<Rightarrow> js \<noteq> []) \<or> (case running of Inl _ \<Rightarrow> False | Inr js \<Rightarrow> js \<noteq> [])
        then skip
        else do {
          created \<leftarrow> Jobs_Create (env_secrets (se_env e)) (renew_job site);
          case created of
            Inl _ \<Rightarrow> skip
          | Inr jobID \<Rightarrow> do {
              t \<leftarrow> now;
              Send (env_deliver (se_env e)) ''warning'' ''SSL Certificate Expiring''
                (''SSL for '' @ ste_domain site @ '' expires in ''
                 @ itoa (whole_days ((case ste_ssl_expires_at site of None \<Rightarrow> 0 | Some x \<Rightarrow> x) - t))
                 @ '' days. Auto-renewal job queued (job #'' @ itoa jobID @ '').'')
            }
        }
      })"

definition runSSLAutoRenew :: "sched_env \<Rightarrow> unit io" where
  "runSSLAutoRenew e = do {
     sites \<leftarrow> Sites_ListSSLEpiring (30 * 24 * 3600);
     case sites of Inl _ \<Rightarrow> skip | Inr ss \<Rightarrow> for_each (renew_site e) ss
   }"

section \<open>One tick\<close>

text \<open>A loop whose body may not return: the result is whether it did.\<close>

fun for_each_returning :: "('a \<Rightarrow> bool io) \<Rightarrow> 'a list \<Rightarrow> bool io" where
  "for_each_returning body [] = State_Monad.return True"
| "for_each_returning body (x # xs) = do {
     ok \<leftarrow> body x;
     if ok then for_each_returning body xs else State_Monad.return False
   }"

definition run_schedule :: "sched_env \<Rightarrow> Schedule \<Rightarrow> bool io" where
  "run_schedule e s = do {
     r \<leftarrow> processSchedule e s;
     case r of
       Inl _ \<Rightarrow> State_Monad.return True
     | Inr _ \<Rightarrow> do { m \<leftarrow> Schedules_MarkRun (sch_id s); State_Monad.return (m \<noteq> None) }
   }"

definition run_config :: "sched_env \<Rightarrow> BackupConfig \<Rightarrow> bool io" where
  "run_config e c = do {
     r \<leftarrow> processBackupConfig e c;
     case r of
       Inl _ \<Rightarrow> State_Monad.return True
     | Inr _ \<Rightarrow> do { m \<leftarrow> Configs_MarkRun (cfg_id c); State_Monad.return (m \<noteq> None) }
   }"

definition after_schedules :: "sched_env \<Rightarrow> unit io" where
  "after_schedules e = do {
     _ \<leftarrow> runCleanup e;
     _ \<leftarrow> runStuckCleanup e;
     _ \<leftarrow> Jobs_ScrubTerminalPayloads 3600;
     runSSLAutoRenew e
   }"

definition runTick :: "sched_env \<Rightarrow> bool io" where
  "runTick e = do {
     due \<leftarrow> Schedules_ListDue;
     ok \<leftarrow> for_each_returning (run_schedule e) (case due of Inl _ \<Rightarrow> [] | Inr ss \<Rightarrow> ss);
     if \<not> ok then State_Monad.return False
     else do {
       configs \<leftarrow> Configs_ListDue;
       ok \<leftarrow> for_each_returning (run_config e) (case configs of Inl _ \<Rightarrow> [] | Inr cs \<Rightarrow> cs);
       if \<not> ok then State_Monad.return False
       else do { _ \<leftarrow> after_schedules e; State_Monad.return True }
     }
   }"

end
