(* ===== verification/WorkerFrame.thy ===== *)
theory WorkerFrame
  imports Worker
begin

text \<open>
  What a turn of the worker leaves alone. \<open>run_frame\<close> is the contract of an invariant towards the handler
  of one claimed job: it may look at the other jobs and at tables the handler never writes. The handler
  keeps every such invariant, under every pattern of SQL errors and every answer of the agent.
\<close>

locale run_frame = alert_frame I for I :: "world \<Rightarrow> bool" +
  fixes jid :: int
  assumes backups: "I (w_backups_update f w) = I w"
    and sites: "I (w_sites_update g w) = I w"
    and own_job: "(\<And>j. job_id (h j) = job_id j) \<Longrightarrow> I w \<Longrightarrow>
      I (w_jobs_update (update_rows (\<lambda>j. job_id j = jid) h) w)"
    and new_job: "(\<And>i. job_id (mk i) = i) \<Longrightarrow> I w \<Longrightarrow> I (w_jobs_update (append_row mk) w)"
begin

lemma keep_set_job:
  assumes "\<And>w j. job_id (f w j) = job_id j"
  shows "preserves I (exec label (set_job jid f))"
  by (rule keep_exec) (simp add: set_job_def own_job assms)

lemma keep_Jobs_updates [simp]:
  "preserves I (Jobs_ScheduleRetry jid retryAt)"
  "preserves I (Jobs_SetError jid msg)"
  "preserves I (Jobs_MarkCompleted jid ok result msg)"
  unfolding Jobs_ScheduleRetry_def Jobs_SetError_def Jobs_MarkCompleted_def Let_def
  by (rule keep_set_job; simp)+

lemma keep_Jobs_Create [simp]: "preserves I (Jobs_Create k j)"
  unfolding Jobs_Create_def Let_def by (rule keep_insert_row) (simp add: new_job)

lemma keep_set_backup [simp]:
  "preserves I (exec label (set_backup b f))" "preserves I (exec label (\<lambda>w. set_backup b (g w) w))"
  by (rule keep_exec, simp add: set_backup_def backups)+

lemma keep_Backups [simp]:
  "preserves I (Backups_UpdateProgress b p)" "preserves I (Backups_UpdateStatus b st)"
  "preserves I (Backups_MarkFailed b msg)" "preserves I (Backups_MarkCompleted b n c path)"
  "preserves I (Backups_UpdateS3Path b p)" "preserves I (Backups_ClearStoragePath b)"
  by (simp_all add: Backups_UpdateProgress_def Backups_UpdateStatus_def Backups_MarkFailed_def
      Backups_MarkCompleted_def Backups_UpdateS3Path_def Backups_ClearStoragePath_def)

lemma keep_DeleteOldest [simp]: "preserves I (Backups_DeleteOldest siteID keep)"
  unfolding Backups_DeleteOldest_def
  by (intro keep_rules keep_exec) (simp_all add: backups)

lemma keep_set_site [simp]:
  "preserves I (exec label (set_site i f))" "preserves I (exec label (\<lambda>w. set_site i (g w) w))"
  by (rule keep_exec, simp add: set_site_def sites)+

lemma keep_Sites [simp]:
  "preserves I (Sites_UpdateStatus i st)" "preserves I (Sites_UpdateConfFile i p)"
  "preserves I (Sites_UpdateProxyPassURL i p)" "preserves I (Sites_UpdateSSL i st iss e)"
  "preserves I (Sites_UpdateAppStatus i st)" "preserves I (Sites_GetByID i)"
  by (simp_all add: Sites_UpdateStatus_def Sites_UpdateConfFile_def Sites_UpdateProxyPassURL_def
      Sites_UpdateSSL_def Sites_UpdateAppStatus_def Sites_GetByID_def)

lemma keep_reads [simp]:
  "preserves I (Servers_GetByID i)" "preserves I (Providers_GetByID i)" "preserves I Providers_GetDefault"
  "preserves I (Jobs_CountRunningByServer i)"
  by (simp_all add: Servers_GetByID_def Providers_GetByID_def Providers_GetDefault_def Jobs_CountRunningByServer_def)

lemma keep_mark_backup_started [simp]: "preserves I (mark_backup_started job)"
  unfolding mark_backup_started_def by (intro keep_rules) simp_all

lemma keep_over_limit [simp]: "job_id job = jid \<Longrightarrow> preserves I (over_limit env job)"
  unfolding over_limit_def Let_def by (intro keep_rules) simp_all

lemma keep_agentForJob [simp]: "preserves I (agentForJob env job)"
  unfolding agentForJob_def by (intro keep_rules) simp_all

lemma keep_mark_backup_failed [simp]: "preserves I (mark_backup_failed job msg)"
  unfolding mark_backup_failed_def by (intro keep_rules) simp_all

lemma keep_retry_later [simp]: "job_id job = jid \<Longrightarrow> preserves I (retry_later env job msg)"
  unfolding retry_later_def by (intro keep_rules) simp_all

lemma keep_create_failover [simp]: "preserves I (create_failover env job)"
  unfolding create_failover_def by (intro keep_rules) simp_all

lemma keep_errors [simp]:
  "job_id job = jid \<Longrightarrow> preserves I (on_agent_error env job msg)"
  "job_id job = jid \<Longrightarrow> preserves I (on_exec_error env job result msg)"
  "job_id job = jid \<Longrightarrow> preserves I (on_panic env job r)"
  unfolding on_agent_error_def on_exec_error_def on_panic_def
  by (intro keep_rules; simp)+

lemma keep_owner_email [simp]: "preserves I (owner_email site)"
  unfolding owner_email_def by (intro keep_rules)

lemma keep_after_site_create [simp]: "preserves I (after_site_create env job result)"
  unfolding after_site_create_def by (intro keep_rules) simp_all

lemma keep_after_ssl_issue [simp]: "preserves I (after_ssl_issue job)"
  unfolding after_ssl_issue_def by (intro keep_rules) simp_all

lemma keep_store_backup_result [simp]: "preserves I (store_backup_result b result)"
  unfolding store_backup_result_def Let_def by (intro keep_rules) simp_all

lemma keep_backup_provider_of [simp]: "preserves I (backup_provider_of siteID)"
  unfolding backup_provider_of_def by (intro keep_rules) simp_all

lemma keep_drop_backup_files [simp]: "preserves I (drop_backup_files provider b)"
  unfolding drop_backup_files_def deleteS3Object_def by (intro keep_rules)

lemma keep_auto_retention [simp]: "preserves I (auto_retention job result)"
  unfolding auto_retention_def prod.case by (intro keep_rules) simp_all

lemma keep_after_backup [simp]: "preserves I (after_backup env job result)"
  unfolding after_backup_def by (intro keep_rules) simp_all

lemma keep_after_rest [simp]:
  "preserves I (after_restore job)" "preserves I (after_app job result)" "preserves I (after_app_stop job)"
  unfolding after_restore_def after_app_def after_app_stop_def by (intro keep_rules; simp)+

lemma keep_on_success [simp]: "job_id job = jid \<Longrightarrow> preserves I (on_success env job result)"
  unfolding on_success_def by (intro keep_rules) simp_all

lemma keep_dispatch [simp]:
  assumes "job_id job = jid"
  shows "preserves I (dispatch env job)"
proof -
  have "preserves I (case Execute (env_http env) c (job_type job) (dispatch_payload env job) of
      Panics r \<Rightarrow> on_panic env job r
    | Returns (result, Some msg) \<Rightarrow> on_exec_error env job result msg
    | Returns (result, None) \<Rightarrow> on_success env job result)" for c
    using assms by (simp split: outcome.splits prod.splits option.splits)
  then show ?thesis unfolding dispatch_def using assms by (intro keep_rules) simp_all
qed

lemma keep_runClaimedJob: "job_id job = jid \<Longrightarrow> preserves I (runClaimedJob env job)"
  unfolding runClaimedJob_def by (intro keep_rules) simp_all

end

end
