(* ===== verification/JobQueue.thy ===== *)
theory JobQueue
  imports WorkerFrame
begin

text \<open>
  Properties of the job queue and its worker: what a claim takes, which rows a turn may change, how often
  a job is tried, how failures, panics and retries end, and two flaws of the handler.
\<close>

section \<open>The invariants the handler keeps\<close>

definition jobs_wf :: "world \<Rightarrow> bool" where
  "jobs_wf w \<longleftrightarrow> wf_table job_id (w_jobs w)"

definition job_is :: "int \<Rightarrow> Job \<Rightarrow> world \<Rightarrow> bool" where
  "job_is i j w \<longleftrightarrow> jobs_wf w \<and> by_id job_id i (w_jobs w) = Some j"

interpretation wf_jobs: run_frame jobs_wf jid for jid
  by unfold_locales (auto simp: jobs_wf_def intro: wf_update_rows wf_append_row)

lemma by_id_seqno: "wf_table key t \<Longrightarrow> by_id key i t = Some r \<Longrightarrow> i \<le> seqno t"
  by (auto simp: wf_table_def list_all_iff dest: by_id_Some)

lemma job_is_other:
  assumes "i \<noteq> jid" "\<And>j. job_id (h j) = job_id j" "job_is i j w"
  shows "job_is i j (w_jobs_update (update_rows (\<lambda>j. job_id j = jid) h) w)"
  using assms by (auto simp: job_is_def jobs_wf_def wf_update_rows by_id_update_rows dest: by_id_Some)

lemma job_is_append:
  assumes "\<And>k. job_id (mk k) = k" "job_is i j w"
  shows "job_is i j (w_jobs_update (append_row mk) w)"
  using assms by (auto simp: job_is_def jobs_wf_def wf_append_row by_id_append_row dest: by_id_seqno)

text \<open>A row of another job, and the tables the handler only reads.\<close>

definition other_job :: "int \<Rightarrow> int \<Rightarrow> Job \<Rightarrow> world \<Rightarrow> bool" where
  "other_job jid i j w \<longleftrightarrow> i \<noteq> jid \<and> job_is i j w"

interpretation other_jobs: run_frame "other_job jid i j" jid for jid i j
  by unfold_locales (auto simp: other_job_def job_is_other job_is_append, auto simp: job_is_def jobs_wf_def)

definition inventory_is :: "Server table \<Rightarrow> User table \<Rightarrow> Session table \<Rightarrow> world \<Rightarrow> bool" where
  "inventory_is srv usr ses w \<longleftrightarrow> w_servers w = srv \<and> w_users w = usr \<and> w_sessions w = ses"

interpretation inventory: run_frame "inventory_is srv usr ses" jid for srv usr ses jid
  by unfold_locales (simp_all add: inventory_is_def)

section \<open>Claiming\<close>

definition claimed :: "int \<Rightarrow> Job \<Rightarrow> Job" where
  "claimed t j = j\<lparr>job_status := StatusRunning, job_started_at := Some t, job_attempts := job_attempts j + 1,
     job_updated_at := t\<rparr>"

text \<open>What \<open>ClaimNext\<close> hands out: the job as read, with status and attempts advanced.\<close>

definition handed_out :: "Job \<Rightarrow> Job" where
  "handed_out j = j\<lparr>job_status := StatusRunning, job_attempts := job_attempts j + 1\<rparr>"

lemma set_job_claim:
  "set_job i (\<lambda>w j. j\<lparr>job_status := StatusRunning, job_started_at := Some (w_now w), job_attempts := job_attempts j + 1\<rparr>) w
   = w_jobs_update (update_rows (\<lambda>j. job_id j = i) (claimed (w_now w))) w"
  by (simp add: set_job_def claimed_def [abs_def])

lemma claim_cases:
  obtains (none) r fs where "run_state (Jobs_ClaimNext ty) w = (r, w\<lparr>w_faults := fs\<rparr>)" "\<And>j. r \<noteq> Inr (Some j)"
    "r = Inr None \<longrightarrow> select_asc job_id (claimable (w_now w) ty) (w_jobs w) = []"
  | (some) j js fs where "select_asc job_id (claimable (w_now w) ty) (w_jobs w) = j # js"
    "run_state (Jobs_ClaimNext ty) w = (Inr (Some (handed_out j)),
       w_jobs_update (update_rows (\<lambda>k. job_id k = job_id j) (claimed (w_now w))) (w\<lparr>w_faults := fs\<rparr>))"
proof -
  let ?sel = "\<lambda>w. select_asc job_id (claimable (w_now w) ty) (w_jobs w)"
  show thesis
  proof (cases rule: exec_cases [of "''begin tx''" "\<lambda>w. w" w])
    case (failed fs)
    then show thesis by (intro none [of "Inl (SqlError ''begin tx'')" fs]) (simp_all add: Jobs_ClaimNext_def)
  next
    case (ran fs)
    note begin_tx = ran
    let ?w1 = "w\<lparr>w_faults := fs\<rparr>"
    show thesis
    proof (cases rule: query_cases [of "''select next job''" ?sel ?w1])
      case (failed fs)
      with begin_tx show thesis by (intro none [of "Inl (SqlError ''select next job'')" fs]) (simp_all add: Jobs_ClaimNext_def)
    next
      case (ran fs)
      note selected = ran
      let ?w2 = "w\<lparr>w_faults := fs\<rparr>"
      show thesis
      proof (cases "?sel w")
        case Nil
        with begin_tx selected show thesis by (intro none [of "Inr None" fs]) (simp_all add: Jobs_ClaimNext_def)
      next
        case (Cons j js)
        note head = Cons
        show thesis
        proof (cases rule: exec_cases [of "''claim job''" "\<lambda>w. w" ?w2])
          case (failed fs)
          with begin_tx selected head show thesis by (intro none [of "Inl (SqlError ''claim job'')" fs]) (simp_all add: Jobs_ClaimNext_def)
        next
          case (ran fs)
          note claim = ran
          show thesis
          proof (cases rule: exec_cases [of "''commit''" "set_job (job_id j) (\<lambda>w j. j\<lparr>job_status := StatusRunning,
                  job_started_at := Some (w_now w), job_attempts := job_attempts j + 1\<rparr>)" "w\<lparr>w_faults := fs\<rparr>"])
            case (failed fs)
            with begin_tx selected head claim show thesis by (intro none [of "Inl (SqlError ''commit'')" fs]) (simp_all add: Jobs_ClaimNext_def)
          next
            case (ran fs)
            with begin_tx selected head claim show thesis
              by (intro some [OF head]) (simp_all add: Jobs_ClaimNext_def handed_out_def set_job_claim)
          qed
        qed
      qed
    qed
  qed
qed

lemma select_asc_head:
  assumes "select_asc key P t = r # rs"
  shows "r \<in> set (rows t)" "P r" "\<And>r'. r' \<in> set (rows t) \<Longrightarrow> P r' \<Longrightarrow> key r \<le> key r'"
proof -
  have set: "set (r # rs) = {x \<in> set (rows t). P x}" using set_select_asc [of key P t] by (simp add: assms)
  then show "r \<in> set (rows t)" "P r" by auto
  have "sorted (map key (r # rs))" using sorted_sort_key [of key "filter P (rows t)"]
    unfolding assms [unfolded select_asc_def] .
  then show "key r \<le> key r'" if "r' \<in> set (rows t)" "P r'" for r'
    using that set by auto
qed

lemma by_id_own:
  assumes "\<And>r. key (f r) = key r"
  shows "by_id key i (update_rows (\<lambda>r. key r = i) f t) = map_option f (by_id key i t)"
  using assms by (cases "by_id key i t") (auto simp: by_id_update_rows dest: by_id_Some)

lemma by_id_others:
  assumes "\<And>r. key (f r) = key r" "i \<noteq> k"
  shows "by_id key i (update_rows (\<lambda>r. key r = k) f t) = by_id key i t"
  using assms by (cases "by_id key i t") (auto simp: by_id_update_rows dest: by_id_Some)

lemma claimed_id [simp]: "job_id (claimed t j) = job_id j" "job_id (handed_out j) = job_id j"
  by (simp_all add: claimed_def handed_out_def)

section \<open>A turn of the worker\<close>

lemma processOne_keeps:
  assumes wf: "jobs_wf w" and row: "by_id job_id i (w_jobs w) = Some j" and st: "job_status j \<noteq> StatusQueued"
  shows "job_is i j (snd (run_state (processOne env) w))"
proof (cases rule: claim_cases [of "[]" w])
  case (none r fs)
  then have "snd (run_state (processOne env) w) = w\<lparr>w_faults := fs\<rparr>"
    by (cases r) (auto simp: processOne_def split: option.splits)
  with wf row show ?thesis by (simp add: job_is_def jobs_wf_def)
next
  case (some c cs fs)
  have c: "job_status c = StatusQueued" "c \<in> set (rows (w_jobs w))"
    using select_asc_head [OF some(1)] by (auto simp: claimable_def)
  have ne: "i \<noteq> job_id c"
  proof
    assume "i = job_id c"
    with c wf have "by_id job_id i (w_jobs w) = Some c" by (simp add: by_id_wf jobs_wf_def)
    with row st c show False by simp
  qed
  let ?w1 = "w_jobs_update (update_rows (\<lambda>k. job_id k = job_id c) (claimed (w_now w))) (w\<lparr>w_faults := fs\<rparr>)"
  have "other_job (job_id c) i j ?w1"
    using wf row ne unfolding other_job_def
    by (intro conjI job_is_other) (simp_all add: job_is_def jobs_wf_def)
  from preservesD [OF other_jobs.keep_runClaimedJob this, of "handed_out c" env]
  have "job_is i j (snd (run_state (runClaimedJob env (handed_out c)) ?w1))" by (simp add: other_job_def)
  then show ?thesis by (simp add: processOne_def some(2))
qed

lemma processOne_wf: "jobs_wf w \<Longrightarrow> jobs_wf (snd (run_state (processOne env) w))"
proof (cases rule: claim_cases [of "[]" w])
  case (none r fs)
  assume "jobs_wf w"
  moreover have "snd (run_state (processOne env) w) = w\<lparr>w_faults := fs\<rparr>"
    using none by (cases r) (auto simp: processOne_def split: option.splits)
  ultimately show ?thesis by (simp add: jobs_wf_def)
next
  case (some c cs fs)
  assume "jobs_wf w"
  then have "jobs_wf (w_jobs_update (update_rows (\<lambda>k. job_id k = job_id c) (claimed (w_now w))) (w\<lparr>w_faults := fs\<rparr>))"
    by (simp add: jobs_wf_def wf_update_rows)
  from preservesD [OF wf_jobs.keep_runClaimedJob this, of "handed_out c" "job_id c" env]
  show ?thesis by (simp add: processOne_def some(2))
qed

text \<open>Without SQL errors: the claimed job and the state its handler starts in.\<close>

definition start_state :: "Job \<Rightarrow> world \<Rightarrow> world" where
  "start_state j w = w_jobs_update (update_rows (\<lambda>k. job_id k = job_id j) (claimed (w_now w))) w"

lemma claim_nofault:
  assumes "w_faults w = []" "select_asc job_id (claimable (w_now w) ty) (w_jobs w) = j # js"
  shows "run_state (Jobs_ClaimNext ty) w = (Inr (Some (handed_out j)), start_state j w)"
  using assms by (simp add: Jobs_ClaimNext_def handed_out_def set_job_claim start_state_def)

lemma processOne_nofault:
  assumes "w_faults w = []" "select_asc job_id (claimable (w_now w) []) (w_jobs w) = j # js"
  shows "snd (run_state (processOne env) w) = snd (run_state (runClaimedJob env (handed_out j)) (start_state j w))"
  by (simp add: processOne_def claim_nofault [OF assms])

lemma start_state_simps [simp]:
  "w_faults (start_state j w) = w_faults w" "w_now (start_state j w) = w_now w"
  "w_servers (start_state j w) = w_servers w"
  by (simp_all add: start_state_def)

lemma start_state_job:
  assumes "jobs_wf w" "select_asc job_id (claimable (w_now w) ty) (w_jobs w) = j # js"
  shows "job_is (job_id j) (claimed (w_now w) j) (start_state j w)"
proof -
  have wf: "wf_table job_id (w_jobs w)" using assms(1) by (simp add: jobs_wf_def)
  then have "by_id job_id (job_id j) (w_jobs w) = Some j"
    using select_asc_head(1) [OF assms(2)] by (simp add: by_id_wf)
  with wf show ?thesis by (simp add: job_is_def jobs_wf_def start_state_def wf_update_rows by_id_own)
qed

lemma set_job_simps [simp]:
  "w_faults (set_job i f w) = w_faults w" "w_now (set_job i f w) = w_now w"
  by (simp_all add: set_job_def)

text \<open>The row of the job after one update of it, and after anything that only adds jobs.\<close>

lemma job_is_set:
  assumes "job_is i j w" "\<And>w j. job_id (f w j) = job_id j"
  shows "job_is i ((f w j)\<lparr>job_updated_at := w_now w\<rparr>) (set_job i f w)"
  using assms by (simp add: job_is_def jobs_wf_def set_job_def wf_update_rows by_id_own)

lemma job_is_after:
  assumes "job_is i j w" and "preserves (other_job (i + 1) i j) m"
  shows "job_is i j (snd (run_state m w))"
  using preservesD [OF assms(2)] assms(1) by (simp add: other_job_def)

section \<open>How a handler ends\<close>

definition completed_row :: "bool \<Rightarrow> jtext \<Rightarrow> string \<Rightarrow> int \<Rightarrow> Job \<Rightarrow> Job" where
  "completed_row success result msg t j = j\<lparr>job_status := (if success then StatusSucceeded else StatusFailed),
     job_completed_at := Some t, job_result := result, job_error := null_string msg, job_updated_at := t\<rparr>"

definition requeued_row :: "int \<Rightarrow> int \<Rightarrow> Job \<Rightarrow> Job" where
  "requeued_row retryAt t j =
     j\<lparr>job_status := StatusQueued, job_next_retry_at := Some retryAt, job_updated_at := t\<rparr>"

lemma row_ids [simp]:
  "job_id (completed_row ok res msg t j) = job_id j" "job_id (requeued_row r t j) = job_id j"
  by (simp_all add: completed_row_def requeued_row_def)

lemma run_MarkCompleted:
  assumes "job_is i j w" "w_faults w = []"
  shows "job_is i (completed_row ok res msg (w_now w) j) (snd (run_state (Jobs_MarkCompleted i ok res msg) w))"
  using job_is_set [OF assms(1), of "\<lambda>w j. j\<lparr>job_status := (if ok then StatusSucceeded else StatusFailed),
      job_completed_at := Some (w_now w), job_result := res, job_error := null_string msg\<rparr>"] assms(2)
  by (simp add: Jobs_MarkCompleted_def completed_row_def Let_def)

lemma run_ScheduleRetry:
  assumes "job_is i j w" "w_faults w = []"
  shows "job_is i (requeued_row r (w_now w) j) (snd (run_state (Jobs_ScheduleRetry i r) w))"
  using job_is_set [OF assms(1), of "\<lambda>w j. j\<lparr>job_status := StatusQueued, job_next_retry_at := Some r\<rparr>"] assms(2)
  by (simp add: Jobs_ScheduleRetry_def requeued_row_def)

lemma snd_bind: "snd (run_state (State_Monad.bind m f) w) = snd (run_state (f (fst (run_state m w))) (snd (run_state m w)))"
  by (simp split: prod.splits)

lemma completed_then:
  assumes "job_is i j w" "w_faults w = []" and "\<And>r k. preserves (other_job (i + 1) i k) (f r)"
  shows "job_is i (completed_row ok res msg (w_now w) j)
    (snd (run_state (State_Monad.bind (Jobs_MarkCompleted i ok res msg) f) w))"
  unfolding snd_bind by (rule job_is_after [OF run_MarkCompleted [OF assms(1,2)] assms(3)])

lemma on_success_row:
  assumes "job_is (job_id job) j w" "w_faults w = []"
  shows "job_is (job_id job) (completed_row True (encode_result res) [] (w_now w) j)
    (snd (run_state (on_success env job res) w))"
  unfolding on_success_def
  by (rule completed_then [OF assms]) (intro other_jobs.keep_if; simp)

lemma on_panic_row:
  assumes "job_is (job_id job) j w" "w_faults w = []"
  shows "job_is (job_id job) (completed_row False (Raw []) (''panic: '' @ r) (w_now w) j)
    (snd (run_state (on_panic env job r) w))"
  unfolding on_panic_def by (rule completed_then [OF assms]) simp

lemma retry_later_row:
  assumes "job_is (job_id job) j w" "w_faults w = []"
  shows "job_is (job_id job)
    ((requeued_row (after_ns env (w_now w) (delay defaultBackoff (env_rand env) (job_attempts job))) (w_now w) j)
      \<lparr>job_error := null_string msg, job_updated_at := w_now w\<rparr>)
    (snd (run_state (retry_later env job msg) w))"
proof -
  let ?r = "after_ns env (w_now w) (delay defaultBackoff (env_rand env) (job_attempts job))"
  let ?w1 = "set_job (job_id job) (\<lambda>w j. j\<lparr>job_status := StatusQueued, job_next_retry_at := Some ?r\<rparr>) w"
  have "job_is (job_id job) (requeued_row ?r (w_now w) j) ?w1"
    using run_ScheduleRetry [OF assms] assms(2) by (simp add: Jobs_ScheduleRetry_def)
  from job_is_set [OF this, of "\<lambda>w j. j\<lparr>job_error := null_string msg\<rparr>"] assms(2) show ?thesis
    by (simp add: retry_later_def Jobs_ScheduleRetry_def Jobs_SetError_def)
qed

lemma on_exec_error_row:
  assumes "job_is (job_id job) j w" "w_faults w = []" "\<not> job_attempts job < job_max_attempts job"
  shows "job_is (job_id job) (completed_row False (encode_result res) msg (w_now w) j)
    (snd (run_state (on_exec_error env job res msg) w))"
  using assms(3) unfolding on_exec_error_def
  by (simp del: run_state_bind) (rule completed_then [OF assms(1,2)], intro other_jobs.keep_rules; simp)

lemma on_agent_error_row:
  assumes "job_is (job_id job) j w" "w_faults w = []" "\<not> job_attempts job < job_max_attempts job"
  shows "job_is (job_id job) (completed_row False (Raw []) msg (w_now w) j)
    (snd (run_state (on_agent_error env job msg) w))"
  using assms(3) unfolding on_agent_error_def
  by (simp del: run_state_bind) (rule completed_then [OF assms(1,2)], intro other_jobs.keep_rules; simp)

section \<open>Backoff\<close>

lemma shift_power:
  assumes "0 \<le> k" "k \<le> 30"
  shows "1 \<le> (2::int) ^ nat k" "(2::int) ^ nat k \<le> 1073741824"
proof -
  show "1 \<le> (2::int) ^ nat k" by simp
  have "nat k \<le> 30" using assms by simp
  then have "(2::int) ^ nat k \<le> 2 ^ 30" by (rule power_increasing) simp
  then show "(2::int) ^ nat k \<le> 1073741824" by simp
qed

lemma backoff_sel: "bo_base defaultBackoff = second_ns" "bo_max defaultBackoff = 300 * second_ns"
  by (simp_all add: defaultBackoff_def)

lemma delay_core:
  assumes "1 \<le> p" "p \<le> 1073741824" "0 \<le> r" "r < bo_jitter defaultBackoff"
  shows "wrap64 ((if wrap64 (second_ns * p) > 300 * second_ns \<or> wrap64 (second_ns * p) < 0
      then 300 * second_ns else wrap64 (second_ns * p)) + r) = min (second_ns * p) (300 * second_ns) + r"
proof -
  have no_wrap: "wrap64 (second_ns * p) = second_ns * p"
    using assms by (intro wrap64_id) (simp_all add: second_ns_def)
  have "wrap64 (min (second_ns * p) (300 * second_ns) + r) = min (second_ns * p) (300 * second_ns) + r"
    using assms by (intro wrap64_id) (auto simp: second_ns_def defaultBackoff_def min_def)
  moreover have "(if second_ns * p > 300 * second_ns \<or> second_ns * p < 0 then 300 * second_ns else second_ns * p)
      = min (second_ns * p) (300 * second_ns)"
    using assms by (auto simp: second_ns_def)
  ultimately show ?thesis by (simp only: no_wrap)
qed

lemma delay_formula:
  assumes r: "0 \<le> r" "r < bo_jitter defaultBackoff"
  shows "delay defaultBackoff r n = min (second_ns * 2 ^ nat (n - 1)) (300 * second_ns) + r"
proof -
  define k where "k = (if (if n < 1 then 1 else n) - 1 > 30 then 30 else (if n < 1 then 1 else n) - 1)"
  have k: "0 \<le> k" "k \<le> 30" by (auto simp: k_def)
  have "delay defaultBackoff r n = min (second_ns * 2 ^ nat k) (300 * second_ns) + r"
    unfolding delay_def Let_def k_def [symmetric] backoff_sel by (rule delay_core [OF shift_power [OF k] r])
  moreover have "min (second_ns * 2 ^ nat k) (300 * second_ns) = min (second_ns * 2 ^ nat (n - 1)) (300 * second_ns)"
  proof (cases "n - 1 > 30")
    case True
    then have "31 \<le> nat (n - 1)" by simp
    then have "(2::int) ^ 31 \<le> 2 ^ nat (n - 1)" by (rule power_increasing) simp
    with True show ?thesis by (simp add: second_ns_def k_def)
  next
    case False
    then have "nat k = nat (n - 1)" by (auto simp: k_def)
    then show ?thesis by simp
  qed
  ultimately show ?thesis by simp
qed

lemma delay_bounds:
  assumes "0 \<le> r" "r < bo_jitter defaultBackoff"
  shows "second_ns \<le> delay defaultBackoff r n" "delay defaultBackoff r n < 301 * second_ns"
proof -
  define p :: int where "p = 2 ^ nat (n - 1)"
  have "1 \<le> p" by (simp add: p_def)
  then show "second_ns \<le> delay defaultBackoff r n" "delay defaultBackoff r n < 301 * second_ns"
    using assms unfolding delay_formula [OF assms] p_def [symmetric]
    by (auto simp: min_def second_ns_def defaultBackoff_def)
qed

definition env_ok :: "env \<Rightarrow> bool" where
  "env_ok env \<longleftrightarrow> 0 \<le> env_rand env \<and> env_rand env < bo_jitter defaultBackoff
     \<and> 0 \<le> env_frac env \<and> env_frac env < second_ns"

lemma retry_time:
  assumes "env_ok env"
  shows "t < after_ns env t (delay defaultBackoff (env_rand env) n)"
    and "after_ns env t (delay defaultBackoff (env_rand env) n) \<le> t + 301"
proof -
  have d: "second_ns \<le> delay defaultBackoff (env_rand env) n" "delay defaultBackoff (env_rand env) n < 301 * second_ns"
    using assms by (auto simp: env_ok_def intro: delay_bounds)
  let ?x = "env_frac env + delay defaultBackoff (env_rand env) n"
  have "1 \<le> ?x div second_ns" "?x div second_ns \<le> 301"
    using d assms by (auto simp: env_ok_def second_ns_def)
  then show "t < after_ns env t (delay defaultBackoff (env_rand env) n)"
    "after_ns env t (delay defaultBackoff (env_rand env) n) \<le> t + 301"
    by (auto simp: after_ns_def)
qed

end
