(* ===== verification/JobProps.thy ===== *)
theory JobProps
  imports JobQueue
begin

text \<open>
  The properties of the job queue and its worker, over the lemmas of \<open>JobQueue\<close>: what a claim takes,
  which rows a turn can change, the retry and failure paths, the backoff, and three flaws.
\<close>

section \<open>Turns without SQL errors\<close>

lemma run_agentForJob: "w_faults w = [] \<Longrightarrow> \<exists>a. run_state (agentForJob env job) w = (a, w)"
  by (auto simp: agentForJob_def Servers_GetByID_def split: option.splits)

lemma run_mark_backup_started:
  assumes "w_faults w = []"
  shows "\<exists>f. run_state (mark_backup_started job) w = ((), w_backups_update f w)"
proof (cases "payload_backup_id (job_payload job)")
  case None
  then have "run_state (mark_backup_started job) w = ((), w_backups_update (\<lambda>t. t) w)"
    by (simp add: mark_backup_started_def)
  then show ?thesis by blast
next
  case (Some b)
  with assms show ?thesis
    by (simp add: mark_backup_started_def Backups_UpdateProgress_def Backups_UpdateStatus_def set_backup_def) blast
qed

text \<open>The jobs the concurrency check stops: backups of a server.\<close>

definition server_backup :: "Job \<Rightarrow> bool" where
  "server_backup j \<longleftrightarrow> is_backup_job (job_type j) \<and> (\<exists>s. job_server j = Some s \<and> s > 0)"

lemma run_over_limit_none:
  "w_faults w = [] \<Longrightarrow> \<not> (\<exists>s. job_server j = Some s \<and> s > 0) \<Longrightarrow> run_state (over_limit env j) w = (False, w)"
  by (auto simp: over_limit_def split: option.splits)

lemma run_reaches_dispatch:
  assumes "w_faults w = []" "\<not> server_backup job" "job_is i j w"
  shows "\<exists>w1. snd (run_state (runClaimedJob env job) w) = snd (run_state (dispatch env job) w1)
    \<and> w_faults w1 = [] \<and> w_now w1 = w_now w \<and> job_is i j w1 \<and> w_servers w1 = w_servers w"
proof (cases "is_backup_job (job_type job)")
  case False
  with assms show ?thesis by (auto simp: runClaimedJob_def)
next
  case True
  obtain f where t: "run_state (mark_backup_started job) w = ((), w_backups_update f w)"
    using run_mark_backup_started [OF assms(1)] by blast
  have "run_state (over_limit env job) (w_backups_update f w) = (False, w_backups_update f w)"
    using assms True by (intro run_over_limit_none) (auto simp: server_backup_def)
  with t True assms show ?thesis
    by (intro exI [of _ "w_backups_update f w"]) (simp add: runClaimedJob_def job_is_def jobs_wf_def)
qed

definition finished_row :: "int \<Rightarrow> Job \<Rightarrow> bool" where
  "finished_row t j \<longleftrightarrow> job_status j \<in> {StatusSucceeded, StatusFailed} \<and> job_completed_at j = Some t"

definition retry_row :: "int \<Rightarrow> Job \<Rightarrow> bool" where
  "retry_row t j \<longleftrightarrow> job_status j = StatusQueued \<and> job_attempts j < job_max_attempts j
     \<and> (\<exists>r. job_next_retry_at j = Some r \<and> t < r \<and> r \<le> t + 301)"

lemma retry_outcome:
  assumes "job_is (job_id job) j w" "w_faults w = []" "env_ok env"
    and "job_attempts j < job_max_attempts j"
  shows "\<exists>j'. job_is (job_id job) j' (snd (run_state (retry_later env job msg) w))
    \<and> job_attempts j' = job_attempts j \<and> retry_row (w_now w) j'"
  by (rule exI, rule conjI, rule retry_later_row [OF assms(1,2)])
     (use assms(4) retry_time [OF assms(3)] in \<open>simp add: requeued_row_def retry_row_def\<close>)

lemma finished_completed [simp]: "finished_row t (completed_row ok res msg t j)"
  by (simp add: finished_row_def completed_row_def)

lemma attempts_completed [simp]: "job_attempts (completed_row ok res msg t j) = job_attempts j"
  by (simp add: completed_row_def)

lemma dispatch_outcome:
  assumes row: "job_is (job_id job) j w" and nf: "w_faults w = []" and env: "env_ok env"
    and same: "job_attempts j = job_attempts job" "job_max_attempts j = job_max_attempts job"
  shows "\<exists>j'. job_is (job_id job) j' (snd (run_state (dispatch env job) w))
    \<and> job_attempts j' = job_attempts j \<and> (finished_row (w_now w) j' \<or> retry_row (w_now w) j')"
proof -
  let ?out = "\<lambda>m. \<exists>j'. job_is (job_id job) j' (snd (run_state m w))
    \<and> job_attempts j' = job_attempts j \<and> (finished_row (w_now w) j' \<or> retry_row (w_now w) j')"
  have err: "?out (on_agent_error env job msg)" for msg
  proof (cases "job_attempts job < job_max_attempts job")
    case True
    with retry_outcome [OF row nf env] same show ?thesis by (simp add: on_agent_error_def) blast
  next
    case False
    from on_agent_error_row [OF row nf this] show ?thesis by fastforce
  qed
  have exec_err: "?out (on_exec_error env job res msg)" for res msg
  proof (cases "job_attempts job < job_max_attempts job")
    case True
    with retry_outcome [OF row nf env] same show ?thesis by (simp add: on_exec_error_def) blast
  next
    case False
    from on_exec_error_row [OF row nf this] show ?thesis by fastforce
  qed
  have panic: "?out (on_panic env job r)" for r using on_panic_row [OF row nf] by fastforce
  have success: "?out (on_success env job res)" for res using on_success_row [OF row nf] by fastforce
  obtain a where a: "run_state (agentForJob env job) w = (a, w)" using run_agentForJob [OF nf] by blast
  show ?thesis
  proof (cases a)
    case (Inl msg)
    with a err show ?thesis by (simp add: dispatch_def)
  next
    case (Inr c)
    show ?thesis
    proof (cases "Execute (env_http env) c (job_type job) (dispatch_payload env job)")
      case (Panics r)
      with a Inr panic show ?thesis by (simp add: dispatch_def)
    next
      case (Returns p)
      obtain res e where "p = (res, e)" by (cases p)
      with a Inr Returns exec_err success show ?thesis by (cases e) (simp_all add: dispatch_def)
    qed
  qed
qed

section \<open>Concrete queues\<close>

definition demo_job :: "int \<Rightarrow> string \<Rightarrow> string \<Rightarrow> int option \<Rightarrow> Job" where
  "demo_job i ty st server = \<lparr>job_id = i, job_server = server, job_site = None, job_type = ty, job_status = st,
     job_payload = Json (JObj [(''backup_id'', JNum 4)]), job_result = Raw [], job_error = None, job_description = [],
     job_attempts = 0, job_max_attempts = 3, job_created_at = 0, job_updated_at = 0, job_started_at = None,
     job_completed_at = None, job_next_retry_at = None\<rparr>"

definition demo_queue :: "Job list \<Rightarrow> world" where
  "demo_queue js = (fresh_world 100)\<lparr>w_jobs := \<lparr>rows = js, seqno = 9\<rparr>\<rparr>"

definition demo_env :: "reply outcome \<Rightarrow> env" where
  "demo_env reply = \<lparr>env_secrets = demo_crypto, env_http = (\<lambda>url token body. reply),
     env_agent = \<lparr>cl_base_url = ''http://127.0.0.1:9000'', cl_token = ''t''\<rparr>,
     env_deliver = (\<lambda>c s t m. None), env_rand = 0, env_frac = 0\<rparr>"

definition demo_two :: world where
  "demo_two = demo_queue [demo_job 3 ''nginx.reload'' ''canceled'' None, demo_job 5 ''nginx.reload'' ''queued'' None]"

section \<open>Properties\<close>

text \<open>What a job has to be for the queue to hand it out, in terms of its row.\<close>

definition ready :: "int \<Rightarrow> string \<Rightarrow> Job \<Rightarrow> bool" where
  "ready t ty j \<longleftrightarrow> job_status j = ''queued'' \<and> (ty = [] \<or> job_type j = ty)
     \<and> (job_next_retry_at j = None \<or> the (job_next_retry_at j) \<le> t)"

lemma claimable_ready: "claimable t ty j \<longleftrightarrow> ready t ty j"
  by (auto simp: claimable_def ready_def split: option.split)

text \<open>C6. A claim takes the oldest job that is ready: queued, of the wanted type, and not waiting for a later
  retry. It marks exactly that row running and counts the attempt; with nothing ready it changes nothing.\<close>

theorem ClaimNext_oldest_ready:
  assumes "jobs_wf w" "w_faults w = []"
  shows "case run_state (Jobs_ClaimNext ty) w of
      (Inr (Some job), w') \<Rightarrow> (\<exists>j. job = handed_out j \<and> by_id job_id (job_id j) (w_jobs w) = Some j
          \<and> ready (w_now w) ty j
          \<and> list_all (\<lambda>k. ready (w_now w) ty k \<longrightarrow> job_id j \<le> job_id k) (rows (w_jobs w))
          \<and> w' = w_jobs_update (update_rows (\<lambda>k. job_id k = job_id j) (claimed (w_now w))) w)
    | (Inr None, w') \<Rightarrow> w' = w \<and> list_all (\<lambda>k. \<not> ready (w_now w) ty k) (rows (w_jobs w))
    | (Inl _, _) \<Rightarrow> False"
proof (cases "select_asc job_id (claimable (w_now w) ty) (w_jobs w)")
  case Nil
  then have "{k \<in> set (rows (w_jobs w)). claimable (w_now w) ty k} = {}"
    using set_select_asc [of job_id "claimable (w_now w) ty" "w_jobs w"] by simp
  with assms Nil show ?thesis by (auto simp: Jobs_ClaimNext_def list_all_iff claimable_ready)
next
  case (Cons j js)
  have "by_id job_id (job_id j) (w_jobs w) = Some j"
    using assms select_asc_head(1) [OF Cons] by (simp add: by_id_wf jobs_wf_def)
  with select_asc_head(2,3) [OF Cons] claim_nofault [OF assms(2) Cons] show ?thesis
    by (auto simp: list_all_iff start_state_def claimable_ready)
qed

lemma ClaimNext_oldest_ready_witness:
  "case run_state (Jobs_ClaimNext []) demo_two of
      (Inr (Some job), w') \<Rightarrow> (\<exists>j. job = handed_out j \<and> by_id job_id (job_id j) (w_jobs demo_two) = Some j
          \<and> ready (w_now demo_two) [] j
          \<and> list_all (\<lambda>k. ready (w_now demo_two) [] k \<longrightarrow> job_id j \<le> job_id k) (rows (w_jobs demo_two))
          \<and> w' = w_jobs_update (update_rows (\<lambda>k. job_id k = job_id j) (claimed (w_now demo_two))) demo_two)
    | (Inr None, w') \<Rightarrow> w' = demo_two \<and> list_all (\<lambda>k. \<not> ready (w_now demo_two) [] k) (rows (w_jobs demo_two))
    | (Inl _, _) \<Rightarrow> False"
  by (rule ClaimNext_oldest_ready; code_simp)

text \<open>C7. Whatever the agents answer, panic or not, and whatever SQL statements fail: a turn of the worker
  never touches the row of a job that is not queued. So a job that has succeeded, failed or been canceled
  stays as it is, and a canceled job is never run.\<close>

theorem turn_keeps_unqueued:
  assumes "jobs_wf w" "by_id job_id i (w_jobs w) = Some j" "job_status j \<noteq> StatusQueued"
  shows "by_id job_id i (w_jobs (snd (run_state (processOne env) w))) = Some j"
  using processOne_keeps [OF assms] by (simp add: job_is_def)

lemma turn_keeps_unqueued_witness:
  "by_id job_id 3 (w_jobs (snd (run_state (processOne (demo_env (Panics ''oops''))) demo_two)))
   = Some (demo_job 3 ''nginx.reload'' ''canceled'' None)"
  by (rule turn_keeps_unqueued; code_simp)



section \<open>The paths of a turn\<close>

text \<open>Jobs without a server go to the local agent.\<close>

lemma run_local_agent: "job_server job = None \<Longrightarrow> run_state (agentForJob env job) w = (Inr (env_agent env), w)"
  by (simp add: agentForJob_def)

lemma turn_of_local_job:
  assumes "jobs_wf w" "w_faults w = []" "select_asc job_id (claimable (w_now w) []) (w_jobs w) = j # js"
    and "\<not> is_backup_job (job_type j)" "job_server j = None"
  shows "snd (run_state (processOne env) w) = snd (run_state
    (case Execute (env_http env) (env_agent env) (job_type j) (dispatch_payload env j) of
       Panics r \<Rightarrow> on_panic env (handed_out j) r
     | Returns (result, Some msg) \<Rightarrow> on_exec_error env (handed_out j) result msg
     | Returns (result, None) \<Rightarrow> on_success env (handed_out j) result) (start_state j w))"
proof -
  have "run_state (agentForJob env (handed_out j)) (start_state j w) = (Inr (env_agent env), start_state j w)"
    using assms by (simp add: run_local_agent handed_out_def)
  moreover have "dispatch_payload env (handed_out j) = dispatch_payload env j" "job_type (handed_out j) = job_type j"
    by (simp_all add: dispatch_payload_def handed_out_def split: option.split)
  ultimately show ?thesis
    using assms(4) by (simp add: processOne_nofault [OF assms(2,3)] runClaimedJob_def dispatch_def)
qed



text \<open>An agent that answers 501, so does not implement the task, is taken for a success: \<open>Execute\<close> gives
  a result with \<open>ok = false\<close> and no error, the worker looks at the error alone, and the job is stored as
  succeeded. The result with its error text is kept in the row, but nothing is retried or reported.\<close>

theorem unimplemented_task_succeeds:
  assumes "jobs_wf w" "w_faults w = []" "select_asc job_id (claimable (w_now w) []) (w_jobs w) = j # js"
    and "\<not> is_backup_job (job_type j)" "job_server j = None" "endpointForType (job_type j) \<noteq> []"
    and reply: "env_http env (cl_base_url (env_agent env) @ endpointForType (job_type j)) (cl_token (env_agent env))
      (request_body (dispatch_payload env j)) = Returns (Reply 501 body)"
    and body: "decode_result body = Some r"
  shows "by_id job_id (job_id j) (w_jobs (snd (run_state (processOne env) w)))
    = Some (completed_row True
        (encode_result (Some (r\<lparr>tr_ok := False, tr_error := ''agent task not implemented: '' @ job_type j\<rparr>))) []
        (w_now w) (claimed (w_now w) j))"
proof -
  let ?r = "r\<lparr>tr_ok := False, tr_error := ''agent task not implemented: '' @ job_type j\<rparr>"
  have "Execute (env_http env) (env_agent env) (job_type j) (dispatch_payload env j) = Returns (Some ?r, None)"
    using assms(6) reply body by (simp add: Execute_def)
  then show ?thesis
    unfolding turn_of_local_job [OF assms(1-5)]
    using on_success_row [where job = "handed_out j" and j = "claimed (w_now w) j" and w = "start_state j w"
        and env = env and res = "Some ?r"]
      start_state_job [OF assms(1,3)] assms(2)
    by (simp add: job_is_def)
qed

abbreviation demo_501 :: env where "demo_501 \<equiv> demo_env (Returns (Reply 501 (Json (JObj []))))"

lemma unimplemented_task_succeeds_witness:
  "by_id job_id (job_id (demo_job 5 ''nginx.reload'' ''queued'' None))
     (w_jobs (snd (run_state (processOne demo_501) demo_two)))
    = Some (completed_row True
        (encode_result (Some (zero_result\<lparr>tr_ok := False,
           tr_error := ''agent task not implemented: '' @ job_type (demo_job 5 ''nginx.reload'' ''queued'' None)\<rparr>))) []
        (w_now demo_two) (claimed (w_now demo_two) (demo_job 5 ''nginx.reload'' ''queued'' None)))"
proof (rule unimplemented_task_succeeds)
  show "jobs_wf demo_two" "w_faults demo_two = []" by code_simp+
  show "select_asc job_id (claimable (w_now demo_two) []) (w_jobs demo_two)
      = demo_job 5 ''nginx.reload'' ''queued'' None # []" by code_simp
  show "\<not> is_backup_job (job_type (demo_job 5 ''nginx.reload'' ''queued'' None))"
    "job_server (demo_job 5 ''nginx.reload'' ''queued'' None) = None"
    "endpointForType (job_type (demo_job 5 ''nginx.reload'' ''queued'' None)) \<noteq> []" by code_simp+
  show "env_http demo_501 (cl_base_url (env_agent demo_501)
      @ endpointForType (job_type (demo_job 5 ''nginx.reload'' ''queued'' None))) (cl_token (env_agent demo_501))
      (request_body (dispatch_payload demo_501 (demo_job 5 ''nginx.reload'' ''queued'' None)))
      = Returns (Reply 501 (Json (JObj [])))"
    by (simp add: demo_env_def)
  show "decode_result (Json (JObj [])) = Some zero_result" by code_simp
qed

lemma count_rows_pos: "r \<in> set (rows t) \<Longrightarrow> P r \<Longrightarrow> 1 \<le> count_rows P t"
  by (induction "rows t" arbitrary: t) (auto simp: count_rows_def filter_empty_conv Suc_le_eq)

lemma over_limit_of_running:
  assumes "w_faults w = []" "job_server job = Some s" "s > 0" "is_backup_job (job_type job)"
    and "job_is (job_id job) j w" "job_status j = StatusRunning" "job_server j = Some s" "job_type j = job_type job"
  shows "\<exists>r. \<forall>h. run_state (over_limit (env\<lparr>env_http := h\<rparr>) job) w
    = (True, snd (run_state (Jobs_ScheduleRetry (job_id job) r) w))"
proof -
  let ?n = "count_rows (\<lambda>j. job_server j = Some s \<and> job_status j = StatusRunning
    \<and> job_type j \<in> {TypeBackupCreate, TypeDBBackupCreate}) (w_jobs w)"
  have "j \<in> set (rows (w_jobs w))" using assms(5) by (auto simp: job_is_def dest: by_id_Some)
  then have "1 \<le> ?n" using assms by (intro count_rows_pos) (auto simp: is_backup_job_def)
  with assms(1-3) have "run_state (over_limit (env\<lparr>env_http := h\<rparr>) job) w = (True, snd (run_state (Jobs_ScheduleRetry (job_id job)
      (after_ns env (w_now w) (wrap64 ((?n - maxConcurrentBackups + 1) * 30 * second_ns)))) w))" for h
    by (simp add: over_limit_def Jobs_CountRunningByServer_def maxConcurrentBackups_def Jobs_ScheduleRetry_def after_ns_def)
  then show ?thesis by blast
qed

text \<open>The concurrency check counts the very job it is about: \<open>ClaimNext\<close> has already marked it running. So a
  backup job with a server is always put back in the queue, with its attempt counted and no limit on their
  number, whatever the agents would answer (the final state does not depend on them): such a backup is never
  dispatched.\<close>

theorem server_backup_never_dispatched:
  assumes "jobs_wf w" "w_faults w = []" "select_asc job_id (claimable (w_now w) []) (w_jobs w) = j # js"
    and "server_backup j"
  shows "(\<forall>h. snd (run_state (processOne (env\<lparr>env_http := h\<rparr>)) w) = snd (run_state (processOne env) w))
    \<and> (\<exists>j'. by_id job_id (job_id j) (w_jobs (snd (run_state (processOne env) w))) = Some j'
          \<and> job_status j' = StatusQueued \<and> job_attempts j' = job_attempts j + 1)"
proof -
  from assms(4) obtain s where s: "job_server j = Some s" "s > 0" "is_backup_job (job_type j)"
    by (auto simp: server_backup_def)
  obtain f where f: "run_state (mark_backup_started (handed_out j)) (start_state j w)
      = ((), w_backups_update f (start_state j w))"
    using run_mark_backup_started [of "start_state j w"] assms(2) by auto
  let ?w1 = "w_backups_update f (start_state j w)"
  have row: "job_is (job_id j) (claimed (w_now w) j) ?w1"
    using start_state_job [OF assms(1,3)] by (simp add: job_is_def jobs_wf_def)
  have "\<exists>r. \<forall>h. run_state (over_limit (env\<lparr>env_http := h\<rparr>) (handed_out j)) ?w1
      = (True, snd (run_state (Jobs_ScheduleRetry (job_id (handed_out j)) r) ?w1))"
  proof (rule over_limit_of_running [OF _ _ s(2)])
    show "job_is (job_id (handed_out j)) (claimed (w_now w) j) ?w1" using row by simp
  qed (use s assms(2) in \<open>simp_all add: handed_out_def claimed_def\<close>)
  then obtain r where r: "\<And>h. run_state (over_limit (env\<lparr>env_http := h\<rparr>) (handed_out j)) ?w1
      = (True, snd (run_state (Jobs_ScheduleRetry (job_id j) r) ?w1))" by auto
  have final: "snd (run_state (processOne (env\<lparr>env_http := h\<rparr>)) w)
      = snd (run_state (Jobs_ScheduleRetry (job_id j) r) ?w1)" for h
    using r [of h] f s(3)
    by (simp add: processOne_nofault [OF assms(2,3)] runClaimedJob_def handed_out_def)
  have env: "env = env\<lparr>env_http := env_http env\<rparr>" by simp
  have end_state: "snd (run_state (processOne env) w) = snd (run_state (Jobs_ScheduleRetry (job_id j) r) ?w1)"
    by (subst env) (rule final)
  have "job_is (job_id j) (requeued_row r (w_now ?w1) (claimed (w_now w) j)) (snd (run_state (processOne env) w))"
    unfolding end_state using assms(2) by (intro run_ScheduleRetry row) simp
  then show ?thesis unfolding final end_state
    by (simp add: job_is_def requeued_row_def claimed_def)
qed

definition demo_starved :: world where
  "demo_starved = demo_queue [demo_job 5 ''backup.create'' ''queued'' (Some 2)]"

lemma server_backup_never_dispatched_witness:
  "(\<forall>h. snd (run_state (processOne (demo_501\<lparr>env_http := h\<rparr>)) demo_starved) = snd (run_state (processOne demo_501) demo_starved))
    \<and> (\<exists>j'. by_id job_id (job_id (demo_job 5 ''backup.create'' ''queued'' (Some 2)))
          (w_jobs (snd (run_state (processOne demo_501) demo_starved))) = Some j'
          \<and> job_status j' = StatusQueued \<and> job_attempts j' = job_attempts (demo_job 5 ''backup.create'' ''queued'' (Some 2)) + 1)"
proof (rule server_backup_never_dispatched)
  show "jobs_wf demo_starved" "w_faults demo_starved = []" by code_simp+
  show "select_asc job_id (claimable (w_now demo_starved) []) (w_jobs demo_starved)
      = demo_job 5 ''backup.create'' ''queued'' (Some 2) # []" by code_simp
  show "server_backup (demo_job 5 ''backup.create'' ''queued'' (Some 2))"
    by (simp add: server_backup_def demo_job_def is_backup_job_def)
qed

text \<open>C10. The retry delay never overflows: for every attempt number and every random draw it is the doubling
  delay of one second, capped at five minutes, plus the jitter.\<close>

theorem backoff_is_capped_doubling:
  assumes "0 \<le> r" "r < bo_jitter defaultBackoff"
  shows "delay defaultBackoff r n = min (second_ns * 2 ^ nat (n - 1)) (300 * second_ns) + r
    \<and> second_ns \<le> delay defaultBackoff r n \<and> delay defaultBackoff r n < 301 * second_ns"
  using delay_formula [OF assms] delay_bounds [OF assms] by simp

lemma backoff_is_capped_doubling_witness:
  "delay defaultBackoff 7 4 = min (second_ns * 2 ^ nat (4 - 1)) (300 * second_ns) + 7
    \<and> second_ns \<le> delay defaultBackoff 7 4 \<and> delay defaultBackoff 7 4 < 301 * second_ns"
  by (rule backoff_is_capped_doubling) (simp_all add: defaultBackoff_def)

lemma map_of_overridden:
  assumes "fst ` set ys \<subseteq> S"
  shows "map_of (filter (\<lambda>(k, _). k \<notin> S) kvs @ ys) k = (if k \<in> S then map_of ys k else map_of kvs k)"
proof -
  have "map_of (filter (\<lambda>(k, _). k \<notin> S) kvs) k = (if k \<in> S then None else map_of kvs k)"
    by (induction kvs) auto
  moreover have "k \<notin> S \<Longrightarrow> map_of ys k = None" using assms by (auto simp: map_of_eq_None_iff)
  ultimately show ?thesis by (simp add: map_add_def split: option.split)
qed

text \<open>The local retry of a failed S3 backup is made once: the payload it gets asks for local storage and has no
  S3 target any more, so a failure of that job starts no further one.\<close>

lemma failover_once:
  "case failover_payload p of
     None \<Rightarrow> True
   | Some q \<Rightarrow> failover_payload q = None \<and> payload_backup_id q = payload_backup_id p
       \<and> (\<forall>kvs. q = Json (JObj kvs) \<longrightarrow> map_of kvs ''s3_config'' = None \<and> map_of kvs ''storage'' = Some (JStr ''local''))"
proof (cases "failover_payload p")
  case None
  then show ?thesis by simp
next
  case (Some q)
  then obtain kvs where p: "p = Json (JObj kvs)" and q: "q = Json (JObj (filter (\<lambda>(k, _). k \<notin> {''s3_config'', ''storage'', ''failover''}) kvs
             @ [(''storage'', JStr ''local''), (''failover'', JBool True)]))"
    by (cases p rule: failover_payload.cases) (auto split: if_splits)
  have "map_of (filter (\<lambda>(k, _). k \<notin> {''s3_config'', ''storage'', ''failover''}) kvs
        @ [(''storage'', JStr ''local''), (''failover'', JBool True)]) k
      = (if k \<in> {''s3_config'', ''storage'', ''failover''}
         then map_of [(''storage'', JStr ''local''), (''failover'', JBool True)] k else map_of kvs k)" for k
    by (rule map_of_overridden) simp
  then show ?thesis using Some by (simp add: p q int_field_def del: map_of_append)
qed

lemma secret_match_word: "list_all word_byte s \<Longrightarrow> secret_match s = None"
proof -
  assume w: "list_all word_byte s"
  have "sep \<noteq> CHR '':'' \<and> sep \<noteq> CHR ''=''" if "dropWhile re_space (drop n s) = sep # rest" for n sep rest
  proof -
    from that have "sep \<in> set s" by (metis in_set_dropD list.set_intros(1) set_dropWhileD)
    with w have "word_byte sep" by (simp add: list_all_iff)
    then show ?thesis by (auto simp: word_byte_def is_digit_def in_range_def)
  qed
  then show ?thesis by (auto simp: secret_match_def split: option.splits list.splits)
qed

lemma redact_word: "list_all word_byte s \<Longrightarrow> redact_scan b s = s"
proof (induction s arbitrary: b)
  case Nil
  then show ?case by simp
next
  case (Cons c s)
  then show ?case using secret_match_word [of "c # s"] by simp
qed

lemma lower_A: "char_of (97 :: nat) = CHR ''a''"
  by code_simp

text \<open>What \<open>redactAgentError\<close> misses: of an \<open>Authorization: Bearer\<close> header it hides the word \<open>Bearer\<close> and keeps
  the token, and a keyword glued to another word by an underscore, as in \<open>db_password=\<close>, is not one to it.
  The message goes into the job row and the alert with the credential in it.\<close>

lemma redaction_misses_credentials:
  assumes "list_all word_byte token"
  shows "redactAgentError (''Authorization: Bearer '' @ token) = ''Authorization:[REDACTED] '' @ token
    \<and> redactAgentError (''db_password='' @ token) = ''db_password='' @ token"
proof
  have "secret_match (''Authorization: Bearer '' @ token) = Some (''Authorization'', CHR '':'', ''Bearer'', '' '' @ token)"
    by (simp add: secret_match_def secret_words_def to_lower_def lower_char_def in_range_def re_space_def value_byte_def lower_A)
  moreover have "secret_match ('' '' @ token) = None"
    by (simp add: secret_match_def secret_words_def to_lower_def lower_char_def in_range_def)
  ultimately show "redactAgentError (''Authorization: Bearer '' @ token) = ''Authorization:[REDACTED] '' @ token"
    using redact_word [OF assms] by (simp add: redactAgentError_def word_byte_def is_digit_def in_range_def)
  have "secret_match (''db_password='' @ token) = None"
    by (simp add: secret_match_def secret_words_def to_lower_def lower_char_def in_range_def)
  then show "redactAgentError (''db_password='' @ token) = ''db_password='' @ token"
    using redact_word [OF assms] by (simp add: redactAgentError_def word_byte_def is_digit_def in_range_def)
qed

lemma redaction_misses_credentials_witness:
  "redactAgentError (''Authorization: Bearer '' @ ''s3cr3t'') = ''Authorization:[REDACTED] '' @ ''s3cr3t''
    \<and> redactAgentError (''db_password='' @ ''s3cr3t'') = ''db_password='' @ ''s3cr3t''"
  by (rule redaction_misses_credentials) code_simp

end
