(* ===== verification/SchedulerFrame.thy ===== *)
theory SchedulerFrame
  imports Scheduler JobProps
begin

text \<open>
  What a tick of the scheduler leaves alone, under every pattern of SQL errors. \<open>sched_frame\<close> is the
  contract of an invariant towards the parts of a tick: it does not look at backup records, survives
  new jobs, and survives updates of job rows that leave finished jobs in their status. Together with the
  frame of the worker this gives the life cycle of a job, as a step relation of the whole panel.
\<close>

locale sched_frame = alert_frame I for I :: "world \<Rightarrow> bool" +
  assumes backups: "I (w_backups_update f w) = I w"
    and new_job: "(\<And>i. job_id (mk i) = i) \<Longrightarrow> I w \<Longrightarrow> I (w_jobs_update (append_row mk) w)"
    and job_rows: "(\<And>j. job_id (h j) = job_id j) \<Longrightarrow>
      (\<And>j. P j \<Longrightarrow> terminal (job_status j) \<Longrightarrow> job_status (h j) = job_status j) \<Longrightarrow>
      I w \<Longrightarrow> I (w_jobs_update (update_rows P h) w)"
begin

lemma keep_Jobs_Create [simp]: "preserves I (Jobs_Create k j)"
  unfolding Jobs_Create_def Let_def by (rule keep_insert_row) (simp add: new_job)

lemma keep_Backups_Create [simp]: "preserves I (Backups_Create b)"
  unfolding Backups_Create_def
  by (rule keep_stmt) (simp add: create_backup_def last_insert_result_def backups rowid)

lemma keep_reads [simp]:
  "preserves I (Sites_GetByID i)" "preserves I (Providers_GetByID i)" "preserves I Providers_GetDefault"
  "preserves I (Databases_ListBySite i)" "preserves I (DBUsers_ListByDatabase i)" "preserves I (GetSetting key)"
  "preserves I (Jobs_HasActiveJob ty i)" "preserves I (Jobs_List fl)" "preserves I (Sites_List sf)"
  "preserves I (Sites_ListSSLEpiring win)" "preserves I GetBackupCredentials" "preserves I GetDefaultServer"
  "preserves I (Backups_ListExpiredLocal k)"
  unfolding Sites_GetByID_def Providers_GetByID_def Providers_GetDefault_def Databases_ListBySite_def
    DBUsers_ListByDatabase_def GetSetting_def Jobs_HasActiveJob_def Jobs_List_def Sites_List_def Let_def
    Sites_ListSSLEpiring_def GetBackupCredentials_def GetDefaultServer_def Backups_ListExpiredLocal_def
  by (intro keep_rules; simp)+

lemma keep_createBackupJob [simp]: "preserves I (createBackupJob e b st site p)"
  unfolding createBackupJob_def by (intro keep_rules) simp_all

lemma keep_credentials [simp]:
  "preserves I (DatabaseBackupCredentials k d)" "preserves I (BackupDatabaseExists k pr d)"
  unfolding DatabaseBackupCredentials_def BackupDatabaseExists_def by (intro keep_rules; simp)+

lemma keep_queue_db_backup [simp]: "preserves I (queue_db_backup e site p st i db)"
  unfolding queue_db_backup_def by (intro keep_rules) simp_all

lemma keep_providers [simp]: "preserves I (schedule_provider s site)" "preserves I (config_provider c)"
  unfolding schedule_provider_def config_provider_def by (intro keep_rules; simp)+

lemma keep_processSchedule [simp]: "preserves I (processSchedule e s)"
  unfolding processSchedule_def Let_def by (intro keep_rules) simp_all

lemma keep_bool:
  "(b \<Longrightarrow> preserves I m) \<Longrightarrow> (\<not> b \<Longrightarrow> preserves I n) \<Longrightarrow> preserves I (case b of True \<Rightarrow> m | False \<Rightarrow> n)"
  by (cases b) simp_all

lemma keep_config_db_account [simp]: "preserves I (config_db_account e cfg db)"
  unfolding config_db_account_def by (intro keep_rules keep_bool) simp_all

lemma keep_config_db_payloads [simp]: "preserves I (config_db_payloads e cfg dbs)"
  by (induction dbs) (simp, unfold config_db_payloads.simps, intro keep_rules, simp_all)

lemma keep_config_site [simp]: "preserves I (config_site e cfg p i)"
  unfolding config_site_def config_full_def config_files_def config_database_def Let_def
  by (intro keep_rules) simp_all

lemma keep_processBackupConfig [simp]: "preserves I (processBackupConfig e cfg)"
  unfolding processBackupConfig_def ResolveBackupConfigSiteIDs_def by (intro keep_rules) simp_all

lemma keep_backup_updates [simp]:
  "preserves I (Backups_ClearStoragePath b)" "preserves I (Backups_CleanupExpired k)" "preserves I (set_expiry t)"
  "preserves I (Backups_CleanupStuckRunning s)" "preserves I (Backups_CleanupOrphanedPending s)"
  unfolding Backups_ClearStoragePath_def Backups_CleanupExpired_def set_expiry_def Let_def
    Backups_CleanupStuckRunning_def Backups_CleanupOrphanedPending_def
  by (intro keep_rules keep_exec keep_exec_count; simp add: set_backup_def backups)+

lemma keep_remove_uploaded [simp]: "preserves I (remove_uploaded r)"
  unfolding remove_uploaded_def by (intro keep_rules) simp_all

lemma keep_remove_all_uploaded [simp]: "preserves I (remove_all_uploaded n rs)"
  by (induction n rs rule: remove_all_uploaded.induct)
    (simp, unfold remove_all_uploaded.simps, intro keep_rules, simp_all)

lemma keep_runCleanup [simp]: "preserves I (runCleanup e)"
  unfolding runCleanup_def cleanup_with_def drop_expired_def enqueueLocalBackupDeletes_def enqueue_delete_def remove_leftover_def
    Backups_CleanupLocalAfterS3_def Let_def
  by (intro keep_rules) simp_all

lemma keep_stuck_jobs [simp]: "preserves I (Jobs_CleanupStuckRunning s)"
  unfolding Jobs_CleanupStuckRunning_def Let_def
  by (intro keep_rules keep_exec_count job_rows) (simp_all add: terminal_def)

lemma keep_scrub [simp]: "preserves I (Jobs_ScrubTerminalPayloads s)"
  unfolding Jobs_ScrubTerminalPayloads_def Let_def
  by (intro keep_rules keep_exec_count job_rows) simp_all

lemma keep_runStuckCleanup [simp]: "preserves I (runStuckCleanup e)"
  unfolding runStuckCleanup_def by (intro keep_rules) simp_all

lemma keep_runSSLAutoRenew [simp]: "preserves I (runSSLAutoRenew e)"
  unfolding runSSLAutoRenew_def renew_site_def by (intro keep_rules) simp_all

lemma keep_after_schedules [simp]: "preserves I (after_schedules e)"
  unfolding after_schedules_def by (intro keep_rules) simp_all

end

text \<open>A whole tick also marks the schedules and configurations that ran.\<close>

locale tick_frame = sched_frame +
  assumes schedules: "I (w_schedules_update s w) = I w"
    and configs: "I (w_configs_update c w) = I w"
begin

lemma keep_ListDue [simp]: "preserves I Schedules_ListDue" "preserves I Configs_ListDue"
  unfolding Schedules_ListDue_def Configs_ListDue_def by (intro keep_rules)+

lemma keep_MarkRun [simp]: "preserves I (Schedules_MarkRun i)" "preserves I (Configs_MarkRun i)"
  unfolding Schedules_MarkRun_def Configs_MarkRun_def
  by (intro keep_rules keep_exec; simp add: schedules configs)+

lemma keep_for_each_returning [intro]:
  "(\<And>x. x \<in> set xs \<Longrightarrow> preserves I (body x)) \<Longrightarrow> preserves I (for_each_returning body xs)"
  by (induction xs) (simp, unfold for_each_returning.simps, intro keep_rules, simp_all)

lemma keep_runs [simp]: "preserves I (run_schedule e s)" "preserves I (run_config e c)"
  unfolding run_schedule_def run_config_def by (intro keep_rules; simp)+

lemma keep_runTick: "preserves I (runTick e)"
  unfolding runTick_def by (intro keep_rules keep_for_each_returning) simp_all

end

section \<open>The life cycle of a job\<close>

text \<open>Job \<open>i\<close> has ended with status \<open>st\<close>.\<close>

definition settled :: "int \<Rightarrow> string \<Rightarrow> world \<Rightarrow> bool" where
  "settled i st w \<longleftrightarrow> jobs_wf w \<and> terminal st
     \<and> (case by_id job_id i (w_jobs w) of None \<Rightarrow> False | Some j \<Rightarrow> job_status j = st)"

lemma settledE:
  assumes "settled i st w"
  obtains j where "jobs_wf w" "terminal st" "by_id job_id i (w_jobs w) = Some j" "job_status j = st"
  using assms by (auto simp: settled_def split: option.splits)

lemma settledI: "jobs_wf w \<Longrightarrow> terminal st \<Longrightarrow> by_id job_id i (w_jobs w) = Some j \<Longrightarrow> job_status j = st \<Longrightarrow> settled i st w"
  by (simp add: settled_def)

lemma settled_append:
  assumes "\<And>k. job_id (mk k) = k" "settled i st w"
  shows "settled i st (w_jobs_update (append_row mk) w)"
  using assms(2)
proof (rule settledE)
  fix j assume j: "jobs_wf w" "terminal st" "by_id job_id i (w_jobs w) = Some j" "job_status j = st"
  then have "job_is i j (w_jobs_update (append_row mk) w)" by (intro job_is_append [OF assms(1)]) (simp add: job_is_def)
  with j show ?thesis by (intro settledI) (simp_all add: job_is_def)
qed

lemma settled_update:
  assumes "\<And>j. job_id (h j) = job_id j" "\<And>j. P j \<Longrightarrow> terminal (job_status j) \<Longrightarrow> job_status (h j) = job_status j"
    and "settled i st w"
  shows "settled i st (w_jobs_update (update_rows P h) w)"
  using assms(3)
proof (rule settledE)
  fix j assume j: "jobs_wf w" "terminal st" "by_id job_id i (w_jobs w) = Some j" "job_status j = st"
  then have "by_id job_id i (w_jobs (w_jobs_update (update_rows P h) w)) = Some (if P j then h j else j)"
    by (simp add: by_id_update_rows assms(1))
  moreover have "job_status (if P j then h j else j) = st" using j assms(2) [of j] by simp
  ultimately show ?thesis using j by (intro settledI) (simp_all add: jobs_wf_def wf_update_rows assms(1))
qed

interpretation settled_jobs: tick_frame "settled i st" for i st
  by unfold_locales (simp_all add: settled_append settled_update, simp_all add: settled_def jobs_wf_def)

interpretation wf_jobs_tick: tick_frame jobs_wf
  by unfold_locales (auto simp: jobs_wf_def intro: wf_update_rows wf_append_row)

interpretation no_faults: tick_frame nofault
  by unfold_locales (simp_all add: nofault_def)

definition clock_is :: "int \<Rightarrow> world \<Rightarrow> bool" where
  "clock_is t w \<longleftrightarrow> w_now w = t"

interpretation clock: tick_frame "clock_is t" for t
  by unfold_locales (simp_all add: clock_is_def)

definition configs_are :: "BackupConfig table \<Rightarrow> world \<Rightarrow> bool" where
  "configs_are t w \<longleftrightarrow> w_configs w = t"

interpretation configs: sched_frame "configs_are t" for t
  by unfold_locales (simp_all add: configs_are_def)

lemma processOne_settled:
  assumes "settled i st w"
  shows "settled i st (snd (run_state (processOne env) w))"
  using assms
proof (rule settledE)
  fix j assume j: "jobs_wf w" "terminal st" "by_id job_id i (w_jobs w) = Some j" "job_status j = st"
  then have "job_is i j (snd (run_state (processOne env) w))"
    by (intro processOne_keeps) (auto simp: terminal_def)
  with j show ?thesis by (intro settledI) (simp_all add: job_is_def)
qed

text \<open>
  The panel as a transition system: a turn of the worker, a tick of the scheduler, a job queued or
  canceled through the API, and anything that leaves the job rows alone (the clock, other handlers, I/O
  errors to come). Deleting a server or a site, which deletes its jobs, is not a step.
\<close>

inductive panel_step :: "world \<Rightarrow> world \<Rightarrow> bool" where
  turn: "panel_step w (snd (run_state (processOne env) w))"
| tick: "panel_step w (snd (run_state (runTick e) w))"
| queue: "panel_step w (snd (run_state (Jobs_Create k j) w))"
| cancel: "panel_step w (snd (run_state (Jobs_Cancel i) w))"
| other: "w_jobs w' = w_jobs w \<Longrightarrow> panel_step w w'"

lemma keep_Cancel: "preserves (settled i st) (Jobs_Cancel k)"
  unfolding Jobs_Cancel_def
  by (rule settled_jobs.keep_exec, rule settled_update) (auto simp: terminal_def)

lemma step_settled:
  assumes "panel_step w w'" "settled i st w"
  shows "settled i st w'"
  using assms(1)
proof (cases rule: panel_step.cases)
  case (turn env)
  with assms(2) show ?thesis by (simp add: processOne_settled)
next
  case (tick e)
  with preservesD [OF settled_jobs.keep_runTick assms(2)] show ?thesis by simp
next
  case (queue k j)
  with preservesD [OF settled_jobs.keep_Jobs_Create assms(2)] show ?thesis by simp
next
  case (cancel k)
  with preservesD [OF keep_Cancel assms(2)] show ?thesis by simp
next
  case other
  with assms(2) show ?thesis by (simp add: settled_def jobs_wf_def)
qed

text \<open>C15. A job that has succeeded, failed or been canceled keeps that status for good: in whatever order the worker
  and the scheduler run, jobs are queued and canceled, and SQL statements fail, no sequence of steps
  revives or relabels it.\<close>

theorem finished_job_stays_finished:
  assumes "panel_step\<^sup>*\<^sup>* w w'" "settled i st w"
  shows "settled i st w'"
  using assms by (induction rule: rtranclp_induct) (auto intro: step_settled)

lemma finished_job_stays_finished_witness:
  "settled 3 ''canceled'' (snd (run_state (processOne (demo_env (Panics ''oops''))) demo_two))"
  by (rule finished_job_stays_finished [OF r_into_rtranclp [where r = panel_step, OF panel_step.turn]]) code_simp

end
