(* ===== verification/BackupProps.thy ===== *)
theory BackupProps
  imports JobProps
begin

text \<open>
  Properties of the backup records: retention never deletes the newest completed backups of a site, the
  rotation after a success keeps the newest ids, files of deleted rows are known beforehand, and two
  flaws of \<open>Create\<close>.
\<close>

section \<open>Ranks\<close>

text \<open>The rank of an element in a finite strict order, as \<open>ROW_NUMBER\<close> counts it, runs from 1 to the size.\<close>

locale ranked =
  fixes S :: "'a set" and before :: "'a \<Rightarrow> 'a \<Rightarrow> bool"
  assumes finite: "finite S"
    and irrefl: "\<not> before x x"
    and trans: "before x y \<Longrightarrow> before y z \<Longrightarrow> before x z"
    and total: "x \<in> S \<Longrightarrow> y \<in> S \<Longrightarrow> x \<noteq> y \<Longrightarrow> before x y \<or> before y x"
begin

definition rank :: "'a \<Rightarrow> nat" where
  "rank x = card {y \<in> S. before y x}"

lemma rank_less:
  assumes "x \<in> S" "before x y"
  shows "rank x < rank y"
proof -
  have "{z \<in> S. before z x} \<subset> {z \<in> S. before z y}" using assms irrefl trans by blast
  then show ?thesis unfolding rank_def using finite by (intro psubset_card_mono) auto
qed

lemma rank_inj: "inj_on rank S"
proof (rule inj_onI)
  fix x y assume xy: "x \<in> S" "y \<in> S" "rank x = rank y"
  show "x = y"
  proof (rule ccontr)
    assume "x \<noteq> y"
    with xy total have "before x y \<or> before y x" by blast
    with xy rank_less show False by fastforce
  qed
qed

lemma rank_image: "rank ` S = {..< card S}"
proof (rule card_subset_eq)
  have "rank x < card S" if "x \<in> S" for x
  proof -
    have "{y \<in> S. before y x} \<subset> S" using that irrefl by blast
    then show ?thesis unfolding rank_def using finite by (rule psubset_card_mono [rotated])
  qed
  then show "rank ` S \<subseteq> {..< card S}" by auto
qed (simp_all add: card_image [OF rank_inj])

lemma card_rank_below: "card {x \<in> S. rank x < k} = min k (card S)"
proof -
  have "rank ` {x \<in> S. rank x < k} = {..< min k (card S)}"
    using rank_image by (auto simp: image_iff) (metis imageE lessThan_iff)
  moreover have "inj_on rank {x \<in> S. rank x < k}" using rank_inj by (rule inj_on_subset) auto
  ultimately show ?thesis using card_image by fastforce
qed

end

section \<open>The orders of the two retention rules\<close>

definition backups_wf :: "world \<Rightarrow> bool" where
  "backups_wf w \<longleftrightarrow> wf_table bkp_id (w_backups w)"

text \<open>The rows of a well-formed table with a property; ids tell them apart.\<close>

definition rows_with :: "(Backup \<Rightarrow> bool) \<Rightarrow> Backup table \<Rightarrow> Backup set" where
  "rows_with P t = (if wf_table bkp_id t then {b \<in> set (rows t). P b} else {})"

lemma same_id: "wf_table bkp_id t \<Longrightarrow> b \<in> set (rows t) \<Longrightarrow> c \<in> set (rows t) \<Longrightarrow> bkp_id b = bkp_id c \<Longrightarrow> b = c"
  by (auto simp: wf_table_def distinct_map dest: inj_onD)

lemma finite_rows_with: "finite (rows_with P t)"
  by (simp add: rows_with_def)

interpretation newest: ranked "rows_with (\<lambda>b. bkp_status b = ''completed'' \<and> bkp_site b = s) t" newer for s t
proof
  show "finite (rows_with (\<lambda>b. bkp_status b = ''completed'' \<and> bkp_site b = s) t)" by (rule finite_rows_with)
  show "\<not> newer x x" for x by (simp add: newer_def)
  show "newer x z" if "newer x y" "newer y z" for x y z using that by (auto simp: newer_def)
  show "newer x y \<or> newer y x"
    if "x \<in> rows_with (\<lambda>b. bkp_status b = ''completed'' \<and> bkp_site b = s) t"
      "y \<in> rows_with (\<lambda>b. bkp_status b = ''completed'' \<and> bkp_site b = s) t" "x \<noteq> y" for x y
  proof -
    have "bkp_id x \<noteq> bkp_id y" using that same_id [of t x y] by (auto simp: rows_with_def split: if_splits)
    then show ?thesis unfolding newer_def by linarith
  qed
qed

interpretation latest: ranked "rows_with (\<lambda>b. bkp_site b = s \<and> bkp_type b = ty) t" "\<lambda>c b. bkp_id c > bkp_id b" for s ty t
proof
  show "finite (rows_with (\<lambda>b. bkp_site b = s \<and> bkp_type b = ty) t)" by (rule finite_rows_with)
  show "bkp_id x > bkp_id y \<or> bkp_id y > bkp_id x"
    if "x \<in> rows_with (\<lambda>b. bkp_site b = s \<and> bkp_type b = ty) t"
      "y \<in> rows_with (\<lambda>b. bkp_site b = s \<and> bkp_type b = ty) t" "x \<noteq> y" for x y
  proof -
    have "bkp_id x \<noteq> bkp_id y" using that same_id [of t x y] by (auto simp: rows_with_def split: if_splits)
    then show ?thesis by linarith
  qed
qed auto

lemma count_rows_card:
  assumes "wf_table bkp_id t"
  shows "count_rows P t = int (card {b \<in> set (rows t). P b})"
proof -
  have "distinct (rows t)" using assms by (simp add: wf_table_def distinct_map)
  then show ?thesis unfolding count_rows_def by (simp add: distinct_length_filter Int_def conj_commute)
qed

lemma retained_rank:
  assumes "wf_table bkp_id t"
  shows "retained k t b \<longleftrightarrow> bkp_status b = ''completed'' \<and> int (newest.rank (bkp_site b) t b) < k"
proof -
  have eq: "{c \<in> set (rows t). bkp_status c = ''completed'' \<and> bkp_site c = bkp_site b \<and> newer c b}
      = {c \<in> rows_with (\<lambda>c. bkp_status c = ''completed'' \<and> bkp_site c = bkp_site b) t. newer c b}"
    using assms by (auto simp: rows_with_def)
  show ?thesis
    unfolding retained_def row_number_def count_rows_card [OF assms] newest.rank_def eq by linarith
qed

lemma oldest_rank:
  assumes "wf_table bkp_id t"
  shows "oldest s k t b \<longleftrightarrow> bkp_site b = s \<and> \<not> int (latest.rank s (bkp_type b) t b) < k"
proof -
  have eq: "{c \<in> set (rows t). bkp_site c = s \<and> (bkp_site c, bkp_type c) = (bkp_site b, bkp_type b) \<and> bkp_id c > bkp_id b}
      = {c \<in> rows_with (\<lambda>c. bkp_site c = s \<and> bkp_type c = bkp_type b) t. bkp_id c > bkp_id b}" if "bkp_site b = s"
    using assms that by (auto simp: rows_with_def)
  show ?thesis
  proof (cases "bkp_site b = s")
    case True
    show ?thesis
      unfolding oldest_def row_number_def count_rows_card [OF assms] latest.rank_def eq [OF True] by linarith
  qed (simp add: oldest_def)
qed

definition completed_of :: "int \<Rightarrow> world \<Rightarrow> int" where
  "completed_of s w = count_rows (\<lambda>b. bkp_status b = ''completed'' \<and> bkp_site b = s) (w_backups w)"

definition kind_of :: "int \<Rightarrow> string \<Rightarrow> world \<Rightarrow> int" where
  "kind_of s ty w = count_rows (\<lambda>b. bkp_site b = s \<and> bkp_type b = ty) (w_backups w)"

lemma int_min: "0 \<le> k \<Longrightarrow> int (min (nat k) n) = min k (int n)"
  by auto

lemma retained_count:
  assumes "wf_table bkp_id t" "0 \<le> k"
  shows "int (card {b \<in> set (rows t). bkp_status b = ''completed'' \<and> bkp_site b = s \<and> retained k t b})
    = min k (count_rows (\<lambda>b. bkp_status b = ''completed'' \<and> bkp_site b = s) t)"
proof -
  let ?S = "rows_with (\<lambda>b. bkp_status b = ''completed'' \<and> bkp_site b = s) t"
  have "{b \<in> set (rows t). bkp_status b = ''completed'' \<and> bkp_site b = s \<and> retained k t b}
      = {b \<in> ?S. newest.rank s t b < nat k}"
    using assms by (auto simp: rows_with_def retained_rank)
  moreover have "int (card ?S) = count_rows (\<lambda>b. bkp_status b = ''completed'' \<and> bkp_site b = s) t"
    using assms by (simp add: count_rows_card rows_with_def)
  ultimately show ?thesis using int_min [OF assms(2), of "card ?S"] by (simp add: newest.card_rank_below)
qed

lemma kept_count:
  assumes "wf_table bkp_id t" "0 \<le> k"
  shows "int (card {b \<in> set (rows t). bkp_site b = s \<and> bkp_type b = ty \<and> \<not> oldest s k t b})
    = min k (count_rows (\<lambda>b. bkp_site b = s \<and> bkp_type b = ty) t)"
proof -
  let ?S = "rows_with (\<lambda>b. bkp_site b = s \<and> bkp_type b = ty) t"
  have "{b \<in> set (rows t). bkp_site b = s \<and> bkp_type b = ty \<and> \<not> oldest s k t b}
      = {b \<in> ?S. latest.rank s ty t b < nat k}"
    using assms by (auto simp: rows_with_def oldest_rank)
  moreover have "int (card ?S) = count_rows (\<lambda>b. bkp_site b = s \<and> bkp_type b = ty) t"
    using assms by (simp add: count_rows_card rows_with_def)
  ultimately show ?thesis using int_min [OF assms(2), of "card ?S"] by (simp add: latest.card_rank_below)
qed

section \<open>Properties\<close>


definition demo_backup :: "int \<Rightarrow> string \<Rightarrow> int option \<Rightarrow> Backup" where
  "demo_backup i st e = \<lparr>bkp_id = i, bkp_site = 1, bkp_status = st, bkp_storage_type = ''local'',
     bkp_storage_path = Some ''/srv/b'', bkp_type = ''files'', bkp_s3_path = None, bkp_progress = [], bkp_size = 0,
     bkp_file_count = 0, bkp_error = None, bkp_created_at = i, bkp_completed_at = None, bkp_expires_at = e\<rparr>"

definition demo_backups :: world where
  "demo_backups = (fresh_world 100)\<lparr>w_backups := \<lparr>rows = [demo_backup 1 ''completed'' (Some 5),
     demo_backup 2 ''completed'' (Some 6), demo_backup 3 ''failed'' (Some 7)], seqno = 3\<rparr>\<rparr>"


text \<open>The rotation after a success keeps, for each backup type of the site, exactly the newest \<open>keep\<close> records (or
  all, if fewer) and returns exactly the records it deleted; other sites are not touched. Every record counts
  here, failed and pending ones too.\<close>

theorem DeleteOldest_keeps_latest:
  assumes "backups_wf w" "w_faults w = []" "0 \<le> keep"
  shows "\<exists>deleted w'. run_state (Backups_DeleteOldest siteID keep) w = (Inr deleted, w')
    \<and> set (rows (w_backups w')) = set (rows (w_backups w)) - set deleted
    \<and> set deleted = {b \<in> set (rows (w_backups w)). oldest siteID keep (w_backups w) b}
    \<and> kind_of siteID ty w' = min keep (kind_of siteID ty w)"
proof -
  let ?t = "w_backups w"
  let ?del = "filter (oldest siteID keep ?t) (rows ?t)"
  let ?w' = "if ?del = [] then w else w_backups_update (delete_rows (\<lambda>b. bkp_id b \<in> bkp_id ` set ?del)) w"
  have wf: "wf_table bkp_id ?t" using assms(1) by (simp add: backups_wf_def)
  have run: "run_state (Backups_DeleteOldest siteID keep) w = (Inr ?del, ?w')"
    using assms(2) by (simp add: Backups_DeleteOldest_def)
  have wf': "wf_table bkp_id (w_backups ?w')" using wf by (simp add: wf_delete_rows)
  have left: "set (rows (w_backups ?w')) = {b \<in> set (rows ?t). \<not> oldest siteID keep ?t b}"
    using same_id [OF wf] by (auto simp: filter_empty_conv)
  have "kind_of siteID ty ?w' = int (card {b \<in> set (rows ?t). bkp_site b = siteID \<and> bkp_type b = ty \<and> \<not> oldest siteID keep ?t b})"
    unfolding kind_of_def count_rows_card [OF wf'] left by (rule arg_cong [of _ _ "\<lambda>A. int (card A)"]) auto
  also have "\<dots> = min keep (kind_of siteID ty w)"
    unfolding kind_of_def by (rule kept_count [OF wf assms(3)])
  finally have kind: "kind_of siteID ty ?w' = min keep (kind_of siteID ty w)" .
  show ?thesis using run left kind by (intro exI [of _ ?del] exI [of _ ?w']) auto
qed

lemma DeleteOldest_keeps_latest_witness:
  "\<exists>deleted w'. run_state (Backups_DeleteOldest 1 2) demo_backups = (Inr deleted, w')
    \<and> set (rows (w_backups w')) = set (rows (w_backups demo_backups)) - set deleted
    \<and> set deleted = {b \<in> set (rows (w_backups demo_backups)). oldest 1 2 (w_backups demo_backups) b}
    \<and> kind_of 1 ''files'' w' = min 2 (kind_of 1 ''files'' demo_backups)"
proof (rule DeleteOldest_keeps_latest)
  show "backups_wf demo_backups" "w_faults demo_backups = []" by code_simp+
qed simp

section \<open>Creating a backup record\<close>

definition one_active :: "world \<Rightarrow> bool" where
  "one_active w \<longleftrightarrow> (\<forall>b \<in> set (rows (w_backups w)). \<forall>c \<in> set (rows (w_backups w)).
     bkp_site b = bkp_site c \<and> bkp_type b = bkp_type c \<and> active_backup (bkp_status b) \<and> active_backup (bkp_status c)
     \<longrightarrow> bkp_id b = bkp_id c)"

lemma create_backup_snd:
  "snd (create_backup b w) = w \<or> (\<not> backup_conflict b (w_backups w)
     \<and> w_backups (snd (create_backup b w)) = append_row (new_backup_row b (w_now w)) (w_backups w))"
  by (auto simp: create_backup_def last_insert_result_def)

lemma new_backup_row_simps [simp]:
  "bkp_id (new_backup_row b t i) = i" "bkp_site (new_backup_row b t i) = nbk_site b"
  "bkp_type (new_backup_row b t i) = new_type_of b" "bkp_status (new_backup_row b t i) = new_status_of b"
  "bkp_expires_at (new_backup_row b t i) = None"
  by (simp_all add: new_backup_row_def)

lemma create_keeps_one_active:
  assumes "one_active w"
  shows "one_active (snd (create_backup b w))"
  using create_backup_snd [of b w]
proof
  assume "snd (create_backup b w) = w"
  with assms show ?thesis by simp
next
  assume new: "\<not> backup_conflict b (w_backups w)
     \<and> w_backups (snd (create_backup b w)) = append_row (new_backup_row b (w_now w)) (w_backups w)"
  let ?new = "new_backup_row b (w_now w) (seqno (w_backups w) + 1)"
  have clash: "\<not> (bkp_site c = bkp_site ?new \<and> bkp_type c = bkp_type ?new \<and> active_backup (bkp_status c)
      \<and> active_backup (bkp_status ?new))" if "c \<in> set (rows (w_backups w))" for c
    using new that by (auto simp: backup_conflict_def has_row_iff)
  have set: "set (rows (w_backups (snd (create_backup b w)))) = insert ?new (set (rows (w_backups w)))"
    using new by simp
  show ?thesis unfolding one_active_def
  proof (intro ballI impI)
    fix x y
    assume xy: "x \<in> set (rows (w_backups (snd (create_backup b w))))" "y \<in> set (rows (w_backups (snd (create_backup b w))))"
      and same: "bkp_site x = bkp_site y \<and> bkp_type x = bkp_type y \<and> active_backup (bkp_status x) \<and> active_backup (bkp_status y)"
    from xy consider "x = y" | "x \<in> set (rows (w_backups w))" "y \<in> set (rows (w_backups w))"
      | "x = ?new" "y \<in> set (rows (w_backups w))" | "y = ?new" "x \<in> set (rows (w_backups w))"
      unfolding set by blast
    then show "bkp_id x = bkp_id y"
    proof cases
      case 2
      with assms same show ?thesis unfolding one_active_def by blast
    next
      case 3
      with clash [of y] same show ?thesis by metis
    next
      case 4
      with clash [of x] same show ?thesis by metis
    qed simp
  qed
qed

interpretation one_active_kept: store_invariant one_active
  by (rule store_invariant_backups) (simp only: one_active_def)

text \<open>C12. Whatever SQL statements fail, \<open>Create\<close> never gives a site a second active record of the same backup type.\<close>

theorem Create_keeps_one_active:
  assumes "one_active w"
  shows "one_active (snd (run_state (Backups_Create b) w))"
  using one_active_kept.keep_stmt [OF create_keeps_one_active] assms
  unfolding Backups_Create_def by (rule preservesD)

definition demo_new :: NewBackup where
  "demo_new = \<lparr>nbk_site = 1, nbk_status = ''pending'', nbk_storage_type = ''local'', nbk_storage_path = None,
     nbk_type = ''files'', nbk_expires_at = Some 900\<rparr>"

definition demo_site :: "int \<Rightarrow> Site" where
  "demo_site i = \<lparr>ste_id = i, ste_server = 2, ste_name = ''a'', ste_domain = ''a.example'', ste_runtime = ''static'',
     ste_root_path = ''/home/u/htdocs/a'', ste_status = ''active'', ste_owner = None, ste_ssl_status = Some ''active'',
     ste_ssl_issuer = None, ste_ssl_expires_at = Some 200, ste_ssl_last_check = None, ste_git_repo = None,
     ste_git_branch = None, ste_git_commit = None, ste_webhook_secret = None, ste_managed_by = None,
     ste_system_user = None, ste_conf_file = None, ste_proxy_pass_url = None, ste_app_port = None,
     ste_app_command = None, ste_app_status = None, ste_app_memory_max = None, ste_php_version = None,
     ste_php_ini = None, ste_backup_provider = None, ste_created_at = 0, ste_updated_at = 0\<rparr>"

definition demo_busy :: world where
  "demo_busy = (fresh_world 100)\<lparr>w_last_rowid := 77, w_sites := \<lparr>rows = [demo_site 1], seqno = 1\<rparr>,
     w_backups := \<lparr>rows = [demo_backup 4 ''running'' None], seqno = 4\<rparr>\<rparr>"

definition demo_idle :: world where
  "demo_idle = (fresh_world 100)\<lparr>w_sites := \<lparr>rows = [demo_site 1], seqno = 1\<rparr>\<rparr>"

lemma Create_keeps_one_active_witness: "one_active (snd (run_state (Backups_Create demo_new) demo_busy))"
  by (rule Create_keeps_one_active) code_simp

text \<open>A refused \<open>Create\<close> does not say so. Nothing is inserted, but once the connection has inserted any row
  before, the call returns no error and the id of that last insert, whatever table it was in: the
  duplicate check of the callers never fires, and they go on with another record's id.\<close>

lemma refused_Create_returns_stale_id:
  assumes "w_faults w = []" "w_last_rowid w \<noteq> 0" "backup_conflict b (w_backups w)"
  shows "run_state (Backups_Create b) w = (Inr (w_last_rowid w), w)"
  using assms by (simp add: Backups_Create_def stmt_def create_backup_def last_insert_result_def)

lemma refused_Create_returns_stale_id_witness:
  "run_state (Backups_Create demo_new) demo_busy = (Inr (w_last_rowid demo_busy), demo_busy)"
  by (rule refused_Create_returns_stale_id; code_simp)

text \<open>A record is created under the next id with the site, type and status asked for, but the expiry the caller
  gives is not stored: the row has none. So the retention of a backup configuration, which the
  scheduler passes this way, has no effect.\<close>

theorem Create_drops_expiry:
  assumes "backups_wf w" "w_faults w = []" "has_row (\<lambda>s. ste_id s = nbk_site b) (w_sites w)"
    and "\<not> backup_conflict b (w_backups w)"
  shows "\<exists>w' row. run_state (Backups_Create b) w = (Inr (seqno (w_backups w) + 1), w')
    \<and> by_id bkp_id (seqno (w_backups w) + 1) (w_backups w') = Some row
    \<and> bkp_site row = nbk_site b \<and> bkp_type row = new_type_of b \<and> bkp_status row = new_status_of b
    \<and> bkp_expires_at row = None"
proof -
  have wf: "wf_table bkp_id (w_backups w)" using assms(1) by (simp add: backups_wf_def)
  then have "seqno (w_backups w) + 1 \<noteq> 0" by (simp add: wf_table_def)
  with assms wf show ?thesis
    by (simp add: Backups_Create_def stmt_def create_backup_def last_insert_result_def by_id_append_row)
qed

lemma Create_drops_expiry_witness:
  "\<exists>w' row. run_state (Backups_Create demo_new) demo_idle = (Inr (seqno (w_backups demo_idle) + 1), w')
    \<and> by_id bkp_id (seqno (w_backups demo_idle) + 1) (w_backups w') = Some row
    \<and> bkp_site row = nbk_site demo_new \<and> bkp_type row = new_type_of demo_new \<and> bkp_status row = new_status_of demo_new
    \<and> bkp_expires_at row = None"
  by (rule Create_drops_expiry; code_simp)

end
