(* ===== verification/SchedulerProps.thy ===== *)
theory SchedulerProps
  imports SchedulerFrame BackupProps
begin

text \<open>
  Properties of a tick of the scheduler: what the cleanup keeps, when a configuration is due again, and
  the flaws of its job creation, certificate renewal and cron evaluation.
\<close>

section \<open>What the cleanup keeps\<close>

text \<open>The backups \<open>ids\<close> are among the newest \<open>k\<close> completed ones of their sites.\<close>

definition keeps_newest :: "int \<Rightarrow> int list \<Rightarrow> world \<Rightarrow> bool" where
  "keeps_newest k ids w \<longleftrightarrow> backups_wf w
     \<and> list_all (\<lambda>i. case by_id bkp_id i (w_backups w) of None \<Rightarrow> False | Some b \<Rightarrow> retained k (w_backups w) b) ids"

lemma keeps_newestI:
  assumes "backups_wf w"
    and "\<And>i. i \<in> set ids \<Longrightarrow> \<exists>b. by_id bkp_id i (w_backups w) = Some b \<and> retained k (w_backups w) b"
  shows "keeps_newest k ids w"
  using assms by (fastforce simp: keeps_newest_def list_all_iff)

lemma keeps_newest_cong: "w_backups w' = w_backups w \<Longrightarrow> keeps_newest k ids w' = keeps_newest k ids w"
  unfolding keeps_newest_def backups_wf_def by (simp only:)

lemma keeps_newestE:
  assumes "keeps_newest k ids w" "i \<in> set ids"
  obtains b where "by_id bkp_id i (w_backups w) = Some b" "retained k (w_backups w) b"
  using assms by (auto simp: keeps_newest_def list_all_iff split: option.splits)

text \<open>Deleting rows only improves the rank of those that stay; updates that keep the ordering columns do not matter.\<close>

lemma retained_delete: "retained k t b \<Longrightarrow> retained k (delete_rows P t) b"
proof -
  have "length (filter Q (filter (\<lambda>r. \<not> P r) xs)) \<le> length (filter Q xs)" for Q xs by (induction xs) auto
  then have "count_rows Q (delete_rows P t) \<le> count_rows Q t" for Q
    unfolding count_rows_def rows_delete_rows by (simp only: of_nat_le_iff)
  then show "retained k t b \<Longrightarrow> retained k (delete_rows P t) b"
    unfolding retained_def row_number_def by (meson add_left_mono order_trans)
qed

definition same_rank :: "Backup \<Rightarrow> Backup \<Rightarrow> bool" where
  "same_rank b c \<longleftrightarrow> bkp_id c = bkp_id b \<and> bkp_site c = bkp_site b \<and> bkp_created_at c = bkp_created_at b
     \<and> bkp_completed_at c = bkp_completed_at b \<and> bkp_status c = bkp_status b"

lemma retained_update:
  assumes "\<And>b. same_rank b (f b)"
  shows "retained k (update_rows P f t) (if P b then f b else b) = retained k t b"
proof -
  let ?g = "\<lambda>b. if P b then f b else b"
  have g: "same_rank b (?g b)" for b using assms by (simp add: same_rank_def)
  have "length (filter Q (map ?g xs)) = length (filter (Q \<circ> ?g) xs)" for Q xs by (induction xs) auto
  then have "count_rows Q (update_rows P f t) = count_rows (Q \<circ> ?g) t" for Q
    unfolding count_rows_def rows_update_rows by (simp only:)
  moreover have "newer (?g c) (?g b) = newer c b" for b c
    using g [of b] g [of c] by (simp only: newer_def recency_def same_rank_def)
  moreover have "bkp_status (?g c) = bkp_status c" "bkp_site (?g c) = bkp_site c" for c
    using g [of c] by (simp_all only: same_rank_def)
  ultimately show ?thesis unfolding retained_def row_number_def by (simp only: o_def)
qed

lemma by_id_delete_rows:
  "wf_table key t \<Longrightarrow> by_id key i t = Some r \<Longrightarrow> \<not> P r \<Longrightarrow> by_id key i (delete_rows P t) = Some r"
  by (simp add: by_id_wf wf_delete_rows)

lemma keeps_newest_delete:
  assumes "keeps_newest k ids w" "\<And>b. retained k (w_backups w) b \<Longrightarrow> \<not> P b"
  shows "keeps_newest k ids (w_backups_update (delete_rows P) w)"
proof (rule keeps_newestI)
  show "backups_wf (w_backups_update (delete_rows P) w)"
    using assms(1) by (simp add: keeps_newest_def backups_wf_def wf_delete_rows)
  fix i assume "i \<in> set ids"
  with assms(1) obtain b where b: "by_id bkp_id i (w_backups w) = Some b" "retained k (w_backups w) b"
    by (rule keeps_newestE)
  moreover have "wf_table bkp_id (w_backups w)" using assms(1) by (simp add: keeps_newest_def backups_wf_def)
  ultimately show "\<exists>b. by_id bkp_id i (w_backups (w_backups_update (delete_rows P) w)) = Some b
      \<and> retained k (w_backups (w_backups_update (delete_rows P) w)) b"
    using assms(2) by (intro exI [of _ b]) (simp add: by_id_delete_rows retained_delete)
qed

lemma keeps_newest_update:
  assumes "keeps_newest k ids w" "\<And>b. same_rank b (f b)"
  shows "keeps_newest k ids (w_backups_update (update_rows P f) w)"
proof (rule keeps_newestI)
  have id: "bkp_id (f b) = bkp_id b" for b using assms(2) [of b] by (simp add: same_rank_def)
  show "backups_wf (w_backups_update (update_rows P f) w)"
    using assms(1) id by (simp add: keeps_newest_def backups_wf_def wf_update_rows)
  fix i assume "i \<in> set ids"
  with assms(1) obtain b where b: "by_id bkp_id i (w_backups w) = Some b" "retained k (w_backups w) b"
    by (rule keeps_newestE)
  have "retained k (update_rows P f (w_backups w)) (if P b then f b else b)"
    using retained_update [OF assms(2)] b(2) by simp
  with b(1) show "\<exists>b. by_id bkp_id i (w_backups (w_backups_update (update_rows P f) w)) = Some b
      \<and> retained k (w_backups (w_backups_update (update_rows P f) w)) b"
    by (simp add: by_id_update_rows id)
qed

interpretation newest_kept: alert_frame "keeps_newest k ids" for k ids
  by (rule alert_frame.intro, rule store_invariant_backups, erule keeps_newest_cong)
    (unfold_locales, rule keeps_newest_cong, simp)

lemma keep_expired:
  assumes "k \<le> keepLast" "0 < keepLast"
  shows "preserves (keeps_newest k ids) (Backups_CleanupExpired keepLast)"
  unfolding Backups_CleanupExpired_def Let_def
proof (rule newest_kept.keep_exec_count)
  fix w assume w: "keeps_newest k ids w"
  have "\<not> expired (w_now w) keepLast (w_backups w) b" if "retained k (w_backups w) b" for b
    using that assms(1) by (auto simp: expired_def retained_def)
  with w assms(2) show "keeps_newest k ids (w_backups_update
      (delete_rows (expired (w_now w) (if keepLast \<le> 0 then 3 else keepLast) (w_backups w))) w)"
    by (simp add: keeps_newest_delete)
qed

lemma keep_enqueue_deletes: "preserves (keeps_newest k ids) (enqueueLocalBackupDeletes e n)"
  unfolding enqueueLocalBackupDeletes_def enqueue_delete_def Backups_ListExpiredLocal_def Jobs_Create_def Let_def
  by (intro newest_kept.keep_rules newest_kept.keep_insert_row) (simp add: keeps_newest_cong [of "w_jobs_update _ _"])

lemma keep_drop_expired: "k \<le> n \<Longrightarrow> 0 < n \<Longrightarrow> preserves (keeps_newest k ids) (drop_expired e n)"
  unfolding drop_expired_def
  by (intro newest_kept.keep_bind newest_kept.keep_skip keep_expired keep_enqueue_deletes)

lemma keep_set_expiry: "preserves (keeps_newest k ids) (set_expiry t)"
  unfolding set_expiry_def
  by (intro newest_kept.keep_exec keeps_newest_update) (simp_all add: same_rank_def)

lemma keep_uploaded: "preserves (keeps_newest k ids) (remove_uploaded r)"
  unfolding remove_uploaded_def Backups_ClearStoragePath_def set_backup_def
  by (intro newest_kept.keep_rules newest_kept.keep_exec keeps_newest_update) (simp_all add: same_rank_def)

lemma keep_all_uploaded: "preserves (keeps_newest k ids) (remove_all_uploaded n rs)"
  by (induction n rs rule: remove_all_uploaded.induct)
    (simp, unfold remove_all_uploaded.simps, intro newest_kept.keep_bind keep_uploaded, blast)

lemma keep_orphans: "preserves (keeps_newest k ids) (Backups_CleanupOrphanedPending s)"
  unfolding Backups_CleanupOrphanedPending_def Let_def
  by (intro newest_kept.keep_rules newest_kept.keep_exec_count keeps_newest_delete) (auto simp: retained_def)

lemma keep_cleanup_tail: "preserves (keeps_newest k ids) Backups_CleanupLocalAfterS3"
  "preserves (keeps_newest k ids) (remove_leftover r)"
  unfolding Backups_CleanupLocalAfterS3_def remove_leftover_def
  by (intro newest_kept.keep_rules keep_all_uploaded keep_uploaded)+

lemma keep_last_setting_pos: "0 < keep_last_setting r"
  by (simp add: keep_last_setting_def Let_def)

lemma keep_cleanup_with:
  "k \<le> keep_last_setting r \<Longrightarrow> preserves (keeps_newest k ids) (cleanup_with e a (keep_last_setting r))"
  unfolding cleanup_with_def
  by (intro newest_kept.keep_rules keep_drop_expired keep_set_expiry keep_cleanup_tail keep_orphans keep_last_setting_pos)

definition kept_per_site :: "world \<Rightarrow> int" where
  "kept_per_site w = keep_last_setting (fst (run_state (GetSetting ''keep_last_per_site'') w))"

text \<open>Whatever the settings say and whatever statement fails after they are read, the periodic cleanup
  never deletes one of the newest \<open>keep_last_per_site\<close> completed backups of a site.\<close>

lemma runCleanup_keeps_newest:
  assumes "w_faults w = []" "k \<le> kept_per_site w" "keeps_newest k ids w"
  shows "keeps_newest k ids (snd (run_state (runCleanup e) w))"
proof -
  obtain a where a: "run_state (GetSetting ''retention_days'') w = (a, w)"
    using assms(1) by (simp add: GetSetting_def split: option.split)
  obtain b where b: "run_state (GetSetting ''keep_last_per_site'') w = (b, w)" "kept_per_site w = keep_last_setting b"
    using assms(1) by (simp add: GetSetting_def kept_per_site_def split: option.split)
  have "preserves (keeps_newest k ids) (cleanup_with e a (keep_last_setting b))"
    using assms(2) b(2) by (intro keep_cleanup_with) simp_all
  from preservesD [OF this assms(3)] show ?thesis by (simp add: runCleanup_def a b(1))
qed

definition demo_sched :: sched_env where
  "demo_sched = \<lparr>se_env = demo_env (Returns (DoError ''refused'')), se_db_crypto = demo_crypto,
     se_probe = (\<lambda>user password name. Inr True)\<rparr>"

lemma runCleanup_keeps_newest_witness:
  "keeps_newest 1 [2] (snd (run_state (runCleanup demo_sched) demo_backups))"
  by (rule runCleanup_keeps_newest; code_simp)

section \<open>When a configuration runs again\<close>

lemma run_processBackupConfig:
  assumes "w_faults w = []"
  obtains w' where "run_state (processBackupConfig e c) w = (Inr (), w')" "w_faults w' = []" "w_now w' = w_now w"
    "w_configs w' = w_configs w"
proof -
  obtain r w' where run: "run_state (processBackupConfig e c) w = (r, w')" by (cases "run_state (processBackupConfig e c) w")
  have "nofault w'" using preservesD [OF no_faults.keep_processBackupConfig, of w e c] assms by (simp add: run nofault_def)
  moreover have "clock_is (w_now w) w'"
    using preservesD [OF clock.keep_processBackupConfig, of "w_now w" w e c] by (simp add: run clock_is_def)
  moreover have "configs_are (w_configs w) w'"
    using preservesD [OF configs.keep_processBackupConfig, of "w_configs w" w e c] by (simp add: run configs_are_def)
  moreover have "r = Inr ()"
  proof -
    obtain p where p: "run_state (config_provider c) w = (p, w)"
      using assms by (cases "cfg_provider c") (simp_all add: config_provider_def Providers_GetByID_def Providers_GetDefault_def)
    have "\<exists>ids. run_state (ResolveBackupConfigSiteIDs c) w = (Inr ids, w)"
      using assms by (cases "cfg_sites c = []"; cases "cfg_scope c \<noteq> ''database'' \<and> cfg_scope c \<noteq> ''both''")
        (simp_all add: ResolveBackupConfigSiteIDs_def Sites_List_def Let_def)
    with p run show ?thesis by (auto simp: processBackupConfig_def split: prod.splits)
  qed
  ultimately show thesis using run by (intro that [of w']) (simp_all add: nofault_def clock_is_def configs_are_def)
qed

text \<open>A due configuration that is processed is marked with a next run later than now, so the same tick time does not
  find it due again; one configuration runs at most once per time its cron expression names.\<close>

lemma processed_config_not_due:
  assumes "w_faults w = []" "by_id cfg_id (cfg_id c) (w_configs w) = Some c"
    and "NextCronRun (cfg_cron c) (w_now w) = Some n"
  shows "\<exists>c' w'. run_state (run_config e c) w = (True, w') \<and> by_id cfg_id (cfg_id c) (w_configs w') = Some c'
    \<and> cfg_last_run_at c' = Some (w_now w) \<and> cfg_next_run_at c' = Some n \<and> w_now w < n
    \<and> \<not> config_due (w_now w) c'"
proof -
  obtain w1 where w1: "run_state (processBackupConfig e c) w = (Inr (), w1)" "w_faults w1 = []" "w_now w1 = w_now w"
    "w_configs w1 = w_configs w" by (rule run_processBackupConfig [OF assms(1)])
  let ?mark = "\<lambda>r. r\<lparr>cfg_last_run_at := Some (w_now w), cfg_next_run_at := Some n\<rparr>"
  let ?w' = "w_configs_update (update_rows (\<lambda>r. cfg_id r = cfg_id c) ?mark) w1"
  have "run_state (run_config e c) w = (True, ?w')"
    using w1 assms(2,3) by (simp add: run_config_def Configs_MarkRun_def)
  moreover have "by_id cfg_id (cfg_id c) (w_configs ?w') = Some (?mark c)"
    using assms(2) by (simp add: w1(4) by_id_own)
  moreover have "w_now w < n" by (rule NextCronRun_later [OF assms(3)])
  ultimately show ?thesis by (intro exI [of _ "?mark c"] exI [of _ ?w']) (simp add: config_due_def)
qed

definition demo_config :: "string \<Rightarrow> BackupConfig" where
  "demo_config cron = \<lparr>cfg_id = 1, cfg_name = ''nightly'', cfg_scope = ''files'', cfg_sites = [], cfg_provider = None,
     cfg_cron = cron, cfg_enabled = True, cfg_retention_days = 7, cfg_databases = [], cfg_last_run_at = None,
     cfg_next_run_at = None\<rparr>"

definition demo_nightly :: "string \<Rightarrow> world" where
  "demo_nightly cron = (fresh_world 1767225600)\<lparr>w_configs := \<lparr>rows = [demo_config cron], seqno = 1\<rparr>\<rparr>"

lemma processed_config_not_due_witness:
  "\<exists>c' w'. run_state (run_config demo_sched (demo_config ''5 0 * * *'')) (demo_nightly ''5 0 * * *'') = (True, w')
    \<and> by_id cfg_id (cfg_id (demo_config ''5 0 * * *'')) (w_configs w') = Some c'
    \<and> cfg_last_run_at c' = Some (w_now (demo_nightly ''5 0 * * *'')) \<and> cfg_next_run_at c' = Some 1767225900
    \<and> w_now (demo_nightly ''5 0 * * *'') < 1767225900 \<and> \<not> config_due (w_now (demo_nightly ''5 0 * * *'')) c'"
  by (rule processed_config_not_due; code_simp)


definition endless_cron :: string where
  "endless_cron = ''0-99999999999999999999 * * * *''"

lemma endless_cron_none: "NextCronRun endless_cron t = None"
proof -
  have fs: "Prelude.fields endless_cron = [''0-99999999999999999999'', ''*'', ''*'', ''*'', ''*'']" by code_simp
  have "add_cron_part 0 59 [] ''0-99999999999999999999''
      = cron_loop (fst (atoi ''0'')) (fst (atoi ''99999999999999999999'')) 1 0 59 []"
    by (rule range_part; code_simp)
  moreover have "fst (atoi ''99999999999999999999'') = max_int64" by code_simp
  ultimately have "add_cron_part 0 59 [] ''0-99999999999999999999'' = None"
    using cron_loop_diverges [OF atoi_le_max] by simp
  moreover have "split_on CHR '','' ''0-99999999999999999999'' = [''0-99999999999999999999'']" by code_simp
  ultimately have "parseCronField ''0-99999999999999999999'' 0 59 = None" by (simp add: parseCronField_def)
  then show ?thesis by (simp add: NextCronRun_def fs parse_cron_def)
qed


section \<open>Certificate renewal\<close>

definition jobs_are :: "Job table \<Rightarrow> world \<Rightarrow> bool" where
  "jobs_are t w \<longleftrightarrow> w_jobs w = t"

interpretation jobs_frame: alert_frame "jobs_are t" for t
  by unfold_locales (simp_all add: jobs_are_def)

lemma Send_keeps_jobs [simp]: "w_jobs (snd (run_state (Send d sev sub msg) w)) = w_jobs w"
  using preservesD [OF jobs_frame.keep_Send, of "w_jobs w" w d sev sub msg] by (simp add: jobs_are_def)

definition renewing :: "int \<Rightarrow> Job \<Rightarrow> bool" where
  "renewing siteID j \<longleftrightarrow> job_type j = ''ssl.renew'' \<and> job_site j = Some siteID
     \<and> job_status j \<in> {StatusQueued, StatusRunning}"

lemma no_renewals:
  assumes "list_all (\<lambda>j. \<not> renewing i j) (rows (w_jobs w))" "w_faults w = []" "0 < i" "st \<in> {StatusQueued, StatusRunning}"
  shows "run_state (Jobs_List (renew_filter i st)) w = (Inr [], w)"
proof -
  let ?P = "\<lambda>j. job_site j = Some i \<and> job_status j = st \<and> job_type j = ''ssl.renew''"
  have "set (select_desc job_id ?P (w_jobs w)) = {}"
    using assms(1,4) by (auto simp: renewing_def list_all_iff)
  then have none: "select_desc job_id ?P (w_jobs w) = []" unfolding set_empty .
  have "st \<noteq> []" using assms(4) by auto
  with assms(2,3) none show ?thesis by (simp add: Jobs_List_def renew_filter_def page_def Let_def)
qed

lemma run_renew_site:
  assumes "list_all (\<lambda>j. \<not> renewing (ste_id site) j) (rows (w_jobs w))" "w_faults w = []" "0 < ste_id site"
    and "ste_status site = ''active''" "has_row (\<lambda>r. srv_id r = ste_server site) (w_servers w)"
    and "has_row (\<lambda>r. ste_id r = ste_id site) (w_sites w)"
  shows "\<exists>row. rows (w_jobs (snd (run_state (renew_site e site) w))) = rows (w_jobs w) @ [row] \<and> renewing (ste_id site) row"
proof -
  obtain r w1 where create: "run_state (Jobs_Create (env_secrets (se_env e)) (renew_job site)) w = (Inr r, w1)"
    and w1: "\<exists>row. rows (w_jobs w1) = rows (w_jobs w) @ [row] \<and> renewing (ste_id site) row"
    using assms(2,5,6) by (simp add: Jobs_Create_def renew_job_def renewing_def Let_def)
  have "run_state (renew_site e site) w
      = run_state (Send (env_deliver (se_env e)) ''warning'' ''SSL Certificate Expiring''
                (''SSL for '' @ ste_domain site @ '' expires in ''
                 @ itoa (whole_days ((case ste_ssl_expires_at site of None \<Rightarrow> 0 | Some x \<Rightarrow> x) - w_now w1))
                 @ '' days. Auto-renewal job queued (job #'' @ itoa r @ '').'')) w1"
    using assms(4) no_renewals [OF assms(1-3)] create by (simp add: renew_site_def)
  with w1 show ?thesis by simp
qed

text \<open>A renewal that succeeds is not recorded: the worker leaves the site's expiry date as it was, so the next check still
  lists the site and, with no renewal pending, queues another one, and so on at every tick.\<close>

theorem renewal_repeats:
  assumes "w_faults w = []" "job_type job = ''ssl.renew''"
    and "list_all (\<lambda>j. job_id j = job_id job \<or> \<not> renewing (ste_id site) j) (rows (w_jobs w))"
    and "0 < ste_id site" "ste_status site = ''active''" "has_row (\<lambda>r. srv_id r = ste_server site) (w_servers w)"
    and "has_row (\<lambda>r. ste_id r = ste_id site) (w_sites w)"
    and "w' = snd (run_state (on_success env job result) w)"
  shows "w_sites w' = w_sites w
    \<and> (\<exists>row. rows (w_jobs (snd (run_state (renew_site e site) w'))) = rows (w_jobs w') @ [row]
         \<and> renewing (ste_id site) row)"
proof -
  have w': "w' = set_job (job_id job) (\<lambda>w j. j\<lparr>job_status := StatusSucceeded, job_completed_at := Some (w_now w),
      job_result := encode_result result, job_error := null_string []\<rparr>) w"
    using assms(1,2) unfolding assms(8) on_success_def by (simp add: Jobs_MarkCompleted_def is_backup_job_def)
  have "list_all (\<lambda>j. \<not> renewing (ste_id site) j) (rows (w_jobs w'))"
    using assms(3) by (auto simp: w' set_job_def list_all_iff renewing_def)
  moreover have "w_faults w' = []" "w_servers w' = w_servers w" "w_sites w' = w_sites w"
    using assms(1) by (simp_all add: w' set_job_def)
  ultimately show ?thesis using run_renew_site [of site w' e] assms(4-7) by simp
qed

definition demo_renewal :: world where
  "demo_renewal = (fresh_world 100)\<lparr>w_sites := \<lparr>rows = [demo_site 1], seqno = 1\<rparr>,
     w_servers := \<lparr>rows = [\<lparr>srv_id = 2, srv_name = ''s'', srv_hostname = ''h'', srv_agent_url = None, srv_ip = None,
       srv_ipv6 = None, srv_ssh_port = 22, srv_description = [], srv_status = ''online'', srv_provider = None,
       srv_agent_token = ''t'', srv_last_health_check = None, srv_health_status = ''ok'', srv_health_latency = 0,
       srv_updated_at = 0\<rparr>], seqno = 2\<rparr>,
     w_jobs := \<lparr>rows = [(demo_job 3 ''ssl.renew'' ''running'' (Some 2))\<lparr>job_site := Some 1\<rparr>], seqno = 3\<rparr>\<rparr>"

lemma renewal_repeats_witness:
  "w_sites (snd (run_state (on_success (se_env demo_sched) (demo_job 3 ''ssl.renew'' ''running'' (Some 2)) None) demo_renewal))
     = w_sites demo_renewal
   \<and> (\<exists>row. rows (w_jobs (snd (run_state (renew_site demo_sched (demo_site 1))
           (snd (run_state (on_success (se_env demo_sched) (demo_job 3 ''ssl.renew'' ''running'' (Some 2)) None) demo_renewal)))))
         = rows (w_jobs (snd (run_state (on_success (se_env demo_sched) (demo_job 3 ''ssl.renew'' ''running'' (Some 2)) None)
             demo_renewal))) @ [row]
         \<and> renewing (ste_id (demo_site 1)) row)"
proof (rule renewal_repeats)
  show "w_faults demo_renewal = []" "job_type (demo_job 3 ''ssl.renew'' ''running'' (Some 2)) = ''ssl.renew''"
    "list_all (\<lambda>j. job_id j = job_id (demo_job 3 ''ssl.renew'' ''running'' (Some 2)) \<or> \<not> renewing (ste_id (demo_site 1)) j)
       (rows (w_jobs demo_renewal))"
    "0 < ste_id (demo_site 1)" "ste_status (demo_site 1) = ''active''"
    "has_row (\<lambda>r. srv_id r = ste_server (demo_site 1)) (w_servers demo_renewal)"
    "has_row (\<lambda>r. ste_id r = ste_id (demo_site 1)) (w_sites demo_renewal)" by code_simp+
qed simp

section \<open>Scheduled database backups\<close>

text \<open>The row a queued job becomes, up to its id.\<close>

definition queued_row :: "crypto \<Rightarrow> NewJob \<Rightarrow> int \<Rightarrow> int \<Rightarrow> Job" where
  "queued_row k j t i = \<lparr>job_id = i, job_server = new_server j, job_site = new_site j, job_type = new_type j,
     job_status = StatusQueued,
     job_payload = (case EncryptPayload k (new_payload j) of Some enc \<Rightarrow> enc | None \<Rightarrow> new_payload j),
     job_result = Raw [], job_error = None, job_description = [], job_attempts = 0, job_max_attempts = 3,
     job_created_at = t, job_updated_at = t, job_started_at = None, job_completed_at = None, job_next_retry_at = None\<rparr>"

definition backup_account :: "crypto \<Rightarrow> string \<Rightarrow> string \<Rightarrow> world \<Rightarrow> bool" where
  "backup_account k user password w \<longleftrightarrow> (case find_row (\<lambda>s. dbs_default s \<and> dbs_active s) (w_db_servers w) of
     None \<Rightarrow> False
   | Some s \<Rightarrow> dbs_backup_username s = user \<and> cr_open k (dbs_backup_password s) = Some password \<and> password \<noteq> []
       \<and> trim_space user \<noteq> [] \<and> trim_space (dbs_backup_password s) \<noteq> [])"

lemma run_credentials:
  "backup_account k user password w \<Longrightarrow> is_mysql d \<Longrightarrow> w_faults w = [] \<Longrightarrow>
   run_state (DatabaseBackupCredentials k d) w = (Inr (user, password), w)"
  by (auto simp: backup_account_def DatabaseBackupCredentials_def GetBackupCredentials_def DecryptPassword_def
      split: option.splits)

definition db_conflict :: "int \<Rightarrow> world \<Rightarrow> bool" where
  "db_conflict siteID w \<longleftrightarrow>
     has_row (\<lambda>c. bkp_site c = siteID \<and> bkp_type c = ''database'' \<and> active_backup (bkp_status c)) (w_backups w)"

text \<open>One more database while a database backup of the site is active: its job carries the last inserted id.\<close>

lemma run_queue_db_backup:
  assumes "w_faults w = []" "is_mysql db" "backup_account (se_db_crypto e) user password w" "db_conflict siteID w"
    and "w_last_rowid w \<noteq> 0" "has_row (\<lambda>r. srv_id r = ste_server site) (w_servers w)"
    and "has_row (\<lambda>r. ste_id r = ste_id site) (w_sites w)"
  shows "run_state (queue_db_backup e site provider st siteID db) w
    = ((), (w_jobs_update (append_row (queued_row (env_secrets (se_env e))
          (backup_job site TypeDBBackupCreate (db_payload site provider db user password (w_last_rowid w))) (w_now w))) w)
        \<lparr>w_last_rowid := seqno (w_jobs w) + 1\<rparr>)"
proof -
  have "backup_conflict (new_backup siteID (''database_'' @ st) ''database'' None) (w_backups w)"
    using assms(4) by (simp add: backup_conflict_def new_backup_def new_status_of_def new_type_of_def db_conflict_def
        active_backup_def)
  then have "run_state (Backups_Create (new_backup siteID (''database_'' @ st) ''database'' None)) w
      = (Inr (w_last_rowid w), w)"
    using assms(1,5) by (simp add: Backups_Create_def stmt_def create_backup_def last_insert_result_def)
  then show ?thesis
    using assms(1,6,7) run_credentials [OF assms(3,2,1)]
    by (simp add: queue_db_backup_def Jobs_Create_def queued_row_def [abs_def] backup_job_def Let_def)
qed

text \<open>A legacy schedule of type \<open>database\<close> corrupts its own jobs. It first creates a record for the schedule, so
  the insert of a record per database is always refused, silently: the first database's job gets the
  schedule's record, and the second one gets as \<open>backup_id\<close> the id of the first \<^emph>\<open>job\<close>. When it ends, the
  worker marks whatever backup record has that number as completed or failed.\<close>

lemma database_schedule_mixes_ids:
  assumes "w_faults w = []" "by_id ste_id (sch_site s) (w_sites w) = Some site" "sch_type s = ''database''"
    and "sch_provider s = None" "ste_backup_provider site = None" "find_row prv_default (w_providers w) = None"
    and "select_asc dtb_id (\<lambda>d. dtb_site d = sch_site s) (w_databases w) = [d, d']" "is_mysql d" "is_mysql d'"
    and "backup_account (se_db_crypto e) user password w"
    and "\<not> db_conflict (sch_site s) w" "0 \<le> seqno (w_backups w)" "0 \<le> seqno (w_jobs w)"
    and "has_row (\<lambda>r. srv_id r = ste_server site) (w_servers w)"
  shows "rows (w_jobs (snd (run_state (processSchedule e s) w))) = rows (w_jobs w) @
     [queued_row (env_secrets (se_env e)) (backup_job site TypeDBBackupCreate
        (db_payload site None d user password (seqno (w_backups w) + 1))) (w_now w) (seqno (w_jobs w) + 1),
      queued_row (env_secrets (se_env e)) (backup_job site TypeDBBackupCreate
        (db_payload site None d' user password (seqno (w_jobs w) + 1))) (w_now w) (2 + seqno (w_jobs w))]"
proof -
  have siteID: "ste_id site = sch_site s" "site \<in> set (rows (w_sites w))" using by_id_Some [OF assms(2)] by auto
  then have has_site: "has_row (\<lambda>r. ste_id r = sch_site s) (w_sites w)" by (auto simp: has_row_iff)
  let ?b = "new_backup (sch_site s) ''local'' ''database'' None"
  let ?w1 = "(w_backups_update (append_row (new_backup_row ?b (w_now w))) w)\<lparr>w_last_rowid := seqno (w_backups w) + 1\<rparr>"
  have no_conflict: "\<not> backup_conflict ?b (w_backups w)"
    using assms(11) by (simp add: backup_conflict_def new_backup_def new_type_of_def db_conflict_def)
  have create: "run_state (Backups_Create ?b) w = (Inr (seqno (w_backups w) + 1), ?w1)"
    using assms(1,12) has_site no_conflict
    by (simp add: Backups_Create_def stmt_def create_backup_def last_insert_result_def new_backup_def)
  have conflict: "db_conflict (sch_site s) ?w1"
    by (simp add: db_conflict_def has_row_iff new_backup_row_def new_backup_def new_type_of_def new_status_of_def active_backup_def)
  let ?job = "\<lambda>db i. backup_job site TypeDBBackupCreate (db_payload site None db user password i)"
  let ?row = "\<lambda>db i. queued_row (env_secrets (se_env e)) (?job db i) (w_now w)"
  let ?w2 = "(w_jobs_update (append_row (?row d (seqno (w_backups w) + 1))) ?w1)\<lparr>w_last_rowid := seqno (w_jobs w) + 1\<rparr>"
  have first: "run_state (queue_db_backup e site None ''local'' (sch_site s) d) ?w1 = ((), ?w2)"
    using run_queue_db_backup [of ?w1 d e user password "sch_site s" site None "''local''"] assms(1,8,10,12,14) conflict
      has_site siteID(1) by (simp add: backup_account_def)
  have second: "run_state (queue_db_backup e site None ''local'' (sch_site s) d') ?w2
      = ((), (w_jobs_update (append_row (?row d' (seqno (w_jobs w) + 1))) ?w2)\<lparr>w_last_rowid := seqno (w_jobs w) + 2\<rparr>)"
    using run_queue_db_backup [of ?w2 d' e user password "sch_site s" site None "''local''"] assms(1,9,10,13,14) conflict
      has_site siteID(1) by (simp add: backup_account_def db_conflict_def)
  have provider: "run_state (schedule_provider s site) w = (None, w)"
    using assms(1,4-6) by (simp add: schedule_provider_def Providers_GetDefault_def)
  have dbs: "run_state (Databases_ListBySite (sch_site s)) ?w1 = (Inr [d, d'], ?w1)"
    using assms(1,7) by (simp add: Databases_ListBySite_def)
  show ?thesis
    using assms(1-3) create provider dbs first second
    by (simp add: processSchedule_def Sites_GetByID_def storage_type_of_def Let_def)
qed

definition demo_database :: "int \<Rightarrow> string \<Rightarrow> Database" where
  "demo_database i name = \<lparr>dtb_id = i, dtb_site = 1, dtb_name = name, dtb_type = ''mysql'', dtb_charset = [],
     dtb_collation = [], dtb_size = 0, dtb_created_at = 0\<rparr>"

definition demo_schedule :: Schedule where
  "demo_schedule = \<lparr>sch_id = 1, sch_site = 1, sch_provider = None, sch_cron = ''0 3 * * *'', sch_type = ''database'',
     sch_enabled = True, sch_last_run_at = None, sch_next_run_at = None\<rparr>"

definition demo_shop :: world where
  "demo_shop = demo_renewal\<lparr>w_databases := \<lparr>rows = [demo_database 1 ''shop'', demo_database 2 ''blog''], seqno = 2\<rparr>,
     w_db_servers := \<lparr>rows = [\<lparr>dbs_id = 1, dbs_name = ''main'', dbs_engine = ''mysql'', dbs_host = ''localhost'', dbs_port = 3306,
       dbs_username = ''root'', dbs_password = ''terces'', dbs_active = True, dbs_default = True, dbs_backup_username = ''dump'',
       dbs_backup_password = ''terces''\<rparr>], seqno = 1\<rparr>, w_backups := \<lparr>rows = [demo_backup 4 ''completed'' None], seqno = 4\<rparr>\<rparr>"

lemma database_schedule_mixes_ids_witness:
  "rows (w_jobs (snd (run_state (processSchedule demo_sched demo_schedule) demo_shop))) = rows (w_jobs demo_shop) @
     [queued_row (env_secrets (se_env demo_sched)) (backup_job (demo_site 1) TypeDBBackupCreate
        (db_payload (demo_site 1) None (demo_database 1 ''shop'') ''dump'' ''secret'' (seqno (w_backups demo_shop) + 1)))
        (w_now demo_shop) (seqno (w_jobs demo_shop) + 1),
      queued_row (env_secrets (se_env demo_sched)) (backup_job (demo_site 1) TypeDBBackupCreate
        (db_payload (demo_site 1) None (demo_database 2 ''blog'') ''dump'' ''secret'' (seqno (w_jobs demo_shop) + 1)))
        (w_now demo_shop) (2 + seqno (w_jobs demo_shop))]"
  by (rule database_schedule_mixes_ids; code_simp)

end
