(* ===== verification/Password.thy ===== *)
theory Password
  imports Prelude
begin

text \<open>
  \<open>internal/auth/password.go\<close> and \<open>token.go\<close>: Argon2id hashes in PHC format. \<open>encoding/base64\<close>
  (\<open>RawStdEncoding\<close>) and the part of \<open>fmt.Sscanf\<close> the parser uses are modelled; the key derivation
  \<open>argon2.IDKey\<close> and the hexadecimal SHA-256 digest are the parameters \<open>al_argon2\<close> and \<open>al_sha256\<close>. Random bytes are
  an argument, \<open>None\<close> when the system gives none. The lemmas show that both formats are read back exactly.
\<close>

section \<open>Base 64 without padding\<close>

definition b64_alphabet :: string where
  "b64_alphabet = ''ABCDEFGHIJKLMNOPQRSTUVWXYZabcdefghijklmnopqrstuvwxyz0123456789+/''"

definition b64_char :: "nat \<Rightarrow> char" where
  "b64_char n = b64_alphabet ! n"

fun position :: "char \<Rightarrow> string \<Rightarrow> nat option" where
  "position c [] = None"
| "position c (d # ds) = (if c = d then Some 0 else map_option Suc (position c ds))"

definition b64_value :: "char \<Rightarrow> nat option" where
  "b64_value c = position c b64_alphabet"

fun b64_groups :: "nat list \<Rightarrow> nat list" where
  "b64_groups [] = []"
| "b64_groups [a] = [a div 4, a mod 4 * 16]"
| "b64_groups [a, b] = [a div 4, a mod 4 * 16 + b div 16, b mod 16 * 4]"
| "b64_groups (a # b # c # r) =
     a div 4 # (a mod 4 * 16 + b div 16) # (b mod 16 * 4 + c div 64) # c mod 64 # b64_groups r"

fun b64_bytes :: "nat list \<Rightarrow> nat list option" where
  "b64_bytes [] = Some []"
| "b64_bytes [w] = None"
| "b64_bytes [w, x] = Some [w * 4 + x div 16]"
| "b64_bytes [w, x, y] = Some [w * 4 + x div 16, x mod 16 * 16 + y div 4]"
| "b64_bytes (w # x # y # z # r) =
     map_option (\<lambda>bs. (w * 4 + x div 16) # (x mod 16 * 16 + y div 4) # (y mod 4 * 64 + z) # bs) (b64_bytes r)"

definition b64_encode :: "string \<Rightarrow> string" where
  "b64_encode bs = map b64_char (b64_groups (map byte bs))"

text \<open>\<open>DecodeString\<close> skips carriage returns and newlines, and ignores the bits left over at the end.\<close>

definition b64_decode :: "string \<Rightarrow> string option" where
  "b64_decode s =
     (case all_some (map b64_value (filter (\<lambda>c. c \<noteq> CHR 0x0A \<and> c \<noteq> CHR 0x0D) s)) of
        None \<Rightarrow> None
      | Some ds \<Rightarrow> map_option (map char_of) (b64_bytes ds))"

section \<open>Package fmt\<close>

text \<open>
  \<open>Sscanf\<close> with literal bytes and \<open>%d\<close> into unsigned integers of the given width (0 for a signed 64 bit
  \<open>int\<close>). Input after the format is ignored.
\<close>

datatype directive = Literal char | Decimal nat

definition scan_digits :: "string \<Rightarrow> string \<times> string" where
  "scan_digits s = (takeWhile is_digit s, dropWhile is_digit s)"

definition skip_blanks :: "string \<Rightarrow> string" where
  "skip_blanks s = dropWhile (\<lambda>c. is_space c \<and> c \<noteq> CHR 0x0A) s"

definition scan_number :: "nat \<Rightarrow> string \<Rightarrow> (int \<times> string) option" where
  "scan_number width s =
     (let s = skip_blanks s;
          sign = width = 0 \<and> (has_prefix s ''-'' \<or> has_prefix s ''+'');
          (ds, rest) = scan_digits (if sign then tl s else s);
          v = (if sign \<and> has_prefix s ''-'' then - digits_val ds else digits_val ds)
      in if ds = [] then None
         else if width = 0 \<and> (v < min_int64 \<or> v > max_int64) then None
         else if width \<noteq> 0 \<and> v \<ge> 2 ^ width then None
         else Some (v, rest))"

fun sscanf :: "directive list \<Rightarrow> string \<Rightarrow> int list option" where
  "sscanf [] s = Some []"
| "sscanf (Literal c # fmt) s = (case s of [] \<Rightarrow> None | d # s' \<Rightarrow> if c = d then sscanf fmt s' else None)"
| "sscanf (Decimal width # fmt) s =
     (case scan_number width s of None \<Rightarrow> None | Some (v, rest) \<Rightarrow> map_option ((#) v) (sscanf fmt rest))"

section \<open>Password hashes\<close>

record auth_lib =
  al_argon2 :: "string \<Rightarrow> string \<Rightarrow> int \<Rightarrow> int \<Rightarrow> int \<Rightarrow> string"  \<comment> \<open>password, salt, time, memory, threads\<close>
  al_sha256 :: "string \<Rightarrow> string"
  al_totp :: "string \<Rightarrow> string \<Rightarrow> int \<Rightarrow> bool"  \<comment> \<open>\<open>totp.Validate\<close>: code, secret, instant\<close>

definition argon2Time :: int where "argon2Time = 1"
definition argon2Memory :: int where "argon2Memory = 64 * 1024"
definition argon2Threads :: int where "argon2Threads = 2"

definition HashPassword :: "auth_lib \<Rightarrow> string option \<Rightarrow> string \<Rightarrow> string option" where
  "HashPassword al salt plain =
     (case salt of
        None \<Rightarrow> None
      | Some salt \<Rightarrow>
          let hash = al_argon2 al plain salt argon2Time argon2Memory argon2Threads
          in Some (''$argon2id$v='' @ itoa 19 @ ''$m='' @ itoa argon2Memory @ '',t='' @ itoa argon2Time
               @ '',p='' @ itoa argon2Threads @ ''$'' @ b64_encode salt @ ''$'' @ b64_encode hash))"

record phcParams =
  phc_time :: int
  phc_memory :: int
  phc_threads :: int

definition parsePHC :: "string \<Rightarrow> (phcParams \<times> string \<times> string) option" where
  "parsePHC phc =
     (let parts = split_on CHR ''$'' phc
      in if length parts \<noteq> 6 \<or> parts ! 1 \<noteq> ''argon2id'' \<or> \<not> has_prefix (parts ! 2) ''v='' then None
         else case sscanf [Literal CHR ''v'', Literal CHR ''='', Decimal 0] (parts ! 2) of
           None \<Rightarrow> None
         | Some _ \<Rightarrow>
             (case sscanf [Literal CHR ''m'', Literal CHR ''='', Decimal 32, Literal CHR '','', Literal CHR ''t'',
                     Literal CHR ''='', Decimal 32, Literal CHR '','', Literal CHR ''p'', Literal CHR ''='', Decimal 8]
                   (parts ! 3) of
                Some [mem, t, p] \<Rightarrow>
                  (case b64_decode (parts ! 4) of
                     None \<Rightarrow> None
                   | Some salt \<Rightarrow>
                       (case b64_decode (parts ! 5) of
                          None \<Rightarrow> None
                        | Some storedHash \<Rightarrow>
                            Some (\<lparr>phc_time = t, phc_memory = mem, phc_threads = p\<rparr>, salt, storedHash)))
              | _ \<Rightarrow> None))"

text \<open>\<open>VerifyPassword\<close>; \<open>None\<close> is the error of a hash that does not parse.\<close>

definition VerifyPassword :: "auth_lib \<Rightarrow> string \<Rightarrow> string \<Rightarrow> bool option" where
  "VerifyPassword al hash plain =
     (case parsePHC hash of
        None \<Rightarrow> None
      | Some (params, salt, storedHash) \<Rightarrow>
          Some (al_argon2 al plain salt (phc_time params) (phc_memory params) (phc_threads params) = storedHash))"

definition HashToken :: "auth_lib \<Rightarrow> string \<Rightarrow> string" where
  "HashToken al token = al_sha256 al token"

definition HashServiceToken :: "auth_lib \<Rightarrow> string \<Rightarrow> string" where
  "HashServiceToken al raw = al_sha256 al raw"

text \<open>\<open>NewToken\<close>: the hexadecimal encoding of 32 random bytes.\<close>

definition hex_digit :: "nat \<Rightarrow> char" where
  "hex_digit n = ''0123456789abcdef'' ! n"

definition hex_encode :: "string \<Rightarrow> string" where
  "hex_encode bs = concat (map (\<lambda>c. [hex_digit (byte c div 16), hex_digit (byte c mod 16)]) bs)"

lemma length_hex_encode [simp]: "length (hex_encode bs) = 2 * length bs"
  by (induction bs) (simp_all add: hex_encode_def)

definition NewToken :: "string option \<Rightarrow> string option" where
  "NewToken buf = map_option hex_encode buf"

section \<open>Lemmas\<close>

lemma high_low:
  fixes x y k :: nat
  assumes "y < k"
  shows "(x * k + y) div k = x" and "(x * k + y) mod k = y"
  using assms by simp_all

lemma byte_parts:
  fixes a :: nat
  assumes "a < 256"
  shows "a div 16 < 16" "a div 64 < 4" "a div 4 < 64"
  using assms by (simp_all add: less_mult_imp_div_less)

lemma rejoin:
  fixes a k :: nat
  shows "a div k * k + a mod k = a"
  by (rule div_mult_mod_eq)

lemma b64_bytes_groups: "\<forall>b \<in> set bs. b < 256 \<Longrightarrow> b64_bytes (b64_groups bs) = Some bs"
proof (induction bs rule: b64_groups.induct)
  case (2 a)
  have "a div 4 * 4 + a mod 4 * 16 div 16 = a" using rejoin [of a 4] by simp
  then show ?case by simp
next
  case (3 a b)
  then have b: "b div 16 < 16" using byte_parts [of b] by simp
  have "b mod 16 * 4 div 4 = b mod 16" by simp
  with high_low [OF b, of "a mod 4"] rejoin [of a 4] rejoin [of b 16] show ?case by simp
next
  case (4 a b c r)
  then have parts: "b div 16 < 16" "c div 64 < 4" using byte_parts [of b] byte_parts [of c] by simp_all
  from 4 have "b64_bytes (b64_groups r) = Some r" by simp
  with high_low [OF parts(1), of "a mod 4"] high_low [OF parts(2), of "b mod 16"]
    rejoin [of a 4] rejoin [of b 16] rejoin [of c 64]
  show ?case by simp
qed simp

lemma below_64:
  fixes a b :: nat
  assumes "b < 16"
  shows "a mod 4 * 16 + b < 64"
proof -
  have "a mod 4 < 4" by simp
  with assms show ?thesis by linarith
qed

lemma below_64':
  fixes b c :: nat
  assumes "c < 4"
  shows "b mod 16 * 4 + c < 64"
proof -
  have "b mod 16 < 16" by simp
  with assms show ?thesis by linarith
qed

lemma b64_groups_bound: "\<forall>b \<in> set bs. b < 256 \<Longrightarrow> \<forall>d \<in> set (b64_groups bs). d < 64"
proof (induction bs rule: b64_groups.induct)
  case (2 a)
  with below_64 [of 0 a] byte_parts [of a] show ?case by simp
next
  case (3 a b)
  with below_64 [of "b div 16" a] below_64' [of 0 b] byte_parts [of a] byte_parts [of b] show ?case by simp
next
  case (4 a b c r)
  with below_64 [of "b div 16" a] below_64' [of "c div 64" b] byte_parts [of a] byte_parts [of b] byte_parts [of c]
  show ?case by simp
qed simp

lemma b64_alphabet_distinct:
  "list_all (\<lambda>n. b64_value (b64_char n) = Some n \<and> b64_char n \<noteq> CHR 0x0A \<and> b64_char n \<noteq> CHR 0x0D
     \<and> b64_char n \<noteq> CHR ''$'') [0..<64]"
  by code_simp

lemma b64_char:
  assumes "n < 64"
  shows "b64_value (b64_char n) = Some n" "b64_char n \<noteq> CHR 0x0A" "b64_char n \<noteq> CHR 0x0D" "b64_char n \<noteq> CHR ''$''"
  using b64_alphabet_distinct assms unfolding list_all_iff set_upt by auto

lemma b64_decode_encode: "b64_decode (b64_encode bs) = Some bs"
proof -
  let ?ds = "b64_groups (map byte bs)"
  have bytes: "\<forall>b \<in> set (map byte bs). b < (256::nat)" by auto
  note bound = b64_groups_bound [OF bytes]
  then have "filter (\<lambda>c. c \<noteq> CHR 0x0A \<and> c \<noteq> CHR 0x0D) (b64_encode bs) = b64_encode bs"
    unfolding b64_encode_def filter_id_conv using b64_char by auto
  moreover have "map b64_value (b64_encode bs) = map Some ?ds"
    using bound by (simp add: b64_encode_def b64_char)
  ultimately show ?thesis
    using b64_bytes_groups [OF bytes] by (simp add: b64_decode_def all_some_map comp_def)
qed

lemma b64_encode_no_dollar: "CHR ''$'' \<notin> set (b64_encode bs)"
proof -
  have "\<forall>b \<in> set (map byte bs). b < (256::nat)" by auto
  from b64_groups_bound [OF this] show ?thesis unfolding b64_encode_def using b64_char(4) by (auto simp: eq_commute)
qed

text \<open>What \<open>HashPassword\<close> prints is what \<open>parsePHC\<close> reads.\<close>

lemma PHC_header:
  "''$argon2id$v='' @ itoa 19 @ ''$m='' @ itoa argon2Memory @ '',t='' @ itoa argon2Time @ '',p='' @ itoa argon2Threads @ ''$''
    = ''$argon2id$v=19$m=65536,t=1,p=2$''"
  by (simp add: itoa_def argon2Memory_def argon2Time_def argon2Threads_def nat_digits.simps char_of_def bit_Suc_0_iff)

lemma HashPassword_text:
  "HashPassword al (Some salt) plain = Some
     (''$argon2id$v=19$m=65536,t=1,p=2$'' @ b64_encode salt @ ''$'' @ b64_encode (al_argon2 al plain salt 1 65536 2))"
proof -
  have "HashPassword al (Some salt) plain = Some ((''$argon2id$v='' @ itoa 19 @ ''$m='' @ itoa argon2Memory
      @ '',t='' @ itoa argon2Time @ '',p='' @ itoa argon2Threads @ ''$'')
      @ b64_encode salt @ ''$'' @ b64_encode (al_argon2 al plain salt 1 65536 2))"
    by (simp add: HashPassword_def argon2Time_def argon2Memory_def argon2Threads_def)
  then show ?thesis unfolding PHC_header .
qed

lemma PHC_parts:
  "split_on CHR ''$'' (''$argon2id$v=19$m=65536,t=1,p=2$'' @ b64_encode salt @ ''$'' @ b64_encode hash)
    = [[], ''argon2id'', ''v=19'', ''m=65536,t=1,p=2'', b64_encode salt, b64_encode hash]"
  using split_on_append [OF b64_encode_no_dollar [of salt]] split_on_id [OF b64_encode_no_dollar [of hash]] by simp

lemma nth_of_six:
  "[a, b, c, d, e, f] ! 1 = b" "[a, b, c, d, e, f] ! 2 = c" "[a, b, c, d, e, f] ! 3 = d"
  "[a, b, c, d, e, f] ! 4 = e" "[a, b, c, d, e, f] ! 5 = f"
  by (simp_all add: numeral_eq_Suc)

lemma PHC_numbers:
  "sscanf [Literal CHR ''v'', Literal CHR ''='', Decimal 0] ''v=19'' = Some [19]"
  "sscanf [Literal CHR ''m'', Literal CHR ''='', Decimal 32, Literal CHR '','', Literal CHR ''t'',
     Literal CHR ''='', Decimal 32, Literal CHR '','', Literal CHR ''p'', Literal CHR ''='', Decimal 8]
     ''m=65536,t=1,p=2'' = Some [65536, 1, 2]"
  by code_simp+

lemma parse_HashPassword:
  assumes "HashPassword al (Some salt) plain = Some h"
  shows "parsePHC h = Some (\<lparr>phc_time = 1, phc_memory = 65536, phc_threads = 2\<rparr>, salt, al_argon2 al plain salt 1 65536 2)"
proof -
  have "h = ''$argon2id$v=19$m=65536,t=1,p=2$'' @ b64_encode salt @ ''$'' @ b64_encode (al_argon2 al plain salt 1 65536 2)"
    using assms unfolding HashPassword_text by simp
  then have parts: "split_on CHR ''$'' h = [[], ''argon2id'', ''v=19'', ''m=65536,t=1,p=2'',
      b64_encode salt, b64_encode (al_argon2 al plain salt 1 65536 2)]"
    using PHC_parts by simp
  show ?thesis
    unfolding parsePHC_def parts nth_of_six Let_def
    by (simp add: PHC_numbers [simplified] b64_decode_encode)
qed

text \<open>C25. Stored passwords are readable: a hash \<open>HashPassword\<close> has made always parses, its password is
  accepted, and another password is accepted only when Argon2id itself gives the same key for both.\<close>

theorem password_hash_roundtrip:
  assumes "HashPassword al (Some salt) plain = Some h"
  shows "VerifyPassword al h plain = Some True
    \<and> VerifyPassword al h other = Some (al_argon2 al other salt 1 65536 2 = al_argon2 al plain salt 1 65536 2)"
  using parse_HashPassword [OF assms] by (simp add: VerifyPassword_def)

definition demo_auth :: auth_lib where
  "demo_auth = \<lparr>al_argon2 = (\<lambda>p s t m n. rev p @ s), al_sha256 = (\<lambda>s. CHR ''#'' # s),
     al_totp = (\<lambda>code secret t. code = secret)\<rparr>"

lemma password_hash_roundtrip_witness:
  "VerifyPassword demo_auth ''$argon2id$v=19$m=65536,t=1,p=2$AQID$Y2JhAQID'' ''abc'' = Some True
    \<and> VerifyPassword demo_auth ''$argon2id$v=19$m=65536,t=1,p=2$AQID$Y2JhAQID'' ''abd''
        = Some (al_argon2 demo_auth ''abd'' [CHR 0x01, CHR 0x02, CHR 0x03] 1 65536 2
            = al_argon2 demo_auth ''abc'' [CHR 0x01, CHR 0x02, CHR 0x03] 1 65536 2)"
  by (rule password_hash_roundtrip, unfold HashPassword_text, code_simp)

end
