(* ===== verification/Auth.thy ===== *)
theory Auth
  imports Password Registry "HOL-Library.List_Lexorder"
begin

text \<open>
  Accounts and what they may do: the roles and scopes of \<open>internal/auth\<close>, and the stores
  \<open>internal/store/users.go\<close>, \<open>sessions.go\<close>, \<open>service_tokens.go\<close>, \<open>twofa.go\<close>, \<open>audit_logs.go\<close>,
  \<open>notifications.go\<close> and \<open>notify_helper.go\<close> with \<open>internal/audit/audit.go\<close>. Foreign keys are on, so an insert
  with a dangling reference fails, and the deletion of a user fails while a row without
  \<open>ON DELETE CASCADE\<close> still refers to it.
\<close>

section \<open>Roles and scopes\<close>

definition RoleSuperAdmin :: string where "RoleSuperAdmin = ''super_admin''"
definition RoleAdmin :: string where "RoleAdmin = ''admin''"
definition RoleUser :: string where "RoleUser = ''user''"

lemmas role_names = RoleSuperAdmin_def RoleAdmin_def RoleUser_def

definition IsValidRole :: "string \<Rightarrow> bool" where
  "IsValidRole role \<longleftrightarrow> role = RoleSuperAdmin \<or> role = RoleAdmin \<or> role = RoleUser"

definition HasRole :: "string \<Rightarrow> string \<Rightarrow> bool" where
  "HasRole userRole requiredRole =
     (if requiredRole = RoleSuperAdmin then userRole = RoleSuperAdmin
      else if requiredRole = RoleAdmin then userRole = RoleSuperAdmin \<or> userRole = RoleAdmin
      else if requiredRole = RoleUser
      then userRole = RoleSuperAdmin \<or> userRole = RoleAdmin \<or> userRole = RoleUser
      else False)"

definition ValidateScopes :: "string \<Rightarrow> string \<Rightarrow> bool" where
  "ValidateScopes tokenScopes requiredScope \<longleftrightarrow>
     tokenScopes = ''*'' \<or> list_ex (\<lambda>s. trim_space s = requiredScope) (split_on CHR '','' tokenScopes)"

text \<open>The hierarchy of roles as an ordered type, and the role names as its elements.\<close>

datatype rank = UserRank | AdminRank | SuperAdminRank

instantiation rank :: linorder
begin

fun rank_number :: "rank \<Rightarrow> nat" where
  "rank_number UserRank = 0"
| "rank_number AdminRank = 1"
| "rank_number SuperAdminRank = 2"

definition less_eq_rank :: "rank \<Rightarrow> rank \<Rightarrow> bool" where
  "less_eq_rank a b \<longleftrightarrow> rank_number a \<le> rank_number b"

definition less_rank :: "rank \<Rightarrow> rank \<Rightarrow> bool" where
  "less_rank a b \<longleftrightarrow> rank_number a < rank_number b"

instance
proof
  fix a b :: rank
  assume "a \<le> b" "b \<le> a"
  then show "a = b" by (cases a; cases b) (simp_all add: less_eq_rank_def)
qed (auto simp: less_eq_rank_def less_rank_def)

end

definition rank_of :: "string \<Rightarrow> rank option" where
  "rank_of role =
     (if role = RoleSuperAdmin then Some SuperAdminRank else if role = RoleAdmin then Some AdminRank
      else if role = RoleUser then Some UserRank else None)"

lemma role_distinct [simp]:
  "RoleSuperAdmin \<noteq> RoleAdmin" "RoleAdmin \<noteq> RoleSuperAdmin" "RoleSuperAdmin \<noteq> RoleUser"
  "RoleUser \<noteq> RoleSuperAdmin" "RoleAdmin \<noteq> RoleUser" "RoleUser \<noteq> RoleAdmin"
  by (simp_all add: role_names)

lemma valid_role_rank: "IsValidRole role \<longleftrightarrow> rank_of role \<noteq> None"
  by (simp add: IsValidRole_def rank_of_def)

lemma HasRole_rank:
  "HasRole u r \<longleftrightarrow> (case (rank_of u, rank_of r) of (Some a, Some b) \<Rightarrow> b \<le> a | _ \<Rightarrow> False)"
  by (simp add: HasRole_def rank_of_def less_eq_rank_def)

section \<open>Users\<close>

text \<open>
  \<open>Create\<close> is given the plain password in \<open>usr_password_hash\<close>, as in the code. The role is printed with
  \<open>%q\<close>, which is modelled for names without characters to escape.
\<close>

definition check_role :: "string \<Rightarrow> unit res" where
  "check_role role =
     (if IsValidRole role then Inr ()
      else Inl (Fail (''invalid role '' @ CHR 0x22 # role @ CHR 0x22 # '': must be super_admin, admin or user'')))"

definition user_exists :: "int \<Rightarrow> world \<Rightarrow> bool" where
  "user_exists i w = has_row (\<lambda>u. usr_id u = i) (w_users w)"

definition references :: "(int \<Rightarrow> bool) \<Rightarrow> int option \<Rightarrow> bool" where
  "references exists r = (case r of None \<Rightarrow> True | Some i \<Rightarrow> exists i)"

definition Users_Create :: "auth_lib \<Rightarrow> string option \<Rightarrow> User \<Rightarrow> User res io" where
  "Users_Create al salt user =
     (case check_role (usr_role user) of Inl e \<Rightarrow> State_Monad.return (Inl e)
      | Inr _ \<Rightarrow>
          (case HashPassword al salt (usr_password_hash user) of
             None \<Rightarrow> State_Monad.return (Inl (Fail ''hash password''))
           | Some hash \<Rightarrow> do {
               let user = user\<lparr>usr_password_hash := hash\<rparr>;
               r \<leftarrow> insert_row ''insert user'' w_users w_users_update
                 (\<lambda>w. \<not> has_row (\<lambda>u. usr_username u = usr_username user \<or> usr_email u = usr_email user) (w_users w)
                      \<and> references (\<lambda>i. user_exists i w) (usr_created_by user)
                      \<and> references (\<lambda>i. has_row (\<lambda>p. pln_id p = i) (w_plans w)) (usr_plan user))
                 (\<lambda>w i. user\<lparr>usr_id := i, usr_created_at := w_now w, usr_totp_secret := [], usr_totp_enabled := False,
                          usr_password_changed_at := None\<rparr>);
               State_Monad.return (case r of Inl e \<Rightarrow> Inl e | Inr i \<Rightarrow> Inr (user\<lparr>usr_id := i\<rparr>))
             }))"

definition Users_GetByID :: "int \<Rightarrow> User option res io" where
  "Users_GetByID i = query ''scan user'' (\<lambda>w. by_id usr_id i (w_users w))"

definition Users_GetByEmail :: "string \<Rightarrow> User option res io" where
  "Users_GetByEmail email = query ''scan user'' (\<lambda>w. find_row (\<lambda>u. usr_email u = email) (w_users w))"

definition Users_GetByUsername :: "string \<Rightarrow> User option res io" where
  "Users_GetByUsername name = query ''scan user'' (\<lambda>w. find_row (\<lambda>u. usr_username u = name) (w_users w))"

definition set_user :: "int \<Rightarrow> (world \<Rightarrow> User \<Rightarrow> User) \<Rightarrow> world \<Rightarrow> world" where
  "set_user i f w = w_users_update (update_rows (\<lambda>u. usr_id u = i) (f w)) w"

definition Users_UpdatePassword :: "int \<Rightarrow> string \<Rightarrow> unit res io" where
  "Users_UpdatePassword userID newHash = exec ''update password'' (set_user userID (\<lambda>w u.
     u\<lparr>usr_password_hash := newHash, usr_password_changed_at := Some (w_now w)\<rparr>))"

text \<open>A statement that would break a constraint on some row fails without effect.\<close>

definition Users_UpdateEmail :: "int \<Rightarrow> string \<Rightarrow> unit res io" where
  "Users_UpdateEmail userID email = stmt ''update email'' (\<lambda>w.
     if user_exists userID w \<and> has_row (\<lambda>u. usr_id u \<noteq> userID \<and> usr_email u = email) (w_users w)
     then (Inl (SqlError ''update email''), w)
     else (Inr (), set_user userID (\<lambda>_ u. u\<lparr>usr_email := email\<rparr>) w))"

definition Users_UpdateDiskLimit :: "int \<Rightarrow> int option \<Rightarrow> unit res io" where
  "Users_UpdateDiskLimit userID diskLimit =
     exec ''update disk limit'' (set_user userID (\<lambda>_ u. u\<lparr>usr_disk_limit := diskLimit\<rparr>))"

definition Users_UpdateMaxSites :: "int \<Rightarrow> int option \<Rightarrow> unit res io" where
  "Users_UpdateMaxSites userID maxSites =
     exec ''update max sites'' (set_user userID (\<lambda>_ u. u\<lparr>usr_max_sites := maxSites\<rparr>))"

text \<open>The references to a user that no cascade removes.\<close>

definition user_referenced :: "int \<Rightarrow> world \<Rightarrow> bool" where
  "user_referenced i w \<longleftrightarrow>
     has_row (\<lambda>u. usr_created_by u = Some i \<and> usr_id u \<noteq> i) (w_users w)
     \<or> has_row (\<lambda>s. ste_owner s = Some i) (w_sites w)
     \<or> list_ex (\<lambda>a. aud_user a = Some i) (w_audit w)
     \<or> has_row (\<lambda>r. ses_impersonated_by r = Some i \<and> ses_user r \<noteq> i) (w_sessions w)
     \<or> has_row (\<lambda>r. ord_user r = i \<or> ord_approved_by r = Some i) (w_orders w)"

definition Users_Delete :: "int \<Rightarrow> unit res io" where
  "Users_Delete i = stmt ''delete user'' (\<lambda>w.
     if user_exists i w \<and> user_referenced i w then (Inl (SqlError ''delete user''), w)
     else if user_exists i w
     then (Inr (), w_users_update (delete_rows (\<lambda>u. usr_id u = i))
             (w_sessions_update (delete_rows (\<lambda>r. ses_user r = i))
               (w_user_sites_update (delete_rows (\<lambda>r. uss_user r = i))
                 (w_recovery_update (delete_rows (\<lambda>r. rcv_user r = i)) w))))
     else (Inr (), w))"

definition Users_NullifyCreatedBy :: "int \<Rightarrow> unit res io" where
  "Users_NullifyCreatedBy i = exec ''nullify created_by''
     (w_users_update (update_rows (\<lambda>u. usr_created_by u = Some i) (\<lambda>u. u\<lparr>usr_created_by := None\<rparr>)))"

text \<open>The filter \<open>CreatedBy\<close> of \<open>List\<close>; 0 is no filter.\<close>

definition Users_List :: "int \<Rightarrow> User list res io" where
  "Users_List createdBy = query ''list users''
     (\<lambda>w. select_asc usr_id (\<lambda>u. createdBy > 0 \<longrightarrow> usr_created_by u = Some createdBy) (w_users w))"

definition Users_UpdateRole :: "int \<Rightarrow> string \<Rightarrow> unit res io" where
  "Users_UpdateRole userID role =
     (case check_role role of Inl e \<Rightarrow> State_Monad.return (Inl e)
      | Inr _ \<Rightarrow> exec ''update role'' (set_user userID (\<lambda>_ u. u\<lparr>usr_role := role\<rparr>)))"

definition Users_UpdatePlan :: "int \<Rightarrow> int option \<Rightarrow> unit res io" where
  "Users_UpdatePlan userID plan = stmt ''update plan'' (\<lambda>w.
     if user_exists userID w \<and> \<not> references (\<lambda>i. has_row (\<lambda>p. pln_id p = i) (w_plans w)) plan
     then (Inl (SqlError ''update plan''), w)
     else (Inr (), set_user userID (\<lambda>_ u. u\<lparr>usr_plan := plan\<rparr>) w))"

section \<open>Sessions\<close>

text \<open>\<open>time.Now()\<close> has a fraction of a second, so it is after a stored instant of its own second.\<close>

definition past :: "int \<Rightarrow> world \<Rightarrow> bool" where
  "past t w \<longleftrightarrow> t \<le> w_now w"

definition new_session :: "int \<Rightarrow> string \<Rightarrow> int \<Rightarrow> int option \<Rightarrow> Session" where
  "new_session userID tokenHash expiresAt impersonatedBy =
     \<lparr>ses_id = 0, ses_user = userID, ses_token_hash = tokenHash, ses_expires_at = expiresAt, ses_created_at = 0,
      ses_revoked_at = None, ses_impersonated_by = impersonatedBy\<rparr>"

definition Sessions_Create :: "Session \<Rightarrow> int res io" where
  "Sessions_Create s = insert_row ''insert session'' w_sessions w_sessions_update
     (\<lambda>w. user_exists (ses_user s) w \<and> references (\<lambda>i. user_exists i w) (ses_impersonated_by s)
          \<and> \<not> has_row (\<lambda>r. ses_token_hash r = ses_token_hash s) (w_sessions w))
     (\<lambda>w i. s\<lparr>ses_id := i, ses_created_at := w_now w, ses_revoked_at := None\<rparr>)"

definition Sessions_GetByTokenHash :: "string \<Rightarrow> Session option res io" where
  "Sessions_GetByTokenHash h = query ''scan session''
     (\<lambda>w. find_row (\<lambda>r. ses_token_hash r = h \<and> ses_revoked_at r = None) (w_sessions w))"

definition revoke_sessions :: "(Session \<Rightarrow> bool) \<Rightarrow> world \<Rightarrow> world" where
  "revoke_sessions P w =
     w_sessions_update (update_rows P (\<lambda>r. r\<lparr>ses_revoked_at := Some (w_now w)\<rparr>)) w"

definition Sessions_Revoke :: "int \<Rightarrow> unit res io" where
  "Sessions_Revoke i = exec ''revoke session'' (revoke_sessions (\<lambda>r. ses_id r = i))"

definition Sessions_RevokeByTokenHash :: "string \<Rightarrow> unit res io" where
  "Sessions_RevokeByTokenHash h =
     exec ''revoke session by token hash'' (revoke_sessions (\<lambda>r. ses_token_hash r = h))"

definition Sessions_CleanupExpired :: "unit res io" where
  "Sessions_CleanupExpired = exec ''cleanup expired sessions'' (\<lambda>w.
     w_sessions_update (delete_rows (\<lambda>r. ses_revoked_at r \<noteq> None \<or> ses_expires_at r < w_now w)) w)"

definition active_session :: "int \<Rightarrow> int \<Rightarrow> Session \<Rightarrow> bool" where
  "active_session t userID r \<longleftrightarrow> ses_user r = userID \<and> ses_revoked_at r = None \<and> ses_expires_at r > t"

text \<open>The sub-select of \<open>RevokeOldest\<close>: the ids of the active sessions after the newest \<open>maxSessions\<close>.\<close>

definition surplus_sessions :: "int \<Rightarrow> int \<Rightarrow> world \<Rightarrow> int list" where
  "surplus_sessions userID maxSessions w =
     page (- 1) maxSessions (map ses_id (select_desc ses_id (active_session (w_now w) userID) (w_sessions w)))"

definition Sessions_RevokeOldest :: "int \<Rightarrow> int \<Rightarrow> unit res io" where
  "Sessions_RevokeOldest userID maxSessions = exec ''revoke oldest sessions'' (\<lambda>w.
     revoke_sessions (\<lambda>r. ses_id r \<in> set (surplus_sessions userID maxSessions w)) w)"

definition Sessions_CountActive :: "int \<Rightarrow> int res io" where
  "Sessions_CountActive userID = query ''count active sessions''
     (\<lambda>w. count_rows (active_session (w_now w) userID) (w_sessions w))"

section \<open>Service tokens\<close>

definition Tokens_Create :: "ServiceToken \<Rightarrow> int res io" where
  "Tokens_Create t = insert_row ''insert service token'' w_tokens w_tokens_update
     (\<lambda>w. \<not> has_row (\<lambda>r. stk_name r = stk_name t \<or> stk_key_hash r = stk_key_hash t) (w_tokens w))
     (\<lambda>w i. t\<lparr>stk_id := i, stk_created_at := w_now w, stk_last_used_at := None\<rparr>)"

definition Tokens_GetByKeyHash :: "string \<Rightarrow> ServiceToken option res io" where
  "Tokens_GetByKeyHash h = query ''scan service token'' (\<lambda>w. find_row (\<lambda>r. stk_key_hash r = h) (w_tokens w))"

text \<open>Tokens of the same second come in no specified order; here in the order of their ids.\<close>

definition Tokens_List :: "ServiceToken list res io" where
  "Tokens_List = query ''query service tokens'' (\<lambda>w. select_desc stk_created_at (\<lambda>_. True) (w_tokens w))"

definition Tokens_Delete :: "int \<Rightarrow> unit res io" where
  "Tokens_Delete i = exec ''delete service token'' (w_tokens_update (delete_rows (\<lambda>r. stk_id r = i)))"

definition Tokens_UpdateLastUsed :: "int \<Rightarrow> unit res io" where
  "Tokens_UpdateLastUsed i = exec ''update service token last_used_at'' (\<lambda>w.
     w_tokens_update (update_rows (\<lambda>r. stk_id r = i) (\<lambda>r. r\<lparr>stk_last_used_at := Some (w_now w)\<rparr>)) w)"

section \<open>Two-factor authentication\<close>

definition read_user :: "string \<Rightarrow> int \<Rightarrow> (User \<Rightarrow> 'a) \<Rightarrow> 'a res io" where
  "read_user label userID column = do {
     r \<leftarrow> query label (\<lambda>w. by_id usr_id userID (w_users w));
     State_Monad.return (case r of Inl e \<Rightarrow> Inl e | Inr None \<Rightarrow> Inl ErrNoRows | Inr (Some u) \<Rightarrow> Inr (column u))
   }"

definition GetTOTPSecret :: "int \<Rightarrow> string res io" where
  "GetTOTPSecret userID = read_user ''get totp secret'' userID usr_totp_secret"

definition SetTOTPSecret :: "int \<Rightarrow> string \<Rightarrow> unit res io" where
  "SetTOTPSecret userID secret =
     exec ''set totp secret'' (set_user userID (\<lambda>_ u. u\<lparr>usr_totp_secret := secret\<rparr>))"

definition EnableTOTP :: "int \<Rightarrow> unit res io" where
  "EnableTOTP userID = exec ''enable totp'' (set_user userID (\<lambda>_ u. u\<lparr>usr_totp_enabled := True\<rparr>))"

definition DisableTOTP :: "int \<Rightarrow> unit res io" where
  "DisableTOTP userID = exec ''disable totp''
     (set_user userID (\<lambda>_ u. u\<lparr>usr_totp_enabled := False, usr_totp_secret := []\<rparr>))"

definition IsTOTPEnabled :: "int \<Rightarrow> bool res io" where
  "IsTOTPEnabled userID = read_user ''check totp enabled'' userID usr_totp_enabled"

text \<open>\<open>StoreRecoveryCodes\<close>: the statements of the transaction take effect with its commit.\<close>

definition store_codes :: "int \<Rightarrow> string list \<Rightarrow> world \<Rightarrow> world" where
  "store_codes userID codeHashes w = w_recovery_update (\<lambda>t.
     fold (\<lambda>h. append_row (\<lambda>i. \<lparr>rcv_id = i, rcv_user = userID, rcv_code_hash = h, rcv_used = False\<rparr>)) codeHashes
       (delete_rows (\<lambda>r. rcv_user r = userID) t)) w"

fun insert_codes :: "int \<Rightarrow> string list \<Rightarrow> unit res io" where
  "insert_codes userID [] = State_Monad.return (Inr ())"
| "insert_codes userID (h # hs) = do {
     r \<leftarrow> stmt ''insert recovery code''
       (\<lambda>w. if user_exists userID w then (Inr (), w) else (Inl (SqlError ''insert recovery code''), w));
     case r of Inl e \<Rightarrow> State_Monad.return (Inl e) | Inr _ \<Rightarrow> insert_codes userID hs
   }"

definition StoreRecoveryCodes :: "int \<Rightarrow> string list \<Rightarrow> unit res io" where
  "StoreRecoveryCodes userID codeHashes = do {
     tx \<leftarrow> exec ''begin tx'' (\<lambda>w. w);
     case tx of Inl e \<Rightarrow> State_Monad.return (Inl e) | Inr _ \<Rightarrow> do {
       d \<leftarrow> exec ''delete old recovery codes'' (\<lambda>w. w);
       case d of Inl e \<Rightarrow> State_Monad.return (Inl e) | Inr _ \<Rightarrow> do {
         p \<leftarrow> exec ''prepare insert'' (\<lambda>w. w);
         case p of Inl e \<Rightarrow> State_Monad.return (Inl e) | Inr _ \<Rightarrow> do {
           i \<leftarrow> insert_codes userID codeHashes;
           case i of Inl e \<Rightarrow> State_Monad.return (Inl e)
           | Inr _ \<Rightarrow> exec ''commit'' (store_codes userID codeHashes)
         }
       }
     }
   }"

definition unused_code :: "int \<Rightarrow> string \<Rightarrow> RecoveryCode \<Rightarrow> bool" where
  "unused_code userID codeHash r \<longleftrightarrow> rcv_user r = userID \<and> rcv_code_hash r = codeHash \<and> \<not> rcv_used r"

definition VerifyRecoveryCode :: "int \<Rightarrow> string \<Rightarrow> bool res io" where
  "VerifyRecoveryCode userID codeHash = do {
     n \<leftarrow> exec_count ''verify recovery code'' (\<lambda>w. count_rows (unused_code userID codeHash) (w_recovery w))
       (w_recovery_update (update_rows (unused_code userID codeHash) (\<lambda>r. r\<lparr>rcv_used := True\<rparr>)));
     State_Monad.return (case n of Inl e \<Rightarrow> Inl e | Inr n \<Rightarrow> Inr (n = 1))
   }"

definition DeleteRecoveryCodes :: "int \<Rightarrow> unit res io" where
  "DeleteRecoveryCodes userID =
     exec ''delete recovery codes'' (w_recovery_update (delete_rows (\<lambda>r. rcv_user r = userID)))"

section \<open>The audit log\<close>

text \<open>\<open>Record\<close> and \<open>RecordAction\<close>; a failing insert is only logged.\<close>

definition Record :: "AuditLog \<Rightarrow> unit io" where
  "Record entry = do {
     _ \<leftarrow> stmt ''audit: insert failed'' (\<lambda>w.
       if references (\<lambda>i. user_exists i w) (aud_user entry) then (Inr (), w_audit_update (\<lambda>es. es @ [entry]) w)
       else (Inl (SqlError ''audit: insert failed''), w));
     skip
   }"

definition positive :: "int \<Rightarrow> int option" where
  "positive i = (if i > 0 then Some i else None)"

definition RecordAction :: "int \<Rightarrow> string \<Rightarrow> string \<Rightarrow> int \<Rightarrow> json option \<Rightarrow> unit io" where
  "RecordAction userID action resource resourceID details =
     Record \<lparr>aud_user = positive userID, aud_action = action, aud_resource = resource,
       aud_resource_id = positive resourceID, aud_details = details\<rparr>"

definition AuditLogs_NullifyUser :: "int \<Rightarrow> unit res io" where
  "AuditLogs_NullifyUser i = exec ''nullify audit user'' (w_audit_update
     (map (\<lambda>a. if aud_user a = Some i then a\<lparr>aud_user := None\<rparr> else a)))"

text \<open>\<open>List\<close>: newest first; the arguments are the fields of \<open>AuditLogFilter\<close>.\<close>

definition AuditLogs_List :: "int \<Rightarrow> string \<Rightarrow> string \<Rightarrow> int \<Rightarrow> int \<Rightarrow> AuditLog list res io" where
  "AuditLogs_List userID resource action limit offset = query ''query audit logs'' (\<lambda>w.
     page (if limit \<le> 0 then 100 else limit) offset
       (rev (filter (\<lambda>a. (userID > 0 \<longrightarrow> aud_user a = Some userID) \<and> (resource \<noteq> [] \<longrightarrow> aud_resource a = resource)
          \<and> (action \<noteq> [] \<longrightarrow> aud_action a = action)) (w_audit w))))"

section \<open>Notifications\<close>

definition Notifications_Create :: "Notification \<Rightarrow> int res io" where
  "Notifications_Create n = insert_row ''insert notification'' w_notifications w_notifications_update (\<lambda>w. True)
     (\<lambda>w i. n\<lparr>ntf_id := i, ntf_read := False, ntf_created_at := w_now w, ntf_read_at := None\<rparr>)"

definition Notifications_GetByID :: "int \<Rightarrow> Notification option res io" where
  "Notifications_GetByID i = query ''scan notification'' (\<lambda>w. by_id ntf_id i (w_notifications w))"

text \<open>Notifications of the same second come in no specified order; here in the order of their ids.\<close>

definition Notifications_ListByUser :: "int \<Rightarrow> int \<Rightarrow> int \<Rightarrow> (Notification list \<times> int) res io" where
  "Notifications_ListByUser userID limit offset = do {
     cnt \<leftarrow> query ''count notifications'' (\<lambda>w. count_rows (\<lambda>n. ntf_user n = userID) (w_notifications w));
     case cnt of Inl e \<Rightarrow> State_Monad.return (Inl e)
     | Inr cnt \<Rightarrow> query ''query notifications'' (\<lambda>w.
         (page (if limit \<le> 0 then 50 else limit) offset
            (select_desc ntf_created_at (\<lambda>n. ntf_user n = userID) (w_notifications w)), cnt))
   }"

definition unread :: "int \<Rightarrow> Notification \<Rightarrow> bool" where
  "unread userID n \<longleftrightarrow> ntf_user n = userID \<and> \<not> ntf_read n"

definition Notifications_CountUnread :: "int \<Rightarrow> int res io" where
  "Notifications_CountUnread userID =
     query ''count unread'' (\<lambda>w. count_rows (unread userID) (w_notifications w))"

definition mark_read :: "(Notification \<Rightarrow> bool) \<Rightarrow> world \<Rightarrow> world" where
  "mark_read P w = w_notifications_update (update_rows P
     (\<lambda>n. n\<lparr>ntf_read := True, ntf_read_at := Some (w_now w)\<rparr>)) w"

definition Notifications_MarkRead :: "int \<Rightarrow> unit res io" where
  "Notifications_MarkRead i = exec ''mark read'' (mark_read (\<lambda>n. ntf_id n = i \<and> \<not> ntf_read n))"

definition Notifications_MarkAllRead :: "int \<Rightarrow> unit res io" where
  "Notifications_MarkAllRead userID = exec ''mark all read'' (mark_read (unread userID))"

definition Notifications_Delete :: "int \<Rightarrow> unit res io" where
  "Notifications_Delete i = exec ''delete notification'' (w_notifications_update (delete_rows (\<lambda>n. ntf_id n = i)))"

definition Notifications_DeleteAllRead :: "int \<Rightarrow> unit res io" where
  "Notifications_DeleteAllRead userID = exec ''delete read notifications''
     (w_notifications_update (delete_rows (\<lambda>n. ntf_user n = userID \<and> ntf_read n)))"

definition notify_user :: "int \<Rightarrow> string \<Rightarrow> string \<Rightarrow> string \<Rightarrow> string \<Rightarrow> string \<Rightarrow> int \<Rightarrow> unit io" where
  "notify_user userID notifType title message severity entityType entityID = do {
     _ \<leftarrow> Notifications_Create \<lparr>ntf_id = 0, ntf_user = userID, ntf_type = notifType, ntf_title = title,
       ntf_message = message, ntf_severity = severity, ntf_read = False, ntf_entity_type = entityType,
       ntf_entity_id = entityID, ntf_created_at = 0, ntf_read_at = None\<rparr>;
     skip
   }"

definition NotifyAdmins :: "string \<Rightarrow> string \<Rightarrow> string \<Rightarrow> string \<Rightarrow> string \<Rightarrow> int \<Rightarrow> unit io" where
  "NotifyAdmins notifType title message severity entityType entityID = do {
     admins \<leftarrow> Users_List 0;
     case admins of
       Inl _ \<Rightarrow> skip
     | Inr us \<Rightarrow> for_each (\<lambda>u.
         if usr_role u = ''admin'' \<or> usr_role u = ''super_admin''
         then notify_user (usr_id u) notifType title message severity entityType entityID
         else skip) us
   }"

section \<open>Listings of site assignments\<close>

text \<open>A row of the joined listings: the assignment with the user's name and the site's domain.\<close>

type_synonym site_user = "UserSite \<times> string \<times> string"

definition join_user_site :: "world \<Rightarrow> UserSite \<Rightarrow> site_user list" where
  "join_user_site w r =
     (case (by_id usr_id (uss_user r) (w_users w), by_id ste_id (uss_site r) (w_sites w)) of
        (Some u, Some s) \<Rightarrow> [(r, usr_username u, ste_domain s)]
      | _ \<Rightarrow> [])"

definition UserSites_ListByUser :: "int \<Rightarrow> site_user list res io" where
  "UserSites_ListByUser userID = query ''list user sites'' (\<lambda>w.
     sort_key (\<lambda>(_, _, domain). domain)
       (concat (map (join_user_site w) (filter (\<lambda>r. uss_user r = userID) (rows (w_user_sites w))))))"

definition UserSites_ListBySite :: "int \<Rightarrow> site_user list res io" where
  "UserSites_ListBySite siteID = query ''list site users'' (\<lambda>w.
     sort_key (\<lambda>(_, username, _). username)
       (concat (map (join_user_site w) (filter (\<lambda>r. uss_site r = siteID) (rows (w_user_sites w))))))"

definition NotifySiteUsers :: "int \<Rightarrow> string \<Rightarrow> string \<Rightarrow> string \<Rightarrow> string \<Rightarrow> string \<Rightarrow> int \<Rightarrow> unit io" where
  "NotifySiteUsers siteID notifType title message severity entityType entityID = do {
     us \<leftarrow> UserSites_ListBySite siteID;
     case us of
       Inl _ \<Rightarrow> NotifyAdmins notifType title message severity entityType entityID
     | Inr us \<Rightarrow>
         if us = [] then NotifyAdmins notifType title message severity entityType entityID
         else for_each (\<lambda>(r, _, _). notify_user (uss_user r) notifType title message severity entityType entityID) us
   }"

end
