(* ===== verification/Features.thy ===== *)
theory Features
  imports World
begin

text \<open>
  Licensing: the tiers and features of \<open>internal/features\<close>, the second copy of these rules in
  \<open>internal/apihttp/middleware.go\<close>, the license table (\<open>internal/store/licenses.go\<close>) and the client of the member
  portal with its cache (\<open>internal/license\<close>). The HTTP call to the portal is a parameter. The theorem says
  for which tiers and features the two copies of the rules give the same answer.
\<close>

section \<open>Tiers and features\<close>

definition TierLevel :: "(string \<times> int) list" where
  "TierLevel = [(''free'', 0), (''basic'', 1), (''pro'', 2), (''enterprise'', 2), (''max'', 3)]"

definition FeatureTierMap :: "(string \<times> string) list" where
  "FeatureTierMap =
     [(''single_server'', ''free''), (''static_sites'', ''free''), (''php'', ''free''), (''ssl_certificates'', ''free''),
      (''basic_monitoring'', ''free''), (''file_manager'', ''free''), (''terminal'', ''free''), (''job_history'', ''free''),
      (''ssl'', ''free''), (''api_access'', ''free''), (''backups'', ''free''), (''backup_restore'', ''free''),
      (''cloud_backups'', ''free''),
      (''nodejs'', ''basic''), (''python'', ''basic''), (''database'', ''basic''), (''cron_jobs'', ''basic''),
      (''multi_server'', ''pro''), (''advanced_runtimes'', ''pro''), (''database_management'', ''pro''),
      (''user_management'', ''pro''), (''alerting'', ''pro''), (''scheduled_backups'', ''pro''),
      (''agent_management'', ''pro''), (''custom_domains'', ''pro''), (''docker'', ''pro''), (''git_deploy'', ''pro''),
      (''advanced_vhost'', ''pro''), (''ssl_manager'', ''pro''), (''monitoring'', ''pro''), (''service_tokens'', ''pro''),
      (''white_label'', ''enterprise''), (''audit_log'', ''enterprise''), (''priority_support'', ''enterprise''),
      (''cloudflare'', ''max'')]"

text \<open>Servers and sites per tier; \<open>-1\<close> is unlimited.\<close>

definition TierLimits :: "(string \<times> int \<times> int) list" where
  "TierLimits = [(''free'', 1, 5), (''basic'', 3, 20), (''pro'', 10, - 1), (''enterprise'', 50, - 1), (''max'', - 1, - 1)]"

definition HasFeature :: "string \<Rightarrow> string \<Rightarrow> bool" where
  "HasFeature tier feature =
     (case map_of FeatureTierMap feature of
        None \<Rightarrow> False
      | Some requiredTier \<Rightarrow>
          let tierLvl = (case map_of TierLevel tier of None \<Rightarrow> 0 | Some l \<Rightarrow> l);
              reqLvl = (case map_of TierLevel requiredTier of None \<Rightarrow> 0 | Some l \<Rightarrow> l)
          in tierLvl \<ge> reqLvl)"

definition IsPro :: "string \<Rightarrow> bool" where
  "IsPro tier = (case map_of TierLevel tier of None \<Rightarrow> False | Some lvl \<Rightarrow> lvl \<ge> the (map_of TierLevel ''pro''))"

definition IsEnterprise :: "string \<Rightarrow> bool" where
  "IsEnterprise tier =
     (case map_of TierLevel tier of None \<Rightarrow> False | Some lvl \<Rightarrow> lvl \<ge> the (map_of TierLevel ''enterprise''))"

definition TierFeatures :: "string \<Rightarrow> (string \<times> bool) list" where
  "TierFeatures tier = map (\<lambda>(feature, _). (feature, HasFeature tier feature)) FeatureTierMap"

definition MinTier :: "string \<Rightarrow> string" where
  "MinTier feature = (case map_of FeatureTierMap feature of None \<Rightarrow> ''free'' | Some t \<Rightarrow> t)"

text \<open>The copy in the middleware.\<close>

definition tierLevelNum :: "string \<Rightarrow> int" where
  "tierLevelNum tier =
     (if tier = ''free'' then 0 else if tier = ''pro'' then 1 else if tier = ''enterprise'' then 2 else 0)"

definition featureMinTier :: "string \<Rightarrow> string" where
  "featureMinTier feature =
     (if feature \<in> {''single_server'', ''static_sites'', ''php'', ''ssl_certificates'', ''basic_monitoring'',
        ''file_manager'', ''terminal'', ''job_history''} then ''free''
      else if feature \<in> {''multi_server'', ''advanced_runtimes'', ''database_management'', ''cloud_backups'',
        ''user_management'', ''alerting'', ''scheduled_backups'', ''agent_management'', ''custom_domains'', ''docker''}
      then ''pro''
      else if feature \<in> {''white_label'', ''api_access'', ''audit_log'', ''priority_support''} then ''enterprise''
      else ''free'')"

definition featureHasAccess :: "string \<Rightarrow> string \<Rightarrow> bool" where
  "featureHasAccess tier feature = (let req = featureMinTier feature in tierLevelNum tier \<ge> tierLevelNum req)"

section \<open>The license table\<close>

definition Licenses_GetActive :: "License option res io" where
  "Licenses_GetActive = query ''get active license'' (\<lambda>w.
     case select_desc (\<lambda>l. case lic_activated_at l of None \<Rightarrow> 0 | Some t \<Rightarrow> t)
            (\<lambda>l. lic_activated_at l \<noteq> None
               \<and> (case lic_expires_at l of None \<Rightarrow> True | Some t \<Rightarrow> t > w_now w)) (w_licenses w) of
       [] \<Rightarrow> None | l # _ \<Rightarrow> Some l)"

definition license_by_key :: "string \<Rightarrow> License option res io" where
  "license_by_key key = query ''get license by key'' (\<lambda>w. find_row (\<lambda>l. lic_key l = key) (w_licenses w))"

definition deactivate_where :: "(License \<Rightarrow> bool) \<Rightarrow> world \<Rightarrow> world" where
  "deactivate_where P = w_licenses_update (update_rows P (\<lambda>l. l\<lparr>lic_activated_at := None\<rparr>))"

definition Licenses_Activate :: "string \<Rightarrow> string \<Rightarrow> int \<Rightarrow> License option res io" where
  "Licenses_Activate key tier maxServers = do {
     n \<leftarrow> exec_count ''activate license update'' (\<lambda>w. count_rows (\<lambda>l. lic_key l = key) (w_licenses w))
       (\<lambda>w. w_licenses_update (update_rows (\<lambda>l. lic_key l = key) (\<lambda>l. l\<lparr>lic_tier := tier,
          lic_max_servers := maxServers, lic_activated_at := Some (w_now w)\<rparr>)) w);
     case n of Inl e \<Rightarrow> State_Monad.return (Inl e)
     | Inr n \<Rightarrow>
         if n > 0 then do {
           d \<leftarrow> exec ''deactivate other licenses'' (deactivate_where (\<lambda>l. lic_key l \<noteq> key));
           case d of Inl e \<Rightarrow> State_Monad.return (Inl e) | Inr _ \<Rightarrow> license_by_key key
         }
         else do {
           d \<leftarrow> exec ''deactivate existing'' (deactivate_where (\<lambda>l. lic_activated_at l \<noteq> None));
           case d of Inl e \<Rightarrow> State_Monad.return (Inl e)
           | Inr _ \<Rightarrow> do {
               i \<leftarrow> insert_row ''insert license'' w_licenses w_licenses_update
                 (\<lambda>w. \<not> has_row (\<lambda>l. lic_key l = key) (w_licenses w))
                 (\<lambda>w i. \<lparr>lic_id = i, lic_key = key, lic_tier = tier, lic_activated_at = Some (w_now w),
                    lic_expires_at = None, lic_max_servers = maxServers, lic_created_at = w_now w\<rparr>);
               case i of Inl e \<Rightarrow> State_Monad.return (Inl e)
               | Inr i \<Rightarrow> query ''fetch activated license'' (\<lambda>w. by_id lic_id i (w_licenses w))
             }
         }
   }"

definition Licenses_Deactivate :: "unit res io" where
  "Licenses_Deactivate = exec ''deactivate licenses'' (deactivate_where (\<lambda>l. lic_activated_at l \<noteq> None))"

section \<open>The member portal\<close>

record Info =
  inf_valid :: bool
  inf_plan :: string
  inf_features :: "string list"

record validator =
  val_cache :: "Info option"
  val_expiry :: int

text \<open>
  \<open>Validate\<close> at an instant in seconds. \<open>portal body\<close> is the decoded answer of the portal to the request body,
  \<open>None\<close> for a failing request or an answer that does not decode.
\<close>

definition Validate :: "(string \<Rightarrow> Info option) \<Rightarrow> int \<Rightarrow> string \<Rightarrow> validator \<Rightarrow> Info \<times> validator" where
  "Validate portal t licenseKey v =
     (let fetch = (case portal (''{'' @ CHR 0x22 # ''license_key'' @ CHR 0x22 # '':'' @ CHR 0x22 # licenseKey @ CHR 0x22 # ''}'') of
            None \<Rightarrow> (\<lparr>inf_valid = False, inf_plan = [], inf_features = []\<rparr>, v)
          | Some result \<Rightarrow> (result, \<lparr>val_cache = Some result, val_expiry = t + 3600\<rparr>))
      in case val_cache v of
           Some cached \<Rightarrow>
             if t < val_expiry v \<and> inf_valid cached \<and> inf_plan cached \<noteq> [] then (cached, v) else fetch
         | None \<Rightarrow> fetch)"

definition info_HasFeature :: "Info option \<Rightarrow> string \<Rightarrow> bool" where
  "info_HasFeature info feature =
     (case info of None \<Rightarrow> False | Some i \<Rightarrow> inf_valid i \<and> list_ex (\<lambda>f. f = feature) (inf_features i))"

definition info_IsPremium :: "Info option \<Rightarrow> bool" where
  "info_IsPremium info =
     (case info of None \<Rightarrow> False | Some i \<Rightarrow> inf_valid i \<and> (inf_plan i = ''premium'' \<or> inf_plan i = ''enterprise''))"

definition info_IsEnterprise :: "Info option \<Rightarrow> bool" where
  "info_IsEnterprise info = (case info of None \<Rightarrow> False | Some i \<Rightarrow> inf_valid i \<and> inf_plan i = ''enterprise'')"

section \<open>The two copies of the rules\<close>

text \<open>The tiers at which both copies agree on a feature, feature by feature.\<close>

definition gates_agree :: "string \<Rightarrow> string \<Rightarrow> bool" where
  "gates_agree tier feature =
     (if feature \<in> {''single_server'', ''static_sites'', ''php'', ''ssl_certificates'', ''basic_monitoring'',
        ''file_manager'', ''terminal'', ''job_history'', ''ssl'', ''backups'', ''backup_restore''} then True
      else if feature \<in> {''multi_server'', ''advanced_runtimes'', ''database_management'', ''user_management'',
        ''alerting'', ''scheduled_backups'', ''agent_management'', ''custom_domains'', ''docker''}
      then tier \<noteq> ''max''
      else if feature \<in> {''white_label'', ''audit_log'', ''priority_support''} then tier \<notin> {''pro'', ''max''}
      else if feature = ''cloud_backups'' then tier \<in> {''pro'', ''enterprise''}
      else if feature = ''api_access'' then tier = ''enterprise''
      else if feature \<in> {''nodejs'', ''python'', ''database'', ''cron_jobs''}
      then tier \<in> {''basic'', ''pro'', ''enterprise'', ''max''}
      else if feature \<in> {''git_deploy'', ''advanced_vhost'', ''ssl_manager'', ''monitoring'', ''service_tokens''}
      then tier \<in> {''pro'', ''enterprise'', ''max''}
      else if feature = ''cloudflare'' then tier = ''max''
      else False)"

lemma tier_cases:
  obtains (known) "tier \<in> {''free'', ''basic'', ''pro'', ''enterprise'', ''max''}"
  | (unknown) "tier \<notin> {''free'', ''basic'', ''pro'', ''enterprise'', ''max''}"
  by blast

definition tier_level :: "string \<Rightarrow> int" where
  "tier_level tier = (case map_of TierLevel tier of None \<Rightarrow> 0 | Some l \<Rightarrow> l)"

lemma tier_levels:
  "tier_level ''free'' = 0" "tier_level ''basic'' = 1" "tier_level ''pro'' = 2" "tier_level ''enterprise'' = 2"
  "tier_level ''max'' = 3"
  by (simp_all add: tier_level_def TierLevel_def)

lemma unknown_tier:
  "tier \<notin> {''free'', ''basic'', ''pro'', ''enterprise'', ''max''} \<Longrightarrow> tier_level tier = 0 \<and> tierLevelNum tier = 0"
  by (simp add: tier_level_def TierLevel_def tierLevelNum_def)

lemma HasFeature_level:
  "HasFeature tier feature =
     (case map_of FeatureTierMap feature of None \<Rightarrow> False | Some r \<Rightarrow> tier_level r \<le> tier_level tier)"
  by (simp add: HasFeature_def tier_level_def Let_def split: option.split)

lemma unknown_feature:
  "feature \<notin> set (map fst FeatureTierMap) \<Longrightarrow> \<not> HasFeature tier feature \<and> featureHasAccess tier feature"
  by (simp add: HasFeature_def FeatureTierMap_def featureHasAccess_def featureMinTier_def tierLevelNum_def)

lemma known_features:
  "list_all (\<lambda>f. list_all (\<lambda>t. (featureHasAccess t f = HasFeature t f) = gates_agree t f)
     [''free'', ''basic'', ''pro'', ''enterprise'', ''max'', ''other'']) (map fst FeatureTierMap)"
  by code_simp

lemma other_tier:
  assumes "tier \<notin> {''free'', ''basic'', ''pro'', ''enterprise'', ''max''}"
  shows "featureHasAccess tier f = featureHasAccess ''other'' f" "HasFeature tier f = HasFeature ''other'' f"
    "gates_agree tier f = gates_agree ''other'' f"
proof -
  have other: "''other'' \<notin> {''free'', ''basic'', ''pro'', ''enterprise'', ''max''}" by simp
  note levels = unknown_tier [OF assms] unknown_tier [OF other]
  from levels show "featureHasAccess tier f = featureHasAccess ''other'' f" by (simp add: featureHasAccess_def Let_def)
  from levels show "HasFeature tier f = HasFeature ''other'' f"
    by (simp add: HasFeature_level split: option.split)
  from assms show "gates_agree tier f = gates_agree ''other'' f" by (simp add: gates_agree_def)
qed

lemma gates_agree_unknown: "feature \<notin> set (map fst FeatureTierMap) \<Longrightarrow> \<not> gates_agree tier feature"
  by (simp add: gates_agree_def FeatureTierMap_def)

text \<open>The feature gate of the middleware says it uses the rules of package \<open>features\<close>, which the panel shows
  to its users. Both agree exactly as \<open>gates_agree\<close> says: on the basic features always, but for instance
  the tier \<open>max\<close>, which has every feature, is refused all paid features by the middleware, and a feature
  that only one of the two knows is open in the middleware and closed in the package.\<close>

lemma feature_gates_agree:
  "(featureHasAccess tier feature = HasFeature tier feature) = gates_agree tier feature"
proof (cases "feature \<in> set (map fst FeatureTierMap)")
  case False
  with unknown_feature [OF False] gates_agree_unknown [OF False] show ?thesis by blast
next
  case True
  have eq: "(featureHasAccess t feature = HasFeature t feature) = gates_agree t feature"
    if "t \<in> set [''free'', ''basic'', ''pro'', ''enterprise'', ''max'', ''other'']" for t
    using known_features True that unfolding list_all_iff by blast
  show ?thesis
  proof (cases "tier \<in> {''free'', ''basic'', ''pro'', ''enterprise'', ''max''}")
    case True
    then show ?thesis by (intro eq) auto
  next
    case False
    show ?thesis unfolding other_tier [OF False] by (rule eq) simp
  qed
qed

end
