(* ===== verification/RateLimit.thy ===== *)
theory RateLimit
  imports Prelude
begin

text \<open>
  The in-memory guards of the HTTP API: the limiter of login attempts per address, the failure counter per
  account and the memory of used TOTP codes (\<open>internal/apihttp/auth.go\<close>), the token bucket of
  \<open>ratelimit.go\<close> and the CSRF tokens of \<open>csrf.go\<close>. Every method holds its mutex for its whole
  body, so a method is one step on its map. Instants are integers of one clock (seconds for the login
  guards, nanoseconds for the bucket); a method that reads the clock twice is given one instant.

  The window limiter is shown to refine a specification that remembers every accepted request, and the
  bucket to stay within its budget, to be unaffected by its clean-up and to starve steady clients.
\<close>

section \<open>Windows of instants\<close>

type_synonym log = "string \<Rightarrow> int list option"

definition entries :: "log \<Rightarrow> string \<Rightarrow> int list" where
  "entries m k = (case m k of None \<Rightarrow> [] | Some ts \<Rightarrow> ts)"

definition recent :: "int \<Rightarrow> int \<Rightarrow> int list \<Rightarrow> int list" where
  "recent window now ts = filter (\<lambda>t. now - window < t) ts"

text \<open>Writing back the pruned list; an empty one drops the key.\<close>

definition set_entries :: "log \<Rightarrow> string \<Rightarrow> int list \<Rightarrow> log" where
  "set_entries m k ts = (if ts = [] then m(k := None) else m(k := Some ts))"

text \<open>\<open>rateLimiter.allow\<close>; \<open>dev\<close> is whether \<open>SIGARDAPANEL_DEV\<close> is \<open>true\<close>.\<close>

definition allow :: "bool \<Rightarrow> int \<Rightarrow> int \<Rightarrow> string \<Rightarrow> int \<Rightarrow> log \<Rightarrow> bool \<times> log" where
  "allow dev limit window ip now m =
     (if dev then (True, m)
      else
        let valid = recent window now (entries m ip);
            m = set_entries m ip valid
        in if int (length valid) \<ge> limit then (False, m)
           else (True, m(ip := Some (valid @ [now]))))"

text \<open>The methods of \<open>failureTracker\<close>.\<close>

definition prune :: "int \<Rightarrow> string \<Rightarrow> int \<Rightarrow> log \<Rightarrow> int list \<times> log" where
  "prune window key now m =
     (let valid = recent window now (entries m key) in (valid, set_entries m key valid))"

definition blocked :: "int \<Rightarrow> int \<Rightarrow> string \<Rightarrow> int \<Rightarrow> log \<Rightarrow> bool \<times> log" where
  "blocked limit window key now m =
     (let (valid, m) = prune window key now m in (int (length valid) \<ge> limit, m))"

definition fail :: "int \<Rightarrow> string \<Rightarrow> int \<Rightarrow> log \<Rightarrow> log" where
  "fail window key now m =
     (let (valid, m) = prune window key now m in m(key := Some (valid @ [now])))"

definition reset :: "string \<Rightarrow> log \<Rightarrow> log" where
  "reset key m = m(key := None)"

text \<open>\<open>usedTOTP.markUsed\<close>: the codes seen in the last two minutes, under the text \<open>user:code\<close>.\<close>

definition totp_key :: "int \<Rightarrow> string \<Rightarrow> string" where
  "totp_key userID code = itoa userID @ '':'' @ code"

definition forget_old :: "int \<Rightarrow> (string \<Rightarrow> int option) \<Rightarrow> string \<Rightarrow> int option" where
  "forget_old now seen k =
     (case seen k of None \<Rightarrow> None | Some t \<Rightarrow> if now - t > 120 then None else Some t)"

definition markUsed :: "int \<Rightarrow> string \<Rightarrow> int \<Rightarrow> (string \<Rightarrow> int option) \<Rightarrow> bool \<times> (string \<Rightarrow> int option)" where
  "markUsed userID code now seen =
     (let seen = forget_old now seen;
          key = totp_key userID code
      in if seen key \<noteq> None then (False, seen) else (True, seen(key := Some now)))"

section \<open>The token bucket\<close>

record visitor =
  vs_tokens :: int
  vs_last_seen :: int

type_synonym visitors = "string \<Rightarrow> visitor option"

text \<open>
  \<open>RateLimiter.Allow\<close>. The refill is computed in floating point by the code and as the exact quotient
  here: the tokens earned since the last request, truncated to an integer at every request.
\<close>

definition tokensToAdd :: "int \<Rightarrow> int \<Rightarrow> int \<Rightarrow> int" where
  "tokensToAdd rate interval elapsed = elapsed * rate div interval"

definition Allow :: "bool \<Rightarrow> int \<Rightarrow> int \<Rightarrow> string \<Rightarrow> int \<Rightarrow> visitors \<Rightarrow> bool \<times> visitors" where
  "Allow dev rate interval ip now vs =
     (if dev then (True, vs)
      else case vs ip of
        None \<Rightarrow> (True, vs(ip := Some \<lparr>vs_tokens = rate - 1, vs_last_seen = now\<rparr>))
      | Some v \<Rightarrow>
          let tokens = vs_tokens v + tokensToAdd rate interval (now - vs_last_seen v);
              tokens = (if tokens > rate then rate else tokens)
          in if tokens \<le> 0 then (False, vs(ip := Some \<lparr>vs_tokens = tokens, vs_last_seen = now\<rparr>))
             else (True, vs(ip := Some \<lparr>vs_tokens = tokens - 1, vs_last_seen = now\<rparr>)))"

definition cleanup :: "int \<Rightarrow> int \<Rightarrow> visitors \<Rightarrow> visitors" where
  "cleanup interval now vs ip =
     (case vs ip of None \<Rightarrow> None
      | Some v \<Rightarrow> if now - vs_last_seen v > interval * 2 then None else Some v)"

text \<open>\<open>StrictLimiter\<close> and \<open>APIlimiter\<close>: rate and interval (in nanoseconds).\<close>

definition StrictLimiter :: "int \<times> int" where
  "StrictLimiter = (10, 15 * 60 * 1000000000)"

definition APIlimiter :: "int \<times> int" where
  "APIlimiter = (100, 60 * 1000000000)"

section \<open>CSRF tokens\<close>

record csrfToken =
  csrf_token :: string
  csrf_expires_at :: int

type_synonym csrf = "string \<Rightarrow> csrfToken option"

text \<open>\<open>GenerateToken\<close>; \<open>drawn\<close> is the encoding of the random bytes. Instants are nanoseconds.\<close>

definition GenerateToken :: "string \<Rightarrow> string \<Rightarrow> int \<Rightarrow> csrf \<Rightarrow> string \<times> csrf" where
  "GenerateToken drawn sessionID now ts =
     (drawn, ts(sessionID := Some \<lparr>csrf_token = drawn, csrf_expires_at = now + 3600 * 1000000000\<rparr>))"

definition ValidateToken :: "string \<Rightarrow> string \<Rightarrow> int \<Rightarrow> csrf \<Rightarrow> bool" where
  "ValidateToken sessionID token now ts =
     (case ts sessionID of
        None \<Rightarrow> False
      | Some stored \<Rightarrow> \<not> now > csrf_expires_at stored \<and> csrf_token stored = token)"

definition csrf_cleanup :: "int \<Rightarrow> csrf \<Rightarrow> csrf" where
  "csrf_cleanup now ts sessionID =
     (case ts sessionID of None \<Rightarrow> None
      | Some token \<Rightarrow> if now > csrf_expires_at token then None else Some token)"

text \<open>What the middleware reads of a request: cookies by name, the form value and two headers.\<close>

record csrf_request =
  cq_method :: string
  cq_path :: string
  cq_cookie :: "string \<Rightarrow> string option"
  cq_authorization :: string
  cq_csrf_header :: string
  cq_csrf_form :: string

definition getSessionID :: "csrf_request \<Rightarrow> string" where
  "getSessionID rq =
     (case cq_cookie rq ''session_id'' of
        Some v \<Rightarrow> v
      | None \<Rightarrow>
          if length (cq_authorization rq) > 7 \<and> take 7 (cq_authorization rq) = ''Bearer ''
          then drop 7 (cq_authorization rq) else [])"

datatype csrf_verdict = Passes | Forbidden string

definition csrf_Middleware :: "csrf_request \<Rightarrow> int \<Rightarrow> csrf \<Rightarrow> csrf_verdict" where
  "csrf_Middleware rq now ts =
     (if cq_method rq \<in> {''GET'', ''HEAD'', ''OPTIONS''} then Passes
      else if cq_path rq \<in> {''/api/v1/auth/login'', ''/api/v1/auth/register'', ''/health'', ''/api/v1/health''}
      then Passes
      else
        let sessionID = getSessionID rq
        in if sessionID = [] then Passes
           else
             let token = (if cq_csrf_header rq = [] then cq_csrf_form rq else cq_csrf_header rq)
             in if token = [] then Forbidden ''CSRF token missing''
                else if \<not> ValidateToken sessionID token now ts then Forbidden ''Invalid CSRF token''
                else Passes)"

section \<open>The login limiter against its history\<close>

text \<open>The answers of a limiter to a list of requests \<open>(key, instant)\<close>.\<close>

fun answers :: "(string \<Rightarrow> int \<Rightarrow> 's \<Rightarrow> bool \<times> 's) \<Rightarrow> 's \<Rightarrow> (string \<times> int) list \<Rightarrow> bool list" where
  "answers step s [] = []"
| "answers step s ((k, t) # rs) = (let (ok, s') = step k t s in ok # answers step s' rs)"

text \<open>
  What the limiter promises, over the list of all requests ever accepted: a request passes when fewer
  than \<open>limit\<close> of its key were accepted in the window that ends with it.
\<close>

definition accepted_in :: "(string \<times> int) list \<Rightarrow> string \<Rightarrow> int \<Rightarrow> int \<Rightarrow> int list" where
  "accepted_in hist k from until = filter (\<lambda>t. from < t \<and> t \<le> until) (map snd (filter (\<lambda>(a, _). a = k) hist))"

definition history_allow :: "int \<Rightarrow> int \<Rightarrow> string \<Rightarrow> int \<Rightarrow> (string \<times> int) list \<Rightarrow> bool \<times> (string \<times> int) list" where
  "history_allow limit window k now hist =
     (if int (length (accepted_in hist k (now - window) now)) < limit then (True, hist @ [(k, now)]) else (False, hist))"

definition accepted :: "(string \<times> int) list \<Rightarrow> bool list \<Rightarrow> (string \<times> int) list" where
  "accepted rs oks = map fst (filter snd (zip rs oks))"

lemma recent_recent: "t \<le> u \<Longrightarrow> recent w u (recent w t ts) = recent w u ts"
  by (auto simp: recent_def intro: filter_cong)

lemma recent_append [simp]: "recent w u (ts @ us) = recent w u ts @ recent w u us"
  by (simp add: recent_def)

lemma recent_Nil [simp]: "recent w u [] = []"
  by (simp add: recent_def)

lemma entries_set_entries [simp]: "entries (set_entries m k ts) l = (if l = k then ts else entries m l)"
  by (simp add: entries_def set_entries_def)

lemma entries_upd [simp]: "entries (m(k := Some ts)) l = (if l = k then ts else entries m l)"
  by (simp add: entries_def)

text \<open>
  The simulation: from instant \<open>t\<close> on, the pruned lists show the same instants as the history, all of
  whose entries are no later than \<open>t\<close>.
\<close>

definition remembers :: "int \<Rightarrow> int \<Rightarrow> log \<Rightarrow> (string \<times> int) list \<Rightarrow> bool" where
  "remembers w t m hist \<longleftrightarrow>
     (\<forall>k. \<forall>u \<ge> t. recent w u (entries m k) = recent w u (map snd (filter (\<lambda>(a, _). a = k) hist)))
     \<and> (\<forall>(k, u) \<in> set hist. u \<le> t)"

lemma remembers_later: "remembers w t m hist \<Longrightarrow> t \<le> u \<Longrightarrow> remembers w u m hist"
  by (fastforce simp: remembers_def)

lemma accepted_in_recent:
  assumes "remembers w t m hist"
  shows "accepted_in hist k (t - w) t = recent w t (entries m k)"
proof -
  from assms have "u \<le> t" if "u \<in> set (map snd (filter (\<lambda>(a, _). a = k) hist))" for u
    using that by (auto simp: remembers_def)
  then have "accepted_in hist k (t - w) t = recent w t (map snd (filter (\<lambda>(a, _). a = k) hist))"
    unfolding accepted_in_def recent_def by (intro filter_cong) auto
  with assms show ?thesis by (simp add: remembers_def)
qed

lemma allow_step:
  assumes "remembers w t m hist"
  shows "fst (allow False limit w k t m) = fst (history_allow limit w k t hist)"
    and "remembers w t (snd (allow False limit w k t m)) (snd (history_allow limit w k t hist))"
  using assms accepted_in_recent [OF assms, of k]
  by (auto simp: allow_def history_allow_def Let_def remembers_def recent_recent)

lemma allow_simulates:
  assumes "remembers w t m hist" and "sorted (t # map snd rs)"
  shows "answers (allow False limit w) m rs = answers (history_allow limit w) hist rs"
  using assms
proof (induction rs arbitrary: t m hist)
  case (Cons r rs)
  obtain k u where r: "r = (k, u)" by (cases r)
  with Cons.prems have later: "remembers w u m hist" and sorted: "sorted (u # map snd rs)"
    by (auto intro: remembers_later)
  note step = allow_step [OF later, of limit k]
  from Cons.IH [OF step(2) sorted] step(1) show ?case by (simp add: r split_beta)
qed simp

lemma allow_refines_history:
  assumes "sorted (map snd rs)"
  shows "answers (allow False limit w) (\<lambda>_. None) rs = answers (history_allow limit w) [] rs"
proof (cases rs)
  case (Cons r rs')
  have "remembers w (snd r) (\<lambda>_. None) []" by (simp add: remembers_def entries_def)
  from allow_simulates [OF this, of rs limit] assms show ?thesis by (simp add: Cons)
qed simp

text \<open>The history holds just the accepted requests, and no window of it more than the limit.\<close>

definition within_limit :: "int \<Rightarrow> int \<Rightarrow> (string \<times> int) list \<Rightarrow> bool" where
  "within_limit limit w hist \<longleftrightarrow> (\<forall>k u. int (length (accepted_in hist k (u - w) u)) \<le> limit)"

lemma length_filter_mono: "(\<And>x. x \<in> set xs \<Longrightarrow> P x \<Longrightarrow> Q x) \<Longrightarrow> length (filter P xs) \<le> length (filter Q xs)"
  by (induction xs) auto

lemma within_limit_step:
  assumes "within_limit limit w hist" and "\<forall>(k, u) \<in> set hist. u \<le> t" and "0 \<le> limit"
  shows "within_limit limit w (snd (history_allow limit w k t hist))"
proof (cases "int (length (accepted_in hist k (t - w) t)) < limit")
  case True
  have "int (length (accepted_in (hist @ [(k, t)]) l (u - w) u)) \<le> limit" for l u
  proof (cases "l = k \<and> u - w < t \<and> t \<le> u")
    case new: True
    have "length (accepted_in hist k (u - w) u) \<le> length (accepted_in hist k (t - w) t)"
      unfolding accepted_in_def by (rule length_filter_mono) (use assms(2) new in auto)
    with True new show ?thesis by (simp add: accepted_in_def)
  next
    case False
    then have "accepted_in (hist @ [(k, t)]) l (u - w) u = accepted_in hist l (u - w) u"
      by (auto simp: accepted_in_def)
    with assms(1) show ?thesis by (simp add: within_limit_def)
  qed
  with True show ?thesis by (simp add: history_allow_def within_limit_def)
qed (use assms in \<open>simp add: history_allow_def\<close>)

lemma history_within_limit:
  assumes "within_limit limit w hist" "\<forall>(k, u) \<in> set hist. u \<le> t" "0 \<le> limit" "sorted (t # map snd rs)"
  shows "within_limit limit w (hist @ accepted rs (answers (history_allow limit w) hist rs))"
  using assms
proof (induction rs arbitrary: t hist)
  case (Cons r rs)
  obtain k u where r: "r = (k, u)" by (cases r)
  let ?hist = "snd (history_allow limit w k u hist)"
  from Cons.prems r have u: "\<forall>(k, v) \<in> set hist. v \<le> u" and sorted: "sorted (u # map snd rs)" by auto
  then have "\<forall>(k, v) \<in> set ?hist. v \<le> u" by (auto simp: history_allow_def)
  from Cons.IH [OF within_limit_step [OF Cons.prems(1) u Cons.prems(3)] this Cons.prems(3) sorted]
  show ?case by (auto simp: r accepted_def history_allow_def split_beta split: if_splits)
qed (simp add: accepted_def)

section \<open>Properties of the login limiter\<close>

text \<open>C22. The limiter of login attempts forgets old attempts without anyone being able to tell: to every
  sequence of requests in order of time it gives the same answers as the specification that keeps the
  whole history of accepted requests; and in no window, whenever it ends, are more than \<open>limit\<close> requests
  of one address accepted.\<close>

theorem login_limiter_refines_history:
  assumes "sorted (map snd rs)" and "0 \<le> limit"
  shows "answers (allow False limit w) (\<lambda>_. None) rs = answers (history_allow limit w) [] rs
    \<and> within_limit limit w (accepted rs (answers (allow False limit w) (\<lambda>_. None) rs))"
proof (cases rs)
  case Nil
  with assms(2) show ?thesis by (simp add: accepted_def within_limit_def accepted_in_def)
next
  case (Cons r rs')
  have "within_limit limit w ([] @ accepted rs (answers (history_allow limit w) [] rs))"
    by (rule history_within_limit [where t = "snd r"])
       (use assms Cons in \<open>simp_all add: within_limit_def accepted_in_def\<close>)
  with allow_refines_history [OF assms(1)] show ?thesis by simp
qed

definition demo_attempts :: "(string \<times> int) list" where
  "demo_attempts = [(''a'', 0), (''a'', 1), (''b'', 1), (''a'', 2), (''a'', 10)]"

lemma login_limiter_refines_history_witness:
  "answers (allow False 2 10) (\<lambda>_. None) demo_attempts = answers (history_allow 2 10) [] demo_attempts
    \<and> within_limit 2 10 (accepted demo_attempts (answers (allow False 2 10) (\<lambda>_. None) demo_attempts))"
  by (rule login_limiter_refines_history) (simp_all add: demo_attempts_def)

section \<open>Properties of the token bucket\<close>

lemma tokensToAdd_nonneg: "0 < interval \<Longrightarrow> 0 \<le> rate \<Longrightarrow> 0 \<le> e \<Longrightarrow> 0 \<le> tokensToAdd rate interval e"
  by (simp add: tokensToAdd_def pos_imp_zdiv_nonneg_iff)

text \<open>Requests and runs of the clean-up goroutine, each at its instant.\<close>

datatype bucket_op = Request string int | Cleanup int

fun op_time :: "bucket_op \<Rightarrow> int" where
  "op_time (Request ip t) = t"
| "op_time (Cleanup t) = t"

fun bucket_answers :: "bool \<Rightarrow> int \<Rightarrow> int \<Rightarrow> visitors \<Rightarrow> bucket_op list \<Rightarrow> bool list" where
  "bucket_answers cleaning rate interval vs [] = []"
| "bucket_answers cleaning rate interval vs (Request ip t # ops) =
     (let (ok, vs') = Allow False rate interval ip t vs
      in ok # bucket_answers cleaning rate interval vs' ops)"
| "bucket_answers cleaning rate interval vs (Cleanup t # ops) =
     bucket_answers cleaning rate interval (if cleaning then cleanup interval t vs else vs) ops"

text \<open>
  At instant \<open>t\<close> the cleaned map \<open>c\<close> differs from the full map \<open>f\<close> only in visitors whose buckets have
  filled up again.
\<close>

fun same_visitor :: "int \<Rightarrow> int \<Rightarrow> visitor option \<Rightarrow> visitor option \<Rightarrow> bool" where
  "same_visitor interval t c None = (c = None)"
| "same_visitor interval t (Some u) (Some v) = (u = v \<and> 0 \<le> vs_tokens v)"
| "same_visitor interval t None (Some v) = (0 \<le> vs_tokens v \<and> interval * 2 < t - vs_last_seen v)"

definition cleaned :: "int \<Rightarrow> int \<Rightarrow> visitors \<Rightarrow> visitors \<Rightarrow> bool" where
  "cleaned interval t c f \<longleftrightarrow> (\<forall>ip. same_visitor interval t (c ip) (f ip))"

lemma same_visitor_later: "same_visitor interval t c f \<Longrightarrow> t \<le> u \<Longrightarrow> same_visitor interval u c f"
  by (cases "(interval, t, c, f)" rule: same_visitor.cases) auto

lemma cleaned_later: "cleaned interval t c f \<Longrightarrow> t \<le> u \<Longrightarrow> cleaned interval u c f"
  by (auto simp: cleaned_def intro: same_visitor_later)

lemma same_visitor_cleanup:
  "same_visitor interval t c f \<Longrightarrow>
   same_visitor interval t (case c of None \<Rightarrow> None | Some v \<Rightarrow> if t - vs_last_seen v > interval * 2 then None else Some v) f"
  by (cases "(interval, t, c, f)" rule: same_visitor.cases) auto

lemma cleaned_cleanup: "cleaned interval t c f \<Longrightarrow> cleaned interval t (cleanup interval t c) f"
  unfolding cleaned_def cleanup_def by (blast intro: same_visitor_cleanup)

lemma full_bucket:
  assumes "0 < rate" "0 < interval" "interval * 2 < e"
  shows "rate \<le> tokensToAdd rate interval e"
proof -
  have "rate * interval \<le> e * rate" using assms by (simp add: mult.commute)
  then have "rate * interval div interval \<le> e * rate div interval" using assms(2) by (intro zdiv_mono1)
  with assms(2) show ?thesis by (simp add: tokensToAdd_def)
qed

text \<open>What one request does to the bucket of its own address.\<close>

definition visit :: "int \<Rightarrow> int \<Rightarrow> int \<Rightarrow> visitor option \<Rightarrow> bool \<times> visitor" where
  "visit rate interval t c =
     (case c of None \<Rightarrow> (True, \<lparr>vs_tokens = rate - 1, vs_last_seen = t\<rparr>)
      | Some v \<Rightarrow>
          let n = min rate (vs_tokens v + tokensToAdd rate interval (t - vs_last_seen v))
          in if n \<le> 0 then (False, \<lparr>vs_tokens = n, vs_last_seen = t\<rparr>)
             else (True, \<lparr>vs_tokens = n - 1, vs_last_seen = t\<rparr>))"

lemma Allow_visit:
  "Allow False rate interval ip t vs =
     (fst (visit rate interval t (vs ip)), vs(ip := Some (snd (visit rate interval t (vs ip)))))"
  by (simp add: Allow_def visit_def Let_def min_def split: option.splits)

lemma visit_last_seen [simp]: "vs_last_seen (snd (visit rate interval t c)) = t"
  by (simp add: visit_def Let_def split: option.splits)

lemma visit_tokens:
  assumes "0 < rate" "0 < interval" and "\<And>v. c = Some v \<Longrightarrow> 0 \<le> vs_tokens v \<and> vs_last_seen v \<le> t"
  shows "0 \<le> vs_tokens (snd (visit rate interval t c))"
proof (cases c)
  case (Some v)
  with assms have "0 \<le> tokensToAdd rate interval (t - vs_last_seen v)" by (intro tokensToAdd_nonneg) auto
  moreover from assms(3) [OF Some] have "0 \<le> vs_tokens v" by simp
  ultimately show ?thesis using assms(1) by (simp add: visit_def Let_def Some min_def)
qed (use assms(1) in \<open>simp add: visit_def\<close>)

lemma visit_evicted:
  assumes "0 < rate" "0 < interval" "0 \<le> vs_tokens v" "interval * 2 < t - vs_last_seen v"
  shows "visit rate interval t (Some v) = visit rate interval t None"
  using full_bucket [OF assms(1,2,4)] assms(1,3) by (simp add: visit_def Let_def)

definition seen_before :: "int \<Rightarrow> visitors \<Rightarrow> bool" where
  "seen_before t f \<longleftrightarrow> (\<forall>ip. case f ip of None \<Rightarrow> True | Some v \<Rightarrow> vs_last_seen v \<le> t)"

lemma cleaned_Allow:
  assumes pos: "0 < rate" "0 < interval" and sim: "cleaned interval t c f" and order: "seen_before t f"
  shows "fst (Allow False rate interval ip t c) = fst (Allow False rate interval ip t f)"
    and "cleaned interval t (snd (Allow False rate interval ip t c)) (snd (Allow False rate interval ip t f))"
    and "seen_before t (snd (Allow False rate interval ip t f))"
proof -
  from sim have at_ip: "same_visitor interval t (c ip) (f ip)" by (simp add: cleaned_def)
  have same: "visit rate interval t (c ip) = visit rate interval t (f ip)"
    by (rule same_visitor.cases [of "(interval, t, c ip, f ip)"])
       (use at_ip visit_evicted [OF pos] in auto)
  have "0 \<le> vs_tokens v \<and> vs_last_seen v \<le> t" if "f ip = Some v" for v
  proof
    show "0 \<le> vs_tokens v" using at_ip that by (cases "c ip") auto
    show "vs_last_seen v \<le> t" using order that by (auto simp: seen_before_def dest: spec [of _ ip])
  qed
  from visit_tokens [OF pos this] have "0 \<le> vs_tokens (snd (visit rate interval t (f ip)))" by blast
  with sim same show
    "fst (Allow False rate interval ip t c) = fst (Allow False rate interval ip t f)"
    "cleaned interval t (snd (Allow False rate interval ip t c)) (snd (Allow False rate interval ip t f))"
    by (simp_all add: Allow_visit cleaned_def)
  from order show "seen_before t (snd (Allow False rate interval ip t f))"
    by (simp add: Allow_visit seen_before_def)
qed

lemma cleanup_invisible:
  assumes "0 < rate" "0 < interval" "cleaned interval t c f" "seen_before t f" "sorted (t # map op_time ops)"
  shows "bucket_answers True rate interval c ops = bucket_answers False rate interval f ops"
  using assms(3-5)
proof (induction ops arbitrary: t c f)
  case (Cons op ops)
  let ?u = "op_time op"
  from Cons.prems have sim: "cleaned interval ?u c f" and sorted: "sorted (?u # map op_time ops)"
    by (auto intro: cleaned_later)
  from Cons.prems(2,3) have order: "seen_before ?u f"
    by (auto simp: seen_before_def split: option.splits intro: order_trans)
  show ?case
  proof (cases op)
    case (Request ip u)
    note step = cleaned_Allow [OF assms(1,2) sim order, of ip]
    from Cons.IH [OF step(2,3) sorted] step(1) show ?thesis by (simp add: Request split_beta)
  next
    case (Cleanup u)
    from Cons.IH [OF cleaned_cleanup [OF sim] order sorted] show ?thesis by (simp add: Cleanup)
  qed
qed simp

text \<open>C23. The clean-up goroutine of the API limiter changes no answer: whenever it runs, and however often,
  every request gets the answer it would have got from a limiter that never forgets a visitor.\<close>

theorem bucket_cleanup_invisible:
  assumes "0 < rate" "0 < interval" "sorted (map op_time ops)"
  shows "bucket_answers True rate interval (\<lambda>_. None) ops = bucket_answers False rate interval (\<lambda>_. None) ops"
proof (cases ops)
  case (Cons op ops')
  have "cleaned interval (op_time op) (\<lambda>_. None) (\<lambda>_. None)" "seen_before (op_time op) (\<lambda>_. None)"
    by (simp_all add: cleaned_def seen_before_def)
  from cleanup_invisible [OF assms(1,2) this] assms(3) show ?thesis by (simp add: Cons)
qed simp

definition demo_ops :: "bucket_op list" where
  "demo_ops = [Request ''a'' 0, Request ''a'' 1, Request ''a'' 2, Cleanup 50, Request ''a'' 51]"

lemma bucket_cleanup_invisible_witness:
  "bucket_answers True 2 10 (\<lambda>_. None) demo_ops = bucket_answers False 2 10 (\<lambda>_. None) demo_ops"
  by (rule bucket_cleanup_invisible) (simp_all add: demo_ops_def)

text \<open>One address on its own: the bucket over the instants of its requests.\<close>

fun visits :: "int \<Rightarrow> int \<Rightarrow> visitor option \<Rightarrow> int list \<Rightarrow> bool list" where
  "visits rate interval c [] = []"
| "visits rate interval c (t # ts) =
     fst (visit rate interval t c) # visits rate interval (Some (snd (visit rate interval t c))) ts"

lemma answers_visits:
  "answers (Allow False rate interval) vs (map (Pair ip) ts) = visits rate interval (vs ip) ts"
  by (induction ts arbitrary: vs) (simp_all add: Allow_visit)

lemma div_add_le:
  fixes a b k :: int
  assumes "0 < k"
  shows "a div k + b div k \<le> (a + b) div k"
proof -
  have "k * (a div k + b div k) \<le> a + b"
    using pos_mod_sign [OF assms, of a] pos_mod_sign [OF assms, of b] mult_div_mod_eq [of k a] mult_div_mod_eq [of k b]
    unfolding distrib_left by linarith
  then have "k * (a div k + b div k) div k \<le> (a + b) div k" using assms by (rule zdiv_mono1)
  then show ?thesis using assms by simp
qed

lemma refill_adds_up:
  "0 < interval \<Longrightarrow> tokensToAdd rate interval d + tokensToAdd rate interval e \<le> tokensToAdd rate interval (d + e)"
  unfolding tokensToAdd_def distrib_right by (rule div_add_le)

abbreviation passed :: "bool list \<Rightarrow> int" where
  "passed oks \<equiv> int (length (filter (\<lambda>b. b) oks))"

lemma visits_budget:
  assumes "0 < rate" "0 < interval" "0 \<le> vs_tokens v" "sorted (vs_last_seen v # ts)"
  shows "passed (visits rate interval (Some v) ts)
    \<le> vs_tokens v + tokensToAdd rate interval (last (vs_last_seen v # ts) - vs_last_seen v)"
  using assms(3,4)
proof (induction ts arbitrary: v)
  case Nil
  then show ?case by (simp add: tokensToAdd_def)
next
  case (Cons t ts)
  let ?w = "snd (visit rate interval t (Some v))"
  let ?final = "last (t # ts)"
  have "0 \<le> vs_tokens ?w" by (rule visit_tokens [OF assms(1,2)]) (use Cons.prems in auto)
  from Cons.IH [OF this] Cons.prems(2)
  have rest: "passed (visits rate interval (Some ?w) ts) \<le> vs_tokens ?w + tokensToAdd rate interval (?final - t)" by simp
  have "vs_tokens ?w + (if fst (visit rate interval t (Some v)) then 1 else 0)
      \<le> vs_tokens v + tokensToAdd rate interval (t - vs_last_seen v)"
    by (simp add: visit_def Let_def min_def)
  moreover have "tokensToAdd rate interval (t - vs_last_seen v) + tokensToAdd rate interval (?final - t)
      \<le> tokensToAdd rate interval (t - vs_last_seen v + (?final - t))"
    by (rule refill_adds_up [OF assms(2)])
  ultimately show ?case using rest by (simp split: if_splits)
qed

text \<open>Requests that come too close together to earn a token each.\<close>

fun hasty :: "int \<Rightarrow> int \<Rightarrow> int \<Rightarrow> int list \<Rightarrow> bool" where
  "hasty rate interval s [] = True"
| "hasty rate interval s (t # ts) = (s \<le> t \<and> (t - s) * rate < interval \<and> hasty rate interval t ts)"

lemma visits_starve:
  assumes "0 < rate" "0 < interval" "0 \<le> vs_tokens v" "vs_tokens v < rate" "hasty rate interval (vs_last_seen v) ts"
  shows "visits rate interval (Some v) ts
    = replicate (min (nat (vs_tokens v)) (length ts)) True @ replicate (length ts - nat (vs_tokens v)) False"
  using assms(3-5)
proof (induction ts arbitrary: v)
  case (Cons t ts)
  from Cons.prems(3) assms(1,2) have "tokensToAdd rate interval (t - vs_last_seen v) = 0"
    by (simp add: tokensToAdd_def)
  with Cons.prems have v: "visit rate interval t (Some v) =
      (if vs_tokens v = 0 then (False, \<lparr>vs_tokens = 0, vs_last_seen = t\<rparr>)
       else (True, \<lparr>vs_tokens = vs_tokens v - 1, vs_last_seen = t\<rparr>))"
    by (simp add: visit_def Let_def min_def)
  show ?case
  proof (cases "vs_tokens v = 0")
    case True
    with Cons.IH [of "\<lparr>vs_tokens = 0, vs_last_seen = t\<rparr>"] Cons.prems assms(1) show ?thesis
      by (simp add: v)
  next
    case False
    then obtain n where n: "nat (vs_tokens v) = Suc n" "nat (vs_tokens v - 1) = n"
      using Cons.prems(1) by (cases "nat (vs_tokens v)") auto
    from False Cons.IH [of "\<lparr>vs_tokens = vs_tokens v - 1, vs_last_seen = t\<rparr>"] Cons.prems show ?thesis
      by (simp add: v n)
  qed
qed simp

text \<open>C24. The token bucket keeps its budget: an address gets at most \<open>rate\<close> requests plus what the time since
  its first request has earned. But the refill is truncated at every request, so a client whose
  requests keep coming closer together than \<open>interval / rate\<close> passes \<open>rate\<close> times and is then refused for
  as long as it goes on.\<close>

theorem bucket_budget_and_starvation:
  assumes "0 < rate" "0 < interval" "sorted (t # ts)"
  shows "passed (answers (Allow False rate interval) (\<lambda>_. None) (map (Pair ip) (t # ts)))
      \<le> rate + tokensToAdd rate interval (last (t # ts) - t)
    \<and> (hasty rate interval t ts \<longrightarrow>
        answers (Allow False rate interval) (\<lambda>_. None) (map (Pair ip) (t # ts))
          = replicate (min (nat rate) (length (t # ts))) True @ replicate (length (t # ts) - nat rate) False)"
proof -
  let ?v = "\<lparr>vs_tokens = rate - 1, vs_last_seen = t\<rparr>"
  have first: "visit rate interval t None = (True, ?v)" by (simp add: visit_def)
  have run: "answers (Allow False rate interval) (\<lambda>_. None) (map (Pair ip) (t # ts)) = True # visits rate interval (Some ?v) ts"
    unfolding answers_visits by (simp add: first)
  have "passed (visits rate interval (Some ?v) ts) \<le> rate - 1 + tokensToAdd rate interval (last (t # ts) - t)"
    using visits_budget [of rate interval ?v ts] assms by simp
  moreover have "visits rate interval (Some ?v) ts
      = replicate (min (nat (rate - 1)) (length ts)) True @ replicate (length ts - nat (rate - 1)) False"
    if "hasty rate interval t ts"
    using visits_starve [of rate interval ?v ts] that assms by simp
  moreover obtain n where "nat rate = Suc n" "nat (rate - 1) = n" using assms(1) by (cases "nat rate") auto
  ultimately show ?thesis unfolding run by simp
qed

lemma bucket_budget_and_starvation_witness:
  "answers (Allow False 2 10) (\<lambda>_. None) (map (Pair ''a'') [0, 4, 8, 12, 16, 20]) = [True, True, False, False, False, False]"
  using bucket_budget_and_starvation [of 2 10 0 "[4, 8, 12, 16, 20]" "''a''"] by simp

end
