(* ===== verification/Access.thy ===== *)
theory Access
  imports Auth Features RateLimit
begin

text \<open>
  \<open>internal/apihttp/middleware.go\<close>: who a request is and what it may reach. A handler is a function of the
  echo context (the request and what the middleware has put into the context) in the state monad; a
  middleware takes a handler to a handler. An answer is an \<open>HTTPError\<close>, which the error handler of the router
  turns into a JSON body, or a JSON body with the session cookie it sets.
\<close>

section \<open>Requests and answers\<close>

datatype set_cookie = KeepCookie | SetSession string int | ClearSession

datatype reply =
    HTTPError int string
  | Reply int set_cookie json
  | SendFile string string  \<comment> \<open>a file for download: its name and content\<close>
  | Crashed  \<comment> \<open>a nil dereference: the connection is closed without an answer\<close>

abbreviation JSON :: "int \<Rightarrow> json \<Rightarrow> reply" where
  "JSON status body \<equiv> Reply status KeepCookie body"

fun status_of :: "reply \<Rightarrow> int" where
  "status_of (HTTPError status msg) = status"
| "status_of (Reply status cookie body) = status"
| "status_of (SendFile name content) = 200"
| "status_of Crashed = 0"

text \<open>
  \<open>cx_session\<close>, \<open>cx_user\<close>, \<open>cx_role\<close> and \<open>cx_scopes\<close> are the values under \<open>sessionKey\<close>, \<open>userIDKey\<close>, \<open>roleKey\<close> and
  \<open>serviceTokenScopesKey\<close>; \<open>cx_param\<close> the path parameters and \<open>cx_rid\<close> the request id.
\<close>

record http_context =
  cx_authorization :: string
  cx_cookie :: "string option"
  cx_ip :: string
  cx_remote_addr :: string
  cx_rid :: string
  cx_param :: "string \<Rightarrow> string"
  cx_session :: "Session option"
  cx_user :: int
  cx_role :: "string option"
  cx_scopes :: string

type_synonym handler = "http_context \<Rightarrow> reply io"

definition answer :: "reply \<Rightarrow> reply io" where
  "answer r = State_Monad.return r"

definition Success :: "http_context \<Rightarrow> json \<Rightarrow> json" where
  "Success c data = JObj [(''data'', data), (''request_id'', JStr (cx_rid c))]"

definition ErrorBody :: "http_context \<Rightarrow> string \<Rightarrow> string \<Rightarrow> json" where
  "ErrorBody c code message = JObj
     [(''error'', JObj [(''code'', JStr code), (''message'', JStr message)]), (''request_id'', JStr (cx_rid c))]"

text \<open>\<open>strconv.ParseInt(c.Param(name), 10, 64)\<close> with the check every handler makes of it.\<close>

definition id_param :: "http_context \<Rightarrow> string \<Rightarrow> int option" where
  "id_param c name = (let (i, ok) = atoi (cx_param c name) in if \<not> ok \<or> i \<le> 0 then None else Some i)"

section \<open>Authentication\<close>

text \<open>The token of a request: from the \<open>Authorization\<close> header or else the session cookie.\<close>

definition request_token :: "http_context \<Rightarrow> string + string" where
  "request_token c =
     (let header = cx_authorization c in
      if header \<noteq> [] then
        (case split2 CHR '' '' header of
           [scheme, token] \<Rightarrow> if equal_fold scheme ''bearer'' then Inr token else Inl ''invalid authorization header format''
         | _ \<Rightarrow> Inl ''invalid authorization header format'')
      else case cx_cookie c of Some v \<Rightarrow> Inr v | None \<Rightarrow> Inr [])"

definition service_session :: "ServiceToken \<Rightarrow> Session" where
  "service_session t = \<lparr>ses_id = stk_id t, ses_user = 0, ses_token_hash = [], ses_expires_at = 0, ses_created_at = 0,
     ses_revoked_at = None, ses_impersonated_by = None\<rparr>"

text \<open>
  \<open>RequireAuth\<close>. The update of \<open>last_used_at\<close> runs in a goroutine of its own; here it comes before the
  handler. A failing look-up of a service token counts as none.
\<close>

definition RequireAuth :: "auth_lib \<Rightarrow> handler \<Rightarrow> handler" where
  "RequireAuth al next c =
     (case request_token c of
        Inl msg \<Rightarrow> answer (HTTPError 401 msg)
      | Inr token \<Rightarrow>
          if token = [] then answer (HTTPError 401 ''missing authorization header'')
          else if length token \<noteq> 64 then answer (HTTPError 401 ''invalid token'')
          else do {
            service \<leftarrow> Tokens_GetByKeyHash (HashToken al token);
            case service of
              Inr (Some t) \<Rightarrow> do {
                expired \<leftarrow> State (\<lambda>w. (case stk_expires_at t of None \<Rightarrow> False | Some e \<Rightarrow> past e w, w));
                if expired then answer (HTTPError 401 ''service token expired'')
                else do {
                  _ \<leftarrow> Tokens_UpdateLastUsed (stk_id t);
                  next (c\<lparr>cx_scopes := stk_scopes t, cx_session := Some (service_session t), cx_user := 0\<rparr>)
                }
              }
            | _ \<Rightarrow> do {
                found \<leftarrow> Sessions_GetByTokenHash (HashToken al token);
                case found of
                  Inl _ \<Rightarrow> answer (HTTPError 500 ''internal error'')
                | Inr None \<Rightarrow> answer (HTTPError 401 ''invalid token'')
                | Inr (Some s) \<Rightarrow>
                    if ses_revoked_at s \<noteq> None then answer (HTTPError 401 ''session revoked'')
                    else do {
                      expired \<leftarrow> State (\<lambda>w. (past (ses_expires_at s) w, w));
                      if expired then answer (HTTPError 401 ''session expired'')
                      else next (c\<lparr>cx_session := Some s, cx_user := ses_user s\<rparr>)
                    }
              }
          })"

text \<open>One scope of a service token against a required role, and the whole list.\<close>

definition scope_grants :: "string \<Rightarrow> string \<Rightarrow> bool" where
  "scope_grants required s =
     (let s = trim_space s in
      if s = ''*'' then required = RoleAdmin \<or> required = RoleUser
      else if s = RoleAdmin then required = RoleAdmin \<or> required = RoleUser
      else if s = RoleUser then required = RoleUser
      else False)"

definition serviceTokenHasScope :: "string \<Rightarrow> string \<Rightarrow> bool" where
  "serviceTokenHasScope scopes required = list_ex (scope_grants required) (split_on CHR '','' scopes)"

definition RequireRole :: "string \<Rightarrow> handler \<Rightarrow> handler" where
  "RequireRole required next c =
     (case cx_session c of
        None \<Rightarrow> answer (HTTPError 401 ''not authenticated'')
      | Some sess \<Rightarrow>
          if ses_user sess = 0 then
            if cx_scopes c = [] then answer (HTTPError 403 ''service token has no scopes'')
            else if \<not> serviceTokenHasScope (cx_scopes c) required
            then answer (HTTPError 403 ''service token lacks required scope'')
            else next (c\<lparr>cx_role := Some ''service_token''\<rparr>)
          else do {
            user \<leftarrow> Users_GetByID (ses_user sess);
            case user of
              Inr (Some u) \<Rightarrow>
                if \<not> HasRole (usr_role u) required then answer (HTTPError 403 ''insufficient permissions'')
                else next (c\<lparr>cx_role := Some (usr_role u)\<rparr>)
            | _ \<Rightarrow> answer (HTTPError 401 ''user not found'')
          })"

definition RequireAdmin :: "handler \<Rightarrow> handler" where
  "RequireAdmin = RequireRole RoleAdmin"

definition RequireUserSession :: "handler \<Rightarrow> handler" where
  "RequireUserSession next c =
     (case cx_session c of
        None \<Rightarrow> answer (HTTPError 401 ''not authenticated'')
      | Some sess \<Rightarrow>
          if ses_user sess = 0 then answer (HTTPError 403 ''service token cannot access this endpoint'') else next c)"

definition RequireInternalIP :: "handler \<Rightarrow> handler" where
  "RequireInternalIP next c =
     (if \<not> has_prefix (cx_remote_addr c) ''127.0.0.1:'' \<and> \<not> has_prefix (cx_remote_addr c) ''[::1]:''
      then answer (HTTPError 403 ''internal endpoint'') else next c)"

section \<open>Feature gates\<close>

definition current_tier :: "string io" where
  "current_tier = do {
     l \<leftarrow> Licenses_GetActive;
     State_Monad.return (case l of Inr (Some license) \<Rightarrow> lic_tier license | _ \<Rightarrow> ''free'')
   }"

definition RequireFeature :: "string \<Rightarrow> handler \<Rightarrow> handler" where
  "RequireFeature feature next c = do {
     tier \<leftarrow> current_tier;
     if \<not> featureHasAccess tier feature then
       answer (JSON 403 (JObj [(''error'', JStr ''feature_not_available''), (''feature'', JStr feature),
         (''required_tier'', JStr (featureMinTier feature)), (''current_tier'', JStr tier),
         (''upgrade_url'', JStr ''/settings/billing''), (''request_id'', JStr (cx_rid c))]))
     else next c
   }"

definition RequireTier :: "string \<Rightarrow> handler \<Rightarrow> handler" where
  "RequireTier minTier next c = do {
     tier \<leftarrow> current_tier;
     if tierLevelNum tier < tierLevelNum minTier then
       answer (JSON 403 (JObj [(''error'', JStr ''tier_not_sufficient''), (''required_tier'', JStr minTier),
         (''current_tier'', JStr tier), (''upgrade_url'', JStr ''/settings/billing''), (''request_id'', JStr (cx_rid c))]))
     else next c
   }"

section \<open>Lemmas\<close>

lemma run_answer [simp]: "run_state (answer r) w = (r, w)"
  by (simp add: answer_def)

lemma never_super_admin: "\<not> serviceTokenHasScope scopes RoleSuperAdmin"
  by (simp add: serviceTokenHasScope_def list_ex_iff scope_grants_def Let_def)

end
