(* ===== verification/Login.thy ===== *)
theory Login
  imports Access
begin

text \<open>
  \<open>internal/apihttp/auth.go\<close> and \<open>impersonate.go\<close>: login with its guards and second factor, registration,
  logout, the profile and impersonation. What a handler draws at random is an argument (\<open>None\<close>: no random
  bytes), the decoded body too (\<open>None\<close>: it does not decode). \<open>ae_dev\<close> and \<open>ae_allow_registration\<close> are the
  environment. Logging is left out.
\<close>

record auth_env =
  ae_lib :: auth_lib
  ae_dev :: bool
  ae_allow_registration :: bool

section \<open>The guards of the login\<close>

definition login_allowed :: "auth_env \<Rightarrow> string \<Rightarrow> bool io" where
  "login_allowed e ip = State (\<lambda>w.
     let g = w_guard w; (ok, m) = allow (ae_dev e) 10 900 ip (w_now w) (grd_attempts g)
     in (ok, w\<lparr>w_guard := g\<lparr>grd_attempts := m\<rparr>\<rparr>))"

definition account_blocked :: "string \<Rightarrow> bool io" where
  "account_blocked key = State (\<lambda>w.
     let g = w_guard w; (b, m) = blocked 20 900 key (w_now w) (grd_fails g)
     in (b, w\<lparr>w_guard := g\<lparr>grd_fails := m\<rparr>\<rparr>))"

definition account_fail :: "string \<Rightarrow> unit io" where
  "account_fail key = State (\<lambda>w.
     let g = w_guard w in ((), w\<lparr>w_guard := g\<lparr>grd_fails := fail 900 key (w_now w) (grd_fails g)\<rparr>\<rparr>))"

definition account_reset :: "string \<Rightarrow> unit io" where
  "account_reset key = State (\<lambda>w.
     let g = w_guard w in ((), w\<lparr>w_guard := g\<lparr>grd_fails := reset key (grd_fails g)\<rparr>\<rparr>))"

definition mark_used :: "int \<Rightarrow> string \<Rightarrow> bool io" where
  "mark_used userID code = State (\<lambda>w.
     let g = w_guard w; (ok, m) = markUsed userID code (w_now w) (grd_totp g)
     in (ok, w\<lparr>w_guard := g\<lparr>grd_totp := m\<rparr>\<rparr>))"

definition normalizeRecoveryCode :: "string \<Rightarrow> string" where
  "normalizeRecoveryCode code = filter (\<lambda>c. c \<noteq> CHR ''-'' \<and> c \<noteq> CHR '' '') (to_upper (trim_space code))"

definition hashRecoveryCode :: "auth_lib \<Rightarrow> string \<Rightarrow> string" where
  "hashRecoveryCode al code = al_sha256 al (normalizeRecoveryCode code)"

section \<open>Login\<close>

definition DefaultSessionTTL :: int where "DefaultSessionTTL = 7 * 24 * 3600"
definition RememberMeSessionTTL :: int where "RememberMeSessionTTL = 90 * 24 * 3600"
definition impersonationSessionTTL :: int where "impersonationSessionTTL = 24 * 3600"

record login_body =
  lb_username :: string
  lb_password :: string
  lb_totp_code :: string
  lb_recovery_code :: string
  lb_remember_me :: bool

definition invalid_credentials :: "http_context \<Rightarrow> reply" where
  "invalid_credentials c = JSON 401 (ErrorBody c ''invalid_credentials'' ''invalid credentials'')"

text \<open>The second factor: \<open>None\<close> when the login may go on, otherwise the answer it ends with.\<close>

definition second_factor ::
  "auth_env \<Rightarrow> http_context \<Rightarrow> login_body \<Rightarrow> string \<Rightarrow> User \<Rightarrow> reply option io" where
  "second_factor e c body failKey user =
     (if \<not> usr_totp_enabled user then State_Monad.return None
      else if lb_totp_code body = [] \<and> lb_recovery_code body = [] then
        State_Monad.return (Some (JSON 401 (ErrorBody c ''2fa_required'' ''Two-factor authentication code required'')))
      else do {
        valid \<leftarrow>
          (if lb_recovery_code body \<noteq> [] then do {
             used \<leftarrow> VerifyRecoveryCode (usr_id user) (hashRecoveryCode (ae_lib e) (lb_recovery_code body));
             case used of
               Inl err \<Rightarrow> State_Monad.return (Inl err)
             | Inr used \<Rightarrow> do {
                 _ \<leftarrow> (if used then RecordAction (usr_id user) ''2fa_recovery_code_used'' ''session'' 0
                          (Some (JObj [(''ip'', JStr (cx_ip c))])) else skip);
                 State_Monad.return (Inr used)
               }
           }
           else if usr_totp_secret user \<noteq> [] then do {
             t \<leftarrow> now;
             if al_totp (ae_lib e) (lb_totp_code body) (usr_totp_secret user) t then do {
               fresh \<leftarrow> mark_used (usr_id user) (lb_totp_code body);
               State_Monad.return (Inr fresh)
             }
             else State_Monad.return (Inr False)
           }
           else State_Monad.return (Inr False));
        case valid of
          Inl _ \<Rightarrow> State_Monad.return (Some (HTTPError 500 ''internal error''))
        | Inr True \<Rightarrow> State_Monad.return None
        | Inr False \<Rightarrow> do {
            _ \<leftarrow> account_fail failKey;
            State_Monad.return (Some (JSON 401 (ErrorBody c ''invalid_2fa_code'' ''Invalid two-factor authentication code'')))
          }
      })"

definition maxSessionsPerUser :: int where "maxSessionsPerUser = 10"

definition issue_session :: "auth_env \<Rightarrow> string option \<Rightarrow> http_context \<Rightarrow> login_body \<Rightarrow> User \<Rightarrow> reply io" where
  "issue_session e rnd c body user =
     (case NewToken rnd of
        None \<Rightarrow> answer (HTTPError 500 ''internal error'')
      | Some token \<Rightarrow> do {
          t \<leftarrow> now;
          let expiresAt = t + (if lb_remember_me body then RememberMeSessionTTL else DefaultSessionTTL);
          created \<leftarrow> Sessions_Create (new_session (usr_id user) (HashToken (ae_lib e) token) expiresAt None);
          case created of
            Inl _ \<Rightarrow> answer (HTTPError 500 ''internal error'')
          | Inr i \<Rightarrow> do {
              _ \<leftarrow> Sessions_RevokeOldest (usr_id user) maxSessionsPerUser;
              _ \<leftarrow> RecordAction (usr_id user) ''login'' ''session'' i (Some (JObj [(''ip'', JStr (cx_ip c))]));
              answer (Reply 200 (SetSession token expiresAt) (Success c (JObj
                [(''token'', JStr token),
                 (''user'', JObj [(''id'', JNum (usr_id user)), (''username'', JStr (usr_username user)),
                    (''email'', JStr (usr_email user)), (''role'', JStr (usr_role user)),
                    (''password_change_required'', JBool (usr_password_changed_at user = None))])])))
            }
        })"

definition Auth_login :: "auth_env \<Rightarrow> string option \<Rightarrow> login_body option \<Rightarrow> handler" where
  "Auth_login e rnd body c = do {
     ok \<leftarrow> login_allowed e (cx_ip c);
     if \<not> ok then answer (HTTPError 429 ''too many login attempts'')
     else case body of
       None \<Rightarrow> answer (HTTPError 400 ''invalid request body'')
     | Some body \<Rightarrow> do {
         let failKey = to_lower (trim_space (lb_username body));
         b \<leftarrow> account_blocked failKey;
         if b then answer (HTTPError 429 ''too many failed attempts for this account, try again later'')
         else do {
           found \<leftarrow> Users_GetByUsername (lb_username body);
           case found of
             Inl _ \<Rightarrow> answer (HTTPError 500 ''internal error'')
           | Inr None \<Rightarrow> do { _ \<leftarrow> account_fail failKey; answer (invalid_credentials c) }
           | Inr (Some user) \<Rightarrow>
               (case VerifyPassword (ae_lib e) (usr_password_hash user) (lb_password body) of
                  None \<Rightarrow> answer (HTTPError 500 ''internal error'')
                | Some False \<Rightarrow> do { _ \<leftarrow> account_fail failKey; answer (invalid_credentials c) }
                | Some True \<Rightarrow> do {
                    stop \<leftarrow> second_factor e c body failKey user;
                    case stop of
                      Some r \<Rightarrow> answer r
                    | None \<Rightarrow> do {
                        _ \<leftarrow> account_reset failKey;
                        issue_session e rnd c body user
                      }
                  })
         }
       }
   }"

section \<open>Registration\<close>

record register_body =
  rb_name :: string
  rb_email :: string
  rb_password :: string

definition new_user :: "string \<Rightarrow> string \<Rightarrow> string \<Rightarrow> string \<Rightarrow> int option \<Rightarrow> int option \<Rightarrow> int option \<Rightarrow> User" where
  "new_user username email password role createdBy diskLimit maxSites =
     \<lparr>usr_id = 0, usr_username = username, usr_email = email, usr_password_hash = password, usr_role = role,
      usr_created_by = createdBy, usr_created_at = 0, usr_disk_limit = diskLimit, usr_max_sites = maxSites,
      usr_plan = None, usr_totp_secret = [], usr_totp_enabled = False, usr_password_changed_at = None\<rparr>"

definition Auth_register :: "auth_env \<Rightarrow> string option \<Rightarrow> register_body option \<Rightarrow> handler" where
  "Auth_register e salt body c =
     (if \<not> ae_allow_registration e then answer (HTTPError 403 ''registration is disabled on this server'')
      else case body of
        None \<Rightarrow> answer (HTTPError 400 ''invalid request body'')
      | Some body \<Rightarrow>
          if rb_name body = [] \<or> rb_email body = [] \<or> rb_password body = []
          then answer (HTTPError 400 ''name, email, and password are required'')
          else if length (rb_password body) < 8
          then answer (HTTPError 400 ''password must be at least 8 characters'')
          else do {
            existing \<leftarrow> Users_GetByEmail (rb_email body);
            case existing of
              Inr (Some _) \<Rightarrow> answer (HTTPError 409 ''email already registered'')
            | _ \<Rightarrow> do {
                created \<leftarrow> Users_Create (ae_lib e) salt
                  (new_user (rb_email body) (rb_email body) (rb_password body) RoleUser (Some 1) None None);
                case created of
                  Inl _ \<Rightarrow> answer (HTTPError 500 ''failed to create user'')
                | Inr user \<Rightarrow> answer (JSON 201 (Success c (JObj
                    [(''id'', JNum (usr_id user)), (''username'', JStr (usr_username user)),
                     (''email'', JStr (usr_email user)), (''role'', JStr (usr_role user)),
                     (''message'', JStr ''account created successfully'')])))
              }
          })"

section \<open>The session's own user\<close>

definition Auth_logout :: handler where
  "Auth_logout c =
     (case cx_session c of
        None \<Rightarrow> answer (HTTPError 401 ''not authenticated'')
      | Some sess \<Rightarrow> do {
          r \<leftarrow> Sessions_Revoke (ses_id sess);
          case r of
            Inl _ \<Rightarrow> answer (JSON 200 (Success c (JObj [(''ok'', JBool True)])))
          | Inr _ \<Rightarrow> do {
              _ \<leftarrow> RecordAction (ses_user sess) ''logout'' ''session'' (ses_id sess) None;
              answer (Reply 200 ClearSession (Success c (JObj [(''ok'', JBool True)])))
            }
        })"

definition user_fields :: "User \<Rightarrow> (string \<times> json) list" where
  "user_fields u = [(''id'', JNum (usr_id u)), (''username'', JStr (usr_username u)),
     (''email'', JStr (usr_email u)), (''role'', JStr (usr_role u))]"

definition Auth_me :: handler where
  "Auth_me c =
     (case cx_session c of
        None \<Rightarrow> answer (HTTPError 401 ''not authenticated'')
      | Some sess \<Rightarrow> do {
          user \<leftarrow> Users_GetByID (ses_user sess);
          case user of
            Inl _ \<Rightarrow> answer (HTTPError 500 ''internal error'')
          | Inr None \<Rightarrow> answer (HTTPError 401 ''user not found'')
          | Inr (Some u) \<Rightarrow>
              (case ses_impersonated_by sess of
                 None \<Rightarrow> answer (JSON 200 (Success c (JObj (user_fields u))))
               | Some i \<Rightarrow> do {
                   imp \<leftarrow> Users_GetByID i;
                   answer (JSON 200 (Success c (JObj (user_fields u @
                     (case imp of
                        Inr (Some v) \<Rightarrow> [(''impersonated_by'', JNum i), (''impersonator'', JObj (user_fields v))]
                      | _ \<Rightarrow> [])))))
                 })
        })"

text \<open>The text of an error, as \<open>err.Error()\<close> gives it for the errors shown to clients.\<close>

fun error_text :: "err \<Rightarrow> string" where
  "error_text (SqlError s) = s"
| "error_text (Fail s) = s"

record profile_body =
  pb_email :: string
  pb_old_password :: string
  pb_new_password :: string

text \<open>The password part of \<open>updateProfile\<close>: whether the password was changed, or the answer it ends with.\<close>

definition change_password ::
  "auth_env \<Rightarrow> string option \<Rightarrow> Session \<Rightarrow> User \<Rightarrow> profile_body \<Rightarrow> (reply + bool) io" where
  "change_password e salt sess user body =
     (if pb_new_password body = [] then State_Monad.return (Inr False)
      else if pb_old_password body = []
      then State_Monad.return (Inl (HTTPError 400 ''old_password is required to change password''))
      else if VerifyPassword (ae_lib e) (usr_password_hash user) (pb_old_password body) \<noteq> Some True
      then State_Monad.return (Inl (HTTPError 400 ''current password is incorrect''))
      else case HashPassword (ae_lib e) salt (pb_new_password body) of
        None \<Rightarrow> State_Monad.return (Inl (HTTPError 500 ''internal error''))
      | Some hash \<Rightarrow> do {
          r \<leftarrow> Users_UpdatePassword (ses_user sess) hash;
          State_Monad.return (case r of Inl _ \<Rightarrow> Inl (HTTPError 500 ''internal error'') | Inr _ \<Rightarrow> Inr True)
        })"

definition Auth_updateProfile :: "auth_env \<Rightarrow> string option \<Rightarrow> profile_body option \<Rightarrow> handler" where
  "Auth_updateProfile e salt body c =
     (case cx_session c of
        None \<Rightarrow> answer (HTTPError 401 ''not authenticated'')
      | Some sess \<Rightarrow>
          (case body of
             None \<Rightarrow> answer (HTTPError 400 ''invalid request body'')
           | Some body \<Rightarrow> do {
               found \<leftarrow> Users_GetByID (ses_user sess);
               case found of
                 Inr (Some user) \<Rightarrow> do {
                   let newEmail = pb_email body \<noteq> [] \<and> pb_email body \<noteq> usr_email user;
                   m \<leftarrow> (if newEmail then Users_UpdateEmail (ses_user sess) (pb_email body) else State_Monad.return (Inr ()));
                   case m of
                     Inl err \<Rightarrow> answer (HTTPError 400 (error_text err))
                   | Inr _ \<Rightarrow> do {
                       p \<leftarrow> change_password e salt sess user body;
                       case p of
                         Inl r \<Rightarrow> answer r
                       | Inr changed \<Rightarrow>
                           let details = (if newEmail then [(''email'', JStr (pb_email body))] else [])
                                 @ (if changed then [(''password_changed'', JBool True)] else [])
                           in if details = [] then answer (HTTPError 400 ''nothing to update'')
                              else do {
                                _ \<leftarrow> RecordAction (ses_user sess) ''user_update'' ''user'' (ses_user sess) (Some (JObj details));
                                answer (JSON 200 (Success c (JObj [(''updated'', JBool True)])))
                              }
                     }
                 }
               | _ \<Rightarrow> answer (HTTPError 404 ''user not found'')
             }))"

section \<open>Impersonation\<close>

text \<open>The permission checks: \<open>None\<close> when the caller may impersonate the user.\<close>

definition may_impersonate :: "string \<Rightarrow> Session \<Rightarrow> User \<Rightarrow> reply option" where
  "may_impersonate callerRole sess target =
     (if callerRole = RoleSuperAdmin then None
      else if callerRole = RoleAdmin then
        if usr_created_by target \<noteq> Some (ses_user sess)
        then Some (HTTPError 403 ''you can only impersonate users you created'')
        else if usr_role target = RoleAdmin \<or> usr_role target = RoleSuperAdmin
        then Some (HTTPError 403 ''cannot impersonate admin or super admin'')
        else None
      else Some (HTTPError 403 ''insufficient permissions''))"

definition Auth_impersonate :: "auth_env \<Rightarrow> string option \<Rightarrow> handler" where
  "Auth_impersonate e rnd c =
     (case cx_session c of
        None \<Rightarrow> answer (HTTPError 401 ''not authenticated'')
      | Some sess \<Rightarrow>
          if ses_impersonated_by sess \<noteq> None
          then answer (HTTPError 400 ''cannot impersonate while already impersonating'')
          else case id_param c ''id'' of
            None \<Rightarrow> answer (HTTPError 400 ''invalid user id'')
          | Some targetID \<Rightarrow> do {
              found \<leftarrow> Users_GetByID targetID;
              case found of
                Inl _ \<Rightarrow> answer (HTTPError 500 ''internal error'')
              | Inr None \<Rightarrow> answer (HTTPError 404 ''user not found'')
              | Inr (Some target) \<Rightarrow>
                  (case may_impersonate (the (cx_role c)) sess target of
                     Some r \<Rightarrow> answer r
                   | None \<Rightarrow>
                       (case NewToken rnd of
                          None \<Rightarrow> answer (HTTPError 500 ''internal error'')
                        | Some token \<Rightarrow> do {
                            t \<leftarrow> now;
                            created \<leftarrow> Sessions_Create (new_session (usr_id target) (HashToken (ae_lib e) token)
                              (t + impersonationSessionTTL) (Some (ses_user sess)));
                            case created of
                              Inl _ \<Rightarrow> answer (HTTPError 500 ''internal error'')
                            | Inr _ \<Rightarrow> do {
                                _ \<leftarrow> RecordAction (ses_user sess) ''impersonate'' ''user'' (usr_id target)
                                  (Some (JObj [(''impersonator'', JNum (ses_user sess)),
                                     (''target_role'', JStr (usr_role target)),
                                     (''target_username'', JStr (usr_username target))]));
                                answer (JSON 200 (Success c (JObj
                                  [(''token'', JStr token), (''user'', JObj (user_fields target)),
                                   (''impersonated_by'', JNum (ses_user sess)),
                                   (''expires_in'', JNum impersonationSessionTTL)])))
                              }
                          }))
            })"

definition Auth_stopImpersonation :: handler where
  "Auth_stopImpersonation c =
     (case cx_session c of
        None \<Rightarrow> answer (HTTPError 401 ''not authenticated'')
      | Some sess \<Rightarrow>
          (case ses_impersonated_by sess of
             None \<Rightarrow> answer (HTTPError 400 ''not currently impersonating'')
           | Some i \<Rightarrow> do {
               r \<leftarrow> Sessions_Revoke (ses_id sess);
               case r of
                 Inl _ \<Rightarrow> answer (HTTPError 500 ''internal error'')
               | Inr _ \<Rightarrow> do {
                   _ \<leftarrow> RecordAction i ''stop_impersonation'' ''user'' (ses_user sess)
                     (Some (JObj [(''target_session_id'', JNum (ses_id sess))]));
                   answer (JSON 200 (Success c (JObj [(''ok'', JBool True)])))
                 }
             }))"

end
