(* ===== verification/Regex.thy ===== *)
theory Regex
  imports Prelude
begin

text \<open>
  The part of Go's \<open>regexp\<close> (RE2) syntax that the sources use, as a datatype with its language and
  an executable matcher by derivatives. Every pattern in the sources is anchored with \<open>^\<close> and \<open>$\<close>
  and none has the multi-line flag, so \<open>MatchString\<close> is membership of the whole string in the language.
  A class is a predicate on bytes; classes that are negations (\<open>[^\\x00-\\x1f]\<close>) contain every
  byte from 0x80 on, as RE2's do for the runes those bytes encode.
\<close>

datatype regex =
    Zero                             \<comment> \<open>matches nothing\<close>
  | One                              \<comment> \<open>the empty string\<close>
  | Cls "char \<Rightarrow> bool"               \<comment> \<open>one byte of a class\<close>
  | Seq regex regex
  | Alt regex regex
  | Star regex
  | Rep regex nat nat                \<comment> \<open>\<open>r{m,n}\<close>\<close>

definition Opt :: "regex \<Rightarrow> regex" where [go_defs]: "Opt r = Alt r One"
definition Plus :: "regex \<Rightarrow> regex" where [go_defs]: "Plus r = Seq r (Star r)"
definition Chr :: "char \<Rightarrow> regex" where [go_defs]: "Chr c = Cls (\<lambda>d. d = c)"

fun Lit :: "string \<Rightarrow> regex" where
  "Lit [] = One"
| "Lit [c] = Chr c"
| "Lit (c # d # s) = Seq (Chr c) (Lit (d # s))"

fun Seqs :: "regex list \<Rightarrow> regex" where
  "Seqs [] = One"
| "Seqs [r] = r"
| "Seqs (r # q # rs) = Seq r (Seqs (q # rs))"

section \<open>The language of a pattern\<close>

primrec lang :: "regex \<Rightarrow> string set" where
  "lang Zero = {}"
| "lang One = {[]}"
| "lang (Cls P) = {[c] | c. P c}"
| "lang (Seq r q) = {s @ t | s t. s \<in> lang r \<and> t \<in> lang q}"
| "lang (Alt r q) = lang r \<union> lang q"
| "lang (Star r) = {concat ws | ws. set ws \<subseteq> lang r}"
| "lang (Rep r m n) = {concat ws | ws. set ws \<subseteq> lang r \<and> m \<le> length ws \<and> length ws \<le> n}"

section \<open>The matcher\<close>

text \<open>Smart constructors keep derivatives small.\<close>

fun seq :: "regex \<Rightarrow> regex \<Rightarrow> regex" where
  "seq Zero q = Zero"
| "seq One q = q"
| "seq r q = Seq r q"

fun alt :: "regex \<Rightarrow> regex \<Rightarrow> regex" where
  "alt Zero q = q"
| "alt r Zero = r"
| "alt r q = Alt r q"

primrec nullable :: "regex \<Rightarrow> bool" where
  "nullable Zero = False"
| "nullable One = True"
| "nullable (Cls P) = False"
| "nullable (Seq r q) = (nullable r \<and> nullable q)"
| "nullable (Alt r q) = (nullable r \<or> nullable q)"
| "nullable (Star r) = True"
| "nullable (Rep r m n) = (m \<le> n \<and> (m = 0 \<or> nullable r))"

primrec deriv :: "char \<Rightarrow> regex \<Rightarrow> regex" where
  "deriv c Zero = Zero"
| "deriv c One = Zero"
| "deriv c (Cls P) = (if P c then One else Zero)"
| "deriv c (Seq r q) = (if nullable r then alt (seq (deriv c r) q) (deriv c q) else seq (deriv c r) q)"
| "deriv c (Alt r q) = alt (deriv c r) (deriv c q)"
| "deriv c (Star r) = seq (deriv c r) (Star r)"
| "deriv c (Rep r m n) = (if n = 0 \<or> n < m then Zero else seq (deriv c r) (Rep r (m - 1) (n - 1)))"

fun matches :: "regex \<Rightarrow> string \<Rightarrow> bool" where
  "matches r [] = nullable r"
| "matches r (c # s) = matches (deriv c r) s"

section \<open>The matcher decides the language\<close>

lemma lang_seq [simp]: "lang (seq r q) = lang (Seq r q)"
  by (induction r q rule: seq.induct) auto

lemma lang_alt [simp]: "lang (alt r q) = lang (Alt r q)"
  by (induction r q rule: alt.induct) auto

lemma concat_eq_Nil_subset: "concat ws = [] \<longleftrightarrow> (\<forall>w \<in> set ws. w = [])"
  by auto

lemma nullable_lang: "nullable r \<longleftrightarrow> [] \<in> lang r"
proof (induction r)
  case (Star r)
  show ?case by (simp, rule exI [of _ "[]"], simp)
next
  case (Rep r m n)
  show ?case
  proof
    assume "nullable (Rep r m n)"
    then have "set (replicate m []) \<subseteq> lang r" and "m \<le> n"
      using Rep by auto
    then show "[] \<in> lang (Rep r m n)"
      by (auto intro!: exI [of _ "replicate m []"])
  next
    assume "[] \<in> lang (Rep r m n)"
    then show "nullable (Rep r m n)"
      using Rep by (auto simp: neq_Nil_conv Suc_le_length_iff dest: le_trans)
         (metis le_zero_eq length_0_conv list.set_intros(1) neq_Nil_conv subset_iff)
  qed
qed auto

text \<open>A non-empty concatenation starts with its first non-empty word.\<close>

lemma concat_Cons_split:
  assumes "concat ws = c # s"
  shows "\<exists>us w vs. ws = us @ (c # w) # vs \<and> concat us = [] \<and> s = w @ concat vs"
  using assms
proof (induction ws)
  case Nil
  then show ?case by simp
next
  case (Cons v ws)
  show ?case
  proof (cases v)
    case Nil
    with Cons obtain us w vs where "ws = us @ (c # w) # vs" "concat us = []" "s = w @ concat vs"
      by auto
    with Nil show ?thesis by (intro exI [of _ "v # us"] exI [of _ w] exI [of _ vs]) simp
  next
    case (Cons d w)
    with Cons.prems show ?thesis
      by (intro exI [of _ "[]"] exI [of _ w] exI [of _ ws]) simp
  qed
qed

lemma deriv_lang: "s \<in> lang (deriv c r) \<longleftrightarrow> c # s \<in> lang r"
proof (induction r arbitrary: s)
  case (Seq r q)
  have "c # s \<in> lang (Seq r q) \<longleftrightarrow>
      (\<exists>u t. s = u @ t \<and> c # u \<in> lang r \<and> t \<in> lang q) \<or> ([] \<in> lang r \<and> c # s \<in> lang q)"
    by (auto simp: Cons_eq_append_conv)
  then show ?case using Seq by (auto simp: nullable_lang)
next
  case (Star r)
  show ?case
  proof
    assume "s \<in> lang (deriv c (Star r))"
    then obtain u ws where "s = u @ concat ws" "c # u \<in> lang r" "set ws \<subseteq> lang r"
      using Star by auto
    then show "c # s \<in> lang (Star r)" by (auto intro!: exI [of _ "(c # u) # ws"])
  next
    assume "c # s \<in> lang (Star r)"
    then obtain ws where ws: "c # s = concat ws" "set ws \<subseteq> lang r" by auto
    from concat_Cons_split [OF ws(1) [symmetric]] obtain us w vs
      where "ws = us @ (c # w) # vs" "s = w @ concat vs" by blast
    with ws(2) Star show "s \<in> lang (deriv c (Star r))" by auto
  qed
next
  case (Rep r m n)
  show ?case
  proof
    assume "s \<in> lang (deriv c (Rep r m n))"
    then obtain u ws where *: "s = u @ concat ws" "c # u \<in> lang r" "set ws \<subseteq> lang r"
        "m - 1 \<le> length ws" "length ws \<le> n - 1" "n \<noteq> 0" "m \<le> n"
      using Rep by (auto split: if_splits)
    then show "c # s \<in> lang (Rep r m n)" by (auto intro!: exI [of _ "(c # u) # ws"])
  next
    assume "c # s \<in> lang (Rep r m n)"
    then obtain ws where ws: "c # s = concat ws" "set ws \<subseteq> lang r" "m \<le> length ws" "length ws \<le> n"
      by auto
    from concat_Cons_split [OF ws(1) [symmetric]] obtain us w vs
      where split: "ws = us @ (c # w) # vs" "concat us = []" "s = w @ concat vs" by blast
    have "s = w @ concat (us @ vs)" using split by simp
    moreover have "c # w \<in> lang r" "set (us @ vs) \<subseteq> lang r" using ws(2) split(1) by auto
    moreover have "m - 1 \<le> length (us @ vs)" "length (us @ vs) \<le> n - 1" "n \<noteq> 0" "m \<le> n"
      using ws(3,4) split(1) by auto
    ultimately have "\<exists>u t. s = u @ t \<and> c # u \<in> lang r \<and>
        (\<exists>ws. t = concat ws \<and> set ws \<subseteq> lang r \<and> m - 1 \<le> length ws \<and> length ws \<le> n - 1)"
      by (rule_tac x = w in exI, rule_tac x = "concat (us @ vs)" in exI) blast
    with \<open>n \<noteq> 0\<close> \<open>m \<le> n\<close> Rep show "s \<in> lang (deriv c (Rep r m n))" by simp
  qed
qed auto

theorem matches_lang: "matches r s \<longleftrightarrow> s \<in> lang r"
  by (induction s arbitrary: r) (auto simp: nullable_lang deriv_lang)

section \<open>The bytes a pattern can match\<close>

text \<open>
  \<open>has_byte r c\<close>: some class of \<open>r\<close> contains \<open>c\<close>. Every byte of a matched string satisfies it, which
  is how the validators' safety lemmas bound the bytes of an accepted value.
\<close>

primrec has_byte :: "regex \<Rightarrow> char \<Rightarrow> bool" where
  "has_byte Zero c = False"
| "has_byte One c = False"
| "has_byte (Cls P) c = P c"
| "has_byte (Seq r q) c = (has_byte r c \<or> has_byte q c)"
| "has_byte (Alt r q) c = (has_byte r c \<or> has_byte q c)"
| "has_byte (Star r) c = has_byte r c"
| "has_byte (Rep r m n) c = has_byte r c"

lemma has_byte_lang: "s \<in> lang r \<Longrightarrow> c \<in> set s \<Longrightarrow> has_byte r c"
proof (induction r arbitrary: s)
  case (Star r)
  then obtain ws w where "w \<in> set ws" "c \<in> set w" "set ws \<subseteq> lang r" by auto
  with Star.IH show ?case by auto
next
  case (Rep r m n)
  then obtain ws w where "w \<in> set ws" "c \<in> set w" "set ws \<subseteq> lang r" by auto
  with Rep.IH show ?case by auto
next
  case (Seq r q)
  from Seq.prems obtain u v where "u \<in> lang r" "v \<in> lang q" "c \<in> set u \<or> c \<in> set v" by auto
  with Seq.IH show ?case by auto
qed auto

lemma matches_bytes: "matches r s \<Longrightarrow> c \<in> set s \<Longrightarrow> has_byte r c"
  by (simp add: matches_lang has_byte_lang)

lemma matches_Seq: "matches (Seq r q) s \<longleftrightarrow> (\<exists>u v. s = u @ v \<and> matches r u \<and> matches q v)"
  by (auto simp: matches_lang)

lemma matches_Cls: "matches (Cls P) s \<longleftrightarrow> (\<exists>c. s = [c] \<and> P c)"
  by (auto simp: matches_lang)

lemma singletons: "concat (map (\<lambda>c. [c]) s) = s"
  by (induction s) auto

lemma singletons_subset: "list_all P s \<Longrightarrow> set (map (\<lambda>c. [c]) s) \<subseteq> lang (Cls P)"
  by (auto simp: list_all_iff)

lemma matches_Star_Cls: "matches (Star (Cls P)) s \<longleftrightarrow> list_all P s"
proof
  assume "matches (Star (Cls P)) s"
  then show "list_all P s"
    by (auto simp: list_all_iff dest: matches_bytes)
next
  assume "list_all P s"
  from singletons_subset [OF this] show "matches (Star (Cls P)) s"
    unfolding matches_lang lang.simps(6) by (intro CollectI exI [of _ "map (\<lambda>c. [c]) s"]) (simp add: singletons)
qed

lemma matches_Rep_Cls: "matches (Rep (Cls P) m n) s \<longleftrightarrow> list_all P s \<and> m \<le> length s \<and> length s \<le> n"
proof
  assume L: "matches (Rep (Cls P) m n) s"
  then obtain ws where ws: "s = concat ws" "set ws \<subseteq> lang (Cls P)" "m \<le> length ws" "length ws \<le> n"
    by (auto simp: matches_lang)
  from ws(2) have "length (concat ws) = length ws"
    by (induction ws) auto
  with ws L show "list_all P s \<and> m \<le> length s \<and> length s \<le> n"
    by (auto simp: list_all_iff dest!: matches_bytes)
next
  assume R: "list_all P s \<and> m \<le> length s \<and> length s \<le> n"
  with singletons_subset show "matches (Rep (Cls P) m n) s"
    unfolding matches_lang lang.simps(7)
    by (intro CollectI exI [of _ "map (\<lambda>c. [c]) s"]) (simp add: singletons)
qed

end
