(* ===== verification/Accounts.thy ===== *)
theory Accounts
  imports Login Regex Calendar
begin

text \<open>
  The handlers that manage accounts: \<open>internal/apihttp/users.go\<close>, \<open>user_sites.go\<close>, \<open>twofa.go\<close> and
  \<open>service_tokens.go\<close>. The disk usage of a directory (\<open>du\<close>), the provisioning of a TOTP key and random bytes
  are parameters. The \<open>created_at\<close> of an assignment, which only the listings show, is left out.
\<close>

section \<open>Formats\<close>

definition pad2 :: "int \<Rightarrow> string" where
  "pad2 n = (if n < 10 then ''0'' @ itoa n else itoa n)"

definition pad4 :: "int \<Rightarrow> string" where
  "pad4 n = (if n < 10 then ''000'' @ itoa n else if n < 100 then ''00'' @ itoa n
     else if n < 1000 then ''0'' @ itoa n else itoa n)"

text \<open>\<open>Format(time.RFC3339)\<close> of an instant in UTC.\<close>

definition rfc3339 :: "int \<Rightarrow> string" where
  "rfc3339 t = (let (y, m, d) = date_of_day (t div 86400); s = t mod 86400
     in pad4 y @ ''-'' @ pad2 m @ ''-'' @ pad2 d @ ''T'' @ pad2 (s div 3600) @ '':'' @ pad2 (s mod 3600 div 60)
          @ '':'' @ pad2 (s mod 60) @ ''Z'')"

text \<open>\<open>^[^@\s]+@[^@\s]+\.[^@\s]+$\<close>\<close>

definition address_char :: "char \<Rightarrow> bool" where
  "address_char c \<longleftrightarrow> c \<noteq> CHR ''@'' \<and> \<not> (is_space c \<and> c \<noteq> CHR 0x0B)"

definition emailRegex :: regex where
  "emailRegex = Seqs [Plus (Cls address_char), Chr CHR ''@'', Plus (Cls address_char), Chr CHR ''.'', Plus (Cls address_char)]"

definition json_int :: "int option \<Rightarrow> json" where
  "json_int i = (case i of None \<Rightarrow> JNull | Some n \<Rightarrow> JNum n)"

definition caller_role :: "http_context \<Rightarrow> string" where
  "caller_role c = (case cx_role c of Some r \<Rightarrow> r | None \<Rightarrow> [])"

definition caller_id :: "http_context \<Rightarrow> int" where
  "caller_id c = (case cx_session c of Some s \<Rightarrow> ses_user s | None \<Rightarrow> 0)"

definition ok_answer :: "http_context \<Rightarrow> (string \<times> json) list \<Rightarrow> reply io" where
  "ok_answer c fs = answer (JSON 200 (Success c (JObj fs)))"

definition bad_request :: "string \<Rightarrow> reply io" where
  "bad_request msg = answer (HTTPError 400 msg)"

definition internal_error :: "reply io" where
  "internal_error = answer (HTTPError 500 ''internal error'')"

section \<open>Users\<close>

text \<open>A list response is \<open>null\<close> when there is nothing in it, as an empty Go slice that was never made.\<close>

definition json_list :: "json list \<Rightarrow> json" where
  "json_list xs = (if xs = [] then JNull else JArr xs)"

definition user_list :: handler where
  "user_list c = do {
     users \<leftarrow> Users_List (if caller_role c = RoleAdmin then caller_id c else 0);
     case users of
       Inl _ \<Rightarrow> internal_error
     | Inr us \<Rightarrow> ok_answer c
         [(''users'', json_list (map (\<lambda>u. JObj (user_fields u @
             [(''created_at'', JStr (rfc3339 (usr_created_at u))), (''disk_limit'', json_int (usr_disk_limit u)),
              (''max_sites'', json_int (usr_max_sites u)), (''plan_id'', json_int (usr_plan u))])) us)),
          (''count'', JNum (int (length us)))]
   }"

record create_user_body =
  cu_username :: string
  cu_email :: string
  cu_password :: string
  cu_role :: string
  cu_disk_limit :: "int option"
  cu_max_sites :: "int option"

text \<open>The checks of \<open>create\<close> before the store is called, on the role with its default filled in.\<close>

definition may_create :: "string \<Rightarrow> string \<Rightarrow> reply option" where
  "may_create callerRole role =
     (if role = RoleSuperAdmin \<and> callerRole \<noteq> RoleSuperAdmin then Some (HTTPError 403 ''cannot create super admin'')
      else if callerRole = RoleAdmin \<and> role \<noteq> RoleUser then Some (HTTPError 403 ''admins can only create users'')
      else None)"

definition user_create :: "auth_env \<Rightarrow> string option \<Rightarrow> create_user_body option \<Rightarrow> handler" where
  "user_create e salt body c =
     (case body of
        None \<Rightarrow> bad_request ''invalid request body''
      | Some body \<Rightarrow>
          if cu_username body = [] \<or> cu_password body = [] then bad_request ''username and password required''
          else if cu_email body = [] \<or> \<not> matches emailRegex (cu_email body) then bad_request ''valid email required''
          else
            let role = (if cu_role body = [] then ''user'' else cu_role body)
            in case may_create (caller_role c) role of
              Some r \<Rightarrow> answer r
            | None \<Rightarrow> do {
                created \<leftarrow> Users_Create (ae_lib e) salt
                  (new_user (cu_username body) (cu_email body) (cu_password body) role (Some (caller_id c))
                     (cu_disk_limit body) (cu_max_sites body));
                case created of
                  Inl err \<Rightarrow> bad_request (error_text err)
                | Inr u \<Rightarrow> do {
                    _ \<leftarrow> RecordAction (caller_id c) ''user_create'' ''user'' (usr_id u)
                      (Some (JObj [(''role'', JStr role), (''username'', JStr (cu_username body))]));
                    _ \<leftarrow> NotifyAdmins ''user_created'' ''User Created'' (''User '' @ cu_username body @ '' created'')
                      ''info'' ''user'' (usr_id u);
                    answer (JSON 201 (Success c (JObj (user_fields u @
                      [(''disk_limit'', json_int (usr_disk_limit u)), (''max_sites'', json_int (usr_max_sites u)),
                       (''plan_id'', json_int (usr_plan u))]))))
                  }
              })"

text \<open>An administrator reaches only the users he created; the other roles reach every user.\<close>

definition may_manage :: "http_context \<Rightarrow> int \<Rightarrow> bool io" where
  "may_manage c i =
     (if caller_role c = RoleAdmin then do {
        found \<leftarrow> Users_GetByID i;
        State_Monad.return (case found of Inr (Some u) \<Rightarrow> usr_created_by u = Some (caller_id c) | _ \<Rightarrow> False)
      }
      else State_Monad.return True)"

definition user_delete :: handler where
  "user_delete c =
     (case id_param c ''id'' of
        None \<Rightarrow> bad_request ''invalid user id''
      | Some i \<Rightarrow>
          if caller_id c = i then bad_request ''cannot delete yourself''
          else do {
            ok \<leftarrow> may_manage c i;
            if \<not> ok then answer (HTTPError 404 ''user not found'')
            else do {
              _ \<leftarrow> RecordAction (caller_id c) ''user_delete'' ''user'' i None;
              r1 \<leftarrow> Users_NullifyCreatedBy i;
              case r1 of Inl _ \<Rightarrow> internal_error | Inr _ \<Rightarrow> do {
                r2 \<leftarrow> Sites_NullifyOwner i;
                case r2 of Inl _ \<Rightarrow> internal_error | Inr _ \<Rightarrow> do {
                  r3 \<leftarrow> AuditLogs_NullifyUser i;
                  case r3 of Inl _ \<Rightarrow> internal_error | Inr _ \<Rightarrow> do {
                    r4 \<leftarrow> Users_Delete i;
                    case r4 of Inl _ \<Rightarrow> internal_error
                    | Inr _ \<Rightarrow> ok_answer c [(''deleted'', JBool True), (''id'', JNum i)]
                  }
                }
              }
            }
          })"

record update_user_body =
  uu_role :: string
  uu_password :: string
  uu_disk_limit :: "int option"
  uu_max_sites :: "int option"

definition store_role :: "int \<Rightarrow> update_user_body \<Rightarrow> reply option io" where
  "store_role i body =
     (if uu_role body = [] then State_Monad.return None
      else do {
        r \<leftarrow> Users_UpdateRole i (uu_role body);
        State_Monad.return (case r of Inl err \<Rightarrow> Some (HTTPError 400 (error_text err)) | Inr _ \<Rightarrow> None)
      })"

definition failed :: "unit res \<Rightarrow> reply option" where
  "failed r = (case r of Inl _ \<Rightarrow> Some (HTTPError 500 ''internal error'') | Inr _ \<Rightarrow> None)"

definition store_password :: "auth_env \<Rightarrow> string option \<Rightarrow> int \<Rightarrow> update_user_body \<Rightarrow> reply option io" where
  "store_password e salt i body =
     (if uu_password body = [] then State_Monad.return None
      else case HashPassword (ae_lib e) salt (uu_password body) of
        None \<Rightarrow> State_Monad.return (Some (HTTPError 500 ''internal error''))
      | Some hash \<Rightarrow> do { r \<leftarrow> Users_UpdatePassword i hash; State_Monad.return (failed r) })"

definition store_limits :: "int \<Rightarrow> update_user_body \<Rightarrow> reply option io" where
  "store_limits i body = do {
     d \<leftarrow> (case uu_disk_limit body of None \<Rightarrow> State_Monad.return (Inr ())
          | Some n \<Rightarrow> Users_UpdateDiskLimit i (positive n));
     case d of Inl e \<Rightarrow> State_Monad.return (failed (Inl e))
     | Inr _ \<Rightarrow> do {
         m \<leftarrow> (case uu_max_sites body of None \<Rightarrow> State_Monad.return (Inr ())
              | Some n \<Rightarrow> Users_UpdateMaxSites i (positive n));
         State_Monad.return (failed m)
       }
   }"

definition user_update :: "auth_env \<Rightarrow> string option \<Rightarrow> update_user_body option \<Rightarrow> handler" where
  "user_update e salt body c =
     (case id_param c ''id'' of
        None \<Rightarrow> bad_request ''invalid user id''
      | Some i \<Rightarrow>
          (case body of
             None \<Rightarrow> bad_request ''invalid request body''
           | Some body \<Rightarrow> do {
               ok \<leftarrow> may_manage c i;
               if \<not> ok then answer (HTTPError 404 ''user not found'')
               else if caller_role c \<noteq> RoleSuperAdmin \<and> (uu_role body = RoleAdmin \<or> uu_role body = RoleSuperAdmin)
               then answer (HTTPError 403 ''only super admin can assign admin role'')
               else do {
                 r \<leftarrow> store_role i body;
                 case r of Some e \<Rightarrow> answer e | None \<Rightarrow> do {
                   p \<leftarrow> store_password e salt i body;
                   case p of Some e \<Rightarrow> answer e | None \<Rightarrow> do {
                     l \<leftarrow> store_limits i body;
                     case l of Some e \<Rightarrow> answer e
                     | None \<Rightarrow> ok_answer c [(''updated'', JBool True), (''id'', JNum i)]
                   }
                 }
               }
             }))"

text \<open>
  \<open>usage\<close>: \<open>du path\<close> is the output of \<open>du -sb\<close>, \<open>None\<close> when it fails. Sums are 64 bit.
\<close>

definition disk_bytes :: "(string \<Rightarrow> string option) \<Rightarrow> Site list \<Rightarrow> int" where
  "disk_bytes du sites = foldl (\<lambda>acc s.
     if ste_root_path s = [] then acc
     else case du (ste_root_path s) of
       None \<Rightarrow> acc
     | Some out \<Rightarrow> let (n, ok) = atoi (hd (split2 CHR 0x09 out)) in if ok then wrap64 (acc + n) else acc) 0 sites"

fun assigned_sites :: "int list \<Rightarrow> site_user list \<Rightarrow> Site list io" where
  "assigned_sites counted [] = State_Monad.return []"
| "assigned_sites counted ((r, _, _) # rs) =
     (if uss_site r \<in> set counted then assigned_sites counted rs
      else do {
        site \<leftarrow> Sites_GetByID (uss_site r);
        case site of
          Inr (Some s) \<Rightarrow> do {
            rest \<leftarrow> assigned_sites (uss_site r # counted) rs;
            State_Monad.return (s # rest)
          }
        | _ \<Rightarrow> assigned_sites counted rs
      })"

definition all_sites_filter :: "int \<Rightarrow> SiteListFilter" where
  "all_sites_filter owner = \<lparr>sfl_server = 0, sfl_owner = owner, sfl_runtime = [], sfl_status = [],
     sfl_search = [], sfl_limit = 500, sfl_offset = 0\<rparr>"

text \<open>The sites whose directories are measured, and the number of sites shown.\<close>

definition usage_sites :: "User \<Rightarrow> (Site list \<times> int) io" where
  "usage_sites user =
     (if HasRole (usr_role user) RoleAdmin then do {
        all \<leftarrow> Sites_List (all_sites_filter 0);
        State_Monad.return (case all of Inr sites \<Rightarrow> (sites, int (length sites)) | Inl _ \<Rightarrow> ([], 0))
      }
      else do {
        owned \<leftarrow> Sites_List (all_sites_filter (usr_id user));
        assigned \<leftarrow> UserSites_ListByUser (usr_id user);
        let owned = (case owned of Inr s \<Rightarrow> s | Inl _ \<Rightarrow> []);
        let assigned = (case assigned of Inr r \<Rightarrow> r | Inl _ \<Rightarrow> []);
        more \<leftarrow> assigned_sites (map ste_id owned) assigned;
        State_Monad.return (owned @ more, int (length owned) + int (length assigned))
      })"

definition user_usage :: "(string \<Rightarrow> string option) \<Rightarrow> handler" where
  "user_usage du c =
     (case id_param c ''id'' of
        None \<Rightarrow> bad_request ''invalid user id''
      | Some i \<Rightarrow> do {
          caller \<leftarrow> Users_GetByID (caller_id c);
          case caller of
            Inr (Some caller) \<Rightarrow>
              if \<not> HasRole (usr_role caller) RoleAdmin \<and> caller_id c \<noteq> i then answer (HTTPError 403 ''forbidden'')
              else do {
                found \<leftarrow> Users_GetByID i;
                case found of
                  Inr (Some user) \<Rightarrow> do {
                    measured \<leftarrow> usage_sites user;
                    let (sites, cnt) = measured;
                    let limit = (case usr_disk_limit user of Some n \<Rightarrow> n | None \<Rightarrow> 0);
                    ok_answer c
                      [(''user_id'', JNum i), (''disk_used_bytes'', JNum (disk_bytes du sites)),
                       (''disk_limit_bytes'', JNum (if limit > 0 then wrap64 (limit * 1024 * 1024 * 1024) else 0)),
                       (''disk_limit_gb'', JNum limit), (''disk_unlimited'', JBool (limit = 0)),
                       (''site_count'', JNum cnt), (''max_sites'', json_int (usr_max_sites user))]
                  }
                | _ \<Rightarrow> answer (HTTPError 404 ''user not found'')
              }
          | _ \<Rightarrow> internal_error
        })"

section \<open>Assignments of users to sites\<close>

text \<open>An entry of the merged listing: site id, name, domain, permission and whether the user owns it.\<close>

type_synonym site_entry = "int \<times> string \<times> string \<times> string \<times> bool"

definition owned_entry :: "Site \<Rightarrow> site_entry" where
  "owned_entry s = (ste_id s, ste_name s, ste_domain s, ''owner'', True)"

fun merge_assigned :: "site_entry list \<Rightarrow> site_user list \<Rightarrow> site_entry list io" where
  "merge_assigned merged [] = State_Monad.return merged"
| "merge_assigned merged ((r, _, domain) # rs) =
     (if list_ex (\<lambda>(i, _). i = uss_site r) merged then merge_assigned merged rs
      else do {
        site \<leftarrow> Sites_GetByID (uss_site r);
        let name = (case site of Inr (Some s) \<Rightarrow> ste_name s | _ \<Rightarrow> domain);
        merge_assigned (merged @ [(uss_site r, name, domain, uss_permission r, False)]) rs
      })"

definition entry_json :: "site_entry \<Rightarrow> json" where
  "entry_json e = (case e of (i, name, domain, permission, owner) \<Rightarrow>
     JObj [(''site_id'', JNum i), (''site_name'', JStr name), (''site_domain'', JStr domain),
       (''permission'', JStr permission), (''is_owner'', JBool owner)])"

definition listUserSites :: handler where
  "listUserSites c =
     (case id_param c ''id'' of
        None \<Rightarrow> bad_request ''invalid user id''
      | Some userID \<Rightarrow>
          if \<not> HasRole (caller_role c) RoleAdmin \<and> (cx_session c = None \<or> caller_id c \<noteq> userID)
          then answer (HTTPError 403 ''access denied'')
          else do {
            assigned \<leftarrow> UserSites_ListByUser userID;
            owned \<leftarrow> Sites_List (all_sites_filter userID);
            merged \<leftarrow> merge_assigned
              (map owned_entry (case owned of Inr s \<Rightarrow> s | Inl _ \<Rightarrow> [])) (case assigned of Inr r \<Rightarrow> r | Inl _ \<Rightarrow> []);
            ok_answer c [(''sites'', json_list (map entry_json merged)), (''count'', JNum (int (length merged)))]
          })"

definition site_user_json :: "site_user \<Rightarrow> json" where
  "site_user_json r = (case r of (u, username, domain) \<Rightarrow>
     JObj [(''id'', JNum (uss_id u)), (''user_id'', JNum (uss_user u)), (''site_id'', JNum (uss_site u)),
       (''permission'', JStr (uss_permission u)), (''username'', JStr username), (''domain'', JStr domain)])"

definition listSiteUsers :: handler where
  "listSiteUsers c =
     (case id_param c ''id'' of
        None \<Rightarrow> bad_request ''invalid site id''
      | Some siteID \<Rightarrow> do {
          found \<leftarrow> Sites_GetByID siteID;
          case found of
            Inr (Some site) \<Rightarrow> do {
              allowed \<leftarrow>
                (case cx_session c of
                   None \<Rightarrow> State_Monad.return True
                 | Some sess \<Rightarrow> do {
                     user \<leftarrow> Users_GetByID (ses_user sess);
                     case user of
                       Inr (Some u) \<Rightarrow>
                         if usr_role u = RoleSuperAdmin then State_Monad.return True
                         else do {
                           access \<leftarrow> UserSites_HasAccess (ses_user sess) siteID;
                           State_Monad.return (ste_owner site = Some (ses_user sess) \<or> access = Inr True)
                         }
                     | _ \<Rightarrow> State_Monad.return True
                   });
              if \<not> allowed then answer (HTTPError 404 ''site not found'')
              else do {
                users \<leftarrow> UserSites_ListBySite siteID;
                case users of
                  Inl _ \<Rightarrow> internal_error
                | Inr us \<Rightarrow> ok_answer c [(''users'', json_list (map site_user_json us)), (''count'', JNum (int (length us)))]
              }
            }
          | _ \<Rightarrow> answer (HTTPError 404 ''site not found'')
        })"

definition permissions :: "string list" where
  "permissions = [''read'', ''write'', ''admin'']"

record assign_body =
  ab_site :: int
  ab_permission :: string

definition assignUserSite :: "assign_body option \<Rightarrow> handler" where
  "assignUserSite body c =
     (case id_param c ''id'' of
        None \<Rightarrow> bad_request ''invalid user id''
      | Some userID \<Rightarrow>
          (case body of
             None \<Rightarrow> bad_request ''invalid request body''
           | Some body \<Rightarrow>
               let siteID = ab_site body;
                   permission = (if ab_permission body = [] then ''read'' else ab_permission body)
               in if siteID \<le> 0 then bad_request ''site_id required''
                  else if permission \<notin> set permissions then bad_request ''invalid permission (read|write|admin)''
                  else do {
                    r \<leftarrow> UserSites_Assign userID siteID permission;
                    case r of
                      Inl _ \<Rightarrow> internal_error
                    | Inr _ \<Rightarrow> do {
                        _ \<leftarrow> RecordAction (caller_id c) ''update'' ''user'' userID
                          (Some (JObj [(''action'', JStr ''assign_site''), (''permission'', JStr permission),
                             (''site_id'', JNum siteID)]));
                        _ \<leftarrow> notify_user userID ''site_assigned'' ''Site Assigned''
                          (''You were assigned to site '' @ itoa siteID) ''info'' ''site'' siteID;
                        _ \<leftarrow> NotifyAdmins ''user_site_assigned'' ''User Assigned''
                          (''User '' @ itoa userID @ '' assigned to site '' @ itoa siteID) ''info'' ''site'' siteID;
                        ok_answer c [(''ok'', JBool True), (''user_id'', JNum userID), (''site_id'', JNum siteID),
                          (''permission'', JStr permission)]
                      }
                  }))"

text \<open>The answer to an error of \<open>Unassign\<close> or \<open>UpdatePermission\<close>: the handlers compare its text.\<close>

definition assignment_error :: "err \<Rightarrow> reply io" where
  "assignment_error e =
     (if error_text e = ''sql: no rows in result set'' \<or> error_text e = ''no rows found''
      then answer (HTTPError 404 ''assignment not found'') else internal_error)"

definition unassignUserSite :: handler where
  "unassignUserSite c =
     (case id_param c ''id'' of
        None \<Rightarrow> bad_request ''invalid user id''
      | Some userID \<Rightarrow>
          (case id_param c ''siteId'' of
             None \<Rightarrow> bad_request ''invalid site id''
           | Some siteID \<Rightarrow> do {
               r \<leftarrow> UserSites_Unassign userID siteID;
               case r of
                 Inl e \<Rightarrow> assignment_error e
               | Inr _ \<Rightarrow> do {
                   _ \<leftarrow> RecordAction (caller_id c) ''update'' ''user'' userID
                     (Some (JObj [(''action'', JStr ''unassign_site''), (''site_id'', JNum siteID)]));
                   _ \<leftarrow> notify_user userID ''site_removed'' ''Site Removed''
                     (''You were removed from site '' @ itoa siteID) ''warning'' ''site'' siteID;
                   ok_answer c [(''ok'', JBool True), (''user_id'', JNum userID), (''site_id'', JNum siteID)]
                 }
             }))"

text \<open>\<open>body\<close> is the permission of the decoded body.\<close>

definition updateSitePermission :: "string option \<Rightarrow> handler" where
  "updateSitePermission body c =
     (case id_param c ''id'' of
        None \<Rightarrow> bad_request ''invalid user id''
      | Some userID \<Rightarrow>
          (case id_param c ''siteId'' of
             None \<Rightarrow> bad_request ''invalid site id''
           | Some siteID \<Rightarrow>
               (case body of
                  None \<Rightarrow> bad_request ''permission required (read|write|admin)''
                | Some permission \<Rightarrow>
                    if permission = [] then bad_request ''permission required (read|write|admin)''
                    else if permission \<notin> set permissions then bad_request ''invalid permission (read|write|admin)''
                    else do {
                      r \<leftarrow> UserSites_UpdatePermission userID siteID permission;
                      case r of
                        Inl e \<Rightarrow> assignment_error e
                      | Inr _ \<Rightarrow> do {
                          _ \<leftarrow> RecordAction (caller_id c) ''update'' ''user'' userID
                            (Some (JObj [(''action'', JStr ''update_site_permission''), (''permission'', JStr permission),
                               (''site_id'', JNum siteID)]));
                          ok_answer c [(''ok'', JBool True), (''user_id'', JNum userID), (''site_id'', JNum siteID),
                            (''permission'', JStr permission)]
                        }
                    })))"

end
