(* ===== verification/TwoFactor.thy ===== *)
theory TwoFactor
  imports Accounts
begin

text \<open>
  \<open>internal/apihttp/twofa.go\<close> and \<open>service_tokens.go\<close>: setting up, enabling and disabling the second
  factor, recovery codes, and the tokens of services. \<open>encoding/base32\<close> is modelled; the making of a TOTP key
  (\<open>totp.Generate\<close>) is the parameter \<open>provision account secret\<close>, its URL or \<open>None\<close> for an error. The answers of
  \<open>twofa.go\<close> are plain JSON objects.
\<close>

section \<open>Base 32\<close>

definition b32_alphabet :: string where
  "b32_alphabet = ''ABCDEFGHIJKLMNOPQRSTUVWXYZ234567''"

definition byte_bits :: "char \<Rightarrow> bool list" where
  "byte_bits c = map (\<lambda>k. byte c div 2 ^ k mod 2 = (1::nat)) [7, 6, 5, 4, 3, 2, 1, 0]"

fun five_groups :: "bool list \<Rightarrow> nat list" where
  "five_groups [] = []"
| "five_groups (b0 # b1 # b2 # b3 # b4 # bs) =
     (of_bool b0 * 16 + of_bool b1 * 8 + of_bool b2 * 4 + of_bool b3 * 2 + of_bool b4) # five_groups bs"
| "five_groups [b0] = [of_bool b0 * 16]"
| "five_groups [b0, b1] = [of_bool b0 * 16 + of_bool b1 * 8]"
| "five_groups [b0, b1, b2] = [of_bool b0 * 16 + of_bool b1 * 8 + of_bool b2 * 4]"
| "five_groups [b0, b1, b2, b3] = [of_bool b0 * 16 + of_bool b1 * 8 + of_bool b2 * 4 + of_bool b3 * 2]"

definition b32_raw :: "string \<Rightarrow> string" where
  "b32_raw bs = map ((!) b32_alphabet) (five_groups (concat (map byte_bits bs)))"

text \<open>\<open>StdEncoding\<close> fills the last group of eight characters with padding.\<close>

definition b32_encode :: "string \<Rightarrow> string" where
  "b32_encode bs = (let s = b32_raw bs in s @ replicate ((8 - length s mod 8) mod 8) CHR ''='')"

section \<open>Handlers of the second factor\<close>

definition plain_error :: "int \<Rightarrow> string \<Rightarrow> reply" where
  "plain_error status msg = JSON status (JObj [(''error'', JStr msg)])"

definition setup2FA :: "(string \<Rightarrow> string \<Rightarrow> string option) \<Rightarrow> string option \<Rightarrow> handler" where
  "setup2FA provision rnd c =
     (let userID = cx_user c; stop = (\<lambda>status msg. answer (plain_error status msg)) in
      case rnd of
        None \<Rightarrow> stop 500 ''failed to generate secret''
      | Some secret \<Rightarrow> do {
          let secretBase32 = b32_encode secret;
          found \<leftarrow> Users_GetByID userID;
          case found of
            Inl _ \<Rightarrow> stop 404 ''user not found''
          | Inr None \<Rightarrow> answer Crashed
          | Inr (Some user) \<Rightarrow>
              (case provision (usr_email user) secret of
                 None \<Rightarrow> stop 500 ''failed to generate TOTP key''
               | Some url \<Rightarrow> do {
                   r \<leftarrow> SetTOTPSecret userID secretBase32;
                   case r of
                     Inl _ \<Rightarrow> stop 500 ''failed to store secret''
                   | Inr _ \<Rightarrow> answer (JSON 200 (JObj
                       [(''secret'', JStr secretBase32), (''qr_url'', JStr url), (''issuer'', JStr ''SigardaPanel''),
                        (''account'', JStr (usr_email user)), (''period'', JNum 30), (''digits'', JNum 6),
                        (''algorithm'', JStr ''SHA1'')]))
                 })
        })"

text \<open>
  What \<open>enable2FA\<close>, \<open>disable2FA\<close> and \<open>verify2FA\<close> have in common: the body holds a code (\<open>None\<close>: it does not
  decode), a secret is stored and the code is valid for it now. \<open>unset\<close> is the message without a secret.
\<close>

definition with_code :: "auth_lib \<Rightarrow> string \<Rightarrow> string option \<Rightarrow> http_context \<Rightarrow> reply io \<Rightarrow> reply io" where
  "with_code al unset body c next =
     (case body of
        None \<Rightarrow> answer (plain_error 400 ''invalid request body'')
      | Some code \<Rightarrow>
          if code = [] then answer (plain_error 400 ''code is required'')
          else do {
            secret \<leftarrow> GetTOTPSecret (cx_user c);
            case secret of
              Inl _ \<Rightarrow> answer (plain_error 400 unset)
            | Inr secret \<Rightarrow>
                if secret = [] then answer (plain_error 400 unset)
                else do {
                  t \<leftarrow> now;
                  if \<not> al_totp al code secret t then answer (plain_error 401 ''invalid TOTP code'') else next
                }
          })"

definition enable2FA :: "auth_lib \<Rightarrow> string option \<Rightarrow> handler" where
  "enable2FA al body c = with_code al ''2FA not set up. Call /setup first.'' body c (do {
     r \<leftarrow> EnableTOTP (cx_user c);
     case r of
       Inl _ \<Rightarrow> answer (plain_error 500 ''failed to enable 2FA'')
     | Inr _ \<Rightarrow> answer (JSON 200 (JObj [(''message'', JStr ''2FA enabled successfully''), (''enabled'', JBool True)]))
   })"

definition disable2FA :: "auth_lib \<Rightarrow> string option \<Rightarrow> handler" where
  "disable2FA al body c = with_code al ''2FA not set up'' body c (do {
     r \<leftarrow> DisableTOTP (cx_user c);
     case r of
       Inl _ \<Rightarrow> answer (plain_error 500 ''failed to disable 2FA'')
     | Inr _ \<Rightarrow> answer (JSON 200 (JObj [(''message'', JStr ''2FA disabled successfully''), (''enabled'', JBool False)]))
   })"

definition verify2FA :: "auth_lib \<Rightarrow> string option \<Rightarrow> handler" where
  "verify2FA al body c =
     with_code al ''2FA not set up'' body c (answer (JSON 200 (JObj [(''verified'', JBool True)])))"

definition status2FA :: handler where
  "status2FA c = do {
     enabled \<leftarrow> IsTOTPEnabled (cx_user c);
     case enabled of
       Inl _ \<Rightarrow> answer (plain_error 500 ''failed to check 2FA status'')
     | Inr b \<Rightarrow> do {
         secret \<leftarrow> GetTOTPSecret (cx_user c);
         answer (JSON 200 (JObj [(''enabled'', JBool b),
           (''setup'', JBool (case secret of Inr s \<Rightarrow> s \<noteq> [] | Inl _ \<Rightarrow> False))]))
       }
   }"

definition recovery_code :: "string \<Rightarrow> string" where
  "recovery_code raw =
     (let enc = b32_raw raw
      in take 4 enc @ ''-'' @ take 4 (drop 4 enc) @ ''-'' @ take 4 (drop 8 enc) @ ''-'' @ take 4 (drop 12 enc))"

text \<open>The ten draws of \<open>generateRecoveryCodes\<close>; the first that fails ends the request.\<close>

definition generateRecoveryCodes :: "auth_lib \<Rightarrow> string option list \<Rightarrow> handler" where
  "generateRecoveryCodes al draws c = do {
     enabled \<leftarrow> IsTOTPEnabled (cx_user c);
     case enabled of
       Inr True \<Rightarrow>
         (case all_some draws of
            None \<Rightarrow> answer (plain_error 500 ''failed to generate recovery codes'')
          | Some raws \<Rightarrow> do {
              let codes = map recovery_code raws;
              r \<leftarrow> StoreRecoveryCodes (cx_user c) (map (hashRecoveryCode al) codes);
              case r of
                Inl _ \<Rightarrow> answer (plain_error 500 ''failed to store recovery codes'')
              | Inr _ \<Rightarrow> answer (JSON 200 (JObj [(''recovery_codes'', JArr (map JStr codes)),
                  (''message'', JStr ''Save these codes securely. Each code can only be used once.'')]))
            })
     | _ \<Rightarrow> answer (plain_error 400 ''2FA is not enabled'')
   }"

section \<open>Service tokens\<close>

definition optional_time :: "string \<Rightarrow> int option \<Rightarrow> (string \<times> json) list" where
  "optional_time name t = (case t of None \<Rightarrow> [] | Some t \<Rightarrow> [(name, JStr (rfc3339 t))])"

definition token_list :: handler where
  "token_list c = do {
     tokens \<leftarrow> Tokens_List;
     case tokens of
       Inl _ \<Rightarrow> internal_error
     | Inr ts \<Rightarrow> ok_answer c
         [(''tokens'', json_list (map (\<lambda>t. JObj ([(''id'', JNum (stk_id t)), (''name'', JStr (stk_name t)),
              (''scopes'', JStr (stk_scopes t)), (''created_at'', JStr (rfc3339 (stk_created_at t)))]
              @ optional_time ''expires_at'' (stk_expires_at t) @ optional_time ''last_used_at'' (stk_last_used_at t))) ts)),
          (''count'', JNum (int (length ts)))]
   }"

record token_body =
  tb_name :: string
  tb_scopes :: string
  tb_expires_in :: int

text \<open>\<open>time.Duration(ExpiresIn) * time.Second\<close> wraps around in 64 bit nanoseconds.\<close>

definition seconds_duration :: "int \<Rightarrow> int" where
  "seconds_duration s = wrap64 (s * 1000000000) div 1000000000"

definition token_create :: "auth_lib \<Rightarrow> string option \<Rightarrow> token_body option \<Rightarrow> handler" where
  "token_create al rnd body c =
     (case body of
        None \<Rightarrow> bad_request ''invalid request body''
      | Some body \<Rightarrow>
          if tb_name body = [] then bad_request ''name required''
          else case NewToken rnd of
            None \<Rightarrow> internal_error
          | Some rawToken \<Rightarrow> do {
              t \<leftarrow> now;
              let scopes = (if tb_scopes body = [] then ''*'' else tb_scopes body);
              created \<leftarrow> Tokens_Create \<lparr>stk_id = 0, stk_name = tb_name body,
                stk_key_hash = HashServiceToken al rawToken, stk_scopes = scopes, stk_created_at = 0,
                stk_expires_at = (if tb_expires_in body > 0 then Some (t + seconds_duration (tb_expires_in body)) else None),
                stk_last_used_at = None\<rparr>;
              case created of
                Inl err \<Rightarrow> bad_request (error_text err)
              | Inr i \<Rightarrow> answer (JSON 201 (Success c (JObj [(''id'', JNum i), (''name'', JStr (tb_name body)),
                  (''scopes'', JStr scopes), (''token'', JStr rawToken)])))
            })"

definition token_revoke :: handler where
  "token_revoke c =
     (case id_param c ''id'' of
        None \<Rightarrow> bad_request ''invalid token id''
      | Some i \<Rightarrow> do {
          r \<leftarrow> Tokens_Delete i;
          case r of Inl _ \<Rightarrow> internal_error | Inr _ \<Rightarrow> ok_answer c [(''deleted'', JBool True)]
        })"

end
