(* ===== verification/AuthFrame.thy ===== *)
theory AuthFrame
  imports TwoFactor
begin

text \<open>
  What the account handlers leave alone, under every pattern of SQL errors, as frames for invariants:
  \<open>guard_frame\<close> for everything before a session is made, \<open>session_frame\<close> for handlers that also write
  sessions. \<open>typed_accounts\<close> is the well-formedness of the account tables; every handler keeps it, which
  gives the invariant of the step relation \<open>account_step\<close>. The routes put the handlers behind their
  middleware, as \<open>internal/apihttp/router.go\<close> does.
\<close>

section \<open>Frames\<close>

locale guard_frame = store_invariant +
  assumes attempts: "I (w\<lparr>w_guard := (w_guard w)\<lparr>grd_attempts := m\<rparr>\<rparr>) = I w"
    and fails: "I (w\<lparr>w_guard := (w_guard w)\<lparr>grd_fails := m\<rparr>\<rparr>) = I w"
    and totp: "I w \<Longrightarrow> I (w\<lparr>w_guard := (w_guard w)\<lparr>grd_totp := snd (markUsed i code (w_now w) (grd_totp (w_guard w)))\<rparr>\<rparr>)"
    and audit: "I (w_audit_update a w) = I w"
    and used_code: "I w \<Longrightarrow> I (w_recovery_update (update_rows (unused_code u h) (\<lambda>r. r\<lparr>rcv_used := True\<rparr>)) w)"
begin

lemma keep_read [simp]: "preserves I (State (\<lambda>w. (f w, w)))"
  by (simp add: preserves_def)

lemma keep_answer [simp]: "preserves I (answer r)" "preserves I (bad_request msg)" "preserves I internal_error"
  "preserves I (ok_answer c fs)"
  by (simp_all add: answer_def bad_request_def internal_error_def ok_answer_def)

lemma keep_guards [simp]:
  "preserves I (login_allowed e ip)" "preserves I (account_blocked key)" "preserves I (account_fail key)"
  "preserves I (account_reset key)" "preserves I (mark_used i code)"
  by (simp_all add: preserves_def login_allowed_def account_blocked_def account_fail_def account_reset_def
      mark_used_def Let_def split_beta attempts fails totp)

lemma keep_RecordAction [simp]: "preserves I (RecordAction u act res i d)"
  unfolding RecordAction_def Record_def by (intro keep_rules keep_stmt) (simp add: audit)

lemma keep_VerifyRecoveryCode [simp]: "preserves I (VerifyRecoveryCode u h)"
  unfolding VerifyRecoveryCode_def by (intro keep_rules keep_exec_count) (simp add: used_code)

lemma keep_second_factor [simp]: "preserves I (second_factor e c body key user)"
proof -
  have last: "preserves I (case valid of Inl _ \<Rightarrow> State_Monad.return (Some (HTTPError 500 ''internal error''))
      | Inr True \<Rightarrow> State_Monad.return None
      | Inr False \<Rightarrow> do {
          _ \<leftarrow> account_fail key;
          State_Monad.return (Some (JSON 401 (ErrorBody c ''invalid_2fa_code'' ''Invalid two-factor authentication code'')))
        })" for valid :: "bool res"
    by (cases valid) (auto intro!: keep_bind split: bool.splits)
  show ?thesis unfolding second_factor_def by (intro keep_rules last) simp_all
qed

lemma keep_reads [simp]:
  "preserves I (Users_GetByID i)" "preserves I (Users_GetByUsername n)" "preserves I (Users_GetByEmail m)"
  "preserves I (Tokens_GetByKeyHash h)" "preserves I (Sessions_GetByTokenHash h)" "preserves I (GetTOTPSecret i)"
  "preserves I (IsTOTPEnabled i)" "preserves I (may_manage c i)"
  unfolding Users_GetByID_def Users_GetByUsername_def Users_GetByEmail_def Tokens_GetByKeyHash_def
    Sessions_GetByTokenHash_def GetTOTPSecret_def IsTOTPEnabled_def read_user_def may_manage_def
  by (intro keep_rules)+

end

text \<open>Notices to the users of the panel.\<close>

locale notice_frame = guard_frame +
  assumes notifications: "I (w_notifications_update n w) = I w"
begin

lemma keep_Notifications [simp]:
  "preserves I (notify_user u ty ti m sv et ei)" "preserves I (NotifyAdmins ty ti m sv et ei)"
proof -
  show user: "preserves I (notify_user u ty ti m sv et ei)" for u
    unfolding notify_user_def Notifications_Create_def
    by (intro keep_rules keep_insert_row) (simp add: notifications)
  show "preserves I (NotifyAdmins ty ti m sv et ei)"
    unfolding NotifyAdmins_def Users_List_def by (intro keep_rules) (simp_all add: user)
qed

lemma keep_NotifySiteUsers [simp]: "preserves I (NotifySiteUsers s ty ti m sv et ei)"
  unfolding NotifySiteUsers_def UserSites_ListBySite_def by (intro keep_rules) simp_all

end

text \<open>Requests that pass the middleware, and the other tables the administration writes.\<close>

locale route_frame = notice_frame +
  assumes tokens: "I (w_tokens_update k w) = I w"
    and sites: "I (w_sites_update st w) = I w"
    and user_sites: "I (w_user_sites_update us w) = I w"
    and recovery: "I (w_recovery_update r w) = I w"
begin

lemma keep_RequireAuth [intro]:
  assumes "\<And>c. preserves I (next c)"
  shows "preserves I (RequireAuth al next c)"
proof -
  have last_used: "preserves I (Tokens_UpdateLastUsed i)" for i
    unfolding Tokens_UpdateLastUsed_def by (rule keep_exec) (simp add: tokens)
  have session: "preserves I (case found of
        Inl _ \<Rightarrow> answer (HTTPError 500 ''internal error'')
      | Inr None \<Rightarrow> answer (HTTPError 401 ''invalid token'')
      | Inr (Some s) \<Rightarrow>
          if ses_revoked_at s \<noteq> None then answer (HTTPError 401 ''session revoked'')
          else do {
            expired \<leftarrow> State (\<lambda>w. (past (ses_expires_at s) w, w));
            if expired then answer (HTTPError 401 ''session expired'')
            else next (c\<lparr>cx_session := Some s, cx_user := ses_user s\<rparr>)
          })" for found :: "Session option res"
    by (intro keep_rules) (simp_all add: assms)
  show ?thesis unfolding RequireAuth_def Let_def
    by (intro keep_rules session) (simp_all add: assms last_used)
qed

lemma keep_RequireRole [intro]:
  assumes "\<And>c. preserves I (next c)"
  shows "preserves I (RequireRole r next c)" "preserves I (RequireAdmin next c)"
  unfolding RequireRole_def RequireAdmin_def by (intro keep_rules; simp add: assms)+

lemma keep_RequireUserSession [intro]: "preserves I (next c) \<Longrightarrow> preserves I (RequireUserSession next c)"
  unfolding RequireUserSession_def by (intro keep_rules) simp_all

lemma keep_assignments [simp]:
  "preserves I (Sites_NullifyOwner i)" "preserves I (AuditLogs_NullifyUser i)" "preserves I (UserSites_Assign u s p)"
  "preserves I (UserSites_Unassign u s)" "preserves I (UserSites_UpdatePermission u s p)"
  unfolding Sites_NullifyOwner_def AuditLogs_NullifyUser_def UserSites_Assign_def UserSites_Unassign_def
    UserSites_UpdatePermission_def upsert_user_site_def Let_def
  by (intro keep_rules keep_exec keep_stmt keep_exec_count; simp add: sites audit user_sites rowid)+

lemma keep_tokens [simp]: "preserves I (Tokens_Create t)" "preserves I (Tokens_Delete i)"
  unfolding Tokens_Create_def Tokens_Delete_def by (intro keep_insert_row keep_exec; simp add: tokens)+

lemma keep_lists [simp]:
  "preserves I (Users_List i)" "preserves I Tokens_List" "preserves I (Sites_List sf)" "preserves I (Sites_GetByID i)"
  "preserves I (UserSites_ListByUser i)" "preserves I (UserSites_ListBySite i)" "preserves I (UserSites_HasAccess i j)"
  unfolding Users_List_def Tokens_List_def Sites_List_def Sites_GetByID_def UserSites_ListByUser_def
    UserSites_ListBySite_def UserSites_HasAccess_def Let_def
  by (intro keep_rules; simp)+

lemma keep_recovery_codes [simp]: "preserves I (StoreRecoveryCodes u hs)"
proof -
  have insert: "preserves I (insert_codes u hs)" for hs
    by (induction hs) (simp, unfold insert_codes.simps, intro keep_rules keep_stmt, simp_all)
  show ?thesis unfolding StoreRecoveryCodes_def store_codes_def
    by (intro keep_rules keep_exec insert) (simp_all add: recovery)
qed

lemma keep_merges [simp]:
  "preserves I (assigned_sites counted rs)" "preserves I (merge_assigned merged rs)"
proof -
  show "preserves I (assigned_sites counted rs)"
    by (induction counted rs rule: assigned_sites.induct)
       (simp, unfold assigned_sites.simps, intro keep_rules, simp_all)
  show "preserves I (merge_assigned merged rs)"
    by (induction merged rs rule: merge_assigned.induct)
       (simp, unfold merge_assigned.simps Let_def, intro keep_rules, simp_all)
qed

lemma keep_listings [simp]:
  "preserves I (user_list c)" "preserves I (token_list c)" "preserves I (user_usage du c)"
  "preserves I (listUserSites c)" "preserves I (listSiteUsers c)" "preserves I (status2FA c)" "preserves I (Auth_me c)"
  unfolding user_list_def token_list_def user_usage_def usage_sites_def listUserSites_def listSiteUsers_def status2FA_def
    Auth_me_def Let_def
  by (intro keep_rules; simp)+

lemma keep_assignment_handlers [simp]:
  "preserves I (assignUserSite b c)" "preserves I (unassignUserSite c)" "preserves I (updateSitePermission p c)"
  unfolding assignUserSite_def unassignUserSite_def updateSitePermission_def assignment_error_def Let_def
  by (intro keep_rules; simp)+

lemma keep_token_handlers [simp]: "preserves I (token_create al rnd tb c)" "preserves I (token_revoke c)"
  unfolding token_create_def token_revoke_def Let_def by (intro keep_rules; simp)+

lemma keep_codes_handler [simp]: "preserves I (generateRecoveryCodes al ds c)"
proof -
  have pass: "preserves I (case x of Inl e \<Rightarrow> n | Inr b \<Rightarrow> (case b of True \<Rightarrow> m | False \<Rightarrow> n))"
    if "preserves I m" "preserves I n" for x :: "bool res" and m n :: "reply io"
    using that by (simp split: sum.splits bool.splits)
  show ?thesis unfolding generateRecoveryCodes_def Let_def by (intro keep_bind pass keep_rules) simp_all
qed

end

locale session_frame = guard_frame +
  assumes sessions: "I (w_sessions_update s w) = I w"
begin

lemma keep_Sessions [simp]:
  "preserves I (Sessions_Create s')" "preserves I (Sessions_RevokeOldest u n)" "preserves I (Sessions_Revoke i)"
  unfolding Sessions_Create_def Sessions_RevokeOldest_def Sessions_Revoke_def revoke_sessions_def
  by (intro keep_insert_row keep_exec; simp add: sessions)+

lemma keep_issue_session [simp]: "preserves I (issue_session e rnd c body user)"
  unfolding issue_session_def Let_def by (intro keep_rules) simp_all

lemma keep_Auth_login [simp]: "preserves I (Auth_login e rnd body c)"
proof -
  have verified: "preserves I (case v of None \<Rightarrow> m | Some False \<Rightarrow> n | Some True \<Rightarrow> k)"
    if "preserves I m" "preserves I n" "preserves I k" for v :: "bool option" and m n k :: "reply io"
    using that by (simp split: option.splits bool.splits)
  show ?thesis unfolding Auth_login_def Let_def by (intro keep_rules verified) simp_all
qed

end

text \<open>Frames of single tables.\<close>

definition users_are :: "User table \<Rightarrow> world \<Rightarrow> bool" where
  "users_are t w \<longleftrightarrow> w_users w = t"

interpretation users_fixed: session_frame "users_are t" for t
  by unfold_locales (simp_all add: users_are_def)

definition sessions_are :: "Session table \<Rightarrow> world \<Rightarrow> bool" where
  "sessions_are t w \<longleftrightarrow> w_sessions w = t"

interpretation sessions_fixed: guard_frame "sessions_are t" for t
  by unfold_locales (simp_all add: sessions_are_def)

definition tokens_are :: "ServiceToken table \<Rightarrow> world \<Rightarrow> bool" where
  "tokens_are t w \<longleftrightarrow> w_tokens w = t"

interpretation tokens_fixed: session_frame "tokens_are t" for t
  by unfold_locales (simp_all add: tokens_are_def)

definition time_is :: "int \<Rightarrow> world \<Rightarrow> bool" where
  "time_is t w \<longleftrightarrow> w_now w = t"

interpretation time_fixed: session_frame "time_is t" for t
  by unfold_locales (simp_all add: time_is_def)

interpretation no_faults_auth: session_frame nofault
  by unfold_locales (simp_all add: nofault_def)

end
