(* ===== verification/AccountTypes.thy ===== *)
theory AccountTypes
  imports AuthFrame
begin

text \<open>
  The account tables are well typed: every stored role is one of the three the code knows, ids, names and
  addresses of users are unique, and every session belongs to an existing user and was made by one when
  it is an impersonation. \<open>account_step\<close> is any request to the account handlers, with any context, body,
  random bytes and pattern of SQL errors, or the passing of time; \<open>typed_accounts\<close> is its invariant.
\<close>

section \<open>Well-typed accounts\<close>

definition typed_users :: "User table \<Rightarrow> bool" where
  "typed_users t \<longleftrightarrow> wf_table usr_id t \<and> (\<forall>u \<in> set (rows t). IsValidRole (usr_role u))
     \<and> distinct (map usr_username (rows t)) \<and> distinct (map usr_email (rows t))"

definition owned_session :: "User table \<Rightarrow> Session \<Rightarrow> bool" where
  "owned_session t s \<longleftrightarrow> has_row (\<lambda>u. usr_id u = ses_user s) t
     \<and> references (\<lambda>i. has_row (\<lambda>u. usr_id u = i) t) (ses_impersonated_by s)"

definition typed_accounts :: "world \<Rightarrow> bool" where
  "typed_accounts w \<longleftrightarrow> typed_users (w_users w) \<and> (\<forall>s \<in> set (rows (w_sessions w)). owned_session (w_users w) s)"

lemma has_id_update_rows [simp]:
  assumes "\<And>u. usr_id (f u) = usr_id u"
  shows "has_row (\<lambda>u. usr_id u = i) (update_rows P f t) = has_row (\<lambda>u. usr_id u = i) t"
  using assms by (auto simp: has_row_iff)

lemma owned_session_update:
  assumes "\<And>u. usr_id (f u) = usr_id u"
  shows "owned_session (update_rows P f t) s = owned_session t s"
  using assms by (simp add: owned_session_def)

lemma distinct_map_same:
  "distinct (map g xs) \<Longrightarrow> (\<And>x. x \<in> set xs \<Longrightarrow> g (h x) = g x) \<Longrightarrow> distinct (map g (map h xs))"
  by (metis (no_types, lifting) map_eq_conv map_map comp_apply)

lemma typed_users_update:
  assumes "typed_users t" and "\<And>u. usr_id (f u) = usr_id u" "\<And>u. usr_username (f u) = usr_username u"
    and "\<And>u. usr_email (f u) = usr_email u" and "\<And>u. IsValidRole (usr_role u) \<Longrightarrow> IsValidRole (usr_role (f u))"
  shows "typed_users (update_rows P f t)"
proof -
  from assms(1) have t: "wf_table usr_id t" "\<forall>u \<in> set (rows t). IsValidRole (usr_role u)"
    "distinct (map usr_username (rows t))" "distinct (map usr_email (rows t))" by (simp_all add: typed_users_def)
  have "distinct (map usr_username (map (\<lambda>u. if P u then f u else u) (rows t)))"
    "distinct (map usr_email (map (\<lambda>u. if P u then f u else u) (rows t)))"
    by (rule distinct_map_same, rule t, simp add: assms(3,4))+
  with t assms(2,5) show ?thesis
    unfolding typed_users_def rows_update_rows by (auto intro!: wf_update_rows)
qed

lemma distinct_map_change_one:
  assumes "distinct (map k xs)" "distinct (map g xs)" "\<forall>x \<in> set xs. k x \<noteq> i \<longrightarrow> g x \<noteq> v"
    and "\<And>x. k x = i \<Longrightarrow> g (h x) = v"
  shows "distinct (map g (map (\<lambda>x. if k x = i then h x else x) xs))"
  using assms(1-3)
proof (induction xs)
  case (Cons x xs)
  let ?h = "\<lambda>x. if k x = i then h x else x"
  from Cons have rest: "distinct (map g (map ?h xs))" by simp
  have "g (?h x) \<noteq> g (?h y)" if "y \<in> set xs" for y
    using that Cons.prems assms(4) by (cases "k x = i"; cases "k y = i") (auto simp: image_iff)
  then have "g (?h x) \<notin> set (map g (map ?h xs))" unfolding set_map by blast
  with rest show ?case unfolding list.map distinct.simps by blast
qed simp

lemma typed_users_email:
  assumes "typed_users t" and "\<not> (has_row (\<lambda>u. usr_id u = i) t \<and> has_row (\<lambda>u. usr_id u \<noteq> i \<and> usr_email u = email) t)"
  shows "typed_users (update_rows (\<lambda>u. usr_id u = i) (\<lambda>u. u\<lparr>usr_email := email\<rparr>) t)"
proof (cases "has_row (\<lambda>u. usr_id u = i) t")
  case False
  then have "map (\<lambda>u. if usr_id u = i then u\<lparr>usr_email := email\<rparr> else u) (rows t) = rows t"
    by (intro map_idI) (auto simp: has_row_iff)
  then have "update_rows (\<lambda>u. usr_id u = i) (\<lambda>u. u\<lparr>usr_email := email\<rparr>) t = t" by (simp add: update_rows_def)
  with assms(1) show ?thesis by simp
next
  case True
  with assms(2) have new: "\<forall>u \<in> set (rows t). usr_id u \<noteq> i \<longrightarrow> usr_email u \<noteq> email" by (auto simp: has_row_iff)
  from assms(1) have t: "wf_table usr_id t" "\<forall>u \<in> set (rows t). IsValidRole (usr_role u)"
    "distinct (map usr_username (rows t))" "distinct (map usr_email (rows t))" "distinct (map usr_id (rows t))"
    by (simp_all add: typed_users_def wf_table_def)
  let ?h = "\<lambda>u. if usr_id u = i then u\<lparr>usr_email := email\<rparr> else u"
  have "distinct (map usr_username (map ?h (rows t)))" by (rule distinct_map_same) (use t in simp_all)
  moreover have "distinct (map usr_email (map ?h (rows t)))"
    by (rule distinct_map_change_one [OF t(5,4) new]) simp
  ultimately show ?thesis using t(1,2)
    unfolding typed_users_def rows_update_rows by (auto intro!: wf_update_rows)
qed

lemma typed_users_append:
  assumes "typed_users t" "\<not> has_row (\<lambda>u. usr_username u = usr_username (mk (seqno t + 1)) \<or> usr_email u = usr_email (mk (seqno t + 1))) t"
    and "usr_id (mk (seqno t + 1)) = seqno t + 1" "IsValidRole (usr_role (mk (seqno t + 1)))"
  shows "typed_users (append_row mk t)"
  using assms wf_append_row [of usr_id t mk] by (auto simp: typed_users_def has_row_iff)

lemma typed_users_delete: "typed_users t \<Longrightarrow> typed_users (delete_rows P t)"
  by (auto simp: typed_users_def wf_delete_rows distinct_map_filter)

lemma typed_accounts_users:
  assumes "typed_accounts w" "typed_users (g (w_users w))" "\<And>s. owned_session (w_users w) s \<Longrightarrow> owned_session (g (w_users w)) s"
  shows "typed_accounts (w_users_update g w)"
  using assms by (simp add: typed_accounts_def)

lemma owned_session_append: "owned_session t s \<Longrightarrow> owned_session (append_row mk t) s"
  by (auto simp: owned_session_def has_row_iff references_def split: option.splits)

section \<open>The handlers keep it\<close>

interpretation accounts: route_frame typed_accounts
  by unfold_locales (simp_all add: typed_accounts_def)

lemma typed_accounts_sessions:
  "typed_accounts w \<Longrightarrow> (\<And>s. s \<in> set (rows (g (w_sessions w))) \<Longrightarrow> owned_session (w_users w) s) \<Longrightarrow>
   typed_accounts (w_sessions_update g w)"
  by (simp add: typed_accounts_def)

lemma typed_set_user:
  assumes "typed_accounts w" and "\<And>u. usr_id (f w u) = usr_id u" "\<And>u. usr_username (f w u) = usr_username u"
    and "\<And>u. usr_email (f w u) = usr_email u" and "\<And>u. IsValidRole (usr_role u) \<Longrightarrow> IsValidRole (usr_role (f w u))"
  shows "typed_accounts (set_user i f w)"
  unfolding set_user_def
  by (rule typed_accounts_users [OF assms(1)])
     (use assms in \<open>simp_all add: owned_session_update typed_users_update typed_accounts_def\<close>)

lemma typed_user_columns [simp]:
  "preserves typed_accounts (Users_UpdatePassword i h)" "preserves typed_accounts (Users_UpdateDiskLimit i d)"
  "preserves typed_accounts (Users_UpdateMaxSites i m)" "preserves typed_accounts (SetTOTPSecret i s)"
  "preserves typed_accounts (EnableTOTP i)" "preserves typed_accounts (DisableTOTP i)"
  unfolding Users_UpdatePassword_def Users_UpdateDiskLimit_def Users_UpdateMaxSites_def SetTOTPSecret_def
    EnableTOTP_def DisableTOTP_def
  by (intro accounts.keep_exec typed_set_user; simp)+

lemma typed_UpdatePlan [simp]: "preserves typed_accounts (Users_UpdatePlan i p)"
  unfolding Users_UpdatePlan_def by (rule accounts.keep_stmt) (auto intro!: typed_set_user)

lemma typed_UpdateRole [simp]: "preserves typed_accounts (Users_UpdateRole i role)"
  unfolding Users_UpdateRole_def check_role_def
  by (auto intro!: accounts.keep_exec typed_set_user split: sum.splits)

lemma typed_UpdateEmail [simp]: "preserves typed_accounts (Users_UpdateEmail i email)"
  unfolding Users_UpdateEmail_def
proof (rule accounts.keep_stmt)
  fix w assume w: "typed_accounts w"
  have "typed_accounts (set_user i (\<lambda>_ u. u\<lparr>usr_email := email\<rparr>) w)"
    if "\<not> (user_exists i w \<and> has_row (\<lambda>u. usr_id u \<noteq> i \<and> usr_email u = email) (w_users w))"
    unfolding set_user_def
    by (rule typed_accounts_users [OF w])
       (use w that in \<open>simp_all add: typed_users_email typed_accounts_def user_exists_def owned_session_update\<close>)
  with w show "typed_accounts (snd (if user_exists i w \<and> has_row (\<lambda>u. usr_id u \<noteq> i \<and> usr_email u = email) (w_users w)
       then (Inl (SqlError ''update email''), w) else (Inr (), set_user i (\<lambda>_ u. u\<lparr>usr_email := email\<rparr>) w)))"
    by simp
qed

lemma typed_NullifyCreatedBy [simp]: "preserves typed_accounts (Users_NullifyCreatedBy i)"
  unfolding Users_NullifyCreatedBy_def
  by (intro accounts.keep_exec typed_accounts_users)
     (simp_all add: owned_session_update typed_users_update typed_accounts_def)

lemma typed_insert_user:
  assumes "IsValidRole (usr_role v)"
  shows "preserves typed_accounts (insert_row l w_users w_users_update
      (\<lambda>w. \<not> has_row (\<lambda>u. usr_username u = usr_username v \<or> usr_email u = usr_email v) (w_users w) \<and> ok w)
      (\<lambda>w i. v\<lparr>usr_id := i, usr_created_at := w_now w, usr_totp_secret := [], usr_totp_enabled := False,
               usr_password_changed_at := None\<rparr>))"
  using assms
  by (intro accounts.keep_insert_row typed_accounts_users)
     (auto simp: typed_accounts_def intro!: typed_users_append intro: owned_session_append)

lemma typed_Create [simp]: "preserves typed_accounts (Users_Create al salt user)"
proof (cases "IsValidRole (usr_role user)")
  case True
  then have "preserves typed_accounts (insert_row ''insert user'' w_users w_users_update
      (\<lambda>w. \<not> has_row (\<lambda>u. usr_username u = usr_username user \<or> usr_email u = usr_email user) (w_users w)
          \<and> references (\<lambda>i. user_exists i w) (usr_created_by user)
          \<and> references (\<lambda>i. has_row (\<lambda>p. pln_id p = i) (w_plans w)) (usr_plan user))
      (\<lambda>w i. user\<lparr>usr_password_hash := h, usr_id := i, usr_created_at := w_now w, usr_totp_secret := [], usr_totp_enabled := False,
               usr_password_changed_at := None\<rparr>))" for h
    using typed_insert_user [of "user\<lparr>usr_password_hash := h\<rparr>"] by simp
  then show ?thesis
    unfolding Users_Create_def check_role_def Let_def
    by (intro accounts.keep_rules) simp_all
qed (simp add: Users_Create_def check_role_def)

lemma typed_Sessions_Create [simp]: "preserves typed_accounts (Sessions_Create s)"
  unfolding Sessions_Create_def
  by (intro accounts.keep_insert_row typed_accounts_sessions)
     (auto simp: typed_accounts_def owned_session_def user_exists_def references_def split: option.splits)

lemma typed_revoke: "typed_accounts w \<Longrightarrow> typed_accounts (revoke_sessions P w)"
  unfolding revoke_sessions_def
  by (rule typed_accounts_sessions) (auto simp: typed_accounts_def owned_session_def)

lemma typed_Sessions [simp]:
  "preserves typed_accounts (Sessions_Revoke i)" "preserves typed_accounts (Sessions_RevokeOldest u n)"
  unfolding Sessions_Revoke_def Sessions_RevokeOldest_def
  by (rule accounts.keep_exec, rule typed_revoke, assumption)+

lemma typed_CleanupExpired [simp]: "preserves typed_accounts Sessions_CleanupExpired"
  unfolding Sessions_CleanupExpired_def
  by (rule accounts.keep_exec, rule typed_accounts_sessions) (auto simp: typed_accounts_def)

lemma has_id_delete: "j \<noteq> i \<Longrightarrow> has_row (\<lambda>u. usr_id u = j) (delete_rows (\<lambda>u. usr_id u = i) t) = has_row (\<lambda>u. usr_id u = j) t"
  by (auto simp: has_row_iff)

lemma typed_Users_Delete [simp]: "preserves typed_accounts (Users_Delete i)"
  unfolding Users_Delete_def
proof (rule accounts.keep_stmt)
  fix w assume w: "typed_accounts w"
  let ?users = "delete_rows (\<lambda>u. usr_id u = i) (w_users w)"
  let ?w = "w_users_update (delete_rows (\<lambda>u. usr_id u = i)) (w_sessions_update (delete_rows (\<lambda>r. ses_user r = i))
      (w_user_sites_update (delete_rows (\<lambda>r. uss_user r = i)) (w_recovery_update (delete_rows (\<lambda>r. rcv_user r = i)) w)))"
  have "typed_accounts ?w" if free: "\<not> user_referenced i w"
  proof -
    have "owned_session ?users s" if s: "s \<in> set (rows (w_sessions w))" "ses_user s \<noteq> i" for s
    proof -
      from w s(1) have "owned_session (w_users w) s" by (simp add: typed_accounts_def)
      moreover have "ses_impersonated_by s \<noteq> Some i" using free s by (auto simp: user_referenced_def has_row_iff)
      ultimately show ?thesis using s(2)
        by (auto simp: owned_session_def references_def has_id_delete split: option.splits)
    qed
    moreover have "typed_users ?users" using w by (simp add: typed_accounts_def typed_users_delete)
    ultimately show ?thesis by (simp add: typed_accounts_def)
  qed
  with w show "typed_accounts (snd (if user_exists i w \<and> user_referenced i w then (Inl (SqlError ''delete user''), w)
       else if user_exists i w then (Inr (), ?w) else (Inr (), w)))" by simp
qed

lemma typed_login [simp]: "preserves typed_accounts (Auth_login e rnd body c)"
proof -
  have verified: "preserves typed_accounts (case v of None \<Rightarrow> m | Some False \<Rightarrow> n | Some True \<Rightarrow> k)"
    if "preserves typed_accounts m" "preserves typed_accounts n" "preserves typed_accounts k"
    for v :: "bool option" and m n k :: "reply io"
    using that by (simp split: option.splits bool.splits)
  have "preserves typed_accounts (issue_session e rnd c b u)" for b u
    unfolding issue_session_def Let_def by (intro accounts.keep_rules) simp_all
  then show ?thesis unfolding Auth_login_def Let_def by (intro accounts.keep_rules verified) simp_all
qed

lemma typed_auth_handlers [simp]:
  "preserves typed_accounts (Auth_register e salt rb c)" "preserves typed_accounts (Auth_logout c)"
  "preserves typed_accounts (Auth_updateProfile e salt pb c)" "preserves typed_accounts (Auth_impersonate e rnd c)"
  "preserves typed_accounts (Auth_stopImpersonation c)"
  unfolding Auth_register_def Auth_logout_def Auth_updateProfile_def change_password_def Auth_impersonate_def
    Auth_stopImpersonation_def Let_def
  by (intro accounts.keep_rules; simp)+

lemma typed_user_handlers [simp]:
  "preserves typed_accounts (user_create e salt cb c)" "preserves typed_accounts (user_delete c)"
  unfolding user_create_def user_delete_def Let_def by (intro accounts.keep_rules; simp)+

lemma typed_user_update [simp]: "preserves typed_accounts (user_update e salt ub c)"
  unfolding user_update_def store_role_def store_password_def store_limits_def Let_def
  by (intro accounts.keep_rules) simp_all

lemma typed_with_code:
  assumes "preserves typed_accounts next"
  shows "preserves typed_accounts (with_code al unset body c next)"
  unfolding with_code_def by (intro accounts.keep_rules) (simp_all add: assms)

lemma typed_second_factor [simp]:
  "preserves typed_accounts (setup2FA pv rnd c)" "preserves typed_accounts (enable2FA al body c)"
  "preserves typed_accounts (disable2FA al body c)" "preserves typed_accounts (verify2FA al body c)"
  unfolding setup2FA_def enable2FA_def disable2FA_def verify2FA_def Let_def
  by (intro typed_with_code accounts.keep_rules; simp)+

section \<open>The routes and their invariant\<close>

text \<open>What a request brings along: random bytes, decoded bodies and the answers of \<open>totp.Generate\<close> and \<open>du\<close>.\<close>

record account_input =
  ai_rnd :: "string option"
  ai_salt :: "string option"
  ai_draws :: "string option list"
  ai_login :: "login_body option"
  ai_register :: "register_body option"
  ai_profile :: "profile_body option"
  ai_create :: "create_user_body option"
  ai_update :: "update_user_body option"
  ai_assign :: "assign_body option"
  ai_permission :: "string option"
  ai_code :: "string option"
  ai_token :: "token_body option"
  ai_provision :: "string \<Rightarrow> string \<Rightarrow> string option"
  ai_du :: "string \<Rightarrow> string option"

text \<open>
  The routes of the account handlers with their middleware. The token buckets in front of all routes, of
  login and of registration only refuse requests earlier and are left out.
\<close>

definition account_routes :: "auth_env \<Rightarrow> account_input \<Rightarrow> (string \<times> handler) list" where
  "account_routes e x =
     (let auth = RequireAuth (ae_lib e); al = ae_lib e in
      [(''POST /api/v1/auth/login'', Auth_login e (ai_rnd x) (ai_login x)),
       (''POST /api/v1/auth/register'', Auth_register e (ai_salt x) (ai_register x)),
       (''POST /api/v1/auth/2fa/setup'', auth (setup2FA (ai_provision x) (ai_rnd x))),
       (''POST /api/v1/auth/2fa/enable'', auth (enable2FA al (ai_code x))),
       (''POST /api/v1/auth/2fa/disable'', auth (disable2FA al (ai_code x))),
       (''POST /api/v1/auth/2fa/verify'', auth (verify2FA al (ai_code x))),
       (''GET /api/v1/auth/2fa/status'', auth status2FA),
       (''POST /api/v1/auth/2fa/recovery-codes'', auth (generateRecoveryCodes al (ai_draws x))),
       (''GET /api/v1/auth/me'', auth Auth_me),
       (''PUT /api/v1/auth/profile'', auth (Auth_updateProfile e (ai_salt x) (ai_profile x))),
       (''POST /api/v1/auth/logout'', auth Auth_logout),
       (''POST /api/v1/auth/stop-impersonation'', auth (RequireUserSession Auth_stopImpersonation)),
       (''GET /api/v1/users'', auth (RequireAdmin user_list)),
       (''POST /api/v1/users'', auth (RequireAdmin (user_create e (ai_salt x) (ai_create x)))),
       (''DELETE /api/v1/users/:id'', auth (RequireAdmin user_delete)),
       (''PATCH /api/v1/users/:id'', auth (RequireAdmin (user_update e (ai_salt x) (ai_update x)))),
       (''GET /api/v1/users/:id/usage'', auth (user_usage (ai_du x))),
       (''GET /api/v1/users/:id/sites'', auth (RequireAdmin listUserSites)),
       (''POST /api/v1/users/:id/sites'', auth (RequireAdmin (assignUserSite (ai_assign x)))),
       (''DELETE /api/v1/users/:id/sites/:siteId'', auth (RequireAdmin unassignUserSite)),
       (''PATCH /api/v1/users/:id/sites/:siteId'', auth (RequireAdmin (updateSitePermission (ai_permission x)))),
       (''GET /api/v1/sites/:id/users'', auth (RequireAdmin listSiteUsers)),
       (''POST /api/v1/users/:id/impersonate'', auth (RequireAdmin (RequireUserSession (Auth_impersonate e (ai_rnd x)))))])"

definition token_routes :: "auth_env \<Rightarrow> account_input \<Rightarrow> (string \<times> handler) list" where
  "token_routes e x =
     (let auth = RequireAuth (ae_lib e) in
      [(''GET /api/v1/service-tokens'', auth (RequireAdmin (RequireUserSession token_list))),
       (''POST /api/v1/service-tokens'',
          auth (RequireAdmin (RequireUserSession (token_create (ae_lib e) (ai_rnd x) (ai_token x))))),
       (''DELETE /api/v1/service-tokens/:id'', auth (RequireAdmin (RequireUserSession token_revoke)))])"

text \<open>
  The first accounts are made on the command line: by \<open>sigardapanel init\<close> (\<open>commands.Init\<close>, given the flags and
  the confirmed password; the exit status) and by the installer (\<open>commands/install.go\<close>).
\<close>

definition commands_Init :: "auth_lib \<Rightarrow> string option \<Rightarrow> string \<Rightarrow> string \<Rightarrow> string \<Rightarrow> int io" where
  "commands_Init al salt username password email =
     (let username = (if username = [] then ''admin'' else username);
          email = (if email = [] then username @ ''@localhost'' else email)
      in if length password < 8 then State_Monad.return 1
         else do {
           existing \<leftarrow> Users_GetByUsername username;
           case existing of
             Inr (Some _) \<Rightarrow> State_Monad.return 1
           | _ \<Rightarrow> do {
               r \<leftarrow> Users_Create al salt (new_user username email password RoleAdmin None None None);
               State_Monad.return (case r of Inl _ \<Rightarrow> 1 | Inr _ \<Rightarrow> 0)
             }
         })"

definition install_admin :: "auth_lib \<Rightarrow> string option \<Rightarrow> string \<Rightarrow> string \<Rightarrow> string \<Rightarrow> int io" where
  "install_admin al salt username password email = do {
     r \<leftarrow> Users_Create al salt (new_user username email password RoleSuperAdmin None None None);
     State_Monad.return (case r of Inl _ \<Rightarrow> 1 | Inr _ \<Rightarrow> 0)
   }"

lemma typed_commands:
  "preserves typed_accounts (commands_Init al salt n pw m)" "preserves typed_accounts (install_admin al salt n pw m)"
  unfolding commands_Init_def install_admin_def Let_def by (intro accounts.keep_rules; simp)+

text \<open>
  One step of the panel as far as accounts go: a request to any of the routes, a command, the hourly
  clean-up of sessions, or the passing of time with whatever SQL errors lie ahead.
\<close>

inductive account_step :: "world \<Rightarrow> world \<Rightarrow> bool" where
  request: "(route, h) \<in> set (account_routes e x @ token_routes e x) \<Longrightarrow> account_step w (snd (run_state (h c) w))"
| init: "account_step w (snd (run_state (commands_Init al salt n pw m) w))"
| install: "account_step w (snd (run_state (install_admin al salt n pw m) w))"
| cleanup: "account_step w (snd (run_state Sessions_CleanupExpired w))"
| clock: "account_step w (w\<lparr>w_now := t, w_faults := fs\<rparr>)"

inductive account_reachable :: "world \<Rightarrow> bool" where
  fresh: "account_reachable (fresh_world t)"
| step: "account_reachable w \<Longrightarrow> account_step w w' \<Longrightarrow> account_reachable w'"

lemmas typed_middleware = accounts.keep_RequireAuth accounts.keep_RequireRole accounts.keep_RequireUserSession

lemma typed_routes:
  "list_all (\<lambda>(route, h). \<forall>c. preserves typed_accounts (h c)) (account_routes e x)"
  "list_all (\<lambda>(route, h). \<forall>c. preserves typed_accounts (h c)) (token_routes e x)"
  unfolding account_routes_def token_routes_def Let_def list.pred_inject prod.case
  by (intro conjI allI TrueI typed_middleware; simp)+

lemma typed_account_step: "account_step w w' \<Longrightarrow> typed_accounts w \<Longrightarrow> typed_accounts w'"
proof (induction rule: account_step.induct)
  case (request route h e x w c)
  then have "preserves typed_accounts (h c)"
    using typed_routes [of e x] by (fastforce simp: list_all_iff)
  then show ?case using request.prems by (rule preservesD)
next
  case (init w al salt n pw m)
  show ?case by (rule preservesD [OF typed_commands(1) init])
next
  case (install w al salt n pw m)
  show ?case by (rule preservesD [OF typed_commands(2) install])
next
  case (cleanup w)
  show ?case by (rule preservesD [OF typed_CleanupExpired cleanup])
next
  case (clock w t fs)
  then show ?case by (simp add: typed_accounts_def)
qed

text \<open>C21. The accounts stay well typed: in every state the panel can reach by requests to its account routes, with
  any bodies, random bytes and SQL errors, every user has exactly one of the three roles and so a place in
  the hierarchy, user ids, names and addresses are unique, and every session belongs to an existing user
  (and was opened by one, when it impersonates).\<close>

theorem reachable_accounts_typed:
  assumes "account_reachable w"
  shows "wf_table usr_id (w_users w)
    \<and> list_all (\<lambda>u. rank_of (usr_role u) \<noteq> None) (rows (w_users w))
    \<and> distinct (map usr_username (rows (w_users w))) \<and> distinct (map usr_email (rows (w_users w)))
    \<and> list_all (owned_session (w_users w)) (rows (w_sessions w))"
proof -
  from assms have "typed_accounts w"
  proof (induction rule: account_reachable.induct)
    case (fresh t)
    show ?case by (simp add: typed_accounts_def typed_users_def fresh_world_def) (simp add: empty_table_def)
  next
    case (step w w')
    then show ?case by (blast intro: typed_account_step)
  qed
  then show ?thesis by (simp add: typed_accounts_def typed_users_def list_all_iff valid_role_rank)
qed

text \<open>A panel with its installer's account and a user who has registered.\<close>

definition demo_auth_env :: auth_env where
  "demo_auth_env = \<lparr>ae_lib = demo_auth, ae_dev = False, ae_allow_registration = True\<rparr>"

definition demo_request :: http_context where
  "demo_request = \<lparr>cx_authorization = [], cx_cookie = None, cx_ip = ''10.0.0.1'', cx_remote_addr = ''10.0.0.1:4000'',
     cx_rid = ''req_1'', cx_param = (\<lambda>_. []), cx_session = None, cx_user = 0, cx_role = None, cx_scopes = []\<rparr>"

definition demo_registration :: account_input where
  "demo_registration = \<lparr>ai_rnd = None, ai_salt = Some ''s'', ai_draws = [], ai_login = None,
     ai_register = Some \<lparr>rb_name = ''B'', rb_email = ''b@x.org'', rb_password = ''password''\<rparr>, ai_profile = None,
     ai_create = None, ai_update = None, ai_assign = None, ai_permission = None, ai_code = None, ai_token = None,
     ai_provision = (\<lambda>_ _. None), ai_du = (\<lambda>_. None)\<rparr>"

definition demo_installed :: world where
  "demo_installed = snd (run_state (install_admin demo_auth (Some ''s'') ''root'' ''password'' ''root@x.org'') (fresh_world 0))"

definition demo_registered :: world where
  "demo_registered = snd (run_state
     (Auth_register demo_auth_env (ai_salt demo_registration) (ai_register demo_registration) demo_request) demo_installed)"

lemma demo_registered_reachable: "account_reachable demo_registered"
proof -
  have "account_reachable demo_installed"
    unfolding demo_installed_def by (rule account_reachable.step [OF account_reachable.fresh account_step.install])
  moreover have "(''POST /api/v1/auth/register'', Auth_register demo_auth_env (ai_salt demo_registration)
      (ai_register demo_registration)) \<in> set (account_routes demo_auth_env demo_registration @ token_routes demo_auth_env demo_registration)"
    by (simp add: account_routes_def Let_def)
  ultimately show ?thesis unfolding demo_registered_def
    by (blast intro: account_reachable.step account_step.request)
qed

lemma reachable_accounts_typed_witness:
  "wf_table usr_id (w_users demo_registered)
    \<and> list_all (\<lambda>u. rank_of (usr_role u) \<noteq> None) (rows (w_users demo_registered))
    \<and> distinct (map usr_username (rows (w_users demo_registered))) \<and> distinct (map usr_email (rows (w_users demo_registered)))
    \<and> list_all (owned_session (w_users demo_registered)) (rows (w_sessions demo_registered))"
  by (rule reachable_accounts_typed [OF demo_registered_reachable])

end
