(* ===== verification/SiteAccess.thy ===== *)
theory SiteAccess
  imports Accounts
begin

text \<open>
  Who may do what with a site: \<open>canAccess\<close> and \<open>checkSitePermission\<close> of \<open>internal/apihttp/sites.go\<close>, which the
  handlers of sites, certificates and files share, and what they promise: a user who is no super
  administrator, does not own the site and is not assigned to it is refused, whatever the database does.
\<close>

definition canAccess :: "Session option \<Rightarrow> Site \<Rightarrow> bool io" where
  "canAccess sess site =
     (case sess of
        None \<Rightarrow> State_Monad.return False
      | Some sess \<Rightarrow> do {
          user \<leftarrow> Users_GetByID (ses_user sess);
          case user of
            Inr (Some user) \<Rightarrow>
              if usr_role user = RoleSuperAdmin then State_Monad.return True
              else if ste_owner site = Some (ses_user sess) then State_Monad.return True
              else do {
                hasAccess \<leftarrow> UserSites_HasAccess (ses_user sess) (ste_id site);
                State_Monad.return (hasAccess = Inr True)
              }
          | _ \<Rightarrow> State_Monad.return False
        })"

definition permission_covers :: "string \<Rightarrow> string \<Rightarrow> bool" where
  "permission_covers required perm =
     (if required = ''admin'' then perm = ''admin''
      else if required = ''write'' then perm = ''admin'' \<or> perm = ''write''
      else if required = ''read'' then perm = ''admin'' \<or> perm = ''write'' \<or> perm = ''read''
      else False)"

definition checkSitePermission :: "Session option \<Rightarrow> Site \<Rightarrow> string \<Rightarrow> bool io" where
  "checkSitePermission sess site required =
     (case sess of
        None \<Rightarrow> State_Monad.return False
      | Some sess \<Rightarrow> do {
          user \<leftarrow> Users_GetByID (ses_user sess);
          case user of
            Inr (Some user) \<Rightarrow>
              if usr_role user = RoleSuperAdmin then State_Monad.return True
              else if ste_owner site = Some (ses_user sess) then State_Monad.return True
              else do {
                perm \<leftarrow> UserSites_GetPermission (ses_user sess) (ste_id site);
                State_Monad.return (case perm of Inl _ \<Rightarrow> False | Inr p \<Rightarrow> permission_covers required p)
              }
          | _ \<Rightarrow> State_Monad.return False
        })"

definition isSuperAdmin :: "http_context \<Rightarrow> bool io" where
  "isSuperAdmin c =
     (case cx_session c of
        None \<Rightarrow> State_Monad.return False
      | Some sess \<Rightarrow> do {
          user \<leftarrow> Users_GetByID (ses_user sess);
          State_Monad.return (case user of Inr (Some u) \<Rightarrow> usr_role u = RoleSuperAdmin | _ \<Rightarrow> False)
        })"

end
