(* ===== verification/FileManager.thy ===== *)
theory FileManager
  imports SiteAccess
begin

text \<open>
  The file manager of a site, \<open>internal/apihttp/filemanager.go\<close>: every handler with the access check before it and
  \<open>safePath\<close>, which has to keep each path inside the root directory of the site. Query parameters, form fields
  and decoded bodies are arguments (\<open>None\<close>: the body does not decode). Sizes of directories, modes and times
  of files are the parameter \<open>file_info\<close>, and so are the encoding of a zip archive and what reading the archive
  gives while it is being written.
\<close>

record file_info =
  fi_dir_size :: "place \<Rightarrow> int"
  fi_mode :: "place \<Rightarrow> string"
  fi_mod_time :: "place \<Rightarrow> string"
  fi_zip :: "(string \<times> string) list \<Rightarrow> string"
  fi_growing :: string

section \<open>Paths\<close>

text \<open>\<open>resolveSite\<close> and \<open>resolveSiteWrite\<close>. A parameter that is no number gives id 0 or a bound of \<open>int64\<close>.\<close>

definition site_not_found :: reply where
  "site_not_found = HTTPError 404 ''site not found''"

definition resolve_with :: "(Session option \<Rightarrow> Site \<Rightarrow> bool io) \<Rightarrow> http_context \<Rightarrow> (reply + Site) io" where
  "resolve_with allowed c = do {
     found \<leftarrow> Sites_GetByID (fst (atoi (cx_param c ''id'')));
     case found of
       Inr (Some site) \<Rightarrow> do {
         ok \<leftarrow> allowed (cx_session c) site;
         State_Monad.return (if ok then Inr site else Inl site_not_found)
       }
     | _ \<Rightarrow> State_Monad.return (Inl site_not_found)
   }"

definition resolveSite :: "http_context \<Rightarrow> (reply + Site) io" where
  "resolveSite = resolve_with canAccess"

definition resolveSiteWrite :: "http_context \<Rightarrow> (reply + Site) io" where
  "resolveSiteWrite = resolve_with (\<lambda>sess site. checkSitePermission sess site ''write'')"

text \<open>The loop of \<open>ensureNoSymlinkEscape\<close>: up to the deepest ancestor that exists.\<close>

function probe_links :: "filesys \<Rightarrow> string \<Rightarrow> string \<Rightarrow> reply option" where
  "probe_links fs realRoot probe =
     (case EvalSymlinks fs probe of
        Inr resolved \<Rightarrow>
          if resolved \<noteq> realRoot \<and> \<not> has_prefix resolved (realRoot @ ''/'')
          then Some (HTTPError 400 ''path traversal not allowed'') else None
      | Inl notExist \<Rightarrow>
          if \<not> notExist then Some (HTTPError 400 ''invalid path'')
          else let parent = path_dir probe
               in if parent = probe then Some (HTTPError 400 ''invalid path'') else probe_links fs realRoot parent)"
  by pat_completeness auto

termination
  by (relation "measure (\<lambda>(fs, root, probe). dir_measure probe)") (simp_all add: path_dir_decreases)

declare probe_links.simps [simp del]

definition ensureNoSymlinkEscape :: "filesys \<Rightarrow> string \<Rightarrow> string \<Rightarrow> reply option" where
  "ensureNoSymlinkEscape fs root full =
     (case EvalSymlinks fs root of
        Inl _ \<Rightarrow> Some (HTTPError 400 ''site root not accessible'')
      | Inr realRoot \<Rightarrow> probe_links fs realRoot full)"

definition safePath :: "filesys \<Rightarrow> string \<Rightarrow> string \<Rightarrow> reply + string" where
  "safePath fs root rel =
     (if root = [] then Inl (HTTPError 400 ''site root path not configured'')
      else
        let rel = trim_space rel;
            rel = path_clean (if rel = [] then ''.'' else rel)
        in if has_prefix rel ''..'' \<or> has_prefix rel ''/'' then Inl (HTTPError 400 ''invalid path'')
           else
             let full = path_join root rel; cleanRoot = path_clean root
             in if full \<noteq> cleanRoot \<and> \<not> has_prefix full (cleanRoot @ ''/'')
                then Inl (HTTPError 400 ''path traversal not allowed'')
                else case ensureNoSymlinkEscape fs cleanRoot full of
                  Some e \<Rightarrow> Inl e
                | None \<Rightarrow> Inr full)"

text \<open>Every handler resolves its site and then a path of it.\<close>

definition with_site :: "(http_context \<Rightarrow> (reply + Site) io) \<Rightarrow> (Site \<Rightarrow> handler) \<Rightarrow> handler" where
  "with_site resolve body c = do {
     r \<leftarrow> resolve c;
     case r of Inl e \<Rightarrow> answer e | Inr site \<Rightarrow> body site c
   }"

definition with_path :: "Site \<Rightarrow> string \<Rightarrow> (string \<Rightarrow> reply io) \<Rightarrow> reply io" where
  "with_path site rel body = do {
     r \<leftarrow> fs_look (\<lambda>fs. safePath fs (ste_root_path site) rel);
     case r of Inl e \<Rightarrow> answer e | Inr full \<Rightarrow> body full
   }"

section \<open>Reading\<close>

definition node_size :: "file_info \<Rightarrow> place \<Rightarrow> fnode \<Rightarrow> int" where
  "node_size fi p node = (case node of
     DirNode \<Rightarrow> fi_dir_size fi p | FileNode content \<Rightarrow> int (length content) | LinkNode target \<Rightarrow> int (length target))"

definition place_of :: "filesys \<Rightarrow> string \<Rightarrow> place" where
  "place_of fs path = (case kernel_walk fs path of Found p \<Rightarrow> p | _ \<Rightarrow> [])"

definition file_json :: "file_info \<Rightarrow> place \<Rightarrow> string \<Rightarrow> string \<times> fnode \<Rightarrow> json" where
  "file_json fi d relPath e = (case e of (name, node) \<Rightarrow>
     JObj [(''name'', JStr name), (''path'', JStr (path_join relPath name)), (''size'', JNum (node_size fi (d @ [name]) node)),
       (''is_dir'', JBool (node = DirNode)), (''mode'', JStr (fi_mode fi (d @ [name]))),
       (''mod_time'', JStr (fi_mod_time fi (d @ [name])))])"

definition listFiles :: "file_info \<Rightarrow> string \<Rightarrow> handler" where
  "listFiles fi path = with_site resolveSite (\<lambda>site c.
     let relPath = (if path = [] then ''.'' else path) in
     with_path site relPath (\<lambda>full. do {
       info \<leftarrow> fs_look (\<lambda>fs. os_Stat fs full);
       if info \<noteq> Some DirNode then answer (HTTPError 404 ''directory not found'')
       else do {
         entries \<leftarrow> fs_query (\<lambda>fs. map_option (Pair (place_of fs full)) (os_ReadDir fs full));
         case entries of
           Inr (Some (d, es)) \<Rightarrow> ok_answer c
             [(''site_id'', JNum (ste_id site)), (''domain'', JStr (ste_domain site)), (''root_path'', JStr (ste_root_path site)),
              (''current'', JStr relPath), (''entries'', JArr (map (file_json fi d relPath) es)),
              (''total'', JNum (int (length es)))]
         | _ \<Rightarrow> answer (HTTPError 500 ''failed to read directory'')
       }
     }))"

definition readFile :: "file_info \<Rightarrow> string \<Rightarrow> handler" where
  "readFile fi relPath = with_site resolveSite (\<lambda>site c.
     if relPath = [] then bad_request ''path required''
     else with_path site relPath (\<lambda>full. do {
       info \<leftarrow> fs_look (\<lambda>fs. map_option (Pair (place_of fs full)) (os_Stat fs full));
       case info of
         None \<Rightarrow> answer (HTTPError 404 ''file not found'')
       | Some (p, node) \<Rightarrow>
           if node_size fi p node > 1024 * 1024 then bad_request ''file too large (>1MB)''
           else if node = DirNode then bad_request ''is a directory''
           else do {
             data \<leftarrow> fs_query (\<lambda>fs. os_ReadFile fs full);
             case data of
               Inr (Some content) \<Rightarrow> ok_answer c
                 [(''path'', JStr relPath), (''content'', JStr content), (''size'', JNum (node_size fi p node)),
                  (''mod_time'', JStr (fi_mod_time fi p)), (''mode'', JStr (fi_mode fi p))]
             | _ \<Rightarrow> answer (HTTPError 500 ''failed to read file'')
           }
     }))"

definition downloadFile :: "string \<Rightarrow> handler" where
  "downloadFile relPath = with_site resolveSite (\<lambda>site c.
     if relPath = [] then bad_request ''path required''
     else with_path site relPath (\<lambda>full. do {
       info \<leftarrow> fs_look (\<lambda>fs. os_Stat fs full);
       case info of
         None \<Rightarrow> answer (HTTPError 404 ''file not found'')
       | Some node \<Rightarrow>
           if node = DirNode then bad_request ''cannot download a directory''
           else do {
             data \<leftarrow> fs_query (\<lambda>fs. os_ReadFile fs full);
             answer (case data of Inr (Some content) \<Rightarrow> SendFile (path_base full) content | _ \<Rightarrow> HTTPError 404 ''Not Found'')
           }
     }))"

section \<open>Writing\<close>

definition record_file :: "http_context \<Rightarrow> Site \<Rightarrow> (string \<times> json) list \<Rightarrow> unit io" where
  "record_file c site details =
     RecordAction (caller_id c) ''site_update'' ''site'' (ste_id site) (Some (JObj ((''domain'', JStr (ste_domain site)) # details)))"

definition fileAuditItemType :: "bool \<Rightarrow> string" where
  "fileAuditItemType isDir = (if isDir then ''folder'' else ''file'')"

definition success :: "http_context \<Rightarrow> int \<Rightarrow> string \<Rightarrow> (string \<times> json) list \<Rightarrow> reply io" where
  "success c status message extra =
     answer (JSON status (Success c (JObj ([(''status'', JStr ''success''), (''message'', JStr message)] @ extra))))"

record write_body =
  wb_path :: string
  wb_content :: string

definition writeFile :: "write_body option \<Rightarrow> handler" where
  "writeFile body = with_site resolveSiteWrite (\<lambda>site c.
     case body of
       None \<Rightarrow> bad_request ''path required''
     | Some b \<Rightarrow>
         if wb_path b = [] then bad_request ''path required''
         else with_path site (wb_path b) (\<lambda>full. do {
           _ \<leftarrow> fs_exec (\<lambda>fs. os_MkdirAll fs (path_dir full));
           ok \<leftarrow> fs_exec (if_done (\<lambda>fs. os_WriteFile fs full (wb_content b)));
           if \<not> ok then answer (HTTPError 500 ''failed to write'')
           else do {
             _ \<leftarrow> record_file c site [(''action'', JStr ''file_write''), (''is_dir'', JBool False),
                    (''item_type'', JStr ''file''), (''path'', JStr (wb_path b))];
             success c 200 ''File saved'' []
           }
         }))"

record create_body =
  cb_path :: string
  cb_is_dir :: bool

definition createEntry :: "create_body option \<Rightarrow> handler" where
  "createEntry body = with_site resolveSiteWrite (\<lambda>site c.
     case body of
       None \<Rightarrow> bad_request ''path required''
     | Some b \<Rightarrow>
         if cb_path b = [] then bad_request ''path required''
         else with_path site (cb_path b) (\<lambda>full. do {
           _ \<leftarrow> (if cb_is_dir b then fs_exec (\<lambda>fs. os_MkdirAll fs full)
                else do {
                  _ \<leftarrow> fs_exec (\<lambda>fs. os_MkdirAll fs (path_dir full));
                  fs_exec (if_done (\<lambda>fs. os_WriteFile fs full []))
                });
           _ \<leftarrow> record_file c site [(''action'', JStr ''file_create''), (''is_dir'', JBool (cb_is_dir b)),
                  (''item_type'', JStr (fileAuditItemType (cb_is_dir b))), (''path'', JStr (cb_path b))];
           success c 201 ''Created'' []
         }))"

definition deleteEntry :: "string \<Rightarrow> handler" where
  "deleteEntry relPath = with_site resolveSiteWrite (\<lambda>site c.
     if relPath = [] then bad_request ''path required''
     else with_path site relPath (\<lambda>full.
       if full = path_clean (ste_root_path site) then bad_request ''cannot delete site root''
       else do {
         isDir \<leftarrow> fs_look (\<lambda>fs. os_Stat fs full = Some DirNode);
         _ \<leftarrow> fs_exec (\<lambda>fs. (os_RemoveAll fs full, True));
         _ \<leftarrow> record_file c site [(''action'', JStr ''file_delete''), (''is_dir'', JBool isDir),
                (''item_type'', JStr (fileAuditItemType isDir)), (''path'', JStr relPath)];
         success c 200 ''Deleted'' []
       }))"

record rename_body =
  rb_old_path :: string
  rb_new_name :: string

definition renamed_path :: "string \<Rightarrow> string \<Rightarrow> string" where
  "renamed_path oldFull newName = path_join (path_dir oldFull) newName"

definition renameEntry :: "rename_body option \<Rightarrow> handler" where
  "renameEntry body = with_site resolveSiteWrite (\<lambda>site c.
     case body of
       None \<Rightarrow> bad_request ''old_path and new_name required''
     | Some b \<Rightarrow>
         if rb_old_path b = [] \<or> rb_new_name b = [] then bad_request ''old_path and new_name required''
         else with_path site (rb_old_path b) (\<lambda>oldFull.
           let newFull = renamed_path oldFull (rb_new_name b);
               newRel = trim_prefix newFull (path_clean (ste_root_path site) @ ''/'')
           in with_path site newRel (\<lambda>_. do {
             isDir \<leftarrow> fs_look (\<lambda>fs. os_Stat fs oldFull = Some DirNode);
             ok \<leftarrow> fs_exec (if_done (\<lambda>fs. os_Rename fs oldFull newFull));
             if \<not> ok then answer (HTTPError 500 ''failed to rename'')
             else do {
               _ \<leftarrow> record_file c site [(''action'', JStr ''file_rename''), (''is_dir'', JBool isDir),
                      (''item_type'', JStr (fileAuditItemType isDir)), (''new_name'', JStr (rb_new_name b)),
                      (''old_path'', JStr (rb_old_path b))];
               success c 200 ''Renamed'' []
             }
           })))"

text \<open>\<open>file\<close>: the name and content of the uploaded file, if the form has one.\<close>

definition uploadFile :: "string \<Rightarrow> (string \<times> string) option \<Rightarrow> handler" where
  "uploadFile path file = with_site resolveSiteWrite (\<lambda>site c.
     let relDir = (if path = [] then ''.'' else path) in
     with_path site relDir (\<lambda>_.
       case file of
         None \<Rightarrow> bad_request ''file field required''
       | Some (clientName, content) \<Rightarrow>
           let filename = path_base clientName in
           if filename \<in> {[], ''.'', ''..'', ''/''} then bad_request ''invalid filename''
           else with_path site (path_join relDir filename) (\<lambda>dst. do {
             _ \<leftarrow> fs_exec (\<lambda>fs. os_MkdirAll fs (path_dir dst));
             created \<leftarrow> fs_exec (if_done (\<lambda>fs. os_WriteFile fs dst []));
             if \<not> created then answer (HTTPError 500 ''failed to create file'')
             else do {
               copied \<leftarrow> fs_exec (if_done (\<lambda>fs. os_WriteFile fs dst content));
               if \<not> copied then answer (HTTPError 500 ''failed to save file'')
               else do {
                 _ \<leftarrow> record_file c site [(''action'', JStr ''file_upload''), (''is_dir'', JBool False),
                        (''item_type'', JStr ''file''), (''path'', JStr (path_join relDir filename)),
                        (''size'', JNum (int (length content)))];
                 success c 200 ''Uploaded'' [(''name'', JStr filename), (''size'', JNum (int (length content))),
                   (''path'', JStr (path_join relDir filename))]
               }
             }
           })))"

record move_body =
  mb_paths :: "string list"
  mb_dest :: string

fun move_entries :: "Site \<Rightarrow> string \<Rightarrow> string list \<Rightarrow> string list \<Rightarrow> (reply + string list) io" where
  "move_entries site destFull moved [] = State_Monad.return (Inr moved)"
| "move_entries site destFull moved (rel # rels) = do {
     r \<leftarrow> fs_look (\<lambda>fs. safePath fs (ste_root_path site) rel);
     case r of
       Inl e \<Rightarrow> State_Monad.return (Inl e)
     | Inr srcFull \<Rightarrow>
         let base = path_base srcFull; dstFull = path_join destFull base in
         if srcFull = path_clean (ste_root_path site) then State_Monad.return (Inl (HTTPError 400 ''cannot move site root''))
         else if srcFull = destFull \<or> has_prefix (destFull @ ''/'') (srcFull @ ''/'')
         then State_Monad.return (Inl (HTTPError 400 ''cannot move a folder into itself''))
         else if dstFull = srcFull then move_entries site destFull moved rels
         else do {
           taken \<leftarrow> fs_look (\<lambda>fs. os_Stat fs dstFull \<noteq> None);
           if taken then State_Monad.return (Inl (HTTPError 409 (''already exists at destination: '' @ base)))
           else do {
             ok \<leftarrow> fs_exec (if_done (\<lambda>fs. os_Rename fs srcFull dstFull));
             if \<not> ok then State_Monad.return (Inl (HTTPError 500 (''failed to move: '' @ base)))
             else move_entries site destFull (moved @ [base]) rels
           }
         }
   }"

definition moveEntries :: "move_body option \<Rightarrow> handler" where
  "moveEntries body = with_site resolveSiteWrite (\<lambda>site c.
     case body of
       None \<Rightarrow> bad_request ''invalid body''
     | Some b \<Rightarrow>
         if mb_paths b = [] then bad_request ''paths required''
         else with_path site (mb_dest b) (\<lambda>destFull. do {
           isDir \<leftarrow> fs_look (\<lambda>fs. os_Stat fs destFull = Some DirNode);
           if \<not> isDir then bad_request ''destination is not a directory''
           else do {
             r \<leftarrow> move_entries site destFull [] (mb_paths b);
             case r of
               Inl e \<Rightarrow> answer e
             | Inr moved \<Rightarrow> do {
                 _ \<leftarrow> record_file c site [(''action'', JStr ''file_move''), (''count'', JNum (int (length moved))),
                        (''dest'', JStr (mb_dest b))];
                 success c 200 ''Moved'' [(''moved'', JArr (map JStr moved))]
               }
           }
         }))"

section \<open>Archives\<close>

text \<open>
  \<open>addToZip\<close>: the entries of the archive for a file or folder, \<open>None\<close> for an error. \<open>filepath.Walk\<close> visits a
  folder before what is in it and otherwise in the order of the names; it does not follow links, but
  \<open>writeFileToZip\<close> opens each of them.
\<close>

definition zip_entry :: "filesys \<Rightarrow> place \<Rightarrow> string \<Rightarrow> place \<times> fnode \<Rightarrow> (string \<times> string) list option" where
  "zip_entry fs p baseName e = (case e of (q, node) \<Rightarrow>
     let rel = drop (length p) q;
         zipName = (if rel = [] then baseName else path_join baseName (join_on CHR ''/'' rel))
     in case node of
       DirNode \<Rightarrow> Some (if rel = [] then [] else [(zipName @ ''/'', [])])
     | _ \<Rightarrow> map_option (\<lambda>content. [(zipName, content)]) (os_ReadFile fs (abs_path q)))"

definition visited :: "filesys \<Rightarrow> place \<Rightarrow> (place \<times> fnode) list" where
  "visited fs p = List.map_filter (\<lambda>q. map_option (Pair q) (look fs q)) (p # sort (filter (\<lambda>q. within p q \<and> q \<noteq> p) (remdups (map fst fs))))"

definition addToZip :: "filesys \<Rightarrow> string \<Rightarrow> string \<Rightarrow> (string \<times> string) list option" where
  "addToZip fs src baseName =
     (case os_Stat fs src of
        None \<Rightarrow> None
      | Some DirNode \<Rightarrow>
          let p = (case entry_of fs src of Some p \<Rightarrow> p | None \<Rightarrow> place_of fs src)
          in map_option concat (all_some (map (zip_entry fs p baseName) (visited fs p)))
      | Some _ \<Rightarrow> map_option (\<lambda>content. [(baseName, content)]) (os_ReadFile fs src))"

record compress_body =
  zb_paths :: "string list"
  zb_name :: string
  zb_dest :: string

definition archive_name :: "string \<Rightarrow> string" where
  "archive_name n =
     (let name = trim_space n;
          name = path_base (if name = [] then ''archive.zip'' else name)
      in if has_suffix (to_lower name) ''.zip'' then name else name @ ''.zip'')"

text \<open>The sources, all of them resolved before the archive is made.\<close>

fun zip_items :: "filesys \<Rightarrow> string \<Rightarrow> string list \<Rightarrow> reply + (string \<times> string) list" where
  "zip_items fs root [] = Inr []"
| "zip_items fs root (rel # rels) =
     (case safePath fs root rel of
        Inl e \<Rightarrow> Inl e
      | Inr full \<Rightarrow>
          if os_Stat fs full = None then Inl (HTTPError 404 (''not found: '' @ rel))
          else case zip_items fs root rels of Inl e \<Rightarrow> Inl e | Inr items \<Rightarrow> Inr ((full, path_base full) # items))"

fun zip_all :: "filesys \<Rightarrow> (string \<times> string) list \<Rightarrow> string + (string \<times> string) list" where
  "zip_all fs [] = Inr []"
| "zip_all fs ((full, base) # items) =
     (case addToZip fs full base of
        None \<Rightarrow> Inl base
      | Some es \<Rightarrow> (case zip_all fs items of Inl e \<Rightarrow> Inl e | Inr more_es \<Rightarrow> Inr (es @ more_es)))"

text \<open>\<open>os.Remove\<close> of a file. An I/O error while reading is blamed on the first source.\<close>

definition os_Remove :: "string \<Rightarrow> bool io" where
  "os_Remove path = fs_exec (\<lambda>fs. (os_RemoveAll fs path, True))"

definition write_archive :: "file_info \<Rightarrow> string \<Rightarrow> (string \<times> string) list \<Rightarrow> reply option io" where
  "write_archive fi archivePath items = do {
     created \<leftarrow> fs_exec (if_done (\<lambda>fs. os_WriteFile fs archivePath (fi_growing fi)));
     if \<not> created then State_Monad.return (Some (HTTPError 500 ''failed to create archive''))
     else do {
       entries \<leftarrow> fs_query (\<lambda>fs. zip_all fs items);
       case entries of
         Inr (Inr es) \<Rightarrow> do {
           closed \<leftarrow> fs_exec (if_done (\<lambda>fs. os_WriteFile fs archivePath (fi_zip fi es)));
           if closed then State_Monad.return None
           else do {
             _ \<leftarrow> os_Remove archivePath;
             State_Monad.return (Some (HTTPError 500 ''failed to finalize archive''))
           }
         }
       | failure \<Rightarrow> do {
           _ \<leftarrow> os_Remove archivePath;
           let base = (case failure of Inr (Inl base) \<Rightarrow> base | _ \<Rightarrow> snd (hd items));
           State_Monad.return (Some (HTTPError 500 (''failed to compress: '' @ base)))
         }
     }
   }"

definition compressEntries :: "file_info \<Rightarrow> compress_body option \<Rightarrow> handler" where
  "compressEntries fi body = with_site resolveSiteWrite (\<lambda>site c.
     case body of
       None \<Rightarrow> bad_request ''invalid body''
     | Some b \<Rightarrow>
         if zb_paths b = [] then bad_request ''paths required''
         else let name = archive_name (zb_name b) in
           with_path site (zb_dest b) (\<lambda>destFull. do {
             isDir \<leftarrow> fs_look (\<lambda>fs. os_Stat fs destFull = Some DirNode);
             if \<not> isDir then bad_request ''destination is not a directory''
             else let archivePath = path_join destFull name in do {
               taken \<leftarrow> fs_look (\<lambda>fs. os_Stat fs archivePath \<noteq> None);
               if taken then answer (HTTPError 409 (''archive already exists: '' @ name))
               else do {
                 r \<leftarrow> fs_look (\<lambda>fs. zip_items fs (ste_root_path site) (zb_paths b));
                 case r of
                   Inl e \<Rightarrow> answer e
                 | Inr items \<Rightarrow> do {
                     failure \<leftarrow> write_archive fi archivePath items;
                     case failure of
                       Some e \<Rightarrow> answer e
                     | None \<Rightarrow> do {
                         size \<leftarrow> fs_look (\<lambda>fs. case os_Stat fs archivePath of
                                   Some node \<Rightarrow> node_size fi (place_of fs archivePath) node | None \<Rightarrow> 0);
                         _ \<leftarrow> record_file c site [(''action'', JStr ''file_compress''),
                                (''archive'', JStr (path_join (zb_dest b) name)), (''count'', JNum (int (length items))),
                                (''size'', JNum size)];
                         success c 200 ''Compressed'' [(''archive'', JStr name), (''size'', JNum size)]
                       }
                   }
               }
             }
           }))"

end
