(* ===== verification/FileProps.thy ===== *)
theory FileProps
  imports FileManager
begin

text \<open>
  What the checks of the file manager are worth. \<open>confined\<close> is what \<open>safePath\<close> establishes about a path: its
  deepest existing ancestor, with all links followed, lies below the real root directory of the site. From
  this it follows where each call of the file manager can take effect, given what the links of the file
  system look like.
\<close>

section \<open>Checked paths\<close>

definition confined :: "filesys \<Rightarrow> place \<Rightarrow> string list \<Rightarrow> bool" where
  "confined fs R es \<longleftrightarrow> list_all proper_elem es \<and>
     (\<exists>k q. k \<le> length es \<and> follow fs 255 [] (take k es) = Found q \<and> within R q \<and>
        (k < length es \<longrightarrow> (\<exists>p rest. follow fs 255 [] (take (Suc k) es) = Missing p rest)))"

definition real_root :: "filesys \<Rightarrow> string \<Rightarrow> place option" where
  "real_root fs root = (case follow fs 255 [] (path_elems root) of Found p \<Rightarrow> Some p | _ \<Rightarrow> None)"

lemma follow_abs_path: "list_all proper_elem es \<Longrightarrow> follow fs n [] (split_on CHR ''/'' (abs_path es)) = follow fs n [] es"
  by (simp add: split_abs_path)

lemma EvalSymlinks_abs:
  "list_all proper_elem es \<Longrightarrow> EvalSymlinks fs (abs_path es) = (case follow fs 255 [] es of
     Found p \<Rightarrow> Inr (abs_path p) | Missing p cs \<Rightarrow> Inl True | _ \<Rightarrow> Inl False)"
  by (simp only: EvalSymlinks_def follow_abs_path)

lemma probe_links_confined:
  assumes "wf_fs fs" "list_all proper_elem R" "list_all proper_elem es" "probe_links fs (abs_path R) (abs_path es) = None"
  shows "confined fs R es"
  using assms(3,4)
proof (induction es rule: rev_induct)
  case Nil
  then have "within R []"
    using abs_path_below [of "[]" R] assms(2) by (subst (asm) probe_links.simps) (auto simp: EvalSymlinks_abs abs_path_inject split: if_splits)
  then show ?case by (auto simp: confined_def)
next
  case (snoc c es)
  show ?case
  proof (cases "follow fs 255 [] (es @ [c])")
    case (Found q)
    then have "list_all proper_elem q" using follow_Found [OF assms(1)] wf_proper [OF assms(1)] by blast
    with Found snoc.prems have "within R q"
      using abs_path_below [of q R] assms(2)
      by (subst (asm) probe_links.simps) (auto simp: EvalSymlinks_abs abs_path_inject within_iff split: if_splits)
    with Found snoc.prems(1) show ?thesis unfolding confined_def
      by (intro conjI exI [of _ "length (es @ [c])"] exI [of _ q]) auto
  next
    case (Missing p rest)
    have dir: "path_dir (abs_path (es @ [c])) = abs_path es" using path_dir_abs_path [OF snoc.prems(1)] by simp
    with Missing snoc.prems have "probe_links fs (abs_path R) (abs_path es) = None"
      by (subst (asm) probe_links.simps) (auto simp: EvalSymlinks_abs Let_def split: if_splits)
    with snoc have "confined fs R es" by simp
    then obtain k q where k: "k \<le> length es" "follow fs 255 [] (take k es) = Found q" "within R q"
        "k < length es \<Longrightarrow> \<exists>p rest. follow fs 255 [] (take (Suc k) es) = Missing p rest"
      unfolding confined_def by blast
    have "\<exists>p rest. follow fs 255 [] (take (Suc k) (es @ [c])) = Missing p rest"
      using k(1,4) Missing by (cases "k = length es") auto
    with k snoc.prems(1) show ?thesis unfolding confined_def by (intro conjI exI [of _ k] exI [of _ q]) auto
  qed (use snoc.prems in \<open>subst (asm) probe_links.simps, auto simp: EvalSymlinks_abs\<close>)+
qed

lemma safePath_confined:
  assumes wf: "wf_fs fs" and root: "rooted root" and ok: "safePath fs root rel = Inr full"
  obtains R rest where "real_root fs root = Some R" "full = abs_path (path_elems root @ rest)"
    "confined fs R (path_elems root @ rest)"
proof -
  define rel' where "rel' = path_clean (if trim_space rel = [] then ''.'' else trim_space rel)"
  have join: "path_join root rel' = path_clean (root @ CHR ''/'' # rel')"
    using root path_clean_not_Nil by (auto simp: path_join_def rel'_def rooted_iff)
  have r: "rooted (root @ CHR ''/'' # rel')" using root by (auto simp: rooted_iff)
  from ok have full: "full = path_join root rel'"
    and pre: "full = path_clean root \<or> has_prefix full (path_clean root @ ''/'')"
    and links: "ensureNoSymlinkEscape fs (path_clean root) full = None"
    by (auto simp: safePath_def Let_def rel'_def split: if_splits option.splits)
  let ?es = "path_elems (root @ CHR ''/'' # rel')" and ?rs = "path_elems root"
  have es: "list_all proper_elem ?es" and rs: "list_all proper_elem ?rs" using path_elems_proper r root by auto
  have full': "full = abs_path ?es" and root': "path_clean root = abs_path ?rs"
    using full join path_clean_abs [OF r] path_clean_abs [OF root] by auto
  from pre have "\<exists>rest. ?es = ?rs @ rest"
    using abs_path_below [OF es rs] abs_path_inject [OF es rs] by (auto simp: full' root')
  then obtain rest where rest: "?es = ?rs @ rest" by blast
  from links obtain R where R: "follow fs 255 [] ?rs = Found R" and probe: "probe_links fs (abs_path R) (abs_path ?es) = None"
    by (auto simp: ensureNoSymlinkEscape_def root' full' EvalSymlinks_abs rs split: walked.splits)
  have "list_all proper_elem R" using follow_Found [OF wf R] wf_proper [OF wf] by blast
  from probe_links_confined [OF wf this es probe] show thesis
    using that [of R rest] R full' rest by (simp add: real_root_def)
qed

text \<open>A checked path exists as a whole, or up to a directory below the root where a name is free or a dangling link.\<close>

lemma confined_cases:
  assumes wf: "wf_fs fs" and safe: "confined fs R es"
  obtains (whole) q where "follow fs 255 [] es = Found q" "within R q"
  | (part) a c ds q where "es = a @ c # ds" "follow fs 255 [] a = Found q" "look fs q = Some DirNode" "within R q"
      "\<exists>p rest. follow fs 255 [] (a @ [c]) = Missing p rest"
      "look fs (q @ [c]) \<noteq> None \<Longrightarrow>
         \<exists>t. look fs (q @ [c]) = Some (LinkNode t) \<and> (\<exists>p rest. follow fs 255 [] (q @ [c]) = Missing p rest)"
proof -
  from safe obtain k q where proper: "list_all proper_elem es" and k: "k \<le> length es"
    and q: "follow fs 255 [] (take k es) = Found q" "within R q"
    and miss: "k < length es \<Longrightarrow> \<exists>p rest. follow fs 255 [] (take (Suc k) es) = Missing p rest"
    unfolding confined_def by blast
  show thesis
  proof (cases "k = length es")
    case True
    with q show thesis by (intro whole) simp_all
  next
    case False
    let ?a = "take k es" and ?c = "es ! k"
    from False k have lt: "k < length es" by simp
    then have split: "es = ?a @ ?c # drop (Suc k) es" and suc: "take (Suc k) es = ?a @ [?c]"
      by (simp_all add: id_take_nth_drop take_Suc_conv_app_nth)
    from proper lt have c: "proper_elem ?c" by (simp add: list_all_length)
    from miss [OF lt] obtain p rest where m: "follow fs 255 [] (?a @ [?c]) = Missing p rest" unfolding suc by blast
    have dir: "look fs q = Some DirNode"
      using follow_behind_file [OF q(1) wf, of "[?c]"] m by fastforce
    from follow_append [OF q(1) dir, of "[?c]"] m obtain n where n: "n \<le> 255" "follow fs n q [?c] = Missing p rest" by auto
    have "\<exists>t. look fs (q @ [?c]) = Some (LinkNode t) \<and> (\<exists>p rest. follow fs 255 [] (q @ [?c]) = Missing p rest)"
      if "look fs (q @ [?c]) \<noteq> None"
    proof -
      from that n(2) c obtain t where t: "look fs (q @ [?c]) = Some (LinkNode t)"
        by (cases "the (look fs (q @ [?c]))") (auto simp: proper_step)
      have "follow fs 255 q [?c] = Missing p rest" by (rule follow_mono [OF n(2) _ n(1)]) simp
      with t follow_dirs [OF wf dir, of 255 "[?c]"] show ?thesis by auto
    qed
    with split q dir m show thesis by (intro part [of ?a ?c "drop (Suc k) es" q]) auto
  qed
qed

section \<open>Where the kernel goes\<close>

definition no_dangling :: "place \<Rightarrow> filesys \<Rightarrow> bool" where
  "no_dangling R fs \<longleftrightarrow>
     (\<forall>p t. look fs p = Some (LinkNode t) \<longrightarrow> within R p \<longrightarrow> (\<forall>q rest. follow fs 255 [] p \<noteq> Missing q rest))"

definition no_way_in :: "place \<Rightarrow> filesys \<Rightarrow> bool" where
  "no_way_in R fs \<longleftrightarrow>
     (\<forall>p t. look fs p = Some (LinkNode t) \<longrightarrow> \<not> within R p \<longrightarrow>
        (\<forall>q rest. follow (drop_below R fs) 255 [] p = Missing q rest \<longrightarrow> \<not> within R q))"

definition same_outside :: "place \<Rightarrow> filesys \<Rightarrow> filesys \<Rightarrow> bool" where
  "same_outside R fs fs' \<longleftrightarrow> (\<forall>p. \<not> within R p \<longrightarrow> look fs' p = look fs p)"

text \<open>More directories below the root, nothing else.\<close>

definition grown :: "place \<Rightarrow> filesys \<Rightarrow> filesys \<Rightarrow> bool" where
  "grown R fs fs' \<longleftrightarrow> same_outside R fs fs' \<and> (\<forall>p n. look fs p = Some n \<longrightarrow> look fs' p = Some n)
     \<and> (\<forall>p. look fs p = None \<longrightarrow> look fs' p \<in> {None, Some DirNode})"

lemma same_outside_refl [simp]: "same_outside R fs fs"
  by (simp add: same_outside_def)

lemma same_outside_trans: "same_outside R a b \<Longrightarrow> same_outside R b c \<Longrightarrow> same_outside R a c"
  by (simp add: same_outside_def)

lemma grown_refl [simp]: "grown R fs fs"
  by (simp add: grown_def)

lemma grown_differs: "grown R fs fs' \<Longrightarrow> differs_at (\<lambda>_. False) fs fs'"
  by (simp add: grown_def differs_at_def)

lemma confined_proper: "confined fs R es \<Longrightarrow> list_all proper_elem es"
  by (simp add: confined_def)

lemma kernel_mono: "follow fs 40 d cs = r \<Longrightarrow> r \<noteq> Loop \<Longrightarrow> follow fs 255 d cs = r"
  by (rule follow_mono [where n = 40]) simp_all

lemma found_within:
  assumes "wf_fs fs" "confined fs R es" "follow fs 40 [] es = Found z"
  shows "within R z"
proof -
  have z: "follow fs 255 [] es = Found z" by (rule kernel_mono [OF assms(3)]) simp
  from assms(1,2) show ?thesis
  proof (cases rule: confined_cases)
    case (whole q)
    with z show ?thesis by simp
  next
    case (part a c ds q)
    then obtain p rest where "follow fs 255 [] ((a @ [c]) @ ds) = Missing p (rest @ ds)"
      using follow_append_Missing by blast
    with part(1) z show ?thesis by simp
  qed
qed

lemma target_within:
  assumes wf: "wf_fs fs" and safe: "confined fs R es" and links: "no_dangling R fs" and new: "grown R fs fs'"
    and to: "follow fs' 40 [] es = Found p \<or> follow fs' 40 [] es = Missing p rest"
  shows "within R p"
proof -
  have to': "follow fs' 255 [] es = Found p \<or> follow fs' 255 [] es = Missing p rest" using to kernel_mono by blast
  from wf safe show ?thesis
  proof (cases rule: confined_cases)
    case (whole q)
    with to' follow_grows [OF whole(1) grown_differs [OF new]] show ?thesis by simp
  next
    case (part a c ds q)
    have free: "look fs (q @ [c]) = None"
      using part(4,6) links by (fastforce simp: no_dangling_def within_iff)
    have "look fs' q = Some DirNode" using part(3) new by (simp add: grown_def)
    from follow_append [OF follow_grows [OF part(2) grown_differs [OF new]] this, of "c # ds"]
    obtain n where "follow fs' 255 [] (a @ c # ds) = follow fs' n q (c # ds)" by blast
    with to' part(1) have n: "follow fs' n q (c # ds) = Found p \<or> follow fs' n q (c # ds) = Missing p rest" by simp
    have proper: "proper_elem c" "list_all proper_elem ds" using confined_proper [OF safe] part(1) by simp_all
    have none: "look fs ((q @ [c]) @ x) = None" for x
      using nothing_below [OF wf, of "q @ [c]" x] free by (cases "x = []") simp_all
    have dirs: "look fs' ((q @ [c]) @ x) \<in> {None, Some DirNode}" for x
      using none [of x] new unfolding grown_def by blast
    have "within (q @ [c]) p"
    proof (cases "look fs' (q @ [c])")
      case None
      with n proper show ?thesis by (auto simp: proper_step)
    next
      case (Some node)
      with dirs [of "[]"] n proper have "follow fs' n (q @ [c]) ds = Found p \<or> follow fs' n (q @ [c]) ds = Missing p rest"
        by (auto simp: proper_step)
      with follow_in_dirs [OF proper(2)] dirs show ?thesis by blast
    qed
    with part(4) show ?thesis by (auto simp: within_iff)
  qed
qed


text \<open>The entry a checked path names is below the root, unless a link from outside leads in.\<close>

lemma entry_of_abs:
  assumes "list_all proper_elem es" "entry_of fs (abs_path es) = Some p"
  obtains ds c d where "es = ds @ [c]" "follow fs 40 [] ds = Found d" "look fs d = Some DirNode" "p = d @ [c]" "proper_elem c"
proof (cases es rule: rev_cases)
  case Nil
  with assms show thesis by (simp add: entry_of_def entry_at_def split_abs_path)
next
  case (snoc ds c)
  with assms(1) have "split_on CHR ''/'' (abs_path es) = ([] # ds) @ [c]" by (simp add: split_abs_path)
  with assms(2) have "entry_at fs (([] # ds) @ [c]) = Some p" by (simp add: entry_of_def)
  then obtain d where "follow fs 40 [] ([] # ds) = Found d" "look fs d = Some DirNode" "p = d @ [c]"
    unfolding entry_at_def butlast_snoc last_snoc by (auto split: if_splits walked.splits)
  with snoc assms(1) show thesis by (intro that [of ds c d]) simp_all
qed

lemma entry_within:
  assumes wf: "wf_fs fs" and safe: "confined fs R es" and inward: "no_way_in R fs"
    and entry: "entry_of fs (abs_path es) = Some p"
  shows "within R p"
proof -
  from entry_of_abs [OF confined_proper [OF safe] entry] obtain ds c d where
    es: "es = ds @ [c]" and "follow fs 40 [] ds = Found d" and dir: "look fs d = Some DirNode" and p: "p = d @ [c]"
    and c: "proper_elem c" by metis
  then have d: "follow fs 255 [] ds = Found d" by (intro kernel_mono) simp_all
  from wf safe show ?thesis
  proof (cases rule: confined_cases)
    case (part a c' ds' q)
    show ?thesis
    proof (cases ds' rule: rev_cases)
      case Nil
      with part(1,2,4) es d p show ?thesis by (auto simp: within_iff)
    next
      case (snoc ds'' x)
      with part(1) es have ds: "ds = (a @ [c']) @ ds''" by simp
      from part(5) obtain m rest where "follow fs 255 [] (a @ [c']) = Missing m rest" by blast
      from follow_append_Missing [OF this, of ds''] ds d show ?thesis by simp
    qed
  next
    case (whole q)
    from follow_append [OF d dir, of "[c]"] whole(1) es obtain m where m: "m \<le> 255" "follow fs m d [c] = Found q" by auto
    then have q: "follow fs 255 d [c] = Found q" by (intro follow_mono [OF m(2)]) simp_all
    show ?thesis
    proof (rule ccontr)
      assume out: "\<not> within R p"
      with q c p whole(2) obtain t where t: "look fs p = Some (LinkNode t)"
        by (cases "look fs p"; cases "the (look fs p)") (auto simp: proper_step)
      have root: "R \<noteq> []" using out by auto
      have "follow fs 255 [] p = Found q" using follow_dirs [OF wf dir, of 255 "[c]"] q p by simp
      moreover have "follow fs 255 [] p = follow (drop_below R fs) 255 [] p
          \<and> (\<forall>q. follow (drop_below R fs) 255 [] p = Found q \<longrightarrow> \<not> within R q)"
        by (rule follow_without [OF refl]) (use inward t out root in \<open>auto simp: no_way_in_def look_drop_below within_iff\<close>)
      ultimately show False using whole(2) by simp
    qed
  qed
qed

lemma follow_cong: "(\<And>p. look fs p = look fs' p) \<Longrightarrow> follow fs n d cs = follow fs' n d cs"
proof (induction fs n d cs rule: follow.induct)
  case (2 fs n d c cs)
  show ?case
    by (simp add: follow_Cons 2(5) [symmetric] split: option.split fnode.split) (use 2 in auto)
qed simp

lemma no_way_in_outside:
  assumes "no_way_in R fs" "same_outside R fs fs'"
  shows "no_way_in R fs'"
proof (cases "R = []")
  case False
  have "look (drop_below R fs') p = look (drop_below R fs) p" for p
    using assms(2) by (simp add: look_drop_below [OF False] same_outside_def)
  then have eq: "follow (drop_below R fs') n d cs = follow (drop_below R fs) n d cs" for n d cs
    by (rule follow_cong)
  have "\<not> within R q" if "look fs' p = Some (LinkNode t)" "\<not> within R p" "follow (drop_below R fs') 255 [] p = Missing q rest"
    for p t q rest
  proof -
    from that(1,2) assms(2) have "look fs p = Some (LinkNode t)" by (simp add: same_outside_def)
    with assms(1) that(2) that(3) [unfolded eq] show ?thesis unfolding no_way_in_def by blast
  qed
  then show ?thesis unfolding no_way_in_def by blast
qed (simp add: no_way_in_def)

section \<open>Making directories\<close>

lemma mkdir_existing:
  assumes wf: "wf_fs fs" and found: "follow fs 255 [] (take k es) = Found q" and proper: "list_all proper_elem es" and "k \<le> length es"
  shows "j \<le> k \<Longrightarrow> mkdir_names fs (rev ([] # take j es)) = (fs', ok) \<Longrightarrow>
    fs' = fs \<and> (ok \<longrightarrow> (\<exists>d. follow fs 40 [] (take j es) = Found d \<and> look fs d = Some DirNode))"
proof (induction j arbitrary: fs' ok)
  case 0
  then show ?case by simp
next
  case (Suc j)
  let ?c = "es ! j"
  have lt: "j < length es" and c: "proper_elem ?c" using Suc.prems(1) assms(4) proper by (simp_all add: list_all_length)
  have take: "take (Suc j) es = take j es @ [?c]" using lt by (rule take_Suc_conv_app_nth)
  then have names: "rev ([] # take (Suc j) es) = ?c # rev ([] # take j es)" by simp
  obtain fs1 b where rec: "mkdir_names fs (rev ([] # take j es)) = (fs1, b)" by fastforce
  from Suc.IH [OF _ rec] Suc.prems(1) have fs1: "fs1 = fs"
    and up: "b \<Longrightarrow> \<exists>d. follow fs 40 [] (take j es) = Found d \<and> look fs d = Some DirNode" by auto
  have taken: "look fs (d @ [?c]) \<noteq> None" if d: "follow fs 40 [] (take j es) = Found d" "look fs d = Some DirNode" for d
  proof
    assume none: "look fs (d @ [?c]) = None"
    have "follow fs 255 [] (take j es) = Found d" by (rule kernel_mono [OF d(1)]) simp
    from follow_append [OF this d(2), of "[?c]"] none c take
    have "follow fs 255 [] (take (Suc j) es) = Missing (d @ [?c]) []" by (auto simp: proper_step)
    from follow_append_Missing [OF this, of "drop (Suc j) (take k es)"] found Suc.prems(1) show False
      by (metis append_take_drop_id min.absorb1 take_take walked.distinct(1))
  qed
  have entry: "entry_at fs ([] # take (Suc j) es) = Some p \<Longrightarrow> look fs p \<noteq> None \<and>
      (look fs p = Some DirNode \<longrightarrow> follow fs 40 [] (take (Suc j) es) = Found p)" for p
  proof -
    assume "entry_at fs ([] # take (Suc j) es) = Some p"
    then obtain d where d: "follow fs 40 [] (take j es) = Found d" "look fs d = Some DirNode" "p = d @ [?c]"
      by (auto simp: entry_at_def take split: if_splits walked.splits)
    from follow_append [OF d(1,2), of "[?c]"] d(3) c take
    have "look fs p = Some DirNode \<longrightarrow> follow fs 40 [] (take (Suc j) es) = Found p" by (auto simp: proper_step)
    with taken [OF d(1,2)] d(3) show ?thesis by simp
  qed
  show ?case
    using Suc.prems(2) rec fs1 entry unfolding names
    by (auto simp: take [symmetric] rev_swap split: option.splits walked.splits fnode.splits if_splits bool.splits prod.splits)
qed

lemma follow_snoc_dir:
  assumes "follow fs n d cs = Found e" "look fs e = Some DirNode" "proper_elem c" "look fs (e @ [c]) = Some DirNode"
  shows "follow fs n d (cs @ [c]) = Found (e @ [c])"
  using follow_append [OF assms(1,2), of "[c]"] assms(3,4) by (auto simp: proper_step)

lemma entry_at_snoc:
  assumes "follow fs 40 [] ds = Found d" "look fs d = Some DirNode" "proper_elem c"
  shows "entry_at fs ([] # ds @ [c]) = Some (d @ [c])"
  using assms by (simp add: entry_at_def butlast_append proper_elem_def plain_elem_def)

lemma grown_put:
  assumes "grown R fs fs1" "wf_fs fs1" "within R p" "p \<noteq> []" "look fs1 p = None"
  shows "grown R fs (put p DirNode fs1)"
proof -
  have "look fs p = None" using assms(1,5) by (cases "look fs p") (auto simp: grown_def)
  with assms show ?thesis by (auto simp: grown_def same_outside_def look_put)
qed

lemma grown_wf_put:
  assumes "wf_fs fs1" "look fs1 d = Some DirNode" "proper_elem c" "look fs1 (d @ [c]) = None"
  shows "wf_fs (put (d @ [c]) DirNode fs1)"
  using assms wf_proper [OF assms(1,2)] by (intro wf_put) simp_all

lemma mkdir_grows:
  assumes wf: "wf_fs fs" and q: "follow fs 255 [] (take k es) = Found q" "within R q"
    and k: "k \<le> length es" and proper: "list_all proper_elem es"
    and miss: "k < length es \<Longrightarrow> \<exists>p rest. follow fs 255 [] (take (Suc k) es) = Missing p rest"
  shows "k + i \<le> length es \<Longrightarrow> mkdir_names fs (rev ([] # take (k + i) es)) = (fs', ok) \<Longrightarrow>
    wf_fs fs' \<and> grown R fs fs' \<and> (ok \<longrightarrow>
      (let d = q @ drop k (take (k + i) es) in follow fs' 40 [] (take (k + i) es) = Found d \<and> look fs' d = Some DirNode))"
proof (induction i arbitrary: fs' ok)
  case 0
  then have "mkdir_names fs (rev ([] # take k es)) = (fs', ok)" by simp
  from mkdir_existing [OF wf q(1) proper k order_refl this] have fs': "fs' = fs"
    and ok: "ok \<Longrightarrow> \<exists>d. follow fs 40 [] (take k es) = Found d \<and> look fs d = Some DirNode" by auto
  have "d = q" if "follow fs 40 [] (take k es) = Found d" for d
    using kernel_mono [OF that] q(1) by simp
  with ok fs' wf show ?case by auto
next
  case (Suc i)
  let ?j = "k + i" let ?c = "es ! ?j" let ?d = "q @ drop k (take ?j es)"
  from Suc.prems(1) have lt: "?j < length es" by simp
  then have c: "proper_elem ?c" using proper by (simp add: list_all_length)
  have take: "take (k + Suc i) es = take ?j es @ [?c]" using take_Suc_conv_app_nth [OF lt] by simp
  then have names: "rev ([] # take (k + Suc i) es) = ?c # rev ([] # take ?j es)" by simp
  have place: "q @ drop k (take (k + Suc i) es) = ?d @ [?c]" unfolding take using lt by simp
  obtain fs1 b where rec: "mkdir_names fs (rev ([] # take ?j es)) = (fs1, b)" by fastforce
  from Suc.IH [OF _ rec] lt have fs1: "wf_fs fs1" "grown R fs fs1"
    and up: "b \<Longrightarrow> follow fs1 40 [] (take ?j es) = Found ?d \<and> look fs1 ?d = Some DirNode" by (auto simp: Let_def)
  have stat: "follow fs 40 [] (take (k + Suc i) es) \<noteq> Found p" for p
  proof
    assume "follow fs 40 [] (take (k + Suc i) es) = Found p"
    then have f: "follow fs 255 [] (take (k + Suc i) es) = Found p" by (intro kernel_mono) simp_all
    from miss lt obtain p' rest where "follow fs 255 [] (take (Suc k) es) = Missing p' rest" by fastforce
    from follow_append_Missing [OF this, of "drop (Suc k) (take (k + Suc i) es)"] f show False
      by (simp add: take_drop) (metis add_Suc_right append_take_drop_id le_add1 min.absorb1 not_less_eq_eq take_add take_take walked.distinct(1) add_Suc)
  qed
  have res: "mkdir_names fs (rev ([] # take (k + Suc i) es)) =
      (if \<not> b then (fs1, False) else case entry_at fs1 ([] # take (k + Suc i) es) of
         None \<Rightarrow> (fs1, False)
       | Some p \<Rightarrow> (case look fs1 p of None \<Rightarrow> (put p DirNode fs1, True) | Some node \<Rightarrow> (fs1, node = DirNode)))"
    unfolding names using rec stat by (simp add: take [symmetric] Let_def split: walked.splits bool.splits)
  show ?case
  proof (cases b)
    case False
    with res Suc.prems(2) fs1 show ?thesis by simp
  next
    case True
    note up = up [OF True]
    have "entry_at fs1 ([] # take (k + Suc i) es) = Some (?d @ [?c])"
      unfolding take using up c by (intro entry_at_snoc) simp_all
    with res True Suc.prems(2) have fs': "(case look fs1 (?d @ [?c]) of
        None \<Rightarrow> (put (?d @ [?c]) DirNode fs1, True) | Some node \<Rightarrow> (fs1, node = DirNode)) = (fs', ok)" by (simp cong: option.case_cong)
    show ?thesis
    proof (cases "look fs1 (?d @ [?c])")
      case None
      with fs' have new: "fs' = put (?d @ [?c]) DirNode fs1" by simp
      have w: "within R (?d @ [?c])" using q(2) by (auto simp: within_iff)
      have wf': "wf_fs fs'" unfolding new by (rule grown_wf_put) (use fs1 up c None in simp_all)
      have g: "grown R fs fs'" unfolding new by (rule grown_put) (use fs1 w None in simp_all)
      have d: "look fs' ?d = Some DirNode" "look fs' (?d @ [?c]) = Some DirNode"
        using up by (simp_all add: new look_put)
      have "differs_at (\<lambda>_. False) fs1 fs'" using None by (auto simp: differs_at_def new look_put)
      from follow_snoc_dir [OF follow_grows [OF conjunct1 [OF up] this] d(1) c d(2)]
      show ?thesis using wf' g d place take by (simp add: Let_def)
    next
      case (Some node)
      with fs' have "fs' = fs1" "ok = (node = DirNode)" by simp_all
      with Some up follow_snoc_dir [of fs1 40 "[]" "take ?j es" ?d ?c] c fs1 place take show ?thesis by (simp add: Let_def)
    qed
  qed
qed

text \<open>Directories made for a checked path or the one above it are below the root.\<close>

lemma MkdirAll_grows:
  assumes wf: "wf_fs fs" and safe: "confined fs R es"
  shows "os_MkdirAll fs (abs_path es) = (fs', ok) \<Longrightarrow> wf_fs fs' \<and> grown R fs fs'"
    and "os_MkdirAll fs (path_dir (abs_path es)) = (fs', ok) \<Longrightarrow> wf_fs fs' \<and> grown R fs fs'"
proof -
  from safe obtain k q where proper: "list_all proper_elem es" and k: "k \<le> length es"
    and q: "follow fs 255 [] (take k es) = Found q" "within R q"
    and miss: "k < length es \<Longrightarrow> \<exists>p rest. follow fs 255 [] (take (Suc k) es) = Missing p rest"
    unfolding confined_def by blast
  have goal: "wf_fs fs' \<and> grown R fs fs'" if "j \<le> length es" "mkdir_names fs (rev ([] # take j es)) = (fs', ok)" for j
  proof (cases "j \<le> k")
    case True
    with mkdir_existing [OF wf q(1) proper k True that(2)] wf show ?thesis by simp
  next
    case False
    with mkdir_grows [OF wf q k proper miss, of "j - k" fs' ok] that show ?thesis by simp
  qed
  have split: "os_MkdirAll fs (abs_path (take j es)) = (fs', ok) \<Longrightarrow> wf_fs fs' \<and> grown R fs fs'" if "j \<le> length es" for j
  proof -
    assume m: "os_MkdirAll fs (abs_path (take j es)) = (fs', ok)"
    have "list_all proper_elem (take j es)" using proper by (simp add: list_all_iff) (meson in_set_takeD)
    then have "split_on CHR ''/'' (abs_path (take j es)) = [] # (if take j es = [] then [[]] else take j es)"
      by (rule split_abs_path)
    with m goal [OF that] wf show ?thesis by (cases "take j es = []") (auto simp: os_MkdirAll_def)
  qed
  show "os_MkdirAll fs (abs_path es) = (fs', ok) \<Longrightarrow> wf_fs fs' \<and> grown R fs fs'" using split [of "length es"] by simp
  show "os_MkdirAll fs (path_dir (abs_path es)) = (fs', ok) \<Longrightarrow> wf_fs fs' \<and> grown R fs fs'"
    using split [of "length es - 1"] by (simp add: path_dir_abs_path [OF proper] butlast_conv_take)
qed

section \<open>The root directory of a site\<close>

text \<open>\<open>R\<close> is where the root path of the site ends, with all links followed and without passing through \<open>R\<close> itself.\<close>

definition site_root :: "filesys \<Rightarrow> string \<Rightarrow> place \<Rightarrow> bool" where
  "site_root fs root R \<longleftrightarrow> R \<noteq> [] \<and> look fs R = Some DirNode
     \<and> follow (drop_below R fs) 255 [] (path_elems root) = Missing R []"

lemma site_root_real:
  assumes "site_root fs root R"
  shows "real_root fs root = Some R"
proof -
  from assms have R: "R \<noteq> []" "look fs R = Some DirNode" "follow (drop_below R fs) 255 [] (path_elems root) = Missing R []"
    by (simp_all add: site_root_def)
  from follow_stuck [OF R(3) look_drop_below [OF R(1)] R(2)] show ?thesis by (auto simp: real_root_def)
qed

lemma site_root_outside:
  assumes "site_root fs root R" "same_outside R fs fs'" "look fs' R = Some DirNode"
  shows "site_root fs' root R"
proof -
  have R: "R \<noteq> []" using assms(1) by (simp add: site_root_def)
  have "look (drop_below R fs') p = look (drop_below R fs) p" for p
    using assms(2) by (simp add: look_drop_below [OF R] same_outside_def)
  then have "follow (drop_below R fs') n d cs = follow (drop_below R fs) n d cs" for n d cs
    by (rule follow_cong)
  with assms show ?thesis by (simp add: site_root_def)
qed

section \<open>What writing, removing and renaming change\<close>

definition targets :: "place \<Rightarrow> filesys \<Rightarrow> string list \<Rightarrow> bool" where
  "targets R fs es \<longleftrightarrow>
     (\<forall>p. follow fs 40 [] es = Found p \<or> (\<exists>rest. follow fs 40 [] es = Missing p rest) \<longrightarrow> within R p)"

lemma kernel_walk_abs: "list_all proper_elem es \<Longrightarrow> kernel_walk fs (abs_path es) = follow fs 40 [] es"
  by (simp only: kernel_walk_def follow_abs_path)

text \<open>The file a write puts somewhere: below the root, where nothing or a file was.\<close>

definition file_put :: "place \<Rightarrow> filesys \<Rightarrow> filesys \<Rightarrow> bool" where
  "file_put R fs fs' \<longleftrightarrow> (\<exists>p content. fs' = put p (FileNode content) fs \<and> p \<noteq> [] \<and> within R p
     \<and> (look fs p = None \<or> (\<exists>old. look fs p = Some (FileNode old))))"

lemma file_put_outside: "file_put R fs fs' \<Longrightarrow> same_outside R fs fs'"
  by (auto simp: file_put_def same_outside_def look_put)

lemma file_put_follow:
  "file_put R fs fs' \<Longrightarrow> follow fs' n d cs \<in> {follow fs n d cs, NotDir} \<or> (\<exists>p. within R p \<and> follow fs' n d cs = Found p)"
  using follow_put_file unfolding file_put_def by blast

lemma file_put_targets:
  assumes "file_put R fs fs'" "targets R fs es"
  shows "targets R fs' es"
  using file_put_follow [OF assms(1), of 40 "[]" es]
proof
  assume "follow fs' 40 [] es \<in> {follow fs 40 [] es, NotDir}"
  then consider (eq) "follow fs' 40 [] es = follow fs 40 [] es" | "follow fs' 40 [] es = NotDir" by blast
  then show ?thesis
  proof cases
    case eq
    from assms(2) show ?thesis unfolding targets_def eq .
  qed (simp add: targets_def)
qed (auto simp: targets_def)

lemma WriteFile_puts:
  assumes wf: "wf_fs fs" and proper: "list_all proper_elem es" and to: "targets R fs es"
    and wr: "os_WriteFile fs (abs_path es) content = Some fs'"
  shows "wf_fs fs' \<and> file_put R fs fs'"
proof -
  have walk: "kernel_walk fs (abs_path es) = follow fs 40 [] es" by (rule kernel_walk_abs [OF proper])
  from wr obtain p where p: "fs' = put p (FileNode content) fs"
    and c: "follow fs 40 [] es = Found p \<and> (\<exists>old. look fs p = Some (FileNode old)) \<or> follow fs 40 [] es = Missing p []"
    by (auto simp: os_WriteFile_def walk split: walked.splits option.splits fnode.splits list.splits)
  have w: "within R p" using c to by (auto simp: targets_def)
  from c show ?thesis
  proof
    assume f: "follow fs 40 [] es = Found p \<and> (\<exists>old. look fs p = Some (FileNode old))"
    then have "p \<noteq> []" by auto
    with f w p wf_look [OF wf, of p] show ?thesis by (auto simp: file_put_def intro!: wf_put [OF wf])
  next
    assume m: "follow fs 40 [] es = Missing p []"
    from follow_Missing [OF wf m] have none: "p \<noteq> []" "look fs p = None" "look fs (butlast p) = Some DirNode" by auto
    have "proper_elem (last p)" using follow_Missing_proper [OF m] proper_no_slash [OF proper] by (auto simp: list_all_iff)
    with wf_proper [OF wf none(3)] none(1) have "list_all proper_elem p" by (cases p rule: rev_cases) auto
    with none w p show ?thesis by (auto simp: file_put_def intro!: wf_put [OF wf])
  qed
qed

lemma RemoveAll_outside:
  assumes "\<And>p. entry_of fs path = Some p \<Longrightarrow> within R p"
  shows "same_outside R fs (os_RemoveAll fs path)"
proof (cases "entry_of fs path")
  case (Some p)
  then have "p \<noteq> []" by (auto simp: entry_of_def entry_at_def split: if_splits walked.splits)
  with Some assms [OF Some] show ?thesis by (auto simp: os_RemoveAll_def same_outside_def look_drop_below within_iff)
qed (simp add: os_RemoveAll_def)

lemma Rename_moves:
  assumes wf: "wf_fs fs" and rename: "os_Rename fs (abs_path es) (abs_path es') = Some fs'"
    and proper: "list_all proper_elem es" "list_all proper_elem es'"
  obtains (same) "fs' = fs"
  | (moved) p q where "entry_of fs (abs_path es) = Some p" "entry_of fs (abs_path es') = Some q" "fs' = move_below p q fs"
      "p \<noteq> []" "q \<noteq> []" "\<not> within p q" "\<not> within q p" "list_all proper_elem q" "look fs (butlast q) = Some DirNode"
      "look fs q \<noteq> Some DirNode" "look fs p \<noteq> None"
proof -
  from rename obtain p q node where e: "entry_of fs (abs_path es) = Some p" "entry_of fs (abs_path es') = Some q"
      and node: "look fs p = Some node" and q: "\<not> (look fs q = Some DirNode \<and> p \<noteq> q)"
      and r: "if p = q then fs' = fs else \<not> (node = DirNode \<and> (look fs q \<noteq> None \<or> within p q)) \<and> fs' = move_below p q fs"
  proof -
    from rename obtain p q where e: "entry_of fs (abs_path es) = Some p" "entry_of fs (abs_path es') = Some q"
      by (cases "entry_of fs (abs_path es)"; cases "entry_of fs (abs_path es')") (simp_all add: os_Rename_def)
    from rename e obtain node where node: "look fs p = Some node"
      by (cases "look fs p") (simp_all add: os_Rename_def)
    from rename e node have r: "(if look fs q = Some DirNode \<and> (abs_path es = abs_path es' \<or> p \<noteq> q) then None
        else if p = q then Some fs
        else if node = DirNode \<and> (look fs q \<noteq> None \<or> within p q) then None
        else Some (move_below p q fs)) = Some fs'"
      by (simp only: os_Rename_def prod.case option.case)
    show thesis
    proof (rule that [OF e node])
      from r show "\<not> (look fs q = Some DirNode \<and> p \<noteq> q)" by (simp split: if_split_asm)
      with r show "if p = q then fs' = fs
          else \<not> (node = DirNode \<and> (look fs q \<noteq> None \<or> within p q)) \<and> fs' = move_below p q fs"
        by (simp split: if_split_asm)
    qed
  qed
  show thesis
  proof (cases "p = q")
    case True
    with r show thesis by (intro same) simp
  next
    case False
    from entry_of_abs [OF proper(1) e(1)] have p: "p \<noteq> []" by auto
    from entry_of_abs [OF proper(2) e(2)] obtain d c where d: "look fs d = Some DirNode" "q = d @ [c]" "proper_elem c" by metis
    have qd: "look fs (butlast q) = Some DirNode" "list_all proper_elem q" "q \<noteq> []"
      using d wf_proper [OF wf d(1)] by simp_all
    have "\<not> within q p"
    proof
      assume "within q p"
      then obtain x where "p = q @ x" by (auto simp: within_iff)
      with nothing_below [OF wf, of q x] node q False show False by (cases "x = []") auto
    qed
    moreover have "\<not> within p q"
    proof
      assume "within p q"
      with False have "within p (butlast q)" using within_snoc [of p "butlast q" "last q"] qd(3) by simp
      then obtain x where "butlast q = p @ x" by (auto simp: within_iff)
      with qd(1) nothing_below [OF wf, of p x] have "look fs p = Some DirNode" by (cases "x = []") auto
      with node r False \<open>within p q\<close> show False by simp
    qed
    ultimately show thesis using e p qd q r False node by (intro moved [of p q]) auto
  qed
qed

lemma moved_away: "p \<noteq> [] \<Longrightarrow> q \<noteq> [] \<Longrightarrow> within p r \<Longrightarrow> \<not> within q r \<Longrightarrow> look (move_below p q fs) r = None"
proof -
  assume a: "p \<noteq> []" "q \<noteq> []" "within p r" "\<not> within q r"
  have "map_of (map (\<lambda>(r, n). if within p r then (q @ drop (length p) r, n) else (r, n)) xs) r = None" for xs :: filesys
  proof (induction xs)
    case (Cons e xs)
    have "fst ((\<lambda>(r, n). if within p r then (q @ drop (length p) r, n) else (r, n)) e) \<noteq> r"
      using a(3,4) by (cases e) (auto split: if_splits)
    with Cons show ?case by (simp add: prod.case_eq_if)
  qed simp
  moreover have "r \<noteq> []" using a(1,3) by (cases p) auto
  ultimately show ?thesis by (simp add: look_def move_below_def)
qed

lemma move_outside:
  assumes "p \<noteq> []" "q \<noteq> []" "within R p" "within R q"
  shows "same_outside R fs (move_below p q fs)"
  unfolding same_outside_def using move_below_other [OF assms(1,2)] within_trans assms(3,4) by blast

text \<open>After a move, a walk that ended well still ends there, or it is stuck in what has moved.\<close>

lemma move_follow:
  assumes wf: "wf_fs fs" and moved: "p \<noteq> []" "q \<noteq> []" "\<not> within p q" "\<not> within q p" "look fs q \<noteq> Some DirNode"
    and q: "look fs q = None \<or> avoided fs k q" and n: "n \<le> k" and found: "follow fs n [] cs = Found e"
  shows "follow (move_below p q fs) n [] cs = Found e \<or> (\<exists>x rest. follow (move_below p q fs) n [] cs = Missing x rest)"
proof -
  have "r = q \<or> look (move_below p q fs) r = (if within p r then None else Some node)" if r: "look fs r = Some node" for r node
  proof (cases "within p r")
    case True
    then have "\<not> within q r" using within_linear [of p r q] moved(3,4) by blast
    with moved True show ?thesis by (simp add: moved_away)
  next
    case False
    show ?thesis
    proof (cases "within q r")
      case True
      then obtain x where "r = q @ x" by (auto simp: within_iff)
      with nothing_below [OF wf moved(5), of x] r show ?thesis by (cases "x = []") auto
    next
      case out: False
      with move_below_other [OF moved(1,2) False out, of fs] r False show ?thesis by simp
    qed
  qed
  then have "follow (move_below p q fs) n [] cs = Found e
      \<or> (\<exists>x rest. within p x \<and> follow (move_below p q fs) n [] cs = Missing x rest)"
    by (rule follow_differs [OF found]) (use q n wf in auto)
  then show ?thesis by blast
qed

end
