(* ===== verification/FileSafety.thy ===== *)
theory FileSafety
  imports FileProps
begin

text \<open>
  The requests of the file manager change nothing outside the root directory of their site, as long as its
  links neither dangle nor are used to get in from outside; and without these conditions they do.
\<close>

section \<open>Programs and the file system\<close>

interpretation fs_kept: store_invariant "\<lambda>w. w_fs w = F" for F
  by unfold_locales simp_all

definition fs_triple :: "(filesys \<Rightarrow> bool) \<Rightarrow> 'a io \<Rightarrow> ('a \<Rightarrow> filesys \<Rightarrow> bool) \<Rightarrow> bool" where
  "fs_triple P m Q \<longleftrightarrow> (\<forall>w. P (w_fs w) \<longrightarrow> Q (fst (run_state m w)) (w_fs (snd (run_state m w))))"

lemma fs_tripleD: "fs_triple P m Q \<Longrightarrow> P (w_fs w) \<Longrightarrow> run_state m w = (x, w') \<Longrightarrow> Q x (w_fs w')"
  unfolding fs_triple_def by (metis fst_conv snd_conv)

lemma t_bind:
  assumes "fs_triple P m Q" "\<And>x. fs_triple (Q x) (f x) S"
  shows "fs_triple P (State_Monad.bind m f) S"
  using assms unfolding fs_triple_def by (auto split: prod.splits)

lemma t_return: "(\<And>fs. P fs \<Longrightarrow> Q x fs) \<Longrightarrow> fs_triple P (State_Monad.return x) Q"
  by (simp add: fs_triple_def)

lemma t_answer: "(\<And>fs. P fs \<Longrightarrow> Q r fs) \<Longrightarrow> fs_triple P (answer r) Q"
  by (simp add: fs_triple_def)

lemma t_look: "(\<And>fs. P fs \<Longrightarrow> Q (q fs) fs) \<Longrightarrow> fs_triple P (fs_look q) Q"
  by (simp add: fs_triple_def fs_look_def)

lemma t_kept: "(\<And>F. preserves (\<lambda>w. w_fs w = F) m) \<Longrightarrow> (\<And>x fs. P fs \<Longrightarrow> Q x fs) \<Longrightarrow> fs_triple P m Q"
  unfolding fs_triple_def preserves_def by metis

lemma t_exec:
  assumes "\<And>fs. P fs \<Longrightarrow> Q False fs \<and> Q (snd (f fs)) (fst (f fs))"
  shows "fs_triple P (fs_exec f) Q"
proof (unfold fs_triple_def, intro allI impI)
  fix w :: world
  assume P: "P (w_fs w)"
  show "Q (fst (run_state (fs_exec f) w)) (w_fs (snd (run_state (fs_exec f) w)))"
  proof (cases "w_faults w")
    case Nil
    with assms [OF P] show ?thesis by (auto simp: fs_exec_def stmt_def split: prod.splits)
  next
    case (Cons b bs)
    with assms [OF P] show ?thesis by (cases b) (auto simp: fs_exec_def stmt_def split: prod.splits)
  qed
qed

lemma t_weaken: "fs_triple P m Q \<Longrightarrow> (\<And>fs. P' fs \<Longrightarrow> P fs) \<Longrightarrow> (\<And>x fs. Q x fs \<Longrightarrow> Q' x fs) \<Longrightarrow> fs_triple P' m Q'"
  by (auto simp: fs_triple_def)

lemma t_if: "(b \<Longrightarrow> fs_triple P m Q) \<Longrightarrow> (\<not> b \<Longrightarrow> fs_triple P n Q) \<Longrightarrow> fs_triple P (if b then m else n) Q"
  by simp

lemma t_option:
  "(opt = None \<Longrightarrow> fs_triple P m Q) \<Longrightarrow> (\<And>x. opt = Some x \<Longrightarrow> fs_triple P (f x) Q) \<Longrightarrow>
   fs_triple P (case opt of None \<Rightarrow> m | Some x \<Rightarrow> f x) Q"
  by (simp split: option.split)

lemma t_sum:
  "(\<And>e. r = Inl e \<Longrightarrow> fs_triple P (f e) Q) \<Longrightarrow> (\<And>x. r = Inr x \<Longrightarrow> fs_triple P (g x) Q) \<Longrightarrow>
   fs_triple P (case r of Inl e \<Rightarrow> f e | Inr x \<Rightarrow> g x) Q"
  by (simp split: sum.split)

lemma t_false: "(\<And>fs. \<not> P fs) \<Longrightarrow> fs_triple P m Q"
  by (simp add: fs_triple_def)

text \<open>What the database does and what is only read leaves the files alone.\<close>

lemma kept_record [intro, simp]: "preserves (\<lambda>w. w_fs w = F) (RecordAction i a r j d)"
  unfolding RecordAction_def Record_def by (intro fs_kept.keep_bind fs_kept.keep_stmt fs_kept.keep_skip) auto

lemma kept_record_file [intro, simp]: "preserves (\<lambda>w. w_fs w = F) (record_file c site d)"
  by (simp add: record_file_def)

lemma kept_answer [intro, simp]: "preserves I (answer r)"
  by (simp add: preserves_def)

lemma kept_success [intro, simp]: "preserves I (success c st m x)"
  by (simp add: success_def)

lemma kept_ok_answer [intro, simp]: "preserves I (ok_answer c fs)"
  by (simp add: ok_answer_def)

lemma kept_bad_request [intro, simp]: "preserves I (bad_request m)"
  by (simp add: bad_request_def)

lemma kept_fs_look [intro, simp]: "preserves I (fs_look q)"
  by (simp add: preserves_def fs_look_def)

lemma kept_fs_query [intro, simp]: "preserves (\<lambda>w. w_fs w = F) (fs_query q)"
  by (simp add: fs_query_def)

lemma kept_GetByID [intro, simp]:
  "preserves (\<lambda>w. w_fs w = F) (Sites_GetByID i)" "preserves (\<lambda>w. w_fs w = F) (Users_GetByID j)"
  by (simp_all add: Sites_GetByID_def Users_GetByID_def)

lemma kept_access [intro, simp]:
  "preserves (\<lambda>w. w_fs w = F) (canAccess sess site)" "preserves (\<lambda>w. w_fs w = F) (checkSitePermission sess site p)"
  unfolding canAccess_def checkSitePermission_def UserSites_HasAccess_def UserSites_GetPermission_def
  by (intro fs_kept.keep_rules kept_GetByID)+

section \<open>Requests\<close>

datatype file_request =
    ListFiles string
  | ReadFile string
  | Download string
  | Write "write_body option"
  | Create "create_body option"
  | Delete string
  | Rename "rename_body option"
  | Upload string "(string \<times> string) option"
  | Move "move_body option"
  | Compress "compress_body option"

fun file_handler :: "file_info \<Rightarrow> file_request \<Rightarrow> handler" where
  "file_handler fi (ListFiles path) = listFiles fi path"
| "file_handler fi (ReadFile path) = readFile fi path"
| "file_handler fi (Download path) = downloadFile path"
| "file_handler fi (Write b) = writeFile b"
| "file_handler fi (Create b) = createEntry b"
| "file_handler fi (Delete path) = deleteEntry path"
| "file_handler fi (Rename b) = renameEntry b"
| "file_handler fi (Upload path file) = uploadFile path file"
| "file_handler fi (Move b) = moveEntries b"
| "file_handler fi (Compress b) = compressEntries fi b"

text \<open>
  The conditions. Of the file system: it is well formed, \<open>R\<close> is the root directory of the site, no link below it
  dangles, no link outside leads in. Of a request: the new path of a renaming has no white space at its ends,
  and no link is in the path of the directory things are moved to.
\<close>

definition tame :: "filesys \<Rightarrow> string \<Rightarrow> place \<Rightarrow> bool" where
  "tame fs root R \<longleftrightarrow> wf_fs fs \<and> rooted root \<and> site_root fs root R \<and> no_dangling R fs \<and> no_way_in R fs"

fun plain_request :: "filesys \<Rightarrow> string \<Rightarrow> file_request \<Rightarrow> bool" where
  "plain_request fs root (Rename (Some b)) =
     (case safePath fs root (rb_old_path b) of
        Inl _ \<Rightarrow> True
      | Inr oldFull \<Rightarrow>
          let newRel = trim_prefix (renamed_path oldFull (rb_new_name b)) (path_clean root @ ''/'')
          in trim_space newRel = newRel)"
| "plain_request fs root (Move (Some b)) =
     (case safePath fs root (mb_dest b) of
        Inl _ \<Rightarrow> True
      | Inr destFull \<Rightarrow> (case follow fs 0 [] (path_elems destFull) of Found _ \<Rightarrow> True | _ \<Rightarrow> False))"
| "plain_request fs root _ = True"

lemma tame_safePath:
  assumes "tame F root R" "safePath F root rel = Inr full"
  obtains rest where "full = abs_path (path_elems root @ rest)" "confined F R (path_elems root @ rest)"
proof -
  from assms(1) have t: "wf_fs F" "rooted root" "real_root F root = Some R"
    using site_root_real by (auto simp: tame_def)
  from safePath_confined [OF t(1,2) assms(2)] that t(3) show thesis by (metis option.inject)
qed

abbreviation kept_outside :: "place \<Rightarrow> filesys \<Rightarrow> reply \<Rightarrow> filesys \<Rightarrow> bool" where
  "kept_outside R F \<equiv> \<lambda>_. same_outside R F"

lemma t_unchanged: "(\<And>G. preserves (\<lambda>w. w_fs w = G) m) \<Longrightarrow> fs_triple (\<lambda>fs. fs = F) m (\<lambda>_. same_outside R F)"
  by (rule t_kept) auto

lemma t_bad: "fs_triple (\<lambda>fs. fs = F) (bad_request m) (\<lambda>_. same_outside R F)"
  by (rule t_unchanged) simp

lemma t_outside: "(\<And>G. preserves (\<lambda>w. w_fs w = G) m) \<Longrightarrow> fs_triple (same_outside R F) m (\<lambda>_. same_outside R F)"
  by (rule t_kept)

lemma t_with_path:
  assumes "tame F (ste_root_path site) R"
    and "\<And>rest. safePath F (ste_root_path site) rel = Inr (abs_path (path_elems (ste_root_path site) @ rest)) \<Longrightarrow>
      confined F R (path_elems (ste_root_path site) @ rest) \<Longrightarrow>
      fs_triple (\<lambda>fs. fs = F) (body (abs_path (path_elems (ste_root_path site) @ rest))) (kept_outside R F)"
  shows "fs_triple (\<lambda>fs. fs = F) (with_path site rel body) (kept_outside R F)"
  unfolding with_path_def
proof (rule t_bind [OF t_look [where Q = "\<lambda>r fs. fs = F \<and> r = safePath F (ste_root_path site) rel"]])
  fix r
  show "fs_triple (\<lambda>fs. fs = F \<and> r = safePath F (ste_root_path site) rel)
      (case r of Inl e \<Rightarrow> answer e | Inr full \<Rightarrow> body full) (kept_outside R F)"
  proof (cases r)
    case (Inl e)
    then show ?thesis by (auto intro: t_answer)
  next
    case (Inr full)
    show ?thesis
    proof (cases "r = safePath F (ste_root_path site) rel")
      case True
      with Inr have safe: "safePath F (ste_root_path site) rel = Inr full" by simp
      from tame_safePath [OF assms(1) safe] obtain rest where "full = abs_path (path_elems (ste_root_path site) @ rest)"
        "confined F R (path_elems (ste_root_path site) @ rest)" .
      with assms(2) [of rest] safe Inr show ?thesis by (auto intro: t_weaken)
    qed (auto intro: t_false)
  qed
qed simp

section \<open>Writing\<close>

text \<open>After directories were made for a checked path, and after a file was written there.\<close>

definition made :: "place \<Rightarrow> filesys \<Rightarrow> string list \<Rightarrow> filesys \<Rightarrow> bool" where
  "made R F es fs \<longleftrightarrow> wf_fs fs \<and> same_outside R F fs \<and> targets R fs es"

lemma made_MkdirAll:
  assumes "tame F root R" "confined F R es"
  shows "fs_triple (\<lambda>fs. fs = F) (fs_exec (\<lambda>fs. os_MkdirAll fs (path_dir (abs_path es)))) (\<lambda>_. made R F es)"
    and "fs_triple (\<lambda>fs. fs = F) (fs_exec (\<lambda>fs. os_MkdirAll fs (abs_path es))) (\<lambda>_. made R F es)"
proof -
  from assms(1) have t: "wf_fs F" "no_dangling R F" by (simp_all add: tame_def)
  have m: "made R F es fs" if "wf_fs fs" "grown R F fs" for fs
    using that target_within [OF t(1) assms(2) t(2) that(2)] by (auto simp: made_def targets_def grown_def)
  from MkdirAll_grows [OF t(1) assms(2)] m m [OF t(1)]
  show "fs_triple (\<lambda>fs. fs = F) (fs_exec (\<lambda>fs. os_MkdirAll fs (path_dir (abs_path es)))) (\<lambda>_. made R F es)"
    and "fs_triple (\<lambda>fs. fs = F) (fs_exec (\<lambda>fs. os_MkdirAll fs (abs_path es))) (\<lambda>_. made R F es)"
    by (auto intro!: t_exec) (metis prod.collapse)+
qed

lemma made_put:
  assumes m: "made R F es fs" "made R F ds fs" and proper: "list_all proper_elem es"
    and wr: "os_WriteFile fs (abs_path es) content = Some fs'"
  shows "made R F ds fs'"
proof -
  from m(1) WriteFile_puts [OF _ proper _ wr] have "wf_fs fs'" "file_put R fs fs'" by (auto simp: made_def)
  with m(2) file_put_outside same_outside_trans file_put_targets show ?thesis unfolding made_def by blast
qed

text \<open>A write to one path keeps this for another.\<close>

lemma made_WriteFiles:
  assumes "list_all proper_elem es"
  shows "fs_triple (\<lambda>fs. made R F es fs \<and> made R F ds fs)
    (fs_exec (if_done (\<lambda>fs. os_WriteFile fs (abs_path es) content))) (\<lambda>_ fs. made R F es fs \<and> made R F ds fs)"
proof (rule t_exec)
  fix fs
  assume m: "made R F es fs \<and> made R F ds fs"
  with made_put [OF _ _ assms] show "(made R F es fs \<and> made R F ds fs) \<and>
      made R F es (fst (if_done (\<lambda>fs. os_WriteFile fs (abs_path es) content) fs)) \<and>
      made R F ds (fst (if_done (\<lambda>fs. os_WriteFile fs (abs_path es) content) fs))"
    by (cases "os_WriteFile fs (abs_path es) content") (auto simp: if_done_def)
qed

lemma made_WriteFile:
  assumes "list_all proper_elem es"
  shows "fs_triple (made R F es) (fs_exec (if_done (\<lambda>fs. os_WriteFile fs (abs_path es) content))) (\<lambda>_. made R F es)"
  by (rule t_weaken [OF made_WriteFiles [OF assms, where ds = es]]) simp_all

lemma t_made: "(\<And>G. preserves (\<lambda>w. w_fs w = G) m) \<Longrightarrow> fs_triple (made R F es) m (kept_outside R F)"
  by (rule t_kept) (auto simp: made_def)

lemmas t_steps = fs_kept.keep_rules kept_record_file kept_success kept_answer kept_ok_answer kept_bad_request kept_fs_look kept_fs_query

text \<open>A request on a site that exists is the body on that site or an error.\<close>

lemma with_site_outside:
  assumes resolve: "resolve = resolveSite \<or> resolve = resolveSiteWrite"
    and site: "by_id ste_id (fst (atoi (cx_param c ''id''))) (w_sites w) = Some s"
    and body: "fs_triple (\<lambda>fs. fs = w_fs w) (body s c) (kept_outside R (w_fs w))"
  shows "same_outside R (w_fs w) (w_fs (snd (run_state (with_site resolve body c) w)))"
proof -
  have any: "\<exists>r w'. run_state (resolve_with allowed c) w = (r, w') \<and> w_fs w' = w_fs w \<and> (r = Inl site_not_found \<or> r = Inr s)"
    if allowed: "\<And>G sess site. preserves (\<lambda>w. w_fs w = G) (allowed sess site)" for allowed
  proof -
    have "fst (run_state (Sites_GetByID i) w) = Inr (by_id ste_id i (w_sites w)) \<or> (\<exists>e. fst (run_state (Sites_GetByID i) w) = Inl e)"
      for i :: int and w :: world
      by (rule query_cases [of "''scan site''" "\<lambda>w. by_id ste_id i (w_sites w)" w]) (auto simp: Sites_GetByID_def)
    from this [of "fst (atoi (cx_param c ''id''))" w] show ?thesis
    proof
      let ?i = "fst (atoi (cx_param c ''id''))"
      assume f: "fst (run_state (Sites_GetByID ?i) w) = Inr (by_id ste_id ?i (w_sites w))"
      obtain w1 where w1: "run_state (Sites_GetByID ?i) w = (Inr (Some s), w1)"
        using f site by (cases "run_state (Sites_GetByID ?i) w") simp
      have "w_fs w1 = w_fs w" using preservesD [where m = "Sites_GetByID ?i" and w = w, OF kept_GetByID(1) refl] w1 by simp
      obtain ok w2 where w2: "run_state (allowed (cx_session c) s) w1 = (ok, w2)" by fastforce
      have "w_fs w2 = w_fs w1" using preservesD [where m = "allowed (cx_session c) s" and w = w1, OF allowed refl] w2 by simp
      with w1 w2 \<open>w_fs w1 = w_fs w\<close> show ?thesis by (simp add: resolve_with_def)
    next
      let ?i = "fst (atoi (cx_param c ''id''))"
      assume "\<exists>e. fst (run_state (Sites_GetByID ?i) w) = Inl e"
      then obtain e w1 where w1: "run_state (Sites_GetByID ?i) w = (Inl e, w1)"
        by (cases "run_state (Sites_GetByID ?i) w") auto
      have "w_fs w1 = w_fs w" using preservesD [where m = "Sites_GetByID ?i" and w = w, OF kept_GetByID(1) refl] w1 by simp
      with w1 show ?thesis by (simp add: resolve_with_def)
    qed
  qed
  have "\<exists>r w'. run_state (resolve c) w = (r, w') \<and> w_fs w' = w_fs w \<and> (r = Inl site_not_found \<or> r = Inr s)"
    using resolve any [OF kept_access(1)] any [OF kept_access(2)] by (auto simp only: resolveSite_def resolveSiteWrite_def)
  then obtain r w' where r: "run_state (resolve c) w = (r, w')" "w_fs w' = w_fs w" "r = Inl site_not_found \<or> r = Inr s"
    by blast
  obtain x w2 where x: "run_state (body s c) w' = (x, w2)" by fastforce
  from fs_tripleD [OF body _ x] r(2) have "same_outside R (w_fs w) (w_fs w2)" by simp
  with r x show ?thesis by (auto simp: with_site_def)
qed

text \<open>The requests that read.\<close>

lemma reads_outside:
  assumes "by_id ste_id (fst (atoi (cx_param c ''id''))) (w_sites w) = Some s"
  shows "same_outside R (w_fs w) (w_fs (snd (run_state (listFiles fi path c) w)))"
    and "same_outside R (w_fs w) (w_fs (snd (run_state (readFile fi path c) w)))"
    and "same_outside R (w_fs w) (w_fs (snd (run_state (downloadFile path c) w)))"
proof -
  note site = with_site_outside [OF disjI1 [OF refl] assms]
  show "same_outside R (w_fs w) (w_fs (snd (run_state (listFiles fi path c) w)))"
    unfolding listFiles_def with_path_def Let_def by (rule site, rule t_unchanged, intro t_steps)
  show "same_outside R (w_fs w) (w_fs (snd (run_state (readFile fi path c) w)))"
    unfolding readFile_def with_path_def Let_def by (rule site, rule t_unchanged, intro t_steps)
  show "same_outside R (w_fs w) (w_fs (snd (run_state (downloadFile path c) w)))"
    unfolding downloadFile_def with_path_def Let_def by (rule site, rule t_unchanged, intro t_steps)
qed

text \<open>The requests that write.\<close>

lemma writes_outside:
  assumes site: "by_id ste_id (fst (atoi (cx_param c ''id''))) (w_sites w) = Some s"
    and tame: "tame (w_fs w) (ste_root_path s) R"
  shows "same_outside R (w_fs w) (w_fs (snd (run_state (writeFile wb c) w)))"
    and "same_outside R (w_fs w) (w_fs (snd (run_state (createEntry cb c) w)))"
proof -
  note path = t_with_path [OF tame]
  have bad: "fs_triple (\<lambda>fs. fs = w_fs w) (bad_request m) (kept_outside R (w_fs w))" for m
    by (rule t_unchanged) simp
  have "fs_triple (\<lambda>fs. fs = w_fs w) (with_path s (wb_path b) (\<lambda>full. do {
      _ \<leftarrow> fs_exec (\<lambda>fs. os_MkdirAll fs (path_dir full));
      ok \<leftarrow> fs_exec (if_done (\<lambda>fs. os_WriteFile fs full (wb_content b)));
      if \<not> ok then answer (HTTPError 500 ''failed to write'')
      else do { _ \<leftarrow> record_file c s ds; success c 200 ''File saved'' [] } })) (kept_outside R (w_fs w))" for b ds
    by (rule path, rule t_bind [OF made_MkdirAll(1) [OF tame]], assumption,
        rule t_bind [OF made_WriteFile], erule confined_proper) (rule t_made; intro t_steps)
  then show "same_outside R (w_fs w) (w_fs (snd (run_state (writeFile wb c) w)))"
    unfolding writeFile_def by (intro with_site_outside [OF disjI2 [OF refl] site] t_option t_if bad)
  have "fs_triple (\<lambda>fs. fs = w_fs w) (with_path s (cb_path b) (\<lambda>full. do {
      _ \<leftarrow> (if cb_is_dir b then fs_exec (\<lambda>fs. os_MkdirAll fs full)
           else do {
             _ \<leftarrow> fs_exec (\<lambda>fs. os_MkdirAll fs (path_dir full));
             fs_exec (if_done (\<lambda>fs. os_WriteFile fs full []))
           });
      _ \<leftarrow> record_file c s ds;
      success c 201 ''Created'' [] })) (kept_outside R (w_fs w))" for b ds
  proof (rule path)
    fix rest
    let ?es = "path_elems (ste_root_path s) @ rest"
    assume safe: "confined (w_fs w) R ?es"
    have "fs_triple (\<lambda>fs. fs = w_fs w) (if cb_is_dir b then fs_exec (\<lambda>fs. os_MkdirAll fs (abs_path ?es))
           else do {
             _ \<leftarrow> fs_exec (\<lambda>fs. os_MkdirAll fs (path_dir (abs_path ?es)));
             fs_exec (if_done (\<lambda>fs. os_WriteFile fs (abs_path ?es) []))
           }) (\<lambda>_. made R (w_fs w) ?es)"
      by (intro t_if made_MkdirAll(2) [OF tame safe] t_bind [OF made_MkdirAll(1) [OF tame safe]]
          made_WriteFile [OF confined_proper [OF safe]])
    then show "fs_triple (\<lambda>fs. fs = w_fs w) (do {
      _ \<leftarrow> (if cb_is_dir b then fs_exec (\<lambda>fs. os_MkdirAll fs (abs_path ?es))
           else do {
             _ \<leftarrow> fs_exec (\<lambda>fs. os_MkdirAll fs (path_dir (abs_path ?es)));
             fs_exec (if_done (\<lambda>fs. os_WriteFile fs (abs_path ?es) []))
           });
      _ \<leftarrow> record_file c s ds;
      success c 201 ''Created'' [] }) (kept_outside R (w_fs w))"
      by (rule t_bind) (rule t_made; intro t_steps)
  qed
  then show "same_outside R (w_fs w) (w_fs (snd (run_state (createEntry cb c) w)))"
    unfolding createEntry_def by (intro with_site_outside [OF disjI2 [OF refl] site] t_option t_if bad)
qed

lemma upload_outside:
  assumes site: "by_id ste_id (fst (atoi (cx_param c ''id''))) (w_sites w) = Some s"
    and tame: "tame (w_fs w) (ste_root_path s) R"
  shows "same_outside R (w_fs w) (w_fs (snd (run_state (uploadFile path file c) w)))"
proof -
  have step: "fs_triple (\<lambda>fs. fs = w_fs w) (with_path s rel (\<lambda>dst. do {
             _ \<leftarrow> fs_exec (\<lambda>fs. os_MkdirAll fs (path_dir dst));
             created \<leftarrow> fs_exec (if_done (\<lambda>fs. os_WriteFile fs dst []));
             if \<not> created then answer (HTTPError 500 ''failed to create file'')
             else do {
               copied \<leftarrow> fs_exec (if_done (\<lambda>fs. os_WriteFile fs dst content));
               if \<not> copied then answer (HTTPError 500 ''failed to save file'')
               else do { _ \<leftarrow> record_file c s ds; success c 200 ''Uploaded'' es }
             } })) (kept_outside R (w_fs w))" for rel content ds es
    by (rule t_with_path [OF tame], rule t_bind [OF made_MkdirAll(1) [OF tame]], assumption,
        rule t_bind [OF made_WriteFile], erule confined_proper, rule t_if, (rule t_made; intro t_steps),
        rule t_bind [OF made_WriteFile], erule confined_proper) (rule t_made; intro t_steps)
  show ?thesis
    unfolding uploadFile_def Let_def
  proof (rule with_site_outside [OF disjI2 [OF refl] site], rule t_with_path [OF tame])
    fix rest
    show "fs_triple (\<lambda>fs. fs = w_fs w) (case file of None \<Rightarrow> bad_request ''file field required''
       | Some (clientName, content) \<Rightarrow>
           if path_base clientName \<in> {[], ''.'', ''..'', ''/''} then bad_request ''invalid filename''
           else with_path s (path_join (if path = [] then ''.'' else path) (path_base clientName)) (\<lambda>dst. do {
             _ \<leftarrow> fs_exec (\<lambda>fs. os_MkdirAll fs (path_dir dst));
             created \<leftarrow> fs_exec (if_done (\<lambda>fs. os_WriteFile fs dst []));
             if \<not> created then answer (HTTPError 500 ''failed to create file'')
             else do {
               copied \<leftarrow> fs_exec (if_done (\<lambda>fs. os_WriteFile fs dst content));
               if \<not> copied then answer (HTTPError 500 ''failed to save file'')
               else do {
                 _ \<leftarrow> record_file c s [(''action'', JStr ''file_upload''), (''is_dir'', JBool False),
                        (''item_type'', JStr ''file''), (''path'', JStr (path_join (if path = [] then ''.'' else path) (path_base clientName))),
                        (''size'', JNum (int (length content)))];
                 success c 200 ''Uploaded'' [(''name'', JStr (path_base clientName)), (''size'', JNum (int (length content))),
                   (''path'', JStr (path_join (if path = [] then ''.'' else path) (path_base clientName)))]
               }
             }
           })) (kept_outside R (w_fs w))"
      by (simp split: option.split prod.split) (auto intro!: t_unchanged step)
  qed
qed

end
