(* ===== verification/FileMoves.thy ===== *)
theory FileMoves
  imports FileSafety
begin

text \<open>
  The requests of the file manager that remove, rename, move and pack: where the entries they name are, and
  what is left of the conditions for the next step of the same request.
\<close>

section \<open>Deleting\<close>

lemma t_remove:
  assumes "\<And>fs. P fs \<Longrightarrow> same_outside R F fs" "\<And>fs p. P fs \<Longrightarrow> entry_of fs path = Some p \<Longrightarrow> within R p"
  shows "fs_triple P (fs_exec (\<lambda>fs. (os_RemoveAll fs path, True))) (\<lambda>_. same_outside R F)"
proof (rule t_exec)
  fix fs
  assume P: "P fs"
  from same_outside_trans [OF assms(1) [OF P] RemoveAll_outside [OF assms(2) [OF P]]] assms(1) [OF P]
  show "same_outside R F fs \<and> same_outside R F (fst (os_RemoveAll fs path, True))" by simp
qed

lemma delete_outside:
  assumes site: "by_id ste_id (fst (atoi (cx_param c ''id''))) (w_sites w) = Some s"
    and tame: "tame (w_fs w) (ste_root_path s) R"
  shows "same_outside R (w_fs w) (w_fs (snd (run_state (deleteEntry path c) w)))"
proof -
  have "fs_triple (\<lambda>fs. fs = w_fs w) (with_path s path (\<lambda>full.
       if full = path_clean (ste_root_path s) then bad_request ''cannot delete site root''
       else do {
         isDir \<leftarrow> fs_look (\<lambda>fs. os_Stat fs full = Some DirNode);
         _ \<leftarrow> fs_exec (\<lambda>fs. (os_RemoveAll fs full, True));
         _ \<leftarrow> record_file c s [(''action'', JStr ''file_delete''), (''is_dir'', JBool isDir),
                (''item_type'', JStr (fileAuditItemType isDir)), (''path'', JStr path)];
         success c 200 ''Deleted'' []
       })) (kept_outside R (w_fs w))"
  proof (rule t_with_path [OF tame])
    fix rest
    let ?full = "abs_path (path_elems (ste_root_path s) @ rest)"
    assume safe: "confined (w_fs w) R (path_elems (ste_root_path s) @ rest)"
    have inside: "entry_of (w_fs w) ?full = Some p \<Longrightarrow> within R p" for p
      using entry_within [OF _ safe] tame by (simp add: tame_def)
    show "fs_triple (\<lambda>fs. fs = w_fs w) (if ?full = path_clean (ste_root_path s) then bad_request ''cannot delete site root''
       else do {
         isDir \<leftarrow> fs_look (\<lambda>fs. os_Stat fs ?full = Some DirNode);
         _ \<leftarrow> fs_exec (\<lambda>fs. (os_RemoveAll fs ?full, True));
         _ \<leftarrow> record_file c s [(''action'', JStr ''file_delete''), (''is_dir'', JBool isDir),
                (''item_type'', JStr (fileAuditItemType isDir)), (''path'', JStr path)];
         success c 200 ''Deleted'' []
       }) (kept_outside R (w_fs w))"
    proof (rule t_if)
      show "fs_triple (\<lambda>fs. fs = w_fs w) (do {
         isDir \<leftarrow> fs_look (\<lambda>fs. os_Stat fs ?full = Some DirNode);
         _ \<leftarrow> fs_exec (\<lambda>fs. (os_RemoveAll fs ?full, True));
         _ \<leftarrow> record_file c s [(''action'', JStr ''file_delete''), (''is_dir'', JBool isDir),
                (''item_type'', JStr (fileAuditItemType isDir)), (''path'', JStr path)];
         success c 200 ''Deleted'' []
       }) (kept_outside R (w_fs w))"
        by (rule t_bind [OF t_look [where Q = "\<lambda>_ fs. fs = w_fs w"]], assumption,
            rule t_bind [OF t_remove [where F = "w_fs w" and R = R]], simp, rule inside, simp)
          (rule t_outside, intro t_steps)
    qed (rule t_bad)
  qed
  then show ?thesis
    unfolding deleteEntry_def by (intro with_site_outside [OF disjI2 [OF refl] site] t_if t_bad)
qed

section \<open>Renaming\<close>

lemma path_clean_plain: "\<not> rooted p \<Longrightarrow> path_elems p = es \<Longrightarrow> es \<noteq> [] \<Longrightarrow> path_clean p = join_on CHR ''/'' es"
  by (auto simp: path_clean_def path_elems_def rooted_def Let_def)

lemma clean_elems_proper_relative: "list_all proper_elem es \<Longrightarrow> clean_elems False st es = rev st @ es"
  by (induction es arbitrary: st) (auto simp: proper_elem_def plain_elem_def)

lemma path_clean_join_on:
  assumes "list_all proper_elem es" "es \<noteq> []"
  shows "path_clean (join_on CHR ''/'' es) = join_on CHR ''/'' es" "\<not> rooted (join_on CHR ''/'' es)"
    "split_on CHR ''/'' (join_on CHR ''/'' es) = es"
proof -
  have plain: "list_all plain_elem es" using assms(1) by (auto simp: list_all_iff proper_elem_def)
  show split: "split_on CHR ''/'' (join_on CHR ''/'' es) = es"
    using assms proper_no_slash by (intro split_join_on) auto
  show rel: "\<not> rooted (join_on CHR ''/'' es)"
    using join_ends [OF assms(2) plain] by (auto simp: rooted_iff)
  show "path_clean (join_on CHR ''/'' es) = join_on CHR ''/'' es"
    by (rule path_clean_plain [OF rel]) (simp_all add: assms path_elems_def rel split clean_elems_proper_relative)
qed

text \<open>
  The path of a renamed entry, made relative to the root directory and checked, is the path itself: one that
  is not below the root directory stays absolute, which \<open>safePath\<close> does not allow.
\<close>

lemma safePath_renamed:
  assumes root: "rooted root" "path_elems root \<noteq> []" and ns: "list_all proper_elem ns"
    and rel: "rel = trim_prefix (abs_path ns) (path_clean root @ ''/'')" "trim_space rel = rel"
    and ok: "safePath fs root rel = Inr full"
  shows "full = abs_path ns"
proof (cases "has_prefix (abs_path ns) (path_clean root @ ''/'')")
  case False
  with rel have "rel = abs_path ns" by (simp add: trim_prefix_def)
  moreover have "has_prefix (abs_path ns) ''/''" using rooted_abs_path by (simp only: rooted_def)
  moreover have "abs_path ns \<noteq> []" by (simp add: abs_path_def)
  ultimately have False using ok rel(2) ns by (auto simp: safePath_def Let_def split: if_splits)
  then show ?thesis ..
next
  case True
  let ?rs = "path_elems root"
  have rs: "list_all proper_elem ?rs" by (rule path_elems_proper [OF root(1)])
  have clean: "path_clean root = abs_path ?rs" by (rule path_clean_abs [OF root(1)])
  from abs_path_below [OF ns rs] True clean obtain rest where rest: "rest \<noteq> []" "ns = ?rs @ rest" by auto
  then have proper: "list_all proper_elem rest" using ns by simp
  note p = path_clean_join_on [OF proper rest(1)]
  have "abs_path ns = abs_path ?rs @ ''/'' @ join_on CHR ''/'' rest"
    using rest root(2) by (simp add: abs_path_append) (simp add: abs_path_def)
  then have rel': "rel = join_on CHR ''/'' rest" using rel(1) True by (simp add: trim_prefix_def clean)
  have ne: "rel \<noteq> []" using join_ends [OF rest(1)] proper by (auto simp: rel' list_all_iff proper_elem_def)
  have "full = path_join root rel"
    using ok rel(2) ne p(1) by (auto simp: safePath_def Let_def rel' split: if_splits option.splits)
  also have "\<dots> = path_clean (root @ CHR ''/'' # rel)"
    using ne root(1) by (auto simp: path_join_def rooted_iff)
  also have "\<dots> = abs_path (path_elems (root @ CHR ''/'' # rel))"
    using root(1) by (intro path_clean_abs) (auto simp: rooted_iff)
  also have "path_elems (root @ CHR ''/'' # rel) = ns"
    using path_elems_app [OF root(1), of rel] clean_elems_proper [OF proper] rest(2) by (simp add: rel' p(3))
  finally show ?thesis .
qed

lemma site_root_elems: "site_root fs root R \<Longrightarrow> path_elems root \<noteq> []"
  by (auto simp: site_root_def)

lemma t_rename:
  assumes wf: "wf_fs F" and inward: "no_way_in R F" and es: "confined F R es" and es': "confined F R es'"
  shows "fs_triple (\<lambda>fs. fs = F) (fs_exec (if_done (\<lambda>fs. os_Rename fs (abs_path es) (abs_path es')))) (\<lambda>_. same_outside R F)"
proof (rule t_exec)
  fix fs
  assume F: "fs = F"
  have "same_outside R F (fst (if_done (\<lambda>fs. os_Rename fs (abs_path es) (abs_path es')) F))"
  proof (cases "os_Rename F (abs_path es) (abs_path es')")
    case None
    then show ?thesis by (simp add: if_done_def)
  next
    case (Some fs')
    from wf Some confined_proper [OF es] confined_proper [OF es'] have "same_outside R F fs'"
    proof (cases rule: Rename_moves)
      case (moved p q)
      then show ?thesis
        using entry_within [OF wf es inward] entry_within [OF wf es' inward] by (auto intro: move_outside)
    qed simp
    with Some show ?thesis by (simp add: if_done_def)
  qed
  with F show "same_outside R F fs \<and> same_outside R F (fst (if_done (\<lambda>fs. os_Rename fs (abs_path es) (abs_path es')) fs))"
    by simp
qed

lemma path_join_rooted:
  assumes "rooted a"
  obtains ns where "list_all proper_elem ns" "path_join a b = abs_path ns"
proof -
  have "rooted (a @ CHR ''/'' # b)" "a \<noteq> []" using assms by (auto simp: rooted_iff)
  with assms that path_elems_proper show thesis
    by (cases "b = []") (auto simp: path_join_def path_clean_abs)
qed

lemma rename_outside:
  assumes site: "by_id ste_id (fst (atoi (cx_param c ''id''))) (w_sites w) = Some s"
    and tame: "tame (w_fs w) (ste_root_path s) R"
    and plain: "plain_request (w_fs w) (ste_root_path s) (Rename body)"
  shows "same_outside R (w_fs w) (w_fs (snd (run_state (renameEntry body c) w)))"
proof -
  let ?F = "w_fs w" and ?root = "ste_root_path s"
  from tame have t: "wf_fs ?F" "rooted ?root" "path_elems ?root \<noteq> []" "no_way_in R ?F"
    using site_root_elems by (auto simp: tame_def)
  have "fs_triple (\<lambda>fs. fs = ?F) (with_path s (rb_old_path b) (\<lambda>oldFull.
           let newFull = renamed_path oldFull (rb_new_name b);
               newRel = trim_prefix newFull (path_clean ?root @ ''/'')
           in with_path s newRel (\<lambda>_. do {
             isDir \<leftarrow> fs_look (\<lambda>fs. os_Stat fs oldFull = Some DirNode);
             ok \<leftarrow> fs_exec (if_done (\<lambda>fs. os_Rename fs oldFull newFull));
             if \<not> ok then answer (HTTPError 500 ''failed to rename'')
             else do {
               _ \<leftarrow> record_file c s [(''action'', JStr ''file_rename''), (''is_dir'', JBool isDir),
                      (''item_type'', JStr (fileAuditItemType isDir)), (''new_name'', JStr (rb_new_name b)),
                      (''old_path'', JStr (rb_old_path b))];
               success c 200 ''Renamed'' []
             }
           }))) (kept_outside R ?F)" if b: "body = Some b" for b
    unfolding Let_def
  proof (rule t_with_path [OF tame], rule t_with_path [OF tame])
    fix rest rest'
    let ?es = "path_elems ?root @ rest" and ?es' = "path_elems ?root @ rest'"
    let ?new = "renamed_path (abs_path ?es) (rb_new_name b)"
    assume old: "safePath ?F ?root (rb_old_path b) = Inr (abs_path ?es)" "confined ?F R ?es"
      and new: "safePath ?F ?root (trim_prefix ?new (path_clean ?root @ ''/'')) = Inr (abs_path ?es')" "confined ?F R ?es'"
    have "rooted (path_dir (abs_path ?es))" by (simp add: path_dir_abs_path [OF confined_proper [OF old(2)]])
    from path_join_rooted [OF this] obtain ns where ns: "list_all proper_elem ns" "?new = abs_path ns"
      unfolding renamed_path_def by metis
    have "trim_space (trim_prefix ?new (path_clean ?root @ ''/'')) = trim_prefix ?new (path_clean ?root @ ''/'')"
      using plain old(1) b by (simp add: Let_def)
    from safePath_renamed [OF t(2,3) ns(1) _ this new(1)] ns(2) have n: "?new = abs_path ?es'" by simp
    show "fs_triple (\<lambda>fs. fs = ?F) (do {
             isDir \<leftarrow> fs_look (\<lambda>fs. os_Stat fs (abs_path ?es) = Some DirNode);
             ok \<leftarrow> fs_exec (if_done (\<lambda>fs. os_Rename fs (abs_path ?es) ?new));
             if \<not> ok then answer (HTTPError 500 ''failed to rename'')
             else do {
               _ \<leftarrow> record_file c s [(''action'', JStr ''file_rename''), (''is_dir'', JBool isDir),
                      (''item_type'', JStr (fileAuditItemType isDir)), (''new_name'', JStr (rb_new_name b)),
                      (''old_path'', JStr (rb_old_path b))];
               success c 200 ''Renamed'' []
             }
           }) (kept_outside R ?F)"
      unfolding n
      by (rule t_bind [OF t_look [where Q = "\<lambda>_ fs. fs = ?F"]], assumption,
          rule t_bind [OF t_rename [OF t(1,4) old(2) new(2)]])
        (rule t_outside, intro t_steps)
  qed
  then show ?thesis
    unfolding renameEntry_def by (intro with_site_outside [OF disjI2 [OF refl] site] t_option t_if t_bad)
qed

section \<open>Moving\<close>

text \<open>What holds while the entries of a request are moved one after the other into the directory at \<open>ds\<close>.\<close>

definition moving :: "place \<Rightarrow> filesys \<Rightarrow> string \<Rightarrow> string list \<Rightarrow> filesys \<Rightarrow> bool" where
  "moving R F root ds fs \<longleftrightarrow> wf_fs fs \<and> same_outside R F fs \<and> site_root fs root R \<and> no_way_in R fs
     \<and> ((\<exists>z. follow fs 0 [] ds = Found z \<and> within R z) \<or> (\<exists>x rest. follow fs 0 [] ds = Missing x rest))"

lemma moving_entry:
  assumes "moving R F root ds fs" "list_all proper_elem ds" "proper_elem c" "entry_of fs (abs_path (ds @ [c])) = Some q"
  obtains d where "q = d @ [c]" "within R d" "look fs d = Some DirNode" "follow fs 40 [] ds = Found d"
proof -
  from assms(2,3) have "list_all proper_elem (ds @ [c])" by simp
  from entry_of_abs [OF this assms(4)] obtain d where d: "follow fs 40 [] ds = Found d" "look fs d = Some DirNode" "q = d @ [c]"
    by auto
  have "follow fs 40 [] ds = r" if "follow fs 0 [] ds = r" "r \<noteq> Loop" for r
    by (rule follow_mono [OF that]) simp
  with assms(1) d(1) have "within R d" unfolding moving_def by (metis walked.distinct(1,5) walked.inject(1) walked.distinct(9))
  with d that show thesis by blast
qed

lemma moving_step:
  assumes m: "moving R F root ds fs" and ds: "list_all proper_elem ds" and es: "confined fs R es" and c: "proper_elem c"
    and free: "os_Stat fs (abs_path (ds @ [c])) = None"
    and rename: "os_Rename fs (abs_path es) (abs_path (ds @ [c])) = Some fs'"
  shows "moving R F root ds fs'"
proof -
  from m have t: "wf_fs fs" "same_outside R F fs" "site_root fs root R" "no_way_in R fs" by (simp_all add: moving_def)
  have proper: "list_all proper_elem (ds @ [c])" using ds c by simp
  from t(1) rename confined_proper [OF es] proper show ?thesis
  proof (cases rule: Rename_moves)
    case same
    with m show ?thesis by simp
  next
    case (moved p q)
    from moving_entry [OF m ds c moved(2)] obtain d where q: "q = d @ [c]" "within R d" "look fs d = Some DirNode"
      "follow fs 40 [] ds = Found d" .
    have p: "within R p" by (rule entry_within [OF t(1) es t(4) moved(1)])
    have wq: "within R q" using q(1,2) by (auto simp: within_iff)
    have root: "R \<noteq> []" "look fs R = Some DirNode" using t(3) by (simp_all add: site_root_def)
    have wf: "wf_fs fs'" unfolding moved(3) using t(1) moved by (intro wf_move_below) auto
    have out: "same_outside R fs fs'" unfolding moved(3) by (rule move_outside [OF moved(4,5) p wq])
    have "\<not> within p R" using within_trans [of p R q] wq moved(6) by blast
    moreover have "\<not> within q R"
    proof
      assume "within q R"
      with wq have "q = R" by (auto simp: within_iff)
      with moved(10) root(2) show False by simp
    qed
    ultimately have "look fs' R = Some DirNode"
      unfolding moved(3) using move_below_other [OF moved(4,5)] root(2) by simp
    with site_root_outside [OF t(3) out] have root': "site_root fs' root R" by simp
    have "follow fs 0 [] q \<noteq> Found x" if node: "look fs q = Some node" for node x
    proof (cases node)
      case (LinkNode target)
      with node q(1) c follow_dirs [OF t(1) q(3), of 0 "[c]"] show ?thesis by (simp add: proper_step)
    next
      case (FileNode content)
      from follow_append [OF q(4,3), of "[c]"] node FileNode q(1) c
      have "follow fs 40 [] (ds @ [c]) = Found q" by (auto simp: proper_step)
      with kernel_walk_abs [OF proper, of fs] free node show ?thesis by (simp add: os_Stat_def)
    next
      case DirNode
      with node moved(10) show ?thesis by simp
    qed
    then have avoid: "look fs q = None \<or> avoided fs 0 q" by (cases "look fs q") (auto simp: avoided_def)
    from moving_def m have "(\<exists>z. follow fs' 0 [] ds = Found z \<and> within R z) \<or> (\<exists>x rest. follow fs' 0 [] ds = Missing x rest)"
    proof -
      have at40: "follow fs 40 [] ds = r" if "follow fs 0 [] ds = r" "r \<noteq> Loop" for r
        by (rule follow_mono [OF that]) simp
      have "follow fs 0 [] ds = Found d"
        using m at40 q(4) by (auto simp: moving_def)
      from move_follow [OF t(1) moved(4,5,6,7,10) avoid order_refl this] q(2) show ?thesis
        unfolding moved(3) by blast
    qed
    with wf root' same_outside_trans [OF t(2) out] no_way_in_outside [OF t(4) out] show ?thesis
      by (simp add: moving_def)
  qed
qed

lemma safePath_below:
  assumes t: "wf_fs fs" "rooted root" "site_root fs root R"
    and ok: "safePath fs root rel = Inr full" "full \<noteq> path_clean root"
  obtains es c where "full = abs_path (es @ [c])" "confined fs R (es @ [c])" "proper_elem c"
proof -
  from safePath_confined [OF t(1,2) ok(1)] site_root_real [OF t(3)] obtain rest where
    rest: "full = abs_path (path_elems root @ rest)" "confined fs R (path_elems root @ rest)"
    by (metis option.inject)
  with ok(2) path_clean_abs [OF t(2)] have "rest \<noteq> []" by auto
  then obtain es c where "rest = es @ [c]" by (cases rest rule: rev_cases) auto
  with rest confined_proper [OF rest(2)] show thesis by (intro that [of "path_elems root @ es" c]) auto
qed

lemma move_entries_outside:
  assumes root: "rooted (ste_root_path s)" and ds: "list_all proper_elem ds"
  shows "fs_triple (moving R F (ste_root_path s) ds) (move_entries s (abs_path ds) done_names rels) (\<lambda>_. same_outside R F)"
proof (induction rels arbitrary: done_names)
  case Nil
  show ?case unfolding move_entries.simps by (rule t_return) (simp add: moving_def)
next
  case (Cons rel rels)
  let ?root = "ste_root_path s" and ?I = "moving R F (ste_root_path s) ds"
  have stop: "fs_triple P (State_Monad.return x) (\<lambda>_. same_outside R F)"
    if "\<And>fs. P fs \<Longrightarrow> ?I fs" for P and x :: "reply + string list"
    using that by (intro t_return) (auto simp: moving_def)
  have step: "fs_triple (\<lambda>fs. ?I fs \<and> safePath fs ?root rel = Inr full) (do {
           taken \<leftarrow> fs_look (\<lambda>fs. os_Stat fs (path_join (abs_path ds) (path_base full)) \<noteq> None);
           if taken then State_Monad.return (Inl e1)
           else do {
             ok \<leftarrow> fs_exec (if_done (\<lambda>fs. os_Rename fs full (path_join (abs_path ds) (path_base full))));
             if \<not> ok then State_Monad.return (Inl e2)
             else move_entries s (abs_path ds) names rels
           }
         }) (\<lambda>_. same_outside R F)" if full: "full \<noteq> path_clean ?root" for full e1 e2 names
  proof (rule t_bind [OF t_look [where Q = "\<lambda>taken fs. (?I fs \<and> safePath fs ?root rel = Inr full)
      \<and> (\<not> taken \<longrightarrow> os_Stat fs (path_join (abs_path ds) (path_base full)) = None)"]])
    fix taken
    show "fs_triple (\<lambda>fs. (?I fs \<and> safePath fs ?root rel = Inr full)
      \<and> (\<not> taken \<longrightarrow> os_Stat fs (path_join (abs_path ds) (path_base full)) = None))
      (if taken then State_Monad.return (Inl e1)
           else do {
             ok \<leftarrow> fs_exec (if_done (\<lambda>fs. os_Rename fs full (path_join (abs_path ds) (path_base full))));
             if \<not> ok then State_Monad.return (Inl e2)
             else move_entries s (abs_path ds) names rels
           }) (\<lambda>_. same_outside R F)"
    proof (rule t_if)
      assume "\<not> taken"
      show "fs_triple (\<lambda>fs. (?I fs \<and> safePath fs ?root rel = Inr full)
      \<and> (\<not> taken \<longrightarrow> os_Stat fs (path_join (abs_path ds) (path_base full)) = None)) (do {
             ok \<leftarrow> fs_exec (if_done (\<lambda>fs. os_Rename fs full (path_join (abs_path ds) (path_base full))));
             if \<not> ok then State_Monad.return (Inl e2)
             else move_entries s (abs_path ds) names rels
           }) (\<lambda>_. same_outside R F)"
      proof (rule t_bind [where Q = "\<lambda>_. ?I", OF t_exec])
        fix fs
        assume a: "(?I fs \<and> safePath fs ?root rel = Inr full)
          \<and> (\<not> taken \<longrightarrow> os_Stat fs (path_join (abs_path ds) (path_base full)) = None)"
        then have I: "?I fs" and safe: "safePath fs ?root rel = Inr full" by simp_all
        from I have t: "wf_fs fs" "site_root fs ?root R" by (simp_all add: moving_def)
        from safePath_below [OF t(1) root t(2) safe full] obtain es c where
          es: "full = abs_path (es @ [c])" "confined fs R (es @ [c])" "proper_elem c" .
        have join: "path_join (abs_path ds) (path_base full) = abs_path (ds @ [c])"
          using es(1,3) by (simp add: path_base_abs_path path_join_abs_path [OF ds])
        have "?I fs'" if "os_Rename fs full (path_join (abs_path ds) (path_base full)) = Some fs'" for fs'
          using moving_step [OF I ds es(2,3), of fs'] that a \<open>\<not> taken\<close> join es(1) by simp
        with I show "?I fs \<and> ?I (fst (if_done (\<lambda>fs. os_Rename fs full (path_join (abs_path ds) (path_base full))) fs))"
          by (cases "os_Rename fs full (path_join (abs_path ds) (path_base full))") (simp_all add: if_done_def)
      qed (rule t_if, rule stop, assumption, rule Cons.IH)
    qed (rule stop, simp)
  qed simp
  show ?case
    unfolding move_entries.simps Let_def
  proof (rule t_bind [OF t_look [where Q = "\<lambda>r fs. ?I fs \<and> safePath fs ?root rel = r"]])
    fix r
    have again: "fs_triple (\<lambda>fs. ?I fs \<and> safePath fs ?root rel = r) (move_entries s (abs_path ds) names rels)
      (\<lambda>_. same_outside R F)" for names
      by (rule t_weaken [OF Cons.IH]) simp_all
    show "fs_triple (\<lambda>fs. ?I fs \<and> safePath fs ?root rel = r) (case r of
       Inl e \<Rightarrow> State_Monad.return (Inl e)
     | Inr srcFull \<Rightarrow>
         if srcFull = path_clean ?root then State_Monad.return (Inl (HTTPError 400 ''cannot move site root''))
         else if srcFull = abs_path ds \<or> has_prefix (abs_path ds @ ''/'') (srcFull @ ''/'')
         then State_Monad.return (Inl (HTTPError 400 ''cannot move a folder into itself''))
         else if path_join (abs_path ds) (path_base srcFull) = srcFull then move_entries s (abs_path ds) done_names rels
         else do {
           taken \<leftarrow> fs_look (\<lambda>fs. os_Stat fs (path_join (abs_path ds) (path_base srcFull)) \<noteq> None);
           if taken then State_Monad.return (Inl (HTTPError 409 (''already exists at destination: '' @ path_base srcFull)))
           else do {
             ok \<leftarrow> fs_exec (if_done (\<lambda>fs. os_Rename fs srcFull (path_join (abs_path ds) (path_base srcFull))));
             if \<not> ok then State_Monad.return (Inl (HTTPError 500 (''failed to move: '' @ path_base srcFull)))
             else move_entries s (abs_path ds) (done_names @ [path_base srcFull]) rels
           }
         }) (\<lambda>_. same_outside R F)"
      by (intro t_sum t_if stop again) (use step in auto)
  qed simp
qed

lemma moves_outside:
  assumes site: "by_id ste_id (fst (atoi (cx_param c ''id''))) (w_sites w) = Some s"
    and tame: "tame (w_fs w) (ste_root_path s) R"
    and plain: "plain_request (w_fs w) (ste_root_path s) (Move body)"
  shows "same_outside R (w_fs w) (w_fs (snd (run_state (moveEntries body c) w)))"
proof -
  let ?F = "w_fs w" and ?root = "ste_root_path s"
  from tame have t: "wf_fs ?F" "rooted ?root" "site_root ?F ?root R" "no_way_in R ?F" by (simp_all add: tame_def)
  have "fs_triple (\<lambda>fs. fs = ?F) (with_path s (mb_dest b) (\<lambda>destFull. do {
           isDir \<leftarrow> fs_look (\<lambda>fs. os_Stat fs destFull = Some DirNode);
           if \<not> isDir then bad_request ''destination is not a directory''
           else do {
             r \<leftarrow> move_entries s destFull [] (mb_paths b);
             case r of
               Inl e \<Rightarrow> answer e
             | Inr moved \<Rightarrow> do {
                 _ \<leftarrow> record_file c s [(''action'', JStr ''file_move''), (''count'', JNum (int (length moved))),
                        (''dest'', JStr (mb_dest b))];
                 success c 200 ''Moved'' [(''moved'', JArr (map JStr moved))]
               }
           }
         })) (kept_outside R ?F)" if b: "body = Some b" for b
  proof (rule t_with_path [OF tame])
    fix rest
    let ?ds = "path_elems ?root @ rest"
    assume dest: "safePath ?F ?root (mb_dest b) = Inr (abs_path ?ds)" "confined ?F R ?ds"
    note ds = confined_proper [OF dest(2)]
    from plain b dest(1) ds obtain z where z: "follow ?F 0 [] ?ds = Found z"
      by (auto split: walked.splits)
    have "follow ?F 40 [] ?ds = Found z" by (rule follow_mono [OF z]) simp_all
    from found_within [OF t(1) dest(2) this] z t have m: "moving R ?F ?root ?ds ?F" by (simp add: moving_def)
    show "fs_triple (\<lambda>fs. fs = ?F) (do {
           isDir \<leftarrow> fs_look (\<lambda>fs. os_Stat fs (abs_path ?ds) = Some DirNode);
           if \<not> isDir then bad_request ''destination is not a directory''
           else do {
             r \<leftarrow> move_entries s (abs_path ?ds) [] (mb_paths b);
             case r of
               Inl e \<Rightarrow> answer e
             | Inr moved \<Rightarrow> do {
                 _ \<leftarrow> record_file c s [(''action'', JStr ''file_move''), (''count'', JNum (int (length moved))),
                        (''dest'', JStr (mb_dest b))];
                 success c 200 ''Moved'' [(''moved'', JArr (map JStr moved))]
               }
           }
         }) (kept_outside R ?F)"
      by (rule t_bind [OF t_look [where Q = "\<lambda>_ fs. fs = ?F"]], assumption, rule t_if, rule t_bad,
          rule t_bind [OF t_weaken [where Q' = "\<lambda>_. same_outside R ?F",
            OF move_entries_outside [OF t(2) ds, where F = ?F and R = R]]])
        (use m in \<open>auto intro!: t_outside t_steps split: sum.split\<close>)
  qed
  then show ?thesis
    unfolding moveEntries_def by (intro with_site_outside [OF disjI2 [OF refl] site] t_option t_if t_bad)
qed

section \<open>Packing\<close>

lemma last_index_rest:
  "CHR ''/'' \<notin> set (case last_index_char q CHR ''/'' of None \<Rightarrow> q | Some i \<Rightarrow> drop (Suc i) q)"
  by (induction q) (auto split: option.splits)

lemma path_base_elem: "path_base p \<noteq> [] \<and> (path_base p = ''/'' \<or> CHR ''/'' \<notin> set (path_base p))"
  using last_index_rest [of "rev (dropWhile (\<lambda>c. c = CHR ''/'') (rev p))"] by (simp add: path_base_def Let_def)

lemma archive_path:
  assumes "list_all proper_elem ds"
  obtains n where "proper_elem n" "path_join (abs_path ds) (archive_name name) = abs_path (ds @ [n])"
proof -
  define b where "b = path_base (if trim_space name = [] then ''archive.zip'' else trim_space name)"
  have b: "b \<noteq> []" "b = ''/'' \<or> CHR ''/'' \<notin> set b" using path_base_elem by (auto simp: b_def)
  have name: "archive_name name = (if has_suffix (to_lower b) ''.zip'' then b else b @ ''.zip'')"
    by (simp add: archive_name_def b_def Let_def)
  show thesis
  proof (cases "b = ''/''")
    case True
    then have n: "archive_name name = ''/.zip''" by (simp add: name) code_simp
    have "path_elems (abs_path ds @ CHR ''/'' # ''/.zip'') = ds @ [''.zip'']"
      using assms by (simp add: path_elems_app)
    moreover have "rooted (abs_path ds @ CHR ''/'' # ''/.zip'')" by (simp add: rooted_iff abs_path_def)
    ultimately have "path_join (abs_path ds) ''/.zip'' = abs_path (ds @ [''.zip''])"
      by (simp add: path_join_def path_clean_abs) (simp add: abs_path_def)
    with n show thesis by (intro that [of "''.zip''"]) (simp_all add: proper_elem_def plain_elem_def)
  next
    case False
    with b(2) have "CHR ''/'' \<notin> set (archive_name name)" by (simp add: name)
    moreover have "archive_name name \<notin> {[], ''.'', ''..''}"
    proof (cases "has_suffix (to_lower b) ''.zip''")
      case True
      then have "4 \<le> length b" by (auto simp: has_suffix_def has_prefix_conv to_lower_def dest!: arg_cong [where f = length])
      with True name show ?thesis by auto
    qed (auto simp: name append_eq_Cons_conv)
    ultimately have n: "proper_elem (archive_name name)" by (simp add: proper_elem_def plain_elem_def)
    with path_join_abs_path [OF assms n] that show thesis by blast
  qed
qed

text \<open>Where the archive goes: nothing is there, and no link inside dangles.\<close>

lemma archive_targets:
  assumes t: "wf_fs F" "no_dangling R F" and ds: "confined F R ds" and n: "proper_elem n"
    and dir: "os_Stat F (abs_path ds) = Some DirNode" and free: "os_Stat F (abs_path (ds @ [n])) = None"
  shows "targets R F ds" "targets R F (ds @ [n])"
proof -
  note proper = confined_proper [OF ds]
  from dir obtain z where z: "follow F 40 [] ds = Found z" "look F z = Some DirNode"
    by (auto simp: os_Stat_def kernel_walk_abs [OF proper] split: walked.splits)
  have w: "within R z" by (rule found_within [OF t(1) ds z(1)])
  with z show "targets R F ds" by (auto simp: targets_def)
  from follow_append [OF z, of "[n]"] obtain m where m: "m \<le> 40" "follow F 40 [] (ds @ [n]) = follow F m z [n]" by auto
  have "list_all proper_elem (ds @ [n])" using proper n by simp
  with free have none: "follow F m z [n] \<noteq> Found p" for p
    using follow_Found [OF t(1), of 40 "ds @ [n]" p] by (auto simp: os_Stat_def kernel_walk_abs m(2))
  have "within R p" if "follow F m z [n] = Missing p rest" for p rest
  proof (cases "look F (z @ [n])")
    case None
    with that n w show ?thesis by (auto simp: proper_step within_iff)
  next
    case (Some node)
    with that none n obtain t' where "look F (z @ [n]) = Some (LinkNode t')" by (cases node) (auto simp: proper_step)
    moreover have "follow F 255 [] (z @ [n]) = Missing p rest"
      unfolding follow_dirs [OF t(1) z(2)] by (rule follow_mono [OF that]) (use m(1) in simp_all)
    ultimately show ?thesis using t(2) w by (auto simp: no_dangling_def within_iff)
  qed
  with none m(2) show "targets R F (ds @ [n])" by (auto simp: targets_def)
qed

lemma write_archive_outside:
  assumes proper: "list_all proper_elem (ds @ [n])"
  shows "fs_triple (\<lambda>fs. made R F (ds @ [n]) fs \<and> made R F ds fs)
    (write_archive fi (abs_path (ds @ [n])) items) (\<lambda>_. same_outside R F)"
proof -
  let ?I = "\<lambda>fs. made R F (ds @ [n]) fs \<and> made R F ds fs"
  have entry: "within R p" if "?I fs" "entry_of fs (abs_path (ds @ [n])) = Some p" for fs p
  proof -
    from entry_of_abs [OF proper that(2)] obtain d where "follow fs 40 [] ds = Found d" "p = d @ [n]" by auto
    with that(1) show ?thesis by (auto simp: made_def targets_def within_iff)
  qed
  have "fs_triple ?I (os_Remove (abs_path (ds @ [n]))) (\<lambda>_. same_outside R F)"
    unfolding os_Remove_def by (rule t_remove) (use entry in \<open>auto simp: made_def\<close>)
  note remove = t_bind [OF this]
  note put = t_bind [OF made_WriteFiles [OF proper, where ds = ds and R = R and F = F]]
  have stop: "fs_triple (same_outside R F) (State_Monad.return x) (\<lambda>_. same_outside R F)" for x :: "reply option"
    by (rule t_return)
  have out: "fs_triple ?I (State_Monad.return x) (\<lambda>_. same_outside R F)" for x :: "reply option"
    by (rule t_return) (simp add: made_def)
  have query: "fs_triple ?I (fs_query q) (\<lambda>_. ?I)" for q :: "filesys \<Rightarrow> string + (string \<times> string) list"
    by (rule t_kept) simp_all
  show ?thesis
    unfolding write_archive_def Let_def
    by (rule put, rule t_if, rule out, rule t_bind [OF query], (split sum.split)?)
      (auto split: sum.split intro!: remove put stop out)
qed

lemma compress_outside:
  assumes site: "by_id ste_id (fst (atoi (cx_param c ''id''))) (w_sites w) = Some s"
    and tame: "tame (w_fs w) (ste_root_path s) R"
  shows "same_outside R (w_fs w) (w_fs (snd (run_state (compressEntries fi body c) w)))"
proof -
  let ?F = "w_fs w" and ?root = "ste_root_path s"
  from tame have t: "wf_fs ?F" "no_dangling R ?F" by (simp_all add: tame_def)
  have "fs_triple (\<lambda>fs. fs = ?F) (let name = archive_name (zb_name b) in
           with_path s (zb_dest b) (\<lambda>destFull. do {
             isDir \<leftarrow> fs_look (\<lambda>fs. os_Stat fs destFull = Some DirNode);
             if \<not> isDir then bad_request ''destination is not a directory''
             else let archivePath = path_join destFull name in do {
               taken \<leftarrow> fs_look (\<lambda>fs. os_Stat fs archivePath \<noteq> None);
               if taken then answer (HTTPError 409 (''archive already exists: '' @ name))
               else do {
                 r \<leftarrow> fs_look (\<lambda>fs. zip_items fs ?root (zb_paths b));
                 case r of
                   Inl e \<Rightarrow> answer e
                 | Inr items \<Rightarrow> do {
                     failure \<leftarrow> write_archive fi archivePath items;
                     case failure of
                       Some e \<Rightarrow> answer e
                     | None \<Rightarrow> do {
                         size \<leftarrow> fs_look (\<lambda>fs. case os_Stat fs archivePath of
                                   Some node \<Rightarrow> node_size fi (place_of fs archivePath) node | None \<Rightarrow> 0);
                         _ \<leftarrow> record_file c s [(''action'', JStr ''file_compress''),
                                (''archive'', JStr (path_join (zb_dest b) name)), (''count'', JNum (int (length items))),
                                (''size'', JNum size)];
                         success c 200 ''Compressed'' [(''archive'', JStr name), (''size'', JNum size)]
                       }
                   }
               }
             }
           })) (kept_outside R ?F)" for b
    unfolding Let_def
  proof (rule t_with_path [OF tame], goal_cases)
    case (1 rest)
    let ?ds = "path_elems ?root @ rest"
    note ds = confined_proper [OF 1(2)]
    from archive_path [OF ds] obtain n where n: "proper_elem n"
      "path_join (abs_path ?ds) (archive_name (zb_name b)) = abs_path (?ds @ [n])" .
    have proper: "list_all proper_elem (?ds @ [n])" using ds n(1) by simp
    have start: "made R ?F (?ds @ [n]) fs \<and> made R ?F ?ds fs"
      if "fs = ?F \<and> os_Stat fs (abs_path ?ds) = Some DirNode \<and> os_Stat fs (abs_path (?ds @ [n])) = None" for fs
      using archive_targets [OF t 1(2) n(1)] that t(1) by (auto simp: made_def)
    show ?case
      unfolding n(2)
      apply (rule t_bind [OF t_look [where Q = "\<lambda>isDir fs. fs = ?F \<and> isDir = (os_Stat fs (abs_path ?ds) = Some DirNode)"]], simp)
      apply (rule t_if, rule t_weaken [OF t_bad], simp, simp)
      apply (rule t_bind [OF t_look [where Q = "\<lambda>taken fs. fs = ?F \<and> os_Stat fs (abs_path ?ds) = Some DirNode
          \<and> taken = (os_Stat fs (abs_path (?ds @ [n])) \<noteq> None)"]], simp)
      apply (rule t_if, rule t_answer, simp)
      apply (rule t_bind [OF t_look [where Q = "\<lambda>_ fs. fs = ?F \<and> os_Stat fs (abs_path ?ds) = Some DirNode
          \<and> os_Stat fs (abs_path (?ds @ [n])) = None"]], simp)
      apply (rule t_sum, rule t_answer, simp)
      apply (rule t_bind [OF t_weaken [where Q' = "\<lambda>_. same_outside R ?F", OF write_archive_outside [OF proper, where F = ?F and R = R]]], rule start, assumption, assumption)
      apply (rule t_option, (rule t_outside, intro t_steps)+)
      done
  qed
  then show ?thesis
    unfolding compressEntries_def by (intro with_site_outside [OF disjI2 [OF refl] site] t_option t_if t_bad)
qed

end
