(* ===== verification/FileClaims.thy ===== *)
theory FileClaims
  imports FileMoves BackupProps
begin

text \<open>
  The file manager as a whole: what its requests leave alone, and where its check of links falls short. The
  demonstrations use one site with the root directory \<open>/s\<close>.
\<close>

section \<open>Requests stay inside\<close>

definition demo_session :: Session where
  "demo_session = \<lparr>ses_id = 1, ses_user = 7, ses_token_hash = [], ses_expires_at = 900, ses_created_at = 0,
     ses_revoked_at = None, ses_impersonated_by = None\<rparr>"

definition demo_fs :: filesys where
  "demo_fs = [([''s''], DirNode), ([''s'', ''a''], FileNode ''x''), ([''s'', ''l''], LinkNode ''a''),
     ([''etc''], DirNode), ([''etc'', ''passwd''], FileNode ''r'')]"

definition demo_files :: "filesys \<Rightarrow> world" where
  "demo_files fs = (fresh_world 100)\<lparr>w_fs := fs,
     w_users := \<lparr>rows = [(new_user ''o'' ''o@x.org'' [] RoleUser None None None)\<lparr>usr_id := 7\<rparr>], seqno = 7\<rparr>,
     w_sites := \<lparr>rows = [(demo_site 1)\<lparr>ste_root_path := ''/s'', ste_owner := Some 7\<rparr>], seqno = 1\<rparr>\<rparr>"

definition demo_info :: file_info where
  "demo_info = \<lparr>fi_dir_size = (\<lambda>_. 4096), fi_mode = (\<lambda>_. ''-rw-r--r--''), fi_mod_time = (\<lambda>_. ''2024-01-01T00:00:00Z''),
     fi_zip = (\<lambda>es. concat (map (\<lambda>(n, content). n @ content) es)), fi_growing = []\<rparr>"

definition demo_owner_request :: http_context where
  "demo_owner_request = \<lparr>cx_authorization = [], cx_cookie = None, cx_ip = [], cx_remote_addr = [], cx_rid = ''r'',
     cx_param = (\<lambda>_. ''1''), cx_session = Some demo_session, cx_user = 7, cx_role = Some RoleUser, cx_scopes = []\<rparr>"

lemma demo_site_found:
  "by_id ste_id (fst (atoi (cx_param demo_owner_request ''id''))) (w_sites (demo_files fs)) =
     Some ((demo_site 1)\<lparr>ste_root_path := ''/s'', ste_owner := Some 7\<rparr>)"
proof -
  have "fst (atoi ''1'') = 1" by code_simp
  then show ?thesis by (simp add: demo_owner_request_def demo_files_def by_id_def demo_site_def find_row_def)
qed

lemma demo_tame: "tame demo_fs ''/s'' [''s'']"
proof -
  have link: "p = [''s'', ''l'']" if "look demo_fs p = Some (LinkNode t)" for p t
    using that by (auto simp: look_def demo_fs_def split: if_splits)
  have "\<forall>q rest. follow demo_fs 255 [] [''s'', ''l''] \<noteq> Missing q rest"
  proof -
    have "follow demo_fs 255 [] [''s'', ''l''] = Found [''s'', ''a'']" by code_simp
    then show ?thesis by simp
  qed
  moreover have "wf_fs demo_fs" "site_root demo_fs ''/s'' [''s'']" by code_simp+
  moreover have "within [''s''] [''s'', ''l'']" by simp
  ultimately show ?thesis
    using link by (fastforce simp: tame_def no_dangling_def no_way_in_def rooted_def has_prefix_conv)
qed



section \<open>Where the check falls short\<close>

text \<open>
  \<open>ensureNoSymlinkEscape\<close> asks for the target of a link only when it exists: a link that dangles is an entry
  that does not exist, and its directory is checked instead. The kernel creates what it points to.
\<close>

lemma run_fs_exec: "nofault w \<Longrightarrow> run_state (fs_exec f) w = (snd (f (w_fs w)), w\<lparr>w_fs := fst (f (w_fs w))\<rparr>)"
  by (simp add: fs_exec_def stmt_def nofault_def split: prod.split)

lemma MkdirAll_existing: "os_Stat fs path = Some DirNode \<Longrightarrow> os_MkdirAll fs path = (fs, True)"
proof -
  assume "os_Stat fs path = Some DirNode"
  then have "(case follow fs 40 [] (split_on CHR ''/'' path) of Found p \<Rightarrow> look fs p | _ \<Rightarrow> None) = Some DirNode"
    by (simp add: os_Stat_def kernel_walk_def)
  moreover have "split_on CHR ''/'' path \<noteq> []" by (rule split_on_not_Nil)
  ultimately show ?thesis
    by (cases "rev (split_on CHR ''/'' path)") (simp_all add: os_MkdirAll_def Let_def rev_swap)
qed

text \<open>A file saved under a checked path is put where the walk of the kernel ends, also outside the root directory.\<close>

theorem saved_where_links_lead:
  assumes "nofault w" "run_state (resolveSiteWrite c) w = (Inr s, w)" "wb_path b \<noteq> []"
    and "safePath (w_fs w) (ste_root_path s) (wb_path b) = Inr full"
    and "os_Stat (w_fs w) (path_dir full) = Some DirNode" "kernel_walk (w_fs w) full = Missing p []"
  shows "w_fs (snd (run_state (writeFile (Some b) c) w)) = put p (FileNode (wb_content b)) (w_fs w)
    \<and> fst (run_state (writeFile (Some b) c) w) =
         JSON 200 (Success c (JObj [(''status'', JStr ''success''), (''message'', JStr ''File saved'')]))"
proof -
  let ?w = "w\<lparr>w_fs := put p (FileNode (wb_content b)) (w_fs w)\<rparr>"
  define w' where "w' = snd (run_state (record_file c s [(''action'', JStr ''file_write''), (''is_dir'', JBool False),
                    (''item_type'', JStr ''file''), (''path'', JStr (wb_path b))]) ?w)"
  then have r: "run_state (record_file c s [(''action'', JStr ''file_write''), (''is_dir'', JBool False),
                    (''item_type'', JStr ''file''), (''path'', JStr (wb_path b))]) ?w = ((), w')" by (simp add: prod_eq_iff)
  have "w_fs w' = put p (FileNode (wb_content b)) (w_fs w)"
    using preservesD [where m = "record_file c s [(''action'', JStr ''file_write''), (''is_dir'', JBool False),
                    (''item_type'', JStr ''file''), (''path'', JStr (wb_path b))]" and w = ?w, OF kept_record_file refl] r by simp
  moreover have "run_state (writeFile (Some b) c) w =
      (JSON 200 (Success c (JObj [(''status'', JStr ''success''), (''message'', JStr ''File saved'')])), w')"
    using assms r by (simp add: writeFile_def with_site_def with_path_def fs_look_def run_fs_exec MkdirAll_existing
      if_done_def os_WriteFile_def success_def answer_def nofault_def)
  ultimately show ?thesis by simp
qed

definition demo_leaky :: filesys where
  "demo_leaky = [([''s''], DirNode), ([''s'', ''a''], FileNode ''x''), ([''s'', ''l''], LinkNode ''/etc/cron.d/new''),
     ([''s'', '' l''], LinkNode ''/etc''), ([''s'', ''d''], DirNode), ([''s'', ''d'', ''p''], LinkNode ''/etc/passwd''),
     ([''s'', ''up''], LinkNode ''..''),
     ([''etc''], DirNode), ([''etc'', ''passwd''], FileNode ''r''), ([''etc'', ''cron.d''], DirNode)]"

text \<open>The owner of the site saves a file under the name of a dangling link, which makes one in \<open>/etc/cron.d\<close>.\<close>

lemma demo_resolve:
  "run_state (resolveSiteWrite demo_owner_request) (demo_files fs) =
     (Inr ((demo_site 1)\<lparr>ste_root_path := ''/s'', ste_owner := Some 7\<rparr>), demo_files fs)"
proof -
  have "w_faults (demo_files fs) = []" "find_row (\<lambda>u. usr_id u = 7) (w_users (demo_files fs)) =
      Some ((new_user ''o'' ''o@x.org'' [] RoleUser None None None)\<lparr>usr_id := 7\<rparr>)"
    by (simp_all add: demo_files_def fresh_world_def find_row_def)
  then show ?thesis
    using demo_site_found [of fs]
    by (simp add: resolveSiteWrite_def resolve_with_def checkSitePermission_def Sites_GetByID_def Users_GetByID_def
        query_def stmt_def by_id_def demo_owner_request_def demo_session_def new_user_def go_defs)
qed

lemma saved_where_links_lead_witness:
  "look (w_fs (snd (run_state (writeFile (Some \<lparr>wb_path = ''l'', wb_content = ''* * * * * root sh''\<rparr>) demo_owner_request)
     (demo_files demo_leaky)))) [''etc'', ''cron.d'', ''new''] = Some (FileNode ''* * * * * root sh'')"
proof -
  have "w_fs (demo_files demo_leaky) = demo_leaky" "nofault (demo_files demo_leaky)"
    by (simp_all add: demo_files_def fresh_world_def nofault_def)
  moreover have "safePath demo_leaky ''/s'' ''l'' = Inr ''/s/l''" "os_Stat demo_leaky (path_dir ''/s/l'') = Some DirNode"
    "kernel_walk demo_leaky ''/s/l'' = Missing [''etc'', ''cron.d'', ''new''] []"
    by code_simp+
  ultimately show ?thesis
    using saved_where_links_lead [OF _ demo_resolve, where b = "\<lparr>wb_path = ''l'', wb_content = ''* * * * * root sh''\<rparr>"]
    by (simp add: look_put)
qed

text \<open>
  Three more ways out. The new path of a renaming is checked without the white space at its ends and used with
  it; a folder is packed with what its links point to; and the root directory, which \<open>deleteEntry\<close> refuses to
  remove, is removed under another name.
\<close>

lemma renamed_through_a_link:
  "safePath demo_leaky ''/s'' '' l/x'' = Inr ''/s/l/x''"
  "os_Rename demo_leaky ''/s/a'' (renamed_path ''/s/a'' '' l/x'') = Some (move_below [''s'', ''a''] [''etc'', ''x''] demo_leaky)"
  by code_simp+

lemma packed_through_a_link:
  "zip_items demo_leaky ''/s'' [''d''] = Inr [(''/s/d'', ''d'')]"
  "zip_all demo_leaky [(''/s/d'', ''d'')] = Inr [(''d/p'', ''r'')]"
  by code_simp+

lemma root_removed_by_another_name:
  "safePath demo_leaky ''/s'' ''up/s'' = Inr ''/s/up/s''" "''/s/up/s'' \<noteq> path_clean ''/s''"
  "os_Stat (os_RemoveAll demo_leaky ''/s/up/s'') ''/s'' = None"
  by code_simp+

end
