(* ===== verification/SiteStores.thy ===== *)
theory SiteStores
  imports Auth
begin

text \<open>
  The tables that hang on sites and servers, \<open>internal/store/site_advanced.go\<close>, \<open>cloudflare.go\<close>, \<open>job_logs.go\<close>,
  \<open>agents.go\<close> and \<open>security_baseline.go\<close>, and the two deletions of \<open>sites.go\<close> and \<open>servers.go\<close> with what the
  foreign keys of the schema take with them. \<open>server_metrics\<close>, which nothing here reads, is left out.
  \<open>bcrypt\<close> is a parameter.
\<close>

section \<open>Transactions\<close>

text \<open>A transaction that runs the statements with these labels; a failure before the end rolls all of it back.\<close>

fun transaction :: "string list \<Rightarrow> string \<Rightarrow> (world \<Rightarrow> world) \<Rightarrow> unit res io" where
  "transaction [] commit f = exec commit f"
| "transaction (l # ls) commit f = do {
     r \<leftarrow> exec l (\<lambda>w. w);
     case r of Inl e \<Rightarrow> State_Monad.return (Inl e) | Inr _ \<Rightarrow> transaction ls commit f
   }"

section \<open>Deleting sites and servers\<close>

text \<open>A row and the rows whose foreign keys say \<open>ON DELETE CASCADE\<close>.\<close>

definition drop_jobs :: "(Job \<Rightarrow> bool) \<Rightarrow> world \<Rightarrow> world" where
  "drop_jobs P w =
     (let gone = map job_id (filter P (rows (w_jobs w)))
      in w_jobs_update (delete_rows P) (w_job_logs_update (delete_rows (\<lambda>l. jlg_job l \<in> set gone)) w))"

definition drop_databases :: "(Database \<Rightarrow> bool) \<Rightarrow> world \<Rightarrow> world" where
  "drop_databases P w =
     (let gone = map dtb_id (filter P (rows (w_databases w)))
      in w_databases_update (delete_rows P) (w_db_users_update (delete_rows (\<lambda>u. dbu_database u \<in> set gone)) w))"

definition drop_sites :: "int list \<Rightarrow> world \<Rightarrow> world" where
  "drop_sites is w =
     w_sites_update (delete_rows (\<lambda>s. ste_id s \<in> set is))
       (w_user_sites_update (delete_rows (\<lambda>r. uss_site r \<in> set is))
       (w_backups_update (delete_rows (\<lambda>r. bkp_site r \<in> set is))
       (w_schedules_update (delete_rows (\<lambda>r. sch_site r \<in> set is))
       (w_ip_rules_update (delete_rows (\<lambda>r. ipr_site r \<in> set is))
       (w_vhosts_update (delete_rows (\<lambda>r. vho_site r \<in> set is))
       (w_varnish_update (delete_rows (\<lambda>r. vnh_site r \<in> set is))
       (w_security_update (delete_rows (\<lambda>r. sec_site r \<in> set is))
       (w_ssh_users_update (delete_rows (\<lambda>r. ssu_site r \<in> set is))
       (w_cron_jobs_update (delete_rows (\<lambda>r. crn_site r \<in> set is))
       (drop_databases (\<lambda>d. dtb_site d \<in> set is)
       (drop_jobs (\<lambda>j. \<exists>i \<in> set is. job_site j = Some i) w)))))))))))"

definition forget_site_audit :: "int \<Rightarrow> AuditLog list \<Rightarrow> AuditLog list" where
  "forget_site_audit i = filter (\<lambda>a. \<not> (aud_resource a = ''site'' \<and> aud_resource_id a = Some i))"

definition Sites_Delete :: "int \<Rightarrow> unit res io" where
  "Sites_Delete i = transaction
     [''delete site begin tx'', ''delete site user_sites'', ''delete site jobs'', ''delete site databases'',
      ''delete site cron_jobs'', ''delete site ssh_ftp_users'', ''delete site backups'', ''delete site audit_logs'',
      ''delete site''] ''delete site commit''
     (\<lambda>w. drop_sites [i] (w\<lparr>w_audit := forget_site_audit i (w_audit w)\<rparr>))"

definition Servers_Delete :: "int \<Rightarrow> unit res io" where
  "Servers_Delete i = exec ''delete server'' (\<lambda>w.
     let sites = map ste_id (filter (\<lambda>s. ste_server s = i) (rows (w_sites w)))
     in w_servers_update (delete_rows (\<lambda>s. srv_id s = i))
          (drop_sites sites (drop_jobs (\<lambda>j. job_server j = Some i) w)))"

section \<open>Settings of a site\<close>

definition no_rows :: "'a option res \<Rightarrow> 'a res" where
  "no_rows r = (case r of Inl e \<Rightarrow> Inl e | Inr None \<Rightarrow> Inl (Fail ''sql: no rows in result set'') | Inr (Some x) \<Rightarrow> Inr x)"

definition scan_one :: "string \<Rightarrow> (world \<Rightarrow> 'a option) \<Rightarrow> 'a res io" where
  "scan_one label q = do { r \<leftarrow> query label q; State_Monad.return (no_rows r) }"

definition site_exists :: "int \<Rightarrow> world \<Rightarrow> bool" where
  "site_exists i w = has_row (\<lambda>s. ste_id s = i) (w_sites w)"

text \<open>\<open>INSERT ... ON CONFLICT(site_id) DO UPDATE\<close>\<close>

definition upsert_row ::
  "string \<Rightarrow> (world \<Rightarrow> 'r table) \<Rightarrow> (('r table \<Rightarrow> 'r table) \<Rightarrow> world \<Rightarrow> world) \<Rightarrow> int \<Rightarrow>
   ('r \<Rightarrow> bool) \<Rightarrow> (world \<Rightarrow> int \<Rightarrow> 'r) \<Rightarrow> (world \<Rightarrow> 'r \<Rightarrow> 'r) \<Rightarrow> unit res io" where
  "upsert_row label tbl upd site P mk f = stmt label (\<lambda>w.
     if has_row P (tbl w) then (Inr (), upd (update_rows P (f w)) w)
     else if site_exists site w
     then (Inr (), (upd (append_row (mk w)) w)\<lparr>w_last_rowid := seqno (tbl w) + 1\<rparr>)
     else (Inl (SqlError label), w))"

definition Vhosts_GetBySiteID :: "int \<Rightarrow> SiteVhost res io" where
  "Vhosts_GetBySiteID siteID = scan_one ''vhost'' (\<lambda>w. find_row (\<lambda>v. vho_site v = siteID) (w_vhosts w))"

definition Vhosts_Upsert :: "int \<Rightarrow> string \<Rightarrow> unit res io" where
  "Vhosts_Upsert siteID config = upsert_row ''vhost'' w_vhosts w_vhosts_update siteID (\<lambda>v. vho_site v = siteID)
     (\<lambda>w i. \<lparr>vho_id = i, vho_site = siteID, vho_config = config, vho_updated_at = w_now w\<rparr>)
     (\<lambda>w v. v\<lparr>vho_config := config, vho_updated_at := w_now w\<rparr>)"

definition Varnish_GetBySiteID :: "int \<Rightarrow> SiteVarnish res io" where
  "Varnish_GetBySiteID siteID = scan_one ''varnish'' (\<lambda>w. find_row (\<lambda>v. vnh_site v = siteID) (w_varnish w))"

definition Varnish_Upsert :: "SiteVarnish \<Rightarrow> unit res io" where
  "Varnish_Upsert v = upsert_row ''varnish'' w_varnish w_varnish_update (vnh_site v) (\<lambda>r. vnh_site r = vnh_site v)
     (\<lambda>w i. v\<lparr>vnh_id := i, vnh_updated_at := w_now w\<rparr>)
     (\<lambda>w r. r\<lparr>vnh_enabled := vnh_enabled v, vnh_cache_time := vnh_cache_time v, vnh_hit_rate := vnh_hit_rate v,
        vnh_backend_host := vnh_backend_host v, vnh_backend_port := vnh_backend_port v, vnh_updated_at := w_now w\<rparr>)"

definition Security_GetBySiteID :: "int \<Rightarrow> SiteSecurity res io" where
  "Security_GetBySiteID siteID = scan_one ''security'' (\<lambda>w. find_row (\<lambda>s. sec_site s = siteID) (w_security w))"

text \<open>A password is hashed; when bcrypt fails, it is stored as it is.\<close>

definition stored_auth_password :: "(string \<Rightarrow> string option) \<Rightarrow> string \<Rightarrow> string" where
  "stored_auth_password bcrypt p =
     (if p = [] then [] else case bcrypt p of Some h \<Rightarrow> h | None \<Rightarrow> p)"

definition Security_Upsert :: "(string \<Rightarrow> string option) \<Rightarrow> SiteSecurity \<Rightarrow> unit res io" where
  "Security_Upsert bcrypt s =
     (let p = stored_auth_password bcrypt (sec_basic_auth_password s)
      in upsert_row ''security'' w_security w_security_update (sec_site s) (\<lambda>r. sec_site r = sec_site s)
           (\<lambda>w i. s\<lparr>sec_id := i, sec_basic_auth_password := p, sec_updated_at := w_now w\<rparr>)
           (\<lambda>w r. r\<lparr>sec_basic_auth_enabled := sec_basic_auth_enabled s, sec_basic_auth_username := sec_basic_auth_username s,
              sec_basic_auth_password := p, sec_blocked_ips := sec_blocked_ips s, sec_updated_at := w_now w\<rparr>))"

text \<open>Rows of \<open>site_ssh_ftp\<close> as they are read: without the password, and without the keys in \<open>ListAll\<close>.\<close>

definition scanned_ssh_user :: "SiteSSHUser \<Rightarrow> SiteSSHUser" where
  "scanned_ssh_user u = u\<lparr>ssu_password := []\<rparr>"

definition SSH_ListBySiteID :: "int \<Rightarrow> SiteSSHUser list res io" where
  "SSH_ListBySiteID siteID = query ''ssh'' (\<lambda>w.
     map scanned_ssh_user (select_desc ssu_created_at (\<lambda>u. ssu_site u = siteID) (w_ssh_users w)))"

definition SSH_GetByID :: "int \<Rightarrow> SiteSSHUser option res io" where
  "SSH_GetByID i = query ''ssh'' (\<lambda>w. map_option scanned_ssh_user (by_id ssu_id i (w_ssh_users w)))"

definition SSH_Create :: "SiteSSHUser \<Rightarrow> int res io" where
  "SSH_Create u =
     (let home = (if ssu_home u = [] then ''/home/'' @ ssu_username u else ssu_home u)
      in insert_row ''ssh'' w_ssh_users w_ssh_users_update
           (\<lambda>w. site_exists (ssu_site u) w
              \<and> \<not> has_row (\<lambda>r. ssu_site r = ssu_site u \<and> ssu_username r = ssu_username u) (w_ssh_users w))
           (\<lambda>w i. u\<lparr>ssu_id := i, ssu_home := home, ssu_created_at := w_now w\<rparr>))"

definition SSH_Delete :: "int \<Rightarrow> unit res io" where
  "SSH_Delete i = exec ''ssh'' (w_ssh_users_update (delete_rows (\<lambda>u. ssu_id u = i)))"

definition Crons_ListBySiteID :: "int \<Rightarrow> SiteCronJob list res io" where
  "Crons_ListBySiteID siteID = query ''cron'' (\<lambda>w. select_desc crn_created_at (\<lambda>j. crn_site j = siteID) (w_cron_jobs w))"

definition Crons_Create :: "int \<Rightarrow> string \<Rightarrow> string \<Rightarrow> int res io" where
  "Crons_Create siteID schedule command =
     insert_row ''cron'' w_cron_jobs w_cron_jobs_update (site_exists siteID)
       (\<lambda>w i. \<lparr>crn_id = i, crn_site = siteID, crn_schedule = schedule, crn_command = command, crn_created_at = w_now w\<rparr>)"

definition Crons_Delete :: "int \<Rightarrow> unit res io" where
  "Crons_Delete i = exec ''cron'' (w_cron_jobs_update (delete_rows (\<lambda>j. crn_id j = i)))"

section \<open>Cloudflare settings\<close>

definition Cloudflare_GetConfig :: "int \<Rightarrow> CloudflareConfig res io" where
  "Cloudflare_GetConfig userID = query ''cloudflare'' (\<lambda>w.
     case find_row (\<lambda>r. cfc_user r = userID) (w_cloudflare w) of
       None \<Rightarrow> \<lparr>cfc_id = 0, cfc_user = 0, cfc_api_token = [], cfc_email = []\<rparr>
     | Some r \<Rightarrow> r\<lparr>cfc_user := userID\<rparr>)"

text \<open>\<open>SaveConfig\<close>: two statements, not a transaction.\<close>

definition Cloudflare_SaveConfig :: "int \<Rightarrow> string \<Rightarrow> string \<Rightarrow> unit res io" where
  "Cloudflare_SaveConfig userID token email = do {
     r \<leftarrow> exec ''cloudflare delete'' (w_cloudflare_update (delete_rows (\<lambda>r. cfc_user r = userID)));
     case r of Inl e \<Rightarrow> State_Monad.return (Inl e)
     | Inr _ \<Rightarrow> do {
         i \<leftarrow> insert_row ''cloudflare insert'' w_cloudflare w_cloudflare_update
                (\<lambda>w. \<not> has_row (\<lambda>r. cfc_user r = userID) (w_cloudflare w))
                (\<lambda>w i. \<lparr>cfc_id = i, cfc_user = userID, cfc_api_token = token, cfc_email = email\<rparr>);
         State_Monad.return (case i of Inl e \<Rightarrow> Inl e | Inr _ \<Rightarrow> Inr ())
       }
   }"

definition Cloudflare_HasConfig :: "int \<Rightarrow> bool res io" where
  "Cloudflare_HasConfig userID = query ''cloudflare'' (\<lambda>w.
     has_row (\<lambda>r. cfc_user r = userID \<and> cfc_api_token r \<noteq> []) (w_cloudflare w))"

definition Cloudflare_DeleteConfig :: "int \<Rightarrow> int res io" where
  "Cloudflare_DeleteConfig userID = exec_count ''cloudflare''
     (\<lambda>w. count_rows (\<lambda>r. cfc_user r = userID) (w_cloudflare w))
     (w_cloudflare_update (delete_rows (\<lambda>r. cfc_user r = userID)))"

section \<open>Output of jobs\<close>

definition JobLogs_Append :: "int \<Rightarrow> int \<Rightarrow> string \<Rightarrow> string \<Rightarrow> int res io" where
  "JobLogs_Append jobID line message stream = insert_row ''insert job log'' w_job_logs w_job_logs_update
     (\<lambda>w. has_row (\<lambda>j. job_id j = jobID) (w_jobs w))
     (\<lambda>w i. \<lparr>jlg_id = i, jlg_job = jobID, jlg_line = line, jlg_message = message, jlg_stream = stream,
              jlg_created_at = w_now w\<rparr>)"

definition JobLogs_GetSince :: "int \<Rightarrow> int \<Rightarrow> int \<Rightarrow> JobLog list res io" where
  "JobLogs_GetSince jobID sinceLine limit =
     (let limit = (if limit \<le> 0 \<or> limit > 10000 then 1000 else limit)
      in query ''query logs'' (\<lambda>w. take (nat limit)
           (select_asc jlg_line (\<lambda>l. jlg_job l = jobID \<and> jlg_line l > sinceLine) (w_job_logs w))))"

definition JobLogs_GetAll :: "int \<Rightarrow> JobLog list res io" where
  "JobLogs_GetAll jobID = JobLogs_GetSince jobID 0 10000"

definition JobLogs_Count :: "int \<Rightarrow> int res io" where
  "JobLogs_Count jobID = query ''count logs'' (\<lambda>w. count_rows (\<lambda>l. jlg_job l = jobID) (w_job_logs w))"

section \<open>Registration of agents\<close>

definition Registrations_Create :: "string \<Rightarrow> int option \<Rightarrow> int \<Rightarrow> int res io" where
  "Registrations_Create hash createdBy expiresAt =
     insert_row ''insert registration token'' w_registrations w_registrations_update (\<lambda>_. True)
       (\<lambda>w i. \<lparr>rgt_id = i, rgt_hash = hash, rgt_created_by = createdBy, rgt_expires_at = expiresAt, rgt_used_at = None,
                rgt_created_at = w_now w\<rparr>)"

definition Registrations_GetByHash :: "string \<Rightarrow> RegistrationToken option res io" where
  "Registrations_GetByHash hash = query ''scan registration token'' (\<lambda>w.
     find_row (\<lambda>t. rgt_hash t = hash) (w_registrations w))"

definition use_registration :: "int \<Rightarrow> world \<Rightarrow> world" where
  "use_registration i w = w_registrations_update
     (update_rows (\<lambda>t. rgt_id t = i \<and> rgt_used_at t = None) (\<lambda>t. t\<lparr>rgt_used_at := Some (w_now w)\<rparr>)) w"

definition Registrations_MarkUsed :: "int \<Rightarrow> unit res io" where
  "Registrations_MarkUsed i = do {
     n \<leftarrow> exec_count ''mark registration token used''
            (\<lambda>w. count_rows (\<lambda>t. rgt_id t = i \<and> rgt_used_at t = None) (w_registrations w)) (use_registration i);
     State_Monad.return (case n of
       Inl e \<Rightarrow> Inl e
     | Inr n \<Rightarrow> if n \<noteq> 1 then Inl (Fail ''registration token already used or missing'') else Inr ())
   }"

definition claimable_registration :: "int \<Rightarrow> int \<Rightarrow> RegistrationToken \<Rightarrow> bool" where
  "claimable_registration i t r \<longleftrightarrow> rgt_id r = i \<and> rgt_used_at r = None \<and> before_go t (rgt_expires_at r)"

text \<open>
  \<open>ConsumeRegistrationTokenAndCreateServer\<close>: the claim and the server in one transaction; \<open>None\<close> for a nil server.
\<close>

definition Consume_and_create :: "int \<Rightarrow> Server option \<Rightarrow> int res io" where
  "Consume_and_create tokenID srv =
     (case srv of
        None \<Rightarrow> State_Monad.return (Inl (Fail ''invalid server registration''))
      | Some srv \<Rightarrow>
          if srv_name srv = [] \<or> srv_hostname srv = [] \<or> srv_agent_token srv = []
          then State_Monad.return (Inl (Fail ''invalid server registration''))
          else do {
            b \<leftarrow> exec ''begin agent registration'' (\<lambda>w. w);
            case b of Inl e \<Rightarrow> State_Monad.return (Inl e)
            | Inr _ \<Rightarrow> do {
                n \<leftarrow> query ''claim registration token'' (\<lambda>w.
                       count_rows (claimable_registration tokenID (w_now w)) (w_registrations w));
                case n of Inl e \<Rightarrow> State_Monad.return (Inl e)
                | Inr n \<Rightarrow>
                    if n \<noteq> 1 then State_Monad.return (Inl (Fail ''registration token already used, expired, or missing''))
                    else do {
                      i \<leftarrow> exec ''insert registered server'' (\<lambda>w. w);
                      case i of Inl e \<Rightarrow> State_Monad.return (Inl e)
                      | Inr _ \<Rightarrow> insert_row ''commit agent registration'' w_servers
                          (\<lambda>f w. use_registration tokenID (w_servers_update f w)) (\<lambda>_. True)
                          (\<lambda>w i. srv\<lparr>srv_id := i, srv_status := (if srv_status srv = [] then ''pending'' else srv_status srv),
                             srv_health_status := (if srv_health_status srv = [] then ''unknown'' else srv_health_status srv)\<rparr>)
                    }
              }
          })"

section \<open>Baselines of critical files\<close>

text \<open>The entries before the first whose path has come before: the unique index refuses that one.\<close>

fun fresh_prefix :: "string list \<Rightarrow> SecurityBaseline list \<Rightarrow> nat" where
  "fresh_prefix seen [] = 0"
| "fresh_prefix seen (e # es) = (if sbl_path e \<in> set seen then 0 else 1 + fresh_prefix (sbl_path e # seen) es)"

definition Baselines_ReplaceForServer :: "int \<Rightarrow> SecurityBaseline list \<Rightarrow> unit res io" where
  "Baselines_ReplaceForServer serverID entries =
     (if fresh_prefix [] entries < length entries then do {
        r \<leftarrow> transaction ([''begin'', ''delete baselines''] @ replicate (fresh_prefix [] entries) ''insert baseline'') ''insert baseline'' (\<lambda>w. w);
        State_Monad.return (case r of Inl e \<Rightarrow> Inl e | Inr _ \<Rightarrow> Inl (SqlError ''insert baseline''))
      }
      else transaction ([''begin'', ''delete baselines''] @ map (\<lambda>_. ''insert baseline'') entries) ''commit'' (\<lambda>w.
        w_baselines_update (\<lambda>t. foldl (\<lambda>t e. append_row
            (\<lambda>i. e\<lparr>sbl_id := i, sbl_server := serverID, sbl_updated_at := w_now w\<rparr>) t)
          (delete_rows (\<lambda>b. sbl_server b = serverID) t) entries) w))"

definition Baselines_ListByServer :: "int \<Rightarrow> SecurityBaseline list res io" where
  "Baselines_ListByServer serverID = query ''baselines'' (\<lambda>w.
     sort_key sbl_path (filter (\<lambda>b. sbl_server b = serverID) (rows (w_baselines w))))"

end
