(* ===== verification/SiteInput.thy ===== *)
theory SiteInput
  imports Regex GoPath
begin

text \<open>
  Package \<open>internal/siteinput\<close>: the validators for user-influenced values that end up in commands
  run by root, nginx configuration or docker arguments. Each validator is its Go function, its
  patterns are the package's compiled regular expressions; \<open>None\<close> is the \<open>nil\<close> error.
  The lemmas bound the bytes of every accepted value, show that path containment means
  component-wise containment after \<open>path.Clean\<close>, and that docker volumes stay inside the site root.
\<close>

section \<open>Character classes\<close>

definition alpha :: "char \<Rightarrow> bool" where
  [go_defs]: "alpha c \<longleftrightarrow> in_range 97 122 c \<or> in_range 65 90 c"

definition alnum :: "char \<Rightarrow> bool" where
  [go_defs]: "alnum c \<longleftrightarrow> alpha c \<or> is_digit c"

definition lower_alnum :: "char \<Rightarrow> bool" where
  [go_defs]: "lower_alnum c \<longleftrightarrow> in_range 97 122 c \<or> is_digit c"

section \<open>The patterns\<close>

definition label_re :: regex where
  [go_defs]: "label_re = Seq (Cls alnum)
     (Opt (Seq (Rep (Cls (\<lambda>c. alnum c \<or> c = CHR ''-'')) 0 61) (Cls alnum)))"

definition domainRe :: regex where
  [go_defs]: "domainRe = Seqs [Opt (Lit ''*.''), label_re, Plus (Seq (Chr CHR ''.'') label_re)]"

definition rootPathRe :: regex where
  [go_defs]: "rootPathRe = Seq (Chr CHR ''/'') (Star (Cls (\<lambda>c. alnum c \<or> c \<in> set ''._@+/-'')))"

definition proxyPassRe :: regex where
  [go_defs]: "proxyPassRe = Seqs [Lit ''http'', Opt (Chr CHR ''s''), Lit ''://'',
     Plus (Cls (\<lambda>c. alnum c \<or> c \<in> set ''.-'')),
     Opt (Seq (Chr CHR '':'') (Rep (Cls is_digit) 1 5)),
     Opt (Seq (Chr CHR ''/'') (Star (Cls (\<lambda>c. alnum c \<or> c \<in> set ''._~/%+-''))))]"

definition phpVersionRe :: regex where
  [go_defs]: "phpVersionRe = Seqs [Cls is_digit, Chr CHR ''.'', Rep (Cls is_digit) 1 2]"

definition systemUserRe :: regex where
  [go_defs]: "systemUserRe = Seq (Cls (\<lambda>c. in_range 97 122 c \<or> c = CHR ''_''))
     (Rep (Cls (\<lambda>c. lower_alnum c \<or> c \<in> set ''_-'')) 0 31)"

definition dockerImageRe :: regex where
  [go_defs]: "dockerImageRe = Seqs [Plus (Cls lower_alnum),
     Star (Seq (Cls (\<lambda>c. c \<in> set ''._-/'')) (Plus (Cls lower_alnum))),
     Opt (Seqs [Chr CHR '':'', Cls (\<lambda>c. alnum c \<or> c = CHR ''_''),
                Rep (Cls (\<lambda>c. alnum c \<or> c \<in> set ''_.-'')) 0 127])]"

definition dockerNameRe :: regex where
  [go_defs]: "dockerNameRe = Seq (Cls alnum) (Rep (Cls (\<lambda>c. alnum c \<or> c \<in> set ''_.-'')) 0 63)"

definition dockerPortRe :: regex where
  [go_defs]: "dockerPortRe = Seqs [Opt (Lit ''127.0.0.1:''), Rep (Cls is_digit) 1 5, Chr CHR '':'',
     Rep (Cls is_digit) 1 5, Opt (Seq (Chr CHR ''/'') (Alt (Lit ''tcp'') (Lit ''udp'')))]"

definition dockerEnvRe :: regex where
  [go_defs]: "dockerEnvRe = Seqs [Cls (\<lambda>c. alpha c \<or> c = CHR ''_''),
     Star (Cls (\<lambda>c. alnum c \<or> c = CHR ''_'')), Chr CHR ''='', Star (Cls (\<lambda>c. \<not> in_range 0 31 c))]"

definition dockerTargetRe :: regex where
  [go_defs]: "dockerTargetRe = Seq (Chr CHR ''/'') (Star (Cls (\<lambda>c. alnum c \<or> c \<in> set ''._/-'')))"

definition dockerRestarts :: "string list" where
  [go_defs]: "dockerRestarts = ['''', ''no'', ''always'', ''unless-stopped'', ''on-failure'']"

definition reservedUsers :: "string list" where
  [go_defs]: "reservedUsers =
     [''root'', ''daemon'', ''bin'', ''sys'', ''nobody'', ''www-data'', ''sigardapanel'']"

section \<open>The validators\<close>

definition DomainInput :: "string \<Rightarrow> goerror" where
  "DomainInput s = (if length s > 253 \<or> \<not> matches domainRe s then Some ''invalid domain'' else nil)"

definition RootPath :: "string \<Rightarrow> goerror" where
  "RootPath s =
     (if length s > 512 \<or> \<not> matches rootPathRe s then Some ''invalid root_path''
      else if list_ex (\<lambda>seg. seg = ''..'') (split_on CHR ''/'' s) then Some ''invalid root_path''
      else nil)"

definition UnderRoot :: "string \<Rightarrow> string \<Rightarrow> bool" where
  "UnderRoot dir p =
     (let dir = path_clean dir; p = path_clean p in p = dir \<or> has_prefix p (dir @ ''/''))"

definition ProxyPassURL :: "string \<Rightarrow> goerror" where
  "ProxyPassURL s =
     (if length s > 512 \<or> \<not> matches proxyPassRe s
      then Some ''invalid proxy_pass_url (expected http(s)://host[:port][/path])''
      else
        let i = (case last_index_char s CHR '':'' of None \<Rightarrow> - 1 | Some k \<Rightarrow> int k);
            j = (case index s ''//'' of None \<Rightarrow> - 1 | Some k \<Rightarrow> int k)
        in if i > j + 1 then
             let rest = drop (nat (i + 1)) s;
                 rest = (case index rest ''/'' of None \<Rightarrow> rest | Some k \<Rightarrow> take k rest);
                 (n, ok) = atoi rest
             in if ok \<and> (n < 1 \<or> n > 65535) then Some ''invalid proxy_pass_url port'' else nil
           else nil)"

definition PHPVersion :: "string \<Rightarrow> goerror" where
  "PHPVersion s = (if \<not> matches phpVersionRe s then Some ''invalid php_version'' else nil)"

definition SystemUser :: "string \<Rightarrow> goerror" where
  "SystemUser s =
     (if \<not> matches systemUserRe s \<or> s \<in> set reservedUsers then Some ''invalid system_user'' else nil)"

definition PHPIni :: "string \<Rightarrow> goerror" where
  "PHPIni s =
     (if contains_any s [CHR 0x22, CHR ''{'', CHR ''}'', CHR '';'', CHR 0x0D] then Some ''invalid php_ini''
      else if contains (replace_all s [CHR 0x5C, CHR ''n''] []) [CHR 0x5C] then Some ''invalid php_ini''
      else if list_ex (\<lambda>r. byte r < 0x20 \<and> r \<noteq> CHR 0x0A) s then Some ''invalid php_ini''
      else nil)"

definition DockerImage :: "string \<Rightarrow> goerror" where
  "DockerImage s =
     (if length s > 255 \<or> \<not> matches dockerImageRe s then Some ''invalid docker_image'' else nil)"

definition DockerName :: "string \<Rightarrow> goerror" where
  "DockerName s = (if \<not> matches dockerNameRe s then Some ''invalid docker_name'' else nil)"

definition DockerRestart :: "string \<Rightarrow> goerror" where
  "DockerRestart s = (if s \<notin> set dockerRestarts then Some ''invalid docker_restart'' else nil)"

definition DockerPort :: "string \<Rightarrow> goerror" where
  "DockerPort s =
     (if \<not> matches dockerPortRe s then Some ''invalid docker_ports''
      else
        let parts = fields_func (\<lambda>r. r = CHR '':'')
                      (trim_prefix (hd (split2 CHR ''/'' s)) ''127.0.0.1:'')
        in if list_ex (\<lambda>part. let (n, ok) = atoi part in \<not> ok \<or> n < 1 \<or> n > 65535) parts
           then Some ''invalid docker_ports'' else nil)"

definition DockerEnvLine :: "string \<Rightarrow> goerror" where
  "DockerEnvLine s =
     (if length s > 4096 \<or> \<not> matches dockerEnvRe s then Some ''invalid docker_env entry'' else nil)"

definition DockerVolume :: "string \<Rightarrow> string \<Rightarrow> goerror" where
  "DockerVolume v siteRoot =
     (let parts = split_on CHR '':'' v
      in if length parts < 2 \<or> length parts > 3 then Some ''invalid docker_volume''
         else
           let host = parts ! 0; target = parts ! 1
           in if length parts = 3 \<and> parts ! 2 \<noteq> ''ro'' \<and> parts ! 2 \<noteq> ''rw'' then Some ''invalid docker_volume''
              else if RootPath host \<noteq> nil \<or> \<not> matches dockerTargetRe target \<or> siteRoot = []
                      \<or> \<not> UnderRoot siteRoot host
              then Some ''docker_volume host path must be inside the site root''
              else nil)"

definition protectedTopDirs :: "string list" where
  "protectedTopDirs =
     [''etc'', ''usr'', ''bin'', ''sbin'', ''lib'', ''lib32'', ''lib64'',
      ''boot'', ''dev'', ''proc'', ''sys'', ''run'', ''root'', ''snap'']"

definition RootPathAllowed :: "string \<Rightarrow> goerror" where
  "RootPathAllowed p =
     (case RootPath p of
        Some err \<Rightarrow> Some err
      | None \<Rightarrow>
          let segs = split_on CHR ''/'' (trim (\<lambda>c. c = CHR ''/'') (path_clean p))
          in if length segs < 2 \<or> segs ! 0 \<in> set protectedTopDirs \<or> (segs ! 0 = ''home'' \<and> length segs < 3)
             then Some ''root_path is not an allowed location''
             else nil)"

definition DockerLanguage :: "string \<Rightarrow> goerror" where
  "DockerLanguage s =
     (if s \<noteq> [] \<and> \<not> matches (Rep (Cls lower_alnum) 1 16) s then Some ''invalid docker_language'' else nil)"

text \<open>The first error of a loop that returns as soon as its body yields one.\<close>

fun first_error :: "('a \<Rightarrow> goerror) \<Rightarrow> 'a list \<Rightarrow> goerror" where
  "first_error f [] = nil"
| "first_error f (x # xs) = (case f x of Some err \<Rightarrow> Some err | None \<Rightarrow> first_error f xs)"

definition DockerOptions ::
  "string \<Rightarrow> string \<Rightarrow> string \<Rightarrow> string \<Rightarrow> string \<Rightarrow> string \<Rightarrow> string \<Rightarrow> string \<Rightarrow> goerror" where
  "DockerOptions img name ports env volumes restart language siteRoot =
     first_error (\<lambda>check. check)
       [(if img \<noteq> [] then DockerImage img else nil),
        (if name \<noteq> [] then DockerName name else nil),
        (if ports \<noteq> [] then DockerPort ports else nil),
        first_error (\<lambda>line. let line = trim_space line in if line \<noteq> [] then DockerEnvLine line else nil)
          (split_on CHR 0x0A env),
        first_error (\<lambda>v. let v = trim_space v in if v \<noteq> [] then DockerVolume v siteRoot else nil)
          (split_on CHR '','' volumes),
        DockerRestart restart,
        DockerLanguage language]"

definition dbPrivileges :: "string list" where
  "dbPrivileges =
     [''ALL'', ''ALL PRIVILEGES'', ''SELECT'', ''INSERT'', ''UPDATE'', ''DELETE'',
      ''CREATE'', ''DROP'', ''ALTER'', ''INDEX'', ''REFERENCES'',
      ''CREATE TEMPORARY TABLES'', ''LOCK TABLES'', ''EXECUTE'', ''CREATE VIEW'',
      ''SHOW VIEW'', ''CREATE ROUTINE'', ''ALTER ROUTINE'', ''EVENT'', ''TRIGGER'']"

definition normalizePrivilege :: "string \<Rightarrow> string" where
  "normalizePrivilege p = join_on CHR '' '' (fields (to_upper p))"

text \<open>\<open>%q\<close> of a string of printable ASCII bytes.\<close>

definition quoted :: "string \<Rightarrow> string" where
  "quoted s = [CHR 0x22] @ concat (map (\<lambda>c. if c \<in> {CHR 0x22, CHR 0x5C} then [CHR 0x5C, c] else [c]) s) @ [CHR 0x22]"

definition DBPrivileges :: "string \<Rightarrow> goerror" where
  "DBPrivileges s =
     (if trim_space s = [] \<or> length s > 256 then Some ''invalid privileges''
      else first_error
        (\<lambda>p. let p = normalizePrivilege p
             in if p \<notin> set dbPrivileges then Some (''invalid privileges: '' @ quoted p @ '' is not allowed'') else nil)
        (split_on CHR '','' s))"

definition DBPassword :: "string \<Rightarrow> goerror" where
  "DBPassword s =
     (if length s < 8 \<or> length s > 128 then Some ''password must be 8-128 characters''
      else if list_ex (\<lambda>r. byte r < 0x20 \<or> byte r = 0x7F \<or> r = CHR 0x5C) s
      then Some ''password contains unsupported characters (control characters and backslash are not allowed)''
      else nil)"

definition dbHostRe :: regex where
  [go_defs]: "dbHostRe = Rep (Cls (\<lambda>c. alnum c \<or> c \<in> set ''_.%-'')) 1 255"

definition DBHost :: "string \<Rightarrow> goerror" where
  "DBHost s = (if \<not> matches dbHostRe s then Some ''invalid host_pattern'' else nil)"

section \<open>What an accepted value can contain\<close>

text \<open>Bytes that end or open a directive, a block, a string or a variable in an nginx configuration.\<close>

definition nginx_special :: "char \<Rightarrow> bool" where
  "nginx_special c \<longleftrightarrow> c \<in> set [CHR '' '', CHR '';'', CHR ''{'', CHR ''}'', CHR 0x22, CHR 0x27, CHR ''$'', CHR 0x5C, CHR ''#'']
     \<or> byte c < 0x20"

lemma is_digit_special: "is_digit c \<Longrightarrow> \<not> nginx_special c"
  by (auto simp: is_digit_def in_range_def nginx_special_def)

lemma alnum_special: "alnum c \<Longrightarrow> \<not> nginx_special c"
  by (auto simp: alnum_def alpha_def is_digit_def in_range_def nginx_special_def)

lemma set_special: "c \<in> set ''._@+/-~%:*,'' \<Longrightarrow> \<not> nginx_special c"
  by (auto simp: nginx_special_def)

lemma plain_byte: "alnum c \<or> c \<in> set w \<Longrightarrow> set w \<subseteq> set ''._@+/-~%:*,'' \<Longrightarrow> \<not> nginx_special c"
  using alnum_special set_special by blast

lemma DomainInput_bytes: "DomainInput s = nil \<Longrightarrow> c \<in> set s \<Longrightarrow> alnum c \<or> c \<in> set ''*.-''"
  by (auto simp: DomainInput_def domainRe_def label_re_def Opt_def Plus_def Chr_def
      dest!: matches_bytes split: if_splits)

lemma RootPath_bytes: "RootPath s = nil \<Longrightarrow> c \<in> set s \<Longrightarrow> alnum c \<or> c \<in> set ''._@+/-''"
  by (auto simp: RootPath_def rootPathRe_def Chr_def dest!: matches_bytes split: if_splits)

lemma RootPath_rooted: "RootPath s = nil \<Longrightarrow> rooted s"
  by (auto simp: RootPath_def rootPathRe_def Chr_def matches_Seq matches_Cls rooted_def split: if_splits)

lemma RootPath_no_dotdot: "RootPath s = nil \<Longrightarrow> ''..'' \<notin> set (split_on CHR ''/'' s)"
  by (auto simp: RootPath_def list_ex_iff split: if_splits)

lemma ProxyPassURL_bytes: "ProxyPassURL s = nil \<Longrightarrow> c \<in> set s \<Longrightarrow> alnum c \<or> c \<in> set '':/._~%+-''"
proof -
  assume ok: "ProxyPassURL s = nil" and c: "c \<in> set s"
  from ok have "matches proxyPassRe s" by (simp add: ProxyPassURL_def split: if_splits)
  from matches_bytes [OF this c]
  show ?thesis
    unfolding proxyPassRe_def Opt_def Plus_def Chr_def Seqs.simps Lit.simps has_byte.simps
    by (elim disjE) (simp_all add: alnum_def alpha_def in_range_def, (elim disjE, simp_all)+)
qed

lemma PHPVersion_bytes: "PHPVersion s = nil \<Longrightarrow> c \<in> set s \<Longrightarrow> alnum c \<or> c \<in> set ''.''"
  by (auto simp: PHPVersion_def phpVersionRe_def Chr_def alnum_def dest!: matches_bytes split: if_splits)

lemma first_error_nil: "first_error f xs = nil \<longleftrightarrow> (\<forall>x \<in> set xs. f x = nil)"
  by (induction xs) (auto split: option.splits)

lemma first_error_Some:
  "first_error f xs = Some err \<Longrightarrow> \<exists>us x vs. xs = us @ x # vs \<and> f x = Some err \<and> (\<forall>u \<in> set us. f u = nil)"
proof (induction xs)
  case Nil
  then show ?case by simp
next
  case (Cons x xs)
  show ?case
  proof (cases "f x")
    case None
    with Cons obtain us y vs where "xs = us @ y # vs" "f y = Some err" "\<forall>u \<in> set us. f u = nil" by auto
    with None show ?thesis by (intro exI [of _ "x # us"]) auto
  next
    case (Some e)
    with Cons.prems show ?thesis by (intro exI [of _ "[]"]) auto
  qed
qed

section \<open>Properties\<close>

text \<open>A value accepted as a domain, a root path, a proxy URL or a PHP version holds no byte that can end or
  open a directive, a block, a quoted string, a comment or a variable in an nginx configuration, and no
  control character or blank.\<close>

lemma accepted_bytes:
  assumes "DomainInput s = nil \<or> RootPath s = nil \<or> ProxyPassURL s = nil \<or> PHPVersion s = nil"
    and "c \<in> set s"
  shows "\<not> nginx_special c"
  using assms(1)
proof (elim disjE)
  assume "DomainInput s = nil"
  from plain_byte [OF DomainInput_bytes [OF this assms(2)]] show ?thesis by simp
next
  assume "RootPath s = nil"
  from plain_byte [OF RootPath_bytes [OF this assms(2)]] show ?thesis by simp
next
  assume "ProxyPassURL s = nil"
  from plain_byte [OF ProxyPassURL_bytes [OF this assms(2)]] show ?thesis by simp
next
  assume "PHPVersion s = nil"
  from plain_byte [OF PHPVersion_bytes [OF this assms(2)]] show ?thesis by simp
qed

text \<open>C1. A docker volume is accepted only with two or three colon separated parts, the third being \<open>ro\<close>
  or \<open>rw\<close>, and a host path whose cleaned components extend the components of the site root
  without a \<open>..\<close>: no mount reaches outside the site.\<close>

theorem DockerVolume_confined:
  assumes "DockerVolume v siteRoot = nil"
  shows "\<exists>host target mode rest. split_on CHR '':'' v = host # target # mode
     \<and> (mode = [] \<or> mode = [''ro''] \<or> mode = [''rw''])
     \<and> rooted host \<and> rooted siteRoot \<and> ''..'' \<notin> set (split_on CHR ''/'' host)
     \<and> path_elems host = path_elems siteRoot @ rest"
proof -
  let ?parts = "split_on CHR '':'' v"
  from assms have len: "length ?parts = 2 \<or> length ?parts = 3"
    and mode: "length ?parts = 3 \<Longrightarrow> ?parts ! 2 = ''ro'' \<or> ?parts ! 2 = ''rw''"
    and host: "RootPath (?parts ! 0) = nil" and under: "UnderRoot siteRoot (?parts ! 0)"
    by (auto simp: DockerVolume_def Let_def split: if_splits)
  then obtain host target md where parts: "?parts = host # target # md"
      and md: "md = [] \<or> md = [''ro''] \<or> md = [''rw'']"
    by (auto simp: length_Suc_conv numeral_2_eq_2 numeral_3_eq_3)
  have host: "RootPath host = nil" and under: "UnderRoot siteRoot host"
    using host under parts by simp_all
  then have rh: "rooted host" by (simp add: RootPath_rooted)
  have clean: "path_clean host = path_clean siteRoot \<or> has_prefix (path_clean host) (path_clean siteRoot @ ''/'')"
    using under by (auto simp: UnderRoot_def Let_def)
  with rh have rr: "rooted siteRoot" using below_rooted by blast
  from clean have "\<exists>rest. path_elems host = path_elems siteRoot @ rest"
    using path_clean_inject [OF rh rr] below_components [OF rh rr] by auto
  with parts md rh rr RootPath_no_dotdot [OF host] show ?thesis by blast
qed

lemma DockerVolume_confined_witness:
  "\<exists>host target mode rest. split_on CHR '':'' ''/srv/a/d:/d:ro'' = host # target # mode
     \<and> (mode = [] \<or> mode = [''ro''] \<or> mode = [''rw''])
     \<and> rooted host \<and> rooted ''/srv/a'' \<and> ''..'' \<notin> set (split_on CHR ''/'' host)
     \<and> path_elems host = path_elems ''/srv/a'' @ rest"
  by (rule DockerVolume_confined) code_simp

text \<open>C2. A root path is allowed only if, once cleaned, it has at least two components, the first is no
  system directory, and below \<open>/home\<close> it has at least three: \<open>/\<close>, a top level directory, anything
  under the protected trees and a bare home directory are all refused, however they are spelled.\<close>

theorem RootPathAllowed_protects:
  assumes "RootPathAllowed p = nil"
  shows "\<exists>a b rest. path_elems p = a # b # rest \<and> a \<notin> set protectedTopDirs
     \<and> (a = ''home'' \<longrightarrow> rest \<noteq> []) \<and> ''..'' \<notin> set (path_elems p)"
proof -
  let ?segs = "split_on CHR ''/'' (trim (\<lambda>c. c = CHR ''/'') (path_clean p))"
  from assms have ok: "RootPath p = nil" and len: "\<not> length ?segs < 2"
    and top: "?segs ! 0 \<notin> set protectedTopDirs" and home: "?segs ! 0 = ''home'' \<longrightarrow> \<not> length ?segs < 3"
    by (auto simp: RootPathAllowed_def Let_def split: option.splits if_splits)
  have r: "rooted p" using ok by (rule RootPath_rooted)
  have "path_elems p \<noteq> []"
  proof
    assume "path_elems p = []"
    with r have "?segs = [[]]" by (simp add: path_clean_rooted trim_def)
    with len show False by simp
  qed
  with r have segs: "?segs = path_elems p" by (rule split_trim_clean)
  from len segs obtain a b rest where e: "path_elems p = a # b # rest"
    by (cases "path_elems p"; cases "tl (path_elems p)") auto
  from home top segs e path_elems_no_dotdot [OF r] show ?thesis by auto
qed

lemma RootPathAllowed_protects_witness:
  "\<exists>a b rest. path_elems ''/home//x/./y/'' = a # b # rest \<and> a \<notin> set protectedTopDirs
     \<and> (a = ''home'' \<longrightarrow> rest \<noteq> []) \<and> ''..'' \<notin> set (path_elems ''/home//x/./y/'')"
  by (rule RootPathAllowed_protects) code_simp

end
