(* ===== verification/Outside.thy ===== *)
theory Outside
  imports SiteStores Login SiteInput
begin

text \<open>
  What the panel asks of the world outside: HTTP requests to agents and to Cloudflare, commands it runs, ports
  it tries to bind. A request is recorded in \<open>w_calls\<close>; the answer is a parameter, which may depend on all
  requests before it. A URL that \<open>http.NewRequest\<close> refuses is among the requests without an answer.
\<close>

datatype http_reply =
    Unreachable string  \<comment> \<open>the text of the error\<close>
  | Answered int jtext

record panel_env =
  pe_auth :: auth_env
  pe_secrets :: crypto
  pe_dbs :: crypto  \<comment> \<open>the cipher of the database server store\<close>
  pe_net :: "agent_call list \<Rightarrow> agent_call \<Rightarrow> http_reply"
  pe_listen :: "int \<Rightarrow> bool"
  pe_output :: "string list \<Rightarrow> string option"  \<comment> \<open>a command and its arguments; \<open>None\<close>: it fails\<close>
  pe_bcrypt :: "string \<Rightarrow> string option"

definition net_call :: "panel_env \<Rightarrow> agent_call \<Rightarrow> http_reply io" where
  "net_call e call = State (\<lambda>w. (pe_net e (w_calls w) call, w\<lparr>w_calls := w_calls w @ [call]\<rparr>))"

definition agentRequest :: "panel_env \<Rightarrow> string \<Rightarrow> string \<Rightarrow> string \<Rightarrow> json option \<Rightarrow> http_reply io" where
  "agentRequest e method url token body =
     net_call e \<lparr>agc_method = method, agc_url = url, agc_token = token, agc_body = body\<rparr>"

text \<open>A body unmarshalled into a \<open>map[string]any\<close>, whose errors are ignored: \<open>nil\<close> when it is no object.\<close>

definition result_map :: "jtext \<Rightarrow> json" where
  "result_map body = (case body of Json (JObj kvs) \<Rightarrow> JObj kvs | _ \<Rightarrow> JNull)"

definition result_fields :: "jtext \<Rightarrow> (string \<times> json) list" where
  "result_fields body = (case body of Json (JObj kvs) \<Rightarrow> kvs | _ \<Rightarrow> [])"

text \<open>\<open>strings.TrimRight(url, "/")\<close> and \<open>url.QueryEscape\<close>.\<close>

definition trim_slashes :: "string \<Rightarrow> string" where
  "trim_slashes s = rev (dropWhile (\<lambda>c. c = CHR ''/'') (rev s))"

definition upper_hex :: "nat \<Rightarrow> char" where
  "upper_hex n = ''0123456789ABCDEF'' ! (n mod 16)"

definition unreserved :: "char \<Rightarrow> bool" where
  "unreserved c \<longleftrightarrow> alnum c \<or> c \<in> {CHR ''-'', CHR ''_'', CHR ''.'', CHR ''~''}"

definition query_escape :: "string \<Rightarrow> string" where
  "query_escape s = concat (map (\<lambda>c.
     if unreserved c then [c] else if c = CHR '' '' then ''+''
     else [CHR ''%'', upper_hex (of_char c div 16), upper_hex (of_char c)]) s)"

text \<open>A field that may be missing or of another type: \<open>v, _ := m[key].(string)\<close>.\<close>

definition any_string :: "(string \<times> json) list \<Rightarrow> string \<Rightarrow> string" where
  "any_string kvs key = (case map_of kvs key of Some (JStr s) \<Rightarrow> s | _ \<Rightarrow> [])"

definition plain_success :: "json \<Rightarrow> reply io" where
  "plain_success data = answer (JSON 200 (JObj [(''data'', data), (''request_id'', JStr [])]))"

end
