(* ===== verification/MySQL.thy ===== *)
theory MySQL
  imports Outside Inventory
begin

text \<open>
  \<open>MySQLConn\<close> of \<open>internal/dbserver/dbserver.go\<close>: the statements the panel sends to the database server. A
  statement is recorded as a call of the method \<open>SQL\<close> with the text of the statement as its body, \<open>Connect\<close> as one
  of the method \<open>CONNECT\<close>; \<open>pe_net\<close> says whether it succeeds. Placeholders of information schema queries are
  written into the recorded text.
\<close>

record mysql_conn =
  mc_server :: DBServer
  mc_engine :: string

definition sql_call :: "DBServer \<Rightarrow> string \<Rightarrow> string \<Rightarrow> agent_call" where
  "sql_call svr method text = \<lparr>agc_method = method, agc_url = dbs_host svr, agc_token = dbs_username svr, agc_body = Some (JStr text)\<rparr>"

definition mysql_query :: "panel_env \<Rightarrow> mysql_conn \<Rightarrow> string \<Rightarrow> jtext res io" where
  "mysql_query e m text = do {
     r \<leftarrow> net_call e (sql_call (mc_server m) ''SQL'' text);
     State_Monad.return (case r of Unreachable err \<Rightarrow> Inl (Fail err) | Answered _ rs \<Rightarrow> Inr rs)
   }"

definition mysql_exec :: "panel_env \<Rightarrow> mysql_conn \<Rightarrow> string \<Rightarrow> unit res io" where
  "mysql_exec e m text = do {
     r \<leftarrow> mysql_query e m text;
     State_Monad.return (case r of Inl err \<Rightarrow> Inl err | Inr _ \<Rightarrow> Inr ())
   }"

text \<open>\<open>Connect\<close>, with the version the engine is told by.\<close>

definition is_mariadb :: "string \<Rightarrow> bool" where
  "is_mariadb ver \<longleftrightarrow> contains (to_lower ver) ''mari''"

definition Connect :: "panel_env \<Rightarrow> DBServer \<Rightarrow> string \<Rightarrow> mysql_conn res io" where
  "Connect e svr password = do {
     r \<leftarrow> net_call e (sql_call svr ''CONNECT'' password);
     case r of
       Unreachable err \<Rightarrow> State_Monad.return (Inl (Fail (''mysql ping: '' @ err)))
     | Answered _ _ \<Rightarrow> do {
         v \<leftarrow> net_call e (sql_call svr ''SQL'' ''SELECT VERSION()'');
         State_Monad.return (Inr \<lparr>mc_server = svr, mc_engine =
           (case v of Answered _ (Json (JStr ver)) \<Rightarrow> if is_mariadb ver then ''MariaDB'' else ''MySQL'' | _ \<Rightarrow> ''MySQL'')\<rparr>)
       }
   }"

section \<open>Quoting\<close>

definition safeIdent :: "string \<Rightarrow> string" where
  "safeIdent = filter (\<lambda>c. c \<notin> {CHR 0x60, CHR 0x27, CHR 0x5C, CHR '';'', CHR 0x0A, CHR 0x0D})"

definition safeSQLString :: "string \<Rightarrow> string" where
  "safeSQLString s = concat (map (\<lambda>c. if c = CHR 0x27 then [CHR 0x27, CHR 0x27] else [c]) s)"

definition quoted_with :: "char \<Rightarrow> string \<Rightarrow> string" where
  "quoted_with q s = q # s @ [q]"

abbreviation apos :: "string \<Rightarrow> string" where "apos \<equiv> quoted_with CHR 0x27"
abbreviation backtick :: "string \<Rightarrow> string" where "backtick \<equiv> quoted_with CHR 0x60"

definition account :: "string \<Rightarrow> string \<Rightarrow> string" where
  "account username host = apos (safeIdent username) @ ''@'' @ apos (safeIdent host)"

definition any_host :: "string \<Rightarrow> string" where
  "any_host host = (if host = [] then ''%'' else host)"

section \<open>Statements\<close>

text \<open>The rows of an answer, when every column of every row is a text.\<close>

definition text_rows :: "jtext \<Rightarrow> string list list option" where
  "text_rows r = (case r of
     Json (JArr rs) \<Rightarrow> all_some (map (\<lambda>row. case row of
       JArr cols \<Rightarrow> all_some (map (\<lambda>v. case v of JStr s \<Rightarrow> Some s | _ \<Rightarrow> None) cols) | _ \<Rightarrow> None) rs)
   | _ \<Rightarrow> None)"

definition ListDatabases :: "panel_env \<Rightarrow> mysql_conn \<Rightarrow> string list res io" where
  "ListDatabases e m = do {
     r \<leftarrow> mysql_query e m (''SELECT SCHEMA_NAME FROM information_schema.SCHEMATA WHERE SCHEMA_NAME NOT IN (''
            @ apos ''information_schema'' @ '','' @ apos ''performance_schema'' @ '','' @ apos ''mysql'' @ '','' @ apos ''sys''
            @ '') ORDER BY SCHEMA_NAME'');
     State_Monad.return (case r of Inl err \<Rightarrow> Inl err | Inr rs \<Rightarrow>
       (case text_rows rs of
          Some rs \<Rightarrow> if list_all (\<lambda>r. length r = 1) rs then Inr (map hd rs) else Inl (Fail ''scan'')
        | None \<Rightarrow> Inl (Fail ''scan'')))
   }"

definition list_users_sql :: string where
  "list_users_sql = ''SELECT User, Host FROM mysql.user WHERE User NOT IN ('' @ apos ''root'' @ '','' @ apos ''mariadb.sys''
     @ '','' @ apos ''mysql'' @ '') ORDER BY User''"

definition ListUsers :: "panel_env \<Rightarrow> mysql_conn \<Rightarrow> (string \<times> string) list res io" where
  "ListUsers e m = do {
     r \<leftarrow> mysql_query e m list_users_sql;
     State_Monad.return (case r of Inl err \<Rightarrow> Inl err | Inr rs \<Rightarrow>
       (case text_rows rs of
          Some rs \<Rightarrow> if list_all (\<lambda>r. length r = 2) rs then Inr (map (\<lambda>r. (r ! 0, r ! 1)) rs) else Inl (Fail ''scan'')
        | None \<Rightarrow> Inl (Fail ''scan'')))
   }"

definition create_database_sql :: "string \<Rightarrow> string \<Rightarrow> string \<Rightarrow> string" where
  "create_database_sql name charset collation =
     ''CREATE DATABASE IF NOT EXISTS '' @ backtick (safeIdent name) @ '' CHARACTER SET ''
     @ safeIdent (if charset = [] then ''utf8mb4'' else charset)
     @ '' COLLATE '' @ safeIdent (if collation = [] then ''utf8mb4_unicode_ci'' else collation)"

definition CreateDatabase :: "panel_env \<Rightarrow> mysql_conn \<Rightarrow> string \<Rightarrow> string \<Rightarrow> string \<Rightarrow> unit res io" where
  "CreateDatabase e m name charset collation = mysql_exec e m (create_database_sql name charset collation)"

definition DropDatabase :: "panel_env \<Rightarrow> mysql_conn \<Rightarrow> string \<Rightarrow> unit res io" where
  "DropDatabase e m name = mysql_exec e m (''DROP DATABASE IF EXISTS '' @ backtick (safeIdent name))"

definition schema_count :: "panel_env \<Rightarrow> mysql_conn \<Rightarrow> string \<Rightarrow> bool res io" where
  "schema_count e m name = do {
     r \<leftarrow> mysql_query e m (''SELECT COUNT(*) FROM information_schema.SCHEMATA WHERE SCHEMA_NAME = '' @ apos name);
     State_Monad.return (case r of Inl err \<Rightarrow> Inl err | Inr (Json (JNum n)) \<Rightarrow> Inr (n > 0) | Inr _ \<Rightarrow> Inr False)
   }"

definition DatabaseExists :: "panel_env \<Rightarrow> mysql_conn \<Rightarrow> string \<Rightarrow> bool res io" where
  "DatabaseExists = schema_count"

definition HasDatabase :: "panel_env \<Rightarrow> mysql_conn \<Rightarrow> string \<Rightarrow> bool res io" where
  "HasDatabase = schema_count"

definition DatabaseAccessible :: "panel_env \<Rightarrow> mysql_conn \<Rightarrow> string \<Rightarrow> bool res io" where
  "DatabaseAccessible e m name = do {
     r \<leftarrow> mysql_exec e m (''USE '' @ backtick (safeIdent name));
     State_Monad.return (case r of Inl err \<Rightarrow> Inl err | Inr _ \<Rightarrow> Inr True)
   }"

text \<open>Steps of which the first that fails ends the rest, and steps whose failures are ignored.\<close>

definition and_then :: "unit res io \<Rightarrow> unit res io \<Rightarrow> unit res io" where
  "and_then a b = do { r \<leftarrow> a; case r of Inl err \<Rightarrow> State_Monad.return (Inl err) | Inr _ \<Rightarrow> b }"

definition anyway :: "unit res io \<Rightarrow> unit res io \<Rightarrow> unit res io" where
  "anyway a b = do { _ \<leftarrow> a; b }"

definition labelled :: "string \<Rightarrow> unit res io \<Rightarrow> unit res io" where
  "labelled label m = do { r \<leftarrow> m; State_Monad.return (case r of Inl err \<Rightarrow> Inl (Fail (label @ error_text err)) | Inr _ \<Rightarrow> Inr ()) }"

definition flush_privileges :: "panel_env \<Rightarrow> mysql_conn \<Rightarrow> unit res io" where
  "flush_privileges e m = mysql_exec e m ''FLUSH PRIVILEGES''"

definition auth_clause :: "mysql_conn \<Rightarrow> string \<Rightarrow> string" where
  "auth_clause m password =
     (if contains (to_lower (mc_engine m)) ''mariadb'' then ''IDENTIFIED BY '' else ''IDENTIFIED WITH mysql_native_password BY '')
     @ apos (safeSQLString password)"

definition grant_sql :: "string \<Rightarrow> string \<Rightarrow> string \<Rightarrow> string \<Rightarrow> string" where
  "grant_sql username host dbName privileges =
     ''GRANT '' @ privileges @ '' ON '' @ backtick (safeIdent dbName) @ ''.* TO '' @ account username host"

definition global_grant_sql :: "string \<Rightarrow> string \<Rightarrow> string" where
  "global_grant_sql username host = ''GRANT ALL PRIVILEGES ON *.* TO '' @ account username host @ '' WITH GRANT OPTION''"

definition limits_sql :: "string \<Rightarrow> string \<Rightarrow> string" where
  "limits_sql username host = ''ALTER USER '' @ account username host @ '' REQUIRE NONE WITH MAX_QUERIES_PER_HOUR 0 MAX_CONNECTIONS_PER_HOUR 0 MAX_UPDATES_PER_HOUR 0 MAX_USER_CONNECTIONS 0''"

definition create_user_sql :: "mysql_conn \<Rightarrow> string \<Rightarrow> string \<Rightarrow> string \<Rightarrow> string" where
  "create_user_sql m username host password = ''CREATE USER IF NOT EXISTS '' @ account username host @ '' '' @ auth_clause m password"

definition CreateUser :: "panel_env \<Rightarrow> mysql_conn \<Rightarrow> string \<Rightarrow> string \<Rightarrow> string \<Rightarrow> string \<Rightarrow> string \<Rightarrow> unit res io" where
  "CreateUser e m username password host dbName privileges =
     (let host = any_host host; privileges = (if privileges = [] then ''ALL'' else privileges)
      in case (DBPrivileges privileges, DBHost host, DBPassword password) of
        (Some err, _, _) \<Rightarrow> State_Monad.return (Inl (Fail (''create user: '' @ err)))
      | (None, Some err, _) \<Rightarrow> State_Monad.return (Inl (Fail (''create user: '' @ err)))
      | (None, None, Some err) \<Rightarrow> State_Monad.return (Inl (Fail (''create user: '' @ err)))
      | _ \<Rightarrow>
          and_then (labelled ''create user: '' (mysql_exec e m
              (create_user_sql m username host password)))
            (and_then (if dbName = [] then State_Monad.return (Inr ())
                       else labelled ''grant: '' (mysql_exec e m (grant_sql username host dbName privileges)))
              (anyway (if username = ''phpmyadmin'' then mysql_exec e m (global_grant_sql username host)
                       else State_Monad.return (Inr ()))
                (anyway (mysql_exec e m (limits_sql username host)) (flush_privileges e m)))))"

text \<open>The time to live in seconds.\<close>

definition ScheduleDeleteUser :: "panel_env \<Rightarrow> mysql_conn \<Rightarrow> string \<Rightarrow> string \<Rightarrow> int \<Rightarrow> unit res io" where
  "ScheduleDeleteUser e m username host ttl =
     (let host = any_host host; seconds = (if ttl < 60 then 60 else ttl)
      in and_then (labelled ''enable event scheduler: '' (mysql_exec e m ''SET GLOBAL event_scheduler = ON''))
           (labelled ''schedule user cleanup: '' (mysql_exec e m
             (''CREATE EVENT '' @ backtick ''mysql'' @ ''.'' @ backtick (''cleanup_'' @ safeIdent username)
              @ '' ON SCHEDULE AT CURRENT_TIMESTAMP + INTERVAL '' @ itoa seconds
              @ '' SECOND ON COMPLETION NOT PRESERVE DO DROP USER IF EXISTS '' @ account username host))))"

definition DeleteUser :: "panel_env \<Rightarrow> mysql_conn \<Rightarrow> string \<Rightarrow> string \<Rightarrow> unit res io" where
  "DeleteUser e m username host =
     and_then (mysql_exec e m (''DROP USER IF EXISTS '' @ account username (any_host host))) (flush_privileges e m)"

definition change_password_sql :: "string \<Rightarrow> string \<Rightarrow> string \<Rightarrow> string" where
  "change_password_sql username host password =
     ''ALTER USER '' @ account username host @ '' IDENTIFIED BY '' @ apos (safeSQLString password)"

definition ChangePassword :: "panel_env \<Rightarrow> mysql_conn \<Rightarrow> string \<Rightarrow> string \<Rightarrow> string \<Rightarrow> unit res io" where
  "ChangePassword e m username host newPassword =
     (let host = any_host host
      in case (DBHost host, DBPassword newPassword) of
        (Some err, _) \<Rightarrow> State_Monad.return (Inl (Fail err))
      | (None, Some err) \<Rightarrow> State_Monad.return (Inl (Fail err))
      | _ \<Rightarrow> and_then (mysql_exec e m (change_password_sql username host newPassword)) (flush_privileges e m))"

definition GrantPrivileges :: "panel_env \<Rightarrow> mysql_conn \<Rightarrow> string \<Rightarrow> string \<Rightarrow> string \<Rightarrow> string \<Rightarrow> unit res io" where
  "GrantPrivileges e m username host dbName privileges =
     and_then (mysql_exec e m (grant_sql username host dbName privileges)) (flush_privileges e m)"

text \<open>\<open>execMySQLConn\<close> of \<open>internal/apihttp/databases.go\<close>.\<close>

definition execMySQLConn :: "panel_env \<Rightarrow> (mysql_conn \<Rightarrow> 'a res io) \<Rightarrow> 'a res io" where
  "execMySQLConn e f = do {
     svr \<leftarrow> GetDefaultServer;
     case svr of
       Inr (Some svr) \<Rightarrow> (case DecryptPassword (pe_dbs e) (dbs_password svr) of
         None \<Rightarrow> State_Monad.return (Inl (Fail ''decrypt''))
       | Some pass \<Rightarrow> do {
           m \<leftarrow> Connect e svr pass;
           case m of
             Inl err \<Rightarrow> State_Monad.return (Inl (Fail (''connect: '' @ error_text err)))
           | Inr m \<Rightarrow> f m
         })
     | _ \<Rightarrow> State_Monad.return (Inl (Fail ''no database server''))
   }"

end
