(* ===== verification/DatabaseHandlers.thy ===== *)
theory DatabaseHandlers
  imports MySQL SiteAccess
begin

text \<open>
  \<open>internal/apihttp/databases.go\<close>: the handlers of databases and of their accounts. A database handler talks to
  the database server directly and keeps rows of its own; where the direct way fails it leaves a job for the
  agent. Decoded bodies (\<open>None\<close>: not JSON of the right shape) and random bytes are arguments.
\<close>

section \<open>Names, hosts, access\<close>

definition dbNameRegex :: regex where
  [go_defs]: "dbNameRegex = Rep (Cls (\<lambda>c. alnum c \<or> c = CHR ''_'')) 1 64"

definition canonicalDBHost :: "string \<Rightarrow> string" where
  "canonicalDBHost host =
     (let v = to_lower (trim_space host)
      in if v = [] then ''%'' else if v = ''127.0.0.1'' \<or> v = ''::1'' then ''localhost'' else v)"

definition canonicalDBUserKey :: "string \<Rightarrow> string \<Rightarrow> string" where
  "canonicalDBUserKey username host = username @ ''@'' @ canonicalDBHost host"

text \<open>\<open>x, _ := Get(\<dots>)\<close>: an error leaves \<open>nil\<close>.\<close>

definition found :: "'a option res \<Rightarrow> 'a option" where
  "found r = (case r of Inr x \<Rightarrow> x | Inl _ \<Rightarrow> None)"

definition listed :: "'a list res \<Rightarrow> 'a list" where
  "listed r = (case r of Inr xs \<Rightarrow> xs | Inl _ \<Rightarrow> [])"

text \<open>
  \<open>dbHandler.canAccess\<close>, which is not the \<open>canAccess\<close> of the sites: every administrator may, assigned users may
  not. \<open>None\<close> is the nil dereference on a site that was not found.
\<close>

definition db_canAccess :: "Session option \<Rightarrow> Site option \<Rightarrow> bool option io" where
  "db_canAccess sess site =
     (case sess of
        None \<Rightarrow> State_Monad.return (Some False)
      | Some sess \<Rightarrow> do {
          user \<leftarrow> Users_GetByID (ses_user sess);
          State_Monad.return (case found user of
            None \<Rightarrow> Some False
          | Some user \<Rightarrow>
              if HasRole (usr_role user) RoleAdmin then Some True
              else map_option (\<lambda>s. ste_owner s = Some (ses_user sess)) site)
        })"

definition not_found :: "string \<Rightarrow> reply io" where
  "not_found msg = answer (HTTPError 404 msg)"

definition with_access :: "http_context \<Rightarrow> Site option \<Rightarrow> string \<Rightarrow> reply io \<Rightarrow> reply io" where
  "with_access c site msg body = do {
     a \<leftarrow> db_canAccess (cx_session c) site;
     case a of
       None \<Rightarrow> answer Crashed
     | Some ok \<Rightarrow> if ok then body else not_found msg
   }"

text \<open>A database by its id with its site, both looked up with errors ignored, once the caller may have it.\<close>

definition with_database :: "http_context \<Rightarrow> int \<Rightarrow> (Database \<Rightarrow> Site option \<Rightarrow> reply io) \<Rightarrow> reply io" where
  "with_database c dbID body = do {
     db \<leftarrow> Databases_GetByID dbID;
     case found db of
       None \<Rightarrow> not_found ''database not found''
     | Some db \<Rightarrow> do {
         site \<leftarrow> Sites_GetByID (dtb_site db);
         with_access c (found site) ''database not found'' (body db (found site))
       }
   }"

text \<open>\<open>strconv.ParseInt\<close> with its error ignored, and the user of the session or \<open>0\<close>.\<close>

definition any_id :: "http_context \<Rightarrow> string \<Rightarrow> int" where
  "any_id c name = fst (atoi (cx_param c name))"

definition actor :: "http_context \<Rightarrow> int" where
  "actor c = (case cx_session c of Some s \<Rightarrow> ses_user s | None \<Rightarrow> 0)"

definition accepted :: "http_context \<Rightarrow> (string \<times> json) list \<Rightarrow> reply io" where
  "accepted c fs = answer (JSON 202 (Success c (JObj fs)))"

section \<open>Payloads written with \<open>fmt.Sprintf\<close>\<close>

text \<open>
  \<open>%q\<close> writes a Go string literal, which is the JSON string except for the bytes Go escapes in its own way: such
  a payload is not JSON. Bytes from \<open>0x80\<close> on are taken to be printable text.
\<close>

definition go_only_escape :: "char \<Rightarrow> bool" where
  "go_only_escape c \<longleftrightarrow> (byte c < 0x20 \<and> byte c \<notin> {0x08, 0x09, 0x0A, 0x0C, 0x0D}) \<or> byte c = 0x7F"

definition go_escape :: "char \<Rightarrow> string" where
  "go_escape c =
     (if byte c = 0x07 then [CHR 0x5C, CHR ''a''] else if byte c = 0x08 then [CHR 0x5C, CHR ''b'']
      else if byte c = 0x09 then [CHR 0x5C, CHR ''t''] else if byte c = 0x0A then [CHR 0x5C, CHR ''n'']
      else if byte c = 0x0B then [CHR 0x5C, CHR ''v''] else if byte c = 0x0C then [CHR 0x5C, CHR ''f'']
      else if byte c = 0x0D then [CHR 0x5C, CHR ''r''] else if c \<in> {CHR 0x22, CHR 0x5C} then [CHR 0x5C, c]
      else if byte c < 0x20 \<or> byte c = 0x7F then [CHR 0x5C, CHR ''x'', hex_digit (byte c div 16), hex_digit (byte c mod 16)]
      else [c])"

definition go_quote :: "string \<Rightarrow> string" where
  "go_quote s = [CHR 0x22] @ concat (map go_escape s) @ [CHR 0x22]"

fun field_text :: "string \<times> json \<Rightarrow> string" where
  "field_text (k, JStr s) = go_quote k @ '':'' @ go_quote s"
| "field_text (k, JNum n) = go_quote k @ '':'' @ itoa n"
| "field_text (k, _) = go_quote k @ '':null''"

definition q_payload :: "(string \<times> json) list \<Rightarrow> jtext" where
  "q_payload fs =
     (if list_all (\<lambda>(_, v). case v of JStr s \<Rightarrow> \<not> list_ex go_only_escape s | _ \<Rightarrow> True) fs then Json (JObj fs)
      else Raw (''{'' @ join_on CHR '','' (map field_text fs) @ ''}''))"

definition site_job :: "Site \<Rightarrow> string \<Rightarrow> string \<Rightarrow> jtext \<Rightarrow> NewJob" where
  "site_job site ty description payload =
     \<lparr>new_server = Some (ste_server site), new_site = Some (ste_id site), new_type = ty, new_status = StatusQueued,
      new_payload = payload, new_max_attempts = 0, new_description = description\<rparr>"

abbreviation TypeDatabaseCreate :: string where "TypeDatabaseCreate \<equiv> ''database.create''"
abbreviation TypeDatabaseDelete :: string where "TypeDatabaseDelete \<equiv> ''database.delete''"
abbreviation TypeDBUserCreate :: string where "TypeDBUserCreate \<equiv> ''dbuser.create''"
abbreviation TypeDBUserDelete :: string where "TypeDBUserDelete \<equiv> ''dbuser.delete''"

definition database_payload :: "int \<Rightarrow> int \<Rightarrow> string \<Rightarrow> string \<Rightarrow> jtext" where
  "database_payload dbID siteID name ty = q_payload
     [(''database_id'', JNum dbID), (''site_id'', JNum siteID), (''name'', JStr name), (''type'', JStr ty)]"

definition db_user_payload :: "Database \<Rightarrow> DBUser \<Rightarrow> string \<Rightarrow> jtext" where
  "db_user_payload db u password = q_payload
     [(''user_id'', JNum (dbu_id u)), (''database_id'', JNum (dtb_id db)), (''database_name'', JStr (dtb_name db)),
      (''type'', JStr (dtb_type db)), (''username'', JStr (dbu_username u)), (''password'', JStr password),
      (''host_pattern'', JStr (dbu_host_pattern u)), (''privileges'', JStr (dbu_privileges u))]"

definition db_user_delete_payload :: "Database \<Rightarrow> DBUser \<Rightarrow> jtext" where
  "db_user_delete_payload db u = q_payload
     [(''user_id'', JNum (dbu_id u)), (''database_id'', JNum (dtb_id db)), (''database_name'', JStr (dtb_name db)),
      (''type'', JStr (dtb_type db)), (''username'', JStr (dbu_username u)), (''host_pattern'', JStr (dbu_host_pattern u))]"

text \<open>\<open>generateDBPassword\<close> of the twelve random bytes.\<close>

definition generateDBPassword :: "string \<Rightarrow> string" where
  "generateDBPassword random = hex_encode random"

section \<open>Databases\<close>

record database_body =
  dbb_name :: string
  dbb_type :: string
  dbb_charset :: string
  dbb_collation :: string

definition or_default :: "string \<Rightarrow> string \<Rightarrow> string" where
  "or_default s d = (if s = [] then d else s)"

definition new_database :: "int \<Rightarrow> database_body \<Rightarrow> Database" where
  "new_database siteID b = \<lparr>dtb_id = 0, dtb_site = siteID, dtb_name = ''sp_'' @ dbb_name b, dtb_type = dbb_type b,
     dtb_charset = or_default (dbb_charset b) ''utf8mb4'', dtb_collation = or_default (dbb_collation b) ''utf8mb4_unicode_ci'',
     dtb_size = 0, dtb_created_at = 0\<rparr>"

definition is_inr :: "'a res \<Rightarrow> bool" where
  "is_inr r = (case r of Inr _ \<Rightarrow> True | Inl _ \<Rightarrow> False)"

text \<open>The job that is left when the direct way has failed, and its id (\<open>0\<close>: none).\<close>

definition fallback_job :: "panel_env \<Rightarrow> bool \<Rightarrow> NewJob \<Rightarrow> int io" where
  "fallback_job e needed j =
     (if \<not> needed then State_Monad.return 0
      else do { r \<leftarrow> Jobs_Create (pe_secrets e) j; State_Monad.return (case r of Inr i \<Rightarrow> i | Inl _ \<Rightarrow> 0) })"

definition store_database :: "panel_env \<Rightarrow> http_context \<Rightarrow> Site \<Rightarrow> database_body \<Rightarrow> bool \<Rightarrow> reply io" where
  "store_database e c site b mysqlOK = do {
     r \<leftarrow> Databases_Create (new_database (ste_id site) b);
     case r of
       Inl _ \<Rightarrow> internal_error
     | Inr i \<Rightarrow> do {
         jobID \<leftarrow> fallback_job e (\<not> mysqlOK \<and> dbb_type b = ''mysql'')
           (site_job site TypeDatabaseCreate (''Create database '' @ dbb_name b @ '' on '' @ ste_domain site)
              (database_payload i (ste_id site) (dbb_name b) (dbb_type b)));
         _ \<leftarrow> RecordAction (actor c) ''database_create'' ''database'' i None;
         _ \<leftarrow> NotifySiteUsers (ste_id site) ''db_created'' ''Database Created'' (''Database '' @ dbb_name b @ '' created'')
                ''info'' ''database'' 0;
         accepted c [(''database_id'', JNum i), (''job_id'', JNum jobID)]
       }
   }"

definition createDatabase :: "panel_env \<Rightarrow> database_body option \<Rightarrow> handler" where
  "createDatabase e body c =
     (case id_param c ''id'' of
        None \<Rightarrow> bad_request ''invalid site id''
      | Some siteID \<Rightarrow> do {
          site \<leftarrow> Sites_GetByID siteID;
          case site of
            Inl _ \<Rightarrow> internal_error
          | Inr None \<Rightarrow> not_found ''site not found''
          | Inr (Some site) \<Rightarrow> with_access c (Some site) ''site not found''
              (case body of
                 None \<Rightarrow> bad_request ''invalid body''
               | Some b \<Rightarrow>
                   if \<not> matches dbNameRegex (dbb_name b) then bad_request ''invalid name (alphanumeric + underscore, 1-64)''
                   else if dbb_type b \<noteq> ''mysql'' \<and> dbb_type b \<noteq> ''postgres'' then bad_request ''type must be mysql or postgres''
                   else if dbb_type b = ''mysql'' then do {
                     r \<leftarrow> execMySQLConn e (\<lambda>m. CreateDatabase e m (dbb_name b) (or_default (dbb_charset b) ''utf8mb4'')
                            (or_default (dbb_collation b) ''utf8mb4_unicode_ci''));
                     store_database e c site b (is_inr r)
                   }
                   else store_database e c site b False)
        })"

text \<open>The address of the default server, or the one of a local server.\<close>

definition server_address :: "(string \<times> int) io" where
  "server_address = do {
     svr \<leftarrow> GetDefaultServer;
     State_Monad.return (case found svr of Some svr \<Rightarrow> (dbs_host svr, dbs_port svr) | None \<Rightarrow> (''localhost'', 3306))
   }"

definition database_fields :: "Database \<Rightarrow> (string \<times> json) list" where
  "database_fields db = [(''id'', JNum (dtb_id db)), (''site_id'', JNum (dtb_site db)), (''name'', JStr (dtb_name db)),
     (''type'', JStr (dtb_type db)), (''charset'', JStr (dtb_charset db)), (''collation'', JStr (dtb_collation db)),
     (''size_bytes'', JNum (dtb_size db)), (''created_at'', JStr (rfc3339 (dtb_created_at db)))]"

definition address_fields :: "string \<times> int \<Rightarrow> (string \<times> json) list" where
  "address_fields addr = [(''server_host'', JStr (fst addr)), (''server_port'', JNum (snd addr))]"

definition counted_list :: "http_context \<Rightarrow> string \<Rightarrow> json list \<Rightarrow> reply io" where
  "counted_list c key xs = ok_answer c [(key, JArr xs), (''count'', JNum (int (length xs)))]"

definition listDatabases :: handler where
  "listDatabases c = do {
     site \<leftarrow> Sites_GetByID (any_id c ''id'');
     case found site of
       None \<Rightarrow> not_found ''site not found''
     | Some site \<Rightarrow> with_access c (Some site) ''site not found'' (do {
         dbs \<leftarrow> Databases_ListBySite (any_id c ''id'');
         case dbs of
           Inl _ \<Rightarrow> internal_error
         | Inr dbs \<Rightarrow> do {
             addr \<leftarrow> server_address;
             counted_list c ''databases'' (map (\<lambda>db. JObj (database_fields db @ address_fields addr)) dbs)
           }
       })
   }"

text \<open>The databases of the listing: those whose site the caller may have, and those without a site.\<close>

fun visible_databases :: "http_context \<Rightarrow> Database list \<Rightarrow> (Database \<times> string) list io" where
  "visible_databases c [] = State_Monad.return []"
| "visible_databases c (db # dbs) = do {
     site \<leftarrow> Sites_GetByID (dtb_site db);
     a \<leftarrow> (case found site of None \<Rightarrow> State_Monad.return (Some True) | Some s \<Rightarrow> db_canAccess (cx_session c) (Some s));
     rest \<leftarrow> visible_databases c dbs;
     State_Monad.return
       (if a = Some True then (db, case found site of Some s \<Rightarrow> ste_domain s | None \<Rightarrow> []) # rest else rest)
   }"

definition listAllDatabases :: handler where
  "listAllDatabases c = do {
     dbs \<leftarrow> Databases_ListAll;
     case dbs of
       Inl _ \<Rightarrow> internal_error
     | Inr dbs \<Rightarrow> do {
         addr \<leftarrow> server_address;
         shown \<leftarrow> visible_databases c dbs;
         counted_list c ''databases''
           (map (\<lambda>(db, domain). JObj (database_fields db @ [(''domain'', JStr domain)] @ address_fields addr)) shown)
       }
   }"

definition getDatabase :: handler where
  "getDatabase c =
     (case id_param c ''id'' of
        None \<Rightarrow> bad_request ''invalid id''
      | Some i \<Rightarrow> do {
          db \<leftarrow> Databases_GetByID i;
          case db of
            Inl _ \<Rightarrow> internal_error
          | Inr None \<Rightarrow> not_found ''database not found''
          | Inr (Some db) \<Rightarrow> do {
              site \<leftarrow> Sites_GetByID (dtb_site db);
              case found site of
                None \<Rightarrow> not_found ''site not found''
              | Some site \<Rightarrow> with_access c (Some site) ''database not found'' (ok_answer c (database_fields db))
            }
        })"

definition drop_database :: "panel_env \<Rightarrow> Database \<Rightarrow> unit res io" where
  "drop_database e db =
     (if dtb_type db = ''mysql'' then execMySQLConn e (\<lambda>m. DropDatabase e m (dtb_name db)) else State_Monad.return (Inr ()))"

definition deleteDatabase :: "panel_env \<Rightarrow> handler" where
  "deleteDatabase e c =
     (case id_param c ''id'' of
        None \<Rightarrow> bad_request ''invalid id''
      | Some i \<Rightarrow> do {
          db \<leftarrow> Databases_GetByID i;
          case found db of
            None \<Rightarrow> not_found ''database not found''
          | Some db \<Rightarrow> do {
              site \<leftarrow> Sites_GetByID (dtb_site db);
              case found site of
                None \<Rightarrow> not_found ''site not found''
              | Some site \<Rightarrow> with_access c (Some site) ''database not found'' (do {
                  _ \<leftarrow> drop_database e db;
                  job \<leftarrow> Jobs_Create (pe_secrets e) (site_job site TypeDatabaseDelete
                    (''Delete database '' @ dtb_name db @ '' on '' @ ste_domain site)
                    (database_payload (dtb_id db) (dtb_site db) (dtb_name db) (dtb_type db)));
                  case job of
                    Inl _ \<Rightarrow> internal_error
                  | Inr jobID \<Rightarrow> do {
                      _ \<leftarrow> RecordAction (actor c) ''database_delete'' ''database'' i None;
                      r \<leftarrow> Databases_Delete i;
                      case r of
                        Inl _ \<Rightarrow> internal_error
                      | Inr _ \<Rightarrow> do {
                          _ \<leftarrow> NotifyAdmins ''db_deleted'' ''Database Deleted'' (''Database '' @ dtb_name db @ '' deleted'')
                                 ''warning'' ''database'' i;
                          accepted c [(''database_id'', JNum i), (''job_id'', JNum jobID)]
                        }
                    }
                })
            }
        })"

text \<open>The body's fields are pointers.\<close>

definition alter_database_sql :: "string \<Rightarrow> string \<Rightarrow> string \<Rightarrow> string" where
  "alter_database_sql name charset collation =
     ''ALTER DATABASE '' @ backtick name @ '' CHARACTER SET '' @ charset @ '' COLLATE '' @ collation"

definition before_after :: "string \<Rightarrow> string \<Rightarrow> string \<Rightarrow> string \<Rightarrow> string \<Rightarrow> string \<Rightarrow> json" where
  "before_after k1 a1 b1 k2 a2 b2 = JObj [(k1 @ ''_after'', JStr b1), (k1 @ ''_before'', JStr a1),
     (k2 @ ''_after'', JStr b2), (k2 @ ''_before'', JStr a2)]"

definition updateDatabase :: "panel_env \<Rightarrow> (string option \<times> string option) option \<Rightarrow> handler" where
  "updateDatabase e body c =
     (case id_param c ''id'' of
        None \<Rightarrow> bad_request ''invalid id''
      | Some i \<Rightarrow> with_database c i (\<lambda>db site.
          case body of
            None \<Rightarrow> bad_request ''invalid body''
          | Some (charset, collation) \<Rightarrow>
              let newCharset = (case charset of Some s \<Rightarrow> s | None \<Rightarrow> dtb_charset db);
                  newCollation = (case collation of Some s \<Rightarrow> s | None \<Rightarrow> dtb_collation db)
              in do {
                _ \<leftarrow> (if (charset \<noteq> None \<or> collation \<noteq> None) \<and> dtb_type db = ''mysql''
                      then execMySQLConn e (\<lambda>m. mysql_exec e m (alter_database_sql (dtb_name db) newCharset newCollation))
                      else State_Monad.return (Inr ()));
                r \<leftarrow> Databases_UpdateCharset i newCharset newCollation;
                case r of
                  Inl _ \<Rightarrow> internal_error
                | Inr _ \<Rightarrow> do {
                    _ \<leftarrow> RecordAction (actor c) ''database_update'' ''database'' i
                      (Some (before_after ''charset'' (dtb_charset db) newCharset ''collation'' (dtb_collation db) newCollation));
                    ok_answer c [(''id'', JNum i), (''charset'', JStr newCharset), (''collation'', JStr newCollation)]
                  }
              }))"

section \<open>Accounts\<close>

record db_user_body =
  dub_username :: string
  dub_password :: string
  dub_host_pattern :: string
  dub_privileges :: string

text \<open>The checks of a new account; \<open>Inr\<close> is the body they leave.\<close>

definition check_db_user :: "db_user_body \<Rightarrow> string + db_user_body" where
  "check_db_user b =
     (let host = canonicalDBHost (dub_host_pattern b); privileges = or_default (dub_privileges b) ''ALL''
      in if \<not> matches dbNameRegex (dub_username b) then Inl ''invalid username''
         else case (DBPassword (dub_password b), DBHost host, DBPrivileges privileges) of
           (Some err, _, _) \<Rightarrow> Inl err
         | (None, Some err, _) \<Rightarrow> Inl err
         | (None, None, Some err) \<Rightarrow> Inl err
         | _ \<Rightarrow> Inr (b\<lparr>dub_host_pattern := host, dub_privileges := privileges\<rparr>))"

definition encrypt_or_empty :: "panel_env \<Rightarrow> string \<Rightarrow> string" where
  "encrypt_or_empty e password = (case EncryptPassword (pe_dbs e) password of Some enc \<Rightarrow> enc | None \<Rightarrow> [])"

definition new_db_user :: "int \<Rightarrow> string \<Rightarrow> string \<Rightarrow> string \<Rightarrow> string \<Rightarrow> string \<Rightarrow> DBUser" where
  "new_db_user dbID username hash enc host privileges = \<lparr>dbu_id = 0, dbu_database = dbID, dbu_username = username,
     dbu_password_hash = hash, dbu_encrypted_password = enc, dbu_host_pattern = host, dbu_privileges = privileges,
     dbu_created_at = 0\<rparr>"

text \<open>A job of the site, which must have been found.\<close>

definition queue_site_job :: "panel_env \<Rightarrow> Site option \<Rightarrow> (Site \<Rightarrow> NewJob) \<Rightarrow> (int \<Rightarrow> reply io) \<Rightarrow> reply io" where
  "queue_site_job e site job body =
     (case site of
        None \<Rightarrow> answer Crashed
      | Some site \<Rightarrow> do {
          r \<leftarrow> Jobs_Create (pe_secrets e) (job site);
          case r of Inl _ \<Rightarrow> internal_error | Inr i \<Rightarrow> body i
        })"

definition db_user_created :: "http_context \<Rightarrow> Database \<Rightarrow> DBUser \<Rightarrow> string \<Rightarrow> int \<Rightarrow> reply io" where
  "db_user_created c db u password jobID = do {
     _ \<leftarrow> RecordAction (actor c) ''dbuser_create'' ''dbuser'' (dbu_id u) None;
     _ \<leftarrow> NotifySiteUsers (dtb_site db) ''db_user_created'' ''DB User Created'' (''User '' @ dbu_username u @ '' created'')
            ''info'' ''database'' 0;
     accepted c [(''user_id'', JNum (dbu_id u)), (''username'', JStr (dbu_username u)), (''password'', JStr password),
       (''job_id'', JNum jobID)]
   }"

definition store_db_user :: "panel_env \<Rightarrow> string option \<Rightarrow> http_context \<Rightarrow> Database \<Rightarrow> Site option \<Rightarrow> db_user_body \<Rightarrow> bool \<Rightarrow> reply io" where
  "store_db_user e salt c db site b mysqlOK =
     (case HashPassword (ae_lib (pe_auth e)) salt (dub_password b) of
        None \<Rightarrow> answer (HTTPError 500 ''hash failed'')
      | Some hash \<Rightarrow>
          let u = new_db_user (dtb_id db) (dub_username b) hash (if mysqlOK then encrypt_or_empty e (dub_password b) else [])
                    (dub_host_pattern b) (dub_privileges b)
          in do {
            r \<leftarrow> DBUsers_Create u;
            case r of
              Inl _ \<Rightarrow> internal_error
            | Inr i \<Rightarrow>
                let u = u\<lparr>dbu_id := i\<rparr>
                in if mysqlOK then db_user_created c db u (dub_password b) 0
                   else queue_site_job e site
                     (\<lambda>s. site_job s TypeDBUserCreate (''Create user '' @ dbu_username u @ '' for '' @ ste_domain s)
                        (db_user_payload db u (dub_password b)))
                     (db_user_created c db u (dub_password b))
          })"

definition create_account :: "panel_env \<Rightarrow> Database \<Rightarrow> db_user_body \<Rightarrow> bool io" where
  "create_account e db b =
     (if dtb_type db = ''mysql'' then do {
        r \<leftarrow> execMySQLConn e (\<lambda>m. CreateUser e m (dub_username b) (dub_password b) (dub_host_pattern b) (dtb_name db)
               (dub_privileges b));
        State_Monad.return (is_inr r)
      } else State_Monad.return False)"

definition createDBUser :: "panel_env \<Rightarrow> string option \<Rightarrow> db_user_body option \<Rightarrow> handler" where
  "createDBUser e salt body c =
     (case id_param c ''id'' of
        None \<Rightarrow> bad_request ''invalid database id''
      | Some i \<Rightarrow> with_database c i (\<lambda>db site.
          case body of
            None \<Rightarrow> bad_request ''invalid body''
          | Some b \<Rightarrow>
              (case check_db_user b of
                 Inl msg \<Rightarrow> bad_request msg
               | Inr b \<Rightarrow> do {
                   mysqlOK \<leftarrow> create_account e db b;
                   store_db_user e salt c db site b mysqlOK
                 })))"

definition db_user_fields :: "DBUser \<Rightarrow> (string \<times> json) list" where
  "db_user_fields u = [(''id'', JNum (dbu_id u)), (''database_id'', JNum (dbu_database u)),
     (''username'', JStr (dbu_username u)), (''host_pattern'', JStr (dbu_host_pattern u)),
     (''privileges'', JStr (dbu_privileges u)), (''created_at'', JStr (rfc3339 (dbu_created_at u)))]"

definition listDBUsers :: handler where
  "listDBUsers c = with_database c (any_id c ''id'') (\<lambda>db site. do {
     us \<leftarrow> DBUsers_ListByDatabase (any_id c ''id'');
     case us of
       Inl _ \<Rightarrow> internal_error
     | Inr us \<Rightarrow> counted_list c ''users'' (map (\<lambda>u. JObj (db_user_fields u)) us)
   })"

definition change_account_password :: "panel_env \<Rightarrow> Database \<Rightarrow> DBUser \<Rightarrow> string \<Rightarrow> unit res io" where
  "change_account_password e db u password =
     (if dtb_type db = ''mysql''
      then execMySQLConn e (\<lambda>m. ChangePassword e m (dbu_username u) (dbu_host_pattern u) password)
      else State_Monad.return (Inr ()))"

definition rotateDBUserPassword :: "panel_env \<Rightarrow> string \<Rightarrow> string option \<Rightarrow> handler" where
  "rotateDBUserPassword e random salt c = with_database c (any_id c ''id'') (\<lambda>db site. do {
     u \<leftarrow> DBUsers_GetByID (any_id c ''user_id'');
     case found u of
       None \<Rightarrow> not_found ''user not found''
     | Some u \<Rightarrow>
         if dbu_database u \<noteq> any_id c ''id'' then not_found ''user not found''
         else let password = generateDBPassword random in do {
           _ \<leftarrow> change_account_password e db u password;
           case HashPassword (ae_lib (pe_auth e)) salt password of
             None \<Rightarrow> answer (HTTPError 500 ''hash failed'')
           | Some hash \<Rightarrow> do {
               r \<leftarrow> DBUsers_UpdatePassword (dbu_id u) hash;
               case r of
                 Inl _ \<Rightarrow> internal_error
               | Inr _ \<Rightarrow> queue_site_job e site
                   (\<lambda>s. site_job s TypeDBUserCreate (''Rotate password for '' @ dbu_username u @ '' on '' @ ste_domain s)
                      (db_user_payload db u password))
                   (\<lambda>jobID. do {
                      _ \<leftarrow> RecordAction (actor c) ''dbuser_password_rotate'' ''dbuser'' (dbu_id u) None;
                      accepted c [(''user_id'', JNum (dbu_id u)), (''username'', JStr (dbu_username u)),
                        (''password'', JStr password), (''job_id'', JNum jobID)]
                    })
             }
         }
   })"

definition delete_account :: "panel_env \<Rightarrow> Database \<Rightarrow> DBUser \<Rightarrow> unit res io" where
  "delete_account e db u =
     (if dtb_type db = ''mysql'' then execMySQLConn e (\<lambda>m. DeleteUser e m (dbu_username u) (dbu_host_pattern u))
      else State_Monad.return (Inr ()))"

definition deleteDBUser :: "panel_env \<Rightarrow> handler" where
  "deleteDBUser e c = do {
     u \<leftarrow> DBUsers_GetByID (any_id c ''user_id'');
     case found u of
       None \<Rightarrow> not_found ''user not found''
     | Some u \<Rightarrow>
         if dbu_database u \<noteq> any_id c ''id'' then not_found ''user not found''
         else do {
           db \<leftarrow> Databases_GetByID (any_id c ''id'');
           case found db of
             None \<Rightarrow> answer Crashed
           | Some db \<Rightarrow> do {
               site \<leftarrow> Sites_GetByID (dtb_site db);
               with_access c (found site) ''user not found'' (do {
                 _ \<leftarrow> delete_account e db u;
                 queue_site_job e (found site)
                   (\<lambda>s. site_job s TypeDBUserDelete (''Delete user '' @ dbu_username u @ '' from '' @ ste_domain s)
                      (db_user_delete_payload db u))
                   (\<lambda>jobID. do {
                      _ \<leftarrow> RecordAction (actor c) ''dbuser_delete'' ''dbuser'' (dbu_id u) None;
                      r \<leftarrow> DBUsers_Delete (dbu_id u);
                      case r of
                        Inl _ \<Rightarrow> internal_error
                      | Inr _ \<Rightarrow> accepted c [(''user_id'', JNum (dbu_id u)), (''job_id'', JNum jobID)]
                    })
               })
             }
         }
   }"

text \<open>
  \<open>listAllDBUsers\<close>: the rows of one database, then of all. \<open>None\<close>: a look-up of a site has failed and the handler
  has dereferenced \<open>nil\<close>.
\<close>

fun visible_db_users :: "http_context \<Rightarrow> Database list \<Rightarrow> json list option io" where
  "visible_db_users c [] = State_Monad.return (Some [])"
| "visible_db_users c (db # dbs) = do {
     site \<leftarrow> Sites_GetByID (dtb_site db);
     a \<leftarrow> db_canAccess (cx_session c) (found site);
     if a = None then State_Monad.return None
     else if a = Some False then visible_db_users c dbs
     else do {
       us \<leftarrow> DBUsers_ListByDatabase (dtb_id db);
       rest \<leftarrow> visible_db_users c dbs;
       State_Monad.return (map_option ((@) (map (\<lambda>u. JObj (db_user_fields u
         @ [(''database_name'', JStr (dtb_name db)), (''site_id'', JNum (dtb_site db)),
            (''domain'', JStr (case found site of Some s \<Rightarrow> ste_domain s | None \<Rightarrow> []))])) (listed us))) rest)
     }
   }"

definition listAllDBUsers :: handler where
  "listAllDBUsers c = do {
     dbs \<leftarrow> Databases_ListAll;
     case dbs of
       Inl _ \<Rightarrow> internal_error
     | Inr dbs \<Rightarrow> do {
         us \<leftarrow> visible_db_users c dbs;
         case us of None \<Rightarrow> answer Crashed | Some us \<Rightarrow> counted_list c ''users'' us
       }
   }"

text \<open>The direct part of \<open>updateDBUser\<close>: a new host is a new account, with the password if it can be decrypted.\<close>

definition move_account :: "panel_env \<Rightarrow> mysql_conn \<Rightarrow> Database \<Rightarrow> DBUser \<Rightarrow> string \<Rightarrow> string \<Rightarrow> unit res io" where
  "move_account e m db u newHost newPrivs = and_then (DeleteUser e m (dbu_username u) (dbu_host_pattern u))
     (case (if dbu_encrypted_password u = [] then None else DecryptPassword (pe_dbs e) (dbu_encrypted_password u)) of
        None \<Rightarrow> State_Monad.return (Inr ())
      | Some pass \<Rightarrow> CreateUser e m (dbu_username u) pass newHost (dtb_name db) newPrivs)"

definition update_account :: "panel_env \<Rightarrow> Database \<Rightarrow> DBUser \<Rightarrow> string option \<Rightarrow> string \<Rightarrow> string \<Rightarrow> unit res io" where
  "update_account e db u host newHost newPrivs = execMySQLConn e (\<lambda>m.
     if host \<noteq> None \<and> host \<noteq> Some (dbu_host_pattern u) then move_account e m db u newHost newPrivs
     else GrantPrivileges e m (dbu_username u) newHost (dtb_name db) newPrivs)"

definition optional_check :: "(string \<Rightarrow> goerror) \<Rightarrow> string option \<Rightarrow> goerror" where
  "optional_check check v = (case v of None \<Rightarrow> nil | Some s \<Rightarrow> check s)"

definition updateDBUser :: "panel_env \<Rightarrow> (string option \<times> string option) option \<Rightarrow> handler" where
  "updateDBUser e body c =
     (case id_param c ''id'' of
        None \<Rightarrow> bad_request ''invalid user id''
      | Some i \<Rightarrow> do {
          u \<leftarrow> DBUsers_GetByID i;
          case found u of
            None \<Rightarrow> not_found ''user not found''
          | Some u \<Rightarrow> do {
              db \<leftarrow> Databases_GetByID (dbu_database u);
              case found db of
                None \<Rightarrow> not_found ''database not found''
              | Some db \<Rightarrow> do {
                  site \<leftarrow> Sites_GetByID (dtb_site db);
                  with_access c (found site) ''user not found''
                    (case body of
                       None \<Rightarrow> bad_request ''invalid body''
                     | Some (host, privs) \<Rightarrow>
                         let newHost = (case host of Some h \<Rightarrow> canonicalDBHost h | None \<Rightarrow> dbu_host_pattern u);
                             newPrivs = (case privs of Some p \<Rightarrow> p | None \<Rightarrow> dbu_privileges u)
                         in case (optional_check (\<lambda>_. DBHost newHost) host, optional_check DBPrivileges privs) of
                              (Some err, _) \<Rightarrow> bad_request err
                            | (None, Some err) \<Rightarrow> bad_request err
                            | _ \<Rightarrow> do {
                                _ \<leftarrow> (if (host \<noteq> None \<or> privs \<noteq> None) \<and> dtb_type db = ''mysql''
                                      then update_account e db u host newHost newPrivs else State_Monad.return (Inr ()));
                                r \<leftarrow> DBUsers_UpdateHostAndPrivileges (dbu_id u) newHost newPrivs;
                                case r of
                                  Inl _ \<Rightarrow> internal_error
                                | Inr _ \<Rightarrow> do {
                                    _ \<leftarrow> RecordAction (actor c) ''dbuser_update'' ''dbuser'' (dbu_id u)
                                      (Some (before_after ''host'' (dbu_host_pattern u) newHost ''privs'' (dbu_privileges u) newPrivs));
                                    ok_answer c [(''id'', JNum (dbu_id u)), (''username'', JStr (dbu_username u)),
                                      (''host_pattern'', JStr newHost), (''privileges'', JStr newPrivs)]
                                  }
                              })
                }
            }
        })"

section \<open>Granting an existing account\<close>

record grant_body =
  grb_username :: string
  grb_host_pattern :: string
  grb_privileges :: string

definition grant_account :: "panel_env \<Rightarrow> Database \<Rightarrow> grant_body \<Rightarrow> unit res io" where
  "grant_account e db b =
     (if dtb_type db = ''mysql''
      then execMySQLConn e (\<lambda>m. GrantPrivileges e m (grb_username b) (grb_host_pattern b) (dtb_name db) (grb_privileges b))
      else State_Monad.return (Inr ()))"

definition update_grant :: "panel_env \<Rightarrow> http_context \<Rightarrow> Database \<Rightarrow> grant_body \<Rightarrow> DBUser \<Rightarrow> reply io" where
  "update_grant e c db b u = do {
     _ \<leftarrow> grant_account e db b;
     r \<leftarrow> DBUsers_UpdateHostAndPrivileges (dbu_id u) (grb_host_pattern b) (grb_privileges b);
     case r of
       Inl _ \<Rightarrow> internal_error
     | Inr _ \<Rightarrow> do {
         _ \<leftarrow> RecordAction (actor c) ''dbuser_grant_update'' ''dbuser'' (dbu_id u) None;
         ok_answer c [(''user_id'', JNum (dbu_id u)), (''username'', JStr (grb_username b)),
           (''host_pattern'', JStr (grb_host_pattern b)), (''action'', JStr ''updated'')]
       }
   }"

text \<open>A failing grant is logged; the password of the account is set anew whether or not it was granted.\<close>

definition new_grant :: "panel_env \<Rightarrow> string \<Rightarrow> string option \<Rightarrow> http_context \<Rightarrow> Database \<Rightarrow> grant_body \<Rightarrow> reply io" where
  "new_grant e random salt c db b = do {
     _ \<leftarrow> grant_account e db b;
     let password = generateDBPassword random;
     let hash = (case HashPassword (ae_lib (pe_auth e)) salt password of Some h \<Rightarrow> h | None \<Rightarrow> []);
     let u = new_db_user (dtb_id db) (grb_username b) hash (if dtb_type db = ''mysql'' then encrypt_or_empty e password else [])
               (grb_host_pattern b) (grb_privileges b);
     _ \<leftarrow> change_account_password e db u password;
     r \<leftarrow> DBUsers_Create u;
     case r of
       Inl _ \<Rightarrow> internal_error
     | Inr i \<Rightarrow> do {
         _ \<leftarrow> RecordAction (actor c) ''dbuser_grant'' ''dbuser'' i None;
         answer (JSON 201 (Success c (JObj [(''user_id'', JNum i), (''username'', JStr (grb_username b)),
           (''password'', JStr password)])))
       }
   }"

definition grantExistingUser :: "panel_env \<Rightarrow> string \<Rightarrow> string option \<Rightarrow> grant_body option \<Rightarrow> handler" where
  "grantExistingUser e random salt body c =
     (case id_param c ''id'' of
        None \<Rightarrow> bad_request ''invalid database id''
      | Some i \<Rightarrow> with_database c i (\<lambda>db site.
          case body of
            None \<Rightarrow> bad_request ''invalid body''
          | Some b \<Rightarrow>
              if grb_username b = [] then bad_request ''username required''
              else let b = b\<lparr>grb_host_pattern := canonicalDBHost (grb_host_pattern b),
                             grb_privileges := or_default (grb_privileges b) ''ALL''\<rparr>
              in do {
                us \<leftarrow> DBUsers_ListByDatabase i;
                case find (\<lambda>u. canonicalDBUserKey (dbu_username u) (dbu_host_pattern u)
                               = canonicalDBUserKey (grb_username b) (grb_host_pattern b)) (listed us) of
                  Some u \<Rightarrow> update_grant e c db b u
                | None \<Rightarrow> new_grant e random salt c db b
              }))"

text \<open>The accounts of the server that are not assigned yet, each once: \<open>seen\<close> holds the keys to leave out.\<close>

fun available_accounts :: "string list \<Rightarrow> (string \<times> string) list \<Rightarrow> (string \<times> string) list" where
  "available_accounts seen [] = []"
| "available_accounts seen ((username, host) # us) =
     (let key = canonicalDBUserKey username (canonicalDBHost host)
      in if key \<in> set seen then available_accounts seen us
         else (username, canonicalDBHost host) # available_accounts (key # seen) us)"

definition listAvailableMySQLUsers :: "panel_env \<Rightarrow> handler" where
  "listAvailableMySQLUsers e c =
     (case id_param c ''id'' of
        None \<Rightarrow> bad_request ''invalid database id''
      | Some i \<Rightarrow> with_database c i (\<lambda>db site. do {
          us \<leftarrow> DBUsers_ListByDatabase i;
          accounts \<leftarrow> (if dtb_type db = ''mysql'' then execMySQLConn e (ListUsers e) else State_Monad.return (Inr []));
          counted_list c ''users'' (map (\<lambda>(username, host). JObj [(''username'', JStr username), (''host'', JStr host)])
            (available_accounts (map (\<lambda>u. canonicalDBUserKey (dbu_username u) (dbu_host_pattern u)) (listed us))
              (listed accounts)))
        }))"

section \<open>Logins for phpMyAdmin\<close>

text \<open>\<open>base64.RawURLEncoding\<close>.\<close>

definition b64_url :: "string \<Rightarrow> string" where
  "b64_url s = map (\<lambda>c. if c = CHR ''+'' then CHR ''-'' else if c = CHR ''/'' then CHR ''_'' else c) (b64_encode s)"

record pma_body =
  pmb_database_id :: int
  pmb_expires :: int
  pmb_signature :: string

text \<open>
  \<open>hmac\<close> is HMAC-SHA-256 with a secret key, \<open>secret\<close> the environment variable; \<open>suffix\<close> the random bytes
  (\<open>None\<close>: reading them has failed).
\<close>

definition signed_request :: "(string \<Rightarrow> string \<Rightarrow> string) \<Rightarrow> string \<Rightarrow> int \<Rightarrow> pma_body \<Rightarrow> bool" where
  "signed_request hmac secret t b \<longleftrightarrow>
     length secret \<ge> 32 \<and> t < pmb_expires b \<and> pmb_expires b \<le> t + 120
     \<and> b64_url (hmac secret (itoa (pmb_database_id b) @ '':'' @ itoa (pmb_expires b))) = pmb_signature b"

definition dedicated_login :: "panel_env \<Rightarrow> string \<Rightarrow> string \<Rightarrow> Database \<Rightarrow> mysql_conn \<Rightarrow> unit res io" where
  "dedicated_login e username password db m =
     and_then (labelled ''create dedicated user: '' (CreateUser e m username password ''localhost'' (dtb_name db) ''ALL''))
       (do {
          r \<leftarrow> ScheduleDeleteUser e m username ''localhost'' 3660;
          case r of
            Inr _ \<Rightarrow> State_Monad.return (Inr ())
          | Inl err \<Rightarrow> do {
              _ \<leftarrow> DeleteUser e m username ''localhost'';
              State_Monad.return (Inl (Fail (''schedule dedicated user cleanup: '' @ error_text err)))
            }
        })"

definition phpMyAdminCredentials ::
  "panel_env \<Rightarrow> (string \<Rightarrow> string \<Rightarrow> string) \<Rightarrow> string \<Rightarrow> string option \<Rightarrow> string \<Rightarrow> pma_body option \<Rightarrow> handler" where
  "phpMyAdminCredentials e hmac secret suffix random body c =
     (case body of
        None \<Rightarrow> bad_request ''valid database_id required''
      | Some b \<Rightarrow>
          if pmb_database_id b \<le> 0 then bad_request ''valid database_id required''
          else do {
            t \<leftarrow> now;
            if \<not> signed_request hmac secret t b then answer (HTTPError 401 ''invalid signed request'')
            else do {
              db \<leftarrow> Databases_GetByID (pmb_database_id b);
              case found db of
                None \<Rightarrow> not_found ''mysql database not found''
              | Some db \<Rightarrow>
                  if dtb_type db \<noteq> ''mysql'' then not_found ''mysql database not found''
                  else (case suffix of
                      None \<Rightarrow> answer (HTTPError 500 ''credential generation failed'')
                    | Some suffix \<Rightarrow>
                        let username = ''sp_pma_'' @ itoa (dtb_id db) @ ''_'' @ hex_encode suffix;
                            password = generateDBPassword random
                        in do {
                          r \<leftarrow> execMySQLConn e (dedicated_login e username password db);
                          case r of
                            Inl _ \<Rightarrow> answer (HTTPError 500 ''failed to prepare phpMyAdmin login'')
                          | Inr _ \<Rightarrow> ok_answer c [(''username'', JStr username), (''password'', JStr password)]
                        })
            }
          })"

text \<open>\<open>phpMyAdminResetPasswords\<close>: \<open>random n\<close> is the \<open>n\<close>-th password's bytes and salt.\<close>

definition needs_reset :: "DBUser \<Rightarrow> bool" where
  "needs_reset u \<longleftrightarrow> dbu_password_hash u = ''imported'' \<or> dbu_encrypted_password u = []"

definition reset_account :: "panel_env \<Rightarrow> mysql_conn \<Rightarrow> string \<times> string option \<Rightarrow> DBUser \<Rightarrow> bool io" where
  "reset_account e m random u = (let password = generateDBPassword (fst random) in do {
     r \<leftarrow> ChangePassword e m (dbu_username u) (dbu_host_pattern u) password;
     case r of
       Inl _ \<Rightarrow> State_Monad.return False
     | Inr _ \<Rightarrow>
         (case EncryptPassword (pe_dbs e) password of
            None \<Rightarrow> State_Monad.return False
          | Some enc \<Rightarrow> do {
              r \<leftarrow> DBUsers_UpdateEncryptedPassword (dbu_id u) enc;
              case r of
                Inl _ \<Rightarrow> State_Monad.return False
              | Inr _ \<Rightarrow>
                  (case HashPassword (ae_lib (pe_auth e)) (snd random) password of
                     None \<Rightarrow> State_Monad.return True
                   | Some hash \<Rightarrow>
                       if hash = [] then State_Monad.return True
                       else do { _ \<leftarrow> DBUsers_UpdatePassword (dbu_id u) hash; State_Monad.return True })
            })
   })"

text \<open>The accounts of a database in turn; the result is the passwords drawn and the accounts reset so far.\<close>

fun reset_accounts :: "panel_env \<Rightarrow> mysql_conn \<Rightarrow> (nat \<Rightarrow> string \<times> string option) \<Rightarrow> nat \<times> int \<Rightarrow> DBUser list \<Rightarrow> (nat \<times> int) io" where
  "reset_accounts e m random acc [] = State_Monad.return acc"
| "reset_accounts e m random acc (u # us) =
     (if needs_reset u then do {
        ok \<leftarrow> reset_account e m (random (fst acc)) u;
        reset_accounts e m random (fst acc + 1, snd acc + (if ok then 1 else 0)) us
      } else reset_accounts e m random acc us)"

fun reset_databases :: "panel_env \<Rightarrow> mysql_conn \<Rightarrow> (nat \<Rightarrow> string \<times> string option) \<Rightarrow> nat \<times> int \<Rightarrow> Database list \<Rightarrow> (nat \<times> int) io" where
  "reset_databases e m random acc [] = State_Monad.return acc"
| "reset_databases e m random acc (db # dbs) = do {
     us \<leftarrow> DBUsers_ListByDatabase (dtb_id db);
     acc \<leftarrow> reset_accounts e m random acc (listed us);
     reset_databases e m random acc dbs
   }"

definition phpMyAdminResetPasswords :: "panel_env \<Rightarrow> (nat \<Rightarrow> string \<times> string option) \<Rightarrow> handler" where
  "phpMyAdminResetPasswords e random c = do {
     svr \<leftarrow> GetDefaultServer;
     case found svr of
       None \<Rightarrow> not_found ''no database server configured''
     | Some svr \<Rightarrow>
         (case DecryptPassword (pe_dbs e) (dbs_password svr) of
            None \<Rightarrow> answer (HTTPError 500 ''decrypt failed'')
          | Some pass \<Rightarrow> do {
              m \<leftarrow> Connect e svr pass;
              case m of
                Inl err \<Rightarrow> answer (HTTPError 424 (''mysql connection failed: '' @ error_text err))
              | Inr m \<Rightarrow> do {
                  dbs \<leftarrow> Databases_ListAll;
                  acc \<leftarrow> reset_databases e m random (0, 0) (listed dbs);
                  _ \<leftarrow> RecordAction (actor c) ''phpmyadmin_reset_passwords'' ''database'' 0
                         (Some (JObj [(''reset_count'', JNum (snd acc))]));
                  ok_answer c [(''reset_count'', JNum (snd acc))]
                }
            })
   }"

text \<open>
  \<open>extractPHPVar\<close>: the leftmost match of \<open>\$name\s*=\s*['"]([^'"]+)['"]\<close>. The classes that follow each other are
  disjoint, so the greedy match is the only one at a place.
\<close>

definition php_blank :: "char \<Rightarrow> bool" where
  "php_blank c \<longleftrightarrow> byte c \<in> {0x09, 0x0A, 0x0C, 0x0D, 0x20}"

definition php_quote :: "char \<Rightarrow> bool" where
  "php_quote c \<longleftrightarrow> byte c \<in> {0x22, 0x27}"

definition php_assignment :: "string \<Rightarrow> string \<Rightarrow> string option" where
  "php_assignment name s =
     (if \<not> has_prefix (CHR ''$'' # name) s then None
      else case dropWhile php_blank (drop (1 + length name) s) of
        c # r \<Rightarrow> if c \<noteq> CHR ''='' then None
          else (case dropWhile php_blank r of
             q # v \<Rightarrow> if php_quote q \<and> takeWhile (\<lambda>c. \<not> php_quote c) v \<noteq> [] \<and> dropWhile (\<lambda>c. \<not> php_quote c) v \<noteq> []
                       then Some (takeWhile (\<lambda>c. \<not> php_quote c) v) else None
           | [] \<Rightarrow> None)
      | [] \<Rightarrow> None)"

fun extractPHPVar :: "string \<Rightarrow> string \<Rightarrow> string" where
  "extractPHPVar [] name = []"
| "extractPHPVar (c # s) name =
     (case php_assignment name (c # s) of Some v \<Rightarrow> v | None \<Rightarrow> extractPHPVar s name)"

text \<open>\<open>config\<close> is the content of \<open>/etc/phpmyadmin/config-db.php\<close>.\<close>

definition login_answer :: "http_context \<Rightarrow> string \<Rightarrow> string \<Rightarrow> string \<Rightarrow> reply io" where
  "login_answer c username password host =
     ok_answer c [(''username'', JStr username), (''password'', JStr password), (''host'', JStr host)]"

definition control_user :: "string option \<Rightarrow> http_context \<Rightarrow> reply io" where
  "control_user config c =
     (case config of
        None \<Rightarrow> answer (HTTPError 500 ''phpmyadmin config not found'')
      | Some cfg \<Rightarrow>
          if extractPHPVar cfg ''dbuser'' = [] \<or> extractPHPVar cfg ''dbpass'' = []
          then answer (HTTPError 500 ''phpmyadmin credentials not configured'')
          else login_answer c (extractPHPVar cfg ''dbuser'') (extractPHPVar cfg ''dbpass'') ''localhost'')"

text \<open>The first account whose password can be decrypted to something.\<close>

definition stored_login :: "panel_env \<Rightarrow> DBUser \<Rightarrow> (string \<times> string \<times> string) option" where
  "stored_login e u =
     (if dbu_encrypted_password u = [] then None
      else case DecryptPassword (pe_dbs e) (dbu_encrypted_password u) of
        Some pass \<Rightarrow> if pass = [] then None else Some (dbu_username u, pass, dbu_host_pattern u)
      | None \<Rightarrow> None)"

definition pmaCredentials :: "panel_env \<Rightarrow> string option \<Rightarrow> string \<Rightarrow> string \<Rightarrow> handler" where
  "pmaCredentials e config suffix random c =
     (if cx_session c = None then answer (HTTPError 401 ''not authenticated'')
      else case id_param c ''id'' of
        None \<Rightarrow> bad_request ''invalid database id''
      | Some i \<Rightarrow> with_database c i (\<lambda>db site. do {
          us \<leftarrow> DBUsers_ListByDatabase i;
          case List.map_filter (stored_login e) (listed us) of
            (username, pass, host) # _ \<Rightarrow> login_answer c username pass host
          | [] \<Rightarrow>
              if dtb_type db = ''mysql'' then
                let username = ''pma_'' @ itoa (dtb_id db) @ ''_'' @ hex_encode suffix; password = generateDBPassword random
                in do {
                  r \<leftarrow> execMySQLConn e (\<lambda>m. CreateUser e m username password ''localhost'' (dtb_name db) ''ALL'');
                  case r of
                    Inr _ \<Rightarrow> login_answer c username password ''localhost''
                  | Inl _ \<Rightarrow> control_user config c
                }
              else control_user config c
        }))"

section \<open>Raw SQL\<close>

definition is_query :: "string \<Rightarrow> bool" where
  "is_query text \<longleftrightarrow> (let u = to_upper (trim_space text)
     in has_prefix ''SELECT'' u \<or> has_prefix ''SHOW'' u \<or> has_prefix ''DESCRIBE'' u)"

text \<open>The answer to a query is the row of its column names and its rows, with \<open>null\<close> cells.\<close>

definition cell_text :: "json \<Rightarrow> string" where
  "cell_text v = (case v of JStr s \<Rightarrow> s | JNum n \<Rightarrow> itoa n | _ \<Rightarrow> ''NULL'')"

definition row_text :: "json \<Rightarrow> string" where
  "row_text r = (case r of JArr vs \<Rightarrow> join_on CHR 0x09 (map cell_text vs) | _ \<Rightarrow> [])"

definition query_text :: "jtext \<Rightarrow> string" where
  "query_text r = (case r of Json (JArr rs) \<Rightarrow> join_on CHR 0x0A (map row_text rs) | _ \<Rightarrow> [])"

text \<open>A query runs on a connection of its own, opened with the default server looked up again.\<close>

definition run_query :: "panel_env \<Rightarrow> string \<Rightarrow> mysql_conn \<Rightarrow> string res io" where
  "run_query e text m = do {
     svr \<leftarrow> GetDefaultServer;
     case found svr of
       None \<Rightarrow> State_Monad.return (Inl (Fail ''no database server configured''))
     | Some svr \<Rightarrow>
         (case DecryptPassword (pe_dbs e) (dbs_password svr) of
            None \<Rightarrow> State_Monad.return (Inl (Fail ''decrypt failed''))
          | Some pass \<Rightarrow> do {
              r \<leftarrow> mysql_query e \<lparr>mc_server = svr, mc_engine = []\<rparr> text;
              State_Monad.return (case r of Inl err \<Rightarrow> Inl err | Inr rs \<Rightarrow> Inr (query_text rs))
            })
   }"

text \<open>\<open>RowsAffected\<close> is the status of the answer.\<close>

definition run_statement :: "panel_env \<Rightarrow> string \<Rightarrow> mysql_conn \<Rightarrow> string res io" where
  "run_statement e text m = do {
     r \<leftarrow> net_call e (sql_call (mc_server m) ''SQL'' text);
     State_Monad.return (case r of Unreachable err \<Rightarrow> Inl (Fail err)
       | Answered n _ \<Rightarrow> Inr (''OK ('' @ itoa n @ '' rows affected)''))
   }"

definition execSQL :: "panel_env \<Rightarrow> string option \<Rightarrow> handler" where
  "execSQL e body c =
     (case body of
        None \<Rightarrow> bad_request ''sql required''
      | Some text \<Rightarrow>
          if text = [] then bad_request ''sql required''
          else do {
            r \<leftarrow> execMySQLConn e (if is_query text then run_query e text else run_statement e text);
            case r of
              Inl err \<Rightarrow> answer (HTTPError 500 (error_text err))
            | Inr out \<Rightarrow> ok_answer c [(''result'', JStr out)]
          })"

end
