(* ===== verification/Tenants.thy ===== *)
theory Tenants
  imports Outside SiteAccess
begin

text \<open>
  A small panel for concrete runs: user 1 owns the site \<open>shop.test\<close> with the root directory \<open>/home/ann/shop\<close>
  and its database 1, user 2 is another customer, user 3 an administrator and user 4 the super administrator. The
  network answers every request with \<open>200\<close> and \<open>null\<close>.
\<close>

definition tenant :: "int \<Rightarrow> string \<Rightarrow> string \<Rightarrow> User" where
  "tenant i name role = (new_user name (name @ ''@x.org'') [] role None None None)\<lparr>usr_id := i\<rparr>"

definition tenant_session :: "int \<Rightarrow> Session" where
  "tenant_session i = \<lparr>ses_id = i, ses_user = i, ses_token_hash = [], ses_expires_at = 900, ses_created_at = 0,
     ses_revoked_at = None, ses_impersonated_by = None\<rparr>"

definition request_of :: "int \<Rightarrow> http_context" where
  "request_of i = \<lparr>cx_authorization = [], cx_cookie = None, cx_ip = [], cx_remote_addr = [], cx_rid = ''r'',
     cx_param = (\<lambda>_. ''1''), cx_session = Some (tenant_session i), cx_user = i, cx_role = Some RoleUser, cx_scopes = []\<rparr>"

definition shop_site :: Site where
  "shop_site = \<lparr>ste_id = 1, ste_server = 1, ste_name = ''shop'', ste_domain = ''shop.test'', ste_runtime = ''php'',
     ste_root_path = ''/home/ann/shop'', ste_status = ''active'', ste_owner = Some 1, ste_ssl_status = None,
     ste_ssl_issuer = None, ste_ssl_expires_at = None, ste_ssl_last_check = None, ste_git_repo = None,
     ste_git_branch = None, ste_git_commit = None, ste_webhook_secret = None, ste_managed_by = None,
     ste_system_user = None, ste_conf_file = None, ste_proxy_pass_url = None, ste_app_port = None,
     ste_app_command = None, ste_app_status = None, ste_app_memory_max = None, ste_php_version = None,
     ste_php_ini = None, ste_backup_provider = None, ste_created_at = 0, ste_updated_at = 0\<rparr>"

definition shop_server :: Server where
  "shop_server = \<lparr>srv_id = 1, srv_name = ''s1'', srv_hostname = ''s1.test'', srv_agent_url = Some ''http://s1:8081'',
     srv_ip = None, srv_ipv6 = None, srv_ssh_port = 22, srv_description = [], srv_status = ''active'', srv_provider = None,
     srv_agent_token = ''agent'', srv_last_health_check = None, srv_health_status = [], srv_health_latency = 0,
     srv_updated_at = 0\<rparr>"

definition shop_database :: "string \<Rightarrow> Database" where
  "shop_database ty = \<lparr>dtb_id = 1, dtb_site = 1, dtb_name = ''sp_shop'', dtb_type = ty, dtb_charset = ''utf8mb4'',
     dtb_collation = ''utf8mb4_unicode_ci'', dtb_size = 0, dtb_created_at = 0\<rparr>"

definition local_mysql :: DBServer where
  "local_mysql = \<lparr>dbs_id = 1, dbs_name = ''main'', dbs_engine = ''mysql'', dbs_host = ''localhost'', dbs_port = 3306,
     dbs_username = ''root'', dbs_password = ''terces'', dbs_active = True, dbs_default = True,
     dbs_backup_username = [], dbs_backup_password = []\<rparr>"

definition tenants :: "string \<Rightarrow> world" where
  "tenants ty = (fresh_world 100)\<lparr>
     w_users := \<lparr>rows = [tenant 1 ''ann'' RoleUser, tenant 2 ''bob'' RoleUser, tenant 3 ''eve'' RoleAdmin,
                        tenant 4 ''root'' RoleSuperAdmin], seqno = 4\<rparr>,
     w_servers := \<lparr>rows = [shop_server], seqno = 1\<rparr>,
     w_sites := \<lparr>rows = [shop_site], seqno = 1\<rparr>,
     w_databases := \<lparr>rows = [shop_database ty], seqno = 1\<rparr>,
     w_db_servers := \<lparr>rows = [local_mysql], seqno = 1\<rparr>\<rparr>"

definition tenant_auth :: auth_env where
  "tenant_auth = \<lparr>ae_lib = demo_auth, ae_dev = False, ae_allow_registration = True\<rparr>"

definition tenant_env :: panel_env where
  "tenant_env = \<lparr>pe_auth = tenant_auth, pe_secrets = demo_crypto, pe_dbs = demo_crypto,
     pe_net = (\<lambda>_ _. Answered 200 (Json JNull)), pe_listen = (\<lambda>_. True), pe_output = (\<lambda>_. None), pe_bcrypt = (\<lambda>p. Some p)\<rparr>"

lemma param_1: "atoi ''1'' = (1, True)"
  by code_simp

lemma request_of_simps [simp]:
  "cx_session (request_of i) = Some (tenant_session i)" "ses_user (tenant_session i) = i"
  by (simp_all add: request_of_def tenant_session_def)

lemma request_params: "cx_param (request_of i) name = ''1''" "id_param (request_of i) name = Some 1"
  by (simp_all add: request_of_def id_param_def param_1)

end
