(* ===== verification/SQLQuoting.thy ===== *)
theory SQLQuoting
  imports DatabaseHandlers Tenants
begin

text \<open>
  The statements of \<open>MySQL\<close> as the database server reads them: a lexer of quoted pieces, in both modes of the
  backslash, and what the values the handlers accept look like to it.
\<close>

section \<open>Reading a statement\<close>

datatype piece = Plain string | Quoted char string

text \<open>
  \<open>lex esc q acc s\<close> reads \<open>s\<close> inside a literal with the quote \<open>q\<close>, or outside of literals; \<open>acc\<close> is the piece so
  far, reversed. A doubled quote stands for itself; with \<open>esc\<close> a backslash escapes in a string (without
  \<open>NO_BACKSLASH_ESCAPES\<close>). \<open>None\<close>: a literal is not closed.
\<close>

fun lex :: "bool \<Rightarrow> char option \<Rightarrow> string \<Rightarrow> string \<Rightarrow> piece list option" where
  "lex esc None acc [] = Some [Plain (rev acc)]"
| "lex esc None acc (c # s) =
     (if c = CHR 0x27 \<or> c = CHR 0x60 then map_option (Cons (Plain (rev acc))) (lex esc (Some c) [] s)
      else lex esc None (c # acc) s)"
| "lex esc (Some q) acc [] = None"
| "lex esc (Some q) acc [c] = (if c = q then Some [Quoted q (rev acc), Plain []] else None)"
| "lex esc (Some q) acc (c # d # s) =
     (if c = q then if d = q then lex esc (Some q) (q # acc) s else map_option (Cons (Quoted q (rev acc))) (lex esc None [] (d # s))
      else if esc \<and> q = CHR 0x27 \<and> c = CHR 0x5C then lex esc (Some q) (d # acc) s
      else lex esc (Some q) (c # acc) (d # s))"

definition unquoted :: "string \<Rightarrow> bool" where
  "unquoted s \<longleftrightarrow> CHR 0x27 \<notin> set s \<and> CHR 0x60 \<notin> set s"

definition separate :: "char \<Rightarrow> string \<Rightarrow> bool" where
  "separate q s \<longleftrightarrow> (case s of [] \<Rightarrow> True | c # _ \<Rightarrow> c \<noteq> q)"

lemma separate_simps [simp]: "separate q []" "separate q (c # s) \<longleftrightarrow> c \<noteq> q"
  by (simp_all add: separate_def)

lemma lex_plain: "unquoted t \<Longrightarrow> lex esc None acc (t @ s) = lex esc None (rev t @ acc) s"
  by (induction t arbitrary: acc) (auto simp: unquoted_def)

lemma lex_plain_end: "unquoted t \<Longrightarrow> lex esc None acc t = Some [Plain (rev acc @ t)]"
  using lex_plain [of t esc acc "[]"] by simp

lemma lex_step:
  "c \<noteq> q \<Longrightarrow> c \<noteq> CHR 0x5C \<Longrightarrow> lex esc (Some q) acc (c # s) = lex esc (Some q) (c # acc) s"
  by (cases s) auto

lemma lex_close:
  "separate q s \<Longrightarrow> lex esc (Some q) acc (q # s) = map_option (Cons (Quoted q (rev acc))) (lex esc None [] s)"
  by (cases s) (auto simp: separate_def)

lemma lex_quoted:
  "q \<notin> set t \<Longrightarrow> CHR 0x5C \<notin> set t \<Longrightarrow> separate q s \<Longrightarrow>
   lex esc (Some q) acc (t @ q # s) = map_option (Cons (Quoted q (rev acc @ t))) (lex esc None [] s)"
  by (induction t arbitrary: acc) (auto simp: lex_close lex_step)

lemma lex_doubled:
  "CHR 0x5C \<notin> set t \<Longrightarrow> separate CHR 0x27 s \<Longrightarrow>
   lex esc (Some CHR 0x27) acc (safeSQLString t @ CHR 0x27 # s) =
     map_option (Cons (Quoted CHR 0x27 (rev acc @ t))) (lex esc None [] s)"
  by (induction t arbitrary: acc) (auto simp: safeSQLString_def lex_close lex_step)

section \<open>The statements\<close>

lemma safeIdent_clean: "CHR 0x27 \<notin> set (safeIdent s)" "CHR 0x60 \<notin> set (safeIdent s)" "CHR 0x5C \<notin> set (safeIdent s)"
  by (simp_all add: safeIdent_def)

lemma lex_apos:
  "CHR 0x27 \<notin> set t \<Longrightarrow> CHR 0x5C \<notin> set t \<Longrightarrow> separate CHR 0x27 s \<Longrightarrow>
   lex esc None acc (apos t @ s) = map_option (\<lambda>ps. Plain (rev acc) # Quoted CHR 0x27 t # ps) (lex esc None [] s)"
  using lex_quoted [of "CHR 0x27" t s esc "[]"] by (simp add: quoted_with_def option.map_comp comp_def)

lemma lex_apos_doubled:
  "CHR 0x5C \<notin> set t \<Longrightarrow> separate CHR 0x27 s \<Longrightarrow>
   lex esc None acc (apos (safeSQLString t) @ s) =
     map_option (\<lambda>ps. Plain (rev acc) # Quoted CHR 0x27 t # ps) (lex esc None [] s)"
  using lex_doubled [of t s esc "[]"] by (simp add: quoted_with_def option.map_comp comp_def)

lemma lex_backtick:
  "CHR 0x60 \<notin> set t \<Longrightarrow> CHR 0x5C \<notin> set t \<Longrightarrow> separate CHR 0x60 s \<Longrightarrow>
   lex esc None acc (backtick t @ s) = map_option (\<lambda>ps. Plain (rev acc) # Quoted CHR 0x60 t # ps) (lex esc None [] s)"
  using lex_quoted [of "CHR 0x60" t s esc "[]"] by (simp add: quoted_with_def option.map_comp comp_def)

definition account_pieces :: "string \<Rightarrow> string \<Rightarrow> string \<Rightarrow> piece list" where
  "account_pieces before username host =
     [Plain before, Quoted CHR 0x27 (safeIdent username), Plain ''@'', Quoted CHR 0x27 (safeIdent host)]"

lemma lex_account:
  "separate CHR 0x27 s \<Longrightarrow>
   lex esc None acc (account username host @ s) = map_option ((@) (account_pieces (rev acc) username host)) (lex esc None [] s)"
  by (cases "lex esc None [] s") (simp_all add: account_def account_pieces_def lex_apos safeIdent_clean)

lemma unquoted_lit [simp]: "unquoted []" "unquoted (c # s) \<longleftrightarrow> c \<noteq> CHR 0x27 \<and> c \<noteq> CHR 0x60 \<and> unquoted s"
  by (auto simp: unquoted_def)

lemma unquoted_append [simp]: "unquoted (s @ t) \<longleftrightarrow> unquoted s \<and> unquoted t"
  by (auto simp: unquoted_def)

definition identified :: "mysql_conn \<Rightarrow> string" where
  "identified m = (if contains (to_lower (mc_engine m)) ''mariadb'' then '' IDENTIFIED BY ''
     else '' IDENTIFIED WITH mysql_native_password BY '')"

lemma lex_create_user:
  assumes "CHR 0x5C \<notin> set password"
  shows "lex esc None [] (create_user_sql m username host password) =
    Some (account_pieces ''CREATE USER IF NOT EXISTS '' username host
          @ [Plain (identified m), Quoted CHR 0x27 password, Plain []])"
proof -
  have create: "unquoted ''CREATE USER IF NOT EXISTS ''" by simp
  have rest: "lex esc None [] ('' '' @ auth_clause m password) = Some [Plain (identified m), Quoted CHR 0x27 password, Plain []]"
  proof -
    have "'' '' @ auth_clause m password = identified m @ apos (safeSQLString password) @ []"
      by (simp add: auth_clause_def identified_def)
    moreover have "unquoted (identified m)" by (simp add: identified_def)
    ultimately show ?thesis using lex_apos_doubled [OF assms, of "[]" esc "rev (identified m)"]
      by (simp only: lex_plain) simp
  qed
  have "separate CHR 0x27 ('' '' @ auth_clause m password)" by simp
  from lex_account [OF this, of esc "rev ''CREATE USER IF NOT EXISTS ''" username host] rest show ?thesis
    unfolding create_user_sql_def by (simp only: lex_plain [OF create]) simp
qed

lemma lex_grant:
  assumes "unquoted privileges"
  shows "lex esc None [] (grant_sql username host db privileges) =
    Some ([Plain (''GRANT '' @ privileges @ '' ON ''), Quoted CHR 0x60 (safeIdent db)]
          @ account_pieces ''.* TO '' username host @ [Plain []])"
proof -
  have grant: "unquoted (''GRANT '' @ privileges @ '' ON '')" using assms by simp
  have upto: "unquoted ''.* TO ''" by simp
  have acc: "lex esc None (rev ''.* TO '') (account username host) = Some (account_pieces ''.* TO '' username host @ [Plain []])"
    using lex_account [of "[]" esc "rev ''.* TO ''" username host] by simp
  have "grant_sql username host db privileges =
    (''GRANT '' @ privileges @ '' ON '') @ backtick (safeIdent db) @ ''.* TO '' @ account username host"
    by (simp add: grant_sql_def)
  moreover have "separate CHR 0x60 (''.* TO '' @ account username host)" by simp
  ultimately show ?thesis
    using lex_backtick [of "safeIdent db" "''.* TO '' @ account username host" esc "rev (''GRANT '' @ privileges @ '' ON '')"] acc
    by (simp only: lex_plain [OF grant] lex_plain [OF upto] safeIdent_clean append_Nil2 simp_thms) simp
qed

section \<open>Accepted values\<close>

lemma name_bytes: "alnum c \<or> c = CHR ''_'' \<Longrightarrow> c \<notin> {CHR 0x60, CHR 0x27, CHR 0x5C, CHR '';'', CHR 0x0A, CHR 0x0D}"
  by (auto simp: alnum_def alpha_def is_digit_def in_range_def)

lemma safeIdent_id:
  "(\<And>c. c \<in> set s \<Longrightarrow> c \<notin> {CHR 0x60, CHR 0x27, CHR 0x5C, CHR '';'', CHR 0x0A, CHR 0x0D}) \<Longrightarrow> safeIdent s = s"
  unfolding safeIdent_def by (rule filter_True) blast

lemma dbName_safe: "matches dbNameRegex s \<Longrightarrow> safeIdent s = s"
  by (rule safeIdent_id) (use name_bytes in \<open>simp add: dbNameRegex_def matches_Rep_Cls list_all_iff\<close>)

lemma host_bytes: "alnum c \<or> c \<in> set ''_.%-'' \<Longrightarrow> c \<notin> {CHR 0x60, CHR 0x27, CHR 0x5C, CHR '';'', CHR 0x0A, CHR 0x0D}"
  by (auto simp: alnum_def alpha_def is_digit_def in_range_def)

lemma DBHost_safe: "DBHost s = nil \<Longrightarrow> safeIdent s = s"
  by (rule safeIdent_id)
     (use host_bytes in \<open>simp add: DBHost_def dbHostRe_def matches_Rep_Cls list_all_iff split: if_splits\<close>)

lemma DBPassword_no_backslash: "DBPassword s = nil \<Longrightarrow> CHR 0x5C \<notin> set s"
  by (auto simp: DBPassword_def list_ex_iff split: if_splits)

lemma fields_func_chars: "c \<in> set s \<Longrightarrow> \<not> P c \<Longrightarrow> \<exists>w \<in> set (fields_func P s). c \<in> set w"
  by (induction P s rule: fields_func.induct) (auto split: list.splits if_splits)

lemma join_on_chars: "w \<in> set ws \<Longrightarrow> set w \<subseteq> set (join_on d ws)"
  by (induction d ws rule: join_on.induct) auto

lemma join_on_chars_rev: "c \<in> set (join_on d ws) \<Longrightarrow> c \<noteq> d \<Longrightarrow> \<exists>w \<in> set ws. c \<in> set w"
  by (induction d ws rule: join_on.induct) auto

lemma allowed_privileges_unquoted: "p \<in> set dbPrivileges \<Longrightarrow> unquoted p"
  unfolding dbPrivileges_def by auto

lemma normalizePrivilege_keeps: "c \<in> {CHR 0x27, CHR 0x60} \<Longrightarrow> c \<in> set p \<Longrightarrow> c \<in> set (normalizePrivilege p)"
proof -
  assume c: "c \<in> {CHR 0x27, CHR 0x60}" and p: "c \<in> set p"
  from c have "upper_char c = c" "\<not> is_space c" by (auto simp: upper_char_def is_space_def in_range_def)
  with p have "c \<in> set (to_upper p)" by (force simp: to_upper_def)
  with \<open>\<not> is_space c\<close> obtain w where "w \<in> set (Prelude.fields (to_upper p))" "c \<in> set w"
    using fields_func_chars unfolding Prelude.fields_def by blast
  then show ?thesis using join_on_chars unfolding normalizePrivilege_def by blast
qed

lemma DBPrivileges_unquoted:
  assumes "DBPrivileges s = nil"
  shows "unquoted s"
proof -
  from assms have part: "normalizePrivilege p \<in> set dbPrivileges" if "p \<in> set (split_on CHR '','' s)" for p
    using that by (auto simp: DBPrivileges_def first_error_nil Let_def split: if_splits)
  have "c \<notin> set s" if c: "c \<in> {CHR 0x27, CHR 0x60}" for c
  proof
    assume "c \<in> set s"
    then have "c \<in> set (join_on CHR '','' (split_on CHR '','' s))" by (simp add: join_split_on)
    then obtain p where p: "p \<in> set (split_on CHR '','' s)" "c \<in> set p" using c join_on_chars_rev by fastforce
    from normalizePrivilege_keeps [OF c p(2)] allowed_privileges_unquoted [OF part [OF p(1)]] c
    show False by (auto simp: unquoted_def)
  qed
  then show ?thesis by (auto simp: unquoted_def)
qed

lemma check_db_user_safe:
  assumes "check_db_user b = Inr b'"
  shows "safeIdent (dub_username b') = dub_username b'" "safeIdent (dub_host_pattern b') = dub_host_pattern b'"
    "CHR 0x5C \<notin> set (dub_password b')" "unquoted (dub_privileges b')"
    "dub_username b' = dub_username b" "dub_password b' = dub_password b"
    "dub_host_pattern b' = canonicalDBHost (dub_host_pattern b)"
  using assms
  by (auto simp: check_db_user_def Let_def dest: dbName_safe DBHost_safe DBPassword_no_backslash DBPrivileges_unquoted
      split: option.splits if_splits)


definition demo_account :: db_user_body where
  "demo_account = \<lparr>dub_username = ''shop'', dub_password = [CHR 0x27, CHR '';''] @ '' DROP--'', dub_host_pattern = ''127.0.0.1'',
     dub_privileges = ''select, insert''\<rparr>"


end
