(* ===== verification/DatabaseProps.thy ===== *)
theory DatabaseProps
  imports SQLQuoting AuthFrame
begin

text \<open>
  What the database handlers promise, and where they do not. First the rules for a request that is turned away:
  whatever the statements do, it changes nothing and is refused; then runs of the handlers against a database
  server that answers.
\<close>

section \<open>Requests that are turned away\<close>

definition refusal :: "reply \<Rightarrow> bool" where
  "refusal r = (case r of HTTPError _ _ \<Rightarrow> True | Crashed \<Rightarrow> True | _ \<Rightarrow> False)"

text \<open>Whatever verdicts the statements get, \<open>m\<close> leaves all of \<open>w\<close> as it is and ends in a refusal.\<close>

definition turned_away :: "world \<Rightarrow> reply io \<Rightarrow> bool" where
  "turned_away w m \<longleftrightarrow> (\<forall>fs. \<exists>r fs'. run_state m (w\<lparr>w_faults := fs\<rparr>) = (r, w\<lparr>w_faults := fs'\<rparr>) \<and> refusal r)"

lemma turned_awayD:
  assumes "turned_away w m"
  obtains r fs where "run_state m w = (r, w\<lparr>w_faults := fs\<rparr>)" "refusal r"
proof -
  have "run_state m (w\<lparr>w_faults := w_faults w\<rparr>) = run_state m w" by (simp add: faults_id)
  then show thesis using assms that unfolding turned_away_def by metis
qed

lemma turned_refusals [simp]:
  "turned_away w (answer (HTTPError n msg))" "turned_away w (answer Crashed)" "turned_away w (bad_request msg)"
  "turned_away w internal_error" "turned_away w (not_found msg)"
  by (auto simp: turned_away_def answer_def bad_request_def internal_error_def not_found_def refusal_def)

lemma turned_query:
  assumes "\<And>fs. turned_away w (f (Inr (q (w\<lparr>w_faults := fs\<rparr>))))" and "\<And>e. turned_away w (f (Inl e))"
  shows "turned_away w (State_Monad.bind (query l q) f)"
  unfolding turned_away_def
proof (intro allI)
  fix fs
  show "\<exists>r fs'. run_state (State_Monad.bind (query l q) f) (w\<lparr>w_faults := fs\<rparr>) = (r, w\<lparr>w_faults := fs'\<rparr>) \<and> refusal r"
  proof (cases rule: query_cases [of l q "w\<lparr>w_faults := fs\<rparr>"])
    case (failed fs')
    with assms(2) show ?thesis by (auto simp: turned_away_def)
  next
    case (ran fs')
    with assms(1) show ?thesis by (auto simp: turned_away_def)
  qed
qed

section \<open>Strangers to a database\<close>

text \<open>The caller is no administrator and does not own the site of the database.\<close>

definition stranger :: "http_context \<Rightarrow> int \<Rightarrow> world \<Rightarrow> bool" where
  "stranger c i w \<longleftrightarrow>
     (case cx_session c of None \<Rightarrow> True
      | Some sess \<Rightarrow> (case by_id usr_id (ses_user sess) (w_users w) of None \<Rightarrow> True
        | Some u \<Rightarrow> \<not> HasRole (usr_role u) RoleAdmin \<and>
            (case by_id dtb_id i (w_databases w) of None \<Rightarrow> True
             | Some db \<Rightarrow> (case by_id ste_id (dtb_site db) (w_sites w) of None \<Rightarrow> True
               | Some s \<Rightarrow> ste_owner s \<noteq> Some (ses_user sess)))))"

lemma turned_with_access:
  assumes "stranger c i w" and "by_id dtb_id i (w_databases w) = Some db"
    and "\<And>s. site = Some s \<Longrightarrow> by_id ste_id (dtb_site db) (w_sites w) = Some s"
  shows "turned_away w (with_access c site msg body)"
proof (cases "cx_session c")
  case None
  then show ?thesis by (simp add: with_access_def db_canAccess_def)
next
  case (Some sess)
  with assms show ?thesis
    unfolding with_access_def db_canAccess_def Users_GetByID_def stranger_def
    by (auto simp: found_def bind_assoc intro!: turned_query split: option.splits)
qed

lemma turned_with_database [simp]:
  assumes "stranger c i w"
  shows "turned_away w (with_database c i body)"
  unfolding with_database_def Databases_GetByID_def Sites_GetByID_def
  by (rule turned_query; simp add: found_def split: option.splits)
     (auto intro!: turned_query turned_with_access [OF assms])

lemma id_param_any: "id_param c name = Some i \<Longrightarrow> any_id c name = i"
  by (auto simp: id_param_def any_id_def split: prod.splits if_splits)

lemma turned_id_param:
  "(\<And>i. id_param c name = Some i \<Longrightarrow> turned_away w (f i)) \<Longrightarrow>
   turned_away w (case id_param c name of None \<Rightarrow> bad_request msg | Some i \<Rightarrow> f i)"
  by (simp split: option.splits)

text \<open>The routes below \<open>/databases/:id\<close>.\<close>

definition database_routes ::
  "panel_env \<Rightarrow> string \<Rightarrow> string \<Rightarrow> string option \<Rightarrow> string option \<Rightarrow> (string option \<times> string option) option \<Rightarrow>
   db_user_body option \<Rightarrow> grant_body option \<Rightarrow> handler list" where
  "database_routes e random suffix salt config update newcomer granted =
     [getDatabase, deleteDatabase e, updateDatabase e update, createDBUser e salt newcomer, listDBUsers, deleteDBUser e,
      rotateDBUserPassword e random salt, grantExistingUser e random salt granted, listAvailableMySQLUsers e,
      pmaCredentials e config suffix random]"

lemma turned_getDatabase:
  assumes "stranger c (any_id c ''id'') w"
  shows "turned_away w (getDatabase c)"
  unfolding getDatabase_def Databases_GetByID_def Sites_GetByID_def
  by (rule turned_id_param, rule turned_query)
     (auto intro!: turned_query turned_with_access [OF assms] simp: found_def id_param_any split: option.splits)

lemma turned_deleteDatabase:
  assumes "stranger c (any_id c ''id'') w"
  shows "turned_away w (deleteDatabase e c)"
  unfolding deleteDatabase_def Databases_GetByID_def Sites_GetByID_def
  by (rule turned_id_param, rule turned_query)
     (auto intro!: turned_query turned_with_access [OF assms] simp: found_def id_param_any split: option.splits)

lemma turned_deleteDBUser:
  assumes "stranger c (any_id c ''id'') w"
  shows "turned_away w (deleteDBUser e c)"
  unfolding deleteDBUser_def Databases_GetByID_def Sites_GetByID_def DBUsers_GetByID_def
  by (rule turned_query)
     (auto intro!: turned_query turned_with_access [OF assms] simp: found_def split: option.splits)

text \<open>C29. The routes of a database are closed to a caller who is no administrator and does not own its site: the
  request is refused, and nothing is changed or sent to the database server, whichever statements fail and
  whatever the body says.
\<close>

theorem database_routes_closed:
  assumes "stranger c (any_id c ''id'') w"
    and "h \<in> set (database_routes e random suffix salt config update newcomer granted)"
  shows "\<exists>r fs. run_state (h c) w = (r, w\<lparr>w_faults := fs\<rparr>) \<and> refusal r"
proof -
  have by_param: "turned_away w (case id_param c ''id'' of None \<Rightarrow> bad_request msg | Some i \<Rightarrow> with_database c i (body i))"
    for msg and body :: "int \<Rightarrow> Database \<Rightarrow> Site option \<Rightarrow> reply io"
    using assms(1) by (intro turned_id_param turned_with_database) (simp add: id_param_any)
  have "turned_away w (h c)"
    using assms(2) unfolding database_routes_def
    by (auto simp: updateDatabase_def createDBUser_def listDBUsers_def rotateDBUserPassword_def grantExistingUser_def
        listAvailableMySQLUsers_def pmaCredentials_def assms(1)
        intro!: by_param turned_getDatabase turned_deleteDatabase turned_deleteDBUser)
  then show ?thesis by (metis turned_awayD)
qed

lemma any_id_request: "any_id (request_of i) name = 1"
  by (simp add: any_id_def request_params param_1)

lemma bob_is_stranger: "stranger (request_of 2) 1 (tenants ''mysql'')"
  by code_simp

lemma database_routes_closed_witness:
  "\<exists>r fs. run_state (deleteDatabase tenant_env (request_of 2)) (tenants ''mysql'')
     = (r, (tenants ''mysql'')\<lparr>w_faults := fs\<rparr>) \<and> refusal r"
proof -
  have "stranger (request_of 2) (any_id (request_of 2) ''id'') (tenants ''mysql'')"
    by (simp add: any_id_request bob_is_stranger)
  moreover have "deleteDatabase tenant_env \<in> set (database_routes tenant_env [] [] None None None None None)"
    by (simp add: database_routes_def)
  ultimately show ?thesis by (rule database_routes_closed)
qed

section \<open>A database server that answers\<close>

definition answering :: "panel_env \<Rightarrow> bool" where
  "answering e \<longleftrightarrow> (\<forall>calls call. \<exists>n r. pe_net e calls call = Answered n r)"

definition sent :: "agent_call list \<Rightarrow> world \<Rightarrow> world" where
  "sent cs w = w\<lparr>w_calls := w_calls w @ cs\<rparr>"

lemma sent_simps [simp]: "sent cs (sent bs w) = sent (bs @ cs) w" "w_calls (sent cs w) = w_calls w @ cs"
  "w_faults (sent cs w) = w_faults w" "w_db_users (sent cs w) = w_db_users w" "w_users (sent cs w) = w_users w"
  "w_databases (sent cs w) = w_databases w" "w_sites (sent cs w) = w_sites w" "w_db_servers (sent cs w) = w_db_servers w"
  "w_servers (sent cs w) = w_servers w" "w_user_sites (sent cs w) = w_user_sites w" "w_now (sent cs w) = w_now w"
  by (simp_all add: sent_def)

text \<open>The default server \<open>svr\<close> is up and its password can be decrypted.\<close>

definition mysql_up :: "panel_env \<Rightarrow> DBServer \<Rightarrow> string \<Rightarrow> world \<Rightarrow> bool" where
  "mysql_up e svr pass w \<longleftrightarrow> answering e \<and> w_faults w = []
     \<and> find_row (\<lambda>s. dbs_default s \<and> dbs_active s) (w_db_servers w) = Some svr
     \<and> DecryptPassword (pe_dbs e) (dbs_password svr) = Some pass"

lemma mysql_up_sent [simp]: "mysql_up e svr pass (sent cs w) = mysql_up e svr pass w"
  by (simp add: mysql_up_def)

definition login_calls :: "DBServer \<Rightarrow> string \<Rightarrow> agent_call list" where
  "login_calls svr pass = [sql_call svr ''CONNECT'' pass, sql_call svr ''SQL'' ''SELECT VERSION()'']"

definition statements :: "DBServer \<Rightarrow> string list \<Rightarrow> agent_call list" where
  "statements svr = map (sql_call svr ''SQL'')"

lemma run_net_call [simp]: "run_state (net_call e call) w = (pe_net e (w_calls w) call, sent [call] w)"
  by (simp add: net_call_def sent_def)

lemma run_mysql_exec:
  assumes "answering e"
  shows "run_state (mysql_exec e m text) w = (Inr (), sent (statements (mc_server m) [text]) w)"
proof -
  obtain n r where "pe_net e (w_calls w) (sql_call (mc_server m) ''SQL'' text) = Answered n r"
    using assms unfolding answering_def by blast
  then show ?thesis by (simp add: mysql_exec_def mysql_query_def statements_def)
qed

lemma run_execMySQLConn:
  assumes "mysql_up e svr pass w"
  obtains m where "mc_server m = svr"
    and "\<And>f. run_state (execMySQLConn e f) w = run_state (f m) (sent (login_calls svr pass) w)"
proof -
  let ?w = "sent [sql_call svr ''CONNECT'' pass] w"
  obtain n r where conn: "pe_net e (w_calls w) (sql_call svr ''CONNECT'' pass) = Answered n r"
    using assms unfolding mysql_up_def answering_def by blast
  define m where "m = \<lparr>mc_server = svr, mc_engine =
    (case pe_net e (w_calls ?w) (sql_call svr ''SQL'' ''SELECT VERSION()'') of
       Answered _ (Json (JStr ver)) \<Rightarrow> if is_mariadb ver then ''MariaDB'' else ''MySQL'' | _ \<Rightarrow> ''MySQL'')\<rparr>"
  have "run_state (execMySQLConn e f) w = run_state (f m) (sent (login_calls svr pass) w)" for f :: "mysql_conn \<Rightarrow> 'a res io"
    using assms conn
    by (simp add: execMySQLConn_def GetDefaultServer_def mysql_up_def Connect_def login_calls_def m_def)
  moreover have "mc_server m = svr" by (simp add: m_def)
  ultimately show thesis using that by blast
qed

lemma run_and_then: "run_state a w = (Inr (), w') \<Longrightarrow> run_state (and_then a b) w = run_state b w'"
  by (simp add: and_then_def)

lemma statements_append [simp]: "statements svr xs @ statements svr ys = statements svr (xs @ ys)"
  by (simp add: statements_def)

lemma run_GrantPrivileges:
  "answering e \<Longrightarrow> run_state (GrantPrivileges e m username host db privileges) w =
     (Inr (), sent (statements (mc_server m) [grant_sql username host db privileges, ''FLUSH PRIVILEGES'']) w)"
  by (simp add: GrantPrivileges_def run_and_then run_mysql_exec flush_privileges_def)

lemma run_ChangePassword:
  "answering e \<Longrightarrow> host \<noteq> [] \<Longrightarrow> DBHost host = nil \<Longrightarrow> DBPassword password = nil \<Longrightarrow>
   run_state (ChangePassword e m username host password) w =
     (Inr (), sent (statements (mc_server m) [change_password_sql username host password, ''FLUSH PRIVILEGES'']) w)"
  by (simp add: ChangePassword_def any_host_def run_and_then run_mysql_exec flush_privileges_def Let_def)

section \<open>What audit entries and notices leave alone\<close>

definition same_service :: "world \<Rightarrow> world \<Rightarrow> bool" where
  "same_service v w \<longleftrightarrow> w_faults w = [] \<and> w_calls w = w_calls v \<and> w_databases w = w_databases v
     \<and> w_db_users w = w_db_users v \<and> w_sites w = w_sites v \<and> w_users w = w_users v \<and> w_db_servers w = w_db_servers v
     \<and> w_servers w = w_servers v \<and> w_jobs w = w_jobs v \<and> w_user_sites w = w_user_sites v"

interpretation service: notice_frame "same_service v" for v
  by unfold_locales (simp_all add: same_service_def)

lemma same_service_refl: "w_faults w = [] \<Longrightarrow> same_service w w"
  by (simp add: same_service_def)

lemma run_ignored: "run_state (State_Monad.bind m (\<lambda>_. n)) w = run_state n (snd (run_state m w))"
  by (simp split: prod.split)

lemma after_audit:
  "w_faults w = [] \<Longrightarrow> same_service w (snd (run_state (RecordAction u act res i d) w))"
  by (rule preservesD [OF service.keep_RecordAction same_service_refl])

lemma after_notice:
  "w_faults w = [] \<Longrightarrow> same_service w (snd (run_state (NotifySiteUsers s ty ti m sv et ei) w))"
  "w_faults w = [] \<Longrightarrow> same_service w (snd (run_state (NotifyAdmins ty ti m sv et ei) w))"
  using preservesD [OF service.keep_NotifySiteUsers same_service_refl]
    preservesD [OF service.keep_Notifications(2) same_service_refl] by blast+

section \<open>Generated passwords\<close>

lemma hex_digit_bytes: "n < 16 \<Longrightarrow> hex_digit n \<in> set ''0123456789abcdef''"
  unfolding hex_digit_def by (rule nth_mem) simp

lemma hex_encode_bytes: "c \<in> set (hex_encode bs) \<Longrightarrow> c \<in> set ''0123456789abcdef''"
proof -
  assume "c \<in> set (hex_encode bs)"
  then obtain b where b: "c = hex_digit (byte b div 16) \<or> c = hex_digit (byte b mod 16)" by (auto simp: hex_encode_def)
  have "byte b < 256" by simp
  then have "byte b div 16 < 16" "byte b mod 16 < 16" by (simp_all add: less_mult_imp_div_less)
  with b show ?thesis using hex_digit_bytes by metis
qed

lemma generated_password:
  assumes "length random = 12"
  shows "DBPassword (generateDBPassword random) = nil" and "safeSQLString (generateDBPassword random) = generateDBPassword random"
proof -
  have bytes: "\<not> (byte c < 0x20 \<or> byte c = 0x7F \<or> c = CHR 0x5C) \<and> c \<noteq> CHR 0x27" if "c \<in> set (generateDBPassword random)" for c
    using hex_encode_bytes [of c random] that unfolding generateDBPassword_def by auto
  then show "DBPassword (generateDBPassword random) = nil"
    using assms by (auto simp: DBPassword_def list_ex_iff generateDBPassword_def)
  have "safeSQLString s = s" if "CHR 0x27 \<notin> set s" for s
    using that by (induction s) (auto simp: safeSQLString_def)
  with bytes show "safeSQLString (generateDBPassword random) = generateDBPassword random" by blast
qed

section \<open>Granting an account\<close>

text \<open>The caller owns the site of the database.\<close>

definition owner_of :: "http_context \<Rightarrow> Database \<Rightarrow> world \<Rightarrow> bool" where
  "owner_of c db w \<longleftrightarrow>
     (case (cx_session c, by_id ste_id (dtb_site db) (w_sites w)) of
        (Some sess, Some s) \<Rightarrow> ste_owner s = Some (ses_user sess) \<and> by_id usr_id (ses_user sess) (w_users w) \<noteq> None
      | _ \<Rightarrow> False)"

lemma run_with_database:
  assumes "w_faults w = []" and "by_id dtb_id i (w_databases w) = Some db" and "owner_of c db w"
  shows "run_state (with_database c i body) w = run_state (body db (by_id ste_id (dtb_site db) (w_sites w))) w"
  using assms
  by (auto simp: with_database_def with_access_def db_canAccess_def Databases_GetByID_def Sites_GetByID_def Users_GetByID_def
      found_def owner_of_def split: option.splits)

lemma run_grant_account:
  assumes "mysql_up e svr pass w" and "dtb_type db = ''mysql''"
  shows "run_state (grant_account e db b) w = (Inr (), sent (login_calls svr pass @ statements svr
    [grant_sql (grb_username b) (grb_host_pattern b) (dtb_name db) (grb_privileges b), ''FLUSH PRIVILEGES'']) w)"
proof -
  from assms(1) have ans: "answering e" by (simp add: mysql_up_def)
  from run_execMySQLConn [OF assms(1)] obtain m where "mc_server m = svr"
    and "run_state (execMySQLConn e (\<lambda>m. GrantPrivileges e m (grb_username b) (grb_host_pattern b) (dtb_name db) (grb_privileges b))) w
      = run_state (GrantPrivileges e m (grb_username b) (grb_host_pattern b) (dtb_name db) (grb_privileges b))
          (sent (login_calls svr pass) w)"
    by blast
  then show ?thesis using assms(2) by (simp add: grant_account_def run_GrantPrivileges [OF ans])
qed

lemma run_change_account_password:
  assumes "mysql_up e svr pass w" and "dtb_type db = ''mysql''"
    and "dbu_host_pattern u \<noteq> []" "DBHost (dbu_host_pattern u) = nil" "DBPassword password = nil"
  shows "run_state (change_account_password e db u password) w = (Inr (), sent (login_calls svr pass @ statements svr
    [change_password_sql (dbu_username u) (dbu_host_pattern u) password, ''FLUSH PRIVILEGES'']) w)"
proof -
  from assms(1) have ans: "answering e" by (simp add: mysql_up_def)
  from run_execMySQLConn [OF assms(1)] obtain m where "mc_server m = svr"
    and "run_state (execMySQLConn e (\<lambda>m. ChangePassword e m (dbu_username u) (dbu_host_pattern u) password)) w
      = run_state (ChangePassword e m (dbu_username u) (dbu_host_pattern u) password) (sent (login_calls svr pass) w)"
    by blast
  then show ?thesis using assms(2) by (simp add: change_account_password_def run_ChangePassword [OF ans assms(3-5)])
qed

lemma DBHost_not_empty: "DBHost h = nil \<Longrightarrow> h \<noteq> []"
  by (auto simp: DBHost_def dbHostRe_def matches_Rep_Cls split: if_splits)

lemma run_new_grant:
  assumes up: "mysql_up e svr pass w" and db: "dtb_type db = ''mysql''" "by_id dtb_id i (w_databases w) = Some db"
    and host: "DBHost (grb_host_pattern b) = nil" and bytes: "length random = 12"
  shows "fst (run_state (new_grant e random salt c db b) w) = JSON 201 (Success c (JObj
           [(''user_id'', JNum (seqno (w_db_users w) + 1)), (''username'', JStr (grb_username b)),
            (''password'', JStr (generateDBPassword random))]))
    \<and> w_calls (snd (run_state (new_grant e random salt c db b) w)) = w_calls w
        @ login_calls svr pass
        @ statements svr [grant_sql (grb_username b) (grb_host_pattern b) (dtb_name db) (grb_privileges b), ''FLUSH PRIVILEGES'']
        @ login_calls svr pass
        @ statements svr [change_password_sql (grb_username b) (grb_host_pattern b) (generateDBPassword random), ''FLUSH PRIVILEGES'']"
proof -
  from up have nofault: "w_faults w = []" by (simp add: mysql_up_def)
  have row: "has_row (\<lambda>d. dtb_id d = dtb_id db) (w_databases w)"
    using by_id_Some [OF db(2)] by (auto simp: has_row_iff)
  define pw where "pw = generateDBPassword random"
  define u where "u = new_db_user (dtb_id db) (grb_username b)
    (case HashPassword (ae_lib (pe_auth e)) salt pw of Some h \<Rightarrow> h | None \<Rightarrow> []) (encrypt_or_empty e pw)
    (grb_host_pattern b) (grb_privileges b)"
  let ?granted = "sent (login_calls svr pass @ statements svr
    [grant_sql (grb_username b) (grb_host_pattern b) (dtb_name db) (grb_privileges b), ''FLUSH PRIVILEGES'']) w"
  let ?changed = "sent (login_calls svr pass @ statements svr
    [change_password_sql (grb_username b) (grb_host_pattern b) pw, ''FLUSH PRIVILEGES'']) ?granted"
  have changed: "run_state (change_account_password e db u pw) ?granted = (Inr (), ?changed)"
    using run_change_account_password [of e svr pass ?granted db u pw] up db(1) host DBHost_not_empty [OF host]
      generated_password(1) [OF bytes]
    by (simp add: u_def pw_def new_db_user_def)
  have created: "run_state (DBUsers_Create u) ?changed = (Inr (seqno (w_db_users w) + 1),
      (w_db_users_update (append_row (\<lambda>i. u\<lparr>dbu_id := i, dbu_created_at := w_now w\<rparr>)) ?changed)
        \<lparr>w_last_rowid := seqno (w_db_users w) + 1\<rparr>)"
    using nofault row by (simp add: DBUsers_Create_def u_def new_db_user_def)
  show ?thesis
    using db(1) nofault after_audit [unfolded same_service_def] changed created
    unfolding new_grant_def Let_def
    by (simp add: run_grant_account [OF up db(1)] split_beta answer_def flip: pw_def u_def)
qed

text \<open>Whoever owns a site with a MySQL database can take over any account of the database server, the server's
  own \<open>root\<close> included: granting the account to the database sends the request's privileges as they are, sets a new
  password for the account and answers with it. Only an account already listed for the database is left alone.
\<close>

theorem grant_takes_over_account:
  assumes up: "mysql_up e svr pass w" and bytes: "length random = 12"
    and i: "id_param c ''id'' = Some i" and db: "by_id dtb_id i (w_databases w) = Some db" "dtb_type db = ''mysql''"
    and owner: "owner_of c db w" and username: "grb_username b \<noteq> []"
    and host: "host = canonicalDBHost (grb_host_pattern b)" "DBHost host = nil"
    and free: "\<not> has_row (\<lambda>u. dbu_database u = i
      \<and> canonicalDBUserKey (dbu_username u) (dbu_host_pattern u) = canonicalDBUserKey (grb_username b) host) (w_db_users w)"
  shows "fst (run_state (grantExistingUser e random salt (Some b) c) w) = JSON 201 (Success c (JObj
           [(''user_id'', JNum (seqno (w_db_users w) + 1)), (''username'', JStr (grb_username b)),
            (''password'', JStr (generateDBPassword random))]))
    \<and> w_calls (snd (run_state (grantExistingUser e random salt (Some b) c) w)) = w_calls w
        @ login_calls svr pass
        @ statements svr [grant_sql (grb_username b) host (dtb_name db) (or_default (grb_privileges b) ''ALL''), ''FLUSH PRIVILEGES'']
        @ login_calls svr pass
        @ statements svr [change_password_sql (grb_username b) host (generateDBPassword random), ''FLUSH PRIVILEGES'']"
proof -
  let ?b = "b\<lparr>grb_host_pattern := host, grb_privileges := or_default (grb_privileges b) ''ALL''\<rparr>"
  from up have nofault: "w_faults w = []" by (simp add: mysql_up_def)
  from free have none: "List.find (\<lambda>u. canonicalDBUserKey (dbu_username u) (dbu_host_pattern u)
      = canonicalDBUserKey (grb_username b) host) (select_asc dbu_id (\<lambda>u. dbu_database u = i) (w_db_users w)) = None"
    by (auto simp: find_None_iff has_row_iff)
  from by_id_Some [OF db(1)] have "dtb_id db = i" by simp
  have "run_state (grantExistingUser e random salt (Some b) c) w = run_state (new_grant e random salt c db ?b) w"
    using i username nofault none host(1)
    by (simp add: grantExistingUser_def run_with_database [OF nofault db(1) owner] Let_def DBUsers_ListByDatabase_def listed_def)
  then show ?thesis
    using run_new_grant [OF up db(2) db(1), of ?b random salt c] host bytes by simp
qed

definition demo_takeover :: grant_body where
  "demo_takeover = \<lparr>grb_username = ''root'', grb_host_pattern = ''localhost'', grb_privileges = []\<rparr>"

lemma tenants_mysql_up: "mysql_up tenant_env local_mysql ''secret'' (tenants ty)"
proof -
  have "answering tenant_env" by (simp add: answering_def tenant_env_def)
  moreover have "DecryptPassword (pe_dbs tenant_env) (dbs_password local_mysql) = Some ''secret''" by code_simp
  ultimately show ?thesis
    by (simp add: mysql_up_def tenants_def fresh_world_def find_row_def local_mysql_def)
qed

lemma shop_database_found: "by_id dtb_id 1 (w_databases (tenants ty)) = Some (shop_database ty)"
  by (simp add: tenants_def by_id_def find_row_def shop_database_def)

lemma ann_is_owner: "owner_of (request_of 1) (shop_database ''mysql'') (tenants ''mysql'')"
  by code_simp

lemma grant_takes_over_account_witness:
  "fst (run_state (grantExistingUser tenant_env (replicate 12 CHR 0x01) None (Some demo_takeover) (request_of 1)) (tenants ''mysql''))
     = JSON 201 (Success (request_of 1) (JObj
           [(''user_id'', JNum (seqno (w_db_users (tenants ''mysql'')) + 1)), (''username'', JStr (grb_username demo_takeover)),
            (''password'', JStr (generateDBPassword (replicate 12 CHR 0x01)))]))
    \<and> w_calls (snd (run_state (grantExistingUser tenant_env (replicate 12 CHR 0x01) None (Some demo_takeover) (request_of 1)) (tenants ''mysql'')))
      = w_calls (tenants ''mysql'')
        @ login_calls local_mysql ''secret''
        @ statements local_mysql [grant_sql (grb_username demo_takeover) ''localhost'' (dtb_name (shop_database ''mysql''))
            (or_default (grb_privileges demo_takeover) ''ALL''), ''FLUSH PRIVILEGES'']
        @ login_calls local_mysql ''secret''
        @ statements local_mysql [change_password_sql (grb_username demo_takeover) ''localhost''
            (generateDBPassword (replicate 12 CHR 0x01)), ''FLUSH PRIVILEGES'']"
  by (rule grant_takes_over_account [OF tenants_mysql_up _ request_params(2) shop_database_found _ ann_is_owner]; code_simp)

text \<open>
  A new account called \<open>phpmyadmin\<close> is given all privileges on all databases, with the right to pass them on. The
  name is one any owner of a MySQL database can ask for.
\<close>

lemma run_CreateUser:
  assumes "answering e" and "DBPrivileges privileges = nil" "DBHost host = nil" "DBPassword password = nil" and "db \<noteq> []"
  shows "run_state (CreateUser e m username password host db privileges) w = (Inr (), sent (statements (mc_server m)
    ([create_user_sql m username host password, grant_sql username host db privileges]
     @ (if username = ''phpmyadmin'' then [global_grant_sql username host] else [])
     @ [limits_sql username host, ''FLUSH PRIVILEGES''])) w)"
proof -
  have "host \<noteq> []" using assms(3) by (rule DBHost_not_empty)
  moreover have "privileges \<noteq> []" using assms(2) by (auto simp: DBPrivileges_def trim_space_def trim_def)
  ultimately show ?thesis using assms(2-5)
    by (simp add: CreateUser_def any_host_def Let_def run_mysql_exec [OF assms(1)] and_then_def anyway_def labelled_def
        flush_privileges_def)
qed

lemma phpmyadmin_is_global:
  assumes up: "mysql_up e svr pass w" and b: "check_db_user b = Inr b'" "dub_username b' = ''phpmyadmin''"
    and db: "dtb_type db = ''mysql''" "dtb_name db \<noteq> []"
  shows "sql_call svr ''SQL'' (global_grant_sql ''phpmyadmin'' (dub_host_pattern b'))
    \<in> set (w_calls (snd (run_state (create_account e db b') w)))"
proof -
  from up have ans: "answering e" by (simp add: mysql_up_def)
  have ok: "DBPrivileges (dub_privileges b') = nil" "DBHost (dub_host_pattern b') = nil" "DBPassword (dub_password b') = nil"
    using b(1) by (auto simp: check_db_user_def Let_def split: option.splits if_splits)
  let ?create = "\<lambda>m. CreateUser e m (dub_username b') (dub_password b') (dub_host_pattern b') (dtb_name db) (dub_privileges b')"
  from run_execMySQLConn [OF up] obtain m where m: "mc_server m = svr"
    and run: "run_state (execMySQLConn e ?create) w = run_state (?create m) (sent (login_calls svr pass) w)"
    by blast
  show ?thesis using db m run
    by (simp add: create_account_def b(2) run_CreateUser [OF ans ok db(2), unfolded b(2)] statements_def)
qed

text \<open>
  The owner of a database of another type, with no login stored for it, is given the login of phpMyAdmin's control
  user, which is not his.
\<close>

lemma control_user_handed_out:
  assumes "w_faults w = []" and "id_param c ''id'' = Some i" and "by_id dtb_id i (w_databases w) = Some db"
    and "owner_of c db w" and "dtb_type db \<noteq> ''mysql''" and "\<not> has_row (\<lambda>u. dbu_database u = i) (w_db_users w)"
    and "extractPHPVar cfg ''dbuser'' = user" "user \<noteq> []" "extractPHPVar cfg ''dbpass'' = pass" "pass \<noteq> []"
  shows "fst (run_state (pmaCredentials e (Some cfg) suffix random c) w)
    = JSON 200 (Success c (JObj [(''username'', JStr user), (''password'', JStr pass), (''host'', JStr ''localhost'')]))"
proof -
  have none: "select_asc dbu_id (\<lambda>u. dbu_database u = i) (w_db_users w) = []"
    using assms(6) by (simp add: has_row_iff select_asc_def)
  have "cx_session c \<noteq> None" using assms(4) by (auto simp: owner_of_def split: option.splits)
  then show ?thesis using assms none
    by (simp add: pmaCredentials_def run_with_database [OF assms(1,3,4)] DBUsers_ListByDatabase_def listed_def map_filter_simps
        control_user_def login_answer_def ok_answer_def answer_def)
qed

section \<open>A database under another name\<close>

lemma same_service_up: "same_service v w \<Longrightarrow> mysql_up e svr pass v \<Longrightarrow> mysql_up e svr pass w"
  by (simp add: same_service_def mysql_up_def)

text \<open>The caller owns the site.\<close>

definition site_owner :: "http_context \<Rightarrow> Site \<Rightarrow> world \<Rightarrow> bool" where
  "site_owner c site w \<longleftrightarrow> (case cx_session c of None \<Rightarrow> False
     | Some sess \<Rightarrow> ste_owner site = Some (ses_user sess) \<and> by_id usr_id (ses_user sess) (w_users w) \<noteq> None)"

lemma run_with_access:
  "w_faults w = [] \<Longrightarrow> site_owner c site w \<Longrightarrow> run_state (with_access c (Some site) msg body) w = run_state body w"
  by (auto simp: with_access_def db_canAccess_def Users_GetByID_def found_def site_owner_def split: option.splits)

lemma run_mysql_statement:
  assumes "mysql_up e svr pass w"
  shows "run_state (execMySQLConn e (\<lambda>m. mysql_exec e m text)) w = (Inr (), sent (login_calls svr pass @ statements svr [text]) w)"
proof -
  from assms have ans: "answering e" by (simp add: mysql_up_def)
  from run_execMySQLConn [OF assms] obtain m where "mc_server m = svr"
    and "run_state (execMySQLConn e (\<lambda>m. mysql_exec e m text)) w = run_state (mysql_exec e m text) (sent (login_calls svr pass) w)"
    by blast
  then show ?thesis by (simp add: run_mysql_exec [OF ans])
qed

lemma after_create:
  assumes up: "mysql_up e svr pass w" and i: "id_param c ''id'' = Some (ste_id site)"
    and site: "by_id ste_id (ste_id site) (w_sites w) = Some site" and owner: "site_owner c site w"
    and b: "matches dbNameRegex (dbb_name b)" "dbb_type b = ''mysql''"
  shows "same_service (w_databases_update (append_row (\<lambda>k. (new_database (ste_id site) b)\<lparr>dtb_id := k, dtb_created_at := w_now w\<rparr>))
      (sent (login_calls svr pass @ statements svr [create_database_sql (dbb_name b) (or_default (dbb_charset b) ''utf8mb4'')
         (or_default (dbb_collation b) ''utf8mb4_unicode_ci'')]) w))
    (snd (run_state (createDatabase e (Some b) c) w))"
proof -
  from up have nofault: "w_faults w = []" by (simp add: mysql_up_def)
  have row: "has_row (\<lambda>s. ste_id s = ste_id site) (w_sites w)" using by_id_Some [OF site] by (auto simp: has_row_iff)
  let ?w = "sent (login_calls svr pass @ statements svr [create_database_sql (dbb_name b) (or_default (dbb_charset b) ''utf8mb4'')
         (or_default (dbb_collation b) ''utf8mb4_unicode_ci'')]) w"
  let ?n = "seqno (w_databases w) + 1"
  have run: "run_state (createDatabase e (Some b) c) w = run_state (store_database e c site b True) ?w"
    using i site nofault b
    by (simp add: createDatabase_def Sites_GetByID_def run_with_access [OF nofault owner] CreateDatabase_def
        run_mysql_statement [OF up] is_inr_def)
  have created: "run_state (Databases_Create (new_database (ste_id site) b)) ?w = (Inr ?n,
      (w_databases_update (append_row (\<lambda>k. (new_database (ste_id site) b)\<lparr>dtb_id := k, dtb_created_at := w_now w\<rparr>)) ?w)
        \<lparr>w_last_rowid := ?n\<rparr>)"
    using nofault row by (simp add: Databases_Create_def new_database_def or_default_def)
  show ?thesis
    using nofault after_audit [unfolded same_service_def] after_notice [unfolded same_service_def] unfolding run
    by (simp add: store_database_def created fallback_job_def split_beta same_service_def accepted_def answer_def)
qed

lemma after_delete:
  assumes up: "mysql_up e svr pass w" and i: "id_param c ''id'' = Some i"
    and db: "by_id dtb_id i (w_databases w) = Some db" "dtb_type db = ''mysql''"
    and site: "by_id ste_id (dtb_site db) (w_sites w) = Some site" and owner: "site_owner c site w"
    and server: "has_row (\<lambda>r. srv_id r = ste_server site) (w_servers w)"
  shows "w_calls (snd (run_state (deleteDatabase e c) w)) = w_calls w @ login_calls svr pass
      @ statements svr [''DROP DATABASE IF EXISTS '' @ backtick (safeIdent (dtb_name db))]
    \<and> by_id dtb_id i (w_databases (snd (run_state (deleteDatabase e c) w))) = None"
proof -
  from up have nofault: "w_faults w = []" by (simp add: mysql_up_def)
  have row: "has_row (\<lambda>s. ste_id s = ste_id site) (w_sites w)" using by_id_Some [OF site] by (auto simp: has_row_iff)
  show ?thesis
    using nofault i db site server row after_audit [unfolded same_service_def] after_notice [unfolded same_service_def]
    by (simp add: deleteDatabase_def Databases_GetByID_def Sites_GetByID_def found_def run_with_access [OF nofault owner]
        drop_database_def DropDatabase_def run_mysql_statement [OF up] Jobs_Create_def Let_def site_job_def split_beta
        Databases_Delete_def accepted_def answer_def by_id_None image_iff)
qed

text \<open>A database is recorded under another name than the one it is created with, so deleting it drops the recorded
  name and leaves the database on the server: after the two requests the panel has no row of it and the server has
  been asked to create \<open>name\<close> and to drop \<open>sp_name\<close>.
\<close>

theorem deleted_database_stays:
  assumes up: "mysql_up e svr pass w" and wf: "wf_table dtb_id (w_databases w)"
    and i: "id_param c ''id'' = Some (ste_id site)" "id_param c' ''id'' = Some (seqno (w_databases w) + 1)"
    and site: "by_id ste_id (ste_id site) (w_sites w) = Some site" and owner: "site_owner c site w"
    and same: "cx_session c' = cx_session c" and server: "has_row (\<lambda>r. srv_id r = ste_server site) (w_servers w)"
    and b: "matches dbNameRegex (dbb_name b)" "dbb_type b = ''mysql''"
    and w': "w' = snd (run_state (do { _ \<leftarrow> createDatabase e (Some b) c; deleteDatabase e c' }) w)"
  shows "w_calls w' = w_calls w
      @ login_calls svr pass @ statements svr [create_database_sql (dbb_name b) (or_default (dbb_charset b) ''utf8mb4'')
          (or_default (dbb_collation b) ''utf8mb4_unicode_ci'')]
      @ login_calls svr pass @ statements svr [''DROP DATABASE IF EXISTS '' @ backtick (''sp_'' @ dbb_name b)]
    \<and> by_id dtb_id (seqno (w_databases w) + 1) (w_databases w') = None"
proof -
  let ?row = "\<lambda>k. (new_database (ste_id site) b)\<lparr>dtb_id := k, dtb_created_at := w_now w\<rparr>"
  define v where "v = snd (run_state (createDatabase e (Some b) c) w)"
  have v: "w_calls v = w_calls w @ login_calls svr pass @ statements svr [create_database_sql (dbb_name b)
        (or_default (dbb_charset b) ''utf8mb4'') (or_default (dbb_collation b) ''utf8mb4_unicode_ci'')]"
      "w_databases v = append_row ?row (w_databases w)" "mysql_up e svr pass v" "w_sites v = w_sites w"
      "w_users v = w_users w" "w_servers v = w_servers w"
    using after_create [OF up i(1) site owner b] up unfolding v_def by (simp_all add: same_service_def mysql_up_def)
  have found: "by_id dtb_id (seqno (w_databases w) + 1) (w_databases v) = Some (?row (seqno (w_databases w) + 1))"
    unfolding v(2) by (subst by_id_append_row [OF wf]) simp_all
  have "site_owner c' site v" using owner by (simp add: site_owner_def same v split: option.splits)
  moreover have "safeIdent (''sp_'' @ dbb_name b) = ''sp_'' @ dbb_name b"
    using dbName_safe [OF b(1)] by (simp add: safeIdent_def)
  ultimately show ?thesis
    using after_delete [OF v(3) i(2) found] site server b(2) v
    unfolding w' v_def [symmetric] by (simp add: split_beta new_database_def flip: v_def)
qed

definition demo_new_database :: database_body where
  "demo_new_database = \<lparr>dbb_name = ''blog'', dbb_type = ''mysql'', dbb_charset = [], dbb_collation = []\<rparr>"

definition second_request :: http_context where
  "second_request = (request_of 1)\<lparr>cx_param := (\<lambda>_. ''2'')\<rparr>"

lemma deleted_database_stays_witness:
  "w_calls (snd (run_state (do { _ \<leftarrow> createDatabase tenant_env (Some demo_new_database) (request_of 1);
        deleteDatabase tenant_env second_request }) (tenants ''mysql''))) = w_calls (tenants ''mysql'')
      @ login_calls local_mysql ''secret'' @ statements local_mysql [create_database_sql (dbb_name demo_new_database)
          (or_default (dbb_charset demo_new_database) ''utf8mb4'') (or_default (dbb_collation demo_new_database) ''utf8mb4_unicode_ci'')]
      @ login_calls local_mysql ''secret''
      @ statements local_mysql [''DROP DATABASE IF EXISTS '' @ backtick (''sp_'' @ dbb_name demo_new_database)]
    \<and> by_id dtb_id (seqno (w_databases (tenants ''mysql'')) + 1) (w_databases (snd (run_state
        (do { _ \<leftarrow> createDatabase tenant_env (Some demo_new_database) (request_of 1);
        deleteDatabase tenant_env second_request }) (tenants ''mysql'')))) = None"
proof (rule deleted_database_stays [OF tenants_mysql_up, where site = shop_site and c = "request_of 1"])
  show "wf_table dtb_id (w_databases (tenants ''mysql''))" by code_simp
  show "id_param (request_of 1) ''id'' = Some (ste_id shop_site)" by code_simp
  show "id_param second_request ''id'' = Some (seqno (w_databases (tenants ''mysql'')) + 1)" by code_simp
  show "by_id ste_id (ste_id shop_site) (w_sites (tenants ''mysql'')) = Some shop_site"
    by (simp add: tenants_def by_id_def find_row_def)
  show "site_owner (request_of 1) shop_site (tenants ''mysql'')" by code_simp
  show "cx_session second_request = cx_session (request_of 1)" by (simp add: second_request_def)
  show "has_row (\<lambda>r. srv_id r = ste_server shop_site) (w_servers (tenants ''mysql''))" by code_simp
  show "matches dbNameRegex (dbb_name demo_new_database)" by code_simp
  show "dbb_type demo_new_database = ''mysql''" by (simp add: demo_new_database_def)
qed (rule refl)

end
