(* ===== verification/Cloudflare.thy ===== *)
theory Cloudflare
  imports Outside Accounts
begin

text \<open>
  \<open>internal/cloudflare\<close> and \<open>internal/apihttp/cloudflare.go\<close>: the client of the Cloudflare API over the HTTP of
  \<open>Outside\<close>, the choice of a zone for a domain, and the handlers. Zones and records stay the JSON they came
  as (the structs drop the fields they do not name); the text of a decoding error is cut to its label; the
  \<open>X-Auth-Email\<close> header is left out.
\<close>

section \<open>Domains and zones\<close>

definition multiTLD :: "string list" where
  "multiTLD = [''co.uk'', ''org.uk'', ''ac.uk'', ''gov.uk'', ''net.uk'', ''me.uk'', ''ltd.uk'', ''plc.uk'', ''com.au'',
     ''net.au'', ''org.au'', ''edu.au'', ''gov.au'', ''co.nz'', ''net.nz'', ''org.nz'', ''co.jp'', ''ne.jp'', ''or.jp'', ''co.kr'',
     ''or.kr'', ''ne.kr'', ''com.br'', ''org.br'', ''net.br'', ''com.cn'', ''net.cn'', ''org.cn'', ''co.in'', ''net.in'', ''org.in'',
     ''gen.in'', ''com.mx'', ''org.mx'', ''co.za'', ''org.za'', ''net.za'', ''gov.za'', ''co.il'', ''org.il'', ''ac.il'', ''gov.il'',
     ''com.sg'', ''org.sg'', ''edu.sg'', ''gov.sg'', ''com.hk'', ''org.hk'', ''edu.hk'', ''gov.hk'', ''com.ar'', ''org.ar'',
     ''co.th'', ''or.th'', ''go.th'', ''com.tr'', ''org.tr'', ''net.tr'', ''gov.tr'']"

definition RootDomain :: "string \<Rightarrow> string" where
  "RootDomain domain =
     (let domain = trim_space (to_lower domain); parts = split_on CHR ''.'' domain; n = length parts
      in if n < 2 then domain
         else if n \<ge> 3 \<and> join_on CHR ''.'' (drop (n - 2) parts) \<in> set multiTLD
         then if n \<ge> 4 then join_on CHR ''.'' (drop (n - 3) parts) else domain
         else join_on CHR ''.'' (drop (n - 2) parts))"

record Zone =
  zon_id :: string
  zon_name :: string
  zon_json :: json

definition zone_matches :: "string \<Rightarrow> Zone \<Rightarrow> bool" where
  "zone_matches domain z \<longleftrightarrow> has_suffix domain (zon_name z) \<or> domain = zon_name z"

definition FindMatchingZone :: "Zone list \<Rightarrow> string \<Rightarrow> Zone option" where
  "FindMatchingZone zones domain = List.find (zone_matches (trim_space (to_lower domain))) zones"

section \<open>The client\<close>

definition baseURL :: string where
  "baseURL = ''https://api.cloudflare.com/client/v4''"

fun join_with :: "string \<Rightarrow> string list \<Rightarrow> string" where
  "join_with sep [] = []"
| "join_with sep [x] = x"
| "join_with sep (x # xs) = x @ sep @ join_with sep xs"

definition formatErrors :: "json list \<Rightarrow> string" where
  "formatErrors es = join_with ''; '' (map (\<lambda>e. case e of
       JObj kvs \<Rightarrow> ''['' @ itoa (case map_of kvs ''code'' of Some (JNum n) \<Rightarrow> n | _ \<Rightarrow> 0) @ ''] '' @ any_string kvs ''message''
     | _ \<Rightarrow> ''[0] '') es)"

definition json_items :: "json option \<Rightarrow> json list option" where
  "json_items v = (case v of None \<Rightarrow> Some [] | Some JNull \<Rightarrow> Some [] | Some (JArr xs) \<Rightarrow> Some xs | _ \<Rightarrow> None)"

definition cf_request :: "panel_env \<Rightarrow> string \<Rightarrow> string \<Rightarrow> string \<Rightarrow> json option \<Rightarrow> (string + jtext) io" where
  "cf_request e token method path body = do {
     r \<leftarrow> agentRequest e method (baseURL @ path) token body;
     State_Monad.return (case r of Unreachable err \<Rightarrow> Inl (''cloudflare http: '' @ err) | Answered status text \<Rightarrow> Inr text)
   }"

text \<open>
  A request and its wrapper: \<open>success\<close>, \<open>errors\<close> and the fields with the result, or the text of the error. The three
  labels are those of the code for a failed request, a body that does not decode and a refusal.
\<close>

definition cf_call :: "panel_env \<Rightarrow> string \<Rightarrow> string \<Rightarrow> string \<Rightarrow> string \<Rightarrow> string \<Rightarrow> json option \<Rightarrow> (string + (string \<times> json) list) io" where
  "cf_call e token asked label method path body = do {
     r \<leftarrow> cf_request e token method path body;
     State_Monad.return (case r of
       Inl err \<Rightarrow> Inl (''cloudflare '' @ asked @ '': '' @ err)
     | Inr (Json (JObj kvs)) \<Rightarrow>
         (case (bool_field kvs ''success'', json_items (map_of kvs ''errors'')) of
            (Some True, Some _) \<Rightarrow> Inr kvs
          | (Some False, Some es) \<Rightarrow> Inl (''cloudflare '' @ label @ '' failed: '' @ formatErrors es)
          | _ \<Rightarrow> Inl (''cloudflare '' @ label @ '' decode''))
     | Inr _ \<Rightarrow> Inl (''cloudflare '' @ label @ '' decode''))
   }"

definition result_object :: "string \<Rightarrow> string + (string \<times> json) list \<Rightarrow> string + json" where
  "result_object label r = (case r of
     Inl err \<Rightarrow> Inl err
   | Inr kvs \<Rightarrow> (case map_of kvs ''result'' of
       None \<Rightarrow> Inr (JObj []) | Some JNull \<Rightarrow> Inr (JObj []) | Some (JObj fs) \<Rightarrow> Inr (JObj fs)
     | _ \<Rightarrow> Inl (''cloudflare '' @ label @ '' decode'')))"

text \<open>\<open>Verify\<close>: a result that is no object is a failed type assertion, a panic (\<open>None\<close>).\<close>

definition cf_Verify :: "panel_env \<Rightarrow> string \<Rightarrow> (string + string \<times> string) option io" where
  "cf_Verify e token = do {
     r \<leftarrow> cf_call e token ''verify'' ''verify'' ''GET'' ''/user/token/verify'' None;
     State_Monad.return (case r of
       Inl err \<Rightarrow> Some (Inl err)
     | Inr kvs \<Rightarrow> (case map_of kvs ''result'' of
         Some (JObj fs) \<Rightarrow> Some (Inr (any_string fs ''status'', any_string fs ''id''))
       | _ \<Rightarrow> None))
   }"

definition decode_zone :: "json \<Rightarrow> Zone option" where
  "decode_zone j = (case j of
     JObj fs \<Rightarrow> (case (str_field fs ''id'', str_field fs ''name'') of
       (Some i, Some n) \<Rightarrow> Some \<lparr>zon_id = i, zon_name = n, zon_json = j\<rparr> | _ \<Rightarrow> None)
   | _ \<Rightarrow> None)"

definition decode_zones :: "(string \<times> json) list \<Rightarrow> (Zone list \<times> int) option" where
  "decode_zones kvs =
     (case Option.bind (json_items (map_of kvs ''result'')) (\<lambda>xs. all_some (map decode_zone xs)) of
        None \<Rightarrow> None
      | Some zs \<Rightarrow> (case map_of kvs ''result_info'' of
          None \<Rightarrow> Some (zs, 0)
        | Some JNull \<Rightarrow> Some (zs, 0)
        | Some (JObj info) \<Rightarrow> map_option (Pair zs) (int_field info ''total_pages'')
        | _ \<Rightarrow> None))"

text \<open>
  The pages of \<open>ListZones\<close>. The number of pages is a 64 bit value, so the loop ends; the guard on the page, which
  the counter meets only there, shows it.
\<close>

function zone_pages :: "panel_env \<Rightarrow> string \<Rightarrow> Zone list \<Rightarrow> int \<Rightarrow> (string + Zone list) io" where
  "zone_pages e token acc number = do {
     r \<leftarrow> cf_call e token ''list zones'' ''list zones'' ''GET'' (''/zones?per_page=50&page='' @ itoa number) None;
     case r of
       Inl err \<Rightarrow> State_Monad.return (Inl err)
     | Inr kvs \<Rightarrow> (case decode_zones kvs of
         None \<Rightarrow> State_Monad.return (Inl ''cloudflare list zones decode'')
       | Some (zs, total_pages) \<Rightarrow>
           if number \<ge> total_pages \<or> number \<ge> max_int64 then State_Monad.return (Inr (acc @ zs))
           else zone_pages e token (acc @ zs) (number + 1))
   }"
  by pat_completeness auto

termination
  by (relation "measure (\<lambda>(e, token, acc, number). nat (max_int64 - number))") (auto simp: max_int64_def)

declare zone_pages.simps [simp del]

definition ListZones :: "panel_env \<Rightarrow> string \<Rightarrow> (string + Zone list) io" where
  "ListZones e token = zone_pages e token [] 1"

definition GetZone :: "panel_env \<Rightarrow> string \<Rightarrow> string \<Rightarrow> (string + json) io" where
  "GetZone e token zoneID = do {
     r \<leftarrow> cf_call e token ''get zone'' ''get zone'' ''GET'' (''/zones/'' @ zoneID) None;
     State_Monad.return (case result_object ''get zone'' r of
       Inr (JObj fs) \<Rightarrow> if any_string fs ''type'' = []
         then Inr (JObj ((''type'', JStr ''full'') # filter (\<lambda>(k, _). k \<noteq> ''type'') fs)) else Inr (JObj fs)
     | other \<Rightarrow> other)
   }"

definition ListDNSRecords :: "panel_env \<Rightarrow> string \<Rightarrow> string \<Rightarrow> string \<Rightarrow> (string + json list) io" where
  "ListDNSRecords e token zoneID recordType = do {
     r \<leftarrow> cf_call e token ''list dns records'' ''list dns records'' ''GET'' (''/zones/'' @ zoneID @ ''/dns_records?per_page=100''
            @ (if recordType = [] then [] else ''&type='' @ query_escape recordType)) None;
     State_Monad.return (case r of
       Inl err \<Rightarrow> Inl err
     | Inr kvs \<Rightarrow> (case json_items (map_of kvs ''result'') of
         Some rs \<Rightarrow> Inr rs | None \<Rightarrow> Inl ''cloudflare list dns records decode''))
   }"

definition CreateDNSRecord :: "panel_env \<Rightarrow> string \<Rightarrow> string \<Rightarrow> json \<Rightarrow> (string + json) io" where
  "CreateDNSRecord e token zoneID req = do {
     r \<leftarrow> cf_call e token ''create dns record'' ''create dns'' ''POST'' (''/zones/'' @ zoneID @ ''/dns_records'') (Some req);
     State_Monad.return (result_object ''create dns'' r)
   }"

definition UpdateDNSRecord :: "panel_env \<Rightarrow> string \<Rightarrow> string \<Rightarrow> string \<Rightarrow> json \<Rightarrow> (string + json) io" where
  "UpdateDNSRecord e token zoneID recordID req = do {
     r \<leftarrow> cf_call e token ''update dns record'' ''update dns'' ''PUT'' (''/zones/'' @ zoneID @ ''/dns_records/'' @ recordID) (Some req);
     State_Monad.return (result_object ''update dns'' r)
   }"

definition UpdateDNSRecordPartial :: "panel_env \<Rightarrow> string \<Rightarrow> string \<Rightarrow> string \<Rightarrow> json \<Rightarrow> (string + json) io" where
  "UpdateDNSRecordPartial e token zoneID recordID req = do {
     r \<leftarrow> cf_call e token ''patch dns record'' ''patch dns'' ''PATCH'' (''/zones/'' @ zoneID @ ''/dns_records/'' @ recordID) (Some req);
     State_Monad.return (result_object ''patch dns'' r)
   }"

definition DeleteDNSRecord :: "panel_env \<Rightarrow> string \<Rightarrow> string \<Rightarrow> string \<Rightarrow> (string + unit) io" where
  "DeleteDNSRecord e token zoneID recordID = do {
     r \<leftarrow> cf_call e token ''delete dns'' ''delete dns'' ''DELETE'' (''/zones/'' @ zoneID @ ''/dns_records/'' @ recordID) None;
     State_Monad.return (case r of Inl err \<Rightarrow> Inl err | Inr _ \<Rightarrow> Inr ())
   }"

definition PurgeCache :: "panel_env \<Rightarrow> string \<Rightarrow> string \<Rightarrow> json \<Rightarrow> (string + json) io" where
  "PurgeCache e token zoneID req = do {
     r \<leftarrow> cf_call e token ''purge cache'' ''purge cache'' ''POST'' (''/zones/'' @ zoneID @ ''/purge_cache'') (Some req);
     State_Monad.return (result_object ''purge cache'' r)
   }"

text \<open>The totals stay as they came.\<close>

definition GetAnalytics :: "panel_env \<Rightarrow> string \<Rightarrow> string \<Rightarrow> int \<Rightarrow> int \<Rightarrow> (string + json) io" where
  "GetAnalytics e token zoneID since until = do {
     r \<leftarrow> cf_call e token ''analytics'' ''analytics'' ''GET'' (''/zones/'' @ zoneID @ ''/analytics/dashboard?since=''
            @ query_escape (rfc3339 since) @ ''&until='' @ query_escape (rfc3339 until) @ ''&continuous=true'') None;
     State_Monad.return (case result_object ''analytics'' r of
       Inr (JObj fs) \<Rightarrow> Inr (case map_of fs ''totals'' of Some (JObj t) \<Rightarrow> JObj t | _ \<Rightarrow> JObj [])
     | other \<Rightarrow> other)
   }"

section \<open>Handlers\<close>

text \<open>Query parameters and decoded bodies are arguments.\<close>

definition with_session :: "(Session \<Rightarrow> reply io) \<Rightarrow> handler" where
  "with_session body c = (case cx_session c of None \<Rightarrow> answer (HTTPError 401 ''unauthorized'') | Some s \<Rightarrow> body s)"

definition with_client :: "(string \<Rightarrow> int \<Rightarrow> reply io) \<Rightarrow> handler" where
  "with_client body = with_session (\<lambda>s. do {
     cfg \<leftarrow> Cloudflare_GetConfig (ses_user s);
     case cfg of
       Inl _ \<Rightarrow> internal_error
     | Inr cfg \<Rightarrow>
         if cfc_api_token cfg = []
         then bad_request (''Cloudflare API token not configured. Go to Settings '' @ [CHR 0xE2, CHR 0x86, CHR 0x92]
                @ '' Cloudflare to set it up.'')
         else body (cfc_api_token cfg) (ses_user s)
   })"

definition gateway_error :: "string \<Rightarrow> string \<Rightarrow> reply io" where
  "gateway_error what err = answer (HTTPError 502 (what @ err))"

definition bullets :: string where
  "bullets = concat (replicate 4 [CHR 0xE2, CHR 0x80, CHR 0xA2])"

definition masked :: "string \<Rightarrow> string" where
  "masked t = (if length t > 8 then take 4 t @ bullets @ drop (length t - 4) t else if t \<noteq> [] then bullets else [])"

definition cf_getConfig :: handler where
  "cf_getConfig = with_session (\<lambda>s. do {
     cfg \<leftarrow> Cloudflare_GetConfig (ses_user s);
     case cfg of
       Inl _ \<Rightarrow> internal_error
     | Inr cfg \<Rightarrow> do {
         has \<leftarrow> Cloudflare_HasConfig (ses_user s);
         plain_success (JObj [(''api_token'', JStr (masked (cfc_api_token cfg))), (''raw_token'', JBool (cfc_api_token cfg \<noteq> [])),
           (''email'', JStr (cfc_email cfg)), (''configured'', JBool (has = Inr True))])
       }
   })"

definition cf_save :: "Session \<Rightarrow> string \<Rightarrow> string \<Rightarrow> string \<Rightarrow> reply io" where
  "cf_save s token email user = do {
     saved \<leftarrow> Cloudflare_SaveConfig (ses_user s) token email;
     case saved of
       Inl err \<Rightarrow> answer (HTTPError 500 (''failed to save config: '' @ error_text err))
     | Inr _ \<Rightarrow> do {
         _ \<leftarrow> RecordAction (ses_user s) ''cloudflare.config.update'' ''cloudflare'' 0
                (Some (JObj [(''user'', JStr user), (''verified'', JBool True)]));
         plain_success (JObj [(''status'', JStr ''ok''), (''message'', JStr ''Cloudflare API token saved and verified''),
           (''verified'', JBool True), (''user'', JStr user)])
       }
   }"

definition cf_saveConfig :: "panel_env \<Rightarrow> (string \<times> string) option \<Rightarrow> handler" where
  "cf_saveConfig e body = with_session (\<lambda>s.
     case body of
       None \<Rightarrow> bad_request ''invalid request body''
     | Some (token, email) \<Rightarrow>
         if token = [] then bad_request ''api_token is required''
         else if ae_dev (pe_auth e) then cf_save s token email ''dev-user''
         else do {
           v \<leftarrow> cf_Verify e token;
           case v of
             None \<Rightarrow> answer Crashed
           | Some (Inr (status, user)) \<Rightarrow> cf_save s token email user
           | Some (Inl _) \<Rightarrow> do {
               zones \<leftarrow> ListZones e token;
               case zones of
                 Inr _ \<Rightarrow> cf_save s token email []
               | Inl err \<Rightarrow> bad_request (''Cloudflare API token verification failed. Token may be invalid or missing required permissions (DNS:Edit, Zone:Read). Error: '' @ err)
             }
         })"

definition cf_deleteConfig :: handler where
  "cf_deleteConfig = with_session (\<lambda>s. do {
     cfg \<leftarrow> Cloudflare_GetConfig (ses_user s);
     case cfg of
       Inl _ \<Rightarrow> internal_error
     | Inr _ \<Rightarrow> do {
         r \<leftarrow> Cloudflare_DeleteConfig (ses_user s);
         case r of
           Inl err \<Rightarrow> answer (HTTPError 500 (''failed to delete config: '' @ error_text err))
         | Inr _ \<Rightarrow> do {
             _ \<leftarrow> RecordAction (ses_user s) ''cloudflare.config.delete'' ''cloudflare'' 0 None;
             plain_success (JObj [(''status'', JStr ''deleted'')])
           }
       }
   })"

definition cf_verify :: "panel_env \<Rightarrow> handler" where
  "cf_verify e = with_client (\<lambda>token u. do {
     v \<leftarrow> cf_Verify e token;
     case v of
       None \<Rightarrow> answer Crashed
     | Some (Inl err) \<Rightarrow> bad_request (''Cloudflare verification failed: '' @ err)
     | Some (Inr (status, user)) \<Rightarrow>
         plain_success (JObj ([(''status'', JStr status), (''message'', JStr ''API token is valid'')] @
           (if user = [] then [] else [(''user'', JStr user)])))
   })"

definition counted :: "string \<Rightarrow> json list \<Rightarrow> reply io" where
  "counted name xs = plain_success (JObj [(name, json_list xs), (''count'', JNum (int (length xs)))])"

definition cf_listZones :: "panel_env \<Rightarrow> handler" where
  "cf_listZones e = with_client (\<lambda>token u. do {
     zones \<leftarrow> ListZones e token;
     case zones of
       Inl err \<Rightarrow> gateway_error ''Failed to fetch zones: '' err
     | Inr zs \<Rightarrow> counted ''zones'' (map zon_json zs)
   })"

definition cf_searchZones :: "panel_env \<Rightarrow> string \<Rightarrow> handler" where
  "cf_searchZones e q = with_client (\<lambda>token u.
     if trim_space q = [] then bad_request (''query parameter '' @ [CHR 0x27] @ ''q'' @ [CHR 0x27] @ '' is required'')
     else do {
       zones \<leftarrow> ListZones e token;
       case zones of
         Inl err \<Rightarrow> gateway_error ''Failed to search zones: '' err
       | Inr zs \<Rightarrow> counted ''zones''
           (map zon_json (filter (\<lambda>z. contains (to_lower (zon_name z)) (to_lower (trim_space q))) zs))
     })"

definition cf_getZone :: "panel_env \<Rightarrow> handler" where
  "cf_getZone e c = with_client (\<lambda>token u. do {
     zone \<leftarrow> GetZone e token (cx_param c ''id'');
     case zone of Inl err \<Rightarrow> gateway_error ''Failed to fetch zone: '' err | Inr z \<Rightarrow> plain_success z
   }) c"

definition cf_listDNSRecords :: "panel_env \<Rightarrow> string \<Rightarrow> handler" where
  "cf_listDNSRecords e recordType c = with_client (\<lambda>token u. do {
     records \<leftarrow> ListDNSRecords e token (cx_param c ''id'') recordType;
     case records of
       Inl err \<Rightarrow> gateway_error ''Failed to fetch DNS records: '' err
     | Inr rs \<Rightarrow> counted ''records'' rs
   }) c"

text \<open>\<open>CreateDNSRecordRequest\<close>: the fields the code looks at; the rest is passed on.\<close>

record dns_request =
  dns_name :: string
  dns_type :: string
  dns_content :: string
  dns_ttl :: int
  dns_rest :: "(string \<times> json) list"

definition dns_json :: "dns_request \<Rightarrow> json" where
  "dns_json r = JObj ([(''name'', JStr (dns_name r)), (''type'', JStr (dns_type r)), (''content'', JStr (dns_content r))]
     @ (if dns_ttl r = 0 then [] else [(''ttl'', JNum (dns_ttl r))]) @ dns_rest r)"

definition default_ttl :: "dns_request \<Rightarrow> dns_request" where
  "default_ttl r = (if dns_ttl r = 0 then r\<lparr>dns_ttl := 1\<rparr> else r)"

definition audit_dns :: "int \<Rightarrow> string \<Rightarrow> (string \<times> json) list \<Rightarrow> unit io" where
  "audit_dns u action details = RecordAction u action ''cloudflare'' 0 (Some (JObj details))"

definition cf_createDNSRecord :: "panel_env \<Rightarrow> dns_request option \<Rightarrow> handler" where
  "cf_createDNSRecord e body c = with_client (\<lambda>token u.
     case body of
       None \<Rightarrow> bad_request ''invalid request body''
     | Some r \<Rightarrow>
         if dns_name r = [] \<or> dns_type r = [] \<or> dns_content r = [] then bad_request ''name, type, and content are required''
         else do {
           record \<leftarrow> CreateDNSRecord e token (cx_param c ''id'') (dns_json (default_ttl r));
           case record of
             Inl err \<Rightarrow> gateway_error ''Failed to create DNS record: '' err
           | Inr j \<Rightarrow> do {
               _ \<leftarrow> audit_dns u ''cloudflare.dns.create''
                      [(''name'', JStr (dns_name r)), (''type'', JStr (dns_type r)), (''zone_id'', JStr (cx_param c ''id''))];
               plain_success j
             }
         }) c"

definition cf_updateDNSRecord :: "panel_env \<Rightarrow> dns_request option \<Rightarrow> handler" where
  "cf_updateDNSRecord e body c = with_client (\<lambda>token u.
     case body of
       None \<Rightarrow> bad_request ''invalid request body''
     | Some r \<Rightarrow>
         if dns_type r = [] \<or> dns_content r = [] then bad_request ''type and content are required''
         else do {
           record \<leftarrow> UpdateDNSRecord e token (cx_param c ''id'') (cx_param c ''recordId'') (dns_json (default_ttl r));
           case record of
             Inl err \<Rightarrow> gateway_error ''Failed to update DNS record: '' err
           | Inr j \<Rightarrow> do {
               _ \<leftarrow> audit_dns u ''cloudflare.dns.update''
                      [(''name'', JStr (dns_name r)), (''type'', JStr (dns_type r)), (''zone_id'', JStr (cx_param c ''id''))];
               plain_success j
             }
         }) c"

definition cf_patchDNSRecord :: "panel_env \<Rightarrow> json option \<Rightarrow> handler" where
  "cf_patchDNSRecord e body c = with_client (\<lambda>token u.
     case body of
       None \<Rightarrow> bad_request ''invalid request body''
     | Some patch \<Rightarrow> do {
         record \<leftarrow> UpdateDNSRecordPartial e token (cx_param c ''id'') (cx_param c ''recordId'') patch;
         case record of Inl err \<Rightarrow> gateway_error ''Failed to update DNS record: '' err | Inr j \<Rightarrow> plain_success j
       }) c"

definition cf_deleteDNSRecord :: "panel_env \<Rightarrow> handler" where
  "cf_deleteDNSRecord e c = with_client (\<lambda>token u. do {
     r \<leftarrow> DeleteDNSRecord e token (cx_param c ''id'') (cx_param c ''recordId'');
     case r of
       Inl err \<Rightarrow> gateway_error ''Failed to delete DNS record: '' err
     | Inr _ \<Rightarrow> do {
         _ \<leftarrow> audit_dns u ''cloudflare.dns.delete''
                [(''record_id'', JStr (cx_param c ''recordId'')), (''zone_id'', JStr (cx_param c ''id''))];
         plain_success (JObj [(''status'', JStr ''deleted'')])
       }
   }) c"

record purge_request =
  pur_everything :: bool
  pur_files :: "string list"
  pur_tags :: "string list"
  pur_hosts :: "string list"

definition purge_json :: "purge_request \<Rightarrow> json" where
  "purge_json r = JObj ((''purge_everything'', JBool (pur_everything r))
     # concat (map (\<lambda>(k, xs). if xs = [] then [] else [(k, JArr (map JStr xs))])
         [(''files'', pur_files r), (''tags'', pur_tags r), (''hosts'', pur_hosts r)]))"

definition cf_purgeCache :: "panel_env \<Rightarrow> purge_request option \<Rightarrow> handler" where
  "cf_purgeCache e body c = with_client (\<lambda>token u.
     case body of
       None \<Rightarrow> bad_request ''invalid request body''
     | Some r \<Rightarrow>
         let r = (if pur_files r = [] \<and> pur_tags r = [] \<and> pur_hosts r = [] then r\<lparr>pur_everything := True\<rparr> else r) in do {
           result \<leftarrow> PurgeCache e token (cx_param c ''id'') (purge_json r);
           case result of
             Inl err \<Rightarrow> gateway_error ''Failed to purge cache: '' err
           | Inr j \<Rightarrow> do {
               _ \<leftarrow> audit_dns u ''cloudflare.cache.purge'' [(''files_count'', JNum (int (length (pur_files r)))),
                      (''purge_everything'', JBool (pur_everything r)), (''zone_id'', JStr (cx_param c ''id''))];
               plain_success j
             }
         }) c"

text \<open>\<open>since\<close> and \<open>until\<close>: the instants of the query, when they parse.\<close>

definition cf_getAnalytics :: "panel_env \<Rightarrow> int option \<Rightarrow> int option \<Rightarrow> handler" where
  "cf_getAnalytics e since until c = with_client (\<lambda>token u. do {
     t \<leftarrow> now;
     r \<leftarrow> GetAnalytics e token (cx_param c ''id'') (case since of Some s \<Rightarrow> s | None \<Rightarrow> t - 86400)
            (case until of Some s \<Rightarrow> s | None \<Rightarrow> t);
     case r of Inl err \<Rightarrow> gateway_error ''Failed to fetch analytics: '' err | Inr j \<Rightarrow> plain_success j
   }) c"

definition cf_getAnalyticsRange :: "panel_env \<Rightarrow> string \<Rightarrow> handler" where
  "cf_getAnalyticsRange e days c = with_client (\<lambda>token u. do {
     t \<leftarrow> now;
     let d = (case atoi days of (n, ok) \<Rightarrow> if ok \<and> 0 < n \<and> n \<le> 90 then n else 7);
     r \<leftarrow> GetAnalytics e token (cx_param c ''id'') (t - d * 86400) t;
     case r of Inl err \<Rightarrow> gateway_error ''Failed to fetch analytics: '' err | Inr j \<Rightarrow> plain_success j
   }) c"

fun bulk_delete :: "panel_env \<Rightarrow> string \<Rightarrow> string \<Rightarrow> string list \<Rightarrow> string list io" where
  "bulk_delete e token zoneID [] = State_Monad.return []"
| "bulk_delete e token zoneID (i # is) = do {
     r \<leftarrow> DeleteDNSRecord e token zoneID i;
     failed \<leftarrow> bulk_delete e token zoneID is;
     State_Monad.return (case r of Inl _ \<Rightarrow> i # failed | Inr _ \<Rightarrow> failed)
   }"

definition cf_bulkDeleteDNS :: "panel_env \<Rightarrow> string list option \<Rightarrow> handler" where
  "cf_bulkDeleteDNS e body c = with_client (\<lambda>token u.
     case body of
       None \<Rightarrow> bad_request ''invalid request body''
     | Some is \<Rightarrow> do {
         failed \<leftarrow> bulk_delete e token (cx_param c ''id'') is;
         _ \<leftarrow> audit_dns u ''cloudflare.dns.bulk_delete'' [(''failed'', JNum (int (length failed))),
                (''total'', JNum (int (length is))), (''zone_id'', JStr (cx_param c ''id''))];
         plain_success (JObj [(''deleted'', JNum (int (length is) - int (length failed))),
           (''failed'', json_list (map JStr failed))])
       }) c"

fun import_records :: "panel_env \<Rightarrow> string \<Rightarrow> string \<Rightarrow> int \<Rightarrow> dns_request list \<Rightarrow> (json list \<times> string list) io" where
  "import_records e token zoneID i [] = State_Monad.return ([], [])"
| "import_records e token zoneID i (r # rs) = do {
     record \<leftarrow> CreateDNSRecord e token zoneID (dns_json (default_ttl r));
     (created, errors) \<leftarrow> import_records e token zoneID (i + 1) rs;
     State_Monad.return (case record of
       Inl err \<Rightarrow> (created, (''['' @ itoa i @ ''] '' @ dns_type r @ '' '' @ dns_name r @ '': '' @ err) # errors)
     | Inr j \<Rightarrow> (j # created, errors))
   }"

definition cf_importDNSRecords :: "panel_env \<Rightarrow> dns_request list option \<Rightarrow> handler" where
  "cf_importDNSRecords e body c = with_client (\<lambda>token u.
     case body of
       None \<Rightarrow> bad_request ''invalid request body''
     | Some rs \<Rightarrow> do {
         (created, errors) \<leftarrow> import_records e token (cx_param c ''id'') 0 rs;
         _ \<leftarrow> audit_dns u ''cloudflare.dns.import'' [(''created'', JNum (int (length created))),
                (''errors'', JNum (int (length errors))), (''total'', JNum (int (length rs))), (''zone_id'', JStr (cx_param c ''id''))];
         plain_success (JObj [(''created'', json_list created), (''errors'', json_list (map JStr errors)),
           (''count'', JNum (int (length created)))])
       }) c"

end
