(* ===== verification/SiteHandlers.thy ===== *)
theory SiteHandlers
  imports DatabaseHandlers Cloudflare
begin

text \<open>
  \<open>internal/apihttp/sites.go\<close>: the handlers of sites. Bodies are arguments with the fields of the decoded structs
  (\<open>None\<close>: \<open>Bind\<close> has failed), query parameters and random tokens too.
\<close>

section \<open>Answers\<close>

definition opt_str :: "string \<Rightarrow> string option \<Rightarrow> (string \<times> json) list" where
  "opt_str key v = (case v of None \<Rightarrow> [] | Some s \<Rightarrow> [(key, JStr s)])"

definition opt_num :: "string \<Rightarrow> int option \<Rightarrow> (string \<times> json) list" where
  "opt_num key v = (case v of None \<Rightarrow> [] | Some n \<Rightarrow> [(key, JNum n)])"

definition siteToMap :: "Site \<Rightarrow> json" where
  "siteToMap s = JObj (
     [(''id'', JNum (ste_id s)), (''server_id'', JNum (ste_server s)), (''name'', JStr (ste_name s)),
      (''domain'', JStr (ste_domain s)), (''runtime'', JStr (ste_runtime s)), (''root_path'', JStr (ste_root_path s)),
      (''status'', JStr (ste_status s)), (''created_at'', JStr (rfc3339 (ste_created_at s))),
      (''updated_at'', JStr (rfc3339 (ste_updated_at s)))]
     @ opt_num ''owner_id'' (ste_owner s) @ opt_str ''git_repo'' (ste_git_repo s) @ opt_str ''git_branch'' (ste_git_branch s)
     @ opt_str ''git_commit'' (ste_git_commit s) @ opt_str ''managed_by'' (ste_managed_by s)
     @ opt_str ''system_user'' (ste_system_user s) @ opt_str ''conf_file'' (ste_conf_file s)
     @ opt_str ''proxy_pass_url'' (ste_proxy_pass_url s) @ opt_num ''app_port'' (ste_app_port s)
     @ opt_str ''app_command'' (ste_app_command s) @ opt_str ''app_status'' (ste_app_status s)
     @ opt_num ''app_memory_max'' (ste_app_memory_max s) @ opt_str ''php_version'' (ste_php_version s)
     @ opt_str ''php_ini'' (ste_php_ini s) @ opt_num ''backup_provider_id'' (ste_backup_provider s)
     @ opt_str ''ssl_status'' (ste_ssl_status s) @ opt_str ''ssl_issuer'' (ste_ssl_issuer s)
     @ (case ste_ssl_expires_at s of None \<Rightarrow> [] | Some t \<Rightarrow> [(''ssl_expires_at'', JStr (rfc3339 t))]))"

text \<open>The site of the path parameter, looked up, and a handler for it once the caller has the permission.\<close>

definition with_site :: "string \<Rightarrow> http_context \<Rightarrow> (Site \<Rightarrow> bool io) \<Rightarrow> (Site \<Rightarrow> reply io) \<Rightarrow> reply io" where
  "with_site msg c allowed body =
     (case id_param c ''id'' of
        None \<Rightarrow> bad_request msg
      | Some i \<Rightarrow> do {
          site \<leftarrow> Sites_GetByID i;
          case site of
            Inl _ \<Rightarrow> internal_error
          | Inr None \<Rightarrow> not_found ''site not found''
          | Inr (Some site) \<Rightarrow> do {
              ok \<leftarrow> allowed site;
              if ok then body site else not_found ''site not found''
            }
        })"

definition permitted :: "http_context \<Rightarrow> string \<Rightarrow> Site \<Rightarrow> bool io" where
  "permitted c required site = checkSitePermission (cx_session c) site required"

definition accessible :: "http_context \<Rightarrow> Site \<Rightarrow> bool io" where
  "accessible c site = canAccess (cx_session c) site"

definition site_get :: handler where
  "site_get c = with_site ''invalid id'' c (accessible c)
     (\<lambda>site. answer (JSON 200 (Success c (siteToMap site))))"

text \<open>\<open>list\<close>: the query parameters that are present.\<close>

record site_query =
  siq_server :: "string option"
  siq_owner :: "string option"
  siq_runtime :: string
  siq_status :: string
  siq_search :: string
  siq_limit :: "string option"
  siq_offset :: "string option"

definition number_or :: "int \<Rightarrow> (int \<Rightarrow> bool) \<Rightarrow> string option \<Rightarrow> int" where
  "number_or d ok v = (case v of None \<Rightarrow> d | Some s \<Rightarrow>
     let (n, parsed) = atoi s in if s \<noteq> [] \<and> parsed \<and> ok n then n else d)"

definition query_filter :: "site_query \<Rightarrow> SiteListFilter" where
  "query_filter q = \<lparr>sfl_server = number_or 0 (\<lambda>_. True) (siq_server q), sfl_owner = number_or 0 (\<lambda>n. n > 0) (siq_owner q),
     sfl_runtime = siq_runtime q, sfl_status = siq_status q, sfl_search = siq_search q,
     sfl_limit = number_or 0 (\<lambda>n. n > 0) (siq_limit q), sfl_offset = number_or 0 (\<lambda>n. n \<ge> 0) (siq_offset q)\<rparr>"

fun fetch_assigned :: "int list \<Rightarrow> site_user list \<Rightarrow> Site list io" where
  "fetch_assigned owned [] = State_Monad.return []"
| "fetch_assigned owned ((r, _, _) # rs) =
     (if uss_site r \<in> set owned then fetch_assigned owned rs
      else do {
        site \<leftarrow> Sites_GetByID (uss_site r);
        rest \<leftarrow> fetch_assigned owned rs;
        State_Monad.return (case found site of Some s \<Rightarrow> s # rest | None \<Rightarrow> rest)
      })"

definition site_list :: "site_query \<Rightarrow> handler" where
  "site_list q c = do {
     _ \<leftarrow> (case cx_session c of None \<Rightarrow> State_Monad.return (Inr None) | Some sess \<Rightarrow> Users_GetByID (ses_user sess));
     super \<leftarrow> isSuperAdmin c;
     let mine = (case cx_session c of Some sess \<Rightarrow> if super then None else Some (ses_user sess) | None \<Rightarrow> None);
     sites \<leftarrow> Sites_List (case mine of Some u \<Rightarrow> (query_filter q)\<lparr>sfl_owner := u\<rparr> | None \<Rightarrow> query_filter q);
     case sites of
       Inl _ \<Rightarrow> internal_error
     | Inr sites \<Rightarrow> do {
         assigned \<leftarrow> (case mine of None \<Rightarrow> State_Monad.return (Inr []) | Some u \<Rightarrow> UserSites_ListByUser u);
         extra \<leftarrow> fetch_assigned (map ste_id sites) (listed assigned);
         ok_answer c [(''sites'', JArr (map siteToMap (sites @ extra))), (''count'', JNum (int (length (sites @ extra)))),
           (''total_count'', JNum (int (length (sites @ extra))))]
       }
   }"

section \<open>Creating a site\<close>

definition siteNameRegex :: regex where
  [go_defs]: "siteNameRegex = Rep (Cls (\<lambda>c. alnum c \<or> c \<in> set ''_- '')) 1 64"

definition allowedRuntimes :: "string list" where
  "allowedRuntimes = [''static'', ''php'', ''node'', ''go'', ''python'', ''proxy'', ''docker'']"

record site_body =
  stb_server :: int
  stb_name :: string
  stb_domain :: string
  stb_runtime :: string
  stb_root_path :: string
  stb_managed_by :: string
  stb_system_user :: string
  stb_conf_file :: string
  stb_proxy_pass_url :: string
  stb_php_version :: string
  stb_docker_image :: string
  stb_docker_language :: string
  stb_docker_name :: string
  stb_docker_ports :: string
  stb_docker_env :: string
  stb_docker_volume :: string
  stb_docker_restart :: string

definition trimmed_body :: "site_body \<Rightarrow> site_body" where
  "trimmed_body b = b\<lparr>stb_name := trim_space (stb_name b), stb_domain := trim_space (to_lower (stb_domain b)),
     stb_runtime := trim_space (to_lower (stb_runtime b)), stb_root_path := trim_space (stb_root_path b),
     stb_managed_by := or_default (trim_space (to_lower (stb_managed_by b))) ''sigardapanel'',
     stb_system_user := trim_space (stb_system_user b), stb_conf_file := trim_space (stb_conf_file b),
     stb_proxy_pass_url := trim_space (stb_proxy_pass_url b), stb_php_version := trim_space (stb_php_version b)\<rparr>"

definition defaultSiteRootPath :: "string \<Rightarrow> string \<Rightarrow> string" where
  "defaultSiteRootPath username domain = ''/home/'' @ or_default username domain @ ''/htdocs/'' @ domain"

text \<open>The pattern is the one of \<open>siteinput\<close>, written a second time.\<close>

definition domainRegex :: regex where
  [go_defs]: "domainRegex = Seqs [Opt (Lit ''*.''), label_re, Plus (Seq (Chr CHR ''.'') label_re)]"

text \<open>The part of the body that is looked at before the database.\<close>

definition check_shape :: "site_body \<Rightarrow> goerror" where
  "check_shape b =
     (if stb_server b \<le> 0 then Some ''server_id required''
      else if \<not> matches siteNameRegex (stb_name b) then Some ''invalid name (1-64 chars, alphanumeric/_- )''
      else if \<not> matches domainRegex (stb_domain b) then Some ''invalid domain''
      else if stb_runtime b \<notin> set allowedRuntimes then Some ''invalid runtime''
      else nil)"

text \<open>Who is asking: only an administrator may choose the Unix account and the place, everybody else is at home.\<close>

definition place_site :: "User option \<Rightarrow> site_body \<Rightarrow> reply + site_body" where
  "place_site requester b =
     (case requester of
        Some u \<Rightarrow>
          if HasRole (usr_role u) RoleAdmin then
            let b = (if stb_system_user b = [] then b\<lparr>stb_system_user := usr_username u\<rparr> else b)
            in if SystemUser (stb_system_user b) \<noteq> nil then Inl (HTTPError 400 ''invalid system_user'') else Inr b
          else if \<not> has_prefix (stb_root_path b) (''/home/'' @ usr_username u @ ''/'')
            then Inl (HTTPError 403 ''root_path must be inside your home directory'')
          else Inr (b\<lparr>stb_conf_file := [],
                 stb_system_user := (if SystemUser (usr_username u) = nil then usr_username u else [])\<rparr>)
      | None \<Rightarrow>
          if \<not> has_prefix (stb_root_path b) ''/home/''
            then Inl (HTTPError 403 ''root_path must be inside your home directory'')
          else Inr (b\<lparr>stb_conf_file := [], stb_system_user := []\<rparr>))"

text \<open>The checks after the place.\<close>

definition check_options :: "site_body \<Rightarrow> goerror" where
  "check_options b =
     (case if stb_proxy_pass_url b = [] then nil else ProxyPassURL (stb_proxy_pass_url b) of Some msg \<Rightarrow> Some msg
      | None \<Rightarrow> (case if stb_php_version b = [] then nil else PHPVersion (stb_php_version b) of Some msg \<Rightarrow> Some msg
      | None \<Rightarrow> (case if stb_runtime b \<noteq> ''docker'' then nil
                  else DockerOptions (stb_docker_image b) (stb_docker_name b) (stb_docker_ports b) (stb_docker_env b)
                         (stb_docker_volume b) (stb_docker_restart b) (stb_docker_language b) (stb_root_path b)
           of Some msg \<Rightarrow> Some msg
      | None \<Rightarrow> if stb_managed_by b \<notin> {''sigardapanel'', ''cloudpanel'', ''external''} then Some ''invalid managed_by'' else nil)))"

text \<open>The Unix time of Go's zero \<open>time.Time\<close>.\<close>

definition zero_time :: int where
  "zero_time = - 62135596800"

definition null_str :: "string \<Rightarrow> string option" where
  "null_str s = (if s = [] then None else Some s)"

definition new_site :: "int \<Rightarrow> site_body \<Rightarrow> int \<Rightarrow> string \<Rightarrow> Site" where
  "new_site userID b port command = \<lparr>ste_id = 0, ste_server = stb_server b, ste_name = stb_name b, ste_domain = stb_domain b,
     ste_runtime = stb_runtime b, ste_root_path = stb_root_path b, ste_status = ''pending'',
     ste_owner = (if userID > 0 then Some userID else None), ste_ssl_status = None, ste_ssl_issuer = None,
     ste_ssl_expires_at = None, ste_ssl_last_check = None, ste_git_repo = None, ste_git_branch = None, ste_git_commit = None,
     ste_webhook_secret = None, ste_managed_by = Some (stb_managed_by b), ste_system_user = null_str (stb_system_user b),
     ste_conf_file = null_str (stb_conf_file b), ste_proxy_pass_url = null_str (stb_proxy_pass_url b),
     ste_app_port = (if port > 0 then Some port else None), ste_app_command = (if port > 0 then Some command else None),
     ste_app_status = (if port > 0 then Some ''stopped'' else None), ste_app_memory_max = None,
     ste_php_version = null_str (stb_php_version b), ste_php_ini = None, ste_backup_provider = None,
     ste_created_at = zero_time, ste_updated_at = zero_time\<rparr>"

text \<open>The port and the command of the runtime: \<open>Inl\<close> is the answer that ends the request.\<close>

definition app_of_runtime :: "panel_env \<Rightarrow> site_body \<Rightarrow> (reply + int \<times> string) io" where
  "app_of_runtime e b =
     (if stb_runtime b \<in> {''node'', ''go'', ''python''} then do {
        port \<leftarrow> Sites_FindFreePort (pe_listen e) 30000 40000;
        State_Monad.return (case port of
          Inl _ \<Rightarrow> Inl (HTTPError 500 ''no available port'')
        | Inr port \<Rightarrow> Inr (port, if stb_runtime b = ''node'' then ''node server.js''
            else if stb_runtime b = ''go'' then ''./app'' else ''python3 app.py''))
      }
      else State_Monad.return
        (if stb_runtime b = ''proxy'' \<and> stb_proxy_pass_url b = []
         then Inl (HTTPError 400 ''proxy_pass_url required for proxy runtime'') else Inr (0, [])))"

definition site_create_payload :: "Site \<Rightarrow> site_body \<Rightarrow> int \<Rightarrow> jtext" where
  "site_create_payload site b port = Json (JObj
     [(''site_id'', JNum (ste_id site)), (''name'', JStr (ste_name site)), (''domain'', JStr (ste_domain site)),
      (''runtime'', JStr (ste_runtime site)), (''root_path'', JStr (ste_root_path site)), (''port'', JNum port),
      (''proxy_pass_url'', JStr (stb_proxy_pass_url b)), (''php_version'', JStr (stb_php_version b)),
      (''docker_image'', JStr (stb_docker_image b)), (''docker_language'', JStr (stb_docker_language b)),
      (''docker_name'', JStr (stb_docker_name b)), (''docker_ports'', JStr (stb_docker_ports b)),
      (''docker_env'', JStr (stb_docker_env b)), (''docker_volume'', JStr (stb_docker_volume b)),
      (''docker_restart'', JStr (stb_docker_restart b))])"

abbreviation TypeSiteDelete :: string where "TypeSiteDelete \<equiv> ''site.delete''"
abbreviation TypeSiteDeploy :: string where "TypeSiteDeploy \<equiv> ''site.deploy''"
abbreviation TypeNginxReload :: string where "TypeNginxReload \<equiv> ''nginx.reload''"

text \<open>The record that is offered to Cloudflare, and what the answer says of it (\<open>None\<close>: Cloudflare is not set up).\<close>

definition dns_name_in :: "string \<Rightarrow> string \<Rightarrow> string" where
  "dns_name_in domain zone =
     (let sub = (if has_suffix domain (''.'' @ zone) then take (length domain - length zone - 1) domain else domain)
      in if sub = [] \<or> sub = domain then ''@'' else domain)"

definition dns_outcome :: "bool \<Rightarrow> string \<Rightarrow> string \<Rightarrow> string \<Rightarrow> json" where
  "dns_outcome provisioned zone record err = JObj [(''provisioned'', JBool provisioned), (''zone'', JStr zone),
     (''record_id'', JStr record), (''error'', JStr err)]"

definition provision_dns :: "panel_env \<Rightarrow> int \<Rightarrow> Server \<Rightarrow> string \<Rightarrow> json option io" where
  "provision_dns e userID server domain = do {
     cfg \<leftarrow> Cloudflare_GetConfig userID;
     case cfg of
       Inl _ \<Rightarrow> State_Monad.return None
     | Inr cfg \<Rightarrow>
         if cfc_api_token cfg = [] then State_Monad.return None
         else do {
           zones \<leftarrow> ListZones e (cfc_api_token cfg);
           case zones of
             Inl err \<Rightarrow> State_Monad.return (Some (dns_outcome False [] [] (''failed to list zones: '' @ err)))
           | Inr zones \<Rightarrow>
               (case FindMatchingZone zones (RootDomain domain) of
                  None \<Rightarrow> State_Monad.return (Some (dns_outcome False [] [] (''no Cloudflare zone found for '' @ RootDomain domain)))
                | Some zone \<Rightarrow>
                    (case srv_ip server of
                       None \<Rightarrow> State_Monad.return (Some (dns_outcome False [] [] ''server has no IP address''))
                     | Some ip \<Rightarrow>
                         if ip = [] then State_Monad.return (Some (dns_outcome False [] [] ''server has no IP address''))
                         else do {
                           record \<leftarrow> CreateDNSRecord e (cfc_api_token cfg) (zon_id zone) (dns_json
                             \<lparr>dns_name = dns_name_in domain (zon_name zone), dns_type = ''A'', dns_content = ip, dns_ttl = 1,
                              dns_rest = [(''proxied'', JBool True)]\<rparr>);
                           State_Monad.return (Some (case record of
                             Inl err \<Rightarrow> dns_outcome False [] [] err
                           | Inr j \<Rightarrow> dns_outcome True (zon_name zone)
                               (case j of JObj fs \<Rightarrow> any_string fs ''id'' | _ \<Rightarrow> []) []))
                         }))
         }
   }"

text \<open>The row, the job and everything after them.\<close>

definition store_site :: "panel_env \<Rightarrow> http_context \<Rightarrow> Server \<Rightarrow> site_body \<Rightarrow> int \<Rightarrow> string \<Rightarrow> reply io" where
  "store_site e c server b port command = do {
     created \<leftarrow> Sites_Create (new_site (actor c) b port command);
     case created of
       Inl _ \<Rightarrow> internal_error
     | Inr i \<Rightarrow>
         let site = (new_site (actor c) b port command)\<lparr>ste_id := i, ste_ssl_status := Some ''none''\<rparr>
         in do {
           job \<leftarrow> Jobs_Create (pe_secrets e) ((site_job site TypeSiteCreate (''Create site '' @ ste_domain site)
             (site_create_payload site b port))\<lparr>new_status := []\<rparr>);
           case job of
             Inl _ \<Rightarrow> internal_error
           | Inr jobID \<Rightarrow> do {
               _ \<leftarrow> RecordAction (actor c) ''site_create'' ''site'' i (Some (JObj [(''domain'', JStr (ste_domain site)),
                      (''runtime'', JStr (ste_runtime site)), (''server_id'', JNum (ste_server site))]));
               _ \<leftarrow> NotifyAdmins ''site_created'' ''Site Created'' (ste_domain site @ '' created'') ''info'' ''site'' i;
               dns \<leftarrow> provision_dns e (actor c) server (ste_domain site);
               answer (JSON 201 (Success c (JObj ([(''site'', siteToMap site),
                 (''job'', JObj [(''id'', JNum jobID), (''type'', JStr TypeSiteCreate), (''status'', JStr ''queued'')])]
                 @ (case dns of None \<Rightarrow> [] | Some d \<Rightarrow> [(''cloudflare_dns'', d)])))))
             }
         }
   }"

text \<open>The quota of the caller: \<open>Some\<close> is the answer that ends the request.\<close>

definition site_quota :: "int \<Rightarrow> reply option io" where
  "site_quota userID =
     (if userID \<le> 0 then State_Monad.return None
      else do {
        owner \<leftarrow> Users_GetByID userID;
        case owner of
          Inl _ \<Rightarrow> State_Monad.return (Some (HTTPError 500 ''internal error''))
        | Inr None \<Rightarrow> State_Monad.return None
        | Inr (Some u) \<Rightarrow>
            (case usr_max_sites u of
               None \<Rightarrow> State_Monad.return None
             | Some limit \<Rightarrow> do {
                 n \<leftarrow> Sites_CountByOwner userID;
                 State_Monad.return (case n of
                   Inl _ \<Rightarrow> Some (HTTPError 500 ''internal error'')
                 | Inr n \<Rightarrow> if n \<ge> limit
                     then Some (HTTPError 403 (''max sites limit reached ('' @ itoa n @ ''/'' @ itoa limit @ '')'')) else None)
               })
      })"

definition finish_create :: "panel_env \<Rightarrow> http_context \<Rightarrow> site_body \<Rightarrow> reply io" where
  "finish_create e c b = do {
     server \<leftarrow> Servers_GetByID (stb_server b);
     case server of
       Inl _ \<Rightarrow> internal_error
     | Inr None \<Rightarrow> bad_request ''server not found''
     | Inr (Some server) \<Rightarrow> do {
         refused \<leftarrow> site_quota (actor c);
         case refused of
           Some r \<Rightarrow> answer r
         | None \<Rightarrow> do {
             existing \<leftarrow> Sites_GetByDomain (stb_domain b);
             case existing of
               Inl _ \<Rightarrow> internal_error
             | Inr (Some _) \<Rightarrow> answer (HTTPError 409 ''domain already exists'')
             | Inr None \<Rightarrow> do {
                 app \<leftarrow> app_of_runtime e b;
                 case app of
                   Inl r \<Rightarrow> answer r
                 | Inr (port, command) \<Rightarrow> store_site e c server b port command
               }
           }
       }
   }"

definition requester :: "http_context \<Rightarrow> User option io" where
  "requester c =
     (if actor c > 0 then do { u \<leftarrow> Users_GetByID (actor c); State_Monad.return (found u) } else State_Monad.return None)"

definition default_root :: "http_context \<Rightarrow> site_body \<Rightarrow> site_body io" where
  "default_root c b =
     (if stb_root_path b \<noteq> [] then State_Monad.return b
      else do {
        u \<leftarrow> requester c;
        State_Monad.return (b\<lparr>stb_root_path :=
          defaultSiteRootPath (case u of Some u \<Rightarrow> usr_username u | None \<Rightarrow> []) (stb_domain b)\<rparr>)
      })"

definition site_create :: "panel_env \<Rightarrow> site_body option \<Rightarrow> handler" where
  "site_create e body c =
     (case body of
        None \<Rightarrow> bad_request ''invalid request body''
      | Some b \<Rightarrow>
          let b = trimmed_body b
          in case check_shape b of
               Some msg \<Rightarrow> bad_request msg
             | None \<Rightarrow> do {
                 b \<leftarrow> default_root c b;
                 if RootPathAllowed (stb_root_path b) \<noteq> nil then bad_request ''invalid root_path''
                 else do {
                   u \<leftarrow> requester c;
                   case place_site u b of
                     Inl r \<Rightarrow> answer r
                   | Inr b \<Rightarrow>
                       (case check_options b of
                          Some msg \<Rightarrow> bad_request msg
                        | None \<Rightarrow> finish_create e c b)
                 }
               })"

section \<open>Deleting a site\<close>

text \<open>One database of the site: dropped on the server, a job for the agent, the row deleted; errors are ignored.\<close>

definition delete_site_database :: "panel_env \<Rightarrow> Site \<Rightarrow> Database \<Rightarrow> unit io" where
  "delete_site_database e site db = do {
     _ \<leftarrow> (if dtb_type db = ''mysql'' then do {
            _ \<leftarrow> execMySQLConn e (\<lambda>m. DropDatabase e m (dtb_name db));
            _ \<leftarrow> Jobs_Create (pe_secrets e) (site_job site TypeDatabaseDelete
              (''Delete database '' @ dtb_name db @ '' (site removal)'')
              (database_payload (dtb_id db) (dtb_site db) (dtb_name db) (dtb_type db)));
            skip
          } else skip);
     _ \<leftarrow> Databases_Delete (dtb_id db);
     skip
   }"

definition record_field :: "string \<Rightarrow> json \<Rightarrow> string" where
  "record_field key r = (case r of JObj fs \<Rightarrow> any_string fs key | _ \<Rightarrow> [])"

text \<open>The record of the site in the caller's own Cloudflare account.\<close>

definition withdraw_dns :: "panel_env \<Rightarrow> int \<Rightarrow> string \<Rightarrow> unit io" where
  "withdraw_dns e userID domain = do {
     cfg \<leftarrow> Cloudflare_GetConfig userID;
     case cfg of
       Inl _ \<Rightarrow> skip
     | Inr cfg \<Rightarrow>
         if cfc_api_token cfg = [] then skip
         else do {
           zones \<leftarrow> ListZones e (cfc_api_token cfg);
           case zones of
             Inl _ \<Rightarrow> skip
           | Inr zones \<Rightarrow>
               (case FindMatchingZone zones (RootDomain domain) of
                  None \<Rightarrow> skip
                | Some zone \<Rightarrow> do {
                    records \<leftarrow> ListDNSRecords e (cfc_api_token cfg) (zon_id zone) ''A'';
                    case records of
                      Inl _ \<Rightarrow> skip
                    | Inr rs \<Rightarrow>
                        (case List.find (\<lambda>r. record_field ''name'' r = domain) rs of
                           None \<Rightarrow> skip
                         | Some r \<Rightarrow> do {
                             _ \<leftarrow> DeleteDNSRecord e (cfc_api_token cfg) (zon_id zone) (record_field ''id'' r);
                             skip
                           })
                  })
         }
   }"

definition site_delete_job :: "Site \<Rightarrow> NewJob" where
  "site_delete_job site = (site_job site TypeSiteDelete (''Delete site '' @ ste_domain site)
     (Json (JObj [(''site_id'', JNum (ste_id site)), (''domain'', JStr (ste_domain site)),
        (''root_path'', JStr (ste_root_path site))])))\<lparr>new_status := []\<rparr>"

definition remove_site :: "panel_env \<Rightarrow> http_context \<Rightarrow> Site \<Rightarrow> reply io" where
  "remove_site e c site = do {
     dbs \<leftarrow> Databases_ListBySite (ste_id site);
     _ \<leftarrow> for_each (delete_site_database e site) (listed dbs);
     _ \<leftarrow> Sites_ClearAppPort (ste_id site);
     _ \<leftarrow> withdraw_dns e (actor c) (ste_domain site);
     job \<leftarrow> Jobs_Create (pe_secrets e) (site_delete_job site);
     case job of
       Inl _ \<Rightarrow> internal_error
     | Inr jobID \<Rightarrow> do {
         _ \<leftarrow> NotifyAdmins ''site_deleted'' ''Site Deleted'' (ste_domain site @ '' deleted'') ''warning'' ''site'' (ste_id site);
         r \<leftarrow> Sites_Delete (ste_id site);
         case r of
           Inl _ \<Rightarrow> internal_error
         | Inr _ \<Rightarrow> do {
             _ \<leftarrow> RecordAction (actor c) ''site_delete'' ''site'' (ste_id site)
                    (Some (JObj [(''domain'', JStr (ste_domain site))]));
             ok_answer c [(''site_id'', JNum (ste_id site)), (''job_id'', JNum jobID)]
           }
       }
   }"

definition site_delete :: "panel_env \<Rightarrow> handler" where
  "site_delete e c = with_site ''invalid id'' c (permitted c ''admin'') (remove_site e c)"

section \<open>Deploying and configuring\<close>

text \<open>\<open>sql.NullString\<close> and \<open>sql.NullInt64\<close> as \<open>json.Marshal\<close> writes them.\<close>

definition null_string_json :: "string option \<Rightarrow> json" where
  "null_string_json v = JObj [(''String'', JStr (case v of Some s \<Rightarrow> s | None \<Rightarrow> [])), (''Valid'', JBool (v \<noteq> None))]"

definition null_int_json :: "int option \<Rightarrow> json" where
  "null_int_json v = JObj [(''Int64'', JNum (case v of Some n \<Rightarrow> n | None \<Rightarrow> 0)), (''Valid'', JBool (v \<noteq> None))]"

definition text_or :: "string \<Rightarrow> string option \<Rightarrow> string" where
  "text_or d v = (case v of Some s \<Rightarrow> or_default s d | None \<Rightarrow> d)"

definition deploy_payload :: "Site \<Rightarrow> string \<Rightarrow> jtext" where
  "deploy_payload site repo = Json (JObj
     [(''site_id'', JNum (ste_id site)), (''domain'', JStr (ste_domain site)), (''root_path'', JStr (ste_root_path site)),
      (''repo'', JStr repo), (''branch'', JStr (text_or ''main'' (ste_git_branch site))),
      (''runtime'', JStr (ste_runtime site)), (''app_status'', null_string_json (ste_app_status site)),
      (''app_port'', null_int_json (ste_app_port site)), (''app_command'', null_string_json (ste_app_command site)),
      (''system_user'', null_string_json (ste_system_user site)),
      (''app_memory_max'', null_int_json (ste_app_memory_max site))])"

definition site_deploy :: "panel_env \<Rightarrow> handler" where
  "site_deploy e c = with_site ''invalid id'' c (permitted c ''write'') (\<lambda>site.
     let repo = (case ste_git_repo site of Some r \<Rightarrow> r | None \<Rightarrow> [])
     in if repo = [] then bad_request ''no git repository configured; set git_repo in site config first''
        else do {
          job \<leftarrow> Jobs_Create (pe_secrets e) ((site_job site TypeSiteDeploy (''Deploy site '' @ ste_domain site)
            (deploy_payload site repo))\<lparr>new_status := []\<rparr>);
          case job of
            Inl _ \<Rightarrow> internal_error
          | Inr jobID \<Rightarrow> do {
              _ \<leftarrow> RecordAction (actor c) ''site_deploy'' ''site'' (ste_id site)
                     (Some (JObj [(''domain'', JStr (ste_domain site))]));
              accepted c [(''job_id'', JNum jobID)]
            }
        })"

record site_config_body =
  scb_git_repo :: string
  scb_git_branch :: string
  scb_proxy_pass_url :: "string option"
  scb_backup_provider :: "int option"

text \<open>The three updates: \<open>Some\<close> is the answer that ends the request.\<close>

definition store_git :: "int \<Rightarrow> site_config_body \<Rightarrow> reply option io" where
  "store_git i b =
     (if scb_git_repo b = [] then State_Monad.return None
      else if \<not> has_prefix (scb_git_repo b) ''https://''
        then State_Monad.return (Some (HTTPError 400 ''git_repo must be an HTTPS URL''))
      else do {
        r \<leftarrow> Sites_UpdateGitConfig i (scb_git_repo b) (or_default (scb_git_branch b) ''main'');
        State_Monad.return (failed r)
      })"

definition store_proxy :: "int \<Rightarrow> site_config_body \<Rightarrow> reply option io" where
  "store_proxy i b =
     (case scb_proxy_pass_url b of
        None \<Rightarrow> State_Monad.return None
      | Some url \<Rightarrow>
          (case if url = [] then nil else ProxyPassURL url of
             Some msg \<Rightarrow> State_Monad.return (Some (HTTPError 400 msg))
           | None \<Rightarrow> do { r \<leftarrow> Sites_UpdateProxyPassURL i url; State_Monad.return (failed r) }))"

definition store_provider :: "int \<Rightarrow> site_config_body \<Rightarrow> reply option io" where
  "store_provider i b =
     (case scb_backup_provider b of
        None \<Rightarrow> State_Monad.return None
      | Some p \<Rightarrow> do {
          r \<leftarrow> Sites_UpdateBackupProvider i (if p > 0 then Some p else None);
          State_Monad.return (failed r)
        })"

definition or_else :: "reply option io \<Rightarrow> reply io \<Rightarrow> reply io" where
  "or_else m rest = do { r \<leftarrow> m; case r of Some r \<Rightarrow> answer r | None \<Rightarrow> rest }"

text \<open>The site is read again for its webhook secret; \<open>None\<close> crashes on \<open>site.Domain\<close>.\<close>

definition finish_config :: "string option \<Rightarrow> http_context \<Rightarrow> int \<Rightarrow> reply io" where
  "finish_config token c i = do {
     site \<leftarrow> Sites_GetByID i;
     case found site of
       None \<Rightarrow> answer Crashed
     | Some site \<Rightarrow> do {
         secret \<leftarrow> (if ste_webhook_secret site = None
                   then do { r \<leftarrow> Sites_GenerateWebhookSecret token i; State_Monad.return (case r of Inr s \<Rightarrow> s | Inl _ \<Rightarrow> []) }
                   else State_Monad.return []);
         _ \<leftarrow> RecordAction (actor c) ''site_update'' ''site'' i (Some (JObj [(''domain'', JStr (ste_domain site))]));
         _ \<leftarrow> NotifySiteUsers i ''config_updated'' ''Config Updated'' ''Site configuration was updated'' ''info'' ''site'' i;
         ok_answer c ([(''ok'', JBool True)] @ (if secret = [] then [] else [(''webhook_secret'', JStr secret)]))
       }
   }"

definition site_updateConfig :: "string option \<Rightarrow> site_config_body option \<Rightarrow> handler" where
  "site_updateConfig token body c = with_site ''invalid id'' c (permitted c ''write'') (\<lambda>site.
     case body of
       None \<Rightarrow> bad_request ''invalid request body''
     | Some b \<Rightarrow> or_else (store_git (ste_id site) b) (or_else (store_proxy (ste_id site) b)
         (or_else (store_provider (ste_id site) b) (finish_config token c (ste_id site)))))"

definition reloadNginx :: "panel_env \<Rightarrow> handler" where
  "reloadNginx e c = with_site ''invalid id'' c (permitted c ''admin'') (\<lambda>site. do {
     job \<leftarrow> Jobs_Create (pe_secrets e) (site_job site TypeNginxReload (''Reload Nginx for '' @ ste_domain site)
       (q_payload [(''site_id'', JNum (ste_id site)), (''domain'', JStr (ste_domain site))]));
     case job of
       Inl _ \<Rightarrow> internal_error
     | Inr jobID \<Rightarrow> do {
         _ \<leftarrow> RecordAction (actor c) ''site_reload_nginx'' ''site'' (ste_id site) None;
         accepted c [(''job_id'', JNum jobID), (''status'', JStr ''queued'')]
       }
   })"

section \<open>Transfer\<close>

definition may_transfer :: "http_context \<Rightarrow> Site \<Rightarrow> bool io" where
  "may_transfer c site =
     (case (cx_role c, ste_owner site) of
        (Some role, Some owner) \<Rightarrow>
          if role = RoleAdmin then do {
            u \<leftarrow> Users_GetByID owner;
            State_Monad.return (owner = actor c \<or> (case found u of Some u \<Rightarrow> usr_created_by u = Some (actor c) | None \<Rightarrow> False))
          }
          else State_Monad.return (role = RoleSuperAdmin \<or> owner = actor c)
      | (Some role, None) \<Rightarrow> State_Monad.return (role = RoleSuperAdmin)
      | (None, _) \<Rightarrow> State_Monad.return False)"

definition complete_transfer :: "http_context \<Rightarrow> string \<Rightarrow> Site \<Rightarrow> User \<Rightarrow> reply io" where
  "complete_transfer c email site target = do {
     r \<leftarrow> Sites_Transfer (ste_id site) (usr_id target);
     case r of
       Inl _ \<Rightarrow> internal_error
     | Inr _ \<Rightarrow> do {
         let previous = (case ste_owner site of Some u \<Rightarrow> u | None \<Rightarrow> 0);
         _ \<leftarrow> RecordAction (actor c) ''transfer'' ''site'' (ste_id site)
                (Some (JObj [(''from'', JNum previous), (''to'', JNum (usr_id target))]));
         _ \<leftarrow> notify_user previous ''site_transferred'' ''Site Transferred''
                (''Transferred '' @ ste_domain site @ '' to '' @ usr_username target) ''info'' ''site'' (ste_id site);
         _ \<leftarrow> notify_user (usr_id target) ''site_received'' ''Site Received'' (''You received '' @ ste_domain site)
                ''success'' ''site'' (ste_id site);
         ok_answer c [(''transferred'', JBool True), (''site_id'', JNum (ste_id site)), (''new_owner_email'', JStr email),
           (''new_owner_id'', JNum (usr_id target))]
       }
   }"

text \<open>Without a role in the context the type assertion panics, without a session the handler dereferences \<open>nil\<close>.\<close>

definition site_transfer :: "string option \<Rightarrow> handler" where
  "site_transfer body c =
     (if cx_role c = None then answer Crashed
      else case id_param c ''id'' of
        None \<Rightarrow> bad_request ''invalid site id''
      | Some i \<Rightarrow>
          (case body of
             None \<Rightarrow> bad_request ''invalid request body''
           | Some email \<Rightarrow>
               if email = [] then bad_request ''new_owner_email required''
               else do {
                 target \<leftarrow> Users_GetByEmail email;
                 case found target of
                   None \<Rightarrow> bad_request ''user not found with that email''
                 | Some target \<Rightarrow> do {
                     site \<leftarrow> Sites_GetByID i;
                     case site of
                       Inl _ \<Rightarrow> internal_error
                     | Inr None \<Rightarrow> not_found ''site not found''
                     | Inr (Some site) \<Rightarrow>
                         if cx_session c = None then answer Crashed
                         else do {
                           ok \<leftarrow> may_transfer c site;
                           if \<not> ok then answer (HTTPError 403 ''cannot transfer site you do not own'')
                           else if usr_id target = actor c then bad_request ''cannot transfer to yourself''
                           else complete_transfer c email site target
                         }
                   }
               }))"

section \<open>Disk usage\<close>

text \<open>\<open>execCommand("du", "-sb", path)\<close>: the number before the first tab.\<close>

definition du_bytes :: "panel_env \<Rightarrow> string \<Rightarrow> int" where
  "du_bytes e path =
     (if path = [] then 0
      else case pe_output e [''du'', ''-sb'', path] of
        None \<Rightarrow> 0
      | Some out \<Rightarrow> (case atoi (hd (split2 CHR 0x09 out)) of (n, ok) \<Rightarrow> if ok then n else 0))"

definition site_usage :: "panel_env \<Rightarrow> handler" where
  "site_usage e c = with_site ''invalid site id'' c (accessible c) (\<lambda>site.
     ok_answer c [(''site_id'', JNum (ste_id site)), (''domain'', JStr (ste_domain site)),
       (''root_path'', JStr (ste_root_path site)), (''disk_used_bytes'', JNum (du_bytes e (ste_root_path site)))])"

section \<open>Proxies to the agent of the site\<close>

definition resolveSiteAndServer :: "http_context \<Rightarrow> (Site \<Rightarrow> Server \<Rightarrow> string \<Rightarrow> reply io) \<Rightarrow> reply io" where
  "resolveSiteAndServer c body =
     (case id_param c ''id'' of
        None \<Rightarrow> bad_request ''invalid site id''
      | Some i \<Rightarrow> do {
          site \<leftarrow> Sites_GetByID i;
          case found site of
            None \<Rightarrow> not_found ''site not found''
          | Some site \<Rightarrow> do {
              ok \<leftarrow> canAccess (cx_session c) site;
              if \<not> ok then not_found ''site not found''
              else do {
                server \<leftarrow> Servers_GetByID (ste_server site);
                case found server of
                  None \<Rightarrow> not_found ''server not found''
                | Some server \<Rightarrow>
                    let url = (case srv_agent_url server of Some u \<Rightarrow> u | None \<Rightarrow> [])
                    in if url = [] then bad_request ''agent URL not configured''
                       else if srv_agent_token server = [] then bad_request ''agent token not configured''
                       else body site server (trim_slashes url)
              }
            }
        })"

text \<open>The answer of the agent, passed on with its status.\<close>

definition forwarded :: "http_context \<Rightarrow> http_reply \<Rightarrow> reply io" where
  "forwarded c r = (case r of
     Unreachable _ \<Rightarrow> answer (HTTPError 502 ''agent unreachable'')
   | Answered status body \<Rightarrow> answer (JSON status (Success c (result_map body))))"

definition agent_get :: "panel_env \<Rightarrow> http_context \<Rightarrow> (Site \<Rightarrow> string) \<Rightarrow> reply io" where
  "agent_get e c path = resolveSiteAndServer c (\<lambda>site server url. do {
     r \<leftarrow> agentRequest e ''GET'' (url @ path site) (srv_agent_token server) None;
     forwarded c r
   })"

definition gitBranches :: "panel_env \<Rightarrow> handler" where
  "gitBranches e c = agent_get e c (\<lambda>site. ''/tasks/git/branches?root_path='' @ query_escape (ste_root_path site))"

definition gitLog :: "panel_env \<Rightarrow> string \<Rightarrow> handler" where
  "gitLog e lines c = agent_get e c (\<lambda>site. ''/tasks/git/log?root_path='' @ query_escape (ste_root_path site)
     @ ''&lines='' @ query_escape (or_default lines ''20''))"

text \<open>A body that is no object leaves a \<open>nil\<close> map, and the assignment to it panics.\<close>

definition agent_post :: "panel_env \<Rightarrow> http_context \<Rightarrow> string \<Rightarrow> jtext \<Rightarrow> reply io" where
  "agent_post e c path body = resolveSiteAndServer c (\<lambda>site server url.
     case body of
       Json (JObj fs) \<Rightarrow> do {
         r \<leftarrow> agentRequest e ''POST'' (url @ path) (srv_agent_token server)
           (Some (JObj ((''root_path'', JStr (ste_root_path site)) # filter (\<lambda>(k, _). k \<noteq> ''root_path'') fs)));
         forwarded c r
       }
     | _ \<Rightarrow> answer Crashed)"

definition gitRollback :: "panel_env \<Rightarrow> jtext \<Rightarrow> handler" where
  "gitRollback e body c = agent_post e c ''/tasks/git/rollback'' body"

definition gitCheckout :: "panel_env \<Rightarrow> jtext \<Rightarrow> handler" where
  "gitCheckout e body c = agent_post e c ''/tasks/git/checkout'' body"

section \<open>Resources of the process\<close>

text \<open>Neither of the two asks who may see the site.\<close>

definition with_agent :: "http_context \<Rightarrow> Site \<Rightarrow> (Server \<Rightarrow> string \<Rightarrow> reply io) \<Rightarrow> reply io" where
  "with_agent c site body = do {
     server \<leftarrow> Servers_GetByID (ste_server site);
     case found server of
       None \<Rightarrow> bad_request ''agent not configured''
     | Some server \<Rightarrow>
         (case srv_agent_url server of
            None \<Rightarrow> bad_request ''agent not configured''
          | Some url \<Rightarrow>
              if srv_agent_token server = [] then bad_request ''agent not configured''
              else body server (trim_slashes url))
   }"

definition any_site :: "http_context \<Rightarrow> (Site \<Rightarrow> reply io) \<Rightarrow> reply io" where
  "any_site c body =
     (case id_param c ''id'' of
        None \<Rightarrow> bad_request ''invalid site id''
      | Some i \<Rightarrow> do {
          site \<leftarrow> Sites_GetByID i;
          case found site of None \<Rightarrow> not_found ''site not found'' | Some site \<Rightarrow> body site
        })"

definition service_name :: "Site \<Rightarrow> string" where
  "service_name site = ''sigarda-app-'' @ itoa (ste_id site)"

text \<open>The last of the lines with the key, as a map filled line by line; missing keys are empty.\<close>

definition shown_property :: "string \<Rightarrow> string \<Rightarrow> string" where
  "shown_property output key =
     (case List.find (\<lambda>parts. length parts = 2 \<and> trim_space (hd parts) = key) (rev (map (split2 CHR ''='') (split_on CHR 0x0A output))) of
        Some parts \<Rightarrow> trim_space (parts ! 1) | None \<Rightarrow> [])"

definition appResourceUsage :: "panel_env \<Rightarrow> handler" where
  "appResourceUsage e c = any_site c (\<lambda>site. with_agent c site (\<lambda>server url. do {
     r \<leftarrow> agentRequest e ''POST'' (url @ ''/tasks/command/exec'') (srv_agent_token server) (Some (JObj [(''command'', JStr
       (''systemctl show '' @ service_name site @ '' --property=MemoryCurrent,MemoryMax,CPUUsageNSec,TaskCurrent,MainPID,ActiveState,SubState,RestartUSec,NRestarts''))]));
     case r of
       Unreachable _ \<Rightarrow> answer (HTTPError 502 ''agent unreachable'')
     | Answered _ body \<Rightarrow>
         let out = any_string (result_fields body) ''output''; show = (\<lambda>key. JStr (shown_property out key))
         in ok_answer c [(''site_id'', JNum (ste_id site)), (''domain'', JStr (ste_domain site)),
              (''service'', JStr (service_name site)), (''memory_current'', show ''MemoryCurrent''),
              (''memory_max'', show ''MemoryMax''), (''cpu_usage'', show ''CPUUsageNSec''),
              (''task_current'', show ''TaskCurrent''), (''main_pid'', show ''MainPID''),
              (''active_state'', show ''ActiveState''), (''sub_state'', show ''SubState''),
              (''restart_usec'', show ''RestartUSec''), (''n_restarts'', show ''NRestarts''),
              (''memory_limit'', JNum (case ste_app_memory_max site of Some n \<Rightarrow> n | None \<Rightarrow> 0))]
   }))"

text \<open>\<open>body\<close> is the limit in megabytes. The answer to the restart is not looked at.\<close>

definition appUpdateResourceLimits :: "panel_env \<Rightarrow> int option \<Rightarrow> handler" where
  "appUpdateResourceLimits e body c = any_site c (\<lambda>site.
     case body of
       None \<Rightarrow> bad_request ''invalid body''
     | Some limit \<Rightarrow>
         if limit \<le> 0 then bad_request ''memory_max is required (MB)''
         else do {
           r \<leftarrow> Sites_UpdateAppMemory (ste_id site) limit;
           case r of
             Inl _ \<Rightarrow> answer (HTTPError 500 ''update failed'')
           | Inr _ \<Rightarrow> with_agent c site (\<lambda>server url. do {
               _ \<leftarrow> agentRequest e ''POST'' (url @ ''/tasks/command/exec'') (srv_agent_token server)
                      (Some (JObj [(''command'', JStr (''systemctl restart '' @ service_name site))]));
               if cx_session c = None then answer Crashed
               else do {
                 _ \<leftarrow> RecordAction (actor c) ''site_update'' ''site'' (ste_id site) (Some (JObj [(''memory_max'', JNum limit)]));
                 ok_answer c [(''site_id'', JNum (ste_id site)), (''memory_max'', JNum limit),
                   (''message'', JStr (''Memory limit updated to '' @ itoa limit @ ''MB. Restarting app.''))]
               }
             })
         })"

end
