(* ===== verification/AppProcess.thy ===== *)
theory AppProcess
  imports SiteHandlers
begin

text \<open>
  \<open>internal/apihttp/app_process.go\<close>: the process of a site with an application runtime. The handlers check the
  port, set the status in the site's row and queue a job for the agent; \<open>pe_listen\<close> says which ports the system
  lets the panel bind.
\<close>

definition text_of :: "string option \<Rightarrow> string" where
  "text_of v = (case v of Some s \<Rightarrow> s | None \<Rightarrow> [])"

definition number_of :: "int option \<Rightarrow> int" where
  "number_of v = (case v of Some n \<Rightarrow> n | None \<Rightarrow> 0)"

definition appMemoryOrDefault :: "int \<Rightarrow> int \<Rightarrow> int" where
  "appMemoryOrDefault v fallback = (if v > 0 then v else fallback)"

definition getSiteForUser :: "http_context \<Rightarrow> (Site \<Rightarrow> reply io) \<Rightarrow> reply io" where
  "getSiteForUser c body =
     (let (i, ok) = atoi (cx_param c ''id'')
      in if \<not> ok then bad_request ''invalid site id''
         else do {
           site \<leftarrow> Sites_GetByID i;
           case found site of
             None \<Rightarrow> not_found ''site not found''
           | Some site \<Rightarrow> do {
               ok \<leftarrow> canAccess (cx_session c) site;
               if ok then body site else not_found ''site not found''
             }
         })"

definition with_app :: "http_context \<Rightarrow> (Site \<Rightarrow> reply io) \<Rightarrow> reply io" where
  "with_app c body = getSiteForUser c (\<lambda>site.
     if ste_runtime site = ''static'' \<or> ste_runtime site = ''php''
     then bad_request ''runtime does not support app process management'' else body site)"

text \<open>The first free port of a list; \<open>Inl\<close> when a look-up fails.\<close>

fun first_free :: "panel_env \<Rightarrow> int list \<Rightarrow> int option res io" where
  "first_free e [] = State_Monad.return (Inr None)"
| "first_free e (p # ps) = do {
     r \<leftarrow> Sites_CheckPortAvailable (pe_listen e) 0 p;
     case r of
       Inl err \<Rightarrow> State_Monad.return (Inl err)
     | Inr (avail, _) \<Rightarrow> if avail then State_Monad.return (Inr (Some p)) else first_free e ps
   }"

text \<open>\<open>findSuggestedPort\<close>, whose error the callers drop: \<open>0\<close> is no suggestion.\<close>

definition findSuggestedPort :: "panel_env \<Rightarrow> int \<Rightarrow> int io" where
  "findSuggestedPort e startPort =
     (let start = (if startPort < 30000 \<or> startPort > 40000 then 30000 else startPort)
      in do {
        r \<leftarrow> first_free e ([start + 1..40000] @ [30000..start - 1]);
        State_Monad.return (case r of Inr (Some p) \<Rightarrow> p | _ \<Rightarrow> 0)
      })"

definition port_conflict :: "panel_env \<Rightarrow> int \<Rightarrow> string \<Rightarrow> reply io" where
  "port_conflict e port reason = do {
     suggested \<leftarrow> findSuggestedPort e port;
     answer (HTTPError 409 (reason @ (if suggested > 0 then ''. Suggest using port '' @ itoa suggested @ '' instead'' else [])))
   }"

text \<open>The check of a port before it is used.\<close>

definition with_free_port :: "panel_env \<Rightarrow> Site \<Rightarrow> int \<Rightarrow> reply io \<Rightarrow> reply io" where
  "with_free_port e site port body = do {
     r \<leftarrow> Sites_CheckPortAvailable (pe_listen e) (ste_id site) port;
     case r of
       Inl _ \<Rightarrow> answer (HTTPError 500 ''port check failed'')
     | Inr (avail, reason) \<Rightarrow> if avail then body else port_conflict e port reason
   }"

definition app_payload :: "Site \<Rightarrow> string \<Rightarrow> jtext" where
  "app_payload site command = Json (JObj
     [(''site_id'', JNum (ste_id site)), (''domain'', JStr (ste_domain site)), (''root_path'', JStr (ste_root_path site)),
      (''system_user'', JStr (text_of (ste_system_user site))), (''app_port'', JNum (number_of (ste_app_port site))),
      (''app_command'', JStr command),
      (''app_memory_max'', JNum (appMemoryOrDefault (number_of (ste_app_memory_max site)) 512))])"

text \<open>The job and the answer of the three commands; the answer has no request id.\<close>

definition queue_app_job :: "panel_env \<Rightarrow> Site \<Rightarrow> string \<Rightarrow> string \<Rightarrow> jtext \<Rightarrow> string \<Rightarrow> reply io" where
  "queue_app_job e site ty description payload status = do {
     job \<leftarrow> Jobs_Create (pe_secrets e) ((site_job site ty description payload)\<lparr>new_status := []\<rparr>);
     case job of
       Inl _ \<Rightarrow> answer (HTTPError 500 ''failed to enqueue job'')
     | Inr jobID \<Rightarrow> answer (JSON 202 (JObj [(''data'', JObj
         [(''job_id'', JNum jobID), (''status'', JStr ''queued''), (''app_status'', JStr status)])]))
   }"

text \<open>\<open>command\<close> is the one of the body, which may be missing.\<close>

definition appStart :: "panel_env \<Rightarrow> string \<Rightarrow> handler" where
  "appStart e command c = with_app c (\<lambda>site.
     if number_of (ste_app_port site) = 0 then bad_request ''no app port configured; update app settings first''
     else with_free_port e site (number_of (ste_app_port site)) (do {
       let cmd = or_default command (text_of (ste_app_command site));
       _ \<leftarrow> (if command \<noteq> [] then Sites_UpdateAppConfig (ste_id site) (number_of (ste_app_port site)) cmd ''starting''
             else Sites_UpdateAppStatus (ste_id site) ''starting'');
       queue_app_job e site TypeAppStart (''Start app on '' @ ste_domain site) (app_payload site cmd) ''starting''
     }))"

definition appStop :: "panel_env \<Rightarrow> handler" where
  "appStop e c = with_app c (\<lambda>site. do {
     _ \<leftarrow> Sites_UpdateAppStatus (ste_id site) ''stopping'';
     queue_app_job e site TypeAppStop (''Stop app on '' @ ste_domain site)
       (Json (JObj [(''site_id'', JNum (ste_id site)), (''domain'', JStr (ste_domain site))])) ''stopping''
   })"

definition appRestart :: "panel_env \<Rightarrow> handler" where
  "appRestart e c = with_app c (\<lambda>site. with_free_port e site (number_of (ste_app_port site)) (do {
     _ \<leftarrow> Sites_UpdateAppStatus (ste_id site) ''restarting'';
     queue_app_job e site TypeAppRestart (''Restart app on '' @ ste_domain site)
       (app_payload site (text_of (ste_app_command site))) ''restarting''
   }))"

definition appStatus :: handler where
  "appStatus c = with_app c (\<lambda>site. answer (JSON 200 (JObj [(''data'', JObj
     [(''app_status'', JStr (text_of (ste_app_status site))), (''app_port'', JNum (number_of (ste_app_port site))),
      (''app_command'', JStr (text_of (ste_app_command site))),
      (''app_memory_max'', JNum (appMemoryOrDefault (number_of (ste_app_memory_max site)) 512))])])))"

record app_config_body =
  acb_command :: string
  acb_port :: int
  acb_memory_max :: int

definition store_app_config :: "panel_env \<Rightarrow> Site \<Rightarrow> app_config_body \<Rightarrow> int \<Rightarrow> reply io" where
  "store_app_config e site b port =
     (let cmd = or_default (acb_command b) (text_of (ste_app_command site));
          status = or_default (text_of (ste_app_status site)) ''stopped'';
          memMax = (if acb_memory_max b > 0 then acb_memory_max b else number_of (ste_app_memory_max site))
      in do {
        _ \<leftarrow> (if acb_memory_max b > 0 then Sites_UpdateAppMemory (ste_id site) memMax else State_Monad.return (Inr ()));
        r \<leftarrow> Sites_UpdateAppConfig (ste_id site) port cmd status;
        case r of
          Inl _ \<Rightarrow> answer (HTTPError 500 ''failed to update app config'')
        | Inr _ \<Rightarrow> do {
            _ \<leftarrow> (if port \<noteq> number_of (ste_app_port site) \<and> port > 0
                  then Jobs_Create (pe_secrets e) ((site_job site TypeSiteCreate [] (Json (JObj
                    [(''site_id'', JNum (ste_id site)), (''name'', JStr (ste_name site)), (''domain'', JStr (ste_domain site)),
                     (''runtime'', JStr (ste_runtime site)), (''root_path'', JStr (ste_root_path site)),
                     (''port'', JNum port)])))\<lparr>new_status := []\<rparr>)
                  else State_Monad.return (Inr 0));
            answer (JSON 200 (JObj [(''data'', JObj [(''app_port'', JNum port), (''app_command'', JStr cmd),
              (''app_status'', JStr status), (''app_memory_max'', JNum memMax)])]))
          }
      })"

definition appUpdateConfig :: "panel_env \<Rightarrow> app_config_body option \<Rightarrow> handler" where
  "appUpdateConfig e body c = with_app c (\<lambda>site.
     case body of
       None \<Rightarrow> bad_request ''invalid body''
     | Some b \<Rightarrow>
         if acb_port b > 0 then with_free_port e site (acb_port b) (store_app_config e site b (acb_port b))
         else store_app_config e site b (number_of (ste_app_port site)))"

end
