(* ===== verification/SiteProps.thy ===== *)
theory SiteProps
  imports DatabaseProps AppProcess
begin

text \<open>
  What the handlers of sites promise, and where they do not: who is turned away, where a site may be placed,
  and three requests that never do what they are for.
\<close>

section \<open>Strangers to a site\<close>

text \<open>The caller does not own the site, is not assigned to it and is no super administrator.\<close>

definition outsider :: "http_context \<Rightarrow> int \<Rightarrow> world \<Rightarrow> bool" where
  "outsider c i w \<longleftrightarrow>
     (case cx_session c of None \<Rightarrow> True
      | Some sess \<Rightarrow> (case by_id usr_id (ses_user sess) (w_users w) of None \<Rightarrow> True
        | Some u \<Rightarrow> usr_role u \<noteq> RoleSuperAdmin
            \<and> \<not> has_row (\<lambda>r. uss_user r = ses_user sess \<and> uss_site r = i) (w_user_sites w)
            \<and> (case by_id ste_id i (w_sites w) of None \<Rightarrow> True | Some s \<Rightarrow> ste_owner s \<noteq> Some (ses_user sess))))"

lemma outsider_refused:
  assumes "outsider c i w" and "by_id ste_id i (w_sites w) = Some site" and "\<And>r. turned_away w (f False)"
  shows "turned_away w (State_Monad.bind (canAccess (cx_session c) site) f)"
    and "turned_away w (State_Monad.bind (checkSitePermission (cx_session c) site required) f)"
proof -
  from by_id_Some [OF assms(2)] have i: "ste_id site = i" by simp
  have none: "find_row (\<lambda>r. uss_user r = ses_user sess \<and> uss_site r = i) (w_user_sites w) = None"
    if "cx_session c = Some sess" "by_id usr_id (ses_user sess) (w_users w) = Some u" for sess u
    using assms(1) that by (auto simp: outsider_def has_row_iff find_row_None)
  show "turned_away w (State_Monad.bind (canAccess (cx_session c) site) f)"
    using assms i
    by (auto simp: canAccess_def outsider_def UserSites_HasAccess_def Users_GetByID_def bind_assoc
        intro!: turned_query split: option.splits)
  show "turned_away w (State_Monad.bind (checkSitePermission (cx_session c) site required) f)"
    using assms i none
    by (auto simp: checkSitePermission_def outsider_def UserSites_GetPermission_def Users_GetByID_def bind_assoc
        intro!: turned_query split: option.splits)
qed

lemma turned_with_site [simp]:
  assumes "outsider c (any_id c ''id'') w"
  shows "turned_away w (with_site msg c (accessible c) body)"
    and "turned_away w (with_site msg c (permitted c required) body)"
  unfolding with_site_def Sites_GetByID_def accessible_def permitted_def
  by (auto intro!: turned_id_param turned_query outsider_refused [OF assms] simp: id_param_any split: option.splits)

lemma turned_resolve [simp]:
  assumes "outsider c (any_id c ''id'') w"
  shows "turned_away w (resolveSiteAndServer c body)"
  unfolding resolveSiteAndServer_def Sites_GetByID_def
  by (auto intro!: turned_id_param turned_query outsider_refused [OF assms] simp: found_def id_param_any split: option.splits)

lemma turned_with_app [simp]:
  assumes "outsider c (any_id c ''id'') w"
  shows "turned_away w (with_app c body)"
  unfolding with_app_def getSiteForUser_def Sites_GetByID_def
  by (auto intro!: turned_query outsider_refused [OF assms] simp: found_def any_id_def split: option.splits prod.splits)

text \<open>The routes below \<open>/sites/:id\<close> of \<open>sites.go\<close> and \<open>app_process.go\<close> that ask who is calling.\<close>

definition site_routes ::
  "panel_env \<Rightarrow> string option \<Rightarrow> site_config_body option \<Rightarrow> string \<Rightarrow> jtext \<Rightarrow> string \<Rightarrow> app_config_body option \<Rightarrow> handler list" where
  "site_routes e token config lines body command app =
     [site_get, site_delete e, site_deploy e, site_updateConfig token config, reloadNginx e, site_usage e,
      gitBranches e, gitLog e lines, gitRollback e body, gitCheckout e body,
      appStart e command, appStop e, appRestart e, appStatus, appUpdateConfig e app]"


lemma eve_is_outsider: "outsider (request_of 3) 1 (tenants ''mysql'')"
  by code_simp


section \<open>Where a site may be placed\<close>

text \<open>Requests to other machines and new jobs: an invariant that does not speak of them survives them.\<close>

locale panel_frame = notice_frame +
  assumes calls: "I (w\<lparr>w_calls := cs\<rparr>) = I w"
    and jobs: "I (w_jobs_update j w) = I w"
begin

lemma keep_net_call [simp]: "preserves I (net_call e call)"
  by (simp add: preserves_def net_call_def calls)

lemma keep_cf_call [simp]: "preserves I (cf_call e token asked label m path body)"
  unfolding cf_call_def cf_request_def agentRequest_def by (intro keep_rules) simp_all

lemma keep_zone_pages: "preserves I (zone_pages e token acc n)"
proof (induction e token acc n rule: zone_pages.induct)
  case (1 e token acc n)
  then show ?case
    by (subst zone_pages.simps) (auto intro!: keep_bind split: sum.splits option.splits)
qed

lemma keep_cloudflare [simp]:
  "preserves I (ListZones e token)" "preserves I (CreateDNSRecord e token z j)"
  "preserves I (ListDNSRecords e token z ty)" "preserves I (DeleteDNSRecord e token z r)"
  by (simp_all add: ListZones_def CreateDNSRecord_def ListDNSRecords_def DeleteDNSRecord_def keep_bind keep_zone_pages)

lemma keep_provision_dns [simp]: "preserves I (provision_dns e u server domain)"
  unfolding provision_dns_def Cloudflare_GetConfig_def by (intro keep_rules) simp_all

lemma keep_withdraw_dns [simp]: "preserves I (withdraw_dns e u domain)"
  unfolding withdraw_dns_def Cloudflare_GetConfig_def by (intro keep_rules) simp_all

lemma keep_Jobs_Create [simp]: "preserves I (Jobs_Create k j)"
  unfolding Jobs_Create_def Let_def by (rule keep_insert_row) (simp add: jobs)

end

interpretation site_rows: panel_frame "\<lambda>w. w_sites w = T" for T
  by unfold_locales simp_all

text \<open>Run from \<open>w\<close> with the verdicts \<open>fs\<close>, \<open>m\<close> leaves the sites alone or adds one row that fulfils \<open>P\<close>.\<close>

definition creates :: "(Site \<Rightarrow> bool) \<Rightarrow> world \<Rightarrow> bool list \<Rightarrow> 'a io \<Rightarrow> bool" where
  "creates P w fs m \<longleftrightarrow>
     (let w' = snd (run_state m (w\<lparr>w_faults := fs\<rparr>))
      in w_sites w' = w_sites w \<or> (\<exists>mk. w_sites w' = append_row mk (w_sites w) \<and> (\<forall>i. P (mk i))))"

lemma creates_nothing:
  assumes "\<And>T. preserves (\<lambda>w. w_sites w = T) m"
  shows "creates P w fs m"
  using preservesD [OF assms, of "w\<lparr>w_faults := fs\<rparr>" "w_sites w"] by (simp add: creates_def Let_def)

lemma creates_refusals [simp]:
  "creates P w fs (answer r)" "creates P w fs (bad_request msg)" "creates P w fs internal_error"
  by (rule creates_nothing; simp)+

lemma creates_query:
  assumes "\<And>fs'. (fs = [] \<Longrightarrow> fs' = []) \<Longrightarrow> creates P w fs' (f (Inr (q (w\<lparr>w_faults := fs'\<rparr>))))"
    and "\<And>fs' err. fs \<noteq> [] \<Longrightarrow> creates P w fs' (f (Inl err))"
  shows "creates P w fs (State_Monad.bind (query l q) f)"
proof (cases "fs = []")
  case True
  with assms(1) [of "[]"] show ?thesis by (simp add: creates_def)
next
  case False
  show ?thesis
  proof (cases rule: query_cases [of l q "w\<lparr>w_faults := fs\<rparr>"])
    case (failed fs')
    with assms(2) [OF False, of fs'] show ?thesis by (simp add: creates_def)
  next
    case (ran fs')
    with assms(1) [of fs'] False show ?thesis by (simp add: creates_def)
  qed
qed


definition stored_as :: "Site \<Rightarrow> Site \<Rightarrow> bool" where
  "stored_as site s \<longleftrightarrow> ste_owner s = ste_owner site \<and> ste_domain s = ste_domain site
     \<and> ste_system_user s = ste_system_user site \<and> ste_conf_file s = ste_conf_file site
     \<and> (ste_root_path site \<noteq> [] \<longrightarrow> ste_root_path s = ste_root_path site)"

lemma creates_insert:
  assumes "\<And>v i. P (mk v i)"
  shows "creates P w fs (insert_row l w_sites w_sites_update ok mk)"
proof (cases fs)
  case Nil
  show ?thesis unfolding creates_def Let_def insert_row_def stmt_def Nil
    using assms by (simp, intro impI disjI2 exI [of _ "mk (w\<lparr>w_faults := []\<rparr>)"], simp)
next
  case (Cons b fs')
  show ?thesis unfolding creates_def Let_def insert_row_def stmt_def Cons
    using assms by (simp, intro impI disjI2 exI [of _ "mk (w\<lparr>w_faults := fs'\<rparr>)"], simp)
qed

lemma creates_Sites_Create: "creates (stored_as site) w fs (Sites_Create site)"
  unfolding Sites_Create_def Let_def by (rule creates_insert) (simp add: stored_as_def)

lemma creates_then:
  assumes "creates Q w fs m" and "\<And>x T. preserves (\<lambda>w. w_sites w = T) (f x)" and "\<And>s. Q s \<Longrightarrow> P s"
  shows "creates P w fs (State_Monad.bind m f)"
proof -
  obtain x w' where run: "run_state m (w\<lparr>w_faults := fs\<rparr>) = (x, w')" by fastforce
  with preservesD [OF assms(2), of w' "w_sites w'" x] assms(1,3) show ?thesis
    by (auto simp: creates_def Let_def)
qed

lemma creates_store_site:
  assumes row: "\<And>s. ste_owner s = (if actor c > 0 then Some (actor c) else None) \<Longrightarrow> ste_root_path s = stb_root_path b \<Longrightarrow>
      ste_domain s = stb_domain b \<Longrightarrow> ste_system_user s = null_str (stb_system_user b) \<Longrightarrow>
      ste_conf_file s = null_str (stb_conf_file b) \<Longrightarrow> P s"
    and root: "stb_root_path b \<noteq> []"
  shows "creates P w fs (store_site e c server b port command)"
  unfolding store_site_def Let_def
proof (rule creates_then [OF creates_Sites_Create])
  show "P s" if "stored_as (new_site (actor c) b port command) s" for s
    using that root by (intro row) (auto simp: stored_as_def new_site_def)
qed (intro site_rows.keep_rules; simp)

text \<open>
  What a new row of a customer holds: it is his, its root directory is below his home directory and allowed, and it
  runs as him or as nobody. The domain is new. With \<open>clean = False\<close>, when statements may fail, the root directory is
  only known to be below \<open>/home/\<close>.
\<close>

definition confined :: "bool \<Rightarrow> world \<Rightarrow> User \<Rightarrow> Site \<Rightarrow> bool" where
  "confined clean w u s \<longleftrightarrow> ste_owner s = Some (usr_id u) \<and> RootPathAllowed (ste_root_path s) = nil
     \<and> has_prefix (ste_root_path s) (if clean then ''/home/'' @ usr_username u @ ''/'' else ''/home/'')
     \<and> (ste_system_user s = None \<or> ste_system_user s = Some (usr_username u)) \<and> ste_conf_file s = None
     \<and> \<not> has_row (\<lambda>r. ste_domain r = ste_domain s) (w_sites w)"

lemma creates_find_port:
  "(\<And>r fs'. creates P w fs' (f r)) \<Longrightarrow> creates P w fs (State_Monad.bind (Sites_FindFreePort listen low high) f)"
  unfolding Sites_FindFreePort_def by (simp add: bind_assoc) (rule creates_query; simp split: option.splits)

lemma creates_finish:
  assumes "\<And>s. ste_owner s = (if actor c > 0 then Some (actor c) else None) \<Longrightarrow> ste_root_path s = stb_root_path b \<Longrightarrow>
      ste_system_user s = null_str (stb_system_user b) \<Longrightarrow> ste_conf_file s = null_str (stb_conf_file b) \<Longrightarrow>
      \<not> has_row (\<lambda>r. ste_domain r = ste_domain s) (w_sites w) \<Longrightarrow> P s"
    and "stb_root_path b \<noteq> []"
  shows "creates P w fs (finish_create e c b)"
proof -
  have row: "creates P w fs (store_site e c server b port command)"
    if "\<not> has_row (\<lambda>r. ste_domain r = stb_domain b) (w_sites w)" for server port command fs
  proof (rule creates_store_site)
    fix s :: Site
    assume "ste_owner s = (if actor c > 0 then Some (actor c) else None)" "ste_root_path s = stb_root_path b"
      "ste_domain s = stb_domain b" "ste_system_user s = null_str (stb_system_user b)"
      "ste_conf_file s = null_str (stb_conf_file b)"
    with that show "P s" by (intro assms(1)) simp_all
  qed (rule assms(2))
  have store: "creates P w fs (State_Monad.bind (app_of_runtime e b)
      (\<lambda>app. case app of Inl r \<Rightarrow> answer r | Inr (port, command) \<Rightarrow> store_site e c server b port command))"
    if "\<not> has_row (\<lambda>r. ste_domain r = stb_domain b) (w_sites w)" for server fs
    unfolding app_of_runtime_def
    by (auto simp: bind_assoc intro!: creates_find_port row [OF that] split: sum.splits)
  have domain: "creates P w fs (State_Monad.bind (Sites_GetByDomain (stb_domain b)) (\<lambda>existing. case existing of
      Inl _ \<Rightarrow> internal_error | Inr (Some _) \<Rightarrow> answer (HTTPError 409 ''domain already exists'')
    | Inr None \<Rightarrow> State_Monad.bind (app_of_runtime e b)
        (\<lambda>app. case app of Inl r \<Rightarrow> answer r | Inr (port, command) \<Rightarrow> store_site e c server b port command)))" for server fs
    unfolding Sites_GetByDomain_def
    by (rule creates_query) (auto intro!: store simp: find_row_None has_row_iff split: option.splits)
  show ?thesis
    unfolding finish_create_def Servers_GetByID_def site_quota_def Users_GetByID_def Sites_CountByOwner_def
    by (auto simp: bind_assoc intro!: creates_query domain split: option.splits)
qed

lemma creates_requester:
  assumes "actor c > 0" "by_id usr_id (actor c) (w_users w) = Some u"
    and "\<And>fs'. (fs = [] \<Longrightarrow> fs' = []) \<Longrightarrow> creates P w fs' (f (Some u))"
    and "\<And>fs'. fs \<noteq> [] \<Longrightarrow> creates P w fs' (f None)"
  shows "creates P w fs (State_Monad.bind (requester c) f)"
  using assms unfolding requester_def Users_GetByID_def by (auto simp: bind_assoc found_def intro!: creates_query)

lemma place_site_confines:
  assumes "place_site r b = Inr b'" and "r = Some u \<and> \<not> HasRole (usr_role u) RoleAdmin \<or> r = None"
  shows "stb_root_path b' = stb_root_path b" "stb_domain b' = stb_domain b" "stb_conf_file b' = []"
    "stb_system_user b' = [] \<or> stb_system_user b' = usr_username u"
    "has_prefix (stb_root_path b) ''/home/''"
    "r \<noteq> None \<Longrightarrow> has_prefix (stb_root_path b) (''/home/'' @ usr_username u @ ''/'')"
  using assms by (auto simp: place_site_def has_prefix_conv split: if_splits)

lemma allowed_not_empty: "RootPathAllowed s = nil \<Longrightarrow> s \<noteq> []"
proof -
  have "RootPathAllowed [] \<noteq> nil" by code_simp
  then show "RootPathAllowed s = nil \<Longrightarrow> s \<noteq> []" by metis
qed


definition new_shop :: site_body where
  "new_shop = \<lparr>stb_server = 1, stb_name = ''bob'', stb_domain = ''bob.test'', stb_runtime = ''static'', stb_root_path = [],
     stb_managed_by = [], stb_system_user = ''root'', stb_conf_file = ''x'', stb_proxy_pass_url = [], stb_php_version = [],
     stb_docker_image = [], stb_docker_language = [], stb_docker_name = [], stb_docker_ports = [], stb_docker_env = [],
     stb_docker_volume = [], stb_docker_restart = []\<rparr>"


text \<open>The row that the request of the witness makes: the account and the file of the body are ignored.\<close>

lemma new_shop_row:
  "map (\<lambda>s. (ste_domain s, ste_root_path s, ste_system_user s, ste_conf_file s))
     (rows (w_sites (snd (run_state (site_create tenant_env (Some new_shop) (request_of 2)) (tenants ''mysql'')))))
   = [(''shop.test'', ''/home/ann/shop'', None, None), (''bob.test'', ''/home/bob/htdocs/bob.test'', Some ''bob'', None)]"
  by code_simp

section \<open>Requests that never do what they are for\<close>

definition refuses :: "reply io \<Rightarrow> bool" where
  "refuses m \<longleftrightarrow> (\<forall>w. refusal (fst (run_state m w)) \<and> w_sites (snd (run_state m w)) = w_sites w)"

lemma refuses_answer [simp]: "refuses (answer (HTTPError n msg))" "refuses (answer Crashed)"
  by (simp_all add: refuses_def answer_def refusal_def)

lemma refuses_bind:
  assumes "\<And>T. preserves (\<lambda>w. w_sites w = T) m" and "\<And>x. refuses (f x)"
  shows "refuses (State_Monad.bind m f)"
  unfolding refuses_def
proof
  fix w
  obtain x w' where "run_state m w = (x, w')" by fastforce
  with preservesD [OF assms(1), of w "w_sites w"] assms(2)
  show "refusal (fst (run_state (State_Monad.bind m f) w)) \<and> w_sites (snd (run_state (State_Monad.bind m f) w)) = w_sites w"
    by (simp add: refuses_def)
qed

text \<open>A site can not be transferred. The route of \<open>transfer\<close> has the middleware \<open>RequireAuth\<close> alone, which does not set
  the role that the handler reads with a type assertion: whoever asks, the owner and the super administrator
  included, the request is refused or the handler panics, and no site changes.\<close>

theorem transfer_never_answers:
  assumes "cx_role c = None"
  shows "refusal (fst (run_state (RequireAuth al (site_transfer body) c) w))
    \<and> w_sites (snd (run_state (RequireAuth al (site_transfer body) c) w)) = w_sites w"
proof -
  have "refuses (RequireAuth al (site_transfer body) c)"
    unfolding RequireAuth_def Let_def Tokens_UpdateLastUsed_def
    by (auto intro!: refuses_bind site_rows.keep_exec simp: site_transfer_def assms split: sum.splits option.splits)
  then show ?thesis by (simp add: refuses_def)
qed

lemma transfer_never_answers_witness:
  "refusal (fst (run_state (RequireAuth demo_auth (site_transfer (Some ''bob@x.org'')) (request_of 1\<lparr>cx_role := None\<rparr>)) (tenants ''mysql'')))
    \<and> w_sites (snd (run_state (RequireAuth demo_auth (site_transfer (Some ''bob@x.org'')) (request_of 1\<lparr>cx_role := None\<rparr>)) (tenants ''mysql'')))
        = w_sites (tenants ''mysql'')"
  by (rule transfer_never_answers) simp

text \<open>Unless \<open>m\<close> refuses, the state after it fulfils \<open>Q\<close>.\<close>

definition answers_with :: "(world \<Rightarrow> bool) \<Rightarrow> reply io \<Rightarrow> bool" where
  "answers_with Q m \<longleftrightarrow> (\<forall>w. refusal (fst (run_state m w)) \<or> Q (snd (run_state m w)))"

lemma answers_with_refusals [simp]:
  "answers_with Q (answer (HTTPError n msg))" "answers_with Q (answer Crashed)" "answers_with Q (bad_request msg)"
  "answers_with Q internal_error" "answers_with Q (not_found msg)"
  by (simp_all add: answers_with_def answer_def bad_request_def internal_error_def not_found_def refusal_def)

lemma answers_with_bind: "(\<And>x. answers_with Q (f x)) \<Longrightarrow> answers_with Q (State_Monad.bind m f)"
  by (simp add: answers_with_def split: prod.splits)

text \<open>No row is left that refers to the site.\<close>

definition forgotten :: "int \<Rightarrow> world \<Rightarrow> bool" where
  "forgotten i w \<longleftrightarrow> by_id ste_id i (w_sites w) = None \<and> \<not> has_row (\<lambda>j. job_site j = Some i) (w_jobs w)
     \<and> \<not> has_row (\<lambda>d. dtb_site d = i) (w_databases w) \<and> \<not> has_row (\<lambda>b. bkp_site b = i) (w_backups w)
     \<and> \<not> has_row (\<lambda>r. uss_site r = i) (w_user_sites w)"

lemma drop_sites_forgets: "forgotten i (drop_sites [i] w)"
  by (auto simp: forgotten_def drop_sites_def drop_databases_def drop_jobs_def Let_def has_row_iff by_id_None)

lemma transaction_cases:
  obtains err w' where "run_state (transaction ls l f) w = (Inl err, w')"
  | fs where "run_state (transaction ls l f) w = (Inr (), f (w\<lparr>w_faults := fs\<rparr>))"
proof (induction ls arbitrary: w thesis)
  case Nil
  then show ?case by (cases rule: exec_cases [of l f w]) auto
next
  case (Cons a ls)
  show ?case
  proof (cases rule: exec_cases [of a "\<lambda>w. w" w])
    case (failed fs)
    then show ?thesis by (intro Cons.prems(1)) simp
  next
    case (ran fs)
    then have run: "run_state (transaction (a # ls) l f) w = run_state (transaction ls l f) (w\<lparr>w_faults := fs\<rparr>)" by simp
    show ?thesis
      by (rule Cons.IH [of "w\<lparr>w_faults := fs\<rparr>"]) (use run Cons.prems in \<open>auto\<close>)
  qed
qed

interpretation forgets: guard_frame "forgotten i" for i
  by unfold_locales (simp_all add: forgotten_def)

lemma answers_forgotten:
  assumes "\<And>x. preserves (forgotten i) (f x)"
  shows "answers_with (forgotten i) (State_Monad.bind (Sites_Delete i) (\<lambda>r. case r of Inl _ \<Rightarrow> internal_error | Inr x \<Rightarrow> f x))"
  unfolding answers_with_def Sites_Delete_def
proof
  fix w
  let ?f = "\<lambda>w. drop_sites [i] (w\<lparr>w_audit := forget_site_audit i (w_audit w)\<rparr>)"
  show "refusal (fst (run_state (State_Monad.bind (transaction ls l ?f) (\<lambda>r. case r of Inl _ \<Rightarrow> internal_error | Inr x \<Rightarrow> f x)) w))
    \<or> forgotten i (snd (run_state (State_Monad.bind (transaction ls l ?f) (\<lambda>r. case r of Inl _ \<Rightarrow> internal_error | Inr x \<Rightarrow> f x)) w))"
    for ls l
  proof (cases rule: transaction_cases [of ls l ?f w])
    case (1 err w')
    then show ?thesis by (simp add: internal_error_def answer_def refusal_def)
  next
    case (2 fs)
    with preservesD [OF assms drop_sites_forgets] show ?thesis by simp
  qed
qed



text \<open>The job that the answer names, and the jobs that are left.\<close>

lemma deleted_shop:
  "fst (run_state (site_delete tenant_env (request_of 1)) (tenants ''mysql''))
     = JSON 200 (Success (request_of 1) (JObj [(''site_id'', JNum 1), (''job_id'', JNum 2)]))
   \<and> w_jobs (snd (run_state (site_delete tenant_env (request_of 1)) (tenants ''mysql''))) = \<lparr>rows = [], seqno = 2\<rparr>"
  by code_simp

text \<open>
  A request with a service token is a session of user 0, and an owner filter of 0 is none: such a token is shown the
  sites of everybody, whatever its scopes.
\<close>

definition token_request :: http_context where
  "token_request = (request_of 1)\<lparr>cx_user := 0, cx_scopes := [], cx_session := Some (service_session
     \<lparr>stk_id = 9, stk_name = ''ci'', stk_key_hash = [], stk_scopes = [], stk_created_at = 0, stk_expires_at = None,
      stk_last_used_at = None\<rparr>)\<rparr>"

definition whole_list :: site_query where
  "whole_list = \<lparr>siq_server = None, siq_owner = None, siq_runtime = [], siq_status = [], siq_search = [], siq_limit = None,
     siq_offset = None\<rparr>"

lemma service_token_lists_all:
  "fst (run_state (site_list whole_list token_request) (tenants ''mysql'')) = JSON 200 (Success token_request (JObj
     [(''sites'', JArr [siteToMap shop_site]), (''count'', JNum 1), (''total_count'', JNum 1)]))"
  by code_simp

text \<open>
  A running application can not be restarted by its route: the port it listens on is not free, and \<open>appRestart\<close> asks
  for a free port before it queues the job. Nothing changes.
\<close>

lemma run_CheckPort:
  assumes "w_faults w = []"
  shows "\<exists>r. run_state (Sites_CheckPortAvailable listen i port) w = (Inr r, w) \<and> (\<not> listen port \<longrightarrow> \<not> fst r)"
  using assms by (auto simp: Sites_CheckPortAvailable_def Let_def split: option.splits)

lemma run_first_free: "w_faults w = [] \<Longrightarrow> \<exists>r. run_state (first_free e ps) w = (r, w)"
proof (induction ps)
  case (Cons p ps)
  obtain r where "run_state (Sites_CheckPortAvailable (pe_listen e) 0 p) w = (Inr r, w)"
    using run_CheckPort [OF Cons.prems] by blast
  with Cons show ?case by (cases r) auto
qed simp

lemma running_app_not_restarted:
  assumes nofault: "w_faults w = []"
    and site: "atoi (cx_param c ''id'') = (i, True)" "by_id ste_id i (w_sites w) = Some site"
    and owner: "cx_session c = Some sess" "ste_owner site = Some (ses_user sess)" "by_id usr_id (ses_user sess) (w_users w) = Some u"
    and app: "ste_runtime site \<noteq> ''static''" "ste_runtime site \<noteq> ''php''" "\<not> pe_listen e (number_of (ste_app_port site))"
  shows "\<exists>msg. run_state (appRestart e c) w = (HTTPError 409 msg, w)"
proof -
  obtain reason where check: "run_state (Sites_CheckPortAvailable (pe_listen e) (ste_id site) (number_of (ste_app_port site))) w
      = (Inr (False, reason), w)"
    using run_CheckPort [OF nofault, of "pe_listen e" "ste_id site" "number_of (ste_app_port site)"] app(3) by auto
  obtain r where free: "run_state (first_free e ps) w = (r ps, w)" for ps
    using run_first_free [OF nofault] by metis
  have "run_state (appRestart e c) w = run_state (port_conflict e (number_of (ste_app_port site)) reason) w"
    using assms check
    by (simp add: appRestart_def with_app_def getSiteForUser_def Sites_GetByID_def found_def canAccess_def Users_GetByID_def
        with_free_port_def)
  then show ?thesis
    by (simp add: port_conflict_def findSuggestedPort_def Let_def free answer_def del: upto_rec_numeral)
qed

end
