(* ===== verification/Vhost.thy ===== *)
theory Vhost
  imports SiteInput World
begin

text \<open>
  \<open>internal/nginx/template.go\<close>: the nginx configuration of a site. The templates are the node lists that
  \<open>text/template\<close> parses them to (text, action, if and range nodes), and \<open>execute\<close> is its executor for the
  constructs they use. What \<open>os.Stat\<close> finds and whether the password file can be written are arguments;
  the file that is written is part of the result. The four templates for sites behind a certificate, which
  no code uses, and the starter files of \<open>TemplateForRuntime\<close> are not modelled.

  Shown is what the template promises: no value of a site that passes \<open>validateSiteForVhost\<close> adds a byte
  with a meaning to the configuration; and what it misses: blocked addresses are copied without any check.
\<close>

section \<open>Templates\<close>

record SiteConfig =
  sc_domain :: string
  sc_root_path :: string
  sc_runtime :: string
  sc_port :: int
  sc_proxy_pass_url :: string
  sc_php_fpm_pass :: string
  sc_php_ini_directives :: string
  sc_marker_begin :: string
  sc_marker_end :: string
  sc_basic_auth_enabled :: bool
  sc_basic_auth_username :: string
  sc_basic_auth_password_path :: string
  sc_blocked_ips :: "string list"

datatype gvalue = VStr string | VInt int | VBool bool | VList "string list" | VStruct SiteConfig

datatype node_ref = Dot | Field string

datatype node =
    TextNode string
  | ActionNode node_ref
  | IfNode node_ref "node list"
  | RangeNode node_ref "node list"

definition fields :: "SiteConfig \<Rightarrow> (string \<times> gvalue) list" where
  "fields c =
     [(''Domain'', VStr (sc_domain c)), (''RootPath'', VStr (sc_root_path c)), (''Runtime'', VStr (sc_runtime c)),
      (''Port'', VInt (sc_port c)), (''ProxyPassURL'', VStr (sc_proxy_pass_url c)),
      (''PHPFpmPass'', VStr (sc_php_fpm_pass c)), (''PHPIniDirectives'', VStr (sc_php_ini_directives c)),
      (''MarkerBegin'', VStr (sc_marker_begin c)), (''MarkerEnd'', VStr (sc_marker_end c)),
      (''BasicAuthEnabled'', VBool (sc_basic_auth_enabled c)), (''BasicAuthUsername'', VStr (sc_basic_auth_username c)),
      (''BasicAuthPasswordPath'', VStr (sc_basic_auth_password_path c)), (''BlockedIPs'', VList (sc_blocked_ips c))]"

fun eval_ref :: "gvalue \<Rightarrow> node_ref \<Rightarrow> gvalue option" where
  "eval_ref d Dot = Some d"
| "eval_ref (VStruct c) (Field n) = map_of (fields c) n"
| "eval_ref d (Field n) = None"

text \<open>The text an action prints; the templates print strings and integers only.\<close>

fun print_value :: "gvalue \<Rightarrow> string option" where
  "print_value (VStr s) = Some s"
| "print_value (VInt i) = Some (itoa i)"
| "print_value v = None"

fun truth :: "gvalue \<Rightarrow> bool" where
  "truth (VStr s) = (s \<noteq> [])"
| "truth (VInt i) = (i \<noteq> 0)"
| "truth (VBool b) = b"
| "truth (VList xs) = (xs \<noteq> [])"
| "truth (VStruct c) = True"

text \<open>\<open>Execute\<close> with the dot as its first argument, \<open>None\<close> for an error.\<close>

fun execute_node :: "gvalue \<Rightarrow> node \<Rightarrow> string option" and execute :: "gvalue \<Rightarrow> node list \<Rightarrow> string option" where
  "execute_node d (TextNode s) = Some s"
| "execute_node d (ActionNode r) = Option.bind (eval_ref d r) print_value"
| "execute_node d (IfNode r body) =
     (case eval_ref d r of None \<Rightarrow> None | Some v \<Rightarrow> if truth v then execute d body else Some [])"
| "execute_node d (RangeNode r body) =
     (case eval_ref d r of
        Some (VList xs) \<Rightarrow> map_option concat (all_some (map (\<lambda>x. execute (VStr x) body) xs))
      | _ \<Rightarrow> None)"
| "execute d [] = Some []"
| "execute d (n # ns) = (case execute_node d n of None \<Rightarrow> None | Some out \<Rightarrow> map_option ((@) out) (execute d ns))"

text \<open>Lines of text, joined by newlines.\<close>

definition lines :: "string list \<Rightarrow> string" where
  "lines ls = join_on CHR 0x0A ls"

definition markerBegin :: string where
  "markerBegin = ''# BEGIN SIGARDAPANEL MANAGED BLOCK - DO NOT EDIT''"

definition markerEnd :: string where
  "markerEnd = ''# END SIGARDAPANEL MANAGED BLOCK''"

definition staticTemplate :: "node list" where
  "staticTemplate =
     [TextNode (lines [''server {'', ''    listen 80;'', ''    listen [::]:80;'', ''    listen 443 ssl http2;'',
         ''    listen [::]:443 ssl http2;'', ''    server_name '']),
      ActionNode (Field ''Domain''),
      TextNode (lines ['';'', ''    client_max_body_size 100M;'', [],
         ''    ssl_certificate /etc/nginx/ssl/sigardapanel.crt;'',
         ''    ssl_certificate_key /etc/nginx/ssl/sigardapanel.key;'',
         ''    ssl_protocols TLSv1.2 TLSv1.3;'', ''    ssl_ciphers HIGH:!aNULL:!MD5;'', [],
         ''    # ACME challenge for Let'' @ [CHR 0x27] @ ''s Encrypt (future use)'',
         ''    location /.well-known/acme-challenge/ {'', ''        root /var/www/certbot/'']),
      ActionNode (Field ''Domain''),
      TextNode (lines ['';'', ''    }'', [], ''    root '']),
      ActionNode (Field ''RootPath''),
      TextNode (lines ['';'', ''    index index.html;'', [], ''    # SigardaPanel marker'', ''    '']),
      ActionNode (Field ''MarkerBegin''),
      TextNode (lines [[], ''    access_log /var/log/nginx/'']),
      ActionNode (Field ''Domain''),
      TextNode (lines [''.access.log;'', ''    error_log /var/log/nginx/'']),
      ActionNode (Field ''Domain''),
      TextNode (lines [''.error.log;'', ''    '']),
      ActionNode (Field ''MarkerEnd''),
      TextNode (lines [[], []]),
      IfNode (Field ''BasicAuthEnabled'')
          [TextNode (lines [[], ''    auth_basic '' @ [CHR 0x22] @ ''Restricted'' @ [CHR 0x22] @ '';'',
         ''    auth_basic_user_file '']),
           ActionNode (Field ''BasicAuthPasswordPath''),
           TextNode (lines ['';'', []])],
      TextNode (lines [[], [], ''    location / {'', []]),
      RangeNode (Field ''BlockedIPs'')
          [TextNode ''        deny '',
           ActionNode Dot,
           TextNode (lines ['';'', []])],
      TextNode (lines [''        try_files $uri $uri/ =404;'', ''    }'', [], ''    # SigardaPanel marker'',
         ''    '']),
      ActionNode (Field ''MarkerBegin''),
      TextNode (lines [[], ''    location ~* '' @ [CHR 0x5C] @ ''.(jpg|jpeg|png|gif|ico|css|js)$ {'',
         ''        expires 7d;'', ''        access_log off;'', ''    }'', ''    '']),
      ActionNode (Field ''MarkerEnd''),
      TextNode (lines [[], ''}'', []])]"

definition phpTemplate :: "node list" where
  "phpTemplate =
     [TextNode (lines [''server {'', ''    listen 80;'', ''    listen [::]:80;'', ''    listen 443 ssl http2;'',
         ''    listen [::]:443 ssl http2;'', ''    server_name '']),
      ActionNode (Field ''Domain''),
      TextNode (lines ['';'', ''    client_max_body_size 100M;'', [],
         ''    ssl_certificate /etc/nginx/ssl/sigardapanel.crt;'',
         ''    ssl_certificate_key /etc/nginx/ssl/sigardapanel.key;'',
         ''    ssl_protocols TLSv1.2 TLSv1.3;'', ''    ssl_ciphers HIGH:!aNULL:!MD5;'', [],
         ''    # ACME challenge for Let'' @ [CHR 0x27] @ ''s Encrypt'',
         ''    location /.well-known/acme-challenge/ {'', ''        root /var/www/certbot/'']),
      ActionNode (Field ''Domain''),
      TextNode (lines ['';'', ''    }'', [], ''    root '']),
      ActionNode (Field ''RootPath''),
      TextNode (lines ['';'', ''    index index.php index.html;'', [], ''    # SigardaPanel marker'', ''    '']),
      ActionNode (Field ''MarkerBegin''),
      TextNode (lines [[], ''    access_log /var/log/nginx/'']),
      ActionNode (Field ''Domain''),
      TextNode (lines [''.access.log;'', ''    error_log /var/log/nginx/'']),
      ActionNode (Field ''Domain''),
      TextNode (lines [''.error.log;'', ''    '']),
      ActionNode (Field ''MarkerEnd''),
      TextNode (lines [[], []]),
      IfNode (Field ''BasicAuthEnabled'')
          [TextNode (lines [[], ''    auth_basic '' @ [CHR 0x22] @ ''Restricted'' @ [CHR 0x22] @ '';'',
         ''    auth_basic_user_file '']),
           ActionNode (Field ''BasicAuthPasswordPath''),
           TextNode (lines ['';'', []])],
      TextNode (lines [[], [], ''    location / {'', []]),
      RangeNode (Field ''BlockedIPs'')
          [TextNode ''        deny '',
           ActionNode Dot,
           TextNode (lines ['';'', []])],
      TextNode (lines [''        try_files $uri $uri/ /index.php?$query_string;'', ''    }'', [],
         ''    location ~ '' @ [CHR 0x5C] @ ''.php$ {'',
         ''        fastcgi_split_path_info ^(.+'' @ [CHR 0x5C] @ ''.php)(/.+)$;'',
         ''        fastcgi_pass '']),
      ActionNode (Field ''PHPFpmPass''),
      TextNode (lines ['';'', ''        fastcgi_index index.php;'', ''        include fastcgi_params;'',
         ''        fastcgi_param SCRIPT_FILENAME $document_root$fastcgi_script_name;'',
         ''        fastcgi_param PATH_INFO $fastcgi_path_info;'', ''        '']),
      IfNode (Field ''PHPIniDirectives'')
          [TextNode (lines [[], ''        fastcgi_param PHP_VALUE '' @ [CHR 0x22]]),
           ActionNode (Field ''PHPIniDirectives''),
           TextNode (lines [[CHR 0x22] @ '';'', ''        ''])],
      TextNode (lines [[], ''    }'', ''}'', []])]"

definition nodeTemplate :: "node list" where
  "nodeTemplate =
     [TextNode (lines [''server {'', ''    listen 80;'', ''    listen [::]:80;'', ''    listen 443 ssl http2;'',
         ''    listen [::]:443 ssl http2;'', ''    server_name '']),
      ActionNode (Field ''Domain''),
      TextNode (lines ['';'', ''    client_max_body_size 100M;'', [],
         ''    ssl_certificate /etc/nginx/ssl/sigardapanel.crt;'',
         ''    ssl_certificate_key /etc/nginx/ssl/sigardapanel.key;'',
         ''    ssl_protocols TLSv1.2 TLSv1.3;'', ''    ssl_ciphers HIGH:!aNULL:!MD5;'', [],
         ''    # ACME challenge for Let'' @ [CHR 0x27] @ ''s Encrypt'',
         ''    location /.well-known/acme-challenge/ {'', ''        root /var/www/certbot/'']),
      ActionNode (Field ''Domain''),
      TextNode (lines ['';'', ''    }'', [], ''    # SigardaPanel marker'', ''    '']),
      ActionNode (Field ''MarkerBegin''),
      TextNode (lines [[], ''    access_log /var/log/nginx/'']),
      ActionNode (Field ''Domain''),
      TextNode (lines [''.access.log;'', ''    error_log /var/log/nginx/'']),
      ActionNode (Field ''Domain''),
      TextNode (lines [''.error.log;'', ''    '']),
      ActionNode (Field ''MarkerEnd''),
      TextNode (lines [[], []]),
      IfNode (Field ''BasicAuthEnabled'')
          [TextNode (lines [[], ''    auth_basic '' @ [CHR 0x22] @ ''Restricted'' @ [CHR 0x22] @ '';'',
         ''    auth_basic_user_file '']),
           ActionNode (Field ''BasicAuthPasswordPath''),
           TextNode (lines ['';'', []])],
      TextNode (lines [[], [], ''    location / {'', []]),
      RangeNode (Field ''BlockedIPs'')
          [TextNode ''        deny '',
           ActionNode Dot,
           TextNode (lines ['';'', []])],
      TextNode ''        proxy_pass http://127.0.0.1:'',
      ActionNode (Field ''Port''),
      TextNode (lines ['';'', ''        proxy_http_version 1.1;'', ''        proxy_set_header Host $host;'',
         ''        proxy_set_header X-Real-IP $remote_addr;'',
         ''        proxy_set_header X-Forwarded-For $proxy_add_x_forwarded_for;'',
         ''        proxy_set_header X-Forwarded-Proto $scheme;'', ''    }'', ''}'', []])]"

definition proxyTemplate :: "node list" where
  "proxyTemplate =
     [TextNode (lines [''server {'', ''    listen 80;'', ''    listen [::]:80;'', ''    listen 443 ssl http2;'',
         ''    listen [::]:443 ssl http2;'', ''    server_name '']),
      ActionNode (Field ''Domain''),
      TextNode (lines ['';'', ''    client_max_body_size 100M;'', [],
         ''    ssl_certificate /etc/nginx/ssl/sigardapanel.crt;'',
         ''    ssl_certificate_key /etc/nginx/ssl/sigardapanel.key;'',
         ''    ssl_protocols TLSv1.2 TLSv1.3;'', ''    ssl_ciphers HIGH:!aNULL:!MD5;'', [],
         ''    # ACME challenge for Let'' @ [CHR 0x27] @ ''s Encrypt'',
         ''    location /.well-known/acme-challenge/ {'', ''        root /var/www/certbot/'']),
      ActionNode (Field ''Domain''),
      TextNode (lines ['';'', ''    }'', [], ''    # SigardaPanel marker'', ''    '']),
      ActionNode (Field ''MarkerBegin''),
      TextNode (lines [[], ''    access_log /var/log/nginx/'']),
      ActionNode (Field ''Domain''),
      TextNode (lines [''.access.log;'', ''    error_log /var/log/nginx/'']),
      ActionNode (Field ''Domain''),
      TextNode (lines [''.error.log;'', ''    '']),
      ActionNode (Field ''MarkerEnd''),
      TextNode (lines [[], []]),
      IfNode (Field ''BasicAuthEnabled'')
          [TextNode (lines [[], ''    auth_basic '' @ [CHR 0x22] @ ''Restricted'' @ [CHR 0x22] @ '';'',
         ''    auth_basic_user_file '']),
           ActionNode (Field ''BasicAuthPasswordPath''),
           TextNode (lines ['';'', []])],
      TextNode (lines [[], [], ''    location / {'', []]),
      RangeNode (Field ''BlockedIPs'')
          [TextNode ''        deny '',
           ActionNode Dot,
           TextNode (lines ['';'', []])],
      TextNode ''        proxy_pass '',
      ActionNode (Field ''ProxyPassURL''),
      TextNode (lines ['';'', ''        proxy_http_version 1.1;'', ''        proxy_set_header Host $host;'',
         ''        proxy_set_header X-Real-IP $remote_addr;'',
         ''        proxy_set_header X-Forwarded-For $proxy_add_x_forwarded_for;'',
         ''        proxy_set_header X-Forwarded-Proto $scheme;'',
         ''        proxy_set_header Upgrade $http_upgrade;'',
         ''        proxy_set_header Connection '' @ [CHR 0x22] @ ''upgrade'' @ [CHR 0x22] @ '';'',
         ''    }'', ''}'', []])]"

definition templates :: "(string \<times> node list) list" where
  "templates =
     [(''static'', staticTemplate), (''php'', phpTemplate), (''node'', nodeTemplate), (''python'', nodeTemplate),
      (''go'', nodeTemplate), (''proxy'', proxyTemplate), (''docker'', proxyTemplate)]"

section \<open>GenerateVhost\<close>

definition php_ports :: "(string \<times> int) list" where
  "php_ports =
     [(''7.1'', 11000), (''7.2'', 12000), (''7.3'', 13000), (''7.4'', 14000), (''8.0'', 15000), (''8.1'', 16000),
      (''8.2'', 17000), (''8.3'', 18000), (''8.4'', 19000), (''8.5'', 20000)]"

definition php_socket :: "string \<Rightarrow> string" where
  "php_socket version = ''/run/php/php'' @ version @ ''-fpm.sock''"

text \<open>\<open>stat path\<close>: whether \<open>os.Stat\<close> succeeds.\<close>

definition phpFpmAddr :: "(string \<Rightarrow> bool) \<Rightarrow> string \<Rightarrow> string" where
  "phpFpmAddr stat version =
     (case map_of php_ports version of
        Some p \<Rightarrow>
          if stat (php_socket version) then ''unix:'' @ php_socket version else ''127.0.0.1:'' @ itoa p
      | None \<Rightarrow>
          (case List.find (\<lambda>v. stat (php_socket v)) [''8.3'', ''8.4'', ''8.2'', ''8.1'', ''8.0''] of
             Some v \<Rightarrow> ''unix:'' @ php_socket v
           | None \<Rightarrow> ''unix:/run/clp-php-fpm.sock''))"

definition htpasswdPath :: "string \<Rightarrow> string" where
  "htpasswdPath domain = path_join ''/etc/nginx'' (''.htpasswd_'' @ domain)"

text \<open>The file \<open>WriteHtpasswd\<close> writes: its path and content.\<close>

definition WriteHtpasswd :: "string \<Rightarrow> string \<Rightarrow> string \<Rightarrow> string \<times> string" where
  "WriteHtpasswd domain username bcryptHash = (htpasswdPath domain, username @ '':'' @ bcryptHash @ [CHR 0x0A])"

text \<open>An optional column that is neither \<open>NULL\<close> nor empty is checked.\<close>

definition check_given :: "(string \<Rightarrow> goerror) \<Rightarrow> string option \<Rightarrow> goerror" where
  "check_given check v = (case v of None \<Rightarrow> nil | Some s \<Rightarrow> if s = [] then nil else check s)"

definition validateSiteForVhost :: "Site \<Rightarrow> goerror" where
  "validateSiteForVhost s =
     (case DomainInput (ste_domain s) of Some err \<Rightarrow> Some err | None \<Rightarrow>
      case check_given RootPath (Some (ste_root_path s)) of Some err \<Rightarrow> Some err | None \<Rightarrow>
      case check_given ProxyPassURL (ste_proxy_pass_url s) of Some err \<Rightarrow> Some err | None \<Rightarrow>
      case check_given PHPVersion (ste_php_version s) of Some err \<Rightarrow> Some err | None \<Rightarrow>
      (case ste_php_ini s of None \<Rightarrow> nil | Some ini \<Rightarrow> PHPIni ini))"

definition null_text :: "string option \<Rightarrow> string" where
  "null_text v = (case v of None \<Rightarrow> [] | Some s \<Rightarrow> s)"

definition site_config :: "(string \<Rightarrow> bool) \<Rightarrow> Site \<Rightarrow> int \<Rightarrow> SiteSecurity option \<Rightarrow> SiteConfig" where
  "site_config stat s port security =
     (let proxyPassURL = null_text (ste_proxy_pass_url s);
          proxyPassURL = (if proxyPassURL = [] \<and> ste_runtime s = ''proxy'' then ''http://127.0.0.1:7700'' else proxyPassURL);
          data = \<lparr>sc_domain = ste_domain s, sc_root_path = ste_root_path s, sc_runtime = ste_runtime s, sc_port = port,
            sc_proxy_pass_url = proxyPassURL, sc_php_fpm_pass = phpFpmAddr stat (null_text (ste_php_version s)),
            sc_php_ini_directives = null_text (ste_php_ini s), sc_marker_begin = markerBegin, sc_marker_end = markerEnd,
            sc_basic_auth_enabled = False, sc_basic_auth_username = [], sc_basic_auth_password_path = [],
            sc_blocked_ips = []\<rparr>
      in case security of
           None \<Rightarrow> data
         | Some sec \<Rightarrow>
             (if sec_basic_auth_enabled sec
              then data\<lparr>sc_basic_auth_enabled := True, sc_basic_auth_username := sec_basic_auth_username sec,
                     sc_basic_auth_password_path := htpasswdPath (ste_domain s)\<rparr>
              else data)\<lparr>sc_blocked_ips := sec_blocked_ips sec\<rparr>)"

text \<open>
  \<open>written\<close> is whether the password file can be written. The result: the file written before an error or
  the end, if any, and the error or the configuration.
\<close>

definition GenerateVhost ::
  "(string \<Rightarrow> bool) \<Rightarrow> bool \<Rightarrow> Site \<Rightarrow> int \<Rightarrow> SiteSecurity option \<Rightarrow> (string \<times> string) option \<times> (string + string)" where
  "GenerateVhost stat written s port security =
     (case map_of templates (ste_runtime s) of
        None \<Rightarrow> (None, Inl ''unsupported runtime'')
      | Some t \<Rightarrow>
          (case validateSiteForVhost s of
             Some err \<Rightarrow> (None, Inl err)
           | None \<Rightarrow>
               let file = (case security of
                     Some sec \<Rightarrow> if sec_basic_auth_enabled sec
                       then Some (WriteHtpasswd (ste_domain s) (sec_basic_auth_username sec) (sec_basic_auth_password sec))
                       else None
                   | None \<Rightarrow> None)
               in if file \<noteq> None \<and> \<not> written then (None, Inl ''write htpasswd'')
                  else (file,
                    case execute (VStruct (site_config stat s port security)) t of
                      None \<Rightarrow> Inl ''execute template''
                    | Some out \<Rightarrow> Inr out)))"

section \<open>Nothing but values gets in\<close>

definition clean :: "string \<Rightarrow> bool" where
  "clean s \<longleftrightarrow> (\<forall>c \<in> set s. \<not> nginx_special c)"

text \<open>The bytes with a meaning, in their order: two texts with the same skeleton have the same directives.\<close>

definition skeleton :: "string \<Rightarrow> string" where
  "skeleton s = filter nginx_special s"

lemma skeleton_append [simp]: "skeleton (s @ t) = skeleton s @ skeleton t"
  by (simp add: skeleton_def)

lemma skeleton_clean [simp]: "clean s \<Longrightarrow> skeleton s = []"
  by (simp add: clean_def skeleton_def filter_empty_conv)

lemma clean_append [simp]: "clean (s @ t) \<longleftrightarrow> clean s \<and> clean t"
  by (auto simp: clean_def)

lemma clean_Nil [simp]: "clean []"
  by (simp add: clean_def)

lemma clean_Cons [simp]: "clean (c # s) \<longleftrightarrow> \<not> nginx_special c \<and> clean s"
  by (simp add: clean_def)

lemma clean_nat_digits: "clean (nat_digits n)"
proof (induction n rule: nat_digits.induct)
  case (1 n)
  have digit: "\<not> nginx_special (char_of (k + 48))" if "k < 10" for k :: nat
  proof -
    from that have "k \<in> set [0..<10]" by simp
    moreover have "list_all (\<lambda>k. \<not> nginx_special (char_of (k + 48 :: nat))) [0..<10]" by code_simp
    ultimately show ?thesis unfolding list_all_iff by blast
  qed
  show ?case
    by (subst nat_digits.simps) (use 1 digit in \<open>simp add: digit\<close>)
qed

lemma clean_itoa [simp]: "clean (itoa i)"
  by (simp add: itoa_def clean_nat_digits) (simp add: nginx_special_def)

text \<open>Values that may stand for each other: the same skeleton, and empty together.\<close>

definition text_alike :: "string \<Rightarrow> string \<Rightarrow> bool" where
  "text_alike s t \<longleftrightarrow> skeleton s = skeleton t \<and> (s = [] \<longleftrightarrow> t = [])"

fun alike :: "gvalue \<Rightarrow> gvalue \<Rightarrow> bool" where
  "alike (VStr s) (VStr t) \<longleftrightarrow> text_alike s t"
| "alike (VInt i) (VInt j) \<longleftrightarrow> (i = 0 \<longleftrightarrow> j = 0)"
| "alike (VBool a) (VBool b) \<longleftrightarrow> a = b"
| "alike (VList xs) (VList ys) \<longleftrightarrow> list_all2 text_alike xs ys"
| "alike v w \<longleftrightarrow> False"

definition alike_dot :: "gvalue \<Rightarrow> gvalue \<Rightarrow> bool" where
  "alike_dot d e \<longleftrightarrow> (case (d, e) of
     (VStruct c, VStruct c') \<Rightarrow> \<forall>n. rel_option alike (map_of (fields c) n) (map_of (fields c') n)
   | _ \<Rightarrow> alike d e)"

lemma alike_eval_ref:
  assumes "alike_dot d e"
  shows "rel_option (\<lambda>v w. alike v w \<or> (r = Dot \<and> alike_dot v w)) (eval_ref d r) (eval_ref e r)"
  using assms
  by (cases r; cases d; cases e) (auto simp: alike_dot_def elim!: option.rel_mono_strong)

lemma alike_print: "alike v w \<or> alike_dot v w \<Longrightarrow> rel_option (\<lambda>s t. skeleton s = skeleton t) (print_value v) (print_value w)"
  by (cases v; cases w) (auto simp: alike_dot_def text_alike_def)

lemma alike_truth: "alike v w \<or> alike_dot v w \<Longrightarrow> truth v = truth w"
  by (cases v; cases w) (auto simp: alike_dot_def text_alike_def)

lemma skeleton_concat:
  "list_all2 (\<lambda>s t. skeleton s = skeleton t) ss ts \<Longrightarrow> skeleton (concat ss) = skeleton (concat ts)"
  by (induction rule: list_all2_induct) simp_all

lemma all_some_rel:
  "list_all2 (rel_option R) xs ys \<Longrightarrow> rel_option (list_all2 R) (all_some xs) (all_some ys)"
proof (induction rule: list_all2_induct)
  case (Cons x xs y ys)
  then show ?case by (cases x; cases y; cases "all_some xs"; cases "all_some ys") simp_all
qed simp

text \<open>Executing a template on values that may stand for each other gives texts of the same skeleton.\<close>

lemma exec_alike:
  "alike_dot d e \<Longrightarrow> rel_option (\<lambda>s t. skeleton s = skeleton t) (execute_node d n) (execute_node e n)"
  "alike_dot d e \<Longrightarrow> rel_option (\<lambda>s t. skeleton s = skeleton t) (execute d ns) (execute e ns)"
proof (induction d n and d ns arbitrary: e and e rule: execute_node_execute.induct)
  case (2 d r)
  from alike_eval_ref [OF 2, of r] show ?case
    by (cases "eval_ref d r"; cases "eval_ref e r") (auto intro!: alike_print)
next
  case (3 d r body)
  show ?case
  proof (cases "eval_ref d r")
    case None
    with alike_eval_ref [OF 3(2), of r] show ?thesis by (cases "eval_ref e r") auto
  next
    case (Some v)
    with alike_eval_ref [OF 3(2), of r] obtain w where w: "eval_ref e r = Some w" "alike v w \<or> (r = Dot \<and> alike_dot v w)"
      by (cases "eval_ref e r") auto
    then have "truth v = truth w" using alike_truth by blast
    with 3 Some w(1) show ?thesis by simp
  qed
next
  case (4 d r body)
  show ?case
  proof (cases "eval_ref d r")
    case None
    with alike_eval_ref [OF 4(2), of r] show ?thesis by (cases "eval_ref e r") auto
  next
    case (Some v)
    with alike_eval_ref [OF 4(2), of r] obtain w where w: "eval_ref e r = Some w" "alike v w \<or> (r = Dot \<and> alike_dot v w)"
      by (cases "eval_ref e r") auto
    show ?thesis
    proof (cases v)
      case (VList xs)
      with w(2) obtain ys where ys: "w = VList ys" "list_all2 text_alike xs ys"
        by (cases w) (auto simp: alike_dot_def)
      have "list_all2 (rel_option (\<lambda>s t. skeleton s = skeleton t)) (map (\<lambda>x. execute (VStr x) body) xs) (map (\<lambda>y. execute (VStr y) body) ys)"
        unfolding list_all2_map1 list_all2_map2
        using ys(2) 4(1) [OF Some VList] by (auto simp: list_all2_conv_all_nth alike_dot_def)
      from all_some_rel [OF this] Some VList w(1) ys(1) show ?thesis
        by (auto simp: option.rel_map elim!: option.rel_mono_strong intro: skeleton_concat)
    qed (use Some w in \<open>auto simp: alike_dot_def split: gvalue.splits\<close>)
  qed
next
  case (6 d n ns)
  show ?case
  proof (cases "execute_node d n")
    case None
    with 6(1) [OF 6(3)] show ?thesis by (cases "execute_node e n") simp_all
  next
    case (Some out)
    with 6(1) [OF 6(3)] obtain out' where out': "execute_node e n = Some out'" "skeleton out = skeleton out'"
      by (cases "execute_node e n") simp_all
    from 6(2) [OF Some 6(3)] show ?thesis
      by (cases "execute d ns"; cases "execute e ns") (simp_all add: Some out')
  qed
qed simp_all

text \<open>The values of a vhost with every value but the \<open>php.ini\<close> directives masked.\<close>

definition mask :: "string \<Rightarrow> string" where
  "mask s = (if s = [] then [] else ''x'')"

definition masked :: "SiteConfig \<Rightarrow> SiteConfig" where
  "masked c = c\<lparr>sc_domain := mask (sc_domain c), sc_root_path := mask (sc_root_path c),
     sc_port := (if sc_port c = 0 then 0 else 1), sc_proxy_pass_url := mask (sc_proxy_pass_url c),
     sc_php_fpm_pass := mask (sc_php_fpm_pass c),
     sc_basic_auth_password_path := mask (sc_basic_auth_password_path c),
     sc_blocked_ips := map mask (sc_blocked_ips c)\<rparr>"

lemma alike_mask: "clean s \<Longrightarrow> text_alike s (mask s)"
  by (simp add: text_alike_def mask_def) (simp add: skeleton_def nginx_special_def)

lemma alike_refl [simp]: "text_alike s s"
  by (simp add: text_alike_def)

lemma alike_dot_masked:
  assumes "clean (sc_domain c)" "clean (sc_root_path c)" "clean (sc_proxy_pass_url c)" "clean (sc_php_fpm_pass c)"
    "clean (sc_basic_auth_password_path c)" "list_all clean (sc_blocked_ips c)"
  shows "alike_dot (VStruct c) (VStruct (masked c))"
proof -
  have blocked: "list_all2 text_alike (sc_blocked_ips c) (map mask (sc_blocked_ips c))"
    using assms(6) by (auto simp: list_all2_map2 list_all2_same list_all_iff intro: alike_mask)
  show ?thesis
    using assms(1-5) blocked
    by (simp add: alike_dot_def fields_def masked_def alike_mask)
qed

lemma set_join_on: "set (join_on d ws) \<subseteq> insert d (\<Union>w \<in> set ws. set w)"
  by (induction d ws rule: join_on.induct) auto

lemma clean_elems_clean: "list_all clean stack \<Longrightarrow> list_all clean es \<Longrightarrow> list_all clean (clean_elems r stack es)"
  by (induction r stack es rule: clean_elems.induct) (auto split: list.splits)

lemma clean_set: "clean s \<longleftrightarrow> set s \<subseteq> {c. \<not> nginx_special c}"
  by (auto simp: clean_def)

lemma clean_join_on: "\<not> nginx_special d \<Longrightarrow> list_all clean ws \<Longrightarrow> clean (join_on d ws)"
  using set_join_on [of d ws] by (auto simp: clean_def list_all_iff)

lemma clean_path_clean:
  assumes "clean p"
  shows "clean (path_clean p)"
proof -
  have "list_all clean (split_on CHR ''/'' p)"
    using assms split_on_chars [of _ "CHR ''/''" p] by (auto simp: list_all_iff clean_set)
  then have "clean (join_on CHR ''/'' (clean_elems r [] (split_on CHR ''/'' p)))" for r
    by (intro clean_join_on clean_elems_clean) (simp_all add: nginx_special_def)
  then show ?thesis by (simp add: path_clean_def Let_def nginx_special_def)
qed

lemma clean_htpasswdPath: "clean domain \<Longrightarrow> clean (htpasswdPath domain)"
  unfolding htpasswdPath_def path_join_def
  by (simp, intro clean_path_clean) (simp add: nginx_special_def)

lemma clean_php_socket: "clean v \<Longrightarrow> clean (php_socket v)"
  by (simp add: php_socket_def nginx_special_def)

lemma clean_phpFpmAddr: "clean (phpFpmAddr stat v)"
proof -
  have "list_all (\<lambda>(v, p). clean v) php_ports"
    by (simp add: php_ports_def nginx_special_def)
  then have port: "map_of php_ports v = Some p \<Longrightarrow> clean v" for p
    by (auto simp: list_all_iff dest!: map_of_SomeD)
  have found: "clean u" if "List.find P [''8.3'', ''8.4'', ''8.2'', ''8.1'', ''8.0''] = Some u" for P u
    using that by (auto simp: nginx_special_def split: if_splits)
  show ?thesis
    using port found unfolding phpFpmAddr_def
    by (auto simp: clean_php_socket nginx_special_def split: option.splits)
qed

lemma checked_clean:
  assumes "check_given check v = nil" "\<And>s. check s = nil \<Longrightarrow> clean s"
  shows "clean (null_text v)"
  using assms by (auto simp: check_given_def null_text_def split: option.splits if_splits)

lemma validated_clean:
  assumes "validateSiteForVhost s = nil"
  shows "clean (ste_domain s)" "clean (ste_root_path s)" "clean (null_text (ste_proxy_pass_url s))"
proof -
  have "clean v" if "DomainInput v = nil \<or> RootPath v = nil \<or> ProxyPassURL v = nil \<or> PHPVersion v = nil" for v
    unfolding clean_def using accepted_bytes [OF that] by blast
  then show "clean (ste_domain s)" "clean (ste_root_path s)" "clean (null_text (ste_proxy_pass_url s))"
    using assms checked_clean [of RootPath "Some (ste_root_path s)"] checked_clean [of ProxyPassURL "ste_proxy_pass_url s"]
    by (auto simp: validateSiteForVhost_def null_text_def split: option.splits)
qed

lemma PHPIni_bytes: "PHPIni s = nil \<Longrightarrow> c \<in> set s \<Longrightarrow> c \<notin> {CHR 0x22, CHR ''{'', CHR ''}'', CHR '';''}"
  by (auto simp: PHPIni_def contains_any_def list_ex_iff split: if_splits)

lemma validated_ini:
  "validateSiteForVhost s = nil \<Longrightarrow> c \<in> set (null_text (ste_php_ini s)) \<Longrightarrow> c \<notin> {CHR 0x22, CHR ''{'', CHR ''}'', CHR '';''}"
  using PHPIni_bytes [of "null_text (ste_php_ini s)" c]
  by (cases "ste_php_ini s") (simp_all add: validateSiteForVhost_def null_text_def split: option.splits)

definition blocked_of :: "SiteSecurity option \<Rightarrow> string list" where
  "blocked_of security = (case security of None \<Rightarrow> [] | Some sec \<Rightarrow> sec_blocked_ips sec)"

lemma site_config_masked:
  assumes "validateSiteForVhost s = nil" "list_all clean (blocked_of security)"
  shows "alike_dot (VStruct (site_config stat s port security)) (VStruct (masked (site_config stat s port security)))"
proof -
  note v = validated_clean [OF assms(1)]
  have "clean ''http://127.0.0.1:7700''" by (simp add: nginx_special_def)
  then show ?thesis
    using v assms(2) clean_htpasswdPath [OF v(1)]
    by (intro alike_dot_masked) (auto simp: site_config_def blocked_of_def Let_def clean_phpFpmAddr split: option.splits)
qed

section \<open>Properties\<close>


text \<open>What a node prints stands in the text of its template.\<close>

lemma execute_member:
  "execute d ns = Some out \<Longrightarrow> n \<in> set ns \<Longrightarrow> \<exists>pre o' post. execute_node d n = Some o' \<and> out = pre @ o' @ post"
proof (induction ns arbitrary: out)
  case (Cons m ns)
  from Cons.prems(1) obtain o1 o2 where o: "execute_node d m = Some o1" "execute d ns = Some o2" "out = o1 @ o2"
    by (auto split: option.splits)
  show ?case
  proof (cases "n = m")
    case True
    with o have "execute_node d n = Some o1 \<and> out = [] @ o1 @ o2" by simp
    then show ?thesis by blast
  next
    case False
    with Cons.prems(2) Cons.IH [OF o(2)] obtain pre o' post where "execute_node d n = Some o'" "o2 = pre @ o' @ post" by auto
    with o(3) have "execute_node d n = Some o' \<and> out = (o1 @ pre) @ o' @ post" by simp
    then show ?thesis by blast
  qed
qed simp

definition deny_node :: node where
  "deny_node = RangeNode (Field ''BlockedIPs'') [TextNode ''        deny '', ActionNode Dot, TextNode (lines ['';'', []])]"

lemma templates_deny: "map_of templates runtime = Some t \<Longrightarrow> deny_node \<in> set t"
proof -
  assume "map_of templates runtime = Some t"
  then have "t \<in> {staticTemplate, phpTemplate, nodeTemplate, proxyTemplate}"
    by (auto simp: templates_def split: if_splits)
  then show ?thesis
    by (auto simp only: insert_iff empty_iff) 
       (simp_all only: staticTemplate_def phpTemplate_def nodeTemplate_def proxyTemplate_def deny_node_def list.set insert_iff, simp_all)
qed

lemma concat_member: "x \<in> set xs \<Longrightarrow> \<exists>pre post. concat (map f xs) = pre @ f x @ post"
  by (metis concat.simps(2) concat_append list.simps(9) map_append split_list)

lemma execute_deny:
  assumes "execute_node (VStruct c) deny_node = Some out" "p \<in> set (sc_blocked_ips c)"
  shows "\<exists>pre post. out = pre @ (''        deny '' @ p @ [CHR '';'', CHR 0x0A]) @ post"
proof -
  let ?line = "\<lambda>x. ''        deny '' @ x @ [CHR '';'', CHR 0x0A]"
  have "execute (VStr x) [TextNode ''        deny '', ActionNode Dot, TextNode (lines ['';'', []])] = Some (?line x)" for x
    by (simp add: lines_def)
  then have "execute_node (VStruct c) deny_node = map_option concat (all_some (map Some (map ?line (sc_blocked_ips c))))"
    by (simp only: deny_node_def execute_node.simps eval_ref.simps) (simp add: fields_def comp_def)
  then have "out = concat (map ?line (sc_blocked_ips c))"
    using assms(1) by (simp only: all_some_map) simp
  with concat_member [OF assms(2), of ?line] show ?thesis by simp
qed

text \<open>The gap in it: a blocked address is copied as it is, whatever it holds.\<close>

lemma blocked_address_copied:
  assumes "GenerateVhost stat written s port (Some sec) = (file, Inr out)" "p \<in> set (sec_blocked_ips sec)"
  shows "\<exists>pre post. out = pre @ ''        deny '' @ p @ [CHR '';'', CHR 0x0A] @ post"
proof -
  let ?c = "site_config stat s port (Some sec)"
  from assms(1) obtain t where t: "map_of templates (ste_runtime s) = Some t" and out: "execute (VStruct ?c) t = Some out"
    by (auto simp: GenerateVhost_def Let_def split: option.splits if_splits)
  from execute_member [OF out templates_deny [OF t]] obtain pre o' post
    where o: "execute_node (VStruct ?c) deny_node = Some o'" "out = pre @ o' @ post" by blast
  have "sc_blocked_ips ?c = sec_blocked_ips sec" by (simp add: site_config_def Let_def)
  with assms(2) have "p \<in> set (sc_blocked_ips ?c)" by simp
  from execute_deny [OF o(1) this] obtain a b where "o' = a @ (''        deny '' @ p @ [CHR '';'', CHR 0x0A]) @ b" by blast
  with o(2) have "out = (pre @ a) @ ''        deny '' @ p @ [CHR '';'', CHR 0x0A] @ b @ post" by simp
  then show ?thesis by blast
qed

text \<open>The templates never fail, so a supported runtime, valid values and a writable password file are all it takes.\<close>

lemma execute_total: "(\<exists>out. execute d ns = Some out) \<longleftrightarrow> list_all (\<lambda>n. execute_node d n \<noteq> None) ns"
  by (induction ns) (auto split: option.splits)

lemma deny_total: "execute_node (VStruct c) deny_node \<noteq> None"
proof -
  have "execute (VStr x) [TextNode ''        deny '', ActionNode Dot, TextNode (lines ['';'', []])]
      = Some (''        deny '' @ x @ [CHR '';'', CHR 0x0A])" for x
    by (simp add: lines_def)
  then have "execute_node (VStruct c) deny_node = map_option concat (all_some (map Some
      (map (\<lambda>x. ''        deny '' @ x @ [CHR '';'', CHR 0x0A]) (sc_blocked_ips c))))"
    by (simp only: deny_node_def execute_node.simps eval_ref.simps) (simp add: fields_def comp_def)
  then show ?thesis by (simp only: all_some_map) simp
qed

lemma templates_total: "map_of templates runtime = Some t \<Longrightarrow> \<exists>out. execute (VStruct c) t = Some out"
  unfolding execute_total
  using deny_total [of c, unfolded deny_node_def]
  by (auto simp: templates_def staticTemplate_def phpTemplate_def nodeTemplate_def proxyTemplate_def fields_def
      simp del: execute_node.simps(4) split: if_splits)

text \<open>A site and what becomes of it.\<close>

definition demo_vhost_site :: Site where
  "demo_vhost_site = \<lparr>ste_id = 1, ste_server = 1, ste_name = ''a'', ste_domain = ''a.org'', ste_runtime = ''static'',
     ste_root_path = ''/home/a/htdocs/a.org'', ste_status = ''active'', ste_owner = None, ste_ssl_status = None,
     ste_ssl_issuer = None, ste_ssl_expires_at = None, ste_ssl_last_check = None, ste_git_repo = None,
     ste_git_branch = None, ste_git_commit = None, ste_webhook_secret = None, ste_managed_by = None,
     ste_system_user = None, ste_conf_file = None, ste_proxy_pass_url = None, ste_app_port = None,
     ste_app_command = None, ste_app_status = None, ste_app_memory_max = None, ste_php_version = None,
     ste_php_ini = Some ''memory_limit=1G'', ste_backup_provider = None, ste_created_at = 0, ste_updated_at = 0\<rparr>"

definition demo_security :: "string list \<Rightarrow> SiteSecurity" where
  "demo_security ips = \<lparr>sec_id = 1, sec_site = 1, sec_basic_auth_enabled = True, sec_basic_auth_username = ''u'',
     sec_basic_auth_password = ''h'', sec_blocked_ips = ips, sec_updated_at = 0\<rparr>"

definition demo_vhost :: "string list \<Rightarrow> (string \<times> string) option \<times> (string + string)" where
  "demo_vhost ips = GenerateVhost (\<lambda>_. False) True demo_vhost_site 0 (Some (demo_security ips))"

lemma demo_valid: "validateSiteForVhost demo_vhost_site = nil"
  by code_simp

lemma demo_out:
  obtains out where "demo_vhost ips = (Some (''/etc/nginx/.htpasswd_a.org'', ''u:h'' @ [CHR 0x0A]), Inr out)"
proof -
  have t: "map_of templates (ste_runtime demo_vhost_site) = Some staticTemplate"
    by (simp add: demo_vhost_site_def templates_def)
  obtain out where out: "execute (VStruct (site_config (\<lambda>_. False) demo_vhost_site 0 (Some (demo_security ips)))) staticTemplate = Some out"
    using templates_total [OF t] by blast
  have "WriteHtpasswd (ste_domain demo_vhost_site) ''u'' ''h'' = (''/etc/nginx/.htpasswd_a.org'', ''u:h'' @ [CHR 0x0A])"
    by code_simp
  then show thesis
    using out by (intro that) (simp add: demo_vhost_def GenerateVhost_def t demo_valid demo_security_def)
qed


text \<open>The entry ends the block it stands in and opens a location of its own.\<close>

definition demo_payload :: string where
  "demo_payload = ''10.0.0.1; } location /etc/ { alias /etc/; } location /x {#''"

lemma blocked_address_copied_witness:
  "\<exists>out pre post. snd (demo_vhost [demo_payload]) = Inr out \<and> out = pre @ ''        deny '' @ demo_payload @ [CHR '';'', CHR 0x0A] @ post"
proof -
  obtain out where "demo_vhost [demo_payload] = (Some (''/etc/nginx/.htpasswd_a.org'', ''u:h'' @ [CHR 0x0A]), Inr out)"
    by (rule demo_out)
  then show ?thesis
    using blocked_address_copied [of "\<lambda>_. False" True demo_vhost_site 0 "demo_security [demo_payload]" _ out demo_payload]
    by (simp add: demo_vhost_def demo_security_def)
qed

end
