(* ===== verification/AgentPaths.thy ===== *)
theory AgentPaths
  imports SiteInput
begin

text \<open>
  \<open>internal/agenthttp/validate.go\<close>: the checks the agent, which runs as root, applies to every value the
  panel sends it (domains, paths, git references, database identifiers), SQL quoting, and the path
  rules for site and backup files. The operating system calls a check makes (\<open>EvalSymlinks\<close>,
  \<open>Lstat\<close>) are arguments of its definition.
\<close>

section \<open>Patterns and predicates\<close>

definition domainRegex :: regex where
  [go_defs]: "domainRegex = Seq (Cls alnum)
     (Opt (Seq (Rep (Cls (\<lambda>c. alnum c \<or> c \<in> set ''-.'')) 0 253) (Cls alnum)))"

definition pathRegex :: regex where
  [go_defs]: "pathRegex = Seq (Chr CHR ''/'') (Plus (Cls (\<lambda>c. alnum c \<or> c \<in> set ''_-./'')))"

definition gitURLRegex :: regex where
  [go_defs]: "gitURLRegex = Seq (Alt (Seqs [Lit ''http'', Opt (Chr CHR ''s''), Lit ''://''])
       (Alt (Lit ''git@'') (Lit ''file://'')))
     (Plus (Cls (\<lambda>c. alnum c \<or> c \<in> set ''._-/:'')))"

definition gitRefRegex :: regex where
  [go_defs]: "gitRefRegex = Rep (Cls (\<lambda>c. alnum c \<or> c \<in> set ''._/-'')) 1 255"

definition dbNameRegex :: regex where
  [go_defs]: "dbNameRegex = Rep (Cls (\<lambda>c. alnum c \<or> c = CHR ''_'')) 1 64"

definition dbHostRegex :: regex where
  [go_defs]: "dbHostRegex = Rep (Cls (\<lambda>c. alnum c \<or> c \<in> set ''_.%-'')) 1 255"

definition dbPrivRegex :: regex where
  [go_defs]: "dbPrivRegex = Rep (Cls (\<lambda>c. in_range 65 90 c \<or> c \<in> set ''_, '')) 1 128"

definition isValidDomain :: "string \<Rightarrow> bool" where
  "isValidDomain d = matches domainRegex d"

definition isValidPath :: "string \<Rightarrow> bool" where
  "isValidPath p = (if contains p ''..'' then False else matches pathRegex p)"

definition isValidGitURL :: "string \<Rightarrow> bool" where
  "isValidGitURL u = matches gitURLRegex u"

definition isValidGitRef :: "string \<Rightarrow> bool" where
  "isValidGitRef ref =
     (if ref = [] \<or> has_prefix ref ''-'' then False
      else if contains ref ''..'' then False
      else matches gitRefRegex ref)"

definition isValidDBIdentifier :: "string \<Rightarrow> bool" where
  "isValidDBIdentifier v = matches dbNameRegex v"

definition isValidDBHostPattern :: "string \<Rightarrow> bool" where
  "isValidDBHostPattern v = matches dbHostRegex v"

definition isValidDBPrivileges :: "string \<Rightarrow> bool" where
  "isValidDBPrivileges v = matches dbPrivRegex v"

definition sqlQuote :: "string \<Rightarrow> string" where
  "sqlQuote v = [CHR 0x27] @ replace_all v [CHR 0x27] [CHR 0x27, CHR 0x27] @ [CHR 0x27]"

section \<open>Path rules\<close>

record router =
  siteRootDir :: string
  backupDir :: string

definition isAllowedSitePath :: "router \<Rightarrow> string \<Rightarrow> bool" where
  "isAllowedSitePath r path =
     (if \<not> isValidPath path then False
      else if siteRootDir r = [] then RootPathAllowed (path_clean path) = nil
      else
        let cleanRoot = path_clean (siteRootDir r); cleanPath = path_clean path
        in if cleanPath = cleanRoot then False
           else has_prefix cleanPath (cleanRoot @ ''/''))"

text \<open>The loop over the path segments: \<open>Some b\<close> is its \<open>return b\<close>, \<open>None\<close> falls through.\<close>

fun backup_segment :: "nat \<Rightarrow> nat \<Rightarrow> string list \<Rightarrow> bool option" where
  "backup_segment i n [] = None"
| "backup_segment i n (part # parts) =
     (if part = ''..'' then Some False
      else if (part = ''backup'' \<or> part = ''backups'') \<and> 0 < i \<and> int i < int n - 1 then Some True
      else backup_segment (Suc i) n parts)"

definition isAllowedBackupPath :: "router \<Rightarrow> string \<Rightarrow> bool" where
  "isAllowedBackupPath r path =
     (if \<not> isValidPath path then False
      else
        let cleanPath = path_clean path; cleanRoot = path_clean (backupDir r)
        in if has_prefix cleanPath (cleanRoot @ ''/'') then True
           else
             let parts = split_on CHR ''/'' cleanPath
             in case backup_segment 0 (length parts) parts of
                  Some b \<Rightarrow> b
                | None \<Rightarrow>
                    if siteRootDir r \<noteq> [] then
                      let cleanSiteRoot = path_clean (siteRootDir r)
                      in if has_prefix cleanPath (cleanSiteRoot @ ''/'') then
                           let rel = trim_prefix cleanPath (cleanSiteRoot @ ''/'');
                               relParts = split2 CHR ''/'' rel;
                               relParts = hd relParts # (if tl relParts = [] then [] else split2 CHR ''/'' (relParts ! 1))
                           in 2 \<le> length relParts \<and> (relParts ! 1 = ''backup'' \<or> relParts ! 1 = ''backups'')
                         else False
                    else False)"

text \<open>\<open>removeGeneratedFile\<close>: \<open>Inl\<close> is \<open>errUnsafePath\<close>, \<open>Inr p\<close> is the call \<open>RemoveAll(p)\<close>.\<close>

definition removeGeneratedFile :: "string \<Rightarrow> string \<Rightarrow> string + string" where
  "removeGeneratedFile path root =
     (let cleanRoot = path_clean root; cleanPath = path_clean path
      in if cleanPath = cleanRoot \<or> \<not> has_prefix cleanPath (cleanRoot @ ''/'')
         then Inl ''unsafe path''
         else Inr cleanPath)"

definition backupFileExts :: "string list" where
  "backupFileExts = [''.tar.gz'', ''.tgz'', ''.sql'', ''.sql.gz'', ''.zip'']"

text \<open>
  \<open>evalSymlinks\<close> is \<open>filepath.EvalSymlinks\<close> (\<open>None\<close>: an error) and \<open>lstatRegular\<close> is
  \<open>os.Lstat\<close> read as "is it a regular file" (\<open>None\<close>: no such file or another error).
\<close>

definition resolveBackupFile ::
  "router \<Rightarrow> (string \<Rightarrow> string option) \<Rightarrow> (string \<Rightarrow> bool option) \<Rightarrow> string \<Rightarrow> string option" where
  "resolveBackupFile r evalSymlinks lstatRegular path =
     (if \<not> isAllowedBackupPath r path then None
      else if \<not> list_ex (\<lambda>ext. has_suffix (to_lower path) ext) backupFileExts then None
      else case evalSymlinks (path_dir (path_clean path)) of
             None \<Rightarrow> None
           | Some dir \<Rightarrow>
               let real = path_join dir (path_base path)
               in if \<not> isAllowedBackupPath r real then None
                  else if RootPathAllowed dir \<noteq> nil then None
                  else if has_prefix real ''/var/backups/''
                          \<and> \<not> has_prefix real (path_clean (backupDir r) @ ''/'') then None
                  else if lstatRegular real = Some False then None
                  else Some real)"

section \<open>Lemmas\<close>

lemma isValidPath_rooted: "isValidPath p \<Longrightarrow> rooted p"
  by (auto simp: isValidPath_def pathRegex_def Chr_def matches_Seq matches_Cls rooted_def split: if_splits)

lemma isValidPath_bytes: "isValidPath p \<Longrightarrow> c \<in> set p \<Longrightarrow> alnum c \<or> c \<in> set ''_-./''"
  by (auto simp: isValidPath_def pathRegex_def Chr_def Plus_def dest!: matches_bytes split: if_splits)

text \<open>
  How MySQL and PostgreSQL read a quoted literal without backslash escapes: a quote inside is doubled,
  a single quote ends it. The result is the value and what follows the literal.
\<close>

fun sql_literal_body :: "string \<Rightarrow> (string \<times> string) option" where
  "sql_literal_body [] = None"
| "sql_literal_body [c] = (if c = CHR 0x27 then Some ([], []) else None)"
| "sql_literal_body (c # d # s) =
     (if c = CHR 0x27
      then if d = CHR 0x27 then map_option (\<lambda>(v, r). (CHR 0x27 # v, r)) (sql_literal_body s)
           else Some ([], d # s)
      else map_option (\<lambda>(v, r). (c # v, r)) (sql_literal_body (d # s)))"

definition sql_literal :: "string \<Rightarrow> (string \<times> string) option" where
  "sql_literal s = (case s of [] \<Rightarrow> None | c # s' \<Rightarrow> if c = CHR 0x27 then sql_literal_body s' else None)"

lemma replace_quote:
  "replace_all (c # s) [CHR 0x27] [CHR 0x27, CHR 0x27] =
     (if c = CHR 0x27 then [CHR 0x27, CHR 0x27] else [c]) @ replace_all s [CHR 0x27] [CHR 0x27, CHR 0x27]"
  by (simp add: replace_all.simps [of "c # s"])

lemma sql_literal_body_skip:
  "c \<noteq> CHR 0x27 \<Longrightarrow> sql_literal_body (c # s) = map_option (\<lambda>(v, r). (c # v, r)) (sql_literal_body s)"
  by (cases s) auto

lemma sql_literal_body_quoted:
  "rest = [] \<or> hd rest \<noteq> CHR 0x27 \<Longrightarrow>
   sql_literal_body (replace_all v [CHR 0x27] [CHR 0x27, CHR 0x27] @ CHR 0x27 # rest) = Some (v, rest)"
proof (induction v)
  case Nil
  then show ?case by (cases rest) (auto simp: replace_all.simps)
next
  case (Cons c v)
  then show ?case by (auto simp: replace_quote sql_literal_body_skip)
qed

section \<open>Properties\<close>

text \<open>Quoting is injection-free: a SQL reader that starts at the quoted value reads back exactly the
  value, whatever bytes it holds, and continues with the text the agent put after it.\<close>

lemma sqlQuote_roundtrip:
  assumes "rest = [] \<or> hd rest \<noteq> CHR 0x27"
  shows "sql_literal (sqlQuote v @ rest) = Some (v, rest)"
  using sql_literal_body_quoted [OF assms] by (simp add: sqlQuote_def sql_literal_def)

lemma sqlQuote_roundtrip_witness:
  "sql_literal (sqlQuote [CHR 0x27, CHR '';'', CHR ''x''] @ '' WITH'') = Some ([CHR 0x27, CHR '';'', CHR ''x''], '' WITH'')"
  by (rule sqlQuote_roundtrip) simp

text \<open>C3. Every path the agent accepts as a site path lies strictly below the configured site root:
  its cleaned components properly extend the root's and hold no \<open>..\<close>. With no site root configured
  it is a path the site input package allows, so never a system tree or a bare home directory.\<close>

theorem isAllowedSitePath_confined:
  assumes "isAllowedSitePath r path"
  shows "''..'' \<notin> set (path_elems path) \<and>
    (if siteRootDir r = [] then RootPathAllowed (path_clean path) = nil
     else rooted (siteRootDir r) \<and> (\<exists>rest. rest \<noteq> [] \<and> path_elems path = path_elems (siteRootDir r) @ rest))"
proof -
  from assms have valid: "isValidPath path" by (auto simp: isAllowedSitePath_def split: if_splits)
  then have rp: "rooted path" by (rule isValidPath_rooted)
  show ?thesis
  proof (cases "siteRootDir r = []")
    case True
    with assms path_elems_no_dotdot [OF rp] show ?thesis
      by (auto simp: isAllowedSitePath_def split: if_splits)
  next
    case False
    with assms have below: "has_prefix (path_clean path) (path_clean (siteRootDir r) @ ''/'')"
      by (auto simp: isAllowedSitePath_def Let_def split: if_splits)
    with rp have rr: "rooted (siteRootDir r)" using below_rooted by blast
    from below_components [OF rp rr below] False rr path_elems_no_dotdot [OF rp] show ?thesis by auto
  qed
qed

lemma isAllowedSitePath_confined_witness:
  "''..'' \<notin> set (path_elems ''/srv/www/a'') \<and>
    (if siteRootDir \<lparr>siteRootDir = ''/srv/www'', backupDir = ''/b''\<rparr> = [] then RootPathAllowed (path_clean ''/srv/www/a'') = nil
     else rooted (siteRootDir \<lparr>siteRootDir = ''/srv/www'', backupDir = ''/b''\<rparr>) \<and>
       (\<exists>rest. rest \<noteq> [] \<and> path_elems ''/srv/www/a''
          = path_elems (siteRootDir \<lparr>siteRootDir = ''/srv/www'', backupDir = ''/b''\<rparr>) @ rest))"
  by (rule isAllowedSitePath_confined) code_simp

end
