(* ===== verification/AgentHost.thy ===== *)
theory AgentHost
  imports AgentPaths AgentClient
begin

text \<open>
  What the handlers of the agent are made of: \<open>internal/executor/executor.go\<close> and the surroundings of
  \<open>internal/agenthttp/router.go\<close>. The agent keeps no state of its own; its effects are actions on the machine.
  A task is a program in the state monad over the actions done so far, and the machine is a parameter, \<open>host\<close>,
  whose answers may depend on all of them: a theorem about an arbitrary \<open>host\<close> speaks of every machine.
\<close>

section \<open>The machine\<close>

datatype action =
    Shell "string list"  \<comment> \<open>a command and its arguments\<close>
  | ShellInput string "string list"  \<comment> \<open>with this standard input\<close>
  | ShellEnv "string list" "string list"  \<comment> \<open>with these variables\<close>
  | ShellToFile "string list" string "string list"  \<comment> \<open>with variables, standard output to a new file\<close>
  | ShellIn string "string list"  \<comment> \<open>in a directory\<close>
  | ShellAs nat nat string "string list"  \<comment> \<open>as this user and group, in a directory\<close>
  | MkdirAll string
  | WriteTo string string  \<comment> \<open>path and content\<close>
  | AppendTo string string
  | DropTree string  \<comment> \<open>\<open>os.RemoveAll\<close>\<close>
  | DropFile string  \<comment> \<open>\<open>os.Remove\<close>\<close>
  | MakeTemp string string  \<comment> \<open>\<open>os.MkdirTemp\<close>: directory and pattern\<close>
  | RenamePath string string
  | CopyTree string string  \<comment> \<open>\<open>copyPath\<close>\<close>
  | SanitizeTree string nat nat  \<comment> \<open>\<open>sanitizeRestoredTree\<close>\<close>

datatype stat_result = NoEntry | StatError string | StatFile int | StatDir int

datatype file_kind = RegularFile | DirFile | SymbolicLink | OtherFile

record host =
  h_do :: "action list \<Rightarrow> action \<Rightarrow> string \<times> goerror"
  h_stat :: "action list \<Rightarrow> string \<Rightarrow> stat_result"
  h_lstat :: "action list \<Rightarrow> string \<Rightarrow> (file_kind \<times> nat \<times> nat) option"  \<comment> \<open>kind, user and group\<close>
  h_read :: "action list \<Rightarrow> string \<Rightarrow> string option"  \<comment> \<open>\<open>os.ReadFile\<close>\<close>
  h_real :: "action list \<Rightarrow> string \<Rightarrow> string option"  \<comment> \<open>\<open>filepath.EvalSymlinks\<close>\<close>
  h_program :: "string \<Rightarrow> bool"  \<comment> \<open>\<open>exec.LookPath\<close>\<close>
  h_user :: "string \<Rightarrow> (string \<times> string) option"  \<comment> \<open>\<open>user.Lookup\<close>: the ids as texts\<close>
  h_port_free :: "action list \<Rightarrow> string \<Rightarrow> bool"  \<comment> \<open>\<open>net.Listen\<close> on that port\<close>
  h_files_below :: "action list \<Rightarrow> string \<Rightarrow> int"  \<comment> \<open>\<open>countFiles\<close>\<close>
  h_stamp :: string  \<comment> \<open>the time as \<open>20060102-150405\<close>\<close>
  h_in_90_days :: string  \<comment> \<open>the time in ninety days, RFC 3339\<close>
  h_hex :: string  \<comment> \<open>\<open>randomHex(8)\<close>\<close>

type_synonym 'a task = "(action list, 'a) state"

abbreviation give :: "'a \<Rightarrow> 'a task" where
  "give x \<equiv> State_Monad.return x"

definition perform :: "host \<Rightarrow> action \<Rightarrow> (string \<times> goerror) task" where
  "perform h a = State (\<lambda>past. (h_do h past a, past @ [a]))"

definition observe :: "(action list \<Rightarrow> 'a) \<Rightarrow> 'a task" where
  "observe q = State (\<lambda>past. (q past, past))"

section \<open>The executor\<close>

definition allowedCommands :: "string list" where
  "allowedCommands =
     [''systemctl'', ''service'', ''nginx'', ''certbot'', ''git'', ''tar'', ''tail'', ''openssl'', ''mysql'', ''mysqldump'',
      ''psql'', ''pg_dump'', ''stat'', ''mkdir'', ''echo'', ''aws'', ''sh'', ''bash'', ''cp'', ''mv'', ''find'', ''sysctl'', ''du'',
      ''cat'', ''wc'', ''head'', ''sleep'', ''curl'', ''apt-get'', ''apt-cache'', ''apt'', ''yum'', ''dnf'', ''apk'', ''docker'',
      ''node'', ''npm'', ''pip'', ''pip3'', ''go'', ''redis-server'', ''redis-cli'', ''memcached'', ''ufw'', ''supervisord'',
      ''mariadb'', ''php'', ''php8.4'', ''php8.3'', ''php8.2'', ''php8.1'', ''php8.0'', ''make'', ''gcc'', ''python3'', ''python'',
      ''fail2ban-client'', ''which'', ''chown'', ''journalctl'', ''test'']"

definition isAllowedCommand :: "string \<Rightarrow> bool" where
  "isAllowedCommand name \<longleftrightarrow> path_base name \<in> set allowedCommands"

text \<open>The guard all \<open>Run\<close> methods begin with and the wrapping of the error they end with.\<close>

definition guarded :: "string \<Rightarrow> (string \<times> goerror) task \<Rightarrow> (string \<times> goerror) task" where
  "guarded name m = (if isAllowedCommand name then m else give ([], Some (''command not allowed: '' @ name)))"

definition command :: "host \<Rightarrow> string \<Rightarrow> action \<Rightarrow> (string \<times> goerror) task" where
  "command h name a = do {
     (out, err) \<leftarrow> perform h a;
     give (out, map_option (\<lambda>e. name @ '' failed: '' @ e) err)
   }"

definition RunWithInput :: "host \<Rightarrow> string \<Rightarrow> string \<Rightarrow> string list \<Rightarrow> (string \<times> goerror) task" where
  "RunWithInput h inp name args = guarded name (command h name (ShellInput inp (name # args)))"

definition RunShell :: "host \<Rightarrow> string \<Rightarrow> string list \<Rightarrow> (string \<times> goerror) task" where
  "RunShell h name args = guarded name (command h name (Shell (name # args)))"

definition RunShellEnv :: "host \<Rightarrow> string list \<Rightarrow> string \<Rightarrow> string list \<Rightarrow> (string \<times> goerror) task" where
  "RunShellEnv h env name args = guarded name (command h name (ShellEnv env (name # args)))"

text \<open>The output file is opened with \<open>O_EXCL\<close>, so it must be new; the answer is what went to standard error.\<close>

definition RunToFileEnv :: "host \<Rightarrow> string list \<Rightarrow> string \<Rightarrow> string \<Rightarrow> string list \<Rightarrow> (string \<times> goerror) task" where
  "RunToFileEnv h env outPath name args = guarded name (do {
     entry \<leftarrow> observe (\<lambda>past. h_lstat h past outPath);
     if entry \<noteq> None then give ([], Some ''open output file: file exists'')
     else command h name (ShellToFile env outPath (name # args))
   })"

definition RunShellDir :: "host \<Rightarrow> string \<Rightarrow> string \<Rightarrow> string list \<Rightarrow> (string \<times> goerror) task" where
  "RunShellDir h dir name args = guarded name (command h name (ShellIn dir (name # args)))"

definition RunAsUser :: "host \<Rightarrow> nat \<Rightarrow> nat \<Rightarrow> string \<Rightarrow> string \<Rightarrow> string list \<Rightarrow> (string \<times> goerror) task" where
  "RunAsUser h uid gid dir name args = guarded name
     (if uid = 0 then give ([], Some ''RunAsUser refuses uid 0'') else command h name (ShellAs uid gid dir (name # args)))"

definition Mkdir :: "host \<Rightarrow> string \<Rightarrow> goerror task" where
  "Mkdir h path = do { (_, err) \<leftarrow> perform h (MkdirAll path); give err }"

definition WriteFile :: "host \<Rightarrow> string \<Rightarrow> string \<Rightarrow> goerror task" where
  "WriteFile h path content = do { (_, err) \<leftarrow> perform h (WriteTo path content); give err }"

text \<open>\<open>appendFileSecure\<close> of \<open>internal/agenthttp/email_manager.go\<close>.\<close>

definition append_file :: "host \<Rightarrow> string \<Rightarrow> string \<Rightarrow> goerror task" where
  "append_file h path content = do { (_, err) \<leftarrow> perform h (AppendTo path content); give err }"

definition RemoveAll :: "host \<Rightarrow> string \<Rightarrow> goerror task" where
  "RemoveAll h path = do { (_, err) \<leftarrow> perform h (DropTree path); give err }"

definition Stat :: "host \<Rightarrow> string \<Rightarrow> (bool \<times> goerror) task" where
  "Stat h path = observe (\<lambda>past. case h_stat h past path of
     NoEntry \<Rightarrow> (False, nil) | StatError err \<Rightarrow> (False, Some err) | _ \<Rightarrow> (True, nil))"

definition EnsureDir :: "host \<Rightarrow> string \<Rightarrow> goerror task" where
  "EnsureDir h path = do {
     (exists, err) \<leftarrow> Stat h path;
     if err \<noteq> nil then give err else if \<not> exists then Mkdir h path else give nil
   }"

section \<open>Requests and answers\<close>

record agent = router +
  nginxConfDir :: string
  logDir :: string
  authToken :: string
  allowStubSSL :: bool
  testAuth :: bool

abbreviation site_path_ok :: "agent \<Rightarrow> string \<Rightarrow> bool" where
  "site_path_ok r \<equiv> isAllowedSitePath (router.truncate r)"

text \<open>An error of Echo with its status and message, a JSON answer, or a panic, which closes the connection.\<close>

datatype agent_answer = Refused int string | Replied int json | NoAnswer

abbreviation bad :: "string \<Rightarrow> agent_answer task" where
  "bad msg \<equiv> give (Refused 400 msg)"

abbreviation broken :: "string \<Rightarrow> agent_answer task" where
  "broken msg \<equiv> give (Refused 500 msg)"

definition reply_plain :: "(string \<times> json) list \<Rightarrow> agent_answer task" where
  "reply_plain kvs = give (Replied 200 (JObj kvs))"

definition reply_ok :: "bool \<Rightarrow> (string \<times> json) list \<Rightarrow> agent_answer task" where
  "reply_ok b kvs = give (Replied 200 (JObj ((''ok'', JBool b) # kvs)))"

text \<open>A command whose failure is an answer with \<open>ok\<close> false.\<close>

definition run_or_tell ::
  "host \<Rightarrow> string \<Rightarrow> string list \<Rightarrow> string \<Rightarrow> (string \<Rightarrow> (string \<times> json) list) \<Rightarrow> agent_answer task" where
  "run_or_tell h name args what success = do {
     (out, err) \<leftarrow> RunShell h name args;
     if err \<noteq> nil then reply_ok False [(''message'', JStr (what @ '' failed: '' @ trim_space out))]
     else reply_ok True (success out)
   }"

text \<open>
  \<open>c.Bind\<close> of a JSON body: the empty body and \<open>null\<close> leave the zero values, anything but an object is an error; a
  field of another type is one too (\<open>str_field\<close> and the like are then \<open>None\<close>).
\<close>

fun bind_object :: "jtext \<Rightarrow> (string \<times> json) list option" where
  "bind_object (Json (JObj kvs)) = Some kvs"
| "bind_object (Json JNull) = Some []"
| "bind_object (Raw []) = Some []"
| "bind_object _ = None"

text \<open>The middleware in front of all tasks; \<open>header\<close> is the header \<open>Authorization\<close>.\<close>

definition requireAgentAuth :: "agent \<Rightarrow> string \<Rightarrow> agent_answer task \<Rightarrow> agent_answer task" where
  "requireAgentAuth r header task =
     (if testAuth r then task
      else if authToken r = [] then give (Refused 401 ''agent token not configured'')
      else if \<not> has_prefix header ''Bearer '' then give (Refused 401 ''missing agent token'')
      else if trim_prefix header ''Bearer '' \<noteq> authToken r then give (Refused 401 ''invalid agent token'')
      else task)"

section \<open>What a program does to the machine\<close>

text \<open>\<open>only P m\<close>: whatever the machine answers, \<open>m\<close> only adds actions that satisfy \<open>P\<close> to the history.\<close>

definition only :: "(action \<Rightarrow> bool) \<Rightarrow> 'a task \<Rightarrow> bool" where
  "only P m \<longleftrightarrow> (\<forall>past. \<exists>added. snd (run_state m past) = past @ added \<and> list_all P added)"

lemma onlyI:
  "(\<And>past. \<exists>added. snd (run_state m past) = past @ added \<and> list_all P added) \<Longrightarrow> only P m"
  by (simp add: only_def)

lemma onlyD:
  assumes "only P m"
  obtains added where "snd (run_state m past) = past @ added" and "list_all P added"
  using assms by (auto simp: only_def)

lemma only_start: "only P m \<Longrightarrow> list_all P (snd (run_state m []))"
  by (rule onlyD [of P m "[]"]) simp_all

lemma only_mono: "only P m \<Longrightarrow> (\<And>a. P a \<Longrightarrow> Q a) \<Longrightarrow> only Q m"
  unfolding only_def by (meson list.pred_mono_strong)

lemma only_give [intro, simp]: "only P (give x)"
  by (simp add: only_def)

lemma only_observe [intro, simp]: "only P (observe q)"
  by (simp add: only_def observe_def)

lemma only_perform [simp]: "only P (perform h a) \<longleftrightarrow> P a"
  by (simp add: only_def perform_def)

lemma only_bind [intro]:
  assumes m: "only P m" and f: "\<And>x. only P (f x)"
  shows "only P (State_Monad.bind m f)"
proof (rule onlyI)
  fix past
  obtain x past' where r: "run_state m past = (x, past')" by (cases "run_state m past")
  obtain a where a: "past' = past @ a" "list_all P a" using m r by (metis onlyD snd_conv)
  obtain b where "snd (run_state (f x) past') = past' @ b" "list_all P b" using f by (rule onlyD)
  with r a show "\<exists>added. snd (run_state (State_Monad.bind m f) past) = past @ added \<and> list_all P added"
    by (intro exI [of _ "a @ b"]) simp
qed

lemma only_if [intro]: "(b \<Longrightarrow> only P m) \<Longrightarrow> (\<not> b \<Longrightarrow> only P n) \<Longrightarrow> only P (if b then m else n)"
  by simp

lemma only_option [intro]:
  "(opt = None \<Longrightarrow> only P m) \<Longrightarrow> (\<And>x. opt = Some x \<Longrightarrow> only P (g x)) \<Longrightarrow>
   only P (case opt of None \<Rightarrow> m | Some x \<Rightarrow> g x)"
  by (simp split: option.splits)

lemma only_prod [intro]:
  "(\<And>x y. p = (x, y) \<Longrightarrow> only P (g x y)) \<Longrightarrow> only P (case p of (x, y) \<Rightarrow> g x y)"
  by (simp split: prod.splits)

lemma only_guarded: "(isAllowedCommand name \<Longrightarrow> only P m) \<Longrightarrow> only P (guarded name m)"
  by (simp add: guarded_def)

lemma only_command: "P a \<Longrightarrow> only P (command h name a)"
  unfolding command_def by (intro only_bind only_prod) simp_all

lemma only_RunWithInput: "(isAllowedCommand n \<Longrightarrow> P (ShellInput s (n # args))) \<Longrightarrow> only P (RunWithInput h s n args)"
  unfolding RunWithInput_def by (intro only_guarded only_command)

lemma only_RunShell: "(isAllowedCommand n \<Longrightarrow> P (Shell (n # args))) \<Longrightarrow> only P (RunShell h n args)"
  unfolding RunShell_def by (intro only_guarded only_command)

lemma only_RunShellEnv: "(isAllowedCommand n \<Longrightarrow> P (ShellEnv e (n # args))) \<Longrightarrow> only P (RunShellEnv h e n args)"
  unfolding RunShellEnv_def by (intro only_guarded only_command)

lemma only_RunToFileEnv:
  "(isAllowedCommand n \<Longrightarrow> P (ShellToFile e p (n # args))) \<Longrightarrow> only P (RunToFileEnv h e p n args)"
  unfolding RunToFileEnv_def by (intro only_guarded only_bind only_if only_command) simp_all

lemma only_RunAsUser:
  "(isAllowedCommand n \<Longrightarrow> u \<noteq> 0 \<Longrightarrow> P (ShellAs u g d (n # args))) \<Longrightarrow> only P (RunAsUser h u g d n args)"
  unfolding RunAsUser_def by (intro only_guarded only_if only_command) simp_all

lemma only_Mkdir: "P (MkdirAll p) \<Longrightarrow> only P (Mkdir h p)"
  unfolding Mkdir_def by (intro only_bind only_prod) simp_all

lemma only_WriteFile: "P (WriteTo p s) \<Longrightarrow> only P (WriteFile h p s)"
  unfolding WriteFile_def by (intro only_bind only_prod) simp_all

lemma only_append_file: "P (AppendTo p s) \<Longrightarrow> only P (append_file h p s)"
  unfolding append_file_def by (intro only_bind only_prod) simp_all

lemma only_RemoveAll: "P (DropTree p) \<Longrightarrow> only P (RemoveAll h p)"
  unfolding RemoveAll_def by (intro only_bind only_prod) simp_all

lemma only_Stat [intro, simp]: "only P (Stat h p)"
  by (simp add: Stat_def)

lemma only_EnsureDir: "P (MkdirAll p) \<Longrightarrow> only P (EnsureDir h p)"
  unfolding EnsureDir_def by (intro only_bind only_prod only_if only_Mkdir only_Stat) simp_all

lemma only_reply_ok [intro, simp]: "only P (reply_ok b kvs)"
  by (simp add: reply_ok_def)

lemma only_reply_plain [intro, simp]: "only P (reply_plain kvs)"
  by (simp add: reply_plain_def)

lemma only_run_or_tell:
  "(isAllowedCommand n \<Longrightarrow> P (Shell (n # args))) \<Longrightarrow> only P (run_or_tell h n args what f)"
  unfolding run_or_tell_def by (intro only_bind only_prod only_if only_RunShell) simp_all

lemmas only_rules = only_give only_observe only_Stat only_reply_ok only_reply_plain only_run_or_tell only_bind only_if only_option only_prod only_RunWithInput
  only_RunShell only_RunShellEnv only_RunToFileEnv only_RunAsUser only_Mkdir only_WriteFile only_append_file only_RemoveAll only_EnsureDir

text \<open>\<open>rm\<close> is no allowed command: what the handlers remove with it stays.\<close>

lemma rm_refused [simp]: "RunShell h ''rm'' args = give ([], Some ''command not allowed: rm'')"
proof -
  have "\<not> isAllowedCommand ''rm''" by (simp add: isAllowedCommand_def allowedCommands_def) code_simp
  then show ?thesis by (simp add: RunShell_def guarded_def)
qed

end
