(* ===== verification/AgentFiles.thy ===== *)
theory AgentFiles
  imports Vhost AgentHost
begin

text \<open>
  The files the agent writes into a new site: \<open>TemplateForRuntime\<close> of \<open>internal/nginx/template.go\<close> and the language
  helpers of \<open>internal/agenthttp/router.go\<close>, with the texts as the sources have them. A Go map of file names and
  contents is the list of its entries in the order of the source; Go visits them in any order.
\<close>

type_synonym starter = "(string \<times> string) list"

section \<open>Runtimes\<close>

definition goModFile :: "string \<Rightarrow> string" where
  "goModFile domain = lines [''module '' @ domain, [], ''go 1.22'', []]"

definition starter_node :: "string \<Rightarrow> int \<Rightarrow> starter" where
  "starter_node domain port =
    [(''package.json'',
      lines [''{'', ''  \"name\": '' @ quoted domain @ '','', ''  \"version\": \"1.0.0\",'', ''  \"scripts\": {'',
        ''    \"start\": \"node server.js\"'', ''  }'', ''}'']),
     (''server.js'',
      lines [''const http = require('http');'', ''const PORT = '' @ itoa port @ '';'',
        ''const server = http.createServer((req, res) => {'',
        ''  res.writeHead(200, { 'Content-Type': 'text/html' });'',
        ''  res.end('<h1>'' @ domain @ ''</h1><p>Site created via SigardaPanel</p>');'', ''});'',
        ''server.listen(PORT, () => console.log('Server running on port ' + PORT));'', []])]"

definition starter_python :: "string \<Rightarrow> int \<Rightarrow> starter" where
  "starter_python domain port =
    [(''app.py'',
      lines [''from http.server import HTTPServer, SimpleHTTPRequestHandler'', ''import os'', [],
        ''PORT = '' @ itoa port, [], ''class Handler(SimpleHTTPRequestHandler):'', ''    def do_GET(self):'',
        ''        self.send_response(200)'', ''        self.send_header('Content-type', 'text/html')'',
        ''        self.end_headers()'',
        ''        self.wfile.write(b'<h1>'' @ domain @ ''</h1><p>Site created via SigardaPanel</p>')'', [],
        ''if __name__ == '__main__':'', ''    os.chdir(os.path.dirname(os.path.abspath(__file__)))'',
        ''    HTTPServer(('127.0.0.1', PORT), Handler).serve_forever()'', []])]"

definition starter_go :: "string \<Rightarrow> int \<Rightarrow> starter" where
  "starter_go domain port =
    [(''go.mod'',
      goModFile domain),
     (''main.go'',
      lines [''package main'', [], ''import ('', ''    \"fmt\"'', ''    \"net/http\"'', '')'', [],
        ''func main() {'', ''    http.HandleFunc(\"/\", func(w http.ResponseWriter, r *http.Request) {'',
        ''        fmt.Fprintf(w, \"<h1>'' @ domain @ ''</h1><p>Site created via SigardaPanel</p>\")'', ''    })'',
        ''    fmt.Println(\"Server running on port '' @ itoa port @ ''\")'',
        ''    http.ListenAndServe(\":'' @ itoa port @ ''\", nil)'', ''}'', []])]"

text \<open>\<open>None\<close> is \<open>nil\<close>.\<close>

definition TemplateForRuntime :: "string \<Rightarrow> string \<Rightarrow> int \<Rightarrow> starter option" where
  "TemplateForRuntime runtime domain port =
     (if runtime = ''node'' then Some (starter_node domain port)
      else if runtime = ''python'' then Some (starter_python domain port)
      else if runtime = ''go'' then Some (starter_go domain port)
      else None)"

section \<open>Docker images\<close>

definition detectDockerLanguage :: "string \<Rightarrow> string" where
  "detectDockerLanguage name =
     (let img = to_lower name in
      if contains img ''nginx'' then ''static''
      else if contains img ''node'' \<or> contains img ''bun'' then ''node''
      else if contains img ''python'' then ''python''
      else if contains img ''php'' then ''php''
      else if contains img ''golang'' \<or> contains img ''go:'' then ''go''
      else if contains img ''ruby'' then ''ruby''
      else if contains img ''java'' \<or> contains img ''temurin'' then ''java''
      else if contains img ''rust'' then ''rust''
      else ''static'')"

definition hello_node :: "string \<Rightarrow> starter" where
  "hello_node domain =
    [(''package.json'',
      lines [''{'', ''  \"name\": '' @ quoted domain @ '','', ''  \"version\": \"1.0.0\",'',
        ''  \"scripts\": { \"start\": \"node server.js\" }'', ''}'']),
     (''server.js'',
      lines [''const http = require('http');'', ''const PORT = process.env.PORT || 3000;'',
        ''const server = http.createServer((req, res) => {'',
        ''  res.writeHead(200, { 'Content-Type': 'text/html' });'',
        ''  res.end('<h1>'' @ domain @ ''</h1><p>Hello from Node.js '' @ [CHR 0xF0, CHR 0x9F, CHR 0x9A, CHR 0x80] @ ''</p><p>Runtime: Docker</p>');'',
        ''});'', ''server.listen(PORT, '0.0.0.0', () => console.log('Listening on port ' + PORT));'', []])]"

definition hello_python :: "string \<Rightarrow> starter" where
  "hello_python domain =
    [(''app.py'',
      lines [''from http.server import HTTPServer, SimpleHTTPRequestHandler'', ''import os'', [],
        ''PORT = int(os.environ.get('PORT', 8000))'', [], ''class Handler(SimpleHTTPRequestHandler):'',
        ''    def do_GET(self):'', ''        self.send_response(200)'',
        ''        self.send_header('Content-type', 'text/html')'', ''        self.end_headers()'',
        ''        self.wfile.write(b'<h1>'' @ domain @ ''</h1><p>Hello from Python '' @ [CHR 0xF0, CHR 0x9F, CHR 0x90, CHR 0x8D] @ ''</p><p>Runtime: Docker</p>')'',
        [], ''if __name__ == '__main__':'', ''    os.chdir(os.path.dirname(os.path.abspath(__file__)))'',
        ''    HTTPServer(('0.0.0.0', PORT), Handler).serve_forever()'', []]),
     (''requirements.txt'',
      [])]"

definition hello_php :: "string \<Rightarrow> starter" where
  "hello_php domain =
    [(''index.php'',
      lines [''<!DOCTYPE html>'', ''<html>'', ''<head><title>'' @ domain @ ''</title></head>'', ''<body>'',
        ''  <h1><?php echo '' @ [CHR 0x27] @ domain @ [CHR 0x27] @ ''; ?></h1>'',
        ''  <p>Hello from PHP '' @ [CHR 0xF0, CHR 0x9F, CHR 0x90, CHR 0x98] @ ''</p>'',
        ''  <p>Runtime: Docker</p>'', ''</body>'', ''</html>'', []])]"

definition hello_go :: "string \<Rightarrow> starter" where
  "hello_go domain =
    [(''main.go'',
      lines [''package main'', [], ''import ('', ''    \"fmt\"'', ''    \"net/http\"'', ''    \"os\"'', '')'', [],
        ''func main() {'', ''    http.HandleFunc(\"/\", func(w http.ResponseWriter, r *http.Request) {'',
        ''        fmt.Fprintf(w, \"<h1>'' @ domain @ ''</h1><p>Hello from Go '' @ [CHR 0xF0, CHR 0x9F, CHR 0x90, CHR 0xB9] @ ''</p><p>Runtime: Docker</p>\")'',
        ''    })'', ''    port := os.Getenv(\"PORT\")'', ''    if port == \"\" {'',
        [CHR 0x09, CHR 0x09, CHR 0x09] @ ''port = \"8080\"'', [CHR 0x09, CHR 0x09] @ ''}'',
        ''    fmt.Println(\"Listening on port\", port)'', ''    http.ListenAndServe(\":\"+port, nil)'', ''}'', []]),
     (''go.mod'',
      lines [''module '' @ replace_all domain ''.'' ''-'', [], ''go 1.22'', []])]"

definition hello_ruby :: "string \<Rightarrow> starter" where
  "hello_ruby domain =
    [(''app.rb'',
      lines [''require 'webrick'' @ [CHR 0x27], [],
        ''server = WEBrick::HTTPServer.new(Port: ENV['PORT'] || 3000, BindAddress: '0.0.0.0')'', [],
        ''server.mount_proc '/' do |req, res|'',
        ''  res.body = '<h1>'' @ domain @ ''</h1><p>Hello from Ruby '' @ [CHR 0xF0, CHR 0x9F, CHR 0x92, CHR 0x8E] @ ''</p><p>Runtime: Docker</p>'' @ [CHR 0x27],
        ''end'', [], ''trap('INT') { server.shutdown }'', ''server.start'', []]),
     (''Gemfile'',
      lines [''source 'https://rubygems.org'' @ [CHR 0x27], []])]"

definition hello_java :: "string \<Rightarrow> starter" where
  "hello_java domain =
    [(''Main.java'',
      lines [''import com.sun.net.httpserver.HttpServer;'', ''import java.net.InetSocketAddress;'', [],
        ''public class Main {'', ''    public static void main(String[] args) throws Exception {'',
        ''        int port = Integer.parseInt(System.getenv().getOrDefault(\"PORT\", \"8080\"));'',
        ''        HttpServer server = HttpServer.create(new InetSocketAddress(port), 0);'',
        ''        server.createContext(\"/\", exchange -> {'',
        ''            String resp = \"<h1>'' @ domain @ ''</h1><p>Hello from Java '' @ [CHR 0xE2, CHR 0x98, CHR 0x95] @ ''</p><p>Runtime: Docker</p>\";'',
        ''            exchange.sendResponseHeaders(200, resp.getBytes().length);'',
        ''            exchange.getResponseBody().write(resp.getBytes());'',
        ''            exchange.getResponseBody().close();'', ''        });'',
        ''        System.out.println(\"Listening on port \" + port);'', ''        server.start();'', ''    }'',
        ''}'', []])]"

definition hello_rust :: "string \<Rightarrow> starter" where
  "hello_rust domain =
    [(''main.rs'',
      lines [''use std::net::TcpListener;'', ''use std::io::{Read, Write};'', [], ''fn main() {'',
        ''    let port = std::env::var(\"PORT\").unwrap_or_else(|_| \"8080\".to_string());'',
        ''    let listener = TcpListener::bind(format!(\"0.0.0.0:{}\", port)).unwrap();'',
        ''    println!(\"Listening on port {}\", port);'', [], ''    for stream in listener.incoming() {'',
        ''        if let Ok(mut stream) = stream {'',
        ''            let body = \"<h1>'' @ domain @ ''</h1><p>Hello from Rust '' @ [CHR 0xF0, CHR 0x9F, CHR 0xA6, CHR 0x80] @ ''</p><p>Runtime: Docker</p>\";'',
        ''            let response = format!(\"HTTP/1.1 200 OK'' @ [CHR 0x5C] @ ''r'' @ [CHR 0x5C] @ ''nContent-Length: {}'' @ [CHR 0x5C] @ ''r'' @ [CHR 0x5C] @ ''n'' @ [CHR 0x5C] @ ''r'' @ [CHR 0x5C] @ ''n{}\", body.len(), body);'',
        ''            stream.write_all(response.as_bytes()).ok();'', ''        }'', ''    }'', ''}'', []])]"

definition hello_static :: "string \<Rightarrow> starter" where
  "hello_static domain =
    []"

definition dockerHelloWorld :: "string \<Rightarrow> string \<Rightarrow> starter" where
  "dockerHelloWorld language domain =
     (case map_of [(''node'', hello_node), (''python'', hello_python), (''php'', hello_php), (''go'', hello_go),
        (''ruby'', hello_ruby), (''java'', hello_java), (''rust'', hello_rust)] language of
        Some files \<Rightarrow> files domain
      | None \<Rightarrow> hello_static domain)"

definition dockerContainerPort :: "string \<Rightarrow> int" where
  "dockerContainerPort language =
     (if language = ''node'' \<or> language = ''ruby'' then 3000
      else if language = ''python'' then 8000
      else if language = ''go'' \<or> language = ''java'' \<or> language = ''rust'' then 8080
      else 80)"

definition app_languages :: "string list" where
  "app_languages = [''node'', ''python'', ''go'', ''ruby'', ''java'', ''rust'']"

definition dockerMountTarget :: "string \<Rightarrow> string \<Rightarrow> string" where
  "dockerMountTarget language name =
     (if contains (to_lower name) ''nginx'' then ''/usr/share/nginx/html''
      else if language = ''php'' then ''/var/www/html''
      else if language \<in> set app_languages then ''/app''
      else ''/var/www/html'')"

definition dockerWorkDir :: "string \<Rightarrow> string" where
  "dockerWorkDir language = (if language \<in> set app_languages then ''/app'' else ''/'')"

definition dockerDefaultCmd :: "string \<Rightarrow> string" where
  "dockerDefaultCmd language =
     (case map_of
        [(''node'', ''npm install && node server.js''),
         (''python'', ''pip install -r requirements.txt 2>/dev/null; python3 app.py''),
         (''go'', ''go run main.go''),
         (''ruby'', ''bundle install 2>/dev/null; ruby app.rb''),
         (''java'', ''javac Main.java && java Main''),
         (''rust'', ''rustc main.rs -o /app/main && /app/main'')] language of
        Some cmd \<Rightarrow> cmd | None \<Rightarrow> [])"

end
