(* ===== verification/AgentSites.thy ===== *)
theory AgentSites
  imports AgentFiles
begin

text \<open>
  The tasks of \<open>internal/agenthttp/router.go\<close> about a site: \<open>siteCreateTask\<close>, \<open>siteDeleteTask\<close>, \<open>nginxReloadTask\<close>,
  \<open>sslIssueTask\<close>, \<open>sslRenewTask\<close>, \<open>logsReadTask\<close> and \<open>commandExecTask\<close>. A task gets the router's settings, the machine
  and the request body.
\<close>

section \<open>Names of backups\<close>

definition name_byte :: "char \<Rightarrow> bool" where
  "name_byte c \<longleftrightarrow> in_range 97 122 c \<or> is_digit c \<or> c \<in> set ''.-_''"

fun sanitize_scan :: "bool \<Rightarrow> string \<Rightarrow> string" where
  "sanitize_scan lastDash [] = []"
| "sanitize_scan lastDash (c # s) =
     (if name_byte c then c # sanitize_scan False s
      else if \<not> lastDash then CHR ''-'' # sanitize_scan True s
      else sanitize_scan True s)"

definition sanitizeBackupName :: "string \<Rightarrow> string" where
  "sanitizeBackupName s = trim (\<lambda>c. c \<in> set ''-_.'') (sanitize_scan False (trim_space (to_lower s)))"

section \<open>Creating a site\<close>

text \<open>Go's \<open>%\<close>, whose sign is that of the dividend.\<close>

definition go_rem :: "int \<Rightarrow> int \<Rightarrow> int" where
  "go_rem a b = (if a < 0 then - ((- a) mod b) else a mod b)"

record site_create_payload =
  scp_site_id :: int
  scp_name :: string
  scp_domain :: string
  scp_runtime :: string
  scp_root :: string
  scp_port :: int
  scp_proxy_pass :: string
  scp_php_version :: string
  scp_php_ini :: string
  scp_image :: string
  scp_language :: string
  scp_container :: string
  scp_ports :: string
  scp_env :: string
  scp_volume :: string
  scp_restart :: string

definition bind_site_create :: "jtext \<Rightarrow> site_create_payload option" where
  "bind_site_create body = do {
     kvs \<leftarrow> bind_object body;
     i \<leftarrow> int_field kvs ''site_id'';
     name \<leftarrow> str_field kvs ''name'';
     domain \<leftarrow> str_field kvs ''domain'';
     runtime \<leftarrow> str_field kvs ''runtime'';
     root \<leftarrow> str_field kvs ''root_path'';
     port \<leftarrow> int_field kvs ''port'';
     proxy \<leftarrow> str_field kvs ''proxy_pass_url'';
     version \<leftarrow> str_field kvs ''php_version'';
     ini \<leftarrow> str_field kvs ''php_ini'';
     img \<leftarrow> str_field kvs ''docker_image'';
     language \<leftarrow> str_field kvs ''docker_language'';
     container \<leftarrow> str_field kvs ''docker_name'';
     ports \<leftarrow> str_field kvs ''docker_ports'';
     env \<leftarrow> str_field kvs ''docker_env'';
     volume \<leftarrow> str_field kvs ''docker_volume'';
     restart \<leftarrow> str_field kvs ''docker_restart'';
     Some \<lparr>scp_site_id = i, scp_name = name, scp_domain = domain, scp_runtime = runtime, scp_root = root,
       scp_port = port, scp_proxy_pass = proxy, scp_php_version = version, scp_php_ini = ini, scp_image = img,
       scp_language = language, scp_container = container, scp_ports = ports, scp_env = env,
       scp_volume = volume, scp_restart = restart\<rparr>
   }"

text \<open>A loop over starter files that leaves existing files alone; a failed write is ignored.\<close>

fun write_missing :: "host \<Rightarrow> string \<Rightarrow> starter \<Rightarrow> unit task" where
  "write_missing h root [] = give ()"
| "write_missing h root ((fname, content) # files) = do {
     (_, err) \<leftarrow> RunShell h ''test'' [''-f'', path_join root fname];
     _ \<leftarrow> (if err \<noteq> nil then WriteFile h (path_join root fname) content else give nil);
     write_missing h root files
   }"

definition starter_files :: "site_create_payload \<Rightarrow> starter" where
  "starter_files p =
     (case TemplateForRuntime (scp_runtime p) (scp_domain p) (scp_port p) of
        Some files \<Rightarrow> files
      | None \<Rightarrow> [(''index.html'', ''<h1>'' @ scp_domain p @ ''</h1><p>Site created via SigardaPanel</p>'')])"

definition container_name :: "site_create_payload \<Rightarrow> string" where
  "container_name p =
     (if scp_container p = [] then ''site-'' @ map (\<lambda>c. if c = CHR '' '' then CHR ''-'' else c) (scp_name p)
      else scp_container p)"

text \<open>The port mapping of the container; the availability of the default one is not checked.\<close>

definition auto_ports :: "site_create_payload \<Rightarrow> string list" where
  "auto_ports p = map (\<lambda>i. itoa (10000 + go_rem (wrap64 (scp_site_id p + int i)) 50000)) [0..<100]"

definition published_port :: "host \<Rightarrow> site_create_payload \<Rightarrow> int \<Rightarrow> string task" where
  "published_port h p inside =
     (let auto = itoa (10000 + go_rem (scp_site_id p) 50000) @ '':'' @ itoa inside in
      if scp_ports p \<noteq> [] then do {
        free \<leftarrow> observe (\<lambda>past. h_port_free h past (hd (split_on CHR '':'' (scp_ports p))));
        give (if free then scp_ports p else auto)
      }
      else do {
        port \<leftarrow> observe (\<lambda>past. List.find (h_port_free h past) (auto_ports p));
        give (case port of Some port \<Rightarrow> port @ '':'' @ itoa inside | None \<Rightarrow> auto)
      })"

text \<open>A repeated option for the non-empty trimmed parts of a list.\<close>

definition each_option :: "string \<Rightarrow> char \<Rightarrow> string \<Rightarrow> string list" where
  "each_option flag sep s =
     concat (map (\<lambda>v. if trim_space v \<noteq> [] then [flag, trim_space v] else []) (split_on sep s))"

definition docker_run_args :: "site_create_payload \<Rightarrow> string \<Rightarrow> string \<Rightarrow> string list" where
  "docker_run_args p language port =
     [''run'', ''-d'', ''--name'', container_name p, ''--security-opt'', ''no-new-privileges'', ''--restart'',
      (if scp_restart p \<noteq> [] \<and> scp_restart p \<noteq> ''no'' then scp_restart p else ''unless-stopped''), ''-p'', port]
     @ (if scp_root p \<noteq> [] then [''-v'', scp_root p @ '':'' @ dockerMountTarget language (scp_image p)] else [])
     @ each_option ''-v'' CHR '','' (scp_volume p)
     @ each_option ''-e'' CHR 0x0A (scp_env p)
     @ (if language \<noteq> ''static'' \<and> language \<noteq> [] then [''-w'', dockerWorkDir language] else [])
     @ [scp_image p]
     @ (let cmd = dockerDefaultCmd language in
        if cmd \<noteq> [] \<and> \<not> (contains (scp_env p) ''CMD='' \<or> contains (scp_env p) ''ENTRYPOINT='')
        then [''/bin/sh'', ''-c'', cmd] else [])"

text \<open>The branch for the runtime \<open>docker\<close>: \<open>Inl\<close> ends the request, \<open>Inr\<close> is the proxy URL of the site.\<close>

definition docker_site :: "host \<Rightarrow> site_create_payload \<Rightarrow> (agent_answer + string) task" where
  "docker_site h p0 =
     (let p = (if scp_image p0 = [] then p0\<lparr>scp_image := ''nginx:alpine''\<rparr> else p0) in
      case DockerOptions (scp_image p) (scp_container p) (scp_ports p) (scp_env p) (scp_volume p) (scp_restart p)
             (scp_language p) (scp_root p) of
        Some err \<Rightarrow> give (Inl (Refused 400 err))
      | None \<Rightarrow>
          let language = (if scp_language p = [] then detectDockerLanguage (scp_image p) else scp_language p) in do {
            _ \<leftarrow> (if contains (to_lower (scp_image p)) ''bitnami'' then give ()
                  else do {
                    _ \<leftarrow> Mkdir h (scp_root p);
                    write_missing h (scp_root p) (dockerHelloWorld language (scp_domain p))
                  });
            case DockerName (container_name p) of
              Some err \<Rightarrow> give (Inl (Refused 400 err))
            | None \<Rightarrow> do {
                (pullOut, pullErr) \<leftarrow> RunShell h ''docker'' [''pull'', scp_image p];
                if pullErr \<noteq> nil then give (Inl (Refused 500 (''docker pull failed: '' @ trim_space pullOut)))
                else do {
                  _ \<leftarrow> RunShell h ''docker'' [''rm'', ''-f'', container_name p];
                  port \<leftarrow> published_port h p (dockerContainerPort language);
                  _ \<leftarrow> (if scp_root p \<noteq> [] then Mkdir h (scp_root p) else give nil);
                  (createOut, createErr) \<leftarrow> RunShell h ''docker'' (docker_run_args p language port);
                  if createErr \<noteq> nil then give (Inl (Refused 500 (''docker create failed: '' @ trim_space createOut)))
                  else give (Inr (if scp_proxy_pass p = [] then ''http://127.0.0.1:'' @ hd (split_on CHR '':'' port)
                                  else scp_proxy_pass p))
                }
              }
          })"

definition given_text :: "string \<Rightarrow> string option" where
  "given_text s = (if s = [] then None else Some s)"

text \<open>The row the agent generates the configuration for.\<close>

definition agent_site :: "site_create_payload \<Rightarrow> string \<Rightarrow> Site" where
  "agent_site p proxy = \<lparr>ste_id = 0, ste_server = 0, ste_name = [], ste_domain = scp_domain p,
     ste_runtime = scp_runtime p, ste_root_path = scp_root p, ste_status = [], ste_owner = None,
     ste_ssl_status = None, ste_ssl_issuer = None, ste_ssl_expires_at = None, ste_ssl_last_check = None,
     ste_git_repo = None, ste_git_branch = None, ste_git_commit = None, ste_webhook_secret = None,
     ste_managed_by = None, ste_system_user = None, ste_conf_file = None, ste_proxy_pass_url = given_text proxy,
     ste_app_port = None, ste_app_command = None, ste_app_status = None, ste_app_memory_max = None,
     ste_php_version = given_text (scp_php_version p), ste_php_ini = given_text (scp_php_ini p),
     ste_backup_provider = None, ste_created_at = 0, ste_updated_at = 0\<rparr>"

definition generated :: "host \<Rightarrow> site_create_payload \<Rightarrow> string \<Rightarrow> (string + string) task" where
  "generated h p proxy = observe (\<lambda>past. snd (GenerateVhost
     (\<lambda>path. case h_stat h past path of NoEntry \<Rightarrow> False | StatError _ \<Rightarrow> False | _ \<Rightarrow> True)
     True (agent_site p proxy) (scp_port p) None))"

text \<open>From the configuration to the answer.\<close>

definition install_vhost :: "agent \<Rightarrow> host \<Rightarrow> site_create_payload \<Rightarrow> string \<Rightarrow> agent_answer task" where
  "install_vhost r h p proxy = do {
     config \<leftarrow> generated h p proxy;
     case config of
       Inl err \<Rightarrow> bad (''config gen failed: '' @ err)
     | Inr config \<Rightarrow> do {
         let path = path_join (nginxConfDir r) (scp_domain p @ ''.conf'');
         err \<leftarrow> WriteFile h path config;
         case err of
           Some err \<Rightarrow> broken (''write nginx config failed: '' @ err)
         | None \<Rightarrow> do {
             (_, err) \<leftarrow> RunShell h ''test'' [''-f'', ''/etc/nginx/ssl/sigardapanel.crt''];
             _ \<leftarrow> (if err = nil then RunShell h ''bash'' [''/root/SigardaPanel-Enterprise/scripts/regenerate-ssl.sh'']
                   else give ([], nil));
             _ \<leftarrow> RunShell h ''rm'' [''-f'', path_join ''/etc/logrotate.d'' (''sigarda_'' @ scp_domain p)];
             (out, err) \<leftarrow> RunShell h ''nginx'' [''-t''];
             if err \<noteq> nil then broken (''nginx test failed: '' @ trim_space out)
             else do {
               _ \<leftarrow> RunShell h ''nginx'' [''-s'', ''reload''];
               reply_ok True
                 [(''message'', JStr (''site '' @ scp_domain p @ '' created (runtime: '' @ scp_runtime p @ '')'')),
                  (''root_path'', JStr (scp_root p)), (''nginx_config'', JStr path), (''proxy_pass_url'', JStr proxy),
                  (''nginx_test_output'', JStr (trim_space out))]
             }
           }
       }
   }"

definition siteCreateTask :: "agent \<Rightarrow> host \<Rightarrow> jtext \<Rightarrow> agent_answer task" where
  "siteCreateTask r h body =
     (case bind_site_create body of
        None \<Rightarrow> bad ''invalid payload''
      | Some p \<Rightarrow>
          if \<not> isValidDomain (scp_domain p) \<or> \<not> site_path_ok r (scp_root p) then bad ''invalid domain or path''
          else do {
            err \<leftarrow> Mkdir h (scp_root p);
            case err of
              Some err \<Rightarrow> broken (''mkdir failed: '' @ err)
            | None \<Rightarrow> do {
                _ \<leftarrow> write_missing h (scp_root p) (starter_files p);
                proxy \<leftarrow> (if scp_runtime p = ''docker'' then docker_site h p else give (Inr (scp_proxy_pass p)));
                case proxy of
                  Inl answer \<Rightarrow> give answer
                | Inr proxy \<Rightarrow> install_vhost r h p proxy
              }
          })"

section \<open>Deleting a site\<close>

definition appServiceName :: "int \<Rightarrow> string" where
  "appServiceName siteID = ''sigarda-app-'' @ itoa siteID"

text \<open>The guarded \<open>RemoveAll\<close> of \<open>removeGeneratedFile\<close>.\<close>

definition remove_generated :: "host \<Rightarrow> string \<Rightarrow> string \<Rightarrow> goerror task" where
  "remove_generated h path root =
     (case removeGeneratedFile path root of Inl err \<Rightarrow> give (Some err) | Inr p \<Rightarrow> RemoveAll h p)"

definition stop_service :: "host \<Rightarrow> int \<Rightarrow> string list task" where
  "stop_service h i = do {
     (_, err) \<leftarrow> RunShell h ''systemctl'' [''stop'', appServiceName i];
     if err \<noteq> nil then give []
     else do {
       _ \<leftarrow> RunShell h ''systemctl'' [''disable'', appServiceName i];
       _ \<leftarrow> RunShell h ''rm'' [''-f'', ''/etc/systemd/system/'' @ appServiceName i @ ''.service''];
       _ \<leftarrow> RunShell h ''systemctl'' [''daemon-reload''];
       give [''app service'']
     }
   }"

text \<open>A step with the entries it adds to \<open>cleaned\<close> and to \<open>errs\<close>.\<close>

definition outcome_entries :: "string \<Rightarrow> string \<Rightarrow> goerror \<Rightarrow> string list \<times> string list" where
  "outcome_entries what label err = (case err of None \<Rightarrow> ([what], []) | Some e \<Rightarrow> ([], [label @ '': '' @ e]))"

definition remove_htpasswd :: "host \<Rightarrow> string \<Rightarrow> string list task" where
  "remove_htpasswd h domain = do {
     (_, err) \<leftarrow> Stat h (''/etc/nginx/.htpasswd_'' @ domain);
     if err \<noteq> nil then give []
     else do {
       _ \<leftarrow> RunShell h ''rm'' [''-f'', ''/etc/nginx/.htpasswd_'' @ domain];
       give [''htpasswd'']
     }
   }"

definition comma_list :: "string \<Rightarrow> string list \<Rightarrow> string" where
  "comma_list sep ws = concat (case ws of [] \<Rightarrow> [] | w # ws \<Rightarrow> w # map (\<lambda>v. sep @ v) ws)"

definition delete_site :: "agent \<Rightarrow> host \<Rightarrow> int \<Rightarrow> string \<Rightarrow> string \<Rightarrow> agent_answer task" where
  "delete_site r h i domain root = do {
     service \<leftarrow> stop_service h i;
     err \<leftarrow> remove_generated h (path_join (nginxConfDir r) (domain @ ''.conf'')) (nginxConfDir r);
     let (conf, confErr) = outcome_entries ''nginx config'' ''nginx config'' err;
     (_, err) \<leftarrow> RunShell h ''rm'' [''-f'', ''/etc/logrotate.d/sigarda_'' @ domain];
     let rotate = (if err = nil then [''logrotate config''] else []);
     _ \<leftarrow> (if h_program h ''certbot''
           then RunShell h ''certbot'' [''delete'', ''--non-interactive'', ''--cert-name'', domain] else give ([], nil));
     err \<leftarrow> RemoveAll h root;
     let (files, filesErr) = outcome_entries ''site files'' ''site root'' err;
     passwords \<leftarrow> remove_htpasswd h domain;
     _ \<leftarrow> RunShell h ''rm'' [''-f'', path_join (logDir r) (domain @ ''.access.log'')];
     _ \<leftarrow> RunShell h ''rm'' [''-f'', path_join (logDir r) (domain @ ''.error.log'')];
     _ \<leftarrow> RemoveAll h (path_join (path_join (backupDir r) ''sites'') (sanitizeBackupName domain));
     _ \<leftarrow> RemoveAll h (''/var/www/certbot/'' @ domain);
     (out, err) \<leftarrow> RunShell h ''nginx'' [''-t''];
     let testErr = (if err \<noteq> nil then [''nginx test: '' @ trim_space out] else []);
     _ \<leftarrow> RunShell h ''systemctl'' [''reload'', ''nginx''];
     let cleaned = service @ conf @ rotate @ files @ passwords;
     let errs = confErr @ filesErr @ testErr;
     reply_ok True
       [(''message'', JStr (''site '' @ domain @ '' deleted. Cleaned up: '' @ comma_list '', '' cleaned
           @ (if errs \<noteq> [] then ''. Errors: '' @ comma_list ''; '' errs else []))),
        (''cleaned'', JArr (map JStr cleaned)), (''errors'', JArr (map JStr errs))]
   }"

definition siteDeleteTask :: "agent \<Rightarrow> host \<Rightarrow> jtext \<Rightarrow> agent_answer task" where
  "siteDeleteTask r h body =
     (case (do {
        kvs \<leftarrow> bind_object body;
        i \<leftarrow> int_field kvs ''site_id'';
        domain \<leftarrow> str_field kvs ''domain'';
        root \<leftarrow> str_field kvs ''root_path'';
        Some (i, domain, root)
      }) of
        None \<Rightarrow> bad ''invalid payload''
      | Some (i, domain, root) \<Rightarrow>
          if \<not> isValidDomain domain \<or> \<not> site_path_ok r root then bad ''invalid domain or path''
          else delete_site r h i domain root)"

section \<open>Web server, certificates and logs\<close>

definition nginxReloadTask :: "host \<Rightarrow> agent_answer task" where
  "nginxReloadTask h = do {
     (out, err) \<leftarrow> RunShell h ''systemctl'' [''reload'', ''nginx''];
     case err of
       Some e \<Rightarrow> reply_ok True
         [(''message'', JStr ''nginx reload attempted but systemctl may be unavailable''),
          (''warning'', JStr (trim_space (out @ '' '' @ e)))]
     | None \<Rightarrow> reply_ok True [(''message'', JStr ''nginx reloaded''), (''output'', JStr (trim_space out))]
   }"

text \<open>The part after the first \<open>=\<close> of what \<open>openssl\<close> prints.\<close>

definition end_date :: "string \<times> goerror \<Rightarrow> string" where
  "end_date answer = (case answer of
     (out, None) \<Rightarrow> (case split2 CHR ''='' out of [_, v] \<Rightarrow> trim_space v | _ \<Rightarrow> [])
   | _ \<Rightarrow> [])"

definition sslIssueTask :: "agent \<Rightarrow> host \<Rightarrow> jtext \<Rightarrow> agent_answer task" where
  "sslIssueTask r h body =
     (case (do {
        kvs \<leftarrow> bind_object body;
        i \<leftarrow> int_field kvs ''site_id'';
        domain \<leftarrow> str_field kvs ''domain'';
        email \<leftarrow> str_field kvs ''email'';
        Some (domain, email)
      }) of
        None \<Rightarrow> bad ''invalid payload''
      | Some (domain, email) \<Rightarrow>
          if \<not> isValidDomain domain then bad ''invalid domain''
          else if \<not> h_program h ''certbot'' then
            if \<not> allowStubSSL r then give (Refused 424 ''certbot not installed'')
            else reply_ok True
              [(''message'', JStr (''certbot not installed on this host '' @ [CHR 0xE2, CHR 0x80, CHR 0x94] @ '' returning stub cert'')),
               (''expires_at'', JStr (h_in_90_days h)), (''stub'', JBool True)]
          else do {
            let webroot = ''/var/www/certbot/'' @ domain;
            _ \<leftarrow> Mkdir h webroot;
            (out, err) \<leftarrow> RunShell h ''certbot''
              [''certonly'', ''--webroot'', ''-w'', webroot, ''-d'', domain, ''--email'', email, ''--agree-tos'',
               ''--no-eff-email'', ''--non-interactive''];
            if err \<noteq> nil then broken (''certbot failed: '' @ out)
            else do {
              let cert = ''/etc/letsencrypt/live/'' @ domain @ ''/fullchain.pem'';
              expiry \<leftarrow> RunShell h ''openssl'' [''x509'', ''-enddate'', ''-noout'', ''-in'', cert];
              reply_ok True
                [(''message'', JStr ''certificate issued''), (''domain'', JStr domain), (''cert_path'', JStr cert),
                 (''expires'', JStr (end_date expiry))]
            }
          })"

definition sslRenewTask :: "agent \<Rightarrow> host \<Rightarrow> jtext \<Rightarrow> agent_answer task" where
  "sslRenewTask r h body =
     (case (do {
        kvs \<leftarrow> bind_object body;
        i \<leftarrow> int_field kvs ''site_id'';
        str_field kvs ''domain''
      }) of
        None \<Rightarrow> bad ''invalid payload''
      | Some domain \<Rightarrow>
          if \<not> isValidDomain domain then bad ''invalid domain''
          else if \<not> h_program h ''certbot'' then
            if \<not> allowStubSSL r then give (Refused 424 ''certbot not installed'')
            else reply_ok True
              [(''message'', JStr (''certbot not installed '' @ [CHR 0xE2, CHR 0x80, CHR 0x94] @ '' stub response'')),
               (''stub'', JBool True)]
          else do {
            (out, err) \<leftarrow> RunShell h ''certbot'' [''renew'', ''--cert-name'', domain, ''--non-interactive''];
            if err \<noteq> nil then broken (''certbot renew failed: '' @ out)
            else do {
              _ \<leftarrow> RunShell h ''nginx'' [''-s'', ''reload''];
              reply_ok True
                [(''message'', JStr ''certificate renewed''), (''domain'', JStr domain), (''output'', JStr out)]
            }
          })"

definition trim_newlines :: "string \<Rightarrow> string" where
  "trim_newlines s = rev (dropWhile (\<lambda>c. c = CHR 0x0A) (rev s))"

definition logsReadTask :: "agent \<Rightarrow> host \<Rightarrow> jtext \<Rightarrow> agent_answer task" where
  "logsReadTask r h body =
     (case (do {
        kvs \<leftarrow> bind_object body;
        i \<leftarrow> int_field kvs ''site_id'';
        domain \<leftarrow> str_field kvs ''domain'';
        ty \<leftarrow> str_field kvs ''type'';
        n \<leftarrow> int_field kvs ''lines'';
        Some (domain, ty, n)
      }) of
        None \<Rightarrow> bad ''invalid payload''
      | Some (domain, ty, n0) \<Rightarrow>
          let n = (if n0 \<le> 0 \<or> n0 > 10000 then 100 else n0) in
          if ty \<noteq> ''access'' \<and> ty \<noteq> ''error'' then bad ''type must be access or error''
          else if \<not> isValidDomain domain then bad ''invalid domain''
          else do {
            let path = path_join (logDir r) (domain @ ''.'' @ ty @ ''.log'');
            (exists, _) \<leftarrow> Stat h path;
            if \<not> exists then reply_ok True
              [(''path'', JStr path), (''lines'', JArr []), (''message'', JStr ''log file does not exist yet'')]
            else do {
              (out, err) \<leftarrow> RunShell h ''tail'' [''-n'', itoa n, path];
              if err \<noteq> nil then broken (''tail failed: '' @ trim_space out)
              else reply_ok True
                [(''path'', JStr path),
                 (''lines'', JArr (map JStr (if trim_newlines out = [] then []
                    else split_on CHR 0x0A (trim_newlines out))))]
            }
          })"

section \<open>Commands\<close>

text \<open>The timeout of the request is read and never used.\<close>

definition commandExecTask :: "host \<Rightarrow> jtext \<Rightarrow> agent_answer task" where
  "commandExecTask h body =
     (case (do {
        kvs \<leftarrow> bind_object body;
        cmd \<leftarrow> str_field kvs ''command'';
        timeout \<leftarrow> int_field kvs ''timeout'';
        Some cmd
      }) of
        None \<Rightarrow> bad ''invalid payload''
      | Some cmd \<Rightarrow>
          if cmd = [] then bad ''command is required''
          else do {
            (out, err) \<leftarrow> RunShell h ''bash'' [''-c'', cmd];
            case err of
              Some e \<Rightarrow> reply_ok False
                [(''output'', JStr (trim_space out)), (''error'', JStr e), (''command'', JStr cmd)]
            | None \<Rightarrow> reply_ok True [(''output'', JStr (trim_space out)), (''command'', JStr cmd)]
          })"

end
