(* ===== verification/AgentDeploy.thy ===== *)
theory AgentDeploy
  imports AgentSites
begin

text \<open>
  The tasks that run a site's own code: \<open>siteDeployTask\<close> of \<open>internal/agenthttp/router.go\<close>, \<open>git.go\<close> and
  \<open>app_process.go\<close>. What the owner of a site controls (hooks, install scripts, the command of an application) runs
  under the owner's account.
\<close>

section \<open>Accounts and git\<close>

definition fileOwner :: "host \<Rightarrow> string \<Rightarrow> (nat \<times> nat) option task" where
  "fileOwner h path = observe (\<lambda>past. map_option snd (h_lstat h past path))"

definition runGit :: "host \<Rightarrow> string \<Rightarrow> string list \<Rightarrow> (string \<times> goerror) task" where
  "runGit h root args = do {
     let gitDir = path_join root ''.git'';
     entry \<leftarrow> observe (\<lambda>past. h_lstat h past gitDir);
     if map_option fst entry = Some SymbolicLink then give ([], Some ''refusing to run git: .git is a symlink'')
     else do {
       owner \<leftarrow> fileOwner h gitDir;
       case owner of
         Some (uid, gid) \<Rightarrow>
           if uid \<noteq> 0 then RunAsUser h uid gid root ''git'' ([''-C'', root] @ args)
           else RunShell h ''git'' ([''-C'', root] @ args)
       | None \<Rightarrow> RunShell h ''git'' ([''-C'', root] @ args)
     }
   }"

text \<open>\<open>strconv.ParseUint(s, 10, 32)\<close>.\<close>

definition parse_uint32 :: "string \<Rightarrow> nat option" where
  "parse_uint32 s =
     (if s \<noteq> [] \<and> list_all is_digit s \<and> digits_val s < 4294967296 then Some (nat (digits_val s)) else None)"

definition siteUserIDs :: "host \<Rightarrow> string \<Rightarrow> (nat \<times> nat) option" where
  "siteUserIDs h name =
     (if SystemUser name \<noteq> nil then None
      else case h_user h name of
             None \<Rightarrow> None
           | Some (u, g) \<Rightarrow>
               if u = ''0'' then None
               else (case (parse_uint32 u, parse_uint32 g) of (Some a, Some b) \<Rightarrow> Some (a, b) | _ \<Rightarrow> None))"

definition nonempty_lines :: "string \<Rightarrow> string list" where
  "nonempty_lines out = filter (\<lambda>l. l \<noteq> []) (split_on CHR 0x0A (trim_space out))"

text \<open>A slice that was only appended to is \<open>null\<close> when nothing was.\<close>

definition appended :: "json list \<Rightarrow> json" where
  "appended xs = (if xs = [] then JNull else JArr xs)"

text \<open>The check of the tasks of \<open>git.go\<close>; \<open>Stat\<close> has no error for a missing directory.\<close>

definition with_repository :: "host \<Rightarrow> string \<Rightarrow> agent_answer task \<Rightarrow> agent_answer task \<Rightarrow> agent_answer task" where
  "with_repository h root otherwise task = do {
     (_, err) \<leftarrow> Stat h (path_join root ''.git'');
     if err \<noteq> nil then otherwise else task
   }"

definition gitBranchesTask :: "agent \<Rightarrow> host \<Rightarrow> string \<Rightarrow> agent_answer task" where
  "gitBranchesTask r h root =
     (if root = [] \<or> \<not> site_path_ok r root then bad ''invalid root_path''
      else with_repository h root
        (reply_ok False [(''branches'', JArr []), (''error'', JStr ''not a git repository'')])
        (do {
          (currentOut, _) \<leftarrow> runGit h root [''branch'', ''--show-current''];
          (out, err) \<leftarrow> runGit h root [''branch'', ''-a'', ''--format'', ''%(refname:short)''];
          case err of
            Some e \<Rightarrow> reply_ok False [(''branches'', JArr []), (''error'', JStr e)]
          | None \<Rightarrow> reply_ok True
              [(''branches'', appended (map JStr (filter (\<lambda>l. l \<noteq> [])
                  (map trim_space (split_on CHR 0x0A (trim_space out)))))),
               (''current'', JStr (trim_space currentOut))]
        }))"

text \<open>\<open>strings.SplitN(line, "|", 5)\<close> with five parts.\<close>

fun split_n :: "nat \<Rightarrow> char \<Rightarrow> string \<Rightarrow> string list" where
  "split_n 0 d s = []"
| "split_n (Suc 0) d s = [s]"
| "split_n (Suc (Suc n)) d s = (case split2 d s of [a, b] \<Rightarrow> a # split_n (Suc n) d b | _ \<Rightarrow> [s])"

definition commit_json :: "string \<Rightarrow> json list" where
  "commit_json line = (case split_n 5 CHR ''|'' line of
     [hash, short, msg, author, date] \<Rightarrow> [JObj [(''hash'', JStr hash), (''short'', JStr short),
       (''message'', JStr msg), (''author'', JStr author), (''date'', JStr date)]]
   | _ \<Rightarrow> [])"

text \<open>\<open>n\<close> is the query parameter \<open>lines\<close>, which is not checked.\<close>

definition gitLogTask :: "agent \<Rightarrow> host \<Rightarrow> string \<Rightarrow> string \<Rightarrow> agent_answer task" where
  "gitLogTask r h root n =
     (if root = [] \<or> \<not> site_path_ok r root then bad ''invalid root_path''
      else with_repository h root
        (reply_ok False [(''commits'', JArr []), (''error'', JStr ''not a git repository'')])
        (do {
          (out, err) \<leftarrow> runGit h root [''log'', ''--pretty=format:%H|%h|%s|%an|%ai'', ''-n'', if n = [] then ''20'' else n];
          case err of
            Some e \<Rightarrow> reply_ok False [(''commits'', JArr []), (''error'', JStr e)]
          | None \<Rightarrow>
              let commits = concat (map commit_json (nonempty_lines out))
              in reply_ok True [(''commits'', appended commits), (''total'', JNum (int (length commits)))]
        }))"

text \<open>The two tasks that move a working tree: root path and a reference of the payload, checked alike.\<close>

definition with_reference ::
  "agent \<Rightarrow> host \<Rightarrow> jtext \<Rightarrow> string \<Rightarrow> string \<Rightarrow> string \<Rightarrow> (string \<Rightarrow> string \<Rightarrow> agent_answer task) \<Rightarrow> agent_answer task" where
  "with_reference r h body key missing invalid task =
     (case (do {
        kvs \<leftarrow> bind_object body;
        root \<leftarrow> str_field kvs ''root_path'';
        ref \<leftarrow> str_field kvs key;
        Some (root, ref)
      }) of
        None \<Rightarrow> bad ''invalid payload''
      | Some (root, ref) \<Rightarrow>
          if root = [] \<or> \<not> site_path_ok r root then bad ''invalid root_path''
          else if ref = [] then bad missing
          else if \<not> isValidGitRef ref then bad invalid
          else with_repository h root (bad ''not a git repository'') (task root ref))"

definition gitRollbackTask :: "agent \<Rightarrow> host \<Rightarrow> jtext \<Rightarrow> agent_answer task" where
  "gitRollbackTask r h body =
     with_reference r h body ''commit'' ''commit hash is required'' ''invalid commit hash'' (\<lambda>root commit. do {
       (_, err) \<leftarrow> runGit h root [''cat-file'', ''-t'', commit];
       if err \<noteq> nil then bad ''invalid commit hash''
       else do {
         (branchOut, _) \<leftarrow> runGit h root [''branch'', ''--show-current''];
         let current = (if trim_space branchOut = [] then ''main'' else trim_space branchOut);
         let backup = ''backup-before-rollback-'' @ take 8 commit;
         _ \<leftarrow> runGit h root [''branch'', backup, current];
         (out, err) \<leftarrow> runGit h root [''checkout'', commit];
         if err \<noteq> nil then reply_ok False [(''message'', JStr (''rollback failed: '' @ trim_space out))]
         else do {
           (headOut, _) \<leftarrow> runGit h root [''rev-parse'', ''--short'', ''HEAD''];
           reply_ok True [(''message'', JStr (''rolled back to '' @ commit)), (''new_head'', JStr (trim_space headOut)),
             (''backup_branch'', JStr backup)]
         }
       }
     })"

definition gitCheckoutTask :: "agent \<Rightarrow> host \<Rightarrow> jtext \<Rightarrow> agent_answer task" where
  "gitCheckoutTask r h body =
     with_reference r h body ''branch'' ''branch is required'' ''invalid branch name'' (\<lambda>root branch. do {
       _ \<leftarrow> runGit h root [''fetch'', ''--all''];
       (out, err) \<leftarrow> runGit h root [''checkout'', branch];
       if err \<noteq> nil then reply_ok False [(''message'', JStr (''checkout failed: '' @ trim_space out))]
       else do {
         (pullOut, _) \<leftarrow> runGit h root [''pull'', ''origin'', branch];
         reply_ok True [(''message'', JStr (''switched to branch '' @ branch)), (''pull'', JStr (trim_space pullOut))]
       }
     })"

section \<open>Deployment\<close>

record deploy_request =
  dp_site_id :: int
  dp_repo :: string
  dp_branch :: string
  dp_root :: string
  dp_runtime :: string
  dp_app_status :: string
  dp_app_port :: int
  dp_system_user :: string

definition bind_deploy :: "jtext \<Rightarrow> deploy_request option" where
  "bind_deploy body = do {
     kvs \<leftarrow> bind_object body;
     i \<leftarrow> int_field kvs ''site_id'';
     domain \<leftarrow> str_field kvs ''domain'';
     repo \<leftarrow> str_field kvs ''repo'';
     branch \<leftarrow> str_field kvs ''branch'';
     root \<leftarrow> str_field kvs ''root_path'';
     runtime \<leftarrow> str_field kvs ''runtime'';
     status \<leftarrow> str_field kvs ''app_status'';
     port \<leftarrow> int_field kvs ''app_port'';
     cmd \<leftarrow> str_field kvs ''app_command'';
     user \<leftarrow> str_field kvs ''system_user'';
     mem \<leftarrow> int_field kvs ''app_memory_max'';
     Some \<lparr>dp_site_id = i, dp_repo = repo, dp_branch = branch, dp_root = root, dp_runtime = runtime,
       dp_app_status = status, dp_app_port = port, dp_system_user = user\<rparr>
   }"

text \<open>The working tree: \<open>Some\<close> is the answer that ends the request.\<close>

definition update_tree :: "host \<Rightarrow> deploy_request \<Rightarrow> agent_answer option task" where
  "update_tree h p = do {
     (exists, _) \<leftarrow> Stat h (dp_root p);
     isGitRepo \<leftarrow> (if exists then do { (g, _) \<leftarrow> Stat h (path_join (dp_root p) ''.git''); give g } else give False);
     if \<not> exists \<or> \<not> isGitRepo then do {
       (out, err) \<leftarrow> RunShell h ''git'' [''clone'', ''-b'', dp_branch p, ''--'', dp_repo p, dp_root p];
       if err \<noteq> nil then give (Some (Refused 500 (''git clone failed: '' @ trim_space out)))
       else case siteUserIDs h (dp_system_user p) of
              None \<Rightarrow> give None
            | Some (u, g) \<Rightarrow> do {
                _ \<leftarrow> RunShell h ''chown'' [''-R'', nat_digits u @ '':'' @ nat_digits g, dp_root p];
                give None
              }
     }
     else do {
       (out, err) \<leftarrow> runGit h (dp_root p) [''pull'', ''origin'', dp_branch p];
       give (if err \<noteq> nil then Some (Refused 500 (''git pull failed: '' @ trim_space out)) else None)
     }
   }"

text \<open>The dependencies by runtime: a file that decides whether to install, the command and its arguments.\<close>

definition installers :: "(string \<times> string \<times> string \<times> string list) list" where
  "installers =
     [(''node'', ''package.json'', ''npm'', [''install'', ''--production'']),
      (''python'', ''requirements.txt'', ''pip'', [''install'', ''-r'', ''requirements.txt'']),
      (''go'', ''go.mod'', ''go'', [''mod'', ''download''])]"

definition install_dependencies :: "host \<Rightarrow> deploy_request \<Rightarrow> string task" where
  "install_dependencies h p =
     (case map_of installers (dp_runtime p) of
        None \<Rightarrow> give []
      | Some (file, cmd, args) \<Rightarrow> do {
          (_, err) \<leftarrow> Stat h (path_join (dp_root p) file);
          if err \<noteq> nil then give []
          else case siteUserIDs h (dp_system_user p) of
                 None \<Rightarrow> give ''dependency install skipped: site has no valid non-root system_user''
               | Some (u, g) \<Rightarrow> do {
                   (out, _) \<leftarrow> RunAsUser h u g (dp_root p) cmd args;
                   give (trim_space out)
                 }
        })"

definition is_active :: "host \<Rightarrow> string \<Rightarrow> bool task" where
  "is_active h svc = do {
     (out, _) \<leftarrow> RunShell h ''systemctl'' [''is-active'', svc];
     give (trim_space out = ''active'')
   }"

definition last_logs :: "host \<Rightarrow> string \<Rightarrow> string \<Rightarrow> string task" where
  "last_logs h svc n = do {
     (logs, _) \<leftarrow> RunShell h ''journalctl'' [''-u'', svc, ''-n'', n, ''--no-pager''];
     give (trim_space logs)
   }"

definition restart_app :: "host \<Rightarrow> deploy_request \<Rightarrow> string task" where
  "restart_app h p =
     (if dp_app_status p = ''running'' \<and> dp_app_port p > 0 then do {
        let svc = appServiceName (dp_site_id p);
        (_, err) \<leftarrow> RunShell h ''systemctl'' [''restart'', svc];
        if err \<noteq> nil then give ''app restart skipped (service not found)''
        else do {
          active \<leftarrow> is_active h svc;
          if active then give (''app restarted on port '' @ itoa (dp_app_port p))
          else do { logs \<leftarrow> last_logs h svc ''10''; give (''app restart failed: '' @ logs) }
        }
      }
      else give [])"

definition siteDeployTask :: "agent \<Rightarrow> host \<Rightarrow> jtext \<Rightarrow> agent_answer task" where
  "siteDeployTask r h body =
     (case bind_deploy body of
        None \<Rightarrow> bad ''invalid payload''
      | Some p \<Rightarrow>
          if \<not> isValidGitURL (dp_repo p) then bad ''invalid repo URL''
          else if dp_branch p \<noteq> [] \<and> \<not> isValidGitRef (dp_branch p) then bad ''invalid branch name''
          else if \<not> site_path_ok r (dp_root p) then bad ''invalid root_path''
          else do {
            failed \<leftarrow> update_tree h p;
            case failed of
              Some answer \<Rightarrow> give answer
            | None \<Rightarrow> do {
                (commitOut, _) \<leftarrow> runGit h (dp_root p) [''rev-parse'', ''HEAD''];
                let commit = trim_space commitOut;
                installOutput \<leftarrow> install_dependencies h p;
                restartMsg \<leftarrow> restart_app h p;
                reply_ok True ([(''message'', JStr (''deployed '' @ dp_branch p @ ''@'' @ commit)), (''commit'', JStr commit)]
                  @ (if installOutput \<noteq> [] then [(''install_output'', JStr installOutput)] else [])
                  @ (if restartMsg \<noteq> [] then [(''restart'', JStr restartMsg)] else []))
              }
          })"

section \<open>Application units\<close>

definition systemd_escape :: "char \<Rightarrow> string" where
  "systemd_escape c =
     (if c = CHR 0x5C then [CHR 0x5C, CHR 0x5C]
      else if c = CHR 0x22 then [CHR 0x5C, CHR 0x22]
      else if c = CHR ''%'' then ''%%''
      else if c = CHR ''$'' then ''$$''
      else if c = CHR 0x0A then [CHR 0x5C, CHR ''n'']
      else if c = CHR 0x0D then [CHR 0x5C, CHR ''r'']
      else [c])"

definition systemdQuote :: "string \<Rightarrow> string" where
  "systemdQuote s = [CHR 0x22] @ concat (map systemd_escape s) @ [CHR 0x22]"

text \<open>Go's integer division, which rounds towards zero; the product before it may wrap.\<close>

definition go_quot :: "int \<Rightarrow> int \<Rightarrow> int" where
  "go_quot a b = (if a < 0 then - ((- a) div b) else a div b)"

definition systemdUnitContent :: "string \<Rightarrow> string \<Rightarrow> string \<Rightarrow> string \<Rightarrow> int \<Rightarrow> int \<Rightarrow> string" where
  "systemdUnitContent domain systemUser rootPath cmd port memoryMaxMB =
     (let mem = (if memoryMaxMB \<le> 0 then 512 else memoryMaxMB);
          high = go_quot (wrap64 (mem * 3)) 4;
          userLine = (if systemUser \<noteq> [] then ''User='' @ systemUser else [])
      in lines
        [''[Unit]'',
         ''Description=SigardaPanel App: '' @ domain,
         ''After=network.target postgresql.service redis-server.service'',
         [],
         ''[Service]'',
         ''Type=simple'',
         ''WorkingDirectory='' @ rootPath,
         ''ExecStart=/bin/sh -lc '' @ systemdQuote (''exec '' @ cmd),
         ''Restart=always'',
         ''RestartSec=5'',
         userLine,
         ''EnvironmentFile=-'' @ rootPath @ ''/.env'',
         ''Environment=PORT='' @ itoa port,
         ''Environment=NODE_ENV=production'',
         ''Environment=PATH=/root/.hermes/node/bin:/usr/local/bin:/usr/bin:/bin:/usr/sbin:/sbin'',
         ''# Resource limits (hemat resource)'',
         ''MemoryMax='' @ itoa mem @ ''M'',
         ''MemoryHigh='' @ itoa high @ ''M'',
         ''CPUWeight=50'',
         ''TasksMax=256'',
         ''# Security hardening'',
         ''NoNewPrivileges=true'',
         ''PrivateTmp=true'',
         [],
         ''[Install]'',
         ''WantedBy=multi-user.target'',
         []])"

definition validateAppUnitInput :: "host \<Rightarrow> string \<Rightarrow> string \<Rightarrow> string \<Rightarrow> string \<Rightarrow> goerror" where
  "validateAppUnitInput h domain systemUser rootPath cmd =
     (if \<not> isValidDomain domain then Some ''invalid domain''
      else case RootPath rootPath of
        Some err \<Rightarrow> Some err
      | None \<Rightarrow>
          if SystemUser systemUser \<noteq> nil then Some ''a valid non-root system_user is required to run an app''
          else if (case h_user h systemUser of None \<Rightarrow> True | Some (u, g) \<Rightarrow> u = ''0'')
            then Some (''system_user '' @ quoted systemUser @ '' does not exist or is root'')
          else if cmd = [] \<or> length cmd > 1024 then Some ''invalid app command''
          else if list_ex (\<lambda>c. byte c < 0x20 \<or> byte c = 0x7F) cmd
            then Some ''app command must be a single line without control characters''
          else nil)"

record app_request =
  ap_site_id :: int
  ap_domain :: string
  ap_root :: string
  ap_user :: string
  ap_port :: int
  ap_command :: string
  ap_memory :: int

definition bind_app :: "jtext \<Rightarrow> app_request option" where
  "bind_app body = do {
     kvs \<leftarrow> bind_object body;
     i \<leftarrow> int_field kvs ''site_id'';
     domain \<leftarrow> str_field kvs ''domain'';
     root \<leftarrow> str_field kvs ''root_path'';
     user \<leftarrow> str_field kvs ''system_user'';
     port \<leftarrow> int_field kvs ''app_port'';
     cmd \<leftarrow> str_field kvs ''app_command'';
     mem \<leftarrow> int_field kvs ''app_memory_max'';
     Some \<lparr>ap_site_id = i, ap_domain = domain, ap_root = root, ap_user = user, ap_port = port, ap_command = cmd,
       ap_memory = mem\<rparr>
   }"

definition unit_path :: "int \<Rightarrow> string" where
  "unit_path i = path_join ''/etc/systemd/system'' (appServiceName i @ ''.service'')"

definition unit_text :: "app_request \<Rightarrow> string" where
  "unit_text p = systemdUnitContent (ap_domain p) (ap_user p) (ap_root p) (ap_command p) (ap_port p) (ap_memory p)"

text \<open>The answer after a start or a restart.\<close>

definition app_verdict :: "host \<Rightarrow> int \<Rightarrow> string \<Rightarrow> string \<Rightarrow> agent_answer task" where
  "app_verdict h i failure success = do {
     active \<leftarrow> is_active h (appServiceName i);
     if \<not> active then do {
       logs \<leftarrow> last_logs h (appServiceName i) ''20'';
       reply_ok False [(''app_status'', JStr ''errored''), (''message'', JStr failure), (''logs'', JStr logs)]
     }
     else reply_ok True [(''app_status'', JStr ''running''), (''message'', JStr success)]
   }"

definition appStartTask :: "agent \<Rightarrow> host \<Rightarrow> jtext \<Rightarrow> agent_answer task" where
  "appStartTask r h body =
     (case bind_app body of
        None \<Rightarrow> bad ''invalid payload''
      | Some p \<Rightarrow>
          if \<not> isValidDomain (ap_domain p) \<or> \<not> site_path_ok r (ap_root p) then bad ''invalid domain or path''
          else if ap_command p = [] \<or> ap_port p \<le> 0 then bad ''missing app command or port''
          else case validateAppUnitInput h (ap_domain p) (ap_user p) (ap_root p) (ap_command p) of
            Some err \<Rightarrow> bad err
          | None \<Rightarrow> do {
              err \<leftarrow> WriteFile h (unit_path (ap_site_id p)) (unit_text p);
              case err of
                Some err \<Rightarrow> broken (''write unit failed: '' @ err)
              | None \<Rightarrow> do {
                  (out, err) \<leftarrow> RunShell h ''systemctl'' [''daemon-reload''];
                  if err \<noteq> nil then broken (''daemon-reload failed: '' @ trim_space out)
                  else do {
                    _ \<leftarrow> RunShell h ''systemctl'' [''enable'', appServiceName (ap_site_id p)];
                    (out, err) \<leftarrow> RunShell h ''systemctl'' [''restart'', appServiceName (ap_site_id p)];
                    if err \<noteq> nil then broken (''start failed: '' @ trim_space out)
                    else app_verdict h (ap_site_id p) (''app '' @ ap_domain p @ '' failed to start'')
                      (''app '' @ ap_domain p @ '' started (port '' @ itoa (ap_port p) @ '')'')
                  }
                }
            })"

definition appStopTask :: "host \<Rightarrow> jtext \<Rightarrow> agent_answer task" where
  "appStopTask h body =
     (case (do {
        kvs \<leftarrow> bind_object body;
        i \<leftarrow> int_field kvs ''site_id'';
        domain \<leftarrow> str_field kvs ''domain'';
        Some (i, domain)
      }) of
        None \<Rightarrow> bad ''invalid payload''
      | Some (i, domain) \<Rightarrow> do {
          _ \<leftarrow> RunShell h ''systemctl'' [''stop'', appServiceName i];
          reply_ok True [(''app_status'', JStr ''stopped''), (''message'', JStr (''app '' @ domain @ '' stopped''))]
        })"

definition appRestartTask :: "agent \<Rightarrow> host \<Rightarrow> jtext \<Rightarrow> agent_answer task" where
  "appRestartTask r h body =
     (case bind_app body of
        None \<Rightarrow> bad ''invalid payload''
      | Some p \<Rightarrow> do {
          _ \<leftarrow> (if ap_command p \<noteq> [] \<and> ap_port p > 0 \<and> isValidDomain (ap_domain p) \<and> site_path_ok r (ap_root p)
                  \<and> validateAppUnitInput h (ap_domain p) (ap_user p) (ap_root p) (ap_command p) = nil
                then do {
                  err \<leftarrow> WriteFile h (unit_path (ap_site_id p)) (unit_text p);
                  if err = nil then RunShell h ''systemctl'' [''daemon-reload''] else give ([], nil)
                }
                else give ([], nil));
          (out, err) \<leftarrow> RunShell h ''systemctl'' [''restart'', appServiceName (ap_site_id p)];
          if err \<noteq> nil then broken (''restart failed: '' @ trim_space out)
          else app_verdict h (ap_site_id p) (''app '' @ ap_domain p @ '' failed to restart'')
            (''app '' @ ap_domain p @ '' restarted'')
        })"

end
