(* ===== verification/AgentBackups.thy ===== *)
theory AgentBackups
  imports AgentSites
begin

text \<open>
  The tasks of \<open>internal/agenthttp/router.go\<close> about backups and databases, and \<open>movePath\<close> of \<open>validate.go\<close>. The
  copying of a tree (\<open>copyPath\<close>) and the cleaning of an extracted one (\<open>sanitizeRestoredTree\<close>) are single actions here.
\<close>

section \<open>Payloads\<close>

record s3_config =
  s3_bucket :: string
  s3_endpoint :: string
  s3_region :: string
  s3_access :: string
  s3_secret :: string

text \<open>A pointer to a struct: \<open>Some None\<close> is \<open>nil\<close>.\<close>

definition bind_s3 :: "(string \<times> json) list \<Rightarrow> s3_config option option" where
  "bind_s3 kvs =
     (case map_of kvs ''s3_config'' of
        None \<Rightarrow> Some None
      | Some JNull \<Rightarrow> Some None
      | Some (JObj fs) \<Rightarrow> do {
          bucket \<leftarrow> str_field fs ''bucket'';
          endpoint \<leftarrow> str_field fs ''endpoint'';
          region \<leftarrow> str_field fs ''region'';
          access \<leftarrow> str_field fs ''access_key'';
          secret \<leftarrow> str_field fs ''secret_key'';
          Some (Some \<lparr>s3_bucket = bucket, s3_endpoint = endpoint, s3_region = region, s3_access = access,
            s3_secret = secret\<rparr>)
        }
      | Some _ \<Rightarrow> None)"

text \<open>The configuration when it names a bucket.\<close>

definition used_s3 :: "s3_config option \<Rightarrow> s3_config option" where
  "used_s3 c = (case c of Some c \<Rightarrow> if s3_bucket c \<noteq> [] then Some c else None | None \<Rightarrow> None)"

record dump_request =
  dr_name :: string
  dr_type :: string
  dr_user :: string
  dr_password :: string

fun bind_dump :: "json \<Rightarrow> dump_request option" where
  "bind_dump (JObj fs) = do {
     name \<leftarrow> str_field fs ''name'';
     ty \<leftarrow> str_field fs ''type'';
     user \<leftarrow> str_field fs ''user'';
     password \<leftarrow> str_field fs ''password'';
     Some \<lparr>dr_name = name, dr_type = ty, dr_user = user, dr_password = password\<rparr>
   }"
| "bind_dump JNull = Some \<lparr>dr_name = [], dr_type = [], dr_user = [], dr_password = []\<rparr>"
| "bind_dump _ = None"

definition bind_dumps :: "(string \<times> json) list \<Rightarrow> dump_request list option" where
  "bind_dumps kvs =
     (case map_of kvs ''databases'' of
        None \<Rightarrow> Some []
      | Some JNull \<Rightarrow> Some []
      | Some (JArr xs) \<Rightarrow> all_some (map bind_dump xs)
      | Some _ \<Rightarrow> None)"

section \<open>Names, dumps and uploads\<close>

definition buildBackupFileName :: "host \<Rightarrow> string \<Rightarrow> int \<Rightarrow> string \<Rightarrow> string" where
  "buildBackupFileName h kind backupID ext =
     (let k = sanitizeBackupName kind; k = (if k = [] then ''backup'' else k)
      in k @ ''_'' @ h_stamp h @ ''_'' @ itoa backupID @ ext)"

definition normalizeS3Endpoint :: "string \<Rightarrow> string" where
  "normalizeS3Endpoint endpoint =
     (let e = trim_space endpoint in
      if e = [] then e
      else if has_prefix e ''http://'' \<or> has_prefix e ''https://'' then e
      else ''https://'' @ e)"

definition unsupported_type :: string where
  "unsupported_type = ''unsupported database type''"

definition dumpDatabase ::
  "host \<Rightarrow> string \<Rightarrow> string \<Rightarrow> string \<Rightarrow> string \<Rightarrow> string \<Rightarrow> (string \<times> goerror) task" where
  "dumpDatabase h dbType dbUser dbPassword dbName dumpFile =
     (if dbType = ''mysql'' then
        RunToFileEnv h (if dbPassword \<noteq> [] then [''MYSQL_PWD='' @ dbPassword] else []) dumpFile ''mysqldump''
          [''-u'' @ dbUser, ''--no-tablespaces'', ''--single-transaction'', ''--quick'', ''--routines'', ''--triggers'', dbName]
      else if dbType = ''postgres'' then
        RunToFileEnv h [''PGPASSWORD='' @ dbPassword] dumpFile ''pg_dump''
          [''-U'' @ dbUser, ''-h'', ''localhost'', ''--no-owner'', ''--no-acl'', dbName]
      else give (unsupported_type, Some unsupported_type))"

definition aws_copy :: "host \<Rightarrow> s3_config \<Rightarrow> string \<Rightarrow> string \<Rightarrow> (string \<times> goerror) task" where
  "aws_copy h c src dst = RunShellEnv h
     [''AWS_ACCESS_KEY_ID='' @ s3_access c, ''AWS_SECRET_ACCESS_KEY='' @ s3_secret c] ''aws''
     [''s3'', ''cp'', src, dst, ''--endpoint-url'', normalizeS3Endpoint (s3_endpoint c), ''--region'', s3_region c]"

text \<open>The upload at the end: its failure does not fail the backup.\<close>

definition with_upload ::
  "host \<Rightarrow> s3_config option \<Rightarrow> string \<Rightarrow> string \<Rightarrow> string \<Rightarrow> (string \<times> json) list \<Rightarrow> agent_answer task" where
  "with_upload h s3 file target msg resp =
     (case used_s3 s3 of
        None \<Rightarrow> reply_ok True ((''message'', JStr msg) # resp)
      | Some c \<Rightarrow> do {
          let s3Path = ''s3://'' @ s3_bucket c @ target;
          (out, err) \<leftarrow> aws_copy h c file s3Path;
          if err \<noteq> nil then reply_ok True ((''message'', JStr msg) # resp @ [(''s3_upload_error'', JStr (trim_space out))])
          else reply_ok True ((''message'', JStr (msg @ '' and uploaded to S3'')) # resp @ [(''s3_path'', JStr s3Path)])
        })"

section \<open>Backups of a site\<close>

record backup_request =
  br_backup_id :: int
  br_domain :: string
  br_root :: string
  br_type :: string
  br_dumps :: "dump_request list"
  br_s3 :: "s3_config option"

definition bind_backup :: "jtext \<Rightarrow> backup_request option" where
  "bind_backup body = do {
     kvs \<leftarrow> bind_object body;
     i \<leftarrow> int_field kvs ''backup_id'';
     site \<leftarrow> int_field kvs ''site_id'';
     domain \<leftarrow> str_field kvs ''domain'';
     root \<leftarrow> str_field kvs ''root_path'';
     storage \<leftarrow> str_field kvs ''storage'';
     ty \<leftarrow> str_field kvs ''backup_type'';
     dumps \<leftarrow> bind_dumps kvs;
     s3 \<leftarrow> bind_s3 kvs;
     Some \<lparr>br_backup_id = i, br_domain = domain, br_root = root, br_type = ty, br_dumps = dumps, br_s3 = s3\<rparr>
   }"

definition backup_dir :: "backup_request \<Rightarrow> string" where
  "backup_dir p = path_join (br_root p) ''backups''"

definition backup_name :: "host \<Rightarrow> backup_request \<Rightarrow> string" where
  "backup_name h p = buildBackupFileName h (if br_type p = ''both'' \<or> br_dumps p \<noteq> [] then ''full'' else ''files'')
     (br_backup_id p) ''.tar.gz''"

definition backup_file :: "host \<Rightarrow> backup_request \<Rightarrow> string" where
  "backup_file h p = path_join (backup_dir p) (backup_name h p)"

definition tar_args :: "host \<Rightarrow> backup_request \<Rightarrow> string list" where
  "tar_args h p =
     [''-czf'', backup_file h p, ''--exclude=backups'', ''--exclude=node_modules'', ''--exclude=vendor'',
      ''--exclude=.git'', ''--exclude=.env'', ''--exclude=cache'', ''-C'', path_dir (br_root p), path_base (br_root p)]"

text \<open>From the written archive on. The error of \<open>tar\<close> is the first argument.\<close>

definition finish_backup :: "host \<Rightarrow> backup_request \<Rightarrow> goerror \<Rightarrow> string \<Rightarrow> agent_answer task" where
  "finish_backup h p err out =
     (if err \<noteq> nil then broken (''tar failed: '' @ trim_space out)
      else do {
        info \<leftarrow> observe (\<lambda>past. h_stat h past (backup_file h p));
        let resp = (\<lambda>sz. [(''path'', JStr (backup_file h p)), (''size_bytes'', JNum sz),
                      (''backup_id'', JNum (br_backup_id p))]);
        let upload = (\<lambda>sz. with_upload h (br_s3 p) (backup_file h p)
                       (''/sites/'' @ sanitizeBackupName (br_domain p) @ ''/'' @ backup_name h p) ''backup created'' (resp sz));
        case info of
          NoEntry \<Rightarrow> broken (''stat backup failed: '' @ ''stat '' @ backup_file h p @ '': no such file or directory'')
        | StatError e \<Rightarrow> broken (''stat backup failed: '' @ e)
        | StatFile sz \<Rightarrow> upload sz
        | StatDir sz \<Rightarrow> upload sz
      })"

text \<open>The loop over the databases: \<open>Some\<close> is the answer that ends the request.\<close>

fun dump_all :: "host \<Rightarrow> string \<Rightarrow> dump_request list \<Rightarrow> agent_answer option task" where
  "dump_all h dir [] = give None"
| "dump_all h dir (db # dbs) =
     (if \<not> isValidDBIdentifier (dr_name db) \<or> \<not> isValidDBIdentifier (dr_user db)
      then give (Some (Refused 400 ''invalid database payload''))
      else do {
        (out, err) \<leftarrow> dumpDatabase h (dr_type db) (dr_user db) (dr_password db) (dr_name db)
                        (path_join dir (sanitizeBackupName (dr_name db) @ ''.sql''));
        if err \<noteq> nil \<and> out = unsupported_type
        then give (Some (Refused 400 (''unsupported database type: '' @ dr_type db)))
        else if err \<noteq> nil then give (Some (Refused 500 (''database dump failed: '' @ trim_space out)))
        else dump_all h dir dbs
      })"

text \<open>
  With databases the error of \<open>tar\<close> goes to the variable declared by \<open>bundleDir, err :=\<close>, which ends with the block;
  the one tested after it is still \<open>nil\<close>. The temporary directory is removed when the handler returns.
\<close>

definition bundle_in :: "host \<Rightarrow> backup_request \<Rightarrow> string \<Rightarrow> agent_answer task" where
  "bundle_in h p bundleDir = do {
     err \<leftarrow> Mkdir h (path_join bundleDir ''database_dumps'');
     answer \<leftarrow> (case err of
       Some e \<Rightarrow> broken (''create dumps dir failed: '' @ e)
     | None \<Rightarrow> do {
         failed \<leftarrow> dump_all h (path_join bundleDir ''database_dumps'') (br_dumps p);
         case failed of
           Some answer \<Rightarrow> give answer
         | None \<Rightarrow> do {
             (out, shadowed) \<leftarrow> RunShell h ''tar'' (tar_args h p @ [''-C'', bundleDir, ''database_dumps'']);
             finish_backup h p nil out
           }
       });
     _ \<leftarrow> RemoveAll h bundleDir;
     give answer
   }"

definition bundle_backup :: "host \<Rightarrow> backup_request \<Rightarrow> agent_answer task" where
  "bundle_backup h p = do {
     (bundleDir, err) \<leftarrow> perform h (MakeTemp (backup_dir p) ''full-*'');
     case err of
       Some e \<Rightarrow> broken (''create bundle temp failed: '' @ e)
     | None \<Rightarrow> bundle_in h p bundleDir
   }"

definition files_backup :: "host \<Rightarrow> backup_request \<Rightarrow> agent_answer task" where
  "files_backup h p = do {
     (out, err) \<leftarrow> RunShell h ''tar'' (tar_args h p);
     finish_backup h p err out
   }"

definition backupCreateTask :: "agent \<Rightarrow> host \<Rightarrow> jtext \<Rightarrow> agent_answer task" where
  "backupCreateTask r h body =
     (case bind_backup body of
        None \<Rightarrow> bad ''invalid payload''
      | Some p \<Rightarrow>
          if \<not> site_path_ok r (br_root p) then bad ''invalid root_path''
          else do {
            err \<leftarrow> EnsureDir h (backup_dir p);
            case err of
              Some e \<Rightarrow> broken (''ensure backup dir failed: '' @ e)
            | None \<Rightarrow> if br_dumps p \<noteq> [] then bundle_backup h p else files_backup h p
          })"

section \<open>Restoring\<close>

definition resolve_backup :: "agent \<Rightarrow> host \<Rightarrow> string \<Rightarrow> string option task" where
  "resolve_backup r h path = observe (\<lambda>past. resolveBackupFile (router.truncate r) (h_real h past)
     (\<lambda>p. map_option (\<lambda>e. fst e = RegularFile) (h_lstat h past p)) path)"

definition movePath :: "host \<Rightarrow> string \<Rightarrow> string \<Rightarrow> goerror task" where
  "movePath h src dst = do {
     (_, err) \<leftarrow> perform h (RenamePath src dst);
     if err = nil then give nil
     else do {
       (_, err) \<leftarrow> perform h (CopyTree src dst);
       if err \<noteq> nil then give err else RemoveAll h src
     }
   }"

record restore_request =
  rr_backup_id :: int
  rr_path :: string
  rr_root :: string
  rr_s3 :: "s3_config option"

definition bind_restore :: "jtext \<Rightarrow> restore_request option" where
  "bind_restore body = do {
     kvs \<leftarrow> bind_object body;
     i \<leftarrow> int_field kvs ''backup_id'';
     site \<leftarrow> int_field kvs ''site_id'';
     domain \<leftarrow> str_field kvs ''domain'';
     path \<leftarrow> str_field kvs ''backup_path'';
     root \<leftarrow> str_field kvs ''root_path'';
     s3 \<leftarrow> bind_s3 kvs;
     Some \<lparr>rr_backup_id = i, rr_path = path, rr_root = root, rr_s3 = s3\<rparr>
   }"

text \<open>The archive to restore: downloaded first when it lies in S3.\<close>

definition fetch_archive :: "host \<Rightarrow> restore_request \<Rightarrow> (agent_answer + string) task" where
  "fetch_archive h p =
     (if \<not> has_prefix (rr_path p) ''s3://'' then give (Inr (rr_path p))
      else case used_s3 (rr_s3 p) of
        None \<Rightarrow> give (Inl (Refused 400 ''s3_config required for S3 backup path''))
      | Some c \<Rightarrow> do {
          let dir = path_join (rr_root p) ''backup'';
          err \<leftarrow> EnsureDir h dir;
          case err of
            Some e \<Rightarrow> give (Inl (Refused 500 (''ensure dir failed: '' @ e)))
          | None \<Rightarrow> do {
              let localFile = path_join dir (''restore_'' @ itoa (rr_backup_id p) @ ''.tar.gz'');
              (out, err) \<leftarrow> aws_copy h c (rr_path p) localFile;
              give (if err \<noteq> nil then Inl (Refused 500 (''S3 download failed: '' @ trim_space out)) else Inr localFile)
            }
        })"

text \<open>The extracted tree gets the owner of the site, or of the directory above it.\<close>

definition reown_tree :: "host \<Rightarrow> string \<Rightarrow> string \<Rightarrow> goerror task" where
  "reown_tree h root extracted = do {
     owner \<leftarrow> observe (\<lambda>past. case h_lstat h past root of Some e \<Rightarrow> Some (snd e)
                | None \<Rightarrow> map_option snd (h_lstat h past (path_dir root)));
     case owner of
       None \<Rightarrow> give nil
     | Some (u, g) \<Rightarrow> do { (_, err) \<leftarrow> perform h (SanitizeTree extracted u g); give err }
   }"

definition old_root :: "restore_request \<Rightarrow> string" where
  "old_root p = rr_root p @ ''.restore-old-'' @ itoa (rr_backup_id p)"

text \<open>The swap: the current root is moved aside and comes back when the new one cannot be installed.\<close>

definition swap_roots :: "host \<Rightarrow> restore_request \<Rightarrow> string \<Rightarrow> agent_answer task" where
  "swap_roots h p extracted = do {
     let root = rr_root p;
     let oldRoot = old_root p;
     (exists, _) \<leftarrow> Stat h root;
     err \<leftarrow> (if exists then do { _ \<leftarrow> RemoveAll h oldRoot; movePath h root oldRoot } else give nil);
     case err of
       Some e \<Rightarrow> broken (''stage existing root failed: '' @ e)
     | None \<Rightarrow> do {
         err \<leftarrow> movePath h extracted root;
         case err of
           Some e \<Rightarrow>
             if exists then do {
               _ \<leftarrow> RemoveAll h root;
               rb \<leftarrow> movePath h oldRoot root;
               if rb \<noteq> nil
               then broken (''move restored root failed and rollback failed; original site data preserved at '' @ oldRoot
                      @ '': '' @ e)
               else broken (''move restored root failed: '' @ e)
             }
             else broken (''move restored root failed: '' @ e)
         | None \<Rightarrow> do {
             _ \<leftarrow> (if exists then RemoveAll h oldRoot else give nil);
             n \<leftarrow> observe (\<lambda>past. h_files_below h past root);
             reply_ok True [(''files_extracted'', JNum n), (''message'', JStr ''backup restored''), (''root_path'', JStr root)]
           }
       }
   }"

definition extract_and_swap :: "host \<Rightarrow> restore_request \<Rightarrow> string \<Rightarrow> string \<Rightarrow> agent_answer task" where
  "extract_and_swap h p archive tmpDir = do {
     (out, err) \<leftarrow> RunShell h ''tar'' [''-xzf'', archive, ''-C'', tmpDir, ''--no-same-owner'', ''--no-same-permissions''];
     if err \<noteq> nil then broken (''extract backup failed: '' @ trim_space out)
     else do {
       let extracted = path_join tmpDir (path_base (rr_root p));
       (exists, _) \<leftarrow> Stat h extracted;
       if \<not> exists then broken ''backup archive missing expected site root''
       else do {
         err \<leftarrow> Mkdir h (path_dir (rr_root p));
         case err of
           Some e \<Rightarrow> broken (''create parent dir failed: '' @ e)
         | None \<Rightarrow> do {
             err \<leftarrow> reown_tree h (rr_root p) extracted;
             case err of
               Some e \<Rightarrow> broken (''sanitize restored files failed: '' @ e)
             | None \<Rightarrow> swap_roots h p extracted
           }
       }
     }
   }"

definition restore_in :: "host \<Rightarrow> restore_request \<Rightarrow> string \<Rightarrow> string \<Rightarrow> agent_answer task" where
  "restore_in h p archive tmpDir = do {
     answer \<leftarrow> extract_and_swap h p archive tmpDir;
     _ \<leftarrow> RemoveAll h tmpDir;
     give answer
   }"

definition backupRestoreTask :: "agent \<Rightarrow> host \<Rightarrow> jtext \<Rightarrow> agent_answer task" where
  "backupRestoreTask r h body =
     (case bind_restore body of
        None \<Rightarrow> bad ''invalid payload''
      | Some p \<Rightarrow>
          if \<not> site_path_ok r (rr_root p) then bad ''invalid root_path''
          else do {
            archive \<leftarrow> fetch_archive h p;
            case archive of
              Inl answer \<Rightarrow> give answer
            | Inr path \<Rightarrow> do {
                real \<leftarrow> resolve_backup r h path;
                case real of
                  None \<Rightarrow> bad ''invalid backup_path''
                | Some archive \<Rightarrow> do {
                    info \<leftarrow> observe (\<lambda>past. h_stat h past archive);
                    case info of
                      StatFile _ \<Rightarrow> do {
                        (tmpDir, err) \<leftarrow> perform h (MakeTemp (backupDir r) ''restore-*'');
                        case err of
                          Some e \<Rightarrow> broken (''create restore temp dir failed: '' @ e)
                        | None \<Rightarrow> restore_in h p archive tmpDir
                      }
                    | _ \<Rightarrow> give (Refused 404 ''backup file not found'')
                  }
              }
          })"

section \<open>Backups of a database and their deletion\<close>

record db_backup_request =
  dbr_backup_id :: int
  dbr_domain :: string
  dbr_root :: string
  dbr_name :: string
  dbr_type :: string
  dbr_user :: string
  dbr_password :: string
  dbr_s3 :: "s3_config option"

definition bind_db_backup :: "jtext \<Rightarrow> db_backup_request option" where
  "bind_db_backup body = do {
     kvs \<leftarrow> bind_object body;
     i \<leftarrow> int_field kvs ''backup_id'';
     site \<leftarrow> int_field kvs ''site_id'';
     domain \<leftarrow> str_field kvs ''domain'';
     root \<leftarrow> str_field kvs ''root_path'';
     name \<leftarrow> str_field kvs ''db_name'';
     ty \<leftarrow> str_field kvs ''db_type'';
     user \<leftarrow> str_field kvs ''db_user'';
     password \<leftarrow> str_field kvs ''db_password'';
     s3 \<leftarrow> bind_s3 kvs;
     Some \<lparr>dbr_backup_id = i, dbr_domain = domain, dbr_root = root, dbr_name = name, dbr_type = ty, dbr_user = user,
       dbr_password = password, dbr_s3 = s3\<rparr>
   }"

definition databaseBackupTask :: "agent \<Rightarrow> host \<Rightarrow> jtext \<Rightarrow> agent_answer task" where
  "databaseBackupTask r h body =
     (case bind_db_backup body of
        None \<Rightarrow> bad ''invalid payload''
      | Some p \<Rightarrow>
          if \<not> isValidDBIdentifier (dbr_name p) \<or> \<not> isValidDBIdentifier (dbr_user p) then bad ''invalid db_name or db_user''
          else if \<not> site_path_ok r (dbr_root p) then bad ''invalid root_path''
          else do {
            let dir = path_join (path_join (dbr_root p) ''backup'') ''db'';
            err \<leftarrow> EnsureDir h dir;
            case err of
              Some e \<Rightarrow> broken (''ensure dir failed: '' @ e)
            | None \<Rightarrow> do {
                inside \<leftarrow> observe (\<lambda>past. case (h_real h past (dbr_root p), h_real h past dir) of
                  (Some realRoot, Some realDir) \<Rightarrow> UnderRoot realRoot realDir | _ \<Rightarrow> False);
                if \<not> inside then bad ''backup directory escapes the site root''
                else do {
                  let name = buildBackupFileName h (''database_'' @ sanitizeBackupName (dbr_name p)) (dbr_backup_id p) ''.sql'';
                  let file = path_join dir name;
                  (out, err) \<leftarrow> dumpDatabase h (dbr_type p) (dbr_user p) (dbr_password p) (dbr_name p) file;
                  if err \<noteq> nil then
                    if out = unsupported_type then bad (''unsupported database type: '' @ dbr_type p)
                    else broken (dbr_type p @ '' dump failed: '' @ trim_space out)
                  else do {
                    info \<leftarrow> observe (\<lambda>past. h_stat h past file);
                    let upload = (\<lambda>sz. with_upload h (dbr_s3 p) file
                      (''/sites-db/'' @ sanitizeBackupName (dbr_domain p) @ ''/'' @ name) ''database backup created''
                      [(''path'', JStr file), (''size_bytes'', JNum sz), (''backup_id'', JNum (dbr_backup_id p)),
                       (''db_name'', JStr (dbr_name p))]);
                    case info of
                      NoEntry \<Rightarrow> broken (''dump file not found after export: '' @ ''stat '' @ file @ '': no such file or directory'')
                    | StatError e \<Rightarrow> broken (''dump file not found after export: '' @ e)
                    | StatFile sz \<Rightarrow> upload sz
                    | StatDir sz \<Rightarrow> upload sz
                  }
                }
              }
          })"

text \<open>\<open>os.Remove\<close> of a missing file is the error \<open>os.IsNotExist\<close> recognises.\<close>

definition backupDeleteTask :: "agent \<Rightarrow> host \<Rightarrow> jtext \<Rightarrow> agent_answer task" where
  "backupDeleteTask r h body =
     (case (do {
        kvs \<leftarrow> bind_object body;
        i \<leftarrow> int_field kvs ''backup_id'';
        path \<leftarrow> str_field kvs ''storage_path'';
        Some (i, trim_space path)
      }) of
        None \<Rightarrow> bad ''invalid payload''
      | Some (i, path) \<Rightarrow>
          if path = [] \<or> has_prefix path ''s3://''
          then reply_ok True [(''message'', JStr ''no local file to delete''), (''backup_id'', JNum i)]
          else do {
            real \<leftarrow> resolve_backup r h path;
            case real of
              None \<Rightarrow> bad ''invalid storage_path''
            | Some path \<Rightarrow> do {
                entry \<leftarrow> observe (\<lambda>past. h_lstat h past path);
                if entry = None then reply_ok True [(''message'', JStr ''already gone''), (''backup_id'', JNum i)]
                else do {
                  (_, err) \<leftarrow> perform h (DropFile path);
                  case err of
                    Some e \<Rightarrow> broken (''remove backup file failed: '' @ e)
                  | None \<Rightarrow> reply_ok True
                      [(''message'', JStr ''backup deleted''), (''backup_id'', JNum i), (''path'', JStr path)]
                }
              }
          })"

end
