(* ===== verification/AgentDatabases.thy ===== *)
theory AgentDatabases
  imports AgentHost
begin

text \<open>
  The database tasks of \<open>internal/agenthttp/router.go\<close>: \<open>databaseCreateTask\<close>, \<open>databaseDeleteTask\<close>,
  \<open>dbUserCreateTask\<close> and \<open>dbUserDeleteTask\<close>. The statements go to the standard input of \<open>mysql\<close> or \<open>psql\<close>.
\<close>

definition mysql_run :: "host \<Rightarrow> string \<Rightarrow> (string \<times> goerror) task" where
  "mysql_run h sql = RunWithInput h sql ''mysql'' []"

definition psql_run :: "host \<Rightarrow> string \<Rightarrow> (string \<times> goerror) task" where
  "psql_run h sql = RunWithInput h sql ''psql'' [''-v'', ''ON_ERROR_STOP=1'', ''-d'', ''postgres'']"

text \<open>The statement of the kind of server, an error with its text, or the message of success.\<close>

definition run_sql :: "host \<Rightarrow> string \<Rightarrow> string \<Rightarrow> string \<Rightarrow> string \<Rightarrow> string \<Rightarrow> agent_answer task" where
  "run_sql h ty mysqlText postgresText what msg =
     (if ty = ''mysql'' then do {
        (out, err) \<leftarrow> mysql_run h mysqlText;
        if err \<noteq> nil then give (Refused 424 (''mysql '' @ what @ '' failed: '' @ trim_space out))
        else reply_ok True [(''message'', JStr msg)]
      }
      else if ty = ''postgres'' then do {
        (out, err) \<leftarrow> psql_run h postgresText;
        if err \<noteq> nil then give (Refused 424 (''postgres '' @ what @ '' failed: '' @ trim_space out))
        else reply_ok True [(''message'', JStr msg)]
      }
      else bad ''unsupported database type'')"

definition create_mysql :: "string \<Rightarrow> string" where
  "create_mysql name = ''CREATE DATABASE IF NOT EXISTS `'' @ name @ ''`;'' @ [CHR 0x0A]"

definition create_postgres :: "string \<Rightarrow> string" where
  "create_postgres name = ''SELECT 'CREATE DATABASE '' @ name
     @ [CHR 0x27] @ '' WHERE NOT EXISTS (SELECT FROM pg_database WHERE datname = '' @ sqlQuote name @ '')''
     @ [CHR 0x5C] @ ''gexec'' @ [CHR 0x0A]"

definition databaseCreateTask :: "host \<Rightarrow> jtext \<Rightarrow> agent_answer task" where
  "databaseCreateTask h body =
     (case (do {
        kvs \<leftarrow> bind_object body;
        i \<leftarrow> int_field kvs ''database_id'';
        site \<leftarrow> int_field kvs ''site_id'';
        name \<leftarrow> str_field kvs ''name'';
        ty \<leftarrow> str_field kvs ''type'';
        Some (name, ty)
      }) of
        None \<Rightarrow> bad ''invalid payload''
      | Some (name, ty) \<Rightarrow>
          if \<not> isValidDBIdentifier name then bad ''invalid database name''
          else run_sql h ty (create_mysql name) (create_postgres name) ''create database''
                 (''database '' @ name @ '' ('' @ ty @ '') created''))"

definition drop_mysql :: "string \<Rightarrow> string" where
  "drop_mysql name = ''DROP DATABASE IF EXISTS `'' @ name @ ''`;'' @ [CHR 0x0A]"

definition drop_postgres :: "string \<Rightarrow> string" where
  "drop_postgres name = ''DROP DATABASE IF EXISTS '' @ name @ '';'' @ [CHR 0x0A]"

definition databaseDeleteTask :: "host \<Rightarrow> jtext \<Rightarrow> agent_answer task" where
  "databaseDeleteTask h body =
     (case (do {
        kvs \<leftarrow> bind_object body;
        i \<leftarrow> int_field kvs ''database_id'';
        name \<leftarrow> str_field kvs ''name'';
        ty \<leftarrow> str_field kvs ''type'';
        Some (name, ty)
      }) of
        None \<Rightarrow> bad ''invalid payload''
      | Some (name, ty) \<Rightarrow>
          if \<not> isValidDBIdentifier name then bad ''invalid database name''
          else run_sql h ty (drop_mysql name) (drop_postgres name) ''drop database'' (''database '' @ name @ '' deleted''))"

record db_account =
  dba_database :: string
  dba_type :: string
  dba_user :: string
  dba_password :: string
  dba_host :: string
  dba_privileges :: string

definition bind_account :: "jtext \<Rightarrow> db_account option" where
  "bind_account body = do {
     kvs \<leftarrow> bind_object body;
     i \<leftarrow> int_field kvs ''user_id'';
     d \<leftarrow> int_field kvs ''database_id'';
     database \<leftarrow> str_field kvs ''database_name'';
     ty \<leftarrow> str_field kvs ''type'';
     user \<leftarrow> str_field kvs ''username'';
     password \<leftarrow> str_field kvs ''password'';
     pattern \<leftarrow> str_field kvs ''host_pattern'';
     privileges \<leftarrow> str_field kvs ''privileges'';
     Some \<lparr>dba_database = database, dba_type = ty, dba_user = user, dba_password = password,
       dba_host = (if pattern = [] then ''localhost'' else pattern),
       dba_privileges = (if privileges = [] then ''ALL'' else privileges)\<rparr>
   }"

definition account_mysql :: "db_account \<Rightarrow> string" where
  "account_mysql a =
     ''CREATE USER IF NOT EXISTS '' @ sqlQuote (dba_user a) @ ''@'' @ sqlQuote (dba_host a) @ '' IDENTIFIED BY ''
     @ sqlQuote (dba_password a) @ ''; GRANT '' @ dba_privileges a @ '' ON `'' @ dba_database a @ ''`.* TO ''
     @ sqlQuote (dba_user a) @ ''@'' @ sqlQuote (dba_host a) @ ''; FLUSH PRIVILEGES;'' @ [CHR 0x0A]"

definition account_postgres :: "string \<Rightarrow> db_account \<Rightarrow> string" where
  "account_postgres hex a =
     (let tag = ''$sg'' @ hex @ ''$'' in
      ''DO '' @ tag @ '' BEGIN CREATE ROLE '' @ dba_user a @ '' LOGIN PASSWORD '' @ sqlQuote (dba_password a)
      @ ''; EXCEPTION WHEN duplicate_object THEN ALTER ROLE '' @ dba_user a @ '' WITH PASSWORD '' @ sqlQuote (dba_password a)
      @ ''; END '' @ tag @ ''; GRANT ALL PRIVILEGES ON DATABASE '' @ dba_database a @ '' TO '' @ dba_user a @ '';'' @ [CHR 0x0A])"

definition dbUserCreateTask :: "host \<Rightarrow> jtext \<Rightarrow> agent_answer task" where
  "dbUserCreateTask h body =
     (case bind_account body of
        None \<Rightarrow> bad ''invalid payload''
      | Some a \<Rightarrow>
          if \<not> isValidDBIdentifier (dba_database a) \<or> \<not> isValidDBIdentifier (dba_user a) \<or> dba_password a = []
          then bad ''invalid database user payload''
          else case DBPassword (dba_password a) of
            Some err \<Rightarrow> bad err
          | None \<Rightarrow>
              if \<not> isValidDBHostPattern (dba_host a) \<or> \<not> isValidDBPrivileges (dba_privileges a)
                  \<or> DBPrivileges (dba_privileges a) \<noteq> nil
              then bad ''invalid database user grants''
              else run_sql h (dba_type a) (account_mysql a) (account_postgres (h_hex h) a) ''create user''
                     (''db user '' @ dba_user a @ '' created''))"

definition drop_account_mysql :: "string \<Rightarrow> string \<Rightarrow> string" where
  "drop_account_mysql user pattern =
     ''DROP USER IF EXISTS '' @ sqlQuote user @ ''@'' @ sqlQuote pattern @ ''; FLUSH PRIVILEGES;'' @ [CHR 0x0A]"

definition drop_account_postgres :: "string \<Rightarrow> string" where
  "drop_account_postgres user = ''DROP ROLE IF EXISTS '' @ user @ '';'' @ [CHR 0x0A]"

definition dbUserDeleteTask :: "host \<Rightarrow> jtext \<Rightarrow> agent_answer task" where
  "dbUserDeleteTask h body =
     (case (do {
        kvs \<leftarrow> bind_object body;
        i \<leftarrow> int_field kvs ''user_id'';
        user \<leftarrow> str_field kvs ''username'';
        d \<leftarrow> int_field kvs ''database_id'';
        database \<leftarrow> str_field kvs ''database_name'';
        ty \<leftarrow> str_field kvs ''type'';
        pattern \<leftarrow> str_field kvs ''host_pattern'';
        Some (user, ty, if pattern = [] then ''localhost'' else pattern)
      }) of
        None \<Rightarrow> bad ''invalid payload''
      | Some (user, ty, pattern) \<Rightarrow>
          if \<not> isValidDBIdentifier user then bad ''invalid username''
          else if \<not> isValidDBHostPattern pattern then bad ''invalid host_pattern''
          else run_sql h ty (drop_account_mysql user pattern) (drop_account_postgres user) ''drop user''
                 (''db user '' @ user @ '' deleted''))"

end
