(* ===== verification/AgentGuards.thy ===== *)
theory AgentGuards
  imports AgentHost
begin

text \<open>
  The tasks of \<open>internal/agenthttp/firewall.go\<close>, \<open>redis.go\<close> and \<open>fail2ban.go\<close>: a checked request becomes a command,
  and what the command prints becomes an answer.
\<close>

section \<open>Reading output\<close>

definition words :: "string \<Rightarrow> string list" where
  "words s = Prelude.fields s"

definition text_lines :: "string \<Rightarrow> string list" where
  "text_lines s = split_on CHR 0x0A s"

text \<open>\<open>fmt.Sscanf(s, "%d", &n)\<close> into a zero \<open>n\<close>, which an error leaves alone.\<close>

definition sscan_int :: "string \<Rightarrow> int" where
  "sscan_int s =
     (let t = dropWhile is_space s;
          neg = has_prefix t ''-'';
          t = (if has_prefix t ''-'' \<or> has_prefix t ''+'' then tl t else t);
          ds = takeWhile is_digit t;
          v = (if neg then - digits_val ds else digits_val ds)
      in if ds = [] \<or> v < min_int64 \<or> v > max_int64 then 0 else v)"

text \<open>An entry of a Go map: the last value given to a key.\<close>

fun put_key :: "'k \<Rightarrow> 'v \<Rightarrow> ('k \<times> 'v) list \<Rightarrow> ('k \<times> 'v) list" where
  "put_key k v [] = [(k, v)]"
| "put_key k v ((k', v') # kvs) = (if k = k' then (k, v) # kvs else (k', v') # put_key k v kvs)"

definition null_list :: "json list \<Rightarrow> json" where
  "null_list xs = (if xs = [] then JNull else JArr xs)"

section \<open>Firewall\<close>

text \<open>The text \<open>active\<close> is looked for anywhere in the output.\<close>

definition firewallStatusTask :: "host \<Rightarrow> agent_answer task" where
  "firewallStatusTask h = do {
     (versionOut, err) \<leftarrow> RunShell h ''ufw'' [''version''];
     if err \<noteq> nil \<or> trim_space versionOut = [] then
       reply_ok True [(''installed'', JBool False), (''active'', JBool False), (''message'', JStr ''UFW is not installed'')]
     else do {
       (out, err) \<leftarrow> RunShell h ''ufw'' [''status''];
       if err \<noteq> nil then reply_ok False [(''message'', JStr (''failed to get status: '' @ trim_space out))]
       else reply_ok True
         [(''installed'', JBool True), (''active'', JBool (contains (to_lower out) ''active'')),
          (''verbose'', JBool (contains (to_lower out) ''verbose'')), (''raw'', JStr (trim_space out))]
     }
   }"

definition firewallEnableTask :: "host \<Rightarrow> agent_answer task" where
  "firewallEnableTask h = run_or_tell h ''ufw'' [''--force'', ''enable''] ''enable''
     (\<lambda>out. [(''message'', JStr ''UFW enabled''), (''output'', JStr (trim_space out))])"

definition firewallDisableTask :: "host \<Rightarrow> agent_answer task" where
  "firewallDisableTask h = run_or_tell h ''ufw'' [''--force'', ''disable''] ''disable''
     (\<lambda>out. [(''message'', JStr ''UFW disabled''), (''output'', JStr (trim_space out))])"

definition given_words :: "string list \<Rightarrow> string \<Rightarrow> string list" where
  "given_words ws s = (if s \<noteq> [] then ws @ [s] else [])"

text \<open>\<open>firewallAllowTask\<close> and \<open>firewallDenyTask\<close> differ in the verb; the protocol is an argument of its own.\<close>

definition firewall_rule :: "host \<Rightarrow> string \<Rightarrow> string \<Rightarrow> jtext \<Rightarrow> agent_answer task" where
  "firewall_rule h verb past_tense body =
     (case (do {
        kvs \<leftarrow> bind_object body;
        port \<leftarrow> str_field kvs ''port'';
        proto \<leftarrow> str_field kvs ''protocol'';
        source \<leftarrow> str_field kvs ''from'';
        note \<leftarrow> str_field kvs ''comment'';
        Some (port, proto, source, note)
      }) of
        None \<Rightarrow> bad ''invalid payload''
      | Some (port, proto, source, note) \<Rightarrow>
          if port = [] then bad ''port is required''
          else run_or_tell h ''ufw''
            ([verb, port] @ (if proto \<noteq> [] then [''/'' @ proto] else []) @ given_words [''from''] source
             @ given_words [''comment''] note) verb
            (\<lambda>out. [(''message'', JStr (''port '' @ port @ '' '' @ past_tense)), (''output'', JStr (trim_space out))]))"

definition firewallAllowTask :: "host \<Rightarrow> jtext \<Rightarrow> agent_answer task" where
  "firewallAllowTask h = firewall_rule h ''allow'' ''allowed''"

definition firewallDenyTask :: "host \<Rightarrow> jtext \<Rightarrow> agent_answer task" where
  "firewallDenyTask h = firewall_rule h ''deny'' ''denied''"

definition firewallDeleteTask :: "host \<Rightarrow> jtext \<Rightarrow> agent_answer task" where
  "firewallDeleteTask h body =
     (case (do { kvs \<leftarrow> bind_object body; int_field kvs ''number'' }) of
        None \<Rightarrow> bad ''invalid payload''
      | Some n \<Rightarrow>
          if n \<le> 0 then bad ''rule number is required''
          else run_or_tell h ''ufw'' [''delete'', itoa n] ''delete''
            (\<lambda>out. [(''message'', JStr (''rule '' @ itoa n @ '' deleted'')), (''output'', JStr (trim_space out))]))"

definition firewallResetTask :: "host \<Rightarrow> agent_answer task" where
  "firewallResetTask h = run_or_tell h ''ufw'' [''--force'', ''reset''] ''reset''
     (\<lambda>out. [(''message'', JStr ''UFW reset to defaults''), (''output'', JStr (trim_space out))])"

record UFWRule =
  ufw_number :: int
  ufw_port :: string
  ufw_protocol :: string
  ufw_action :: string
  ufw_direction :: string
  ufw_from :: string
  ufw_to :: string
  ufw_comment :: string

text \<open>Source and destination from the words after action and direction; a comment starts with \<open>#\<close>.\<close>

definition endpoints :: "string list \<Rightarrow> string \<times> string" where
  "endpoints remaining =
     (case remaining of
        [] \<Rightarrow> ([], [])
      | [x] \<Rightarrow> ([], if has_prefix x ''#'' then [] else x)
      | x # y # _ \<Rightarrow> (x, if has_prefix y ''#'' then [] else y))"

definition split_port :: "string \<Rightarrow> string \<times> string" where
  "split_port s =
     (case index s ''/'' of
        Some i \<Rightarrow> if i > 0 then (take i s, drop (Suc i) s) else (s, [])
      | None \<Rightarrow> (s, []))"

definition parse_rule :: "string \<Rightarrow> UFWRule option" where
  "parse_rule line0 =
     (let line = trim_space line0 in
      if line = [] \<or> has_prefix line ''Status'' \<or> has_prefix line ''To'' \<or> \<not> has_prefix line ''['' then None
      else case index line '']'' of
        None \<Rightarrow> None
      | Some numEnd \<Rightarrow>
          let fs = words (trim_space (drop (Suc numEnd) line)) in
          if length fs < 3 then None
          else case dropWhile (\<lambda>f. f \<notin> {''ALLOW'', ''DENY'', ''REJECT''}) fs of
            [] \<Rightarrow> None
          | action # rest \<Rightarrow>
              let (port, proto) = split_port (hd fs);
                  directed = (case rest of [] \<Rightarrow> False | w # _ \<Rightarrow> w = ''IN'' \<or> w = ''OUT'');
                  (source, target) = endpoints (if directed then tl rest else rest)
              in Some \<lparr>ufw_number = sscan_int (drop 1 (take numEnd line)), ufw_port = port, ufw_protocol = proto,
                   ufw_action = action, ufw_direction = (if directed then hd rest else []), ufw_from = source,
                   ufw_to = target,
                   ufw_comment = (case index line ''#'' of Some i \<Rightarrow> if i > 0 then trim_space (drop (Suc i) line) else []
                                  | None \<Rightarrow> [])\<rparr>)"

definition rule_json :: "UFWRule \<Rightarrow> json" where
  "rule_json u = JObj [(''number'', JNum (ufw_number u)), (''port'', JStr (ufw_port u)), (''protocol'', JStr (ufw_protocol u)),
     (''action'', JStr (ufw_action u)), (''direction'', JStr (ufw_direction u)), (''from'', JStr (ufw_from u)),
     (''to'', JStr (ufw_to u)), (''comment'', JStr (ufw_comment u))]"

definition parse_rules :: "string \<Rightarrow> UFWRule list" where
  "parse_rules out = concat (map (\<lambda>l. case parse_rule l of Some u \<Rightarrow> [u] | None \<Rightarrow> []) (text_lines (trim_space out)))"

definition firewallRulesTask :: "host \<Rightarrow> agent_answer task" where
  "firewallRulesTask h = do {
     (out, err) \<leftarrow> RunShell h ''ufw'' [''status'', ''numbered''];
     case err of
       Some e \<Rightarrow> reply_ok False [(''rules'', JArr []), (''error'', JStr e)]
     | None \<Rightarrow> reply_ok True
         [(''rules'', null_list (map rule_json (parse_rules out))), (''total'', JNum (int (length (parse_rules out))))]
   }"

section \<open>Redis\<close>

fun read_stats :: "(string \<times> string) list \<Rightarrow> string list \<Rightarrow> (string \<times> string) list" where
  "read_stats stats [] = stats"
| "read_stats stats (l # ls) =
     (let line = trim_space l in
      if line = [] \<or> has_prefix line ''#'' then read_stats stats ls
      else case split2 CHR '':'' line of
             [k, v] \<Rightarrow> read_stats (put_key (trim_space k) (trim_space v) stats) ls
           | _ \<Rightarrow> read_stats stats ls)"

definition redisStatsTask :: "host \<Rightarrow> agent_answer task" where
  "redisStatsTask h = do {
     (_, err) \<leftarrow> RunShell h ''which'' [''redis-cli''];
     if err \<noteq> nil then reply_ok False [(''message'', JStr ''redis-cli not found'')]
     else do {
       (out, err) \<leftarrow> RunShell h ''redis-cli'' [''info'', ''stats''];
       if err \<noteq> nil then reply_ok False [(''message'', JStr (''redis-cli failed: '' @ trim_space out))]
       else do {
         (memory, _) \<leftarrow> RunShell h ''redis-cli'' [''info'', ''memory''];
         (keyspace, _) \<leftarrow> RunShell h ''redis-cli'' [''info'', ''keyspace''];
         let stats = read_stats [] (text_lines out @ text_lines memory @ text_lines keyspace);
         reply_ok True [(''stats'', JObj (map (\<lambda>(k, v). (k, JStr v)) stats))]
       }
     }
   }"

definition redisFlushTask :: "host \<Rightarrow> agent_answer task" where
  "redisFlushTask h = run_or_tell h ''redis-cli'' [''flushall''] ''flush''
     (\<lambda>out. [(''message'', JStr ''All Redis data flushed''), (''output'', JStr (trim_space out))])"

definition redisInfoTask :: "host \<Rightarrow> agent_answer task" where
  "redisInfoTask h = run_or_tell h ''redis-cli'' [''info''] ''redis-cli'' (\<lambda>out. [(''info'', JStr (trim_space out))])"

definition redisFlushDBTask :: "host \<Rightarrow> jtext \<Rightarrow> agent_answer task" where
  "redisFlushDBTask h body =
     (case (do { kvs \<leftarrow> bind_object body; int_field kvs ''db'' }) of
        None \<Rightarrow> bad ''invalid payload''
      | Some db \<Rightarrow>
          if db < 0 \<or> db > 15 then bad ''db must be 0-15''
          else run_or_tell h ''redis-cli'' [''-n'', itoa db, ''flushdb''] ''flushdb''
            (\<lambda>out. [(''message'', JStr (''Redis database '' @ itoa db @ '' flushed'')), (''output'', JStr (trim_space out))]))"

section \<open>Fail2ban and the security overview\<close>

definition banned_in :: "string \<Rightarrow> int" where
  "banned_in line =
     (if contains line ''Currently banned:''
      then (case split_on CHR '':'' line of _ # n # _ \<Rightarrow> sscan_int (trim_space n) | _ \<Rightarrow> 0) else 0)"

definition public_database :: "string \<Rightarrow> bool" where
  "public_database line \<longleftrightarrow>
     list_ex (contains line) ['':3306'', '':5432'', '':6379''] \<and> list_ex (contains line) [''0.0.0.0:'', ''*:'', ''[::]:'']"

definition securityOverviewTask :: "host \<Rightarrow> agent_answer task" where
  "securityOverviewTask h = do {
     (f2b, f2bErr) \<leftarrow> RunShell h ''fail2ban-client'' [''status''];
     let f2bActive = (f2bErr = nil \<and> contains f2b ''Jail list:'');
     let banned = (if f2bActive then foldl (\<lambda>n l. wrap64 (n + banned_in l)) 0 (text_lines f2b) else 0);
     (ufw, ufwErr) \<leftarrow> RunShell h ''ufw'' [''status''];
     (ss, _) \<leftarrow> RunShell h ''ss'' [''-tulpn''];
     (syn1, _) \<leftarrow> RunShell h ''/sbin/sysctl'' [''-n'', ''net.ipv4.tcp_syncookies''];
     (syn, _) \<leftarrow> (if trim_space syn1 = [] then RunShell h ''sysctl'' [''-n'', ''net.ipv4.tcp_syncookies'']
                  else give (syn1, nil));
     (scan, scanErr) \<leftarrow> RunShell h ''grep''
       [''-rnwl'', ''/home'', ''-e'', ''eval(base64_decode'', ''-e'', ''shell_exec($_POST'', ''--include=*.php''];
     let threats = (if scanErr = nil \<and> trim_space scan \<noteq> [] then text_lines (trim_space scan) else []);
     reply_ok True
       [(''firewall_active'', JBool (ufwErr = nil \<and> contains ufw ''Status: active'')), (''fail2ban_active'', JBool f2bActive),
        (''banned_ips_count'', JNum banned), (''db_exposed_public'', JBool (list_ex public_database (text_lines ss))),
        (''ddos_syn_defense'', JBool (contains syn ''1'')), (''threats_detected'', JNum (int (length threats))),
        (''threat_samples'', null_list (map JStr (take 3 threats)))]
   }"

definition listed_jails :: "string \<Rightarrow> string list" where
  "listed_jails line =
     (case split2 CHR '':'' line of
        [_, v] \<Rightarrow> filter (\<lambda>j. j \<noteq> []) (map trim_space (split_on CHR '','' (trim_space v)))
      | _ \<Rightarrow> [])"

fun jail_scan :: "bool \<Rightarrow> string list \<Rightarrow> string list" where
  "jail_scan inList [] = []"
| "jail_scan inList (l # ls) =
     (let line = trim_space l in
      if contains line ''Jail list:'' then listed_jails line @ jail_scan True ls
      else if inList \<and> has_prefix line ''|'' then listed_jails line @ jail_scan inList ls
      else jail_scan inList ls)"

definition fail2banStatus :: "host \<Rightarrow> agent_answer task" where
  "fail2banStatus h = do {
     (out, err) \<leftarrow> RunShell h ''fail2ban-client'' [''status''];
     if err \<noteq> nil then reply_plain [(''installed'', JBool False), (''active'', JBool False), (''error'', JStr (trim_space out))]
     else do {
       let jails = jail_scan False (text_lines out);
       (version, _) \<leftarrow> RunShell h ''fail2ban-client'' [''--version''];
       reply_plain [(''installed'', JBool True), (''active'', JBool (jails \<noteq> [])), (''version'', JStr (trim_space version)),
         (''jails'', JArr (map JStr jails))]
     }
   }"

text \<open>The digits of a text as a number, in 64 bits.\<close>

definition digits_in :: "string \<Rightarrow> int" where
  "digits_in s = wrap64 (digits_val (filter is_digit s))"

definition jail_counters :: "(string \<times> string) list" where
  "jail_counters = [(''Currently banned:'', ''currently_banned''), (''Total banned:'', ''total_banned''),
     (''Currently failed:'', ''currently_failed''), (''Total failed:'', ''failed'')]"

definition read_counter :: "string \<Rightarrow> string \<times> string \<Rightarrow> (string \<times> json) list \<Rightarrow> (string \<times> json) list" where
  "read_counter line = (\<lambda>(label, key) result.
     if contains line label
     then (case split2 CHR '':'' line of [_, v] \<Rightarrow> put_key key (JNum (digits_in (trim_space v))) result | _ \<Rightarrow> result)
     else result)"

definition read_banned :: "string \<Rightarrow> (string \<times> json) list \<Rightarrow> (string \<times> json) list" where
  "read_banned line result =
     (if contains line ''Banned IP list:''
      then (case split2 CHR '':'' line of
              [_, v] \<Rightarrow> if trim_space v = [] then result
                else put_key ''banned'' (JArr (map JStr (filter (\<lambda>ip. ip \<noteq> [])
                       (map trim_space (split_on CHR '' '' (trim_space v)))))) result
            | _ \<Rightarrow> result)
      else result)"

definition read_jail :: "string \<Rightarrow> string \<Rightarrow> (string \<times> json) list" where
  "read_jail name out =
     fold (\<lambda>l result. let line = trim_space l in read_banned line (fold (read_counter line) jail_counters result))
       (text_lines out)
       [(''name'', JStr name), (''banned'', JArr []), (''total_banned'', JNum 0), (''failed'', JNum 0),
        (''currently_failed'', JNum 0)]"

definition fail2banJail :: "host \<Rightarrow> string \<Rightarrow> agent_answer task" where
  "fail2banJail h name =
     (if name = [] then bad ''jail name required''
      else do {
        (out, err) \<leftarrow> RunShell h ''fail2ban-client'' [''status'', name];
        if err \<noteq> nil then broken (''failed to get jail status: '' @ trim_space out)
        else reply_plain (read_jail name out)
      })"

text \<open>A command whose failure is an error; \<open>fail2banUnban\<close> and \<open>fail2banBan\<close>, then enabling and disabling a jail.\<close>

definition f2b_command :: "host \<Rightarrow> string list \<Rightarrow> string \<Rightarrow> string \<Rightarrow> agent_answer task" where
  "f2b_command h args what msg = do {
     (out, err) \<leftarrow> RunShell h ''fail2ban-client'' args;
     if err \<noteq> nil then broken (what @ '' failed: '' @ trim_space out)
     else reply_ok True [(''message'', JStr msg), (''output'', JStr (trim_space out))]
   }"

definition bind_ban :: "jtext \<Rightarrow> (string \<times> string) option" where
  "bind_ban body = do {
     kvs \<leftarrow> bind_object body;
     jail \<leftarrow> str_field kvs ''jail'';
     ip \<leftarrow> str_field kvs ''ip'';
     if ip = [] then None else Some (if jail = [] then ''sshd'' else jail, ip)
   }"

definition fail2banUnban :: "host \<Rightarrow> jtext \<Rightarrow> agent_answer task" where
  "fail2banUnban h body = (case bind_ban body of
     None \<Rightarrow> bad ''ip required''
   | Some (jail, ip) \<Rightarrow> f2b_command h [''set'', jail, ''unbanip'', ip] ''unban'' (''Unbanned '' @ ip @ '' from '' @ jail))"

definition fail2banBan :: "host \<Rightarrow> jtext \<Rightarrow> agent_answer task" where
  "fail2banBan h body = (case bind_ban body of
     None \<Rightarrow> bad ''ip required''
   | Some (jail, ip) \<Rightarrow> f2b_command h [''set'', jail, ''banip'', ip] ''ban'' (''Banned '' @ ip @ '' in '' @ jail))"

definition bind_jail :: "jtext \<Rightarrow> string option" where
  "bind_jail body = do {
     kvs \<leftarrow> bind_object body;
     jail \<leftarrow> str_field kvs ''jail'';
     if jail = [] then None else Some jail
   }"

definition fail2banEnable :: "host \<Rightarrow> jtext \<Rightarrow> agent_answer task" where
  "fail2banEnable h body = (case bind_jail body of
     None \<Rightarrow> bad ''jail name required''
   | Some jail \<Rightarrow> f2b_command h [''start'', jail] ''enable'' (''Enabled jail '' @ jail))"

definition fail2banDisable :: "host \<Rightarrow> jtext \<Rightarrow> agent_answer task" where
  "fail2banDisable h body = (case bind_jail body of
     None \<Rightarrow> bad ''jail name required''
   | Some jail \<Rightarrow> f2b_command h [''stop'', jail] ''disable'' (''Disabled jail '' @ jail))"

end
