(* ===== verification/AgentApps.thy ===== *)
theory AgentApps
  imports AgentHost Vhost
begin

text \<open>
  The tasks of \<open>internal/agenthttp/pm2.go\<close>, \<open>python_app.go\<close>, \<open>templates.go\<close> and \<open>bot_blocker.go\<close>, with the helpers of
  \<open>email_helpers.go\<close> and the line removal of \<open>email_manager.go\<close> they use.
\<close>

section \<open>Input helpers\<close>

definition sanitizeInput :: "string \<Rightarrow> string" where
  "sanitizeInput s = trim_space (filter (\<lambda>c. c \<notin> {CHR 0x00, CHR 0x0A, CHR 0x0D}) s)"

definition dangerous_bytes :: "char list" where
  "dangerous_bytes = '';&|`$(){}[]!#~<>'' @ [CHR 0x22, CHR 0x27, CHR 0x5C, CHR 0x0A, CHR 0x0D]"

definition isShellSafe :: "string \<Rightarrow> bool" where
  "isShellSafe s \<longleftrightarrow> CHR 0x00 \<notin> set s \<and> list_all (\<lambda>c. c \<notin> set dangerous_bytes) s"

text \<open>A field that is a list of strings; \<open>null\<close> elements are empty strings.\<close>

definition string_item :: "json \<Rightarrow> string option" where
  "string_item j = (case j of JStr s \<Rightarrow> Some s | JNull \<Rightarrow> Some [] | _ \<Rightarrow> None)"

definition strings_field :: "(string \<times> json) list \<Rightarrow> string \<Rightarrow> string list option" where
  "strings_field kvs key =
     (case map_of kvs key of
        None \<Rightarrow> Some []
      | Some JNull \<Rightarrow> Some []
      | Some (JArr xs) \<Rightarrow> all_some (map string_item xs)
      | Some _ \<Rightarrow> None)"

text \<open>A command whose failure ends the request with an error; the rest gets its output.\<close>

definition must_run ::
  "host \<Rightarrow> string \<Rightarrow> string list \<Rightarrow> string \<Rightarrow> (string \<Rightarrow> agent_answer task) \<Rightarrow> agent_answer task" where
  "must_run h name args what rest = do {
     (out, err) \<leftarrow> RunShell h name args;
     case err of Some e \<Rightarrow> broken (what @ e) | None \<Rightarrow> rest out
   }"

section \<open>PM2\<close>

record pm2_request =
  pm_action :: string
  pm_app :: string
  pm_root :: string
  pm_script :: string
  pm_env :: string
  pm_instances :: int

definition bind_pm2 :: "jtext \<Rightarrow> pm2_request option" where
  "bind_pm2 body = do {
     kvs \<leftarrow> bind_object body;
     action \<leftarrow> str_field kvs ''action'';
     app \<leftarrow> str_field kvs ''app_name'';
     root \<leftarrow> str_field kvs ''root_path'';
     script \<leftarrow> str_field kvs ''script'';
     env \<leftarrow> str_field kvs ''env'';
     n \<leftarrow> int_field kvs ''instances'';
     Some \<lparr>pm_action = action, pm_app = app, pm_root = root, pm_script = script, pm_env = env, pm_instances = n\<rparr>
   }"

definition pm2_start :: "host \<Rightarrow> pm2_request \<Rightarrow> agent_answer task" where
  "pm2_start h p =
     (if pm_app p = [] \<or> pm_root p = [] \<or> pm_script p = [] then bad ''app_name, root_path, and script are required''
      else do {
        let env = (if pm_env p = [] then ''production'' else pm_env p);
        let n = (if pm_instances p = 0 then 1 else pm_instances p);
        modules \<leftarrow> observe (\<lambda>past. h_stat h past (path_join (pm_root p) ''node_modules''));
        _ \<leftarrow> (if modules = NoEntry then RunShell h ''npm'' [''install'', ''--production'', ''--prefix'', pm_root p]
              else give ([], nil));
        must_run h ''pm2''
          ([''start'', pm_script p, ''--name'', pm_app p, ''--env'', env] @ (if n > 1 then [''-i'', itoa n] else []))
          ''start failed: '' (\<lambda>out. do {
            _ \<leftarrow> RunShell h ''pm2'' [''save''];
            reply_ok True [(''message'', JStr (''App '' @ pm_app p @ '' started'')), (''output'', JStr out)]
          })
      })"

text \<open>The actions on one application: the error texts and messages follow the action's name.\<close>

definition pm2_on_app :: "host \<Rightarrow> pm2_request \<Rightarrow> string \<Rightarrow> bool \<Rightarrow> agent_answer task" where
  "pm2_on_app h p past_tense save =
     (if pm_app p = [] then bad ''app_name required''
      else must_run h ''pm2'' [pm_action p, pm_app p] (pm_action p @ '' failed: '') (\<lambda>out. do {
        _ \<leftarrow> (if save then RunShell h ''pm2'' [''save''] else give ([], nil));
        reply_ok True [(''message'', JStr (''App '' @ pm_app p @ '' '' @ past_tense)), (''output'', JStr out)]
      }))"

definition pm2_action :: "host \<Rightarrow> pm2_request \<Rightarrow> agent_answer task" where
  "pm2_action h p =
     (if pm_action p = ''start'' then pm2_start h p
      else if pm_action p = ''stop'' then pm2_on_app h p ''stopped'' False
      else if pm_action p = ''restart'' then pm2_on_app h p ''restarted'' False
      else if pm_action p = ''delete'' then pm2_on_app h p ''deleted'' True
      else if pm_action p = ''list'' then
        must_run h ''pm2'' [''list''] ''list failed: '' (\<lambda>out. reply_ok True [(''output'', JStr out)])
      else if pm_action p = ''logs'' then
        if pm_app p = [] then bad ''app_name required''
        else must_run h ''pm2'' [''logs'', pm_app p, ''--lines'', ''100''] ''logs failed: ''
          (\<lambda>out. reply_ok True [(''output'', JStr out)])
      else if pm_action p = ''save'' then
        must_run h ''pm2'' [''save''] ''save failed: ''
          (\<lambda>out. reply_ok True [(''message'', JStr ''PM2 process list saved''), (''output'', JStr out)])
      else if pm_action p = ''startup'' then
        must_run h ''pm2'' [''startup''] ''startup failed: ''
          (\<lambda>out. reply_ok True [(''message'', JStr ''PM2 startup configured''), (''output'', JStr out)])
      else bad (''unknown action: '' @ pm_action p))"

definition managePM2 :: "host \<Rightarrow> jtext \<Rightarrow> agent_answer task" where
  "managePM2 h body =
     (case bind_pm2 body of
        None \<Rightarrow> bad ''invalid payload''
      | Some p \<Rightarrow> do {
          (_, err) \<leftarrow> RunShell h ''which'' [''pm2''];
          if err \<noteq> nil then
            must_run h ''npm'' [''install'', ''-g'', ''pm2''] ''failed to install PM2: '' (\<lambda>_. pm2_action h p)
          else pm2_action h p
        })"

section \<open>Python applications\<close>

record python_request =
  py_action :: string
  py_root :: string
  py_app :: string
  py_script :: string
  py_workers :: int
  py_bind :: string
  py_venv :: string
  py_requirements :: string

definition bind_python :: "jtext \<Rightarrow> python_request option" where
  "bind_python body = do {
     kvs \<leftarrow> bind_object body;
     action \<leftarrow> str_field kvs ''action'';
     root \<leftarrow> str_field kvs ''root_path'';
     app \<leftarrow> str_field kvs ''app_name'';
     script \<leftarrow> str_field kvs ''script'';
     n \<leftarrow> int_field kvs ''workers'';
     address \<leftarrow> str_field kvs ''bind'';
     venv \<leftarrow> str_field kvs ''venv_path'';
     requirements \<leftarrow> str_field kvs ''requirements'';
     Some \<lparr>py_action = action, py_root = sanitizeInput root, py_app = sanitizeInput app, py_script = sanitizeInput script,
       py_workers = n, py_bind = sanitizeInput address, py_venv = venv, py_requirements = requirements\<rparr>
   }"

definition gunicorn_unit :: "string \<Rightarrow> string \<Rightarrow> string \<Rightarrow> int \<Rightarrow> string \<Rightarrow> string \<Rightarrow> string" where
  "gunicorn_unit app root venv workers address script = lines
     [''[Unit]'',
      ''Description=Gunicorn for '' @ app,
      ''After=network.target'',
      [],
      ''[Service]'',
      ''User=www-data'',
      ''Group=www-data'',
      ''WorkingDirectory='' @ root,
      ''ExecStart='' @ path_join venv ''bin'' @ ''/gunicorn --workers '' @ itoa workers @ '' --bind '' @ address @ '' '' @ script,
      ''Restart=always'',
      ''RestartSec=5'',
      ''Environment=\"PATH='' @ venv @ ''/bin\"'',
      [],
      ''[Install]'',
      ''WantedBy=multi-user.target'',
      []]"

definition gunicorn :: "string \<Rightarrow> string" where
  "gunicorn app = ''gunicorn-'' @ app"

definition python_service :: "host \<Rightarrow> python_request \<Rightarrow> int \<Rightarrow> string \<Rightarrow> string \<Rightarrow> agent_answer task" where
  "python_service h p workers address venv = do {
     err \<leftarrow> WriteFile h (''/etc/systemd/system/gunicorn-'' @ py_app p @ ''.service'')
              (gunicorn_unit (py_app p) (py_root p) venv workers address (py_script p));
     if err \<noteq> nil then broken ''failed to create systemd service''
     else do {
       _ \<leftarrow> RunShell h ''chown'' [''-R'', ''www-data:www-data'', py_root p];
       _ \<leftarrow> RunShell h ''systemctl'' [''daemon-reload''];
       _ \<leftarrow> RunShell h ''systemctl'' [''enable'', gunicorn (py_app p)];
       reply_ok True
         [(''message'', JStr (''Python app '' @ py_app p @ '' installed with Gunicorn'')),
          (''service'', JStr (gunicorn (py_app p))), (''bind'', JStr address), (''workers'', JNum workers)]
     }
   }"

text \<open>\<open>pip\<close> is the program below \<open>venv_path\<close>, whatever it is.\<close>

definition installPythonApp :: "host \<Rightarrow> python_request \<Rightarrow> agent_answer task" where
  "installPythonApp h p =
     (if py_root p = [] \<or> py_app p = [] then bad ''root_path and app_name are required''
      else if \<not> isValidDBIdentifier (py_app p) then bad ''invalid app_name (use lowercase, numbers, hyphens)''
      else do {
        let workers = (if py_workers p = 0 then 4 else py_workers p);
        let address = (if py_bind p = [] then ''127.0.0.1:8000'' else py_bind p);
        let venv = (if py_venv p = [] then path_join (py_root p) ''venv'' else py_venv p);
        let pip = path_join (path_join venv ''bin'') ''pip'';
        err \<leftarrow> Mkdir h (py_root p);
        if err \<noteq> nil then broken ''failed to create root directory''
        else must_run h ''python3'' [''-m'', ''venv'', venv] ''failed to create virtual environment: '' (\<lambda>_.
          must_run h pip [''install'', ''gunicorn''] ''failed to install Gunicorn: '' (\<lambda>_.
            if py_requirements p = [] then python_service h p workers address venv
            else do {
              let reqFile = path_join (py_root p) ''requirements.txt'';
              err \<leftarrow> WriteFile h reqFile (py_requirements p);
              if err \<noteq> nil then broken ''failed to write requirements.txt''
              else must_run h pip [''install'', ''-r'', reqFile] ''failed to install requirements: ''
                (\<lambda>_. python_service h p workers address venv)
            }))
      })"

definition python_control :: "host \<Rightarrow> string \<Rightarrow> string \<Rightarrow> string \<Rightarrow> agent_answer task" where
  "python_control h verb past_tense app =
     must_run h ''systemctl'' [verb, gunicorn app] (''failed to '' @ verb @ '' app: '')
       (\<lambda>_. reply_ok True [(''message'', JStr (''App '' @ app @ '' '' @ past_tense))])"

definition pythonAppStatus :: "host \<Rightarrow> string \<Rightarrow> agent_answer task" where
  "pythonAppStatus h app = do {
     (status, _) \<leftarrow> RunShell h ''systemctl'' [''is-active'', gunicorn app];
     reply_plain [(''app'', JStr app), (''status'', JStr status)]
   }"

definition pythonAppLogs :: "host \<Rightarrow> string \<Rightarrow> agent_answer task" where
  "pythonAppLogs h app = do {
     (logs, err) \<leftarrow> RunShell h ''journalctl'' [''-u'', gunicorn app, ''-n'', ''100'', ''--no-pager''];
     if err \<noteq> nil then broken ''failed to get logs'' else reply_plain [(''app'', JStr app), (''logs'', JStr logs)]
   }"

definition managePythonApp :: "host \<Rightarrow> jtext \<Rightarrow> agent_answer task" where
  "managePythonApp h body =
     (case bind_python body of
        None \<Rightarrow> bad ''invalid payload''
      | Some p \<Rightarrow>
          if py_action p = ''install'' then installPythonApp h p
          else if py_action p = ''start'' then python_control h ''start'' ''started'' (py_app p)
          else if py_action p = ''stop'' then python_control h ''stop'' ''stopped'' (py_app p)
          else if py_action p = ''restart'' then python_control h ''restart'' ''restarted'' (py_app p)
          else if py_action p = ''status'' then pythonAppStatus h (py_app p)
          else if py_action p = ''logs'' then pythonAppLogs h (py_app p)
          else bad (''unknown action: '' @ py_action p))"

section \<open>Application installers\<close>

record wordpress_request =
  wp_domain :: string
  wp_root :: string
  wp_title :: string
  wp_admin_user :: string
  wp_admin_pass :: string
  wp_admin_email :: string
  wp_db_name :: string
  wp_db_user :: string
  wp_db_pass :: string
  wp_db_host :: string
  wp_locale :: string

definition bind_wordpress :: "jtext \<Rightarrow> wordpress_request option" where
  "bind_wordpress body = do {
     kvs \<leftarrow> bind_object body;
     domain \<leftarrow> str_field kvs ''domain'';
     root \<leftarrow> str_field kvs ''root_path'';
     title \<leftarrow> str_field kvs ''title'';
     user \<leftarrow> str_field kvs ''admin_user'';
     pass \<leftarrow> str_field kvs ''admin_pass'';
     email \<leftarrow> str_field kvs ''admin_email'';
     name \<leftarrow> str_field kvs ''db_name'';
     dbUser \<leftarrow> str_field kvs ''db_user'';
     dbPass \<leftarrow> str_field kvs ''db_pass'';
     dbHost \<leftarrow> str_field kvs ''db_host'';
     locale \<leftarrow> str_field kvs ''locale'';
     Some \<lparr>wp_domain = domain, wp_root = root, wp_title = (if title = [] then domain else title),
       wp_admin_user = (if user = [] then ''admin'' else user), wp_admin_pass = pass,
       wp_admin_email = (if email = [] then ''admin@'' @ domain else email), wp_db_name = name, wp_db_user = dbUser,
       wp_db_pass = dbPass, wp_db_host = (if dbHost = [] then ''localhost'' else dbHost),
       wp_locale = (if locale = [] then ''en_US'' else locale)\<rparr>
   }"

definition install_wp_cli :: string where
  "install_wp_cli = ''curl -sO https://raw.githubusercontent.com/wp-cli/builds/gh-pages/phar/wp-cli.phar''
     @ '' && chmod +x wp-cli.phar && mv wp-cli.phar /usr/local/bin/wp''"

fun wp_plugins :: "host \<Rightarrow> string \<Rightarrow> string list \<Rightarrow> unit task" where
  "wp_plugins h root [] = give ()"
| "wp_plugins h root (plugin # plugins) = do {
     _ \<leftarrow> RunShell h ''wp'' [''plugin'', ''install'', plugin, ''--path='' @ root, ''--activate''];
     wp_plugins h root plugins
   }"

definition wordpress_steps :: "host \<Rightarrow> wordpress_request \<Rightarrow> agent_answer task" where
  "wordpress_steps h p = do {
     err \<leftarrow> Mkdir h (wp_root p);
     case err of
       Some e \<Rightarrow> broken (''failed to create root directory: '' @ e)
     | None \<Rightarrow>
         must_run h ''wp'' [''core'', ''download'', ''--path='' @ wp_root p, ''--locale='' @ wp_locale p, ''--force'']
           ''failed to download WordPress: '' (\<lambda>_.
         must_run h ''wp'' [''config'', ''create'', ''--path='' @ wp_root p, ''--dbname='' @ wp_db_name p,
             ''--dbuser='' @ wp_db_user p, ''--dbpass='' @ wp_db_pass p, ''--dbhost='' @ wp_db_host p, ''--force'']
           ''failed to create wp-config: '' (\<lambda>_.
         must_run h ''wp'' [''core'', ''install'', ''--path='' @ wp_root p, ''--url=https://'' @ wp_domain p,
             ''--title='' @ wp_title p, ''--admin_user='' @ wp_admin_user p, ''--admin_password='' @ wp_admin_pass p,
             ''--admin_email='' @ wp_admin_email p, ''--skip-email'']
           ''failed to install WordPress: '' (\<lambda>_. do {
             _ \<leftarrow> RunShell h ''chown'' [''-R'', ''www-data:www-data'', wp_root p];
             _ \<leftarrow> RunShell h ''find'' [wp_root p, ''-type'', ''d'', ''-exec'', ''chmod'', ''755'', ''{}'', '';''];
             _ \<leftarrow> RunShell h ''find'' [wp_root p, ''-type'', ''f'', ''-exec'', ''chmod'', ''644'', ''{}'', '';''];
             _ \<leftarrow> wp_plugins h (wp_root p) [''akismet'', ''wordfence'', ''wp-super-cache''];
             reply_ok True
               [(''message'', JStr (''WordPress installed successfully at '' @ wp_domain p)),
                (''url'', JStr (''https://'' @ wp_domain p)), (''admin'', JStr (''https://'' @ wp_domain p @ ''/wp-admin''))]
           })))
   }"

definition installWordPress :: "host \<Rightarrow> jtext \<Rightarrow> agent_answer task" where
  "installWordPress h body =
     (case bind_wordpress body of
        None \<Rightarrow> bad ''invalid payload''
      | Some p \<Rightarrow>
          if wp_domain p = [] \<or> wp_root p = [] then bad ''domain and root_path are required''
          else if wp_db_name p = [] \<or> wp_db_user p = [] \<or> wp_db_pass p = [] then bad ''database credentials are required''
          else do {
            (_, err) \<leftarrow> RunShell h ''which'' [''wp''];
            if err \<noteq> nil then
              must_run h ''bash'' [''-c'', install_wp_cli] ''failed to install WP-CLI: '' (\<lambda>_. wordpress_steps h p)
            else wordpress_steps h p
          })"

definition installLaravel :: "host \<Rightarrow> jtext \<Rightarrow> agent_answer task" where
  "installLaravel h body =
     (case (do {
        kvs \<leftarrow> bind_object body;
        domain \<leftarrow> str_field kvs ''domain'';
        root \<leftarrow> str_field kvs ''root_path'';
        project \<leftarrow> str_field kvs ''project_name'';
        Some (domain, root)
      }) of
        None \<Rightarrow> bad ''invalid payload''
      | Some (domain, root) \<Rightarrow>
          if domain = [] \<or> root = [] then bad ''domain and root_path are required''
          else do {
            (_, err) \<leftarrow> RunShell h ''which'' [''composer''];
            if err \<noteq> nil then broken ''Composer is not installed''
            else must_run h ''composer'' [''create-project'', ''laravel/laravel'', root, ''--prefer-dist'']
              ''failed to create Laravel project: '' (\<lambda>_. do {
                _ \<leftarrow> RunShell h ''chown'' [''-R'', ''www-data:www-data'', root];
                _ \<leftarrow> RunShell h ''chmod'' [''-R'', ''775'', path_join root ''storage''];
                _ \<leftarrow> RunShell h ''chmod'' [''-R'', ''775'', path_join (path_join root ''bootstrap'') ''cache''];
                reply_ok True [(''message'', JStr (''Laravel project created at '' @ domain)),
                  (''url'', JStr (''https://'' @ domain))]
              })
          })"

section \<open>Bot blocker\<close>

definition bot_map_file :: string where
  "bot_map_file = ''/etc/nginx/conf.d/bot-blocker.conf''"

definition bot_ips_file :: string where
  "bot_ips_file = ''/etc/nginx/conf.d/bot-ips.conf''"

definition bot_map :: string where
  "bot_map = lines
     [''# SigardaPanel Bot Blocker - User Agent Map'',
      ''map $http_user_agent $bad_bot {'',
      ''    default 0;'',
      ''    ~*(bot|crawl|spider|scraper|harvest|collect|grab|extract|email|siphon) 1;'',
      ''    ~*(nikto|sqlmap|nmap|masscan|zgrab|dirbuster|gobuster|wfuzz) 1;'',
      ''    ~*(python-requests|python-urllib|go-http-client|java/|perl|ruby) 1;'',
      ''    ~*(curl|wget|libwww|lwp-trivial|urllib) 0;'',
      ''    \"\" 1;'',
      ''}'',
      []]"

definition bot_check :: string where
  "bot_check = lines
     [''    # SigardaPanel Bot Blocker'',
      ''    if ($bad_bot) {'',
      ''        return 403;'',
      ''    }'',
      [],
      []]"

text \<open>The new content of a configuration, or \<open>None\<close> when it is left alone.\<close>

definition inject_check :: "string \<Rightarrow> string option" where
  "inject_check content =
     (if contains content ''SigardaPanel Bot Blocker'' then None
      else case last_index_char content CHR ''}'' of
             None \<Rightarrow> None
           | Some i \<Rightarrow> Some (take i content @ bot_check @ drop i content))"

definition remove_check :: "string \<Rightarrow> string option" where
  "remove_check content =
     (case index content ''    # SigardaPanel Bot Blocker'' of
        None \<Rightarrow> None
      | Some i \<Rightarrow>
          (case index (drop i content) ''}'' of
             None \<Rightarrow> None
           | Some j \<Rightarrow> Some (take i content @ dropWhile (\<lambda>c. c = CHR 0x0A) (drop (i + j + 1) content))))"

definition edit_file :: "host \<Rightarrow> (string \<Rightarrow> string option) \<Rightarrow> string \<Rightarrow> unit task" where
  "edit_file h f path = do {
     content \<leftarrow> observe (\<lambda>past. h_read h past path);
     case Option.bind content f of
       None \<Rightarrow> give ()
     | Some new \<Rightarrow> do { _ \<leftarrow> WriteFile h path new; give () }
   }"

definition injectBotBlockInclude :: "host \<Rightarrow> string \<Rightarrow> unit task" where
  "injectBotBlockInclude h path = edit_file h inject_check path"

definition removeBotBlockInclude :: "host \<Rightarrow> string \<Rightarrow> unit task" where
  "removeBotBlockInclude h path = edit_file h remove_check path"

fun each_file :: "(string \<Rightarrow> unit task) \<Rightarrow> string list \<Rightarrow> unit task" where
  "each_file f [] = give ()"
| "each_file f (x # xs) = do { _ \<leftarrow> f x; each_file f xs }"

definition site_conf :: "string \<Rightarrow> string" where
  "site_conf f = ''/etc/nginx/sites-enabled/'' @ f"

definition listed_files :: "string \<Rightarrow> string list" where
  "listed_files out = filter (\<lambda>f. f \<noteq> []) (split_on CHR 0x0A (trim_space out))"

definition list_sites :: "host \<Rightarrow> string task" where
  "list_sites h = do {
     (out, _) \<leftarrow> RunShell h ''sh'' [''-c'', ''ls /etc/nginx/sites-enabled/ 2>/dev/null''];
     give out
   }"

text \<open>The test of the configuration that the changes end with.\<close>

definition tested :: "host \<Rightarrow> (string \<Rightarrow> agent_answer task) \<Rightarrow> agent_answer task \<Rightarrow> agent_answer task" where
  "tested h failure success = do {
     (_, err) \<leftarrow> RunShell h ''nginx'' [''-t''];
     case err of
       Some e \<Rightarrow> failure e
     | None \<Rightarrow> do { _ \<leftarrow> RunShell h ''systemctl'' [''reload'', ''nginx'']; success }
   }"

definition enableBotBlocker :: "host \<Rightarrow> agent_answer task" where
  "enableBotBlocker h = do {
     err \<leftarrow> WriteFile h bot_map_file bot_map;
     if err \<noteq> nil then broken ''failed to write bot blocker config''
     else do {
       out \<leftarrow> list_sites h;
       _ \<leftarrow> each_file (\<lambda>f. injectBotBlockInclude h (site_conf f)) (filter (\<lambda>f. f \<noteq> ''default'') (listed_files out));
       tested h
         (\<lambda>e. do {
           _ \<leftarrow> RunShell h ''rm'' [''-f'', bot_map_file];
           _ \<leftarrow> each_file (\<lambda>f. removeBotBlockInclude h (site_conf f)) (listed_files out);
           broken (''nginx config test failed: '' @ e)
         })
         (reply_ok True [(''message'', JStr ''Bot blocker enabled'')])
     }
   }"

definition disableBotBlocker :: "host \<Rightarrow> agent_answer task" where
  "disableBotBlocker h = do {
     _ \<leftarrow> RunShell h ''rm'' [''-f'', bot_map_file];
     out \<leftarrow> list_sites h;
     _ \<leftarrow> each_file (\<lambda>f. removeBotBlockInclude h (site_conf f)) (listed_files out);
     tested h (\<lambda>e. broken (''nginx config test failed: '' @ e)) (reply_ok True [(''message'', JStr ''Bot blocker disabled'')])
   }"

definition current_config :: "host \<Rightarrow> string \<Rightarrow> string task" where
  "current_config h path = observe (\<lambda>past. case h_read h past path of Some s \<Rightarrow> s | None \<Rightarrow> [])"

definition listBotBlockerRules :: "host \<Rightarrow> agent_answer task" where
  "listBotBlockerRules h = do {
     content \<leftarrow> current_config h bot_map_file;
     reply_plain [(''enabled'', JBool (content \<noteq> [])), (''config'', JStr content)]
   }"

definition agent_line :: "string \<Rightarrow> string" where
  "agent_line agent = ''    ~*('' @ agent @ '') 1;''"

definition deny_line :: "string \<Rightarrow> string" where
  "deny_line ip = ''deny '' @ ip @ '';''"

definition counted_message :: "string \<Rightarrow> nat \<Rightarrow> string \<Rightarrow> agent_answer task" where
  "counted_message before n after = reply_ok True [(''message'', JStr (before @ itoa (int n) @ after))]"

definition update_map :: "host \<Rightarrow> string \<Rightarrow> agent_answer task \<Rightarrow> agent_answer task" where
  "update_map h config success = do {
     err \<leftarrow> WriteFile h bot_map_file config;
     if err \<noteq> nil then broken ''failed to update config''
     else tested h (\<lambda>_. broken ''nginx config test failed'') success
   }"

definition addBotAgent :: "host \<Rightarrow> string list \<Rightarrow> agent_answer task" where
  "addBotAgent h agents =
     (case List.find (\<lambda>a. \<not> isShellSafe a) agents of
        Some a \<Rightarrow> bad (''invalid agent pattern: '' @ a)
      | None \<Rightarrow> do {
          config \<leftarrow> current_config h bot_map_file;
          if config = [] then bad ''bot blocker not enabled''
          else case last_index_char config CHR ''}'' of
            None \<Rightarrow> bad ''invalid nginx config format''
          | Some i \<Rightarrow> update_map h (take i config @ lines (map agent_line agents) @ [CHR 0x0A] @ drop i config)
              (counted_message ''Added '' (length agents) '' bot agent patterns'')
        })"

definition removeBotAgent :: "host \<Rightarrow> string list \<Rightarrow> agent_answer task" where
  "removeBotAgent h agents = do {
     config \<leftarrow> current_config h bot_map_file;
     if config = [] then bad ''bot blocker not enabled''
     else update_map h (foldl (\<lambda>c a. replace_all c (agent_line a) []) config agents)
       (counted_message ''Removed '' (length agents) '' bot agent patterns'')
   }"

text \<open>\<open>parseIP\<close> is \<open>net.ParseIP\<close> read as "is an address".\<close>

definition addBotIP :: "(string \<Rightarrow> bool) \<Rightarrow> host \<Rightarrow> string list \<Rightarrow> agent_answer task" where
  "addBotIP parseIP h ips =
     (case List.find (\<lambda>ip. \<not> parseIP ip) ips of
        Some ip \<Rightarrow> bad (''invalid IP: '' @ ip)
      | None \<Rightarrow> do {
          err \<leftarrow> append_file h bot_ips_file
            (''# SigardaPanel Bot Blocker - IP Blocklist'' @ [CHR 0x0A] @ lines (map deny_line ips) @ [CHR 0x0A]);
          if err \<noteq> nil then broken ''failed to add IPs''
          else tested h (\<lambda>_. broken ''nginx config test failed'') (counted_message ''Added '' (length ips) '' IPs to blocklist'')
        })"

text \<open>\<open>removeLineFromFile\<close>: the lines that do not contain the text.\<close>

definition without_lines :: "string \<Rightarrow> string \<Rightarrow> string" where
  "without_lines match content = lines (filter (\<lambda>l. \<not> contains l match) (split_on CHR 0x0A content))"

definition removeLineFromFile :: "host \<Rightarrow> string \<Rightarrow> string \<Rightarrow> unit task" where
  "removeLineFromFile h path match = edit_file h (\<lambda>content. Some (without_lines match content)) path"

definition removeBotIP :: "host \<Rightarrow> string list \<Rightarrow> agent_answer task" where
  "removeBotIP h ips = do {
     _ \<leftarrow> each_file (removeLineFromFile h bot_ips_file) ips;
     tested h (\<lambda>_. broken ''nginx config test failed'') (counted_message ''Removed '' (length ips) '' IPs from blocklist'')
   }"

definition updateBotBlocker :: "(string \<Rightarrow> bool) \<Rightarrow> host \<Rightarrow> string list \<Rightarrow> string list \<Rightarrow> agent_answer task" where
  "updateBotBlocker parseIP h agents ips = do {
     err \<leftarrow> WriteFile h bot_map_file (lines
       [''# SigardaPanel Bot Blocker - User Agent Map'',
        ''map $http_user_agent $bad_bot {'',
        ''    default 0;'',
        lines (map agent_line (filter isShellSafe agents)),
        ''    \"\" 1;'',
        ''}'',
        []]);
     if err \<noteq> nil then broken ''failed to write config''
     else do {
       err \<leftarrow> WriteFile h bot_ips_file
         (''# SigardaPanel Bot Blocker - IP Blocklist'' @ [CHR 0x0A] @ lines (map deny_line (filter parseIP ips)) @ [CHR 0x0A]);
       if err \<noteq> nil then broken ''failed to write IP config''
       else tested h (\<lambda>_. broken ''nginx config test failed'') (reply_ok True [(''message'', JStr ''Bot blocker updated'')])
     }
   }"

definition manageBotBlocker :: "(string \<Rightarrow> bool) \<Rightarrow> host \<Rightarrow> jtext \<Rightarrow> agent_answer task" where
  "manageBotBlocker parseIP h body =
     (case (do {
        kvs \<leftarrow> bind_object body;
        action \<leftarrow> str_field kvs ''action'';
        agents \<leftarrow> strings_field kvs ''agents'';
        ips \<leftarrow> strings_field kvs ''ips'';
        Some (action, agents, ips)
      }) of
        None \<Rightarrow> bad ''invalid payload''
      | Some (action, agents, ips) \<Rightarrow>
          if action = ''enable'' then enableBotBlocker h
          else if action = ''disable'' then disableBotBlocker h
          else if action = ''list'' then listBotBlockerRules h
          else if action = ''add-agent'' then addBotAgent h agents
          else if action = ''remove-agent'' then removeBotAgent h agents
          else if action = ''add-ip'' then addBotIP parseIP h ips
          else if action = ''remove-ip'' then removeBotIP h ips
          else if action = ''update'' then updateBotBlocker parseIP h agents ips
          else bad (''unknown action: '' @ action))"

end
