(* ===== verification/AgentDocker.thy ===== *)
theory AgentDocker
  imports AgentGuards AgentApps
begin

text \<open>
  The tasks of \<open>internal/agenthttp/docker.go\<close>: containers, images, volumes, networks and compose files. Their values
  are passed to \<open>docker\<close> as they come; only \<open>siteCreateTask\<close> checks what a container may mount.
\<close>

section \<open>Tables\<close>

fun split_tabs :: "nat \<Rightarrow> string \<Rightarrow> string list" where
  "split_tabs 0 s = []"
| "split_tabs (Suc 0) s = [s]"
| "split_tabs (Suc (Suc n)) s = (case split2 CHR 0x09 s of [a, b] \<Rightarrow> a # split_tabs (Suc n) b | _ \<Rightarrow> [s])"

definition safeIndex :: "string list \<Rightarrow> nat \<Rightarrow> string" where
  "safeIndex parts i = (if i < length parts then parts ! i else [])"

text \<open>The rows of a listing: \<open>SplitN\<close> of the non-empty lines, those with enough columns, by column name.\<close>

definition table_rows :: "nat \<Rightarrow> nat \<Rightarrow> string list \<Rightarrow> string \<Rightarrow> json list" where
  "table_rows n enough columns out =
     map (\<lambda>parts. JObj (map (\<lambda>(i, c). (c, JStr (safeIndex parts i))) (enumerate 0 columns)))
       (filter (\<lambda>parts. enough \<le> length parts)
         (map (split_tabs n) (filter (\<lambda>l. l \<noteq> []) (text_lines (trim_space out)))))"

definition list_table :: "host \<Rightarrow> string list \<Rightarrow> string \<Rightarrow> nat \<Rightarrow> nat \<Rightarrow> string list \<Rightarrow> agent_answer task" where
  "list_table h args key n enough columns = do {
     (out, err) \<leftarrow> RunShell h ''docker'' args;
     case err of
       Some e \<Rightarrow> reply_ok False [(key, JArr []), (''error'', JStr e)]
     | None \<Rightarrow>
         let rs = table_rows n enough columns out
         in reply_ok True [(key, null_list rs), (''total'', JNum (int (length rs)))]
   }"

definition tabbed :: "string list \<Rightarrow> string" where
  "tabbed ws = join_on CHR 0x09 (map (\<lambda>w. ''{{.'' @ w @ ''}}'') ws)"

definition dockerContainersTask :: "host \<Rightarrow> agent_answer task" where
  "dockerContainersTask h =
     (if \<not> h_program h ''docker''
      then reply_ok True [(''containers'', JArr []), (''message'', JStr ''Docker not installed'')]
      else list_table h
        [''ps'', ''-a'', ''--format'', tabbed [''ID'', ''Names'', ''Image'', ''Status'', ''State'', ''Ports'', ''CreatedAt'']]
        ''containers'' 7 6 [''id'', ''name'', ''image'', ''status'', ''state'', ''ports'', ''created''])"

definition dockerImagesTask :: "host \<Rightarrow> agent_answer task" where
  "dockerImagesTask h =
     (if \<not> h_program h ''docker'' then reply_ok True [(''images'', JArr [])]
      else list_table h [''images'', ''--format'', tabbed [''Repository'', ''Tag'', ''Size'', ''CreatedAt'']]
        ''images'' 4 3 [''repository'', ''tag'', ''size'', ''created''])"

definition dockerVolumesTask :: "host \<Rightarrow> agent_answer task" where
  "dockerVolumesTask h = list_table h [''volume'', ''ls'', ''--format'', tabbed [''Name'', ''Driver'']]
     ''volumes'' 4 2 [''name'', ''driver'', ''mountpoint'', ''created'']"

definition dockerNetworksTask :: "host \<Rightarrow> agent_answer task" where
  "dockerNetworksTask h = list_table h [''network'', ''ls'', ''--format'', tabbed [''Name'', ''Driver'', ''Scope'', ''CreatedAt'']]
     ''networks'' 4 2 [''name'', ''driver'', ''scope'', ''created'']"

section \<open>Containers\<close>

definition dockerContainerAction :: "host \<Rightarrow> string \<Rightarrow> string \<Rightarrow> jtext \<Rightarrow> agent_answer task" where
  "dockerContainerAction h verb past_tense body =
     (case (do { kvs \<leftarrow> bind_object body; str_field kvs ''container_id'' }) of
        None \<Rightarrow> bad ''invalid payload''
      | Some c \<Rightarrow> run_or_tell h ''docker'' [verb, c] verb
          (\<lambda>_. [(''message'', JStr (''container '' @ c @ '' '' @ past_tense))]))"

definition dockerContainerStartTask :: "host \<Rightarrow> jtext \<Rightarrow> agent_answer task" where
  "dockerContainerStartTask h = dockerContainerAction h ''start'' ''started''"

definition dockerContainerStopTask :: "host \<Rightarrow> jtext \<Rightarrow> agent_answer task" where
  "dockerContainerStopTask h = dockerContainerAction h ''stop'' ''stopped''"

definition dockerContainerRestartTask :: "host \<Rightarrow> jtext \<Rightarrow> agent_answer task" where
  "dockerContainerRestartTask h = dockerContainerAction h ''restart'' ''restarted''"

definition forced :: "bool \<Rightarrow> string list" where
  "forced b = (if b then [''-f''] else [])"

definition dockerContainerRemoveTask :: "host \<Rightarrow> jtext \<Rightarrow> agent_answer task" where
  "dockerContainerRemoveTask h body =
     (case (do { kvs \<leftarrow> bind_object body; c \<leftarrow> str_field kvs ''container_id''; force \<leftarrow> bool_field kvs ''force''; Some (c, force) }) of
        None \<Rightarrow> bad ''invalid payload''
      | Some (c, force) \<Rightarrow> run_or_tell h ''docker'' ([''rm''] @ forced force @ [c]) ''remove''
          (\<lambda>_. [(''message'', JStr (''container '' @ c @ '' removed''))]))"

record container_request =
  cr_image :: string
  cr_name :: string
  cr_command :: string
  cr_ports :: "string list"
  cr_volumes :: "string list"
  cr_env :: "(string \<times> string) list"
  cr_restart :: string
  cr_network :: string
  cr_auto_start :: bool

text \<open>A field that is an object of strings, in the order of its keys in the body (Go's order is any).\<close>

definition string_map_field :: "(string \<times> json) list \<Rightarrow> string \<Rightarrow> (string \<times> string) list option" where
  "string_map_field kvs key =
     (case map_of kvs key of
        None \<Rightarrow> Some []
      | Some JNull \<Rightarrow> Some []
      | Some (JObj fs) \<Rightarrow> all_some (map (\<lambda>(k, j). map_option (Pair k) (string_item j)) fs)
      | Some _ \<Rightarrow> None)"

definition bind_container :: "jtext \<Rightarrow> container_request option" where
  "bind_container body = do {
     kvs \<leftarrow> bind_object body;
     img \<leftarrow> str_field kvs ''image'';
     name \<leftarrow> str_field kvs ''name'';
     cmd \<leftarrow> str_field kvs ''command'';
     ports \<leftarrow> strings_field kvs ''ports'';
     volumes \<leftarrow> strings_field kvs ''volumes'';
     env \<leftarrow> string_map_field kvs ''env'';
     restart \<leftarrow> str_field kvs ''restart'';
     network \<leftarrow> str_field kvs ''network'';
     auto \<leftarrow> bool_field kvs ''auto_start'';
     Some \<lparr>cr_image = img, cr_name = name, cr_command = cmd, cr_ports = ports, cr_volumes = volumes, cr_env = env,
       cr_restart = restart, cr_network = network, cr_auto_start = auto\<rparr>
   }"

definition container_args :: "container_request \<Rightarrow> string list" where
  "container_args p =
     [if cr_auto_start p then ''run'' else ''create'', ''-d''] @ given_words [''--name''] (cr_name p)
     @ (if cr_restart p \<noteq> ''no'' then given_words [''--restart''] (cr_restart p) else [])
     @ given_words [''--network''] (cr_network p)
     @ concat (map (\<lambda>v. [''-p'', v]) (cr_ports p)) @ concat (map (\<lambda>v. [''-v'', v]) (cr_volumes p))
     @ concat (map (\<lambda>(k, v). [''-e'', k @ ''='' @ v]) (cr_env p))
     @ [cr_image p] @ given_words [''sh'', ''-c''] (cr_command p)"

definition container_id :: "string \<Rightarrow> string" where
  "container_id out =
     (let end_line = trim_space (last (text_lines (trim_space out)))
      in if length end_line = 64 then end_line else trim_space out)"

text \<open>The message takes the first twelve bytes of the id; a shorter one is a panic.\<close>

definition dockerContainerCreateTask :: "host \<Rightarrow> jtext \<Rightarrow> agent_answer task" where
  "dockerContainerCreateTask h body =
     (case bind_container body of
        None \<Rightarrow> bad ''invalid payload''
      | Some p \<Rightarrow>
          if cr_image p = [] then bad ''image is required''
          else do {
            (out, err) \<leftarrow> RunShell h ''docker'' (container_args p);
            if err \<noteq> nil then reply_ok False [(''message'', JStr (''create failed: '' @ trim_space out))]
            else if length (container_id out) < 12 then give NoAnswer
            else reply_ok True
              [(''message'', JStr (''container '' @ take 12 (container_id out) @ '' created'')),
               (''container_id'', JStr (container_id out))]
          })"

definition dockerContainerLogsTask :: "host \<Rightarrow> string \<Rightarrow> string \<Rightarrow> agent_answer task" where
  "dockerContainerLogsTask h c n0 =
     (let n = (if n0 = [] then ''100'' else n0) in
      if c = [] then bad ''container_id is required''
      else do {
        (out, _) \<leftarrow> RunShell h ''docker'' [''logs'', ''--tail'', n, c];
        reply_ok True [(''logs'', JStr (trim_space out)), (''lines'', JStr n)]
      })"

definition dockerContainerExecTask :: "host \<Rightarrow> jtext \<Rightarrow> agent_answer task" where
  "dockerContainerExecTask h body =
     (case (do { kvs \<leftarrow> bind_object body; c \<leftarrow> str_field kvs ''container_id''; cmd \<leftarrow> str_field kvs ''command''; Some (c, cmd) }) of
        None \<Rightarrow> bad ''invalid payload''
      | Some (c, cmd) \<Rightarrow>
          if c = [] \<or> cmd = [] then bad ''container_id and command are required''
          else do {
            (out, err) \<leftarrow> RunShell h ''docker'' [''exec'', c, ''sh'', ''-c'', cmd];
            if err \<noteq> nil
            then reply_ok False [(''output'', JStr (trim_space out)), (''message'', JStr (''exec failed: '' @ trim_space out))]
            else reply_ok True [(''output'', JStr (trim_space out))]
          })"

section \<open>Images, volumes, networks, compose\<close>

text \<open>A request with one required name.\<close>

definition with_name :: "jtext \<Rightarrow> string \<Rightarrow> ((string \<times> json) list \<Rightarrow> string \<Rightarrow> agent_answer task option) \<Rightarrow> agent_answer task" where
  "with_name body key task =
     (case (do { kvs \<leftarrow> bind_object body; name \<leftarrow> str_field kvs key; m \<leftarrow> task kvs name; Some (name, m) }) of
        None \<Rightarrow> bad ''invalid payload''
      | Some (name, m) \<Rightarrow> if name = [] then bad (key @ '' is required'') else m)"

definition dockerImagePullTask :: "host \<Rightarrow> jtext \<Rightarrow> agent_answer task" where
  "dockerImagePullTask h body = with_name body ''image'' (\<lambda>_ img. Some (run_or_tell h ''docker'' [''pull'', img] ''pull''
     (\<lambda>out. [(''message'', JStr (''image '' @ img @ '' pulled'')), (''output'', JStr (trim_space out))])))"

definition dockerImageRemoveTask :: "host \<Rightarrow> jtext \<Rightarrow> agent_answer task" where
  "dockerImageRemoveTask h body = with_name body ''image'' (\<lambda>kvs img. map_option (\<lambda>force.
     run_or_tell h ''docker'' ([''rmi''] @ forced force @ [img]) ''remove''
       (\<lambda>_. [(''message'', JStr (''image '' @ img @ '' removed''))])) (bool_field kvs ''force''))"

text \<open>\<open>dockerVolumeCreateTask\<close> and \<open>dockerNetworkCreateTask\<close>, then the two removals.\<close>

definition docker_create :: "host \<Rightarrow> string \<Rightarrow> jtext \<Rightarrow> agent_answer task" where
  "docker_create h kind body = with_name body ''name'' (\<lambda>kvs name. map_option (\<lambda>driver.
     run_or_tell h ''docker'' ([kind, ''create''] @ given_words [''--driver''] driver @ [name]) ''create''
       (\<lambda>_. [(''message'', JStr (kind @ '' '' @ name @ '' created''))])) (str_field kvs ''driver''))"

definition docker_remove :: "host \<Rightarrow> string \<Rightarrow> jtext \<Rightarrow> agent_answer task" where
  "docker_remove h kind body = with_name body ''name'' (\<lambda>_ name. Some (run_or_tell h ''docker'' [kind, ''rm'', name] ''remove''
     (\<lambda>_. [(''message'', JStr (kind @ '' '' @ name @ '' removed''))])))"

definition dockerVolumeCreateTask :: "host \<Rightarrow> jtext \<Rightarrow> agent_answer task" where
  "dockerVolumeCreateTask h = docker_create h ''volume''"

definition dockerNetworkCreateTask :: "host \<Rightarrow> jtext \<Rightarrow> agent_answer task" where
  "dockerNetworkCreateTask h = docker_create h ''network''"

definition dockerVolumeRemoveTask :: "host \<Rightarrow> jtext \<Rightarrow> agent_answer task" where
  "dockerVolumeRemoveTask h = docker_remove h ''volume''"

definition dockerNetworkRemoveTask :: "host \<Rightarrow> jtext \<Rightarrow> agent_answer task" where
  "dockerNetworkRemoveTask h = docker_remove h ''network''"

definition compose_path :: "string \<Rightarrow> string" where
  "compose_path path = (if path = [] then ''.'' else path)"

definition dockerComposeUpTask :: "host \<Rightarrow> jtext \<Rightarrow> agent_answer task" where
  "dockerComposeUpTask h body =
     (case (do { kvs \<leftarrow> bind_object body; path \<leftarrow> str_field kvs ''path''; detached \<leftarrow> bool_field kvs ''detached'';
                 build \<leftarrow> bool_field kvs ''build''; Some (path, build) }) of
        None \<Rightarrow> bad ''invalid payload''
      | Some (path, build) \<Rightarrow> run_or_tell h ''docker''
          ([''compose'', ''-f'', compose_path path, ''up'', ''-d''] @ (if build then [''--build''] else [])) ''compose up''
          (\<lambda>out. [(''message'', JStr ''compose up completed''), (''output'', JStr (trim_space out))]))"

definition dockerComposeDownTask :: "host \<Rightarrow> jtext \<Rightarrow> agent_answer task" where
  "dockerComposeDownTask h body =
     (case (do { kvs \<leftarrow> bind_object body; path \<leftarrow> str_field kvs ''path''; timeout \<leftarrow> int_field kvs ''timeout''; Some (path, timeout) }) of
        None \<Rightarrow> bad ''invalid payload''
      | Some (path, timeout) \<Rightarrow> run_or_tell h ''docker''
          ([''compose'', ''-f'', compose_path path, ''down''] @ (if timeout > 0 then [''--timeout'', itoa timeout] else []))
          ''compose down''
          (\<lambda>out. [(''message'', JStr ''compose down completed''), (''output'', JStr (trim_space out))]))"

section \<open>Information\<close>

definition info_format :: string where
  "info_format = tabbed [''ServerVersion'', ''Driver'', ''OperatingSystem'', ''NCPU'', ''MemTotal'', ''DockerRootDir'',
     ''ContainersRunning'', ''ContainersStopped'', ''Images''] @ [CHR 0x09]"

definition info_columns :: "string list" where
  "info_columns = [''version'', ''driver'', ''os'', ''cpus'', ''memory'', ''docker_root'', ''running'', ''stopped'', ''images'']"

definition dockerInfoTask :: "host \<Rightarrow> agent_answer task" where
  "dockerInfoTask h = do {
     (out, err) \<leftarrow> RunShell h ''docker'' [''info'', ''--format'', info_format];
     if err \<noteq> nil then reply_ok False [(''message'', JStr (''docker info failed: '' @ trim_space out))]
     else let parts = split_tabs 10 (trim_space out) in
       if length parts < 6 then reply_ok False [(''message'', JStr ''failed to parse docker info'')]
       else reply_ok True [(''info'', JObj (map (\<lambda>(i, c). (c, JStr (safeIndex parts i))) (enumerate 0 info_columns)))]
   }"

definition usage_row :: "string \<Rightarrow> json list" where
  "usage_row line =
     (let parts = words line in
      if length parts < 3 then []
      else [JObj [(''type'', JStr (parts ! 0)), (''count'', JStr (safeIndex parts 1)), (''size'', JStr (safeIndex parts 2)),
             (''reclaimable'', JStr (safeIndex parts 3))]])"

definition dockerDiskUsageTask :: "host \<Rightarrow> agent_answer task" where
  "dockerDiskUsageTask h = do {
     (out, err) \<leftarrow> RunShell h ''docker''
       [''system'', ''df'', ''--format'', ''table '' @ tabbed [''Type'', ''TotalCount'', ''Size'', ''Reclaimable'']];
     if err \<noteq> nil then reply_ok False [(''message'', JStr (''disk usage failed: '' @ trim_space out))]
     else reply_ok True [(''usage'', null_list (concat (map usage_row (drop 1 (text_lines (trim_space out))))))]
   }"

end
