(* ===== verification/AgentRouter.thy ===== *)
theory AgentRouter
  imports AgentDeploy AgentBackups AgentDatabases AgentDocker
begin

text \<open>
  The routes of \<open>newRouter\<close> (\<open>internal/agenthttp/router.go\<close>) whose tasks are modelled, behind the middleware, and the
  effects all of them are limited to: commands of the allowlist, and removals at a few places.
\<close>

section \<open>Routes\<close>

record agent_request =
  rq_header :: string  \<comment> \<open>\<open>Authorization\<close>\<close>
  rq_query :: "string \<Rightarrow> string"
  rq_body :: jtext

text \<open>\<open>None\<close>: a route that is not modelled here. \<open>parseIP\<close> is \<open>net.ParseIP\<close> read as "is an address".\<close>

definition agent_routes ::
  "(string \<Rightarrow> bool) \<Rightarrow> agent \<Rightarrow> host \<Rightarrow> agent_request \<Rightarrow> (string \<times> agent_answer task) list" where
  "agent_routes parseIP r h q =
     [(''POST /site/create'', siteCreateTask r h (rq_body q)), (''POST /site/delete'', siteDeleteTask r h (rq_body q)),
      (''POST /site/deploy'', siteDeployTask r h (rq_body q)), (''POST /nginx/reload'', nginxReloadTask h),
      (''POST /ssl/issue'', sslIssueTask r h (rq_body q)), (''POST /ssl/renew'', sslRenewTask r h (rq_body q)),
      (''POST /logs/read'', logsReadTask r h (rq_body q)), (''POST /backup/create'', backupCreateTask r h (rq_body q)),
      (''POST /backup/restore'', backupRestoreTask r h (rq_body q)),
      (''POST /backup/database'', databaseBackupTask r h (rq_body q)),
      (''POST /backup/delete'', backupDeleteTask r h (rq_body q)),
      (''POST /database/create'', databaseCreateTask h (rq_body q)),
      (''POST /database/delete'', databaseDeleteTask h (rq_body q)),
      (''POST /dbuser/create'', dbUserCreateTask h (rq_body q)), (''POST /dbuser/delete'', dbUserDeleteTask h (rq_body q)),
      (''POST /app/start'', appStartTask r h (rq_body q)), (''POST /app/stop'', appStopTask h (rq_body q)),
      (''POST /app/restart'', appRestartTask r h (rq_body q)), (''POST /command/exec'', commandExecTask h (rq_body q)),
      (''POST /templates/wordpress'', installWordPress h (rq_body q)),
      (''POST /templates/laravel'', installLaravel h (rq_body q)), (''POST /pm2/manage'', managePM2 h (rq_body q)),
      (''POST /python/manage'', managePythonApp h (rq_body q)),
      (''POST /bot-blocker/manage'', manageBotBlocker parseIP h (rq_body q)),
      (''GET /fail2ban/status'', fail2banStatus h), (''GET /security/overview'', securityOverviewTask h),
      (''GET /fail2ban/jail'', fail2banJail h (rq_query q ''name'')), (''POST /fail2ban/unban'', fail2banUnban h (rq_body q)),
      (''POST /fail2ban/ban'', fail2banBan h (rq_body q)), (''POST /fail2ban/enable'', fail2banEnable h (rq_body q)),
      (''POST /fail2ban/disable'', fail2banDisable h (rq_body q)),
      (''GET /docker/containers'', dockerContainersTask h),
      (''POST /docker/container/start'', dockerContainerStartTask h (rq_body q)),
      (''POST /docker/container/stop'', dockerContainerStopTask h (rq_body q)),
      (''POST /docker/container/restart'', dockerContainerRestartTask h (rq_body q)),
      (''POST /docker/container/remove'', dockerContainerRemoveTask h (rq_body q)),
      (''POST /docker/container/create'', dockerContainerCreateTask h (rq_body q)),
      (''GET /docker/container/logs'', dockerContainerLogsTask h (rq_query q ''container_id'') (rq_query q ''lines'')),
      (''POST /docker/container/exec'', dockerContainerExecTask h (rq_body q)),
      (''GET /docker/images'', dockerImagesTask h), (''POST /docker/image/pull'', dockerImagePullTask h (rq_body q)),
      (''POST /docker/image/remove'', dockerImageRemoveTask h (rq_body q)),
      (''GET /docker/volumes'', dockerVolumesTask h), (''POST /docker/volume/create'', dockerVolumeCreateTask h (rq_body q)),
      (''POST /docker/volume/remove'', dockerVolumeRemoveTask h (rq_body q)),
      (''GET /docker/networks'', dockerNetworksTask h),
      (''POST /docker/network/create'', dockerNetworkCreateTask h (rq_body q)),
      (''POST /docker/network/remove'', dockerNetworkRemoveTask h (rq_body q)),
      (''GET /docker/info'', dockerInfoTask h), (''GET /docker/disk-usage'', dockerDiskUsageTask h),
      (''POST /docker/compose/up'', dockerComposeUpTask h (rq_body q)),
      (''POST /docker/compose/down'', dockerComposeDownTask h (rq_body q)),
      (''GET /git/branches'', gitBranchesTask r h (rq_query q ''root_path'')),
      (''GET /git/log'', gitLogTask r h (rq_query q ''root_path'') (rq_query q ''lines'')),
      (''POST /git/rollback'', gitRollbackTask r h (rq_body q)), (''POST /git/checkout'', gitCheckoutTask r h (rq_body q)),
      (''GET /firewall/status'', firewallStatusTask h), (''POST /firewall/enable'', firewallEnableTask h),
      (''POST /firewall/disable'', firewallDisableTask h), (''POST /firewall/allow'', firewallAllowTask h (rq_body q)),
      (''POST /firewall/deny'', firewallDenyTask h (rq_body q)), (''POST /firewall/delete'', firewallDeleteTask h (rq_body q)),
      (''GET /firewall/rules'', firewallRulesTask h), (''POST /firewall/reset'', firewallResetTask h),
      (''GET /redis/stats'', redisStatsTask h), (''POST /redis/flush'', redisFlushTask h),
      (''GET /redis/info'', redisInfoTask h), (''POST /redis/flushdb'', redisFlushDBTask h (rq_body q))]"

definition agent_route :: "(string \<Rightarrow> bool) \<Rightarrow> agent \<Rightarrow> host \<Rightarrow> string \<Rightarrow> agent_request \<Rightarrow> agent_answer task option" where
  "agent_route parseIP r h route q =
     map_option (requireAgentAuth r (rq_header q)) (map_of (agent_routes parseIP r h q) route)"

section \<open>Commands\<close>

fun argv :: "action \<Rightarrow> string list" where
  "argv (Shell ws) = ws"
| "argv (ShellInput _ ws) = ws"
| "argv (ShellEnv _ ws) = ws"
| "argv (ShellToFile _ _ ws) = ws"
| "argv (ShellIn _ ws) = ws"
| "argv (ShellAs _ _ _ ws) = ws"
| "argv _ = []"

definition allowlisted :: "action \<Rightarrow> bool" where
  "allowlisted a \<longleftrightarrow> (case argv a of [] \<Rightarrow> True | name # _ \<Rightarrow> isAllowedCommand name)"

lemma only_sum [intro]:
  "(\<And>e. s = Inl e \<Longrightarrow> only P (f e)) \<Longrightarrow> (\<And>x. s = Inr x \<Longrightarrow> only P (g x)) \<Longrightarrow>
   only P (case s of Inl e \<Rightarrow> f e | Inr x \<Rightarrow> g x)"
  by (simp split: sum.splits)

text \<open>
  What a class of effects must contain for the tasks that only run commands: any allowed command. Inside, that
  they stay in the class; each task that also touches files is added where the class is given.
\<close>

locale task_effects =
  fixes ok :: "action \<Rightarrow> bool"
  assumes runs: "isAllowedCommand name \<Longrightarrow> argv a = name # args \<Longrightarrow> ok a"
begin

lemma ok_shell [simp]:
  "isAllowedCommand n \<Longrightarrow> ok (Shell (n # args))"
  "isAllowedCommand n \<Longrightarrow> ok (ShellInput s (n # args))"
  "isAllowedCommand n \<Longrightarrow> ok (ShellEnv e (n # args))"
  "isAllowedCommand n \<Longrightarrow> ok (ShellToFile e p (n # args))"
  "isAllowedCommand n \<Longrightarrow> ok (ShellAs u g d (n # args))"
  by (rule runs; simp)+

lemma only_shell [simp, intro]:
  "only ok (RunShell h n args)" "only ok (RunWithInput h s n args)" "only ok (RunShellEnv h e n args)"
  "only ok (RunToFileEnv h e p n args)" "only ok (RunAsUser h u g d n args)" "only ok (run_or_tell h n args what f)"
  by (intro only_rules; simp)+

lemma only_must_run: "(\<And>out. only ok (f out)) \<Longrightarrow> only ok (must_run h n args what f)"
  unfolding must_run_def by (intro only_rules) simp_all

lemmas steps = only_give only_observe only_Stat only_reply_ok only_reply_plain only_shell only_bind only_if only_option
  only_prod only_sum only_must_run

lemma only_runGit [simp, intro]: "only ok (runGit h root args)"
  unfolding runGit_def fileOwner_def Let_def by (intro steps)

lemma only_guards [simp, intro]:
  "only ok (firewallStatusTask h)" "only ok (firewallEnableTask h)" "only ok (firewallDisableTask h)"
  "only ok (firewallAllowTask h b)" "only ok (firewallDenyTask h b)" "only ok (firewallDeleteTask h b)"
  "only ok (firewallRulesTask h)" "only ok (firewallResetTask h)"
  "only ok (redisStatsTask h)" "only ok (redisFlushTask h)" "only ok (redisInfoTask h)" "only ok (redisFlushDBTask h b)"
  unfolding firewallStatusTask_def firewallEnableTask_def firewallDisableTask_def firewallAllowTask_def firewallDenyTask_def
    firewallDeleteTask_def firewallRulesTask_def firewallResetTask_def firewall_rule_def redisStatsTask_def redisFlushTask_def
    redisInfoTask_def redisFlushDBTask_def Let_def
  by (intro steps)+

lemma only_f2b [simp, intro]: "only ok (f2b_command h args what msg)"
  unfolding f2b_command_def by (intro steps)

lemma only_fail2ban [simp, intro]:
  "only ok (fail2banStatus h)" "only ok (securityOverviewTask h)" "only ok (fail2banJail h name)"
  "only ok (fail2banUnban h b)" "only ok (fail2banBan h b)" "only ok (fail2banEnable h b)" "only ok (fail2banDisable h b)"
  unfolding fail2banStatus_def securityOverviewTask_def fail2banJail_def fail2banUnban_def fail2banBan_def
    fail2banEnable_def fail2banDisable_def Let_def
  by (intro steps only_f2b)+

lemma only_list_table [simp, intro]: "only ok (list_table h args key n enough columns)"
  unfolding list_table_def Let_def by (intro steps)

lemma only_with_name:
  "(\<And>kvs name m. task kvs name = Some m \<Longrightarrow> only ok m) \<Longrightarrow> only ok (with_name body key task)"
  unfolding with_name_def by (intro steps) (auto split: bind_splits)

lemma only_docker [simp, intro]:
  "only ok (dockerContainersTask h)" "only ok (dockerImagesTask h)" "only ok (dockerVolumesTask h)"
  "only ok (dockerNetworksTask h)" "only ok (dockerContainerStartTask h b)" "only ok (dockerContainerStopTask h b)"
  "only ok (dockerContainerRestartTask h b)" "only ok (dockerContainerRemoveTask h b)" "only ok (dockerContainerCreateTask h b)"
  "only ok (dockerContainerLogsTask h c n)" "only ok (dockerContainerExecTask h b)" "only ok (dockerImagePullTask h b)"
  "only ok (dockerImageRemoveTask h b)" "only ok (dockerVolumeCreateTask h b)" "only ok (dockerVolumeRemoveTask h b)"
  "only ok (dockerNetworkCreateTask h b)" "only ok (dockerNetworkRemoveTask h b)" "only ok (dockerComposeUpTask h b)"
  "only ok (dockerComposeDownTask h b)" "only ok (dockerInfoTask h)" "only ok (dockerDiskUsageTask h)"
  unfolding dockerContainersTask_def dockerImagesTask_def dockerVolumesTask_def dockerNetworksTask_def
    dockerContainerStartTask_def dockerContainerStopTask_def dockerContainerRestartTask_def dockerContainerRemoveTask_def
    dockerContainerCreateTask_def dockerContainerLogsTask_def dockerContainerExecTask_def dockerImagePullTask_def
    dockerImageRemoveTask_def dockerVolumeCreateTask_def dockerVolumeRemoveTask_def dockerNetworkCreateTask_def
    dockerNetworkRemoveTask_def dockerComposeUpTask_def dockerComposeDownTask_def dockerInfoTask_def
    dockerDiskUsageTask_def dockerContainerAction_def docker_create_def docker_remove_def Let_def
  by ((intro steps only_list_table only_with_name); (clarsimp; fail)?; auto)+

lemma only_run_sql [simp, intro]: "only ok (run_sql h ty m p what msg)"
  unfolding run_sql_def mysql_run_def psql_run_def by (intro steps)

lemma only_databases [simp, intro]:
  "only ok (databaseCreateTask h b)" "only ok (databaseDeleteTask h b)" "only ok (dbUserCreateTask h b)"
  "only ok (dbUserDeleteTask h b)"
  unfolding databaseCreateTask_def databaseDeleteTask_def dbUserCreateTask_def dbUserDeleteTask_def
  by (intro steps only_run_sql)+

lemma only_with_repository: "only ok m \<Longrightarrow> only ok n \<Longrightarrow> only ok (with_repository h root m n)"
  unfolding with_repository_def by (intro steps)

lemma only_with_reference:
  "(\<And>root ref. only ok (task root ref)) \<Longrightarrow> only ok (with_reference r h b key missing invalid task)"
  unfolding with_reference_def by (intro steps only_with_repository)

lemma only_git [simp, intro]:
  "only ok (gitBranchesTask r h root)" "only ok (gitLogTask r h root n)" "only ok (gitRollbackTask r h b)"
  "only ok (gitCheckoutTask r h b)"
  unfolding gitBranchesTask_def gitLogTask_def gitRollbackTask_def gitCheckoutTask_def Let_def
  by (intro steps only_with_repository only_with_reference only_runGit)+

lemma only_deploy [simp, intro]: "only ok (siteDeployTask r h b)"
  unfolding siteDeployTask_def update_tree_def install_dependencies_def restart_app_def is_active_def last_logs_def Let_def
  by (intro steps only_runGit)

lemma only_web [simp, intro]:
  "only ok (nginxReloadTask h)" "only ok (sslRenewTask r h b)" "only ok (logsReadTask r h b)" "only ok (commandExecTask h b)"
  "only ok (appStopTask h b)"
  unfolding nginxReloadTask_def sslRenewTask_def logsReadTask_def commandExecTask_def appStopTask_def Let_def
  by (intro steps)+

lemma only_app_verdict [simp, intro]: "only ok (app_verdict h i failure success)"
  unfolding app_verdict_def is_active_def last_logs_def by (intro steps)

lemma only_dumpDatabase [simp, intro]: "only ok (dumpDatabase h ty user password name file)"
  unfolding dumpDatabase_def by (intro steps)

lemma only_dump_all [simp, intro]: "only ok (dump_all h dir dbs)"
  by (induction dbs) (auto intro!: steps)

lemma only_with_upload [simp, intro]: "only ok (with_upload h s3 file target msg resp)"
  unfolding with_upload_def aws_copy_def Let_def by (intro steps)

lemma only_pm2_action [simp, intro]: "only ok (pm2_action h p)"
  unfolding pm2_action_def pm2_start_def pm2_on_app_def Let_def by (intro steps)

lemma only_pm2 [simp, intro]: "only ok (managePM2 h b)"
  unfolding managePM2_def by (intro steps only_pm2_action)

lemma only_laravel [simp, intro]: "only ok (installLaravel h b)"
  unfolding installLaravel_def by (intro steps)

lemma only_wp_plugins [simp, intro]: "only ok (wp_plugins h root ps)"
  by (induction ps) (auto intro!: steps)

lemma only_tested: "(\<And>e. only ok (f e)) \<Longrightarrow> only ok m \<Longrightarrow> only ok (tested h f m)"
  unfolding tested_def by (intro steps)

lemma only_each_file: "(\<And>x. only ok (f x)) \<Longrightarrow> only ok (each_file f xs)"
  by (induction xs) (auto intro!: steps)

end

section \<open>Files\<close>

lemma only_bind_perform:
  assumes "P a" and "\<And>past. only P (f (h_do h past a))"
  shows "only P (State_Monad.bind (perform h a) f)"
proof (rule onlyI)
  fix past
  obtain added where "snd (run_state (f (h_do h past a)) (past @ [a])) = (past @ [a]) @ added" "list_all P added"
    using assms(2) by (rule onlyD)
  with assms(1) show "\<exists>added. snd (run_state (State_Monad.bind (perform h a) f) past) = past @ added \<and> list_all P added"
    by (intro exI [of _ "a # added"]) (simp add: perform_def)
qed

lemma only_bind_observe: "(\<And>past. only P (f (q past))) \<Longrightarrow> only P (State_Monad.bind (observe q) f)"
  by (auto simp: only_def observe_def)

text \<open>
  A class that also contains every action on files but removals. The tasks that remove name what they need.
\<close>

locale file_effects = task_effects +
  assumes on_files: "argv a = [] \<Longrightarrow> \<forall>p. a \<noteq> DropTree p \<Longrightarrow> \<forall>p. a \<noteq> DropFile p \<Longrightarrow> ok a"
begin

lemma ok_files [simp]:
  "ok (MkdirAll p)" "ok (WriteTo p s)" "ok (AppendTo p s)" "ok (MakeTemp d pat)" "ok (RenamePath p q)"
  "ok (CopyTree p q)" "ok (SanitizeTree p u g)"
  by (rule on_files; simp)+

lemma only_files [simp, intro]:
  "only ok (Mkdir h p)" "only ok (WriteFile h p s)" "only ok (append_file h p s)" "only ok (EnsureDir h p)"
  by (intro only_rules; simp)+

lemma only_write_missing [simp, intro]: "only ok (write_missing h root files)"
  by (induction h root files rule: write_missing.induct) (auto intro!: steps)

lemma only_docker_site [simp, intro]: "only ok (docker_site h p)"
  unfolding docker_site_def published_port_def Let_def by (intro steps only_files only_write_missing)

lemma only_install_vhost [simp, intro]: "only ok (install_vhost r h p proxy)"
  unfolding install_vhost_def generated_def Let_def
  by (intro steps only_files)

lemma only_site_create [simp, intro]: "only ok (siteCreateTask r h b)"
  unfolding siteCreateTask_def by (intro steps only_files only_write_missing only_docker_site only_install_vhost)

lemma only_ssl_issue [simp, intro]: "only ok (sslIssueTask r h b)"
  unfolding sslIssueTask_def Let_def by (intro steps only_files)

lemma only_app_start [simp, intro]: "only ok (appStartTask r h b)" "only ok (appRestartTask r h b)"
  unfolding appStartTask_def appRestartTask_def by (intro steps only_files only_app_verdict)+

lemma only_wordpress [simp, intro]: "only ok (installWordPress h b)"
  unfolding installWordPress_def wordpress_steps_def by (intro steps only_files only_wp_plugins)

lemma only_python [simp, intro]: "only ok (managePythonApp h b)"
  unfolding managePythonApp_def installPythonApp_def python_service_def python_control_def pythonAppStatus_def
    pythonAppLogs_def Let_def
  by (intro steps only_files)

lemma only_edit_file [simp, intro]: "only ok (edit_file h f path)"
  unfolding edit_file_def by (intro steps only_files)

lemma only_bot_blocker [simp, intro]: "only ok (manageBotBlocker parseIP h b)"
  unfolding manageBotBlocker_def enableBotBlocker_def disableBotBlocker_def listBotBlockerRules_def addBotAgent_def
    removeBotAgent_def addBotIP_def removeBotIP_def updateBotBlocker_def update_map_def counted_message_def
    current_config_def list_sites_def injectBotBlockInclude_def removeBotBlockInclude_def removeLineFromFile_def Let_def
  by (intro steps only_files only_tested only_each_file only_edit_file)

lemma only_stat_case:
  "only ok m \<Longrightarrow> (\<And>e. only ok (f e)) \<Longrightarrow> (\<And>n. only ok (g n)) \<Longrightarrow> (\<And>n. only ok (k n)) \<Longrightarrow>
   only ok (case x of NoEntry \<Rightarrow> m | StatError e \<Rightarrow> f e | StatFile n \<Rightarrow> g n | StatDir n \<Rightarrow> k n)"
  by (cases x) simp_all

lemma only_finish_backup [simp, intro]: "only ok (finish_backup h p err out)"
  unfolding finish_backup_def Let_def by (intro steps only_stat_case only_with_upload)

lemma only_database_backup [simp, intro]: "only ok (databaseBackupTask r h b)"
  unfolding databaseBackupTask_def Let_def by (intro steps only_files only_stat_case only_with_upload only_dumpDatabase)

lemma only_temp:
  assumes "\<And>past. Q (fst (h_do h past (MakeTemp d pat)))" and "\<And>dir. Q dir \<Longrightarrow> only ok (f dir)" and "\<And>e. only ok (g e)"
  shows "only ok (State_Monad.bind (perform h (MakeTemp d pat)) (\<lambda>(dir, err). case err of Some e \<Rightarrow> g e | None \<Rightarrow> f dir))"
proof (rule only_bind_perform)
  fix past
  obtain dir err where "h_do h past (MakeTemp d pat) = (dir, err)" by fastforce
  with assms show "only ok (case h_do h past (MakeTemp d pat) of (dir, err) \<Rightarrow> case err of Some e \<Rightarrow> g e | None \<Rightarrow> f dir)"
    by (metis fst_conv only_option prod.case)
qed simp

lemma only_backup_create:
  assumes "\<And>past d. ok (DropTree (fst (h_do h past (MakeTemp d ''full-*''))))"
  shows "only ok (backupCreateTask r h b)"
  unfolding backupCreateTask_def files_backup_def bundle_backup_def bundle_in_def
  by (intro only_temp [where Q = "\<lambda>dir. ok (DropTree dir)"] steps only_files only_finish_backup only_RemoveAll only_dump_all assms)

text \<open>A restore: the extracted tree, the old root and, after a failed move, the new one.\<close>

lemma only_movePath: "ok (DropTree src) \<Longrightarrow> only ok (movePath h src dst)"
  unfolding movePath_def by (intro only_bind only_prod only_if only_RemoveAll only_give) simp_all

lemma only_restore_in:
  assumes "ok (DropTree (rr_root p))" and "ok (DropTree (old_root p))"
    and "ok (DropTree dir)" and "ok (DropTree (path_join dir (path_base (rr_root p))))"
  shows "only ok (restore_in h p archive dir)"
  unfolding restore_in_def extract_and_swap_def swap_roots_def reown_tree_def Let_def
  by (intro only_bind only_prod only_option only_if only_movePath only_RemoveAll only_files only_shell assms) simp_all

lemma only_restore:
  assumes roots: "\<And>p. site_path_ok r (rr_root p) \<Longrightarrow>
      ok (DropTree (rr_root p)) \<and> ok (DropTree (old_root p))"
    and temps: "\<And>past d. Q (fst (h_do h past (MakeTemp d ''restore-*'')))"
    and below: "\<And>dir b. Q dir \<Longrightarrow> ok (DropTree dir) \<and> ok (DropTree (path_join dir b))"
  shows "only ok (backupRestoreTask r h b)"
  unfolding backupRestoreTask_def fetch_archive_def resolve_backup_def aws_copy_def Let_def
  by (intro only_temp [where Q = Q] steps only_files only_stat_case only_restore_in) (use roots temps below in blast)+

lemma only_backup_delete:
  assumes "\<And>evalSymlinks lstatRegular path real.
    resolveBackupFile (router.truncate r) evalSymlinks lstatRegular path = Some real \<Longrightarrow> ok (DropFile real)"
  shows "only ok (backupDeleteTask r h b)"
  unfolding backupDeleteTask_def resolve_backup_def
  by (intro only_bind_observe only_option only_prod only_if only_reply_ok only_give only_bind [OF _ only_prod])
     (auto dest: assms)

lemma only_remove_generated:
  "(\<And>p. removeGeneratedFile path root = Inr p \<Longrightarrow> ok (DropTree p)) \<Longrightarrow> only ok (remove_generated h path root)"
  unfolding remove_generated_def by (intro steps only_RemoveAll)

lemma only_site_delete:
  assumes "\<And>domain root. isValidDomain domain \<Longrightarrow> site_path_ok r root \<Longrightarrow>
      ok (DropTree root) \<and> ok (DropTree (path_join (path_join (backupDir r) ''sites'') (sanitizeBackupName domain)))
      \<and> ok (DropTree (''/var/www/certbot/'' @ domain))"
    and conf: "\<And>p path. removeGeneratedFile path (nginxConfDir r) = Inr p \<Longrightarrow> ok (DropTree p)"
  shows "only ok (siteDeleteTask r h b)"
proof -
  have "only ok (delete_site r h i domain root)" if "isValidDomain domain" "site_path_ok r root" for i domain root
    unfolding delete_site_def stop_service_def remove_htpasswd_def outcome_entries_def Let_def
    by (intro steps only_RemoveAll only_remove_generated) (use assms(1) [OF that] conf in blast)+
  then show ?thesis unfolding siteDeleteTask_def by (intro steps) auto
qed

end

end
