(* ===== verification/AgentProps.thy ===== *)
theory AgentProps
  imports AgentRouter SQLQuoting SiteHandlers
begin

text \<open>
  Properties of the agent. It runs as root and takes its requests from the panel, so the first ones bound what a
  request can make it do, on every machine; the others say what its tasks do to a site.
\<close>

section \<open>Answers\<close>

text \<open>\<open>gives Q m\<close>: whatever the machine answers and whatever happened before, the result of \<open>m\<close> satisfies \<open>Q\<close>.\<close>

definition gives :: "('a \<Rightarrow> bool) \<Rightarrow> 'a task \<Rightarrow> bool" where
  "gives Q m \<longleftrightarrow> (\<forall>prior. Q (fst (run_state m prior)))"

lemma givesD: "gives Q m \<Longrightarrow> Q (fst (run_state m prior))"
  by (simp add: gives_def)

lemma gives_give [simp]: "gives Q (give x) \<longleftrightarrow> Q x"
  by (simp add: gives_def)

lemma gives_bind: "gives R m \<Longrightarrow> (\<And>x. R x \<Longrightarrow> gives Q (f x)) \<Longrightarrow> gives Q (State_Monad.bind m f)"
  by (simp add: gives_def split_beta)

lemma gives_any: "(\<And>x. gives Q (f x)) \<Longrightarrow> gives Q (State_Monad.bind m f)"
  by (simp add: gives_def split_beta)

lemma gives_observe: "(\<And>prior. Q (q prior)) \<Longrightarrow> gives Q (observe q)"
  by (simp add: gives_def observe_def)

lemma gives_if: "(b \<Longrightarrow> gives Q m) \<Longrightarrow> (\<not> b \<Longrightarrow> gives Q n) \<Longrightarrow> gives Q (if b then m else n)"
  by simp

lemma gives_option:
  "(opt = None \<Longrightarrow> gives Q m) \<Longrightarrow> (\<And>x. opt = Some x \<Longrightarrow> gives Q (f x)) \<Longrightarrow> gives Q (case opt of None \<Rightarrow> m | Some x \<Rightarrow> f x)"
  by (cases opt) simp_all

lemma gives_prod: "(\<And>x y. p = (x, y) \<Longrightarrow> gives Q (f x y)) \<Longrightarrow> gives Q (case p of (x, y) \<Rightarrow> f x y)"
  by (cases p) simp

lemmas gives_rules = gives_any gives_if gives_option gives_prod

text \<open>What is not in the allowlist is refused, whatever the machine.\<close>

lemma not_allowed [simp]:
  "\<not> isAllowedCommand ''pm2''" "\<not> isAllowedCommand ''wp''" "\<not> isAllowedCommand ''composer''"
  "\<not> isAllowedCommand ''ss''" "\<not> isAllowedCommand ''grep''" "\<not> isAllowedCommand ''rm''"
  by code_simp+

lemma RunShell_refused: "\<not> isAllowedCommand n \<Longrightarrow> RunShell h n args = give ([], Some (''command not allowed: '' @ n))"
  by (simp add: RunShell_def guarded_def)

lemma must_run_refused:
  "\<not> isAllowedCommand n \<Longrightarrow> must_run h n args what f = broken (what @ ''command not allowed: '' @ n)"
  by (simp add: must_run_def RunShell_refused)

section \<open>A machine and a request for the witnesses\<close>

definition quiet_host :: host where
  "quiet_host = \<lparr>h_do = \<lambda>_ a. (case a of MakeTemp d _ \<Rightarrow> d @ ''/t'' | _ \<Rightarrow> [], nil), h_stat = \<lambda>_ _. StatFile 1,
     h_lstat = \<lambda>_ _. None, h_read = \<lambda>_ _. None, h_real = \<lambda>_ p. Some p, h_program = \<lambda>_. True, h_user = \<lambda>_. None,
     h_port_free = \<lambda>_ _. True, h_files_below = \<lambda>_ _. 0, h_stamp = ''20240101-000000'',
     h_in_90_days = ''2024-04-01T00:00:00Z'', h_hex = ''0011223344556677''\<rparr>"

definition demo_agent :: agent where
  "demo_agent = \<lparr>siteRootDir = ''/home'', backupDir = ''/var/backups/sigardapanel'', nginxConfDir = ''/etc/nginx/sites-enabled'',
     logDir = ''/var/log/nginx'', authToken = ''secret'', allowStubSSL = False, testAuth = False\<rparr>"

definition demo_site :: "(string \<times> json) list" where
  "demo_site = [(''site_id'', JNum 7), (''domain'', JStr ''a.org''), (''root_path'', JStr ''/home/u/a.org'')]"

definition demo_request :: "string \<Rightarrow> agent_request" where
  "demo_request header = \<lparr>rq_header = header, rq_query = \<lambda>_. [], rq_body = Json (JObj demo_site)\<rparr>"

section \<open>Who is served\<close>

lemma bearer_only: "has_prefix header ''Bearer '' \<Longrightarrow> trim_prefix header ''Bearer '' = token \<Longrightarrow> header = ''Bearer '' @ token"
  by (auto simp: trim_prefix_def has_prefix_conv)

text \<open>C33. None of the tasks does anything, or answers anything but 401, for a request whose header is not exactly
  \<open>Bearer\<close> and the configured token; without a configured token, for no request at all.\<close>

theorem agent_needs_token:
  assumes "\<not> testAuth r" and "agent_route parseIP r h route q = Some task"
    and "authToken r = [] \<or> rq_header q \<noteq> ''Bearer '' @ authToken r"
  shows "\<exists>msg. run_state task prior = (Refused 401 msg, prior)"
  using assms bearer_only [of "rq_header q" "authToken r"]
  by (auto simp: agent_route_def requireAgentAuth_def)

lemma demo_route: "map_of (agent_routes parseIP r h q) ''POST /site/delete'' = Some (siteDeleteTask r h (rq_body q))"
  by (simp add: agent_routes_def)

lemma agent_needs_token_witness:
  "\<exists>msg. run_state (requireAgentAuth demo_agent ''Bearer secre'' (siteDeleteTask demo_agent quiet_host (Json (JObj demo_site)))) [] =
     (Refused 401 msg, [])"
  using agent_needs_token [of demo_agent "\<lambda>_. True" quiet_host "''POST /site/delete''" "demo_request ''Bearer secre''" _ "[]"]
  by (simp add: agent_route_def demo_route demo_agent_def demo_request_def)

section \<open>What the agent can be made to do\<close>

text \<open>
  The trees a request can make the agent remove: a root path it accepts, the old root of a restore, a temporary
  directory it made, and, for a deleted site, entries of the configuration, backup and challenge directories.
\<close>

definition below_dir :: "string \<Rightarrow> string \<Rightarrow> bool" where
  "below_dir dir p \<longleftrightarrow> (\<exists>e. proper_elem e \<and> p = path_join dir e)"

definition temporary :: "host \<Rightarrow> string \<Rightarrow> bool" where
  "temporary h p \<longleftrightarrow> (\<exists>prior d pat. p = fst (h_do h prior (MakeTemp d pat)))"

definition removable :: "agent \<Rightarrow> host \<Rightarrow> string \<Rightarrow> bool" where
  "removable r h p \<longleftrightarrow>
     site_path_ok r p \<or> (\<exists>q. site_path_ok r (rr_root q) \<and> p = old_root q)
     \<or> temporary h p \<or> (\<exists>t b. temporary h t \<and> p = path_join t b)
     \<or> has_prefix p (path_clean (nginxConfDir r) @ ''/'')
     \<or> below_dir (path_join (backupDir r) ''sites'') p \<or> below_dir ''/var/www/certbot'' p"

definition within_bounds :: "agent \<Rightarrow> host \<Rightarrow> action \<Rightarrow> bool" where
  "within_bounds r h a \<longleftrightarrow> allowlisted a
     \<and> (case a of DropTree p \<Rightarrow> removable r h p
        | DropFile p \<Rightarrow> isAllowedBackupPath (router.truncate r) p \<and> (\<exists>dir b. p = path_join dir b \<and> RootPathAllowed dir = nil)
        | _ \<Rightarrow> True)"

interpretation bounded: file_effects "within_bounds r h" for r h
  by unfold_locales (auto simp: within_bounds_def allowlisted_def split: action.splits list.splits)

interpretation commands: task_effects allowlisted
  by unfold_locales (simp add: allowlisted_def)

lemma domain_shape:
  assumes "isValidDomain d"
  obtains c s where "d = c # s" and "alnum c" and "list_all (\<lambda>c. alnum c \<or> c \<in> set ''-.'') d"
proof -
  obtain c s where d: "d = c # s" "alnum c"
    using assms by (auto simp: isValidDomain_def AgentPaths.domainRegex_def matches_Seq matches_Cls)
  moreover have "list_all (\<lambda>c. alnum c \<or> c \<in> set ''-.'') d"
    unfolding list_all_iff
    using assms matches_bytes [of AgentPaths.domainRegex d] by (auto simp: isValidDomain_def AgentPaths.domainRegex_def Opt_def)
  ultimately show thesis by (rule that)
qed

lemma alnum_plain: "alnum c \<Longrightarrow> c \<notin> set ''-_./''"
  by (auto simp: alnum_def alpha_def is_digit_def in_range_def)

lemma domain_elem:
  assumes "isValidDomain d"
  shows "proper_elem d"
proof -
  obtain c s where d: "d = c # s" "alnum c" "list_all (\<lambda>c. alnum c \<or> c \<in> set ''-.'') d"
    using assms by (rule domain_shape)
  have "CHR ''/'' \<notin> set d" using d(3) alnum_plain by (fastforce simp: list_all_iff)
  with d alnum_plain [of c] show ?thesis by (auto simp: proper_elem_def plain_elem_def)
qed

lemma of_char_lower: "of_char (lower_char c) = (if in_range 65 90 c then of_char c + 32 else (of_char c :: nat))"
  by (auto simp: lower_char_def in_range_def)

lemma lower_alnum:
  assumes "alnum c"
  shows "name_byte (lower_char c)" and "lower_char c \<notin> set ''-_./''" and "\<not> is_space (lower_char c)"
proof -
  let ?n = "of_char (lower_char c) :: nat"
  have n: "97 \<le> ?n \<and> ?n \<le> 122 \<or> 48 \<le> ?n \<and> ?n \<le> 57"
    using assms by (auto simp: of_char_lower alnum_def alpha_def is_digit_def in_range_def)
  then show "name_byte (lower_char c)" by (auto simp: name_byte_def is_digit_def in_range_def)
  show "lower_char c \<notin> set ''-_./''" using n by auto
  show "\<not> is_space (lower_char c)" using n by (auto simp: is_space_def in_range_def)
qed

lemma sanitize_scan_id: "list_all name_byte s \<Longrightarrow> sanitize_scan b s = s"
  by (induction s arbitrary: b) auto

lemma trim_keeps_head:
  assumes "\<not> P c"
  obtains t where "trim P (c # s) = c # t" and "set t \<subseteq> set s"
proof -
  have "dropWhile P (xs @ [c]) = dropWhile P xs @ [c]" for xs
    using assms by (induction xs) auto
  then have "trim P (c # s) = c # rev (dropWhile P (rev s))" using assms by (simp add: trim_def)
  moreover have "set (rev (dropWhile P (rev s))) \<subseteq> set s" by (auto dest: set_dropWhileD)
  ultimately show thesis by (rule that)
qed

lemma sanitized_elem:
  assumes "isValidDomain d"
  shows "proper_elem (sanitizeBackupName d)"
proof -
  obtain c s where d: "d = c # s" "alnum c" "list_all (\<lambda>c. alnum c \<or> c \<in> set ''-.'') d"
    using assms by (rule domain_shape)
  have bytes: "name_byte (lower_char x) \<and> lower_char x \<noteq> CHR ''/'' \<and> \<not> is_space (lower_char x)" if "x \<in> set d" for x
  proof (cases "alnum x")
    case True
    with lower_alnum [OF True] show ?thesis by auto
  next
    case False
    with d(3) that have "x = CHR ''-'' \<or> x = CHR ''.''" by (auto simp: list_all_iff)
    then show ?thesis by (elim disjE) (simp; code_simp)+
  qed
  have low: "to_lower d = lower_char c # map lower_char s" by (simp add: to_lower_def d)
  have "trim_space (to_lower d) = to_lower d"
    unfolding trim_space_def
    by (rule trim_ends) (use bytes in \<open>auto simp: to_lower_def d(1) last_map\<close>)
  moreover have "list_all name_byte (to_lower d)" using bytes by (simp add: to_lower_def list_all_iff)
  ultimately have eq: "sanitizeBackupName d = trim (\<lambda>c. c \<in> set ''-_.'') (lower_char c # map lower_char s)"
    by (simp add: sanitizeBackupName_def sanitize_scan_id low)
  have c: "lower_char c \<notin> set ''-_./''" using lower_alnum(2) [OF d(2)] .
  then have "\<not> lower_char c \<in> set ''-_.''" by simp
  then obtain t where t: "sanitizeBackupName d = lower_char c # t" "set t \<subseteq> set (map lower_char s)"
    unfolding eq by (rule trim_keeps_head)
  have "set (sanitizeBackupName d) \<subseteq> lower_char ` set d" using t d(1) by auto
  then have "CHR ''/'' \<notin> set (sanitizeBackupName d)" using bytes by fastforce
  with t(1) c show ?thesis by (auto simp: proper_elem_def plain_elem_def)
qed

lemma certbot_below: "isValidDomain d \<Longrightarrow> below_dir ''/var/www/certbot'' (''/var/www/certbot/'' @ d)"
proof -
  assume "isValidDomain d"
  then have d: "proper_elem d" by (rule domain_elem)
  have "abs_path [''var'', ''www'', ''certbot''] = ''/var/www/certbot''" by code_simp
  moreover have "list_all proper_elem [''var'', ''www'', ''certbot'']" by code_simp
  ultimately have "path_join ''/var/www/certbot'' d = ''/var/www/certbot/'' @ d"
    using path_join_abs_path [of "[''var'', ''www'', ''certbot'']" d] d by (simp add: abs_path_def)
  with d show ?thesis by (auto simp: below_dir_def)
qed

lemma resolved_bounds:
  "resolveBackupFile r es lr path = Some p \<Longrightarrow> isAllowedBackupPath r p \<and> (\<exists>dir b. p = path_join dir b \<and> RootPathAllowed dir = nil)"
  by (auto simp: resolveBackupFile_def Let_def split: option.splits if_splits)

lemma route_bounded: "only (within_bounds r h) task" if "agent_route parseIP r h route q = Some task"
proof -
  have delete: "only (within_bounds r h) (siteDeleteTask r h b)" for b
  proof (rule bounded.only_site_delete)
    fix domain root
    assume "isValidDomain domain" and "site_path_ok r root"
    then show "within_bounds r h (DropTree root)
      \<and> within_bounds r h (DropTree (path_join (path_join (backupDir r) ''sites'') (sanitizeBackupName domain)))
      \<and> within_bounds r h (DropTree (''/var/www/certbot/'' @ domain))"
      using sanitized_elem certbot_below
      by (auto simp: within_bounds_def allowlisted_def removable_def below_dir_def)
  next
    fix p path
    assume "removeGeneratedFile path (nginxConfDir r) = Inr p"
    then show "within_bounds r h (DropTree p)"
      by (auto simp: within_bounds_def allowlisted_def removable_def removeGeneratedFile_def Let_def split: if_splits)
  qed
  have create: "only (within_bounds r h) (backupCreateTask r h b)" for b
    by (rule bounded.only_backup_create) (auto simp: within_bounds_def allowlisted_def removable_def temporary_def)
  have restore: "only (within_bounds r h) (backupRestoreTask r h b)" for b
  proof (rule bounded.only_restore [where Q = "temporary h"])
    show "temporary h (fst (h_do h prior (MakeTemp d ''restore-*'')))" for prior d by (auto simp: temporary_def)
  qed (auto simp: within_bounds_def allowlisted_def removable_def)
  have drop: "only (within_bounds r h) (backupDeleteTask r h b)" for b
    by (rule bounded.only_backup_delete) (use resolved_bounds in \<open>auto simp: within_bounds_def allowlisted_def\<close>)
  have "only (within_bounds r h) m" if "m \<in> snd ` set (agent_routes parseIP r h q)" for m
    using that unfolding agent_routes_def
    by (auto simp: delete create restore drop)
  then have guarded: "only (within_bounds r h) (requireAgentAuth r header m)"
    if "map_of (agent_routes parseIP r h q) route = Some m" for header m
    using map_of_SomeD [OF that] by (force simp: requireAgentAuth_def)
  from that obtain m where "map_of (agent_routes parseIP r h q) route = Some m"
    and "task = requireAgentAuth r (rq_header q) m"
    by (auto simp: agent_route_def)
  with guarded show ?thesis by simp
qed



section \<open>Deleting a site\<close>

definition cleaned_up :: "agent_answer \<Rightarrow> json list" where
  "cleaned_up ans = (case ans of
     Replied _ (JObj kvs) \<Rightarrow> (case map_of kvs ''cleaned'' of Some (JArr xs) \<Rightarrow> xs | _ \<Rightarrow> [])
   | _ \<Rightarrow> [])"

text \<open>What a deletion does, command by command.\<close>

definition deletion_step :: "agent \<Rightarrow> string \<Rightarrow> string \<Rightarrow> action \<Rightarrow> bool" where
  "deletion_step r domain root a \<longleftrightarrow>
     (case a of
        Shell (c # _) \<Rightarrow> c \<in> {''systemctl'', ''certbot'', ''nginx''}
      | DropTree p \<Rightarrow> p \<in> {root, path_clean (path_join (nginxConfDir r) (domain @ ''.conf'')),
          path_join (path_join (backupDir r) ''sites'') (sanitizeBackupName domain), ''/var/www/certbot/'' @ domain}
      | _ \<Rightarrow> False)"

lemma delete_site_steps: "only (deletion_step r domain root) (delete_site r h i domain root)"
  unfolding delete_site_def stop_service_def remove_generated_def remove_htpasswd_def Let_def
  by (intro only_rules only_sum; simp add: deletion_step_def removeGeneratedFile_def Let_def split: if_splits)

lemma htpasswd_claimed:
  assumes "\<And>prior e. h_stat h prior (''/etc/nginx/.htpasswd_'' @ domain) \<noteq> StatError e"
  shows "gives (\<lambda>ans. JStr ''htpasswd'' \<in> set (cleaned_up ans)) (delete_site r h i domain root)"
proof -
  have passwords: "gives (\<lambda>ps. ''htpasswd'' \<in> set ps) (remove_htpasswd h domain)"
    unfolding remove_htpasswd_def
  proof (rule gives_bind)
    show "gives (\<lambda>(_, err). err = nil) (Stat h (''/etc/nginx/.htpasswd_'' @ domain))"
      unfolding Stat_def using assms by (intro gives_observe) (auto split: stat_result.splits)
  qed (auto intro!: gives_rules)
  have htpasswd: "gives (\<lambda>ans. JStr ''htpasswd'' \<in> set (cleaned_up ans))
      (State_Monad.bind (remove_htpasswd h domain) f)"
    if "\<And>ps. ''htpasswd'' \<in> set ps \<Longrightarrow> gives (\<lambda>ans. JStr ''htpasswd'' \<in> set (cleaned_up ans)) (f ps)" for f
    using passwords that by (rule gives_bind)
  show ?thesis
    unfolding delete_site_def Let_def
    by (intro gives_prod htpasswd gives_any) (simp add: reply_ok_def cleaned_up_def)
qed



end
