(* ===== verification/AgentClaims.thy ===== *)
theory AgentClaims
  imports AgentProps
begin

text \<open>
  What the tasks of the agent promise about the code and the data of a site: whose rights its code gets, what an
  application unit says, what the database server reads, and what becomes of the web server's configuration.
\<close>

section \<open>Steps in their history\<close>

text \<open>
  \<open>steps P past added\<close>: each action of \<open>added\<close>, done after \<open>past\<close> and the ones before it, satisfies \<open>P\<close> there;
  \<open>always P m\<close>: that holds of what \<open>m\<close> does after any history. \<open>only\<close> is the case of a \<open>P\<close> without history.
\<close>

fun steps :: "(action list \<Rightarrow> action \<Rightarrow> bool) \<Rightarrow> action list \<Rightarrow> action list \<Rightarrow> bool" where
  "steps P prior [] \<longleftrightarrow> True"
| "steps P prior (a # as) \<longleftrightarrow> P prior a \<and> steps P (prior @ [a]) as"

definition always :: "(action list \<Rightarrow> action \<Rightarrow> bool) \<Rightarrow> 'a task \<Rightarrow> bool" where
  "always P m \<longleftrightarrow> (\<forall>prior. \<exists>added. snd (run_state m prior) = prior @ added \<and> steps P prior added)"

lemma steps_append [simp]: "steps P prior (as @ bs) \<longleftrightarrow> steps P prior as \<and> steps P (prior @ as) bs"
  by (induction as arbitrary: prior) auto

lemma steps_all: "list_all Q as \<Longrightarrow> (\<And>prior a. Q a \<Longrightarrow> P prior a) \<Longrightarrow> steps P prior as"
  by (induction as arbitrary: prior) auto

lemma alwaysD:
  assumes "always P m"
  obtains added where "snd (run_state m prior) = prior @ added" and "steps P prior added"
  using assms by (auto simp: always_def)

lemma always_start: "always P m \<Longrightarrow> steps P [] (snd (run_state m []))"
  by (rule alwaysD [of P m "[]"]) simp_all

lemma always_only: "only Q m \<Longrightarrow> (\<And>prior a. Q a \<Longrightarrow> P prior a) \<Longrightarrow> always P m"
  unfolding only_def always_def by (metis steps_all)

lemma always_give: "always P (give x)"
  by (simp add: always_def)

lemma always_bind:
  assumes m: "always P m" and f: "\<And>x. always P (f x)"
  shows "always P (State_Monad.bind m f)"
  unfolding always_def
proof
  fix prior
  obtain x prior' where r: "run_state m prior = (x, prior')" by (cases "run_state m prior")
  obtain a where a: "prior' = prior @ a" "steps P prior a" using m r by (metis alwaysD snd_conv)
  obtain b where "snd (run_state (f x) prior') = prior' @ b" "steps P prior' b" using f by (rule alwaysD)
  with r a show "\<exists>added. snd (run_state (State_Monad.bind m f) prior) = prior @ added \<and> steps P prior added"
    by (intro exI [of _ "a @ b"]) simp
qed

text \<open>An observation that decides what is done next, in the same history.\<close>

lemma always_observe:
  assumes "\<And>prior. \<exists>added. snd (run_state (f (q prior)) prior) = prior @ added \<and> steps P prior added"
  shows "always P (State_Monad.bind (observe q) f)"
  unfolding always_def using assms by (simp add: observe_def)

lemma always_if: "(b \<Longrightarrow> always P m) \<Longrightarrow> (\<not> b \<Longrightarrow> always P n) \<Longrightarrow> always P (if b then m else n)"
  by simp

lemma always_option:
  "(opt = None \<Longrightarrow> always P m) \<Longrightarrow> (\<And>x. opt = Some x \<Longrightarrow> always P (g x)) \<Longrightarrow>
   always P (case opt of None \<Rightarrow> m | Some x \<Rightarrow> g x)"
  by (simp split: option.splits)

lemma always_prod: "(\<And>x y. p = (x, y) \<Longrightarrow> always P (g x y)) \<Longrightarrow> always P (case p of (x, y) \<Rightarrow> g x y)"
  by (simp split: prod.splits)

lemmas always_rules = always_give always_bind always_if always_option always_prod

section \<open>Whose rights the code of a site gets\<close>

text \<open>
  What a deployment may run. \<open>git\<close> executes hooks and configured commands of the repository: as root only where the
  repository belongs to root or is not there; under another account only if that owns it. Everything else that runs
  code of the site runs under the account of the site; root itself runs \<open>git clone\<close>, \<open>chown\<close> and the service manager.
\<close>

definition rightful :: "host \<Rightarrow> string \<Rightarrow> string \<Rightarrow> action list \<Rightarrow> action \<Rightarrow> bool" where
  "rightful h root user prior a \<longleftrightarrow>
     (let repository = h_lstat h prior (path_join root ''.git'') in
      case a of
        Shell (c # w # _) \<Rightarrow>
          (if c = ''git'' \<and> w \<noteq> ''clone'' then (case repository of None \<Rightarrow> True | Some (k, u, g) \<Rightarrow> k \<noteq> SymbolicLink \<and> u = 0)
           else c \<in> {''git'', ''chown'', ''systemctl'', ''journalctl''})
      | ShellAs u g d (c # _) \<Rightarrow>
          u \<noteq> 0 \<and> (if c = ''git'' then \<exists>k. k \<noteq> SymbolicLink \<and> repository = Some (k, u, g) else siteUserIDs h user = Some (u, g))
      | _ \<Rightarrow> False)"

lemma rightful_simps [simp]:
  "rightful h root user prior (Shell (''git'' # ''clone'' # ws))"
  "rightful h root user prior (Shell (''chown'' # w # ws))"
  "rightful h root user prior (Shell (''systemctl'' # w # ws))"
  "rightful h root user prior (Shell (''journalctl'' # w # ws))"
  by (simp_all add: rightful_def)

lemma always_shell:
  "(\<And>prior. P prior (Shell (n # args))) \<Longrightarrow> always P (RunShell h n args)"
  by (rule always_only [of "\<lambda>a. a = Shell (n # args)"]) (auto intro: only_RunShell)

lemma always_as_user:
  "(\<And>prior. u \<noteq> 0 \<Longrightarrow> P prior (ShellAs u g d (n # args))) \<Longrightarrow> always P (RunAsUser h u g d n args)"
  by (rule always_only [of "\<lambda>a. u \<noteq> 0 \<and> a = ShellAs u g d (n # args)"]) (auto intro: only_RunAsUser)

lemma always_Stat: "always P (Stat h p)"
  by (rule always_only [of "\<lambda>a. False"]) auto

lemma run_guarded:
  "run_state (guarded n (command h n a)) prior =
     (if isAllowedCommand n then ((fst (h_do h prior a), map_option (\<lambda>e. n @ '' failed: '' @ e) (snd (h_do h prior a))), prior @ [a])
      else (([], Some (''command not allowed: '' @ n)), prior))"
  by (simp add: guarded_def command_def perform_def split_beta)

lemma always_runGit: "always (rightful h root user) (runGit h root args)"
  unfolding runGit_def Let_def fileOwner_def
proof (rule always_observe)
  fix prior
  let ?entry = "h_lstat h prior (path_join root ''.git'')"
  have shell: "\<exists>added. snd (run_state (RunShell h ''git'' ([''-C'', root] @ args)) prior) = prior @ added
      \<and> steps (rightful h root user) prior added"
    if "case ?entry of None \<Rightarrow> True | Some (k, u, g) \<Rightarrow> k \<noteq> SymbolicLink \<and> u = 0"
    using that by (auto simp: RunShell_def run_guarded rightful_def Let_def)
  have as_user: "\<exists>added. snd (run_state (RunAsUser h u g root ''git'' ([''-C'', root] @ args)) prior) = prior @ added
      \<and> steps (rightful h root user) prior added"
    if "?entry = Some (k, u, g)" "k \<noteq> SymbolicLink" "u \<noteq> 0" for k u g
    using that by (auto simp: RunAsUser_def run_guarded rightful_def Let_def)
  show "\<exists>added. snd (run_state
       (if map_option fst ?entry = Some SymbolicLink then give ([], Some ''refusing to run git: .git is a symlink'')
        else State_Monad.bind (observe (\<lambda>past. map_option snd (h_lstat h past (path_join root ''.git''))))
          (\<lambda>owner. case owner of
             None \<Rightarrow> RunShell h ''git'' ([''-C'', root] @ args)
           | Some (uid, gid) \<Rightarrow>
               if uid \<noteq> 0 then RunAsUser h uid gid root ''git'' ([''-C'', root] @ args)
               else RunShell h ''git'' ([''-C'', root] @ args))) prior) = prior @ added
     \<and> steps (rightful h root user) prior added"
  proof (cases ?entry)
    case None
    with shell show ?thesis by (simp add: observe_def)
  next
    case (Some e)
    then obtain k u g where "?entry = Some (k, u, g)" by (cases e) auto
    with shell as_user show ?thesis by (auto simp: observe_def)
  qed
qed

lemma always_update_tree: "always (rightful h (dp_root p) (dp_system_user p)) (update_tree h p)"
  unfolding update_tree_def
  by (intro always_rules always_Stat always_runGit always_shell; simp)

lemma always_dependencies: "always (rightful h (dp_root p) (dp_system_user p)) (install_dependencies h p)"
  unfolding install_dependencies_def
proof (intro always_rules always_Stat always_as_user)
  fix inst files rest cmd args prior uv u g
  assume "map_of installers (dp_runtime p) = Some inst" and "inst = (files, rest)" and "rest = (cmd, args)"
    and "siteUserIDs h (dp_system_user p) = Some uv" and "uv = (u, g)" and "u \<noteq> 0"
  then show "rightful h (dp_root p) (dp_system_user p) prior (ShellAs u g (dp_root p) (cmd # args))"
    by (auto simp: installers_def rightful_def Let_def split: if_splits)
qed

lemma always_restart: "always (rightful h root user) (restart_app h p)"
  unfolding restart_app_def is_active_def last_logs_def Let_def
  by (intro always_rules always_shell; simp)

text \<open>C36. In a deployment code of the site never runs with the rights of root: whatever the machine answers,
  dependencies are installed under the site's own account, \<open>git\<close> works in a repository as its owner, and as root
  only where root owns the repository or there is none; root runs nothing else but the clone, \<open>chown\<close> and the
  service manager.\<close>

theorem deployment_rights:
  assumes "bind_deploy body = Some p"
  shows "steps (rightful h (dp_root p) (dp_system_user p)) [] (snd (run_state (siteDeployTask r h body) []))"
proof (rule always_start)
  show "always (rightful h (dp_root p) (dp_system_user p)) (siteDeployTask r h body)"
    unfolding siteDeployTask_def assms option.case reply_ok_def Let_def
    by (intro always_rules always_update_tree always_runGit always_dependencies always_restart)
qed

text \<open>A site whose repository belongs to its account.\<close>

definition owned_host :: host where
  "owned_host = quiet_host\<lparr>h_lstat := \<lambda>_ _. Some (DirFile, 1001, 1001), h_user := \<lambda>_. Some (''1001'', ''1001'')\<rparr>"

definition demo_deploy :: jtext where
  "demo_deploy = Json (JObj [(''site_id'', JNum 7), (''domain'', JStr ''a.org''), (''repo'', JStr ''https://git.org/a.git''),
     (''branch'', JStr ''main''), (''root_path'', JStr ''/home/u/a.org''), (''runtime'', JStr ''node''),
     (''app_status'', JStr ''running''), (''app_port'', JNum 3000), (''system_user'', JStr ''shop'')])"

lemma deployment_rights_witness:
  "steps (rightful owned_host ''/home/u/a.org'' ''shop'') [] (snd (run_state (siteDeployTask demo_agent owned_host demo_deploy) []))
   \<and> ShellAs 1001 1001 ''/home/u/a.org'' [''npm'', ''install'', ''--production'']
       \<in> set (snd (run_state (siteDeployTask demo_agent owned_host demo_deploy) []))"
proof
  have "bind_deploy demo_deploy = Some \<lparr>dp_site_id = 7, dp_repo = ''https://git.org/a.git'', dp_branch = ''main'',
      dp_root = ''/home/u/a.org'', dp_runtime = ''node'', dp_app_status = ''running'', dp_app_port = 3000,
      dp_system_user = ''shop''\<rparr>"
    by code_simp
  from deployment_rights [OF this] show "steps (rightful owned_host ''/home/u/a.org'' ''shop'') []
      (snd (run_state (siteDeployTask demo_agent owned_host demo_deploy) []))"
    by simp
  show "ShellAs 1001 1001 ''/home/u/a.org'' [''npm'', ''install'', ''--production'']
       \<in> set (snd (run_state (siteDeployTask demo_agent owned_host demo_deploy) []))"
    by code_simp
qed

section \<open>What an application unit says\<close>

text \<open>
  A double-quoted word as systemd reads it: backslash escapes, \<open>%%\<close> and \<open>$$\<close>; \<open>None\<close> for a specifier or a variable,
  which systemd would replace, and for a word that does not end. The rest of the line is the second result.
\<close>

fun escaped_char :: "char \<Rightarrow> char \<Rightarrow> char option" where
  "escaped_char c d =
     (if c \<noteq> CHR 0x5C then (if d = c then Some c else None)
      else if d = CHR 0x5C \<or> d = CHR 0x22 then Some d
      else if d = CHR ''n'' then Some CHR 0x0A
      else if d = CHR ''r'' then Some CHR 0x0D
      else None)"

fun quoted_word :: "string \<Rightarrow> (string \<times> string) option" where
  "quoted_word [] = None"
| "quoted_word [c] = (if c = CHR 0x22 then Some ([], []) else None)"
| "quoted_word (c # d # s) =
     (if c = CHR 0x22 then Some ([], d # s)
      else if c \<in> {CHR 0x5C, CHR ''%'', CHR ''$''}
      then (case escaped_char c d of None \<Rightarrow> None | Some e \<Rightarrow> map_option (map_prod (Cons e) (\<lambda>r. r)) (quoted_word s))
      else map_option (map_prod (Cons c) (\<lambda>r. r)) (quoted_word (d # s)))"

definition read_word :: "string \<Rightarrow> (string \<times> string) option" where
  "read_word s = (case s of [] \<Rightarrow> None | c # t \<Rightarrow> if c = CHR 0x22 then quoted_word t else None)"

lemma quoted_word_plain:
  "t \<noteq> [] \<Longrightarrow> c \<noteq> CHR 0x22 \<Longrightarrow> c \<notin> {CHR 0x5C, CHR ''%'', CHR ''$''} \<Longrightarrow>
   quoted_word (c # t) = map_option (map_prod (Cons c) (\<lambda>r. r)) (quoted_word t)"
  by (cases t) (simp_all del: escaped_char.simps)

lemma quoted_word_escaped:
  assumes "t \<noteq> []"
  shows "quoted_word (systemd_escape c @ t) = map_option (map_prod (Cons c) (\<lambda>r. r)) (quoted_word t)"
proof -
  consider "c = CHR 0x5C" | "c = CHR 0x22" | "c = CHR ''%''" | "c = CHR ''$''" | "c = CHR 0x0A" | "c = CHR 0x0D"
    | (plain) "c \<notin> {CHR 0x5C, CHR 0x22, CHR ''%'', CHR ''$'', CHR 0x0A, CHR 0x0D}"
    by blast
  then show ?thesis
  proof cases
    case plain
    then show ?thesis using quoted_word_plain [OF assms, of c] by (simp add: systemd_escape_def)
  qed (simp_all add: systemd_escape_def)
qed

lemma quoted_word_escape: "quoted_word (concat (map systemd_escape s) @ CHR 0x22 # t) = Some (s, t)"
proof (induction s)
  case Nil
  then show ?case by (cases t) simp_all
next
  case (Cons c s)
  then show ?case using quoted_word_escaped [of "concat (map systemd_escape s) @ CHR 0x22 # t" c] by simp
qed

lemma systemdQuote_read: "read_word (systemdQuote s @ t) = Some (s, t)"
  using quoted_word_escape [of s t] by (simp add: systemdQuote_def read_word_def)

text \<open>The values a unit gives to a key, in order.\<close>

definition unit_values :: "string \<Rightarrow> string \<Rightarrow> string list" where
  "unit_values key content =
     concat (map (\<lambda>l. if has_prefix l (key @ ''='') then [drop (length key + 1) l] else []) (split_on CHR 0x0A content))"

text \<open>
  A unit that runs the command under the account of the application and nothing else: one shell command, which the
  shell reads exactly as it was given, an existing account that is not root, and no gain of privileges.
\<close>

definition unit_ok :: "host \<Rightarrow> app_request \<Rightarrow> string \<Rightarrow> bool" where
  "unit_ok h p content \<longleftrightarrow>
     unit_values ''User'' content = [ap_user p]
     \<and> ap_user p \<notin> set reservedUsers \<and> (\<exists>u g. h_user h (ap_user p) = Some (u, g) \<and> u \<noteq> ''0'')
     \<and> (\<exists>word. unit_values ''ExecStart'' content = [''/bin/sh -lc '' @ word] \<and> read_word word = Some (''exec '' @ ap_command p, []))
     \<and> unit_values ''WorkingDirectory'' content = [ap_root p]
     \<and> unit_values ''NoNewPrivileges'' content = [''true'']"

abbreviation one_line :: "string \<Rightarrow> bool" where
  "one_line s \<equiv> CHR 0x0A \<notin> set s"

lemma systemd_escape_one_line: "one_line (systemd_escape c)"
  by (simp add: systemd_escape_def)

lemma systemdQuote_one_line: "one_line (systemdQuote s)"
  using systemd_escape_one_line by (auto simp: systemdQuote_def)

lemma itoa_one_line: "one_line (itoa i)"
proof
  assume "CHR 0x0A \<in> set (itoa i)"
  moreover have "nginx_special CHR 0x0A" by code_simp
  ultimately show False using clean_itoa [of i] unfolding clean_def by blast
qed

lemma split_on_none: "d \<notin> set s \<Longrightarrow> split_on d s = [s]"
  by (induction s) auto

lemma split_lines:
  assumes "ls \<noteq> []" and "list_all one_line ls"
  shows "split_on CHR 0x0A (lines ls) = ls"
  unfolding lines_def using assms
proof (induction ls)
  case (Cons l ls)
  then show ?case by (cases ls) (simp_all add: split_on_none split_on_app split_on_append)
qed simp

lemma SystemUser_bytes: "SystemUser s = nil \<Longrightarrow> c \<in> set s \<Longrightarrow> lower_alnum c \<or> c \<in> set ''_-''"
proof -
  assume "SystemUser s = nil" and c: "c \<in> set s"
  then have "matches systemUserRe s" by (simp add: SystemUser_def split: if_splits)
  from matches_bytes [OF this c] show ?thesis
    by (auto simp: systemUserRe_def lower_alnum_def in_range_def)
qed

lemma SystemUser_one_line: "SystemUser s = nil \<Longrightarrow> one_line s"
  using SystemUser_bytes [of s "CHR 0x0A"] by (auto simp: lower_alnum_def is_digit_def in_range_def)

lemma SystemUser_not_empty: "SystemUser s = nil \<Longrightarrow> s \<noteq> []"
  by (auto simp: SystemUser_def systemUserRe_def matches_Seq matches_Cls split: if_splits)

lemma RootPath_one_line: "RootPath s = nil \<Longrightarrow> one_line s"
  using RootPath_bytes [of s "CHR 0x0A"] by (auto simp: alnum_def alpha_def is_digit_def in_range_def)

lemma domain_one_line: "isValidDomain d \<Longrightarrow> one_line d"
proof -
  assume "isValidDomain d"
  then have "list_all (\<lambda>c. alnum c \<or> c \<in> set ''-.'') d" by (rule domain_shape)
  then show "one_line d" by (auto simp: list_all_iff alnum_def alpha_def is_digit_def in_range_def)
qed

lemma unit_ok_accepted:
  assumes ok: "validateAppUnitInput h (ap_domain p) (ap_user p) (ap_root p) (ap_command p) = nil"
  shows "unit_ok h p (unit_text p)"
proof -
  from ok have parts: "isValidDomain (ap_domain p)" "RootPath (ap_root p) = nil" "SystemUser (ap_user p) = nil"
    and user: "\<exists>u g. h_user h (ap_user p) = Some (u, g) \<and> u \<noteq> ''0''"
    by (auto simp: validateAppUnitInput_def split: option.splits if_splits prod.splits)
  have single: "one_line (ap_domain p)" "one_line (ap_root p)" "one_line (ap_user p)" "ap_user p \<noteq> []"
    using parts domain_one_line RootPath_one_line SystemUser_one_line SystemUser_not_empty by auto
  have "ap_user p \<notin> set reservedUsers" using parts by (auto simp: SystemUser_def split: if_splits)
  moreover have "read_word (systemdQuote (''exec '' @ ap_command p)) = Some (''exec '' @ ap_command p, [])"
    using systemdQuote_read [of "''exec '' @ ap_command p" "[]"] by simp
  ultimately show ?thesis
    unfolding unit_ok_def unit_values_def unit_text_def systemdUnitContent_def Let_def
    using single user by (subst split_lines; simp add: itoa_one_line systemdQuote_one_line)+
qed

definition unit_step :: "host \<Rightarrow> app_request \<Rightarrow> action \<Rightarrow> bool" where
  "unit_step h p a \<longleftrightarrow>
     (case a of
        WriteTo path content \<Rightarrow> path = unit_path (ap_site_id p) \<and> unit_ok h p content
      | Shell (c # _) \<Rightarrow> c \<in> {''systemctl'', ''journalctl''}
      | _ \<Rightarrow> False)"

lemma unit_step_simps [simp]:
  "unit_step h p (Shell (''systemctl'' # ws))" "unit_step h p (Shell (''journalctl'' # ws))"
  "unit_step h p (WriteTo path content) \<longleftrightarrow> path = unit_path (ap_site_id p) \<and> unit_ok h p content"
  by (simp_all add: unit_step_def)

lemma app_verdict_steps: "only (unit_step h p) (app_verdict h i failure success)"
  unfolding app_verdict_def is_active_def last_logs_def
  by (intro only_rules; simp)

text \<open>C37. Starting or restarting an application writes no file but the unit of the site, and that unit, as systemd
  reads it, runs the given command, byte for byte, through the shell, in the root path of the site, under the
  account of the request, which exists and is neither root nor a system account, without new privileges.\<close>

theorem app_units_unprivileged:
  assumes "bind_app body = Some p" and "m \<in> {appStartTask r h body, appRestartTask r h body}"
  shows "list_all (unit_step h p) (snd (run_state m []))"
proof (rule only_start)
  have start: "only (unit_step h p) (appStartTask r h body)"
    unfolding appStartTask_def assms(1) option.case
    by (intro only_rules app_verdict_steps) (simp_all add: unit_ok_accepted)
  have restart: "only (unit_step h p) (appRestartTask r h body)"
    unfolding appRestartTask_def assms(1) option.case
    by (intro only_rules app_verdict_steps) (simp_all add: unit_ok_accepted)
  from assms(2) start restart show "only (unit_step h p) m" by auto
qed

definition demo_app :: jtext where
  "demo_app = Json (JObj [(''site_id'', JNum 7), (''domain'', JStr ''a.org''), (''root_path'', JStr ''/home/u/a.org''),
     (''system_user'', JStr ''shop''), (''app_port'', JNum 3000), (''app_command'', JStr ''node %h $HOME'')])"

lemma app_units_unprivileged_witness:
  "list_all (unit_step owned_host \<lparr>ap_site_id = 7, ap_domain = ''a.org'', ap_root = ''/home/u/a.org'', ap_user = ''shop'',
      ap_port = 3000, ap_command = ''node %h $HOME'', ap_memory = 0\<rparr>)
     (snd (run_state (appStartTask demo_agent owned_host demo_app) []))"
  by (rule app_units_unprivileged [where body = demo_app and r = demo_agent])
     (code_simp, simp)

section \<open>The check of the bot blocker\<close>

lemma contains_conv: "contains s p \<longleftrightarrow> (\<exists>u v. s = u @ p @ v)"
proof (induction s)
  case (Cons c s)
  show ?case
  proof
    assume "contains (c # s) p"
    then consider "has_prefix (c # s) p" | "contains s p" by auto
    then show "\<exists>u v. c # s = u @ p @ v"
    proof cases
      case 1
      then show ?thesis by (auto simp: has_prefix_conv intro: exI [of _ "[]"])
    next
      case 2
      with Cons show ?thesis by (metis append_Cons)
    qed
  next
    assume "\<exists>u v. c # s = u @ p @ v"
    then obtain u v where e: "c # s = u @ p @ v" by blast
    show "contains (c # s) p"
    proof (cases u)
      case Nil
      with e have "has_prefix (c # s) p" by (auto simp: has_prefix_conv)
      then show ?thesis by simp
    next
      case (Cons d w)
      with e Cons.IH show ?thesis by auto
    qed
  qed
qed simp

lemma index_first:
  assumes "has_prefix v p" and "\<And>j. j < length u \<Longrightarrow> \<not> has_prefix (drop j u @ v) p"
  shows "index (u @ v) p = Some (length u)"
  using assms(2)
proof (induction u)
  case Nil
  with assms(1) show ?case by (cases v) (auto simp: has_prefix_conv)
next
  case (Cons c u)
  from Cons.prems [of 0] have "\<not> has_prefix (c # u @ v) p" by simp
  moreover have "index (u @ v) p = Some (length u)"
    by (rule Cons.IH) (use Cons.prems [of "Suc j" for j] in simp)
  ultimately show ?case by simp
qed

lemma last_index_decomp:
  "last_index_char s d = Some i \<Longrightarrow> \<exists>v. drop i s = d # v"
  by (metis Cons_nth_drop_Suc last_index_split)

text \<open>A text whose beginning occurs in it nowhere else has no occurrence across the end of another text.\<close>

lemma no_overlap:
  assumes "\<And>k. 0 < k \<Longrightarrow> k < length p \<Longrightarrow> \<not> has_prefix p (drop k p)"
    and "\<not> contains w p" and "w \<noteq> []" and "has_prefix v p"
  shows "\<not> has_prefix (w @ v) p"
proof
  assume "has_prefix (w @ v) p"
  then obtain r where r: "w @ v = p @ r" by (auto simp: has_prefix_conv)
  from assms(4) obtain t where v: "v = p @ t" by (auto simp: has_prefix_conv)
  show False
  proof (cases "length p \<le> length w")
    case True
    with r have "w = p @ drop (length p) w" by (metis append_eq_append_conv_if append_take_drop_id)
    with assms(2) show False by (metis append_Nil contains_conv)
  next
    case False
    with r have w: "w = take (length w) p" by (metis append_eq_conv_conj take_append diff_is_0_eq' nat_le_linear take_0 append_Nil2)
    with r v have "p @ t = drop (length w) p @ r" by (metis append_eq_append_conv append_assoc append_take_drop_id)
    then have "has_prefix (p @ t) (drop (length w) p)" by (auto simp: has_prefix_conv)
    then have "has_prefix p (drop (length w) p)" by (simp add: has_prefix_take)
    with assms(1) [of "length w"] assms(3) False show False by simp
  qed
qed

abbreviation bot_marker :: string where
  "bot_marker \<equiv> ''    # SigardaPanel Bot Blocker''"

lemma bot_marker_alone:
  assumes "0 < k" and "k < length bot_marker"
  shows "\<not> has_prefix bot_marker (drop k bot_marker)"
proof -
  have "list_all (\<lambda>k. \<not> has_prefix bot_marker (drop k bot_marker)) [1..<length bot_marker]" by code_simp
  moreover have "k \<in> {1..<length bot_marker}" using assms by (simp only: atLeastLessThan_iff One_nat_def Suc_le_eq)
  ultimately show ?thesis unfolding list_all_iff set_upt by blast
qed

lemma bot_check_shape: "bot_check = bot_marker @ drop (length bot_marker) bot_check"
  by code_simp

lemma bot_check_brace: "index (bot_check @ v) ''}'' = Some 75"
  by (simp add: bot_check_def lines_def)



section \<open>What the database server reads\<close>

lemma replace_quotes: "replace_all v [CHR 0x27] [CHR 0x27, CHR 0x27] = safeSQLString v"
proof (induction v)
  case Nil
  show ?case by (subst replace_all.simps) (simp add: safeSQLString_def)
next
  case (Cons c v)
  then show ?case by (subst replace_all.simps) (simp add: safeSQLString_def)
qed

lemma sqlQuote_apos: "sqlQuote v = apos (safeSQLString v)"
  by (simp add: sqlQuote_def replace_quotes quoted_with_def)

lemma lex_value:
  "unquoted t \<Longrightarrow> CHR 0x5C \<notin> set v \<Longrightarrow> separate CHR 0x27 s \<Longrightarrow>
   lex esc None [] (t @ sqlQuote v @ s) = map_option (\<lambda>ps. Plain t # Quoted CHR 0x27 v # ps) (lex esc None [] s)"
  by (simp add: lex_plain sqlQuote_apos lex_apos_doubled)

lemma lex_name:
  "unquoted t \<Longrightarrow> CHR 0x60 \<notin> set v \<Longrightarrow> CHR 0x5C \<notin> set v \<Longrightarrow> separate CHR 0x60 s \<Longrightarrow>
   lex esc None [] (t @ backtick v @ s) = map_option (\<lambda>ps. Plain t # Quoted CHR 0x60 v # ps) (lex esc None [] s)"
  by (simp add: lex_plain lex_backtick)

definition new_account_pieces :: "db_account \<Rightarrow> piece list" where
  "new_account_pieces a =
     [Plain ''CREATE USER IF NOT EXISTS '', Quoted CHR 0x27 (dba_user a), Plain ''@'', Quoted CHR 0x27 (dba_host a),
      Plain '' IDENTIFIED BY '', Quoted CHR 0x27 (dba_password a),
      Plain (''; GRANT '' @ dba_privileges a @ '' ON ''), Quoted CHR 0x60 (dba_database a), Plain ''.* TO '',
      Quoted CHR 0x27 (dba_user a), Plain ''@'', Quoted CHR 0x27 (dba_host a),
      Plain (''; FLUSH PRIVILEGES;'' @ [CHR 0x0A])]"

text \<open>The checks of \<open>dbUserCreateTask\<close>.\<close>

definition accepted_db_account :: "db_account \<Rightarrow> bool" where
  "accepted_db_account a \<longleftrightarrow>
     isValidDBIdentifier (dba_database a) \<and> isValidDBIdentifier (dba_user a) \<and> DBPassword (dba_password a) = nil
     \<and> isValidDBHostPattern (dba_host a) \<and> DBPrivileges (dba_privileges a) = nil"

lemma identifier_bytes:
  "isValidDBIdentifier v \<Longrightarrow> c \<in> set v \<Longrightarrow> c \<notin> {CHR 0x60, CHR 0x27, CHR 0x5C, CHR '';'', CHR 0x0A, CHR 0x0D}"
  by (rule name_bytes) (simp add: isValidDBIdentifier_def AgentPaths.dbNameRegex_def matches_Rep_Cls list_all_iff)

lemma host_pattern_bytes:
  "isValidDBHostPattern v \<Longrightarrow> c \<in> set v \<Longrightarrow> c \<notin> {CHR 0x60, CHR 0x27, CHR 0x5C, CHR '';'', CHR 0x0A, CHR 0x0D}"
  by (rule host_bytes) (simp add: isValidDBHostPattern_def dbHostRegex_def matches_Rep_Cls list_all_iff)

lemma lex_user_at_host:
  assumes "unquoted t" and "CHR 0x5C \<notin> set user" and "CHR 0x5C \<notin> set pattern" and "separate CHR 0x27 s"
  shows "lex esc None [] (t @ sqlQuote user @ ''@'' @ sqlQuote pattern @ s) =
    map_option (\<lambda>ps. Plain t # Quoted CHR 0x27 user # Plain ''@'' # Quoted CHR 0x27 pattern # ps) (lex esc None [] s)"
proof -
  have "unquoted ''@''" and sep: "separate CHR 0x27 (''@'' @ sqlQuote pattern @ s)" by simp_all
  then have "lex esc None [] (''@'' @ sqlQuote pattern @ s) =
      map_option (\<lambda>ps. Plain ''@'' # Quoted CHR 0x27 pattern # ps) (lex esc None [] s)"
    using assms by (intro lex_value)
  with lex_value [OF assms(1,2) sep] show ?thesis by (simp only: option.map_comp comp_def)
qed

lemma lex_account_mysql:
  assumes "accepted_db_account a"
  shows "lex esc None [] (account_mysql a) = Some (new_account_pieces a)"
proof -
  have plain: "CHR 0x5C \<notin> set (dba_user a)" "CHR 0x5C \<notin> set (dba_host a)" "CHR 0x5C \<notin> set (dba_password a)"
      "CHR 0x60 \<notin> set (dba_database a)" "CHR 0x5C \<notin> set (dba_database a)" "unquoted (dba_privileges a)"
    using assms identifier_bytes host_pattern_bytes DBPassword_no_backslash DBPrivileges_unquoted
    unfolding accepted_db_account_def by blast+
  let ?flush = "''; FLUSH PRIVILEGES;'' @ [CHR 0x0A]"
  let ?to = "''.* TO '' @ sqlQuote (dba_user a) @ ''@'' @ sqlQuote (dba_host a) @ ?flush"
  let ?grant = "(''; GRANT '' @ dba_privileges a @ '' ON '') @ backtick (dba_database a) @ ?to"
  let ?password = "'' IDENTIFIED BY '' @ sqlQuote (dba_password a) @ ?grant"
  have sep: "separate CHR 0x27 ?flush" "separate CHR 0x60 ?to" "separate CHR 0x27 ?grant" "separate CHR 0x27 ?password"
    and lit: "unquoted ''.* TO ''" "unquoted (''; GRANT '' @ dba_privileges a @ '' ON '')" "unquoted '' IDENTIFIED BY ''"
      "unquoted ''CREATE USER IF NOT EXISTS ''"
    and flush: "lex esc None [] ?flush = Some [Plain ?flush]"
    using plain(6) by simp_all
  have "account_mysql a = ''CREATE USER IF NOT EXISTS '' @ sqlQuote (dba_user a) @ ''@'' @ sqlQuote (dba_host a) @ ?password"
    by (simp add: account_mysql_def quoted_with_def)
  also have "lex esc None [] \<dots> = Some (new_account_pieces a)"
    unfolding lex_user_at_host [OF lit(4) plain(1,2) sep(4)] lex_value [OF lit(3) plain(3) sep(3)]
      lex_name [OF lit(2) plain(4,5) sep(2)] lex_user_at_host [OF lit(1) plain(1,2) sep(1)] flush
    by (simp add: new_account_pieces_def)
  finally show ?thesis .
qed


definition demo_db_account :: db_account where
  "demo_db_account = \<lparr>dba_database = ''shop'', dba_type = ''mysql'', dba_user = ''shop'',
     dba_password = [CHR 0x27, CHR '';''] @ '' DROP--'', dba_host = ''localhost'', dba_privileges = ''ALL''\<rparr>"


section \<open>Backups that are none\<close>

text \<open>A machine on which everything works but \<open>tar\<close>.\<close>

definition only_tar_fails :: "host \<Rightarrow> bool" where
  "only_tar_fails h \<longleftrightarrow>
     (\<forall>prior a. snd (h_do h prior a) = nil \<longleftrightarrow> \<not> (\<exists>args. a = Shell (''tar'' # args)))
     \<and> (\<forall>prior path. \<exists>n. h_stat h prior path = StatFile n) \<and> (\<forall>prior path. h_lstat h prior path = None)"

definition succeeded :: "agent_answer \<Rightarrow> bool" where
  "succeeded ans \<longleftrightarrow> (\<exists>kvs. ans = Replied 200 (JObj ((''ok'', JBool True) # kvs)))"

lemma tar_state:
  assumes "only_tar_fails h"
  shows "gives (\<lambda>(_, err). err \<noteq> nil) (RunShell h ''tar'' args)"
    and "gives (\<lambda>(_, err). err = nil) (RunToFileEnv h env out ''mysqldump'' args)"
    and "gives (\<lambda>err. err = nil) (Mkdir h d)"
    and "gives (\<lambda>(_, err). err = nil) (perform h (MakeTemp d pat))"
    and "gives (\<lambda>(e, err). e \<and> err = nil) (Stat h path)"
proof -
  have allowed: "isAllowedCommand ''tar''" "isAllowedCommand ''mysqldump''" by code_simp+
  have fails: "snd (h_do h prior (Shell (''tar'' # ws))) \<noteq> nil" and works: "(\<And>ws. a \<noteq> Shell (''tar'' # ws)) \<Longrightarrow> snd (h_do h prior a) = nil"
    for prior ws a using assms unfolding only_tar_fails_def by blast+
  show "gives (\<lambda>(_, err). err \<noteq> nil) (RunShell h ''tar'' args)"
    using fails by (simp add: gives_def RunShell_def run_guarded allowed)
  show "gives (\<lambda>(_, err). err = nil) (RunToFileEnv h env out ''mysqldump'' args)"
    using assms by (simp add: gives_def RunToFileEnv_def guarded_def allowed observe_def only_tar_fails_def command_def perform_def split_beta)
  show "gives (\<lambda>err. err = nil) (Mkdir h d)"
    by (simp add: gives_def Mkdir_def perform_def split_beta works)
  show "gives (\<lambda>(_, err). err = nil) (perform h (MakeTemp d pat))"
    by (simp add: gives_def perform_def works split_beta)
  show "gives (\<lambda>(e, err). e \<and> err = nil) (Stat h path)"
    using assms by (auto simp: gives_def Stat_def observe_def only_tar_fails_def split: stat_result.splits)
       (metis stat_result.distinct stat_result.inject)+
qed

lemma gives_triple:
  "gives (\<lambda>(_, err). R err) m \<Longrightarrow> (\<And>out err. R err \<Longrightarrow> gives Q (f (out, err))) \<Longrightarrow> gives Q (State_Monad.bind m f)"
  by (rule gives_bind [of "\<lambda>(_, err). R err"]) auto

lemma dumps_work:
  assumes "only_tar_fails h"
    and "list_all (\<lambda>d. isValidDBIdentifier (dr_name d) \<and> isValidDBIdentifier (dr_user d) \<and> dr_type d = ''mysql'') ds"
  shows "gives (\<lambda>failed. failed = None) (dump_all h dir ds)"
  using assms(2)
proof (induction ds)
  case (Cons d ds)
  have dump: "gives (\<lambda>(_, err). err = nil) (dumpDatabase h ''mysql'' user password name path)" for user password name path
    by (simp add: dumpDatabase_def tar_state(2) [OF assms(1)])
  from Cons have d: "isValidDBIdentifier (dr_name d)" "isValidDBIdentifier (dr_user d)" "dr_type d = ''mysql''"
    and IH: "gives (\<lambda>failed. failed = None) (dump_all h dir ds)" by auto
  show ?case
    by (simp add: d) (rule gives_triple [OF dump], simp add: IH)
qed simp

lemma finish_succeeds:
  assumes "only_tar_fails h"
  shows "gives succeeded (finish_backup h p nil out)"
proof -
  have upload: "gives succeeded (with_upload h s3 f target msg resp)" for s3 f target msg resp
    unfolding with_upload_def reply_ok_def Let_def by (intro gives_rules) (simp_all add: succeeded_def)
  have "gives (\<lambda>info. \<exists>n. info = StatFile n) (observe (\<lambda>past. h_stat h past (backup_file h p)))"
    using assms by (auto simp: only_tar_fails_def intro: gives_observe)
  then show ?thesis
    unfolding finish_backup_def Let_def by (auto intro!: gives_bind upload)
qed

lemma finish_fails: "gives (\<lambda>ans. \<not> succeeded ans) (finish_backup h p (Some e) out)"
  by (simp add: finish_backup_def succeeded_def)

lemma bundle_succeeds:
  assumes h: "only_tar_fails h"
    and dumps: "list_all (\<lambda>d. isValidDBIdentifier (dr_name d) \<and> isValidDBIdentifier (dr_user d) \<and> dr_type d = ''mysql'') (br_dumps p)"
  shows "gives succeeded (bundle_backup h p)"
proof -
  have inner: "gives succeeded (do {
      failed \<leftarrow> dump_all h dir (br_dumps p);
      case failed of
        Some ans \<Rightarrow> give ans
      | None \<Rightarrow> do {
          (out, shadowed) \<leftarrow> RunShell h ''tar'' args;
          finish_backup h p nil out
        }
    })" for dir args
    by (rule gives_bind [OF dumps_work [OF h dumps]])
       (auto intro!: gives_any gives_prod finish_succeeds [OF h])
  have "gives succeeded (bundle_in h p dir)" for dir
    unfolding bundle_in_def
    by (rule gives_bind [OF tar_state(3) [OF h]], hypsubst, simp only: option.case, rule gives_bind [OF inner],
        rule gives_any, simp)
  then show ?thesis
    unfolding bundle_backup_def by (intro gives_triple [OF tar_state(4) [OF h]]) simp
qed

lemma files_fail: "only_tar_fails h \<Longrightarrow> gives (\<lambda>ans. \<not> succeeded ans) (files_backup h p)"
  unfolding files_backup_def
  by (rule gives_triple [OF tar_state(1)]) (auto simp: finish_fails)

lemma EnsureDir_works: "only_tar_fails h \<Longrightarrow> gives (\<lambda>err. err = nil) (EnsureDir h d)"
  unfolding EnsureDir_def by (rule gives_bind [OF tar_state(5)]) auto


definition tarless_host :: host where
  "tarless_host = quiet_host\<lparr>h_do := \<lambda>_ a. ([], case a of Shell (c # _) \<Rightarrow> if c = ''tar'' then Some ''exit status 2'' else nil | _ \<Rightarrow> nil)\<rparr>"


section \<open>A payload nobody accepts\<close>

text \<open>
  The panel encodes nullable columns of a deployment as objects; the agent expects strings and numbers, so it
  refuses every deployment that is queued through the site page.
\<close>

lemma queued_deploy_refused:
  "run_state (siteDeployTask r h (deploy_payload site repo)) prior = (Refused 400 ''invalid payload'', prior)"
proof -
  have "bind_deploy (deploy_payload site repo) = None"
    by (simp add: bind_deploy_def deploy_payload_def str_field_def int_field_def null_string_json_def Option.bind_eq_None_conv)
  then show ?thesis by (simp add: siteDeployTask_def)
qed

end
